(* ===== verification/Prelude.thy ===== *)
theory Prelude
  imports Complex_Main
begin

text \<open>
  Shared vocabulary of the development: the two relational primitives every service uses
  (\<open>UPDATE .. WHERE .. RETURNING\<close> over a table and \<open>.first()\<close>), their lemmas, the
  compare-and-swap contract as a locale, and the few pieces of the JavaScript standard
  library the services rely on (string comparison, decimal rendering, ISO dates,
  \<open>Math.ceil\<close> of a quotient, \<open>Math.round\<close>).
\<close>

named_theorems table_simps \<open>rewrite rules for tables held as lists of rows\<close>
named_theorems op_defs \<open>definitions of the operations of the services\<close>

section \<open>Tables as lists of rows\<close>

text \<open>\<open>UPDATE t SET f WHERE P\<close>: every row that satisfies the clause is rewritten.\<close>

definition update_where :: "('r \<Rightarrow> bool) \<Rightarrow> ('r \<Rightarrow> 'r) \<Rightarrow> 'r list \<Rightarrow> 'r list" where
  "update_where P f rows = map (\<lambda>r. if P r then f r else r) rows"

text \<open>The rows \<open>RETURNING *\<close> of the same statement hands back.\<close>

definition updated_rows :: "('r \<Rightarrow> bool) \<Rightarrow> ('r \<Rightarrow> 'r) \<Rightarrow> 'r list \<Rightarrow> 'r list" where
  "updated_rows P f rows = map f (filter P rows)"

lemma update_where_Nil [simp]: "update_where P f [] = []"
  by (simp add: update_where_def)

lemma update_where_Cons [simp]:
  "update_where P f (r # rs) = (if P r then f r else r) # update_where P f rs"
  by (simp add: update_where_def)

lemma update_where_append [simp]:
  "update_where P f (xs @ ys) = update_where P f xs @ update_where P f ys"
  by (simp add: update_where_def)

lemma length_update_where [simp]: "length (update_where P f xs) = length xs"
  by (simp add: update_where_def)

lemma set_update_where [table_simps]:
  "set (update_where P f xs) = (\<lambda>r. if P r then f r else r) ` set xs"
  by (simp add: update_where_def)

lemma update_where_mem: "x \<in> set xs \<Longrightarrow> P x \<Longrightarrow> f x \<in> set (update_where P f xs)"
  by (force simp: update_where_def)

lemma list_all_update_where:
  "list_all Q xs \<Longrightarrow> (\<And>x. P x \<Longrightarrow> Q x \<Longrightarrow> Q (f x)) \<Longrightarrow> list_all Q (update_where P f xs)"
  by (induction xs) auto

lemma update_where_none: "\<forall>r \<in> set xs. \<not> P r \<Longrightarrow> update_where P f xs = xs"
  by (induction xs) auto

lemma updated_rows_empty [table_simps]: "updated_rows P f xs = [] \<longleftrightarrow> (\<forall>r \<in> set xs. \<not> P r)"
  by (simp add: updated_rows_def filter_empty_conv)

lemma updated_rows_in_table: "u \<in> set (updated_rows P f xs) \<Longrightarrow> u \<in> set (update_where P f xs)"
  by (force simp: updated_rows_def update_where_def)

lemma map_update_where_same:
  "(\<And>r. g (f r) = g r) \<Longrightarrow> map g (update_where P f xs) = map g xs"
  by (induction xs) auto

lemma filter_update_where_other:
  "(\<And>r. Q r \<Longrightarrow> \<not> P r) \<Longrightarrow> (\<And>r. P r \<Longrightarrow> \<not> Q (f r)) \<Longrightarrow>
   filter Q (update_where P f xs) = filter Q xs"
  by (induction xs) auto

lemma filter_update_where_same:
  "(\<And>r. P r \<Longrightarrow> Q (f r) = Q r) \<Longrightarrow> (\<And>r. P r \<Longrightarrow> Q r \<Longrightarrow> f r = r) \<Longrightarrow>
   filter Q (update_where P f xs) = filter Q xs"
  by (induction xs) auto

lemma length_filter_update_where_le:
  "(\<And>r. P r \<Longrightarrow> Q (f r) \<Longrightarrow> Q r) \<Longrightarrow>
   length (filter Q (update_where P f xs)) \<le> length (filter Q xs)"
proof (induction xs)
  case Nil
  then show ?case by simp
next
  case (Cons r xs)
  from Cons.IH Cons.prems have "length (filter Q (update_where P f xs)) \<le> length (filter Q xs)"
    by blast
  with Cons.prems [of r] show ?case by auto
qed

lemma length_filter_update_where_eq:
  "(\<And>r. P r \<Longrightarrow> Q (f r) = Q r) \<Longrightarrow>
   length (filter Q (update_where P f xs)) = length (filter Q xs)"
  by (induction xs) auto

lemma find_SomeD: "find P xs = Some r \<Longrightarrow> r \<in> set xs \<and> P r"
  by (auto simp: find_Some_iff)

lemma find_NoneD: "find P xs = None \<Longrightarrow> r \<in> set xs \<Longrightarrow> \<not> P r"
  by (auto simp: find_None_iff)

lemma find_append: "find P (xs @ ys) = (case find P xs of None \<Rightarrow> find P ys | Some r \<Rightarrow> Some r)"
  by (induction xs) auto

text \<open>With distinct keys, looking a row up by its key returns that row.\<close>

lemma find_distinct_key:
  "distinct (map key xs) \<Longrightarrow> r \<in> set xs \<Longrightarrow> find (\<lambda>x. key x = key r) xs = Some r"
proof (induction xs)
  case Nil
  then show ?case by simp
next
  case (Cons x xs)
  then show ?case by (cases "x = r") (force)+
qed

lemma distinct_key_eq: "distinct (map key xs) \<Longrightarrow> r \<in> set xs \<Longrightarrow> r' \<in> set xs \<Longrightarrow> key r = key r' \<Longrightarrow> r = r'"
  by (metis find_distinct_key option.inject)

lemma filter_distinct_key:
  "distinct (map key xs) \<Longrightarrow> r \<in> set xs \<Longrightarrow> filter (\<lambda>x. key x = key r) xs = [r]"
proof (induction xs)
  case Nil
  then show ?case by simp
next
  case (Cons x xs)
  show ?case
  proof (cases "x = r")
    case True
    from Cons.prems(1) have "key x \<notin> key ` set xs" by simp
    then have "\<forall>y \<in> set xs. key y \<noteq> key x" by (metis imageI)
    with True have "filter (\<lambda>y. key y = key r) xs = []" by (simp add: filter_empty_conv)
    with True show ?thesis by simp
  next
    case False
    with Cons.prems have "r \<in> set xs" and "key x \<noteq> key r" by force+
    with Cons show ?thesis by simp
  qed
qed

text \<open>An update keyed on a row, guarded by a condition that row meets, touches that row alone.\<close>

lemma updated_rows_key:
  assumes "distinct (map key xs)" and "r \<in> set xs" and "P r"
    and "\<And>x. P x \<Longrightarrow> key x = key r"
  shows "updated_rows P f xs = [f r]"
    and "update_where P f xs = update_where (\<lambda>x. key x = key r) f xs"
proof -
  have only: "x \<in> set xs \<Longrightarrow> P x \<longleftrightarrow> key x = key r" for x
    using assms distinct_key_eq [OF assms(1), of x r] by blast
  then have "filter P xs = filter (\<lambda>x. key x = key r) xs" by (intro filter_cong) simp_all
  then show "updated_rows P f xs = [f r]"
    using filter_distinct_key [OF assms(1,2)] by (simp add: updated_rows_def)
  show "update_where P f xs = update_where (\<lambda>x. key x = key r) f xs"
    using only by (simp add: update_where_def)
qed

text \<open>
  Uniqueness over the rows that satisfy \<open>Q\<close> survives an update that keeps the key and
  brings no row into \<open>Q\<close>.
\<close>

lemma key_set_update_where:
  assumes "\<And>r. g (f r) = g r" and "\<And>r. P r \<Longrightarrow> Q (f r) \<Longrightarrow> Q r"
  shows "g ` set (filter Q (update_where P f xs)) \<subseteq> g ` set (filter Q xs)"
  using assms by (induction xs) (auto simp: image_iff)

lemma distinct_filter_update_where:
  assumes "\<And>r. g (f r) = g r" and "\<And>r. P r \<Longrightarrow> Q (f r) \<Longrightarrow> Q r"
    and "distinct (map g (filter Q xs))"
  shows "distinct (map g (filter Q (update_where P f xs)))"
  using assms(3)
proof (induction xs)
  case Nil
  then show ?case by simp
next
  case (Cons r xs)
  from key_set_update_where [of g f P Q xs] assms(1,2)
  have "g ` set (filter Q (update_where P f xs)) \<subseteq> g ` set (filter Q xs)" by blast
  with Cons assms(1) assms(2) [of r] show ?case by (auto split: if_splits)
qed

text \<open>
  Uniqueness survives bringing one row into \<open>Q\<close> under a key value no other row of \<open>Q\<close> has.
\<close>

lemma filter_update_where_sub:
  "x \<in> set (filter Q (update_where P f xs)) \<Longrightarrow> x \<in> set (filter Q xs) \<or> (\<exists>y \<in> set xs. P y \<and> x = f y)"
  by (auto simp: update_where_def split: if_splits)

lemma distinct_filter_update_one:
  assumes "distinct (map g (filter Q xs))" and "distinct (map key xs)"
    and "\<And>x. x \<in> set xs \<Longrightarrow> key x = k \<Longrightarrow> g (f x) \<notin> g ` set (filter Q xs)"
  shows "distinct (map g (filter Q (update_where (\<lambda>x. key x = k) f xs)))"
  using assms
proof (induction xs)
  case Nil
  then show ?case by simp
next
  case (Cons x xs)
  show ?case
  proof (cases "key x = k")
    case True
    with Cons.prems(2) have rest: "update_where (\<lambda>x. key x = k) f xs = xs"
      by (intro update_where_none) (auto simp: rev_image_eqI)
    from Cons.prems(3) [of x] True have "g (f x) \<notin> g ` set (filter Q xs)" by auto
    with True rest Cons.prems(1) show ?thesis by (auto split: if_splits)
  next
    case False
    have sub: "g y \<noteq> g x" if "Q x" and "y \<in> set (filter Q (update_where (\<lambda>x. key x = k) f xs))" for y
      using filter_update_where_sub [OF that(2)] Cons.prems(1) Cons.prems(3) that(1)
      by (auto simp: image_iff split: if_splits)
    have "distinct (map g (filter Q (update_where (\<lambda>x. key x = k) f xs)))"
      using Cons.prems by (intro Cons.IH) (auto split: if_splits)
    with False sub show ?thesis by force
  qed
qed

lemma length_filter_pos: "x \<in> set xs \<Longrightarrow> P x \<Longrightarrow> 0 < length (filter P xs)"
  by (induction xs) auto

lemma length_filter_zero: "length (filter P xs) = 0 \<longleftrightarrow> (\<forall>x \<in> set xs. \<not> P x)"
  by (simp add: filter_empty_conv)

lemma length_filter_mono: "(\<And>x. x \<in> set xs \<Longrightarrow> P x \<Longrightarrow> Q x) \<Longrightarrow> length (filter P xs) \<le> length (filter Q xs)"
  by (induction xs) (auto intro: le_SucI)

section \<open>ORDER BY\<close>

text \<open>A stable insertion sort by a comparison: rows that tie keep their insertion order.\<close>

fun insert_by :: "('r \<Rightarrow> 'r \<Rightarrow> bool) \<Rightarrow> 'r \<Rightarrow> 'r list \<Rightarrow> 'r list" where
  "insert_by le x [] = [x]"
| "insert_by le x (y # ys) = (if le x y then x # y # ys else y # insert_by le x ys)"

definition sort_by :: "('r \<Rightarrow> 'r \<Rightarrow> bool) \<Rightarrow> 'r list \<Rightarrow> 'r list" where
  "sort_by le rows = foldr (insert_by le) rows []"

lemma sort_by_Nil [simp]: "sort_by le [] = []"
  by (simp add: sort_by_def)

lemma sort_by_Cons [simp]: "sort_by le (x # xs) = insert_by le x (sort_by le xs)"
  by (simp add: sort_by_def)

lemma set_insert_by [simp]: "set (insert_by le x ys) = insert x (set ys)"
  by (induction ys) auto

lemma set_sort_by [simp]: "set (sort_by le xs) = set xs"
  by (induction xs) auto

lemma length_insert_by [simp]: "length (insert_by le x ys) = Suc (length ys)"
  by (induction ys) auto

lemma length_sort_by [simp]: "length (sort_by le xs) = length xs"
  by (induction xs) auto

lemma distinct_insert_by [simp]: "distinct (insert_by le x ys) \<longleftrightarrow> x \<notin> set ys \<and> distinct ys"
  by (induction ys) auto

lemma distinct_sort_by [simp]: "distinct (sort_by le xs) \<longleftrightarrow> distinct xs"
  by (induction xs) auto

lemma sort_by_eq_Nil [simp]: "sort_by le xs = [] \<longleftrightarrow> xs = []"
  by (metis length_0_conv length_sort_by)

lemma sorted_insert_by:
  assumes "\<And>x y. le x y \<or> le y x" and "\<And>x y z. le x y \<Longrightarrow> le y z \<Longrightarrow> le x z"
  shows "sorted_wrt le ys \<Longrightarrow> sorted_wrt le (insert_by le x ys)"
proof (induction ys)
  case Nil
  then show ?case by simp
next
  case (Cons y ys)
  then show ?case using assms by auto
qed

lemma sorted_sort_by:
  assumes "\<And>x y. le x y \<or> le y x" and "\<And>x y z. le x y \<Longrightarrow> le y z \<Longrightarrow> le x z"
  shows "sorted_wrt le (sort_by le xs)"
  by (induction xs) (simp_all add: sorted_insert_by [OF assms])

text \<open>\<open>.orderBy(key, 'asc').first()\<close>: no row of the table has a smaller key.\<close>

lemma first_sorted_least:
  assumes "sort_by (\<lambda>x y. (key x :: int) \<le> key y) xs = r # rs" and "x \<in> set xs"
  shows "key r \<le> key x"
proof -
  have "sorted_wrt (\<lambda>x y. key x \<le> key y) (r # rs)"
    using sorted_sort_by [of "\<lambda>x y. key x \<le> key y" xs] assms(1) by (auto simp: linear)
  moreover have "x \<in> set (r # rs)"
    using assms(2) set_sort_by [of "\<lambda>x y. key x \<le> key y" xs] unfolding assms(1) by blast
  ultimately show ?thesis by auto
qed

section \<open>Compare-and-swap\<close>

text \<open>
  The services guard a transition by carrying the expected status in the \<open>WHERE\<close> clause
  and treating an empty \<open>RETURNING\<close> as a lost race. The contract: the assignment leaves
  the guard, so whoever comes second with the same guard updates no row.
\<close>

locale compare_and_swap =
  fixes guard :: "'r \<Rightarrow> bool"
    and assign :: "'r \<Rightarrow> 'r"
  assumes leaves_guard: "guard r \<Longrightarrow> \<not> guard (assign r)"
begin

lemma no_row_left: "r \<in> set (update_where guard assign rows) \<Longrightarrow> \<not> guard r"
  using leaves_guard by (auto simp: table_simps split: if_splits)

lemma rival_loses: "updated_rows guard rival (update_where guard assign rows) = []"
  unfolding updated_rows_empty using no_row_left by blast

lemma rival_changes_nothing:
  "update_where guard rival (update_where guard assign rows) = update_where guard assign rows"
  using no_row_left by (intro update_where_none) simp

end

section \<open>Pieces of the JavaScript standard library\<close>

text \<open>\<open>a < b\<close> on strings compares code units from the left; a proper prefix is smaller.\<close>

fun str_less :: "string \<Rightarrow> string \<Rightarrow> bool" where
  "str_less _ [] = False"
| "str_less [] (_ # _) = True"
| "str_less (a # as) (b # bs) =
     (if (of_char a :: nat) = of_char b then str_less as bs else (of_char a :: nat) < of_char b)"

definition str_le :: "string \<Rightarrow> string \<Rightarrow> bool" where
  "str_le a b \<longleftrightarrow> \<not> str_less b a"

lemma str_less_irrefl [simp]: "\<not> str_less a a"
  by (induction a) auto

lemma str_le_refl [simp]: "str_le a a"
  by (simp add: str_le_def)

lemma str_less_asym: "str_less a b \<Longrightarrow> \<not> str_less b a"
  by (induction a b rule: str_less.induct) (auto split: if_splits)

lemma str_less_trans: "str_less a b \<Longrightarrow> str_less b c \<Longrightarrow> str_less a c"
proof (induction a b arbitrary: c rule: str_less.induct)
  case (3 a as b bs)
  then show ?case by (cases c) (auto split: if_splits)
qed (auto, case_tac c, auto)

lemma str_less_linear: "str_less a b \<or> a = b \<or> str_less b a"
proof (induction a b rule: str_less.induct)
  case (1 a)
  then show ?case by (cases a) auto
next
  case (3 a as b bs)
  then show ?case by (cases "(of_char a :: nat)" "(of_char b :: nat)" rule: linorder_cases) auto
qed auto

text \<open>A string that extends another by a non-empty suffix is greater.\<close>

lemma str_less_prefix: "s \<noteq> [] \<Longrightarrow> str_less a (a @ s)"
  by (induction a) (cases s; auto)+

text \<open>Decimal rendering, as in a template literal, and its inverse.\<close>

definition digit_char :: "nat \<Rightarrow> char" where
  "digit_char d = char_of (48 + d)"

fun show_nat :: "nat \<Rightarrow> string" where
  "show_nat n = (if n < 10 then [digit_char n] else show_nat (n div 10) @ [digit_char (n mod 10)])"

declare show_nat.simps [simp del]

definition show_int :: "int \<Rightarrow> string" where
  "show_int i = (if i < 0 then CHR ''-'' # show_nat (nat (- i)) else show_nat (nat i))"

definition digit_val :: "char \<Rightarrow> nat" where
  "digit_val c = of_char c - 48"

definition read_nat :: "string \<Rightarrow> nat" where
  "read_nat s = foldl (\<lambda>n c. 10 * n + digit_val c) 0 s"

lemma digit_val_char [simp]: "d < 10 \<Longrightarrow> digit_val (digit_char d) = d"
  by (simp add: digit_val_def digit_char_def)

lemma read_show_nat [simp]: "read_nat (show_nat n) = n"
proof (induction n rule: show_nat.induct)
  case (1 n)
  then show ?case
    by (cases "n < 10") (simp_all add: show_nat.simps [of n] read_nat_def)
qed

lemma show_nat_inject [simp]: "show_nat m = show_nat n \<longleftrightarrow> m = n"
  by (metis read_show_nat)

lemma show_nat_digits: "c \<in> set (show_nat n) \<Longrightarrow> 48 \<le> (of_char c :: nat) \<and> (of_char c :: nat) < 58"
proof (induction n rule: show_nat.induct)
  case (1 n)
  then show ?case
    by (cases "n < 10") (auto simp: show_nat.simps [of n] digit_char_def)
qed

definition pad_left :: "nat \<Rightarrow> string \<Rightarrow> string" where
  "pad_left w s = replicate (w - length s) CHR ''0'' @ s"

lemma length_pad_left: "length (pad_left w s) = max w (length s)"
  by (simp add: pad_left_def)

lemma read_nat_zeros: "read_nat (replicate k CHR ''0'' @ s) = read_nat s"
  by (induction k) (simp_all add: read_nat_def digit_val_def)

lemma read_pad_left [simp]: "read_nat (pad_left w (show_nat n)) = n"
  by (simp add: pad_left_def read_nat_zeros)

text \<open>
  \<open>date.toISOString().split('T')[0]\<close>: the UTC calendar date of a time in milliseconds
  since the epoch, proleptic Gregorian, four-digit years.
\<close>

definition ms_per_day :: int where
  "ms_per_day = 86400000"

definition iso_date :: "int \<Rightarrow> string" where
  "iso_date ms =
     (let z = ms div ms_per_day + 719468;
          era = z div 146097;
          doe = z mod 146097;
          yoe = (doe - doe div 1460 + doe div 36524 - doe div 146096) div 365;
          doy = doe - (365 * yoe + yoe div 4 - yoe div 100);
          mp = (5 * doy + 2) div 153;
          d = doy - (153 * mp + 2) div 5 + 1;
          m = (if mp < 10 then mp + 3 else mp - 9);
          y = yoe + era * 400 + (if m \<le> 2 then 1 else 0)
      in pad_left 4 (show_int y) @ ''-'' @ pad_left 2 (show_int m) @ ''-'' @ pad_left 2 (show_int d))"

text \<open>\<open>Math.ceil(a / b)\<close> for \<open>b > 0\<close>, and \<open>Math.round\<close> (ties go up).\<close>

definition ceil_div :: "int \<Rightarrow> int \<Rightarrow> int" where
  "ceil_div a b = - ((- a) div b)"

lemma ceil_div_bounds:
  assumes "0 < b"
  shows "a \<le> b * ceil_div a b" and "b * ceil_div a b < a + b"
proof -
  have "b * ((- a) div b) + (- a) mod b = - a" by (rule mult_div_mod_eq)
  moreover have "0 \<le> (- a) mod b" "(- a) mod b < b" using assms by simp_all
  ultimately show "a \<le> b * ceil_div a b" and "b * ceil_div a b < a + b"
    unfolding ceil_div_def mult_minus_right by linarith+
qed

lemma ceil_div_le_iff: "0 < b \<Longrightarrow> ceil_div a b \<le> t \<longleftrightarrow> a \<le> b * t"
proof
  assume b: "0 < b" and t: "ceil_div a b \<le> t"
  from b have "a \<le> b * ceil_div a b" by (rule ceil_div_bounds)
  also from b t have "\<dots> \<le> b * t" by simp
  finally show "a \<le> b * t" .
next
  assume b: "0 < b" and "a \<le> b * t"
  with ceil_div_bounds(2) [OF b, of a] have "b * ceil_div a b < b * t + b" by linarith
  then have "b * ceil_div a b < b * (t + 1)" by (simp add: algebra_simps)
  with b show "ceil_div a b \<le> t" by simp
qed

definition js_round :: "rat \<Rightarrow> int" where
  "js_round x = \<lfloor>x + 1 / 2\<rfloor>"

section \<open>Offset pagination\<close>

text \<open>\<open>.limit(limit).offset((page - 1) * limit)\<close>, pages counted from one.\<close>

definition page_of :: "nat \<Rightarrow> nat \<Rightarrow> 'r list \<Rightarrow> 'r list" where
  "page_of page limit rows = take limit (drop ((page - 1) * limit) rows)"

record page_meta =
  pm_total :: nat
  pm_page :: nat
  pm_limit :: nat
  pm_pages :: int

definition meta_of :: "nat \<Rightarrow> nat \<Rightarrow> nat \<Rightarrow> page_meta" where
  "meta_of n page limit =
     \<lparr>pm_total = n, pm_page = page, pm_limit = limit, pm_pages = ceil_div (int n) (int limit)\<rparr>"

text \<open>The first \<open>k\<close> pages, one after the other, are the first \<open>k * limit\<close> rows.\<close>

lemma concat_pages: "concat (map (\<lambda>p. page_of p limit rows) [1..<Suc k]) = take (k * limit) rows"
proof (induction k)
  case 0
  then show ?case by simp
next
  case (Suc k)
  have "concat (map (\<lambda>p. page_of p limit rows) [1..<Suc (Suc k)]) =
      take (k * limit) rows @ take limit (drop (k * limit) rows)"
    using Suc.IH by (simp add: page_of_def)
  also have "\<dots> = take (k * limit + limit) rows" by (rule take_add [symmetric])
  finally show ?case by (simp add: add.commute)
qed

text \<open>As many pages as the metadata announces hold every row exactly once.\<close>

lemma pages_cover:
  assumes "0 < limit" and "m = meta_of (length rows) page limit"
  shows "concat (map (\<lambda>p. page_of p limit rows) [1..<Suc (nat (pm_pages m))]) = rows"
proof -
  have nonneg: "0 \<le> ceil_div (int (length rows)) (int limit)"
    using ceil_div_bounds(1) [of "int limit" "int (length rows)"] assms(1)
    by (meson dual_order.trans linorder_not_le mult_pos_neg of_nat_0_le_iff of_nat_0_less_iff)
  have "int (length rows) \<le> int limit * ceil_div (int (length rows)) (int limit)"
    using assms(1) ceil_div_bounds(1) [of "int limit"] by simp
  also have "\<dots> = int (nat (pm_pages m) * limit)"
    using nonneg assms(2) by (simp add: meta_of_def)
  finally have "length rows \<le> nat (pm_pages m) * limit" by (simp only: of_nat_le_iff)
  then show ?thesis by (simp only: concat_pages take_all)
qed

end
