(* ===== verification/Schema.thy ===== *)
theory Schema
  imports Prelude
begin

text \<open>
  The persistent state the services share: one record per table of \<open>migrations/*.sql\<close>
  with the columns the modelled code reads or writes, the enumerations of the code, the
  HTTP errors the services throw, and the database record that every operation takes and
  returns. A UUID drawn by the column default \<open>gen_random_uuid()\<close> is the number of the
  draw (the field \<open>next_id\<close> is the supply); times are milliseconds since the epoch;
  \<open>updated_at\<close> columns, which no modelled code reads, are left out.
\<close>

type_synonym uuid = nat
type_synonym timestamp = int

text \<open>
  The two clocks of the system: \<open>now()\<close> of Postgres and \<open>new Date()\<close> of the API process.
  They are different machines in production and are kept apart here.
\<close>

record clock =
  db_now :: timestamp
  js_now :: timestamp

section \<open>Errors\<close>

datatype http_error =
    BadRequest string
  | Unauthorized string
  | PaymentRequired string
  | Forbidden string
  | NotFound string
  | Conflict string
  | NotImplemented string
  | InternalError string
  | ServiceUnavailable string
  | PgError string \<comment> \<open>a driver error with its SQLSTATE\<close>

type_synonym 'a result = "http_error + 'a"

definition unique_violation :: http_error where
  "unique_violation = PgError ''23505''"

definition check_violation :: http_error where
  "check_violation = PgError ''23514''"

text \<open>
  How the server reads a text sent for a DATE column: the day it stands for, in the form
  yyyy-mm-dd the column is kept in, or the error the driver raises. The server does this, not
  the repository, and which of the texts \<open>@IsDateString\<close> lets through it reads, and how, is
  its own business (the compact 20260803 is the day 2026-08-03), so the operations that send such a
  text take the reading as an argument. The JavaScript comparisons of such texts stay
  comparisons of texts.
\<close>

type_synonym date_input = "string \<Rightarrow> string result"

text \<open>A reading for the examples: the extended form, with or without a time, and the compact form.\<close>

definition iso_input :: date_input where
  "iso_input txt =
     (if length txt = 8 then Inr (take 4 txt @ ''-'' @ take 2 (drop 4 txt) @ ''-'' @ drop 6 txt)
      else if 10 \<le> length txt then Inr (take 10 txt)
      else Inl (PgError ''22007''))"

section \<open>Enumerations\<close>

datatype user_role = R_artist | R_planner | R_admin
datatype user_status = U_pending_review | U_active | U_suspended | U_banned
datatype planner_kind = K_individual | K_company
datatype booker_interest =
  I_musical_acts | I_performance_acts | I_photo_video | I_djs_and_services | I_venues

datatype booking_status = B_pending | B_accepted | B_declined | B_cancelled | B_completed
datatype plan_code = P_day | P_month | P_year
datatype subscription_status = S_ready | S_active | S_queued | S_expired | S_cancelled
datatype payment_status =
    Y_pending | Y_awaiting_provider | Y_paid | Y_confirmed | Y_rejected | Y_expired | Y_disputed
datatype conversation_status = C_pending | C_accepted | C_declined
datatype consent_document = D_terms | D_privacy | D_marketing
datatype doc_kind = DK_id_document | DK_selfie | DK_trade_licence
datatype doc_status = DS_pending | DS_approved | DS_rejected

datatype decision = Accept | Decline

text \<open>The spellings the messages use when they interpolate a status or a plan.\<close>

fun booking_status_name :: "booking_status \<Rightarrow> string" where
  "booking_status_name B_pending = ''pending''"
| "booking_status_name B_accepted = ''accepted''"
| "booking_status_name B_declined = ''declined''"
| "booking_status_name B_cancelled = ''cancelled''"
| "booking_status_name B_completed = ''completed''"

fun plan_name :: "plan_code \<Rightarrow> string" where
  "plan_name P_day = ''day''"
| "plan_name P_month = ''month''"
| "plan_name P_year = ''year''"

fun subscription_status_name :: "subscription_status \<Rightarrow> string" where
  "subscription_status_name S_ready = ''ready''"
| "subscription_status_name S_active = ''active''"
| "subscription_status_name S_queued = ''queued''"
| "subscription_status_name S_expired = ''expired''"
| "subscription_status_name S_cancelled = ''cancelled''"

fun conversation_status_name :: "conversation_status \<Rightarrow> string" where
  "conversation_status_name C_pending = ''pending''"
| "conversation_status_name C_accepted = ''accepted''"
| "conversation_status_name C_declined = ''declined''"

section \<open>Rows\<close>

record user_row =
  u_id :: uuid
  u_email :: string
  u_phone :: "string option"
  u_password_hash :: "string option"
  u_role :: user_role
  u_status :: user_status
  u_account_code :: string
  u_email_verified_at :: "timestamp option"
  u_phone_verified_at :: "timestamp option"
  u_last_login_at :: "timestamp option"
  u_created_at :: timestamp
  u_deleted_at :: "timestamp option"
  u_pending_email :: "string option"

record oauth_row =
  oa_user_id :: uuid
  oa_provider :: string
  oa_provider_uid :: string

text \<open>A JSONB object, as the list of its members.\<close>

datatype jval = JUuid uuid | JStr string | JInt int | JRat rat | JTime timestamp | JNull | JBool bool | JStrs "string list"
  | JObj "(string \<times> jval) list"

type_synonym jobject = "(string \<times> jval) list"

record artist_profile =
  ap_id :: uuid
  ap_user_id :: uuid
  ap_display_name :: "string option"
  ap_bio :: "string option"
  ap_location_city :: "string option"
  ap_location_country :: "string option"
  ap_base_price_usd :: "rat option"
  ap_languages :: "string list"
  ap_social_links :: jobject
  ap_is_verified :: bool
  ap_thumbnail_url :: "string option"
  ap_deposit_usd :: "rat option"
  ap_cancellation_policy :: "string option"
  ap_avg_rating :: "rat option"
  ap_review_count :: int
  ap_created_at :: timestamp

record planner_profile =
  pp_id :: uuid
  pp_user_id :: uuid
  pp_display_name :: "string option"
  pp_company_name :: "string option"
  pp_bio :: "string option"
  pp_location_city :: "string option"
  pp_location_country :: "string option"
  pp_event_types :: "string list"
  pp_social_links :: jobject
  pp_thumbnail_url :: "string option"
  pp_kind :: "planner_kind option"
  pp_booker_type :: "string option"
  pp_avg_rating :: "rat option"
  pp_review_count :: int
  pp_created_at :: timestamp

text \<open>A row of which only the owner is given; the rest takes the column defaults.\<close>

definition default_artist_profile :: "uuid \<Rightarrow> uuid \<Rightarrow> timestamp \<Rightarrow> artist_profile" where
  "default_artist_profile pid uid t =
     \<lparr>ap_id = pid, ap_user_id = uid, ap_display_name = None, ap_bio = None, ap_location_city = None,
      ap_location_country = None, ap_base_price_usd = None, ap_languages = [], ap_social_links = [],
      ap_is_verified = False, ap_thumbnail_url = None, ap_deposit_usd = None, ap_cancellation_policy = None,
      ap_avg_rating = None, ap_review_count = 0, ap_created_at = t\<rparr>"

definition default_planner_profile :: "uuid \<Rightarrow> uuid \<Rightarrow> timestamp \<Rightarrow> planner_profile" where
  "default_planner_profile pid uid t =
     \<lparr>pp_id = pid, pp_user_id = uid, pp_display_name = None, pp_company_name = None, pp_bio = None,
      pp_location_city = None, pp_location_country = None, pp_event_types = [], pp_social_links = [],
      pp_thumbnail_url = None, pp_kind = None, pp_booker_type = None, pp_avg_rating = None,
      pp_review_count = 0, pp_created_at = t\<rparr>"

record category_group =
  cg_id :: uuid
  cg_name :: string
  cg_slug :: string
  cg_icon :: "string option"
  cg_sort_order :: int
  cg_created_at :: timestamp

record category =
  ct_id :: uuid
  ct_name :: string
  ct_slug :: string
  ct_sort_order :: int
  ct_group_id :: uuid
  ct_booker_interest :: "booker_interest option"
  ct_created_at :: timestamp

record artist_category =
  ac_artist_profile_id :: uuid
  ac_category_id :: uuid

record planner_interest_row =
  pi_planner_profile_id :: uuid
  pi_interest :: booker_interest

record availability_block =
  av_id :: uuid
  av_artist_id :: uuid
  av_start_date :: string
  av_end_date :: string
  av_note :: "string option"

record booking =
  b_id :: uuid
  b_artist_id :: uuid
  b_planner_id :: uuid
  b_conversation_id :: "uuid option"
  b_event_name :: string
  b_event_date :: string \<comment> \<open>a DATE column, as \<open>YYYY-MM-DD\<close>\<close>
  b_event_location :: "string option"
  b_duration_hours :: "rat option"
  b_agreed_fee_usd :: "rat option"
  b_notes :: "string option"
  b_status :: booking_status
  b_artist_accepted_at :: "timestamp option"
  b_planner_accepted_at :: "timestamp option"
  b_cancelled_by :: "uuid option"
  b_cancelled_at :: "timestamp option"
  b_cancellation_note :: "string option"
  b_review_emails_sent_at :: "timestamp option"
  b_created_at :: timestamp

record review =
  r_id :: uuid
  r_booking_id :: uuid
  r_reviewer_id :: uuid
  r_reviewee_id :: uuid
  r_reviewer_role :: user_role
  r_overall_score :: int
  r_score_communication :: int
  r_score_professionalism :: int
  r_score_punctuality :: int
  r_score_quality :: int
  r_body :: "string option"
  r_is_visible :: bool
  r_submitted_at :: timestamp

record notification =
  n_id :: uuid
  n_user_id :: uuid
  n_type :: string
  n_title :: string
  n_data :: jobject
  n_read_at :: "timestamp option"
  n_created_at :: timestamp

record plan_row =
  p_code :: plan_code
  p_price_usd :: rat
  p_duration_days :: int
  p_requires_id_doc :: bool
  p_message_cap :: "int option"
  p_is_active :: bool
  p_sort_order :: int

record subscription =
  s_id :: uuid
  s_user_id :: uuid
  s_plan_code :: plan_code
  s_payment_id :: "uuid option"
  s_status :: subscription_status
  s_activated_at :: "timestamp option"
  s_starts_at :: "timestamp option"
  s_expires_at :: "timestamp option"
  s_created_at :: timestamp

record payment =
  y_id :: uuid
  y_planner_id :: uuid
  y_plan_code :: "plan_code option"
  y_quantity :: nat
  y_subtotal_usd :: rat
  y_vat_rate :: rat
  y_vat_usd :: rat
  y_amount_usd :: rat
  y_currency :: string
  y_provider :: string
  y_provider_ref :: "string option"
  y_status :: payment_status
  y_transfer_service :: "string option"
  y_reference_code :: "string option"
  y_intent_expires_at :: "timestamp option"
  y_confirmed_by :: "uuid option"
  y_confirmed_at :: "timestamp option"
  y_rejection_reason :: "string option"
  y_created_at :: timestamp

record webhook_event =
  w_id :: uuid
  w_provider :: string
  w_signature_ok :: bool
  w_raw_body :: string
  w_headers :: "(string \<times> string) list"
  w_provider_ref :: "string option"
  w_event_type :: "string option"
  w_payment_id :: "uuid option"
  w_processed_at :: "timestamp option"
  w_process_error :: "string option"

record conversation =
  c_id :: uuid
  c_artist_id :: uuid
  c_planner_id :: uuid
  c_initiated_by :: "uuid option"
  c_status :: conversation_status
  c_last_message_at :: "timestamp option"
  c_created_at :: timestamp

record message =
  m_id :: uuid
  m_conversation_id :: uuid
  m_sender_id :: uuid
  m_body :: string
  m_read_at :: "timestamp option"
  m_created_at :: timestamp

record consent_row =
  k_id :: uuid
  k_user_id :: uuid
  k_document :: consent_document
  k_version :: string
  k_granted :: bool
  k_accepted_at :: timestamp
  k_ip_address :: "string option"
  k_user_agent :: "string option"
  k_contact_email :: "string option"

record id_document =
  i_id :: uuid
  i_user_id :: uuid
  i_kind :: doc_kind
  i_s3_key :: "string option"
  i_status :: doc_status
  i_rejection_reason :: "string option"
  i_reviewed_by :: "uuid option"
  i_reviewed_at :: "timestamp option"
  i_uploaded_at :: timestamp
  i_purged_at :: "timestamp option"

record saved_row =
  sv_planner_id :: uuid
  sv_artist_profile_id :: uuid
  sv_created_at :: timestamp

datatype verification_result = V_pending | V_passed | V_failed | V_manually_approved

record audit_step =
  st_at :: timestamp
  st_actor :: jval
  st_step :: string
  st_detail :: "string option"

record consent_snapshot =
  cs_document :: consent_document
  cs_version :: string
  cs_granted :: bool
  cs_accepted_at :: timestamp
  cs_ip_address :: "string option"

record verification_record =
  v_id :: uuid
  v_user_id :: uuid
  v_result :: verification_result
  v_completed_at :: "timestamp option"
  v_methods :: "string list"
  v_ip_address :: "string option"
  v_user_agent :: "string option"
  v_consent_snapshot :: "consent_snapshot list"
  v_audit_log :: "audit_step list"
  v_reviewed_by :: "uuid option"
  v_created_at :: timestamp

datatype media_type = M_photo | M_video

record media_row =
  md_id :: uuid
  md_user_id :: uuid
  md_media_type :: media_type
  md_s3_key :: string
  md_cdn_url :: string
  md_file_size_bytes :: int
  md_duration_sec :: "int option"
  md_is_primary :: bool
  md_sort_order :: int
  md_created_at :: timestamp

datatype flag_target = FT_profile | FT_message | FT_conversation
datatype flag_status = F_open | F_dismissed | F_actioned

record flag_row =
  f_id :: uuid
  f_flagged_by :: uuid
  f_target_type :: flag_target
  f_target_id :: uuid
  f_reason :: string
  f_status :: flag_status
  f_resolved_by :: "uuid option"
  f_resolved_at :: "timestamp option"
  f_resolver_note :: "string option"
  f_created_at :: timestamp

record audit_row =
  a_id :: uuid
  a_admin_id :: uuid
  a_action :: string
  a_target_id :: uuid
  a_note :: "string option"
  a_metadata :: jobject
  a_created_at :: timestamp

datatype ticket_status = T_open | T_in_progress | T_resolved | T_closed
datatype report_target_kind = RT_artist | RT_planner | RT_conversation

record support_ticket =
  t_id :: uuid
  t_user_id :: "uuid option"
  t_guest_email :: "string option"
  t_guest_name :: "string option"
  t_subject :: string
  t_body :: string
  t_status :: ticket_status
  t_source_path :: "string option"
  t_reported_kind :: "report_target_kind option"
  t_reported_id :: "uuid option"
  t_assigned_to :: "uuid option"
  t_resolved_at :: "timestamp option"
  t_created_at :: timestamp

record ticket_message =
  tm_id :: uuid
  tm_ticket_id :: uuid
  tm_author_id :: "uuid option"
  tm_is_staff :: bool
  tm_body :: string
  tm_created_at :: timestamp

record page_event =
  pe_id :: uuid
  pe_user_id :: "uuid option"
  pe_role :: "user_role option"
  pe_is_guest :: bool
  pe_session_id :: "string option"
  pe_path :: string
  pe_duration_ms :: int
  pe_occurred_at :: timestamp

record search_event =
  se_id :: uuid
  se_user_id :: "uuid option"
  se_is_guest :: bool
  se_session_id :: "string option"
  se_category_id :: "uuid option"
  se_query_text :: "string option"
  se_result_count :: "nat option"
  se_occurred_at :: timestamp

section \<open>The database\<close>

record db =
  users :: "user_row list"
  oauth_accounts :: "oauth_row list"
  artist_profiles :: "artist_profile list"
  planner_profiles :: "planner_profile list"
  planner_interests :: "planner_interest_row list"
  availability_blocks :: "availability_block list"
  bookings :: "booking list"
  reviews :: "review list"
  notifications :: "notification list"
  plans :: "plan_row list"
  subscriptions :: "subscription list"
  payments :: "payment list"
  webhook_events :: "webhook_event list"
  conversations :: "conversation list"
  messages :: "message list"
  consents :: "consent_row list"
  id_documents :: "id_document list"
  saved_artists :: "saved_row list"
  verification_records :: "verification_record list"
  category_groups :: "category_group list"
  categories :: "category list"
  artist_categories :: "artist_category list"
  media_items :: "media_row list"
  flag_rows :: "flag_row list"
  audit_log :: "audit_row list"
  support_tickets :: "support_ticket list"
  ticket_messages :: "ticket_message list"
  page_events :: "page_event list"
  search_events :: "search_event list"
  next_id :: uuid

definition empty_db :: db where
  "empty_db = \<lparr>users = [], oauth_accounts = [], artist_profiles = [], planner_profiles = [],
     planner_interests = [], availability_blocks = [], bookings = [], reviews = [],
     notifications = [], plans = [], subscriptions = [], payments = [], webhook_events = [],
     conversations = [], messages = [], consents = [], id_documents = [], saved_artists = [],
     verification_records = [], category_groups = [], categories = [], artist_categories = [],
     media_items = [], flag_rows = [], audit_log = [], support_tickets = [], ticket_messages = [],
     page_events = [], search_events = [], next_id = 0\<rparr>"

text \<open>
  \<open>this.db('notifications').insert({ user_id, type, title, data: JSON.stringify(data) })\<close>, the
  statement every service writes its in-app messages with.
\<close>

definition insert_notification :: "clock \<Rightarrow> uuid \<Rightarrow> string \<Rightarrow> string \<Rightarrow> jobject \<Rightarrow> db \<Rightarrow> db" where
  "insert_notification ck uid ty title payload s =
     s\<lparr>notifications := notifications s @
         [\<lparr>n_id = next_id s, n_user_id = uid, n_type = ty, n_title = title, n_data = payload,
           n_read_at = None, n_created_at = db_now ck\<rparr>],
       next_id := Suc (next_id s)\<rparr>"

text \<open>
  What writing a notification touches: the notification table and the supply, nothing
  else. The frame facts every service's preservation lemma needs are proved here once.
\<close>

lemma insert_notification_frame [simp]:
  "users (insert_notification ck u ty ti d s) = users s"
  "oauth_accounts (insert_notification ck u ty ti d s) = oauth_accounts s"
  "artist_profiles (insert_notification ck u ty ti d s) = artist_profiles s"
  "planner_profiles (insert_notification ck u ty ti d s) = planner_profiles s"
  "planner_interests (insert_notification ck u ty ti d s) = planner_interests s"
  "availability_blocks (insert_notification ck u ty ti d s) = availability_blocks s"
  "bookings (insert_notification ck u ty ti d s) = bookings s"
  "reviews (insert_notification ck u ty ti d s) = reviews s"
  "plans (insert_notification ck u ty ti d s) = plans s"
  "subscriptions (insert_notification ck u ty ti d s) = subscriptions s"
  "payments (insert_notification ck u ty ti d s) = payments s"
  "webhook_events (insert_notification ck u ty ti d s) = webhook_events s"
  "conversations (insert_notification ck u ty ti d s) = conversations s"
  "messages (insert_notification ck u ty ti d s) = messages s"
  "consents (insert_notification ck u ty ti d s) = consents s"
  "id_documents (insert_notification ck u ty ti d s) = id_documents s"
  "saved_artists (insert_notification ck u ty ti d s) = saved_artists s"
  "verification_records (insert_notification ck u ty ti d s) = verification_records s"
  "category_groups (insert_notification ck u ty ti d s) = category_groups s"
  "categories (insert_notification ck u ty ti d s) = categories s"
  "artist_categories (insert_notification ck u ty ti d s) = artist_categories s"
  "media_items (insert_notification ck u ty ti d s) = media_items s"
  "flag_rows (insert_notification ck u ty ti d s) = flag_rows s"
  "audit_log (insert_notification ck u ty ti d s) = audit_log s"
  "support_tickets (insert_notification ck u ty ti d s) = support_tickets s"
  "ticket_messages (insert_notification ck u ty ti d s) = ticket_messages s"
  "page_events (insert_notification ck u ty ti d s) = page_events s"
  "search_events (insert_notification ck u ty ti d s) = search_events s"
  "next_id (insert_notification ck u ty ti d s) = Suc (next_id s)"
  by (simp_all add: insert_notification_def)

lemma notifications_insert [table_simps]:
  "notifications (insert_notification ck u ty ti d s) = notifications s @
     [\<lparr>n_id = next_id s, n_user_id = u, n_type = ty, n_title = ti, n_data = d,
       n_read_at = None, n_created_at = db_now ck\<rparr>]"
  by (simp add: insert_notification_def)

end
