(* ===== verification/Common_Utils.thy ===== *)
theory Common_Utils
  imports Schema
begin

text \<open>
  The small helpers of \<open>src/common\<close> and \<open>src/artists/profile-completeness.ts\<close>: string
  methods of JavaScript, \<open>Number(..)\<close>, configuration lookup, VAT, the strict boolean
  transform, the NUL-stripping pipe, the client address, the exception filter and the media
  checklist. Strings are lists of bytes (ASCII case mapping, ASCII white space); a JavaScript
  number is an exact rational, so the rounding error of binary floating point is not modelled.
\<close>

section \<open>String methods\<close>

definition is_space :: "char \<Rightarrow> bool" where
  "is_space c \<longleftrightarrow> (of_char c :: nat) \<in> {9, 10, 11, 12, 13, 32}"

definition js_trim :: "string \<Rightarrow> string" where
  "js_trim s = rev (dropWhile is_space (rev (dropWhile is_space s)))"

definition lower_char :: "char \<Rightarrow> char" where
  "lower_char c = (let n = of_char c :: nat in if 65 \<le> n \<and> n \<le> 90 then char_of (n + 32) else c)"

definition upper_char :: "char \<Rightarrow> char" where
  "upper_char c = (let n = of_char c :: nat in if 97 \<le> n \<and> n \<le> 122 then char_of (n - 32) else c)"

definition to_lower :: "string \<Rightarrow> string" where
  "to_lower = map lower_char"

definition to_upper :: "string \<Rightarrow> string" where
  "to_upper = map upper_char"

definition starts_with :: "string \<Rightarrow> string \<Rightarrow> bool" where
  "starts_with p s \<longleftrightarrow> take (length p) s = p"

fun str_includes :: "string \<Rightarrow> string \<Rightarrow> bool" where
  "str_includes p [] = (p = [])"
| "str_includes p (c # s) = (starts_with p (c # s) \<or> str_includes p s)"

lemma lower_char_idem [simp]: "lower_char (lower_char c) = lower_char c"
  by (simp add: lower_char_def Let_def)

lemma to_lower_idem [simp]: "to_lower (to_lower s) = to_lower s"
  by (simp add: to_lower_def)

lemma starts_with_append [simp]: "starts_with p (p @ s)"
  by (simp add: starts_with_def)

lemma starts_with_iff: "starts_with p s \<longleftrightarrow> (\<exists>r. s = p @ r)"
  by (metis append_take_drop_id append_eq_conv_conj starts_with_def)

lemma js_trim_Nil [simp]: "js_trim [] = []"
  by (simp add: js_trim_def)

lemma is_space_lower [simp]: "is_space (lower_char c) = is_space c"
  by (auto simp: is_space_def lower_char_def Let_def)

lemma trim_lower: "js_trim (to_lower s) = to_lower (js_trim s)"
  by (simp add: js_trim_def to_lower_def dropWhile_map rev_map comp_def)

lemma dropWhile_twice [simp]: "dropWhile P (dropWhile P xs) = dropWhile P xs"
  by (induction xs) auto

lemma dropWhile_rev_last: "xs \<noteq> [] \<Longrightarrow> \<not> P (hd xs) \<Longrightarrow>
   \<not> P (hd (rev (dropWhile P (rev xs)))) \<and> dropWhile P (rev xs) \<noteq> []"
  by (induction xs rule: rev_induct) (auto simp: hd_append split: if_splits)

section \<open>Number\<close>

text \<open>
  \<open>Number(text)\<close> on decimal literals (sign, fraction, exponent); \<open>None\<close> is \<open>NaN\<close> or an
  infinity. The hexadecimal, octal and binary prefixes are not modelled.
\<close>

definition is_digit :: "char \<Rightarrow> bool" where
  "is_digit c \<longleftrightarrow> 48 \<le> (of_char c :: nat) \<and> (of_char c :: nat) \<le> 57"

fun js_exponent :: "string \<Rightarrow> int option" where
  "js_exponent [] = Some 0"
| "js_exponent (e # q) =
     (if e \<noteq> CHR ''e'' \<and> e \<noteq> CHR ''E'' then None
      else case q of [] \<Rightarrow> None
      | d # ds \<Rightarrow>
          (let neg = (d = CHR ''-''); u = (if d = CHR ''-'' \<or> d = CHR ''+'' then ds else q)
           in if u = [] \<or> \<not> list_all is_digit u then None
              else Some (if neg then - int (read_nat u) else int (read_nat u))))"

definition js_unsigned :: "string \<Rightarrow> rat option" where
  "js_unsigned u =
     (let ip = takeWhile is_digit u; r = dropWhile is_digit u;
          fp = (case r of [] \<Rightarrow> [] | c # q \<Rightarrow> if c = CHR ''.'' then takeWhile is_digit q else []);
          r2 = (case r of [] \<Rightarrow> [] | c # q \<Rightarrow> if c = CHR ''.'' then dropWhile is_digit q else r)
      in if ip = [] \<and> fp = [] then None
         else map_option (\<lambda>e. (of_nat (read_nat ip) + of_nat (read_nat fp) / 10 ^ length fp)
                * (if 0 \<le> e then 10 ^ nat e else 1 / 10 ^ nat (- e))) (js_exponent r2))"

definition js_number :: "string \<Rightarrow> rat option" where
  "js_number s =
     (case js_trim s of
        [] \<Rightarrow> Some 0
      | c # t \<Rightarrow> if c = CHR ''-'' then map_option uminus (js_unsigned t)
                 else if c = CHR ''+'' then js_unsigned t
                 else js_unsigned (c # t))"

section \<open>Configuration\<close>

text \<open>\<open>ConfigService.get(key)\<close>: a lookup in the process environment.\<close>

type_synonym config = "string \<Rightarrow> string option"

definition require_config :: "config \<Rightarrow> string \<Rightarrow> string result" where
  "require_config cfg key =
     (case cfg key of
        None \<Rightarrow> Inl (InternalError (''Missing required environment variable: '' @ key))
      | Some v \<Rightarrow> if js_trim v = [] then Inl (InternalError (''Missing required environment variable: '' @ key))
                  else Inr (js_trim v))"

definition missing_oauth_keys :: "config \<Rightarrow> string list \<Rightarrow> string list" where
  "missing_oauth_keys cfg keys =
     filter (\<lambda>k. case cfg k of None \<Rightarrow> True | Some v \<Rightarrow> js_trim v = []) keys"

definition is_oauth_configured :: "config \<Rightarrow> string list \<Rightarrow> bool" where
  "is_oauth_configured cfg keys \<longleftrightarrow> length (missing_oauth_keys cfg keys) = 0"

section \<open>VAT\<close>

definition default_vat_rate :: rat where
  "default_vat_rate = 11 / 100"

record vat_breakdown =
  vb_subtotal_usd :: rat
  vb_vat_rate :: rat
  vb_vat_usd :: rat
  vb_total_usd :: rat

definition resolve_vat_rate :: "string option \<Rightarrow> rat" where
  "resolve_vat_rate raw =
     (case raw of
        None \<Rightarrow> default_vat_rate
      | Some s \<Rightarrow>
          if js_trim s = [] then default_vat_rate
          else case js_number s of
                 None \<Rightarrow> 0
               | Some rate \<Rightarrow> if rate < 0 \<or> rate > 1 then 0 else rate)"

definition vat_of :: "rat \<Rightarrow> rat \<Rightarrow> vat_breakdown" where
  "vat_of subtotal rate =
     (let vat = of_int (js_round (subtotal * rate * 100)) / 100
      in \<lparr>vb_subtotal_usd = subtotal, vb_vat_rate = rate, vb_vat_usd = vat,
          vb_total_usd = of_int (js_round ((subtotal + vat) * 100)) / 100\<rparr>)"

lemma js_round_of_int [simp]: "js_round (of_int n) = n"
  unfolding js_round_def by linarith

lemma js_round_bounds: "x - 1 / 2 < of_int (js_round x) \<and> of_int (js_round x) \<le> x + 1 / 2"
  unfolding js_round_def by linarith

text \<open>
  The three figures of an invoice agree. For a price in whole cents, the total is
  exactly the subtotal plus the tax, the tax is a whole number of cents within half a cent
  of the rate applied to the subtotal, and for a rate the configuration can yield (which is
  always between 0 and 1) and a price that is not negative it lies between nothing and the
  price itself.
\<close>

theorem vat_invoice_adds_up:
  assumes "subtotal = of_int cents / 100" and "0 \<le> cents" and "rate = resolve_vat_rate raw"
  shows "vb_total_usd (vat_of subtotal rate) = subtotal + vb_vat_usd (vat_of subtotal rate)
    \<and> \<bar>vb_vat_usd (vat_of subtotal rate) - subtotal * rate\<bar> \<le> 1 / 200
    \<and> (\<exists>c. vb_vat_usd (vat_of subtotal rate) = of_int c / 100 \<and> 0 \<le> c \<and> c \<le> cents)
    \<and> 0 \<le> rate \<and> rate \<le> 1"
proof -
  have rate: "0 \<le> rate" "rate \<le> 1"
    using assms(3) by (auto simp: resolve_vat_rate_def default_vat_rate_def split: option.splits)
  let ?x = "subtotal * rate * 100"
  let ?c = "js_round ?x"
  have x: "?x = of_int cents * rate" using assms(1) by simp
  have "0 \<le> ?x" unfolding x using rate assms(2) by simp
  moreover have "?x \<le> of_int cents"
    unfolding x using rate mult_left_le [of rate "of_int cents"] assms(2) by simp
  ultimately have c: "0 \<le> ?c" "?c \<le> cents" unfolding js_round_def by linarith+
  have vat: "vb_vat_usd (vat_of subtotal rate) = of_int ?c / 100" by (simp add: vat_of_def Let_def)
  have "(subtotal + of_int ?c / 100) * 100 = of_int (cents + ?c)" using assms(1) by simp
  then have "vb_total_usd (vat_of subtotal rate) = of_int (js_round (of_int (cents + ?c))) / 100"
    by (simp only: vat_of_def Let_def vat_breakdown.simps)
  then have "vb_total_usd (vat_of subtotal rate) = of_int (cents + ?c) / 100"
    unfolding js_round_of_int .
  then have tot: "vb_total_usd (vat_of subtotal rate) = subtotal + of_int ?c / 100"
    unfolding of_int_add add_divide_distrib assms(1) [symmetric] .
  have "\<bar>of_int ?c / 100 - subtotal * rate\<bar> \<le> 1 / 200"
    using js_round_bounds [of ?x] unfolding abs_le_iff by linarith
  with tot c rate show ?thesis unfolding vat by blast
qed

theorem vat_invoice_adds_up_witness:
  "vb_total_usd (vat_of 15 (resolve_vat_rate None)) = 15 + vb_vat_usd (vat_of 15 (resolve_vat_rate None))"
proof -
  have "(15 :: rat) = of_int 1500 / 100" by simp
  from vat_invoice_adds_up [OF this _ refl, of None] show ?thesis by simp
qed

section \<open>Media checklist\<close>

record media_item =
  mi_media_type :: string
  mi_is_primary :: bool

record profile_completeness =
  pc_meets_media_minimum :: bool
  pc_profile_pictures :: nat
  pc_gallery_images :: nat
  pc_required_profile_pictures :: nat
  pc_required_gallery_images :: nat
  pc_missing :: "string list"

definition required_profile_pictures :: nat where
  "required_profile_pictures = 1"

definition required_gallery_images :: nat where
  "required_gallery_images = 2"

definition compute_profile_completeness :: "media_item list \<Rightarrow> profile_completeness" where
  "compute_profile_completeness media =
     (let photos = filter (\<lambda>m. mi_media_type m = ''photo'') media;
          pictures = length (filter mi_is_primary photos);
          gallery = length (filter (\<lambda>m. \<not> mi_is_primary m) photos);
          short = required_gallery_images - gallery;
          missing = (if pictures < required_profile_pictures then [''A profile picture''] else [])
            @ (if gallery < required_gallery_images
               then [show_nat short @ '' more gallery image'' @ (if short = 1 then [] else ''s'')] else [])
      in \<lparr>pc_meets_media_minimum = (length missing = 0), pc_profile_pictures = pictures,
          pc_gallery_images = gallery, pc_required_profile_pictures = required_profile_pictures,
          pc_required_gallery_images = required_gallery_images, pc_missing = missing\<rparr>)"

text \<open>The minimum is met exactly with a primary photo and two others; videos never count.\<close>

lemma completeness_met:
  "pc_meets_media_minimum (compute_profile_completeness media) \<longleftrightarrow>
     1 \<le> length (filter (\<lambda>m. mi_media_type m = ''photo'' \<and> mi_is_primary m) media)
   \<and> 2 \<le> length (filter (\<lambda>m. mi_media_type m = ''photo'' \<and> \<not> mi_is_primary m) media)"
  by (auto simp: compute_profile_completeness_def required_profile_pictures_def
      required_gallery_images_def Let_def conj_commute not_less Suc_le_eq)

section \<open>Request values\<close>

text \<open>
  A value the JSON parser or the query parser delivers. \<open>Js_opaque\<close> stands for what is not a
  plain object (a \<open>Date\<close>, a \<open>Buffer\<close>, a class instance).
\<close>

datatype js_value =
    Js_string string
  | Js_number rat
  | Js_bool bool
  | Js_null
  | Js_undefined
  | Js_array "js_value list"
  | Js_object "(string \<times> js_value) list"
  | Js_opaque nat

text \<open>\<open>StripNulBytesPipe\<close>.\<close>

definition nul :: char where
  "nul = char_of (0 :: nat)"

fun strip_nul :: "js_value \<Rightarrow> js_value" where
  "strip_nul (Js_string t) = Js_string (if nul \<in> set t then filter (\<lambda>c. c \<noteq> nul) t else t)"
| "strip_nul (Js_array vs) = Js_array (map strip_nul vs)"
| "strip_nul (Js_object kvs) = Js_object (map (\<lambda>kv. (fst kv, strip_nul (snd kv))) kvs)"
| "strip_nul v = v"

fun nul_free :: "js_value \<Rightarrow> bool" where
  "nul_free (Js_string t) = (nul \<notin> set t)"
| "nul_free (Js_array vs) = list_all nul_free vs"
| "nul_free (Js_object kvs) = list_all (\<lambda>kv. nul_free (snd kv)) kvs"
| "nul_free v = True"

lemma strip_nul_id: "nul_free v \<Longrightarrow> strip_nul v = v"
  by (induction v rule: nul_free.induct) (auto simp: list_all_iff intro!: map_idI)

lemma strip_nul_clean: "nul_free (strip_nul v)"
  by (induction v rule: strip_nul.induct) (auto simp: list_all_iff)

text \<open>
  After the pipe no string value at any depth of the request carries a NUL byte, a value
  without one passes unchanged, and a second pass does nothing.
\<close>

theorem strip_nul_total:
  "nul_free (strip_nul v) \<and> (if nul_free v then strip_nul v = v else strip_nul v \<noteq> v)
   \<and> strip_nul (strip_nul v) = strip_nul v"
  by (metis strip_nul_clean strip_nul_id)

text \<open>\<open>StrictBoolean\<close> reads the original payload, not the value the implicit conversion made.\<close>

fun strict_boolean :: "js_value \<Rightarrow> js_value" where
  "strict_boolean (Js_bool b) = Js_bool b"
| "strict_boolean (Js_string t) =
     (if t = ''true'' then Js_bool True else if t = ''false'' then Js_bool False else Js_string t)"
| "strict_boolean v = v"

lemma strict_boolean_true: "strict_boolean v = Js_bool True \<longleftrightarrow> v = Js_bool True \<or> v = Js_string ''true''"
  by (cases v) auto

text \<open>\<open>clientIp\<close>: a header is a string or, repeated, an array of strings.\<close>

datatype header_value = H_one string | H_many "string list"

definition normalise_address :: "string \<Rightarrow> string" where
  "normalise_address a = (if starts_with ''::ffff:'' a then drop 7 a else a)"

definition client_ip :: "header_value option \<Rightarrow> string option \<Rightarrow> string option \<Rightarrow> string option" where
  "client_ip forwarded ip remote =
     (let raw = (case forwarded of None \<Rightarrow> None | Some (H_one h) \<Rightarrow> Some h
                 | Some (H_many []) \<Rightarrow> None | Some (H_many (h # _)) \<Rightarrow> Some h);
          first = (case raw of None \<Rightarrow> [] | Some h \<Rightarrow> js_trim (takeWhile (\<lambda>c. c \<noteq> CHR '','') h));
          direct = (case ip of Some a \<Rightarrow> Some a | None \<Rightarrow> remote)
      in if first \<noteq> [] then Some (normalise_address first)
         else case direct of None \<Rightarrow> None | Some a \<Rightarrow> if a = [] then None else Some (normalise_address a))"

lemma client_ip_forwarded:
  "js_trim (takeWhile (\<lambda>c. c \<noteq> CHR '','') h) \<noteq> [] \<Longrightarrow> client_ip (Some (H_one h)) ip r = client_ip (Some (H_one h)) None None"
  by (simp add: client_ip_def Let_def)

text \<open>\<open>aggregateValue\<close> on a COUNT row, and the bounds of a directory listing.\<close>

definition aggregate_value :: "nat option \<Rightarrow> nat" where
  "aggregate_value row = (case row of None \<Rightarrow> 0 | Some n \<Rightarrow> n)"

definition max_page_size :: nat where
  "max_page_size = 50"

definition max_page :: nat where
  "max_page = 200"

section \<open>The exception filter\<close>

text \<open>
  What reaches the filter: an \<open>HttpException\<close> with its status and body, or any other error
  with the \<open>code\<close> property a driver error carries and its message.
\<close>

datatype thrown =
    Http_exception nat string
  | Other_error "string option" string

record error_response =
  er_status :: nat
  er_message :: string
  er_error :: "string option"

definition status_by_sqlstate :: "string \<Rightarrow> nat option" where
  "status_by_sqlstate = map_of
     [(''23503'', 404), (''23505'', 409), (''22P02'', 400), (''22021'', 400), (''22007'', 400),
      (''22008'', 400), (''22003'', 400), (''22009'', 400), (''2201W'', 400), (''42601'', 400),
      (''23502'', 400), (''23514'', 400)]"

definition message_by_status :: "nat \<Rightarrow> string option" where
  "message_by_status = map_of
     [(404, ''The requested resource was not found.''), (409, ''That record already exists.''),
      (400, ''One or more values in the request are not valid.'')]"

definition http_status_name :: "nat \<Rightarrow> string option" where
  "http_status_name = map_of [(404, ''NOT_FOUND''), (409, ''CONFLICT''), (400, ''BAD_REQUEST'')]"

definition is_sqlstate :: "string \<Rightarrow> bool" where
  "is_sqlstate c \<longleftrightarrow>
     length c = 5 \<and> list_all (\<lambda>ch. is_digit ch \<or> (65 \<le> (of_char ch :: nat) \<and> (of_char ch :: nat) \<le> 90)) c"

definition internal_response :: error_response where
  "internal_response =
     \<lparr>er_status = 500, er_message = ''Internal server error'', er_error = Some ''Internal Server Error''\<rparr>"

fun exception_filter :: "thrown \<Rightarrow> error_response" where
  "exception_filter (Http_exception status body) =
     \<lparr>er_status = status, er_message = body, er_error = None\<rparr>"
| "exception_filter (Other_error code driver_message) =
     (case code of None \<Rightarrow> internal_response
      | Some c \<Rightarrow>
          if \<not> is_sqlstate c then internal_response
          else case status_by_sqlstate c of None \<Rightarrow> internal_response
          | Some status \<Rightarrow>
              \<lparr>er_status = status,
               er_message = (case message_by_status status of
                  None \<Rightarrow> ''Request could not be completed.'' | Some m \<Rightarrow> m),
               er_error = http_status_name status\<rparr>)"

lemma status_by_sqlstate_SomeD: "status_by_sqlstate c = Some n \<Longrightarrow> is_sqlstate c \<and> n \<in> {400, 404, 409}"
  by (auto simp: status_by_sqlstate_def is_sqlstate_def is_digit_def split: if_splits)

text \<open>
  The client never sees the driver's words. Two errors with one SQLSTATE and different
  messages get the same response; the status is the one of the table when the code is listed
  there and 500 for every other error, and a deliberate \<open>HttpException\<close> keeps its status.
\<close>

theorem exception_filter_hides_driver:
  "exception_filter (Other_error code m) = exception_filter (Other_error code m')
   \<and> er_status (exception_filter (Other_error code m)) =
       (case Option.bind code status_by_sqlstate of None \<Rightarrow> 500 | Some n \<Rightarrow> n)
   \<and> er_status (exception_filter (Http_exception n body)) = n"
  by (cases code) (auto simp: internal_response_def split: option.splits dest: status_by_sqlstate_SomeD)

text \<open>The errors of the services as the filter sees them.\<close>

fun as_thrown :: "http_error \<Rightarrow> thrown" where
  "as_thrown (BadRequest m) = Http_exception 400 m"
| "as_thrown (Unauthorized m) = Http_exception 401 m"
| "as_thrown (PaymentRequired m) = Http_exception 402 m"
| "as_thrown (Forbidden m) = Http_exception 403 m"
| "as_thrown (NotFound m) = Http_exception 404 m"
| "as_thrown (Conflict m) = Http_exception 409 m"
| "as_thrown (InternalError m) = Other_error None m"
| "as_thrown (NotImplemented m) = Http_exception 501 m"
| "as_thrown (ServiceUnavailable m) = Http_exception 503 m"
| "as_thrown (PgError c) = Other_error (Some c) []"

definition http_status :: "http_error \<Rightarrow> nat" where
  "http_status e = er_status (exception_filter (as_thrown e))"

lemma unique_violation_is_409: "http_status unique_violation = 409"
  by (simp add: http_status_def unique_violation_def is_sqlstate_def is_digit_def
      status_by_sqlstate_def)

end
