(* ===== verification/Bookings.thy ===== *)
theory Bookings
  imports Schema
begin

text \<open>
  \<open>src/bookings/bookings.service.ts\<close>: proposing, answering, cancelling and completing a
  booking. \<open>create\<close>, \<open>respond\<close> and \<open>cancel\<close> are written as the statements they send to the
  database (the reads with their checks, the insert or the compare-and-swap, the notification), so that
  the same pieces give both the operation and the interleaved step relation \<open>bk_step\<close>, in
  which the statements of any number of concurrent requests mix freely.
\<close>

section \<open>Operations\<close>

record create_booking_dto =
  cb_artist_id :: uuid
  cb_conversation_id :: "uuid option"
  cb_event_name :: string
  cb_event_date :: string
  cb_event_location :: "string option"
  cb_duration_hours :: "rat option"
  cb_agreed_fee_usd :: "rat option"
  cb_notes :: "string option"

definition is_active_artist :: "uuid \<Rightarrow> user_row \<Rightarrow> bool" where
  "is_active_artist uid u \<longleftrightarrow> u_id u = uid \<and> u_role u = R_artist \<and> u_status u = U_active"

definition blocks_date :: "uuid \<Rightarrow> string \<Rightarrow> availability_block \<Rightarrow> bool" where
  "blocks_date artist day v \<longleftrightarrow>
     av_artist_id v = artist \<and> str_le (av_start_date v) day \<and> str_le day (av_end_date v)"

definition holds_slot :: "uuid \<Rightarrow> string \<Rightarrow> booking \<Rightarrow> bool" where
  "holds_slot artist day b \<longleftrightarrow>
     b_artist_id b = artist \<and> b_event_date b = day \<and> b_status b \<in> {B_pending, B_accepted}"

text \<open>
  \<open>create\<close>, statement by statement: the read of the artist, with the checks around it, the read of
  the artist's days off, the read of the bookings on that day, the insert, the notification. Nothing
  holds the slot between the third and the fourth. Each of the three statements that
  send the event date has it read as a DATE by the server.
\<close>

definition create_check :: "clock \<Rightarrow> user_row \<Rightarrow> create_booking_dto \<Rightarrow> db \<Rightarrow> unit result" where
  "create_check ck planner dto s =
     (if u_role planner \<noteq> R_planner then Inl (Forbidden ''Only planners can propose bookings.'')
      else case find (is_active_artist (cb_artist_id dto)) (users s) of
        None \<Rightarrow> Inl (NotFound ''Artist not found.'')
      | Some artist \<Rightarrow>
          if str_le (cb_event_date dto) (iso_date (js_now ck))
          then Inl (BadRequest ''Event date must be in the future.'') else Inr ())"

definition create_block_check :: "date_input \<Rightarrow> create_booking_dto \<Rightarrow> db \<Rightarrow> unit result" where
  "create_block_check D dto s =
     (case D (cb_event_date dto) of
        Inl e \<Rightarrow> Inl e
      | Inr day \<Rightarrow>
          (case find (blocks_date (cb_artist_id dto) day) (availability_blocks s) of
             Some blocked \<Rightarrow> Inl (BadRequest ''Artist is marked unavailable on this date.'')
           | None \<Rightarrow> Inr ()))"

definition create_slot_check :: "date_input \<Rightarrow> create_booking_dto \<Rightarrow> db \<Rightarrow> unit result" where
  "create_slot_check D dto s =
     (case D (cb_event_date dto) of
        Inl e \<Rightarrow> Inl e
      | Inr day \<Rightarrow>
          (case find (holds_slot (cb_artist_id dto) day) (bookings s) of
             Some conflict \<Rightarrow>
               Inl (BadRequest ''Artist already has a pending or accepted booking on this date.'')
           | None \<Rightarrow> Inr ()))"

definition new_booking :: "clock \<Rightarrow> user_row \<Rightarrow> create_booking_dto \<Rightarrow> string \<Rightarrow> uuid \<Rightarrow> booking" where
  "new_booking ck planner dto day bid =
     \<lparr>b_id = bid, b_artist_id = cb_artist_id dto, b_planner_id = u_id planner,
      b_conversation_id = cb_conversation_id dto, b_event_name = cb_event_name dto,
      b_event_date = day, b_event_location = cb_event_location dto,
      b_duration_hours = cb_duration_hours dto, b_agreed_fee_usd = cb_agreed_fee_usd dto,
      b_notes = cb_notes dto, b_status = B_pending, b_artist_accepted_at = None,
      b_planner_accepted_at = Some (db_now ck), b_cancelled_by = None, b_cancelled_at = None,
      b_cancellation_note = None, b_review_emails_sent_at = None, b_created_at = db_now ck\<rparr>"

text \<open>The insert, under the table's \<open>CHECK (event_date >= created_at::DATE)\<close>.\<close>

definition create_insert ::
  "date_input \<Rightarrow> clock \<Rightarrow> user_row \<Rightarrow> create_booking_dto \<Rightarrow> db \<Rightarrow> booking result \<times> db" where
  "create_insert D ck planner dto s =
     (case D (cb_event_date dto) of
        Inl e \<Rightarrow> (Inl e, s)
      | Inr day \<Rightarrow>
          if str_le (iso_date (db_now ck)) day
          then let b = new_booking ck planner dto day (next_id s)
               in (Inr b, s\<lparr>bookings := bookings s @ [b], next_id := Suc (next_id s)\<rparr>)
          else (Inl check_violation, s))"

definition create_notify :: "clock \<Rightarrow> user_row \<Rightarrow> create_booking_dto \<Rightarrow> booking \<Rightarrow> db \<Rightarrow> db" where
  "create_notify ck planner dto b s =
     insert_notification ck (cb_artist_id dto) ''booking_request'' ''New booking request''
       [(''booking_id'', JUuid (b_id b)), (''event_name'', JStr (b_event_name b)),
        (''event_date'', JStr (b_event_date b)), (''planner_name'', JStr (u_account_code planner))] s"

definition booking_create ::
  "date_input \<Rightarrow> clock \<Rightarrow> user_row \<Rightarrow> create_booking_dto \<Rightarrow> db \<Rightarrow> booking result \<times> db" where
  "booking_create D ck planner dto s =
     (case create_check ck planner dto s of
        Inl e \<Rightarrow> (Inl e, s)
      | Inr _ \<Rightarrow>
          (case create_block_check D dto s of
             Inl e \<Rightarrow> (Inl e, s)
           | Inr _ \<Rightarrow>
               (case create_slot_check D dto s of
                  Inl e \<Rightarrow> (Inl e, s)
                | Inr _ \<Rightarrow>
                    (case create_insert D ck planner dto s of
                       (Inl e, s1) \<Rightarrow> (Inl e, s1)
                     | (Inr b, s1) \<Rightarrow> (Inr b, create_notify ck planner dto b s1)))))"

definition find_and_assert_participant :: "uuid \<Rightarrow> uuid \<Rightarrow> db \<Rightarrow> booking result" where
  "find_and_assert_participant uid bid s =
     (case find (\<lambda>b. b_id b = bid) (bookings s) of
        None \<Rightarrow> Inl (NotFound ''Booking not found.'')
      | Some b \<Rightarrow>
          if b_artist_id b \<noteq> uid \<and> b_planner_id b \<noteq> uid
          then Inl (Forbidden ''You are not a participant in this booking.'')
          else Inr b)"

definition concurrent_change :: string where
  "concurrent_change =
     ''This booking was changed by someone else a moment ago. Refresh to see its current status.''"

definition cancellable_statuses :: "booking_status list" where
  "cancellable_statuses = [B_pending, B_accepted]"

text \<open>\<open>respond\<close>: the read, the compare-and-swap, the notification.\<close>

definition respond_check :: "uuid \<Rightarrow> uuid \<Rightarrow> db \<Rightarrow> booking result" where
  "respond_check artist bid s =
     (case find_and_assert_participant artist bid s of
        Inl e \<Rightarrow> Inl e
      | Inr b \<Rightarrow>
          if b_artist_id b \<noteq> artist then Inl (Forbidden ''Only the artist can accept or decline a booking.'')
          else if b_status b \<noteq> B_pending
          then Inl (BadRequest (''Booking is already '' @ booking_status_name (b_status b) @ ''.''))
          else Inr b)"

definition is_pending :: "uuid \<Rightarrow> booking \<Rightarrow> bool" where
  "is_pending bid b \<longleftrightarrow> b_id b = bid \<and> b_status b = B_pending"

fun answer :: "clock \<Rightarrow> decision \<Rightarrow> booking \<Rightarrow> booking" where
  "answer ck Accept b = b\<lparr>b_status := B_accepted, b_artist_accepted_at := Some (db_now ck)\<rparr>"
| "answer ck Decline b = b\<lparr>b_status := B_declined\<rparr>"

definition respond_swap :: "clock \<Rightarrow> uuid \<Rightarrow> decision \<Rightarrow> db \<Rightarrow> booking result \<times> db" where
  "respond_swap ck bid dec s =
     (case updated_rows (is_pending bid) (answer ck dec) (bookings s) of
        [] \<Rightarrow> (Inl (Conflict concurrent_change), s)
      | u # _ \<Rightarrow> (Inr u, s\<lparr>bookings := update_where (is_pending bid) (answer ck dec) (bookings s)\<rparr>))"

definition respond_notify :: "clock \<Rightarrow> uuid \<Rightarrow> decision \<Rightarrow> booking \<Rightarrow> db \<Rightarrow> db" where
  "respond_notify ck bid dec b s =
     insert_notification ck (b_planner_id b)
       (case dec of Accept \<Rightarrow> ''booking_accepted'' | Decline \<Rightarrow> ''booking_declined'')
       (case dec of Accept \<Rightarrow> ''Booking accepted'' | Decline \<Rightarrow> ''Booking declined'')
       [(''booking_id'', JUuid bid), (''event_name'', JStr (b_event_name b)),
        (''event_date'', JStr (b_event_date b))] s"

definition respond :: "clock \<Rightarrow> uuid \<Rightarrow> uuid \<Rightarrow> decision \<Rightarrow> db \<Rightarrow> booking result \<times> db" where
  "respond ck artist bid dec s =
     (case respond_check artist bid s of
        Inl e \<Rightarrow> (Inl e, s)
      | Inr b \<Rightarrow>
          (case respond_swap ck bid dec s of
             (Inl e, s1) \<Rightarrow> (Inl e, s1)
           | (Inr u, s1) \<Rightarrow> (Inr u, respond_notify ck bid dec b s1)))"

text \<open>\<open>cancel\<close>: the same three statements, from either party.\<close>

definition cancel_check :: "uuid \<Rightarrow> uuid \<Rightarrow> db \<Rightarrow> booking result" where
  "cancel_check uid bid s =
     (case find_and_assert_participant uid bid s of
        Inl e \<Rightarrow> Inl e
      | Inr b \<Rightarrow>
          if b_status b \<notin> set cancellable_statuses
          then Inl (BadRequest (''Cannot cancel a booking that is '' @ booking_status_name (b_status b) @ ''.''))
          else Inr b)"

definition is_cancellable :: "uuid \<Rightarrow> booking \<Rightarrow> bool" where
  "is_cancellable bid b \<longleftrightarrow> b_id b = bid \<and> b_status b \<in> set cancellable_statuses"

definition call_off :: "clock \<Rightarrow> uuid \<Rightarrow> string option \<Rightarrow> booking \<Rightarrow> booking" where
  "call_off ck uid note b =
     b\<lparr>b_status := B_cancelled, b_cancelled_by := Some uid, b_cancelled_at := Some (db_now ck),
       b_cancellation_note := note\<rparr>"

definition cancel_swap :: "clock \<Rightarrow> uuid \<Rightarrow> uuid \<Rightarrow> string option \<Rightarrow> db \<Rightarrow> booking result \<times> db" where
  "cancel_swap ck uid bid note s =
     (case updated_rows (is_cancellable bid) (call_off ck uid note) (bookings s) of
        [] \<Rightarrow> (Inl (Conflict concurrent_change), s)
      | u # _ \<Rightarrow> (Inr u, s\<lparr>bookings := update_where (is_cancellable bid) (call_off ck uid note) (bookings s)\<rparr>))"

definition cancel_notify :: "clock \<Rightarrow> uuid \<Rightarrow> uuid \<Rightarrow> booking \<Rightarrow> db \<Rightarrow> db" where
  "cancel_notify ck uid bid b s =
     insert_notification ck (if uid = b_artist_id b then b_planner_id b else b_artist_id b)
       ''booking_cancelled'' ''Booking cancelled''
       [(''booking_id'', JUuid bid), (''event_name'', JStr (b_event_name b)),
        (''event_date'', JStr (b_event_date b))] s"

definition cancel :: "clock \<Rightarrow> uuid \<Rightarrow> uuid \<Rightarrow> string option \<Rightarrow> db \<Rightarrow> booking result \<times> db" where
  "cancel ck uid bid note s =
     (case cancel_check uid bid s of
        Inl e \<Rightarrow> (Inl e, s)
      | Inr b \<Rightarrow>
          (case cancel_swap ck uid bid note s of
             (Inl e, s1) \<Rightarrow> (Inl e, s1)
           | (Inr u, s1) \<Rightarrow> (Inr u, cancel_notify ck uid bid b s1)))"

text \<open>\<open>listMine\<close>, \<open>findOne\<close>, and the scheduler's \<open>markCompletedBatch\<close>.\<close>

definition booking_list_mine :: "user_row \<Rightarrow> db \<Rightarrow> booking list" where
  "booking_list_mine u s =
     sort_by (\<lambda>a b. str_le (b_event_date b) (b_event_date a))
       (filter (\<lambda>b. (if u_role u = R_artist then b_artist_id b else b_planner_id b) = u_id u) (bookings s))"

definition booking_find_one :: "uuid \<Rightarrow> uuid \<Rightarrow> db \<Rightarrow> booking result" where
  "booking_find_one uid bid s = find_and_assert_participant uid bid s"

definition is_over :: "clock \<Rightarrow> booking \<Rightarrow> bool" where
  "is_over ck b \<longleftrightarrow> b_status b = B_accepted \<and> str_le (b_event_date b) (iso_date (js_now ck - ms_per_day))"

definition mark_completed_batch :: "clock \<Rightarrow> db \<Rightarrow> booking list \<times> db" where
  "mark_completed_batch ck s =
     (updated_rows (is_over ck) (\<lambda>b. b\<lparr>b_status := B_completed\<rparr>) (bookings s),
      s\<lparr>bookings := update_where (is_over ck) (\<lambda>b. b\<lparr>b_status := B_completed\<rparr>) (bookings s)\<rparr>)"

lemmas booking_op_defs [op_defs] =
  booking_create_def create_check_def create_block_check_def create_slot_check_def create_insert_def
  create_notify_def find_and_assert_participant_def respond_check_def respond_swap_def
  respond_notify_def respond_def cancel_check_def cancel_swap_def cancel_notify_def cancel_def
  mark_completed_batch_def new_booking_def

fun_cases answer_elim: "answer ck dec b = b'"

lemma answer_simps [simp]:
  "b_id (answer ck dec b) = b_id b"
  "b_artist_id (answer ck dec b) = b_artist_id b"
  "b_planner_id (answer ck dec b) = b_planner_id b"
  "b_event_date (answer ck dec b) = b_event_date b"
  "b_status (answer ck dec b) = (case dec of Accept \<Rightarrow> B_accepted | Decline \<Rightarrow> B_declined)"
  by (cases dec; simp)+

lemma call_off_simps [simp]:
  "b_id (call_off ck u n b) = b_id b"
  "b_artist_id (call_off ck u n b) = b_artist_id b"
  "b_event_date (call_off ck u n b) = b_event_date b"
  "b_status (call_off ck u n b) = B_cancelled"
  by (simp_all add: call_off_def)

section \<open>The compare-and-swap contract, discharged by the service's own statements\<close>

interpretation answer_cas: compare_and_swap "is_pending bid" "answer ck dec"
  by unfold_locales (cases dec; simp add: is_pending_def)

interpretation cancel_cas: compare_and_swap "is_cancellable bid" "call_off ck uid note"
  by unfold_locales (simp add: is_cancellable_def cancellable_statuses_def)

interpretation complete_cas: compare_and_swap "is_over ck" "\<lambda>b. b\<lparr>b_status := B_completed\<rparr>"
  by unfold_locales (simp add: is_over_def)

text \<open>
  Two answers to one proposal race (Accept and Decline fired together, or either twice).
  Whatever the second one is, if both passed the status check and the first swap won, the
  second swap is refused with 409 and leaves the database as the winner wrote it.
\<close>

theorem respond_race_has_one_winner:
  assumes "respond_swap ck bid dec s = (Inr u, s1)"
  shows "respond_swap ck' bid dec' s1 = (Inl (Conflict concurrent_change), s1)"
  using assms answer_cas.rival_loses
  by (auto simp: respond_swap_def split: list.splits prod.splits)

theorem respond_race_has_one_winner_witness:
  "\<exists>s1 u. respond_swap \<lparr>db_now = 5, js_now = 5\<rparr> 0 Accept
       (empty_db\<lparr>bookings := [new_booking \<lparr>db_now = 1, js_now = 1\<rparr> undefined undefined ''2030-01-01'' 0]\<rparr>) = (Inr u, s1)
     \<and> respond_swap \<lparr>db_now = 6, js_now = 6\<rparr> 0 Decline s1 = (Inl (Conflict concurrent_change), s1)"
proof -
  let ?s = "empty_db\<lparr>bookings := [new_booking \<lparr>db_now = 1, js_now = 1\<rparr> undefined undefined ''2030-01-01'' 0]\<rparr>"
  obtain u s1 where 1: "respond_swap \<lparr>db_now = 5, js_now = 5\<rparr> 0 Accept ?s = (Inr u, s1)"
    by (simp add: respond_swap_def updated_rows_def is_pending_def new_booking_def)
  from 1 respond_race_has_one_winner [OF 1] show ?thesis by blast
qed

section \<open>Functional behaviour\<close>

text \<open>The ids of the table stay below the supply, so a fresh id names no old row.\<close>

definition booking_ids_ok :: "db \<Rightarrow> bool" where
  "booking_ids_ok s \<longleftrightarrow> distinct (map b_id (bookings s)) \<and> (\<forall>b \<in> set (bookings s). b_id b < next_id s)"

lemma map_id_answer [simp]: "map b_id (update_where P (answer ck dec) bs) = map b_id bs"
  by (rule map_update_where_same) simp

lemma map_id_call_off [simp]: "map b_id (update_where P (call_off ck u n) bs) = map b_id bs"
  by (rule map_update_where_same) simp

lemma booking_ids_ok_update:
  assumes "booking_ids_ok s" and "\<And>b. b_id (f b) = b_id b" and "next_id s \<le> n"
  shows "booking_ids_ok (s\<lparr>bookings := update_where P f (bookings s), next_id := n\<rparr>)"
  using assms map_update_where_same [of b_id f P "bookings s"]
  by (auto simp: booking_ids_ok_def table_simps less_le_trans split: if_splits)

text \<open>
  On a pending booking of the artist, \<open>respond\<close> rewrites exactly that row and tells the
  planner; nothing else of the booking table changes.
\<close>

lemma respond_on_pending:
  assumes "booking_ids_ok s" and "b \<in> set (bookings s)" and "b_status b = B_pending"
  shows "respond ck (b_artist_id b) (b_id b) dec s =
    (Inr (answer ck dec b),
     respond_notify ck (b_id b) dec b
       (s\<lparr>bookings := update_where (\<lambda>x. b_id x = b_id b) (answer ck dec) (bookings s)\<rparr>))"
proof -
  from assms(1,2) have found: "find (\<lambda>x. b_id x = b_id b) (bookings s) = Some b"
    by (auto simp: booking_ids_ok_def intro: find_distinct_key)
  have "updated_rows (is_pending (b_id b)) (answer ck dec) (bookings s) = [answer ck dec b]"
    and "update_where (is_pending (b_id b)) (answer ck dec) (bookings s) =
      update_where (\<lambda>x. b_id x = b_id b) (answer ck dec) (bookings s)"
    using assms
    by (auto simp: booking_ids_ok_def is_pending_def intro!: updated_rows_key [where key = b_id])
  with found assms(3) show ?thesis
    by (simp add: respond_def respond_check_def find_and_assert_participant_def respond_swap_def)
qed


lemma cancel_on_cancellable:
  assumes "booking_ids_ok s" and "b \<in> set (bookings s)" and "b_status b \<in> set cancellable_statuses"
    and "uid = b_artist_id b \<or> uid = b_planner_id b"
  shows "cancel ck uid (b_id b) note s =
    (Inr (call_off ck uid note b),
     cancel_notify ck uid (b_id b) b
       (s\<lparr>bookings := update_where (\<lambda>x. b_id x = b_id b) (call_off ck uid note) (bookings s)\<rparr>))"
proof -
  from assms(1,2) have found: "find (\<lambda>x. b_id x = b_id b) (bookings s) = Some b"
    by (auto simp: booking_ids_ok_def intro: find_distinct_key)
  have "updated_rows (is_cancellable (b_id b)) (call_off ck uid note) (bookings s) = [call_off ck uid note b]"
    and "update_where (is_cancellable (b_id b)) (call_off ck uid note) (bookings s) =
      update_where (\<lambda>x. b_id x = b_id b) (call_off ck uid note) (bookings s)"
    using assms
    by (auto simp: booking_ids_ok_def is_cancellable_def intro!: updated_rows_key [where key = b_id])
  with found assms(3,4) show ?thesis
    by (auto simp: cancel_def cancel_check_def find_and_assert_participant_def cancel_swap_def)
qed

definition bookable :: "date_input \<Rightarrow> clock \<Rightarrow> user_row \<Rightarrow> create_booking_dto \<Rightarrow> db \<Rightarrow> bool" where
  "bookable D ck planner dto s \<longleftrightarrow>
     u_role planner = R_planner
     \<and> list_ex (is_active_artist (cb_artist_id dto)) (users s)
     \<and> str_less (iso_date (js_now ck)) (cb_event_date dto)
     \<and> (case D (cb_event_date dto) of Inl e \<Rightarrow> False | Inr day \<Rightarrow>
          \<not> list_ex (blocks_date (cb_artist_id dto) day) (availability_blocks s)
          \<and> \<not> list_ex (holds_slot (cb_artist_id dto) day) (bookings s)
          \<and> str_le (iso_date (db_now ck)) day)"

text \<open>What a bookable proposal passes, one statement after the other.\<close>

lemma bookable_passes:
  assumes "bookable D ck planner dto s"
  obtains day where "D (cb_event_date dto) = Inr day"
    and "create_check ck planner dto s = Inr ()" and "create_block_check D dto s = Inr ()"
    and "create_slot_check D dto s = Inr ()" and "str_le (iso_date (db_now ck)) day"
proof -
  from assms obtain day where day: "D (cb_event_date dto) = Inr day"
    by (auto simp: bookable_def split: sum.splits)
  have "\<exists>u. find (is_active_artist (cb_artist_id dto)) (users s) = Some u"
    and "find (blocks_date (cb_artist_id dto) day) (availability_blocks s) = None"
    and "find (holds_slot (cb_artist_id dto) day) (bookings s) = None"
    using assms day by (auto simp: bookable_def find_None_iff list_ex_iff simp flip: not_None_eq)
  with assms day that show thesis
    by (auto simp: bookable_def create_check_def create_block_check_def create_slot_check_def str_le_def)
qed

text \<open>
  A proposal is stored exactly when a planner makes it, the artist exists and is active,
  the date is later than today and one the server reads, no availability block covers it and no
  pending or accepted booking of the artist is on it; the stored row is then pending, and
  otherwise the database is left as it was.
\<close>

theorem booking_create_correct:
  "if bookable D ck planner dto s
   then \<exists>day. D (cb_event_date dto) = Inr day \<and> booking_create D ck planner dto s =
     (Inr (new_booking ck planner dto day (next_id s)),
      create_notify ck planner dto (new_booking ck planner dto day (next_id s))
        (s\<lparr>bookings := bookings s @ [new_booking ck planner dto day (next_id s)],
           next_id := Suc (next_id s)\<rparr>))
   else \<exists>e. booking_create D ck planner dto s = (Inl e, s)"
proof (cases "bookable D ck planner dto s")
  case True
  then show ?thesis
    by (rule bookable_passes) (use True in \<open>simp add: booking_create_def create_insert_def Let_def\<close>)
next
  case False
  then show ?thesis
    by (auto simp: bookable_def booking_create_def create_check_def create_block_check_def create_slot_check_def
        create_insert_def str_le_def list_ex_iff split: option.splits sum.splits
        dest!: find_SomeD) (auto simp: find_None_iff)
qed

section \<open>Slots\<close>

text \<open>
  The live bookings of an artist on a day; whether two of them can share a slot is a question
  about interleaved proposals, answered in Booking_Races.
\<close>

definition is_live :: "booking \<Rightarrow> bool" where
  "is_live b \<longleftrightarrow> b_status b \<in> {B_pending, B_accepted}"

definition slot_of :: "booking \<Rightarrow> uuid \<times> string" where
  "slot_of b = (b_artist_id b, b_event_date b)"

definition slots_ok :: "db \<Rightarrow> bool" where
  "slots_ok s \<longleftrightarrow> distinct (map slot_of (filter is_live (bookings s)))"

lemma slots_ok_cong: "bookings s = bookings t \<Longrightarrow> slots_ok s = slots_ok t"
  by (simp add: slots_ok_def)

lemma slots_ok_notify [simp]: "slots_ok (insert_notification ck u ty ti d s) = slots_ok s"
  by (rule slots_ok_cong) simp

lemma slots_ok_update:
  assumes "slots_ok s" and "\<And>b. slot_of (f b) = slot_of b" and "\<And>b. P b \<Longrightarrow> is_live (f b) \<Longrightarrow> is_live b"
  shows "slots_ok (s\<lparr>bookings := update_where P f (bookings s)\<rparr>)"
  using assms unfolding slots_ok_def by (simp add: distinct_filter_update_where)

section \<open>Nightly completion\<close>

text \<open>
  The nightly batch completes exactly the accepted bookings dated yesterday or earlier,
  reports exactly those, and a second run at the same hour finds nothing left to do.
\<close>

theorem mark_completed_batch_exact:
  "case mark_completed_batch ck s of (done_rows, s') \<Rightarrow>
     map b_id done_rows = map b_id (filter (is_over ck) (bookings s))
   \<and> list_all2 (\<lambda>b b'. b' = (if is_over ck b then b\<lparr>b_status := B_completed\<rparr> else b)) (bookings s) (bookings s')
   \<and> mark_completed_batch ck s' = ([], s')"
proof -
  let ?done = "\<lambda>b. b\<lparr>b_status := B_completed\<rparr>"
  have "list_all2 (\<lambda>b b'. b' = (if is_over ck b then ?done b else b)) (bookings s)
      (update_where (is_over ck) ?done (bookings s))"
    by (simp add: update_where_def list_all2_map2 list_all2_same)
  moreover have "map b_id (updated_rows (is_over ck) ?done (bookings s)) =
      map b_id (filter (is_over ck) (bookings s))"
    by (simp add: updated_rows_def)
  ultimately show ?thesis
    using complete_cas.rival_loses [of ck ?done "bookings s"]
      complete_cas.rival_changes_nothing [of ck ?done "bookings s"]
    by (simp add: mark_completed_batch_def)
qed

end
