(* ===== verification/Booking_Races.thy ===== *)
theory Booking_Races
  imports Bookings
begin

text \<open>
  The statements of concurrent requests on the booking table, interleaved. A thread is one
  request in flight; a step is one statement of one thread, or the nightly batch. The pieces are
  those \<open>create\<close>, \<open>respond\<close> and \<open>cancel\<close> are composed of in Bookings, so the machine runs
  the code's own reads, inserts, swaps and notifications.
\<close>

datatype bk_request =
    Answer uuid uuid decision \<comment> \<open>artist, booking, decision\<close>
  | Call_off uuid uuid "string option" \<comment> \<open>user, booking, note\<close>

datatype bk_thread =
    Idle
  | Asked bk_request
  | Checked bk_request booking \<comment> \<open>the row the checks were made on\<close>
  | Swapped bk_request booking booking \<comment> \<open>and the row the swap returned\<close>
  | Proposed user_row create_booking_dto
  | Artist_read user_row create_booking_dto \<comment> \<open>the artist was there\<close>
  | Blocks_read user_row create_booking_dto \<comment> \<open>no day off was\<close>
  | Slot_read user_row create_booking_dto \<comment> \<open>no booking on the day was; the insert is next\<close>
  | Stored user_row create_booking_dto booking \<comment> \<open>the row the insert returned\<close>
  | Returned "booking result"

record bk_sys =
  store :: db
  threads :: "nat \<Rightarrow> bk_thread"

fun bk_check :: "bk_request \<Rightarrow> db \<Rightarrow> booking result" where
  "bk_check (Answer a bid dec) s = respond_check a bid s"
| "bk_check (Call_off u bid note) s = cancel_check u bid s"

fun bk_swap :: "clock \<Rightarrow> bk_request \<Rightarrow> db \<Rightarrow> booking result \<times> db" where
  "bk_swap ck (Answer a bid dec) s = respond_swap ck bid dec s"
| "bk_swap ck (Call_off u bid note) s = cancel_swap ck u bid note s"

fun bk_notify :: "clock \<Rightarrow> bk_request \<Rightarrow> booking \<Rightarrow> db \<Rightarrow> db" where
  "bk_notify ck (Answer a bid dec) b s = respond_notify ck bid dec b s"
| "bk_notify ck (Call_off u bid note) b s = cancel_notify ck u bid b s"

text \<open>One request run alone, statement after statement, is the operation of the service.\<close>

lemma bk_alone_respond:
  "respond ck a bid dec s =
     (case bk_check (Answer a bid dec) s of Inl e \<Rightarrow> (Inl e, s)
      | Inr b \<Rightarrow> (case bk_swap ck (Answer a bid dec) s of
          (Inl e, s1) \<Rightarrow> (Inl e, s1)
        | (Inr u, s1) \<Rightarrow> (Inr u, bk_notify ck (Answer a bid dec) b s1)))"
  by (simp add: respond_def split: sum.splits prod.splits)

lemma bk_alone_cancel:
  "cancel ck u bid note s =
     (case bk_check (Call_off u bid note) s of Inl e \<Rightarrow> (Inl e, s)
      | Inr b \<Rightarrow> (case bk_swap ck (Call_off u bid note) s of
          (Inl e, s1) \<Rightarrow> (Inl e, s1)
        | (Inr r, s1) \<Rightarrow> (Inr r, bk_notify ck (Call_off u bid note) b s1)))"
  by (simp add: cancel_def split: sum.splits prod.splits)

lemma bk_alone_create:
  "booking_create D ck p dto s =
     (case create_check ck p dto s of Inl e \<Rightarrow> (Inl e, s)
      | Inr _ \<Rightarrow> (case create_block_check D dto s of Inl e \<Rightarrow> (Inl e, s)
      | Inr _ \<Rightarrow> (case create_slot_check D dto s of Inl e \<Rightarrow> (Inl e, s)
      | Inr _ \<Rightarrow> (case create_insert D ck p dto s of
          (Inl e, s1) \<Rightarrow> (Inl e, s1)
        | (Inr b, s1) \<Rightarrow> (Inr b, create_notify ck p dto b s1)))))"
  by (simp add: booking_create_def)

abbreviation put :: "bk_sys \<Rightarrow> nat \<Rightarrow> bk_thread \<Rightarrow> bk_sys" where
  "put x i th \<equiv> x\<lparr>threads := (threads x)(i := th)\<rparr>"

inductive bk_step :: "date_input \<Rightarrow> bk_sys \<Rightarrow> bk_sys \<Rightarrow> bool" for D where
  arrive: "threads x i = Idle \<Longrightarrow> bk_step D x (put x i (Asked req))"
| refuse: "threads x i = Asked req \<Longrightarrow> bk_check req (store x) = Inl e \<Longrightarrow>
     bk_step D x (put x i (Returned (Inl e)))"
| check: "threads x i = Asked req \<Longrightarrow> bk_check req (store x) = Inr b \<Longrightarrow>
     bk_step D x (put x i (Checked req b))"
| lose: "threads x i = Checked req b \<Longrightarrow> bk_swap ck req (store x) = (Inl e, s1) \<Longrightarrow>
     bk_step D x (x\<lparr>store := s1, threads := (threads x)(i := Returned (Inl e))\<rparr>)"
| win: "threads x i = Checked req b \<Longrightarrow> bk_swap ck req (store x) = (Inr u, s1) \<Longrightarrow>
     bk_step D x (x\<lparr>store := s1, threads := (threads x)(i := Swapped req b u)\<rparr>)"
| tell: "threads x i = Swapped req b u \<Longrightarrow>
     bk_step D x (x\<lparr>store := bk_notify ck req b (store x), threads := (threads x)(i := Returned (Inr u))\<rparr>)"
| propose: "threads x i = Idle \<Longrightarrow> bk_step D x (put x i (Proposed p dto))"
| no_artist: "threads x i = Proposed p dto \<Longrightarrow> create_check ck p dto (store x) = Inl e \<Longrightarrow>
     bk_step D x (put x i (Returned (Inl e)))"
| artist: "threads x i = Proposed p dto \<Longrightarrow> create_check ck p dto (store x) = Inr u \<Longrightarrow>
     bk_step D x (put x i (Artist_read p dto))"
| day_off: "threads x i = Artist_read p dto \<Longrightarrow> create_block_check D dto (store x) = Inl e \<Longrightarrow>
     bk_step D x (put x i (Returned (Inl e)))"
| day_free: "threads x i = Artist_read p dto \<Longrightarrow> create_block_check D dto (store x) = Inr u \<Longrightarrow>
     bk_step D x (put x i (Blocks_read p dto))"
| slot_taken: "threads x i = Blocks_read p dto \<Longrightarrow> create_slot_check D dto (store x) = Inl e \<Longrightarrow>
     bk_step D x (put x i (Returned (Inl e)))"
| slot_free: "threads x i = Blocks_read p dto \<Longrightarrow> create_slot_check D dto (store x) = Inr u \<Longrightarrow>
     bk_step D x (put x i (Slot_read p dto))"
| not_stored: "threads x i = Slot_read p dto \<Longrightarrow> create_insert D ck p dto (store x) = (Inl e, s1) \<Longrightarrow>
     bk_step D x (x\<lparr>store := s1, threads := (threads x)(i := Returned (Inl e))\<rparr>)"
| stored: "threads x i = Slot_read p dto \<Longrightarrow> create_insert D ck p dto (store x) = (Inr b, s1) \<Longrightarrow>
     bk_step D x (x\<lparr>store := s1, threads := (threads x)(i := Stored p dto b)\<rparr>)"
| inform: "threads x i = Stored p dto b \<Longrightarrow>
     bk_step D x (x\<lparr>store := create_notify ck p dto b (store x), threads := (threads x)(i := Returned (Inr b))\<rparr>)"
| complete: "bk_step D x (x\<lparr>store := snd (mark_completed_batch ck (store x))\<rparr>)"

inductive_cases bk_stepE: "bk_step D x y"

inductive bk_reach :: "date_input \<Rightarrow> bk_sys \<Rightarrow> bk_sys \<Rightarrow> bool" for D x where
  start: "bk_reach D x x"
| step: "bk_reach D x y \<Longrightarrow> bk_step D y z \<Longrightarrow> bk_reach D x z"

section \<open>Status moves\<close>

text \<open>The life cycle of a booking: the moves the code means to allow.\<close>

fun may_become :: "booking_status \<Rightarrow> booking_status \<Rightarrow> bool" where
  "may_become B_pending t = (t \<noteq> B_completed)"
| "may_become B_accepted t = (t \<in> {B_accepted, B_cancelled, B_completed})"
| "may_become t t' = (t' = t)"

lemma may_become_refl [simp]: "may_become t t"
  by (cases t) auto

text \<open>Over several steps a pending booking may also end completed.\<close>

fun may_end :: "booking_status \<Rightarrow> booking_status \<Rightarrow> bool" where
  "may_end B_pending t = True"
| "may_end t t' = may_become t t'"

lemma may_end_refl [simp]: "may_end t t"
  by (cases t) auto

lemma may_end_trans: "may_end t1 t2 \<Longrightarrow> may_become t2 t3 \<Longrightarrow> may_end t1 t3"
  by (cases t1; cases t2) auto

text \<open>Every row of the old table is in the new one with a status it may move to.\<close>

definition rows_advance :: "(booking_status \<Rightarrow> booking_status \<Rightarrow> bool) \<Rightarrow> booking list \<Rightarrow> booking list \<Rightarrow> bool" where
  "rows_advance R bs bs' \<longleftrightarrow>
     (\<exists>new. list_all2 (\<lambda>b b'. b_id b' = b_id b \<and> R (b_status b) (b_status b')) bs (take (length bs) bs')
        \<and> bs' = take (length bs) bs' @ new)"

lemma rows_advance_update:
  assumes "\<And>b. P b \<Longrightarrow> may_become (b_status b) (b_status (f b))" and "\<And>b. b_id (f b) = b_id b"
  shows "rows_advance may_become bs (update_where P f bs)"
  using assms
  by (auto simp: rows_advance_def update_where_def list_all2_map2 list_all2_same)

lemma rows_advance_refl [simp]: "rows_advance may_become bs bs"
  by (simp add: rows_advance_def list_all2_same)

lemma rows_advance_append: "rows_advance may_become bs (bs @ new)"
  by (simp add: rows_advance_def list_all2_same)

lemma swap_advances:
  "bk_swap ck req s = (r, s1) \<Longrightarrow> rows_advance may_become (bookings s) (bookings s1)"
proof (cases req)
  case (Answer a bid dec)
  assume "bk_swap ck req s = (r, s1)"
  with Answer show ?thesis
    by (auto simp: respond_swap_def is_pending_def intro!: rows_advance_update
        split: list.splits decision.splits)
next
  case (Call_off u bid msg)
  assume "bk_swap ck req s = (r, s1)"
  with Call_off show ?thesis
    by (auto simp: cancel_swap_def is_cancellable_def cancellable_statuses_def
        intro!: rows_advance_update split: list.splits)
qed

lemma bookings_bk_notify [simp]: "bookings (bk_notify ck req b s) = bookings s"
  by (cases req) (simp_all add: respond_notify_def cancel_notify_def)

lemma bookings_create_notify [simp]: "bookings (create_notify ck p dto b s) = bookings s"
  by (simp add: create_notify_def)

lemma insert_advances:
  "create_insert D ck p dto s = (r, s1) \<Longrightarrow> rows_advance may_become (bookings s) (bookings s1)"
  by (auto simp: create_insert_def Let_def intro: rows_advance_append split: sum.splits if_splits)

lemma step_advances: "bk_step D x y \<Longrightarrow> rows_advance may_become (bookings (store x)) (bookings (store y))"
proof (induction rule: bk_step.induct)
  case (complete x ck)
  show ?case
    by (auto simp: mark_completed_batch_def is_over_def intro!: rows_advance_update)
qed (auto intro: swap_advances insert_advances)

lemma rows_advance_trans:
  assumes "rows_advance may_end bs1 bs2" and "rows_advance may_become bs2 bs3"
  shows "rows_advance may_end bs1 bs3"
proof -
  let ?n = "length bs1"
  from assms(1) have l2: "?n \<le> length bs2"
    by (auto simp: rows_advance_def dest!: list_all2_lengthD)
  from assms(2) have l3: "length bs2 \<le> length bs3"
    by (auto simp: rows_advance_def dest!: list_all2_lengthD)
  have "b_id (bs3 ! i) = b_id (bs1 ! i) \<and> may_end (b_status (bs1 ! i)) (b_status (bs3 ! i))" if "i < ?n" for i
    using assms that l2 l3 may_end_trans
    by (auto simp: rows_advance_def list_all2_conv_all_nth)
  with l2 l3 show ?thesis
    by (auto simp: rows_advance_def list_all2_conv_all_nth intro!: exI [of _ "drop ?n bs3"])
qed

lemma reach_advances: "bk_reach D x y \<Longrightarrow> rows_advance may_end (bookings (store x)) (bookings (store y))"
proof (induction rule: bk_reach.induct)
  case start
  show ?case by (simp add: rows_advance_def list_all2_same)
next
  case (step y z)
  then show ?case by (blast intro: rows_advance_trans step_advances)
qed


text \<open>
  C1: under any interleaving of answers, cancellations, proposals and nightly runs, a
  booking that was declined, cancelled or completed keeps that status, and an accepted one
  never returns to pending or becomes declined: the overwriting the compare-and-swap is
  there to stop does not happen.
\<close>

theorem terminal_statuses_are_final:
  assumes "bk_reach D x y" and "b \<in> set (bookings (store x))"
  shows "\<exists>b' \<in> set (bookings (store y)). b_id b' = b_id b \<and> may_end (b_status b) (b_status b')"
proof -
  from assms(1) have "rows_advance may_end (bookings (store x)) (bookings (store y))"
    by (rule reach_advances)
  moreover from assms(2) obtain i where "i < length (bookings (store x))" and "bookings (store x) ! i = b"
    by (auto simp: in_set_conv_nth)
  ultimately show ?thesis
    by (auto simp: rows_advance_def list_all2_conv_all_nth intro!: bexI [of _ "bookings (store y) ! i"])
qed

section \<open>Notifications tell the truth\<close>

text \<open>A notification of this type about this booking has been written.\<close>

definition announced :: "string \<Rightarrow> uuid \<Rightarrow> db \<Rightarrow> bool" where
  "announced ty bid s \<longleftrightarrow>
     list_ex (\<lambda>n. n_type n = ty \<and> map_of (n_data n) ''booking_id'' = Some (JUuid bid)) (notifications s)"

text \<open>What an answer, once swapped in, makes of the status for ever after.\<close>

fun outcome_stands :: "decision \<Rightarrow> booking_status \<Rightarrow> bool" where
  "outcome_stands Accept t = (t \<in> {B_accepted, B_cancelled, B_completed})"
| "outcome_stands Decline t = (t = B_declined)"

definition stands :: "decision \<Rightarrow> uuid \<Rightarrow> db \<Rightarrow> bool" where
  "stands dec bid s \<longleftrightarrow>
     bid < next_id s \<and> (\<forall>b \<in> set (bookings s). b_id b = bid \<longrightarrow> outcome_stands dec (b_status b))"

fun answer_type :: "decision \<Rightarrow> string" where
  "answer_type Accept = ''booking_accepted''"
| "answer_type Decline = ''booking_declined''"

definition truthful :: "bk_sys \<Rightarrow> bool" where
  "truthful x \<longleftrightarrow>
     booking_ids_ok (store x)
   \<and> (\<forall>dec bid. announced (answer_type dec) bid (store x) \<longrightarrow> stands dec bid (store x))
   \<and> (\<forall>i a bid dec b u. threads x i = Swapped (Answer a bid dec) b u \<longrightarrow> stands dec bid (store x))"

text \<open>
  What one statement does to the table: rows advance in place, and new rows get fresh ids.
\<close>

definition moves_on :: "db \<Rightarrow> db \<Rightarrow> bool" where
  "moves_on s t \<longleftrightarrow> rows_advance may_become (bookings s) (bookings t) \<and> next_id s \<le> next_id t
     \<and> (\<exists>new. map b_id (bookings t) = map b_id (bookings s) @ new \<and> distinct new
           \<and> (\<forall>i \<in> set new. next_id s \<le> i \<and> i < next_id t))"

lemma moves_on_stands:
  assumes "moves_on s t" and "stands dec bid s"
  shows "stands dec bid t"
proof -
  let ?n = "length (bookings s)"
  from assms(1) obtain new where ids: "map b_id (bookings t) = map b_id (bookings s) @ new"
    and fresh: "\<forall>i \<in> set new. next_id s \<le> i"
    by (auto simp: moves_on_def)
  have keep: "outcome_stands dec q" if "outcome_stands dec p" and "may_become p q" for p q
    using that by (cases dec; cases p) auto
  have "outcome_stands dec (b_status (bookings t ! i))"
    if i: "i < length (bookings t)" "b_id (bookings t ! i) = bid" for i
  proof (cases "i < ?n")
    case True
    with assms(1) have "b_id (bookings t ! i) = b_id (bookings s ! i)"
      and "may_become (b_status (bookings s ! i)) (b_status (bookings t ! i))"
      by (auto simp: moves_on_def rows_advance_def list_all2_conv_all_nth)
    with assms(2) True i(2) keep show ?thesis by (auto simp: stands_def)
  next
    case False
    have len: "length (bookings t) = ?n + length new"
      using ids by (metis length_append length_map)
    have "b_id (bookings t ! i) = (map b_id (bookings s) @ new) ! i"
      using i(1) by (simp flip: ids)
    also have "\<dots> = new ! (i - ?n)" using False by (simp add: nth_append)
    finally have "bid \<in> set new" using False i len nth_mem [of "i - ?n" new] by auto
    with fresh assms(2) show ?thesis by (auto simp: stands_def)
  qed
  with assms show ?thesis by (auto simp: stands_def moves_on_def in_set_conv_nth)
qed

lemma moves_on_ids: "moves_on s t \<Longrightarrow> booking_ids_ok s \<Longrightarrow> booking_ids_ok t"
proof -
  have ok: "booking_ids_ok r \<longleftrightarrow> distinct (map b_id (bookings r)) \<and> (\<forall>i \<in> set (map b_id (bookings r)). i < next_id r)" for r
    by (simp add: booking_ids_ok_def)
  assume "moves_on s t" and "booking_ids_ok s"
  then show "booking_ids_ok t"
    unfolding ok moves_on_def by (fastforce simp: image_iff)
qed

lemma moves_on_update:
  assumes "\<And>b. P b \<Longrightarrow> may_become (b_status b) (b_status (f b))" and "\<And>b. b_id (f b) = b_id b"
  shows "moves_on s (s\<lparr>bookings := update_where P f (bookings s)\<rparr>)"
  using rows_advance_update [of P f, OF assms] assms(2)
  by (simp add: moves_on_def map_update_where_same)

lemma moves_on_refl [simp]: "moves_on s s"
  by (simp add: moves_on_def)

lemma moves_on_swap: "bk_swap ck req s = (r, s1) \<Longrightarrow> moves_on s s1"
  by (cases req)
    (auto simp: respond_swap_def cancel_swap_def is_pending_def is_cancellable_def cancellable_statuses_def
      intro!: moves_on_update split: list.splits decision.splits)

lemma moves_on_insert: "create_insert D ck p dto s = (r, s1) \<Longrightarrow> moves_on s s1"
  by (auto simp: moves_on_def create_insert_def new_booking_def Let_def rows_advance_append split: sum.splits if_splits)

lemma moves_on_inform: "moves_on s (create_notify ck p dto b s)"
  by (simp add: moves_on_def create_notify_def)

lemma moves_on_complete: "moves_on s (snd (mark_completed_batch ck s))"
  by (auto simp: mark_completed_batch_def is_over_def intro!: moves_on_update)

lemma notifications_swap: "bk_swap ck req s = (r, s1) \<Longrightarrow> notifications s1 = notifications s"
  by (cases req) (auto simp: respond_swap_def cancel_swap_def split: list.splits)

lemma notifications_insert_booking: "create_insert D ck p dto s = (r, s1) \<Longrightarrow> notifications s1 = notifications s"
  by (auto simp: create_insert_def Let_def split: sum.splits if_splits)

lemma announced_inform:
  "announced (answer_type dec) bid (create_notify ck p dto b s) = announced (answer_type dec) bid s"
  by (cases dec) (auto simp: announced_def create_notify_def table_simps)

lemma announced_complete: "announced ty bid (snd (mark_completed_batch ck s)) = announced ty bid s"
  by (simp add: announced_def mark_completed_batch_def)

text \<open>The row a winning answer leaves behind carries its decision.\<close>

lemma winner_stands:
  assumes "respond_swap ck bid dec s = (Inr u, s1)" and ok: "booking_ids_ok s"
  shows "stands dec bid s1"
proof -
  from assms(1) have s1: "s1 = s\<lparr>bookings := update_where (is_pending bid) (answer ck dec) (bookings s)\<rparr>"
    and "updated_rows (is_pending bid) (answer ck dec) (bookings s) \<noteq> []"
    by (auto simp: respond_swap_def split: list.splits)
  then obtain b where b: "b \<in> set (bookings s)" "is_pending bid b"
    by (auto simp: table_simps)
  have "outcome_stands dec (b_status b')" if "b' \<in> set (bookings s1)" "b_id b' = bid" for b'
  proof -
    from that s1 obtain b0 where b0: "b0 \<in> set (bookings s)"
      and b': "b' = (if is_pending bid b0 then answer ck dec b0 else b0)"
      by (auto simp: table_simps)
    with that have "b_id b0 = b_id b" using b by (auto simp: is_pending_def split: if_splits)
    with ok b b0 have "b0 = b" by (auto simp: booking_ids_ok_def dest: distinct_key_eq)
    with b b' show ?thesis by (cases dec) auto
  qed
  moreover from ok b s1 have "bid < next_id s1" by (auto simp: booking_ids_ok_def is_pending_def)
  ultimately show ?thesis by (auto simp: stands_def)
qed


lemma moves_on_notify: "moves_on s (bk_notify ck req b s)"
  by (cases req) (simp_all add: moves_on_def respond_notify_def cancel_notify_def)

lemma step_moves_on: "bk_step D x y \<Longrightarrow> moves_on (store x) (store y)"
  by (induction rule: bk_step.induct)
    (auto intro: moves_on_swap moves_on_notify moves_on_insert moves_on_inform moves_on_complete)

text \<open>
  Which announcements a step adds: only a thread that won its swap announces, and it
  announces the answer it swapped in.
\<close>

lemma announced_notify:
  "announced (answer_type dec) bid (bk_notify ck req b s) \<Longrightarrow>
     announced (answer_type dec) bid s \<or> (\<exists>a. req = Answer a bid dec)"
  by (cases req; cases dec)
    (auto simp: announced_def respond_notify_def cancel_notify_def table_simps split: decision.splits)

lemma step_announced:
  assumes "bk_step D x y" and "announced (answer_type dec) bid (store y)"
  shows "announced (answer_type dec) bid (store x)
    \<or> (\<exists>i a b u. threads x i = Swapped (Answer a bid dec) b u)"
  using assms
proof (induction rule: bk_step.induct)
  case (tell x i req b u ck)
  then show ?case by (fastforce dest: announced_notify)
next
  case (inform x i p dto b ck)
  then show ?case by (simp add: announced_inform)
next
  case (complete x ck)
  then show ?case by (simp add: announced_complete)
qed (auto simp: announced_def dest!: notifications_swap notifications_insert_booking)

lemma step_swapped:
  assumes "bk_step D x y" and "threads y i = Swapped (Answer a bid dec) b u"
  shows "threads x i = Swapped (Answer a bid dec) b u
    \<or> (\<exists>ck. respond_swap ck bid dec (store x) = (Inr u, store y))"
  using assms by (induction rule: bk_step.induct) (auto split: if_splits)

lemma truthful_step:
  assumes "bk_step D x y" and "truthful x"
  shows "truthful y"
proof -
  have ids: "booking_ids_ok (store x)" using assms(2) by (simp add: truthful_def)
  have said: "announced (answer_type dec) bid (store x) \<Longrightarrow> stands dec bid (store x)"
    and held: "threads x i = Swapped (Answer a bid dec) b u \<Longrightarrow> stands dec bid (store x)"
    for dec bid i a b u
    using assms(2) unfolding truthful_def by blast+
  have on: "moves_on (store x) (store y)" using assms(1) by (rule step_moves_on)
  note still = moves_on_stands [OF on]
  have "announced (answer_type dec) bid (store y) \<Longrightarrow> stands dec bid (store y)" for dec bid
    using step_announced [OF assms(1)] said held still by blast
  moreover have "threads y i = Swapped (Answer a bid dec) b u \<Longrightarrow> stands dec bid (store y)" for i a bid dec b u
    using step_swapped [OF assms(1)] held still winner_stands [OF _ ids] by blast
  ultimately show ?thesis
    unfolding truthful_def using moves_on_ids [OF on ids] by blast
qed

text \<open>A system before any request: ids in order, nobody told of any answer, all threads idle.\<close>

definition quiet :: "bk_sys \<Rightarrow> bool" where
  "quiet x \<longleftrightarrow> booking_ids_ok (store x) \<and> notifications (store x) = [] \<and> threads x = (\<lambda>i. Idle)"

lemma quiet_truthful: "quiet x \<Longrightarrow> truthful x"
  by (simp add: quiet_def truthful_def announced_def)

lemma reach_truthful: "bk_reach D x y \<Longrightarrow> truthful x \<Longrightarrow> truthful y"
  by (induction rule: bk_reach.induct) (auto intro: truthful_step)

text \<open>
  C2: the planner is told the truth. Under any interleaving of requests, once somebody has
  been told that a booking was accepted (declined), the row of that booking is and stays
  accepted, or later cancelled or completed (declined). In particular no booking that
  exists is ever announced both as accepted and as declined.
\<close>

theorem announcements_are_true:
  assumes "quiet x" and "bk_reach D x y" and "announced (answer_type dec) (b_id b) (store y)"
    and "b \<in> set (bookings (store y))"
  shows "outcome_stands dec (b_status b)
    \<and> \<not> (announced ''booking_accepted'' (b_id b) (store y) \<and> announced ''booking_declined'' (b_id b) (store y))"
proof -
  have "truthful y" using assms(1,2) by (blast intro: reach_truthful quiet_truthful)
  then have said: "announced (answer_type d) (b_id b) (store y) \<Longrightarrow> outcome_stands d (b_status b)" for d
    using assms(4) unfolding truthful_def stands_def by blast
  from said [of Accept] said [of Decline] said [OF assms(3)] show ?thesis by auto
qed


section \<open>One day, one live booking\<close>

text \<open>
  The slot a thread has found free and is about to store a booking in. The database does not
  hold it for the thread: it is a claim only as long as nobody else makes the same.
\<close>

fun claim :: "date_input \<Rightarrow> bk_thread \<Rightarrow> (uuid \<times> string) option" where
  "claim D (Slot_read p dto) =
     (case D (cb_event_date dto) of Inl e \<Rightarrow> None | Inr day \<Rightarrow> Some (cb_artist_id dto, day))"
| "claim D th = None"

definition no_rivals :: "date_input \<Rightarrow> bk_sys \<Rightarrow> bool" where
  "no_rivals D x \<longleftrightarrow> (\<forall>i j k. claim D (threads x i) = Some k \<longrightarrow> claim D (threads x j) = Some k \<longrightarrow> i = j)"

text \<open>A run in which no two proposals were between their check and their insert for one slot at once.\<close>

inductive calm_reach :: "date_input \<Rightarrow> bk_sys \<Rightarrow> bk_sys \<Rightarrow> bool" for D x where
  start: "calm_reach D x x"
| step: "calm_reach D x y \<Longrightarrow> bk_step D y z \<Longrightarrow> no_rivals D z \<Longrightarrow> calm_reach D x z"

lemma calm_is_reach: "calm_reach D x y \<Longrightarrow> bk_reach D x y"
  by (induction rule: calm_reach.induct) (auto intro: bk_reach.intros)

definition open_slot :: "uuid \<times> string \<Rightarrow> db \<Rightarrow> bool" where
  "open_slot k s \<longleftrightarrow> (\<forall>b \<in> set (bookings s). is_live b \<longrightarrow> slot_of b \<noteq> k)"

text \<open>The invariant: no slot is held twice, and what a thread found free is free still.\<close>

definition claims_ok :: "date_input \<Rightarrow> bk_sys \<Rightarrow> bool" where
  "claims_ok D x \<longleftrightarrow> slots_ok (store x) \<and> (\<forall>i k. claim D (threads x i) = Some k \<longrightarrow> open_slot k (store x))"

text \<open>A statement that makes no booking live, and moves none, keeps both.\<close>

definition slots_kept :: "db \<Rightarrow> db \<Rightarrow> bool" where
  "slots_kept s t \<longleftrightarrow> (slots_ok s \<longrightarrow> slots_ok t) \<and> (\<forall>k. open_slot k s \<longrightarrow> open_slot k t)"

lemma slots_kept_same: "bookings t = bookings s \<Longrightarrow> slots_kept s t"
  by (simp add: slots_kept_def slots_ok_def open_slot_def)

lemma slots_kept_refl [simp]: "slots_kept s s"
  by (simp add: slots_kept_same)

lemma slots_kept_update:
  assumes "\<And>b. slot_of (f b) = slot_of b" and "\<And>b. P b \<Longrightarrow> is_live (f b) \<Longrightarrow> is_live b"
  shows "slots_kept s (s\<lparr>bookings := update_where P f (bookings s)\<rparr>)"
  using assms slots_ok_update [of s f P]
  by (fastforce simp: slots_kept_def open_slot_def table_simps split: if_splits)

lemma slots_kept_swap: "bk_swap ck req s = (r, s1) \<Longrightarrow> slots_kept s s1"
  by (cases req)
    (auto simp: respond_swap_def cancel_swap_def slot_of_def is_live_def is_pending_def
      intro!: slots_kept_update split: list.splits)

lemma slots_kept_complete: "slots_kept s (snd (mark_completed_batch ck s))"
  by (auto simp: mark_completed_batch_def slot_of_def is_live_def intro!: slots_kept_update)

text \<open>An insert keeps every slot but its own, and its own was free.\<close>

lemma insert_takes_slot:
  assumes "create_insert D ck p dto s = (r, s1)"
  shows "s1 = s \<or> (\<exists>b. r = Inr b \<and> bookings s1 = bookings s @ [b] \<and> claim D (Slot_read p dto) = Some (slot_of b))"
  using assms
  by (auto simp: create_insert_def Let_def new_booking_def slot_of_def split: sum.splits if_splits)

lemma slot_check_opens:
  assumes "create_slot_check D dto s = Inr u" and "claim D (Slot_read p dto) = Some k"
  shows "open_slot k s"
  using assms
  by (auto simp: create_slot_check_def open_slot_def holds_slot_def is_live_def slot_of_def find_None_iff
      split: sum.splits option.splits)

text \<open>Where a thread's claim comes from, and what a step does to the table.\<close>

lemma step_claims:
  assumes "bk_step D x y" and "claim D (threads y i) = Some k"
  shows "claim D (threads x i) = Some k \<or> (store y = store x \<and> open_slot k (store x))"
  using assms
proof (induction rule: bk_step.induct)
  case (slot_free x j p dto u)
  then show ?case by (auto split: if_splits dest: slot_check_opens simp del: claim.simps)
qed (auto split: if_splits)

lemma step_slots:
  assumes "bk_step D x y"
  shows "slots_kept (store x) (store y)
    \<or> (\<exists>i b. claim D (threads x i) = Some (slot_of b) \<and> claim D (threads y i) = None
         \<and> bookings (store y) = bookings (store x) @ [b])"
  using assms
proof (induction rule: bk_step.induct)
  case (not_stored x i p dto ck e s1)
  then show ?case by (auto dest!: insert_takes_slot intro: slots_kept_same)
next
  case (stored x i p dto ck b s1)
  from insert_takes_slot [OF stored(2)]
  consider "s1 = store x" | b' where "bookings s1 = bookings (store x) @ [b']" "claim D (Slot_read p dto) = Some (slot_of b')"
    by blast
  then show ?case
  proof cases
    case (2 b')
    with stored(1) show ?thesis by (intro disjI2 exI [of _ i] exI [of _ b']) simp
  qed simp
next
  case (lose x i req b ck e s1)
  then show ?case by (simp add: slots_kept_swap)
next
  case (win x i req b ck u s1)
  then show ?case by (simp add: slots_kept_swap)
qed (auto intro!: slots_kept_same slots_kept_complete)

lemma claims_ok_step:
  assumes "bk_step D x y" and "claims_ok D x" and "no_rivals D x"
  shows "claims_ok D y"
proof -
  have ok: "slots_ok (store x)" and free: "claim D (threads x i) = Some k \<Longrightarrow> open_slot k (store x)" for i k
    using assms(2) unfolding claims_ok_def by blast+
  from step_slots [OF assms(1)] show ?thesis
  proof (elim disjE exE conjE)
    assume "slots_kept (store x) (store y)"
    then have kept: "slots_ok (store y)" "open_slot k (store x) \<Longrightarrow> open_slot k (store y)" for k
      using ok unfolding slots_kept_def by blast+
    have "open_slot k (store y)" if k: "claim D (threads y i) = Some k" for i k
      using step_claims [OF assms(1) k] free kept(2) by blast
    with kept(1) show ?thesis by (simp add: claims_ok_def)
  next
    fix i b
    assume i: "claim D (threads x i) = Some (slot_of b)" "claim D (threads y i) = None"
      and rows: "bookings (store y) = bookings (store x) @ [b]"
    have "open_slot (slot_of b) (store x)" using i(1) by (rule free)
    with ok rows have "slots_ok (store y)" by (auto simp: slots_ok_def open_slot_def)
    moreover have "open_slot k (store y)" if k: "claim D (threads y j) = Some k" for j k
    proof -
      from k i(2) have ji: "j \<noteq> i" by auto
      from step_claims [OF assms(1) k] rows have old: "claim D (threads x j) = Some k" by auto
      with i(1) ji assms(3) have "k \<noteq> slot_of b" unfolding no_rivals_def by blast
      with free [OF old] rows show ?thesis by (auto simp: open_slot_def)
    qed
    ultimately show ?thesis by (auto simp: claims_ok_def)
  qed
qed

lemma calm_claims_ok:
  "calm_reach D x y \<Longrightarrow> no_rivals D x \<Longrightarrow> claims_ok D x \<Longrightarrow> no_rivals D y \<and> claims_ok D y"
  by (induction rule: calm_reach.induct) (auto intro: claims_ok_step)

lemma idle_claims: "threads x = (\<lambda>i. Idle) \<Longrightarrow> no_rivals D x \<and> (claims_ok D x \<longleftrightarrow> slots_ok (store x))"
  by (simp add: no_rivals_def claims_ok_def)

subsection \<open>The proposal made twice\<close>

text \<open>A thread's steps up to the insert read the tables and change none.\<close>

lemma proposal_steps:
  assumes "bookable D ck p dto (store x)" and "threads x i = Idle"
  shows "bk_step D x (put x i (Proposed p dto))"
    and "bk_step D (put x i (Proposed p dto)) (put x i (Artist_read p dto))"
    and "bk_step D (put x i (Artist_read p dto)) (put x i (Blocks_read p dto))"
    and "bk_step D (put x i (Blocks_read p dto)) (put x i (Slot_read p dto))"
proof -
  from assms(1) obtain day where pass: "create_check ck p dto (store x) = Inr ()"
    "create_block_check D dto (store x) = Inr ()" "create_slot_check D dto (store x) = Inr ()"
    by (rule bookable_passes)
  show "bk_step D x (put x i (Proposed p dto))" using assms(2) by (rule bk_step.propose)
  show "bk_step D (put x i (Proposed p dto)) (put x i (Artist_read p dto))"
    using bk_step.artist [of "put x i (Proposed p dto)" i p dto ck "()" D] pass by simp
  show "bk_step D (put x i (Artist_read p dto)) (put x i (Blocks_read p dto))"
    using bk_step.day_free [of "put x i (Artist_read p dto)" i p dto D "()"] pass by simp
  show "bk_step D (put x i (Blocks_read p dto)) (put x i (Slot_read p dto))"
    using bk_step.slot_free [of "put x i (Blocks_read p dto)" i p dto D "()"] pass by simp
qed

lemma proposal_reaches_insert:
  assumes "bookable D ck p dto (store x)" and "threads x i = Idle"
  shows "bk_reach D x (put x i (Slot_read p dto))"
proof -
  note s = proposal_steps [OF assms]
  show ?thesis
    by (rule bk_reach.step [OF bk_reach.step [OF bk_reach.step [OF bk_reach.step [OF bk_reach.start s(1)] s(2)] s(3)] s(4)])
qed

lemma reach_trans: "bk_reach D y z \<Longrightarrow> bk_reach D x y \<Longrightarrow> bk_reach D x z"
  by (induction rule: bk_reach.induct) (auto intro: bk_reach.step)

lemma proposal_stored_twice:
  assumes "bookable D ck p dto (store x)" and "threads x = (\<lambda>i. Idle)"
  shows "\<exists>z. bk_reach D x z \<and> \<not> slots_ok (store z)"
proof -
  from assms(1) obtain day where day: "D (cb_event_date dto) = Inr day" "str_le (iso_date (db_now ck)) day"
    by (rule bookable_passes)
  let ?s = "store x" and ?row = "new_booking ck p dto day"
  let ?taken = "?s\<lparr>bookings := bookings ?s @ [?row (next_id ?s)], next_id := Suc (next_id ?s)\<rparr>"
  let ?doubled = "?taken\<lparr>bookings := bookings ?taken @ [?row (next_id ?taken)], next_id := Suc (next_id ?taken)\<rparr>"
  let ?one = "put x 0 (Slot_read p dto)"
  let ?both = "put ?one 1 (Slot_read p dto)"
  have "bk_reach D x ?one" by (rule proposal_reaches_insert) (use assms in simp_all)
  moreover have "bk_reach D ?one ?both" by (rule proposal_reaches_insert) (use assms in simp_all)
  ultimately have y: "bk_reach D x ?both" by (rule reach_trans [rotated])
  let ?first = "?both\<lparr>store := ?taken, threads := (threads ?both)(0 := Stored p dto (?row (next_id ?s)))\<rparr>"
  let ?second = "?first\<lparr>store := ?doubled, threads := (threads ?first)(1 := Stored p dto (?row (next_id ?taken)))\<rparr>"
  have "bk_step D ?both ?first"
    by (rule bk_step.stored [where p = p and dto = dto and ck = ck]) (simp_all add: create_insert_def day Let_def)
  moreover have "bk_step D ?first ?second"
    by (rule bk_step.stored [where p = p and dto = dto and ck = ck]) (simp_all add: create_insert_def day Let_def)
  ultimately have "bk_reach D x ?second" using y by (blast intro: bk_reach.step)
  moreover have "\<not> slots_ok ?doubled" by (simp add: slots_ok_def is_live_def slot_of_def new_booking_def)
  ultimately show ?thesis by (intro exI [of _ ?second]) simp
qed

text \<open>
  C3: However the statements of proposals, answers, cancellations and nightly runs interleave, no
  artist holds two live (pending or accepted) bookings on one day, days being what the server reads
  from the texts sent, as long as no two proposals for that artist and day are between
  their look at the bookings and their insert at the same time. Nothing in the code or the schema
  rules that out, and it is the only way: from any idle system, a proposal that would be accepted
  and is sent twice at once can be stored twice.
\<close>

theorem no_double_booking:
  assumes "threads x = (\<lambda>i. Idle)" and "slots_ok (store x)"
  shows "(calm_reach D x y \<longrightarrow> slots_ok (store y))
   \<and> (bookable D ck p dto (store x) \<longrightarrow> (\<exists>z. bk_reach D x z \<and> \<not> slots_ok (store z)))"
proof (intro conjI impI)
  assume "calm_reach D x y"
  then show "slots_ok (store y)"
    using calm_claims_ok [of D x y] idle_claims [OF assms(1), of D] assms(2) by (simp add: claims_ok_def)
next
  assume "bookable D ck p dto (store x)"
  then show "\<exists>z. bk_reach D x z \<and> \<not> slots_ok (store z)"
    using assms(1) by (rule proposal_stored_twice)
qed


section \<open>Runs of the machine\<close>

text \<open>A proposal alone in the system runs calmly and is stored.\<close>

lemma lone_no_rivals: "threads x = (\<lambda>i. Idle) \<Longrightarrow> no_rivals D (x\<lparr>store := s, threads := (threads x)(i := th)\<rparr>)"
  by (auto simp: no_rivals_def)

lemma lone_no_rivals_put: "threads x = (\<lambda>i. Idle) \<Longrightarrow> no_rivals D (put x i th)"
  by (auto simp: no_rivals_def)

lemma lone_proposal_stored:
  assumes "bookable D ck p dto (store x)" and idle: "threads x = (\<lambda>i. Idle)"
  shows "\<exists>y day. calm_reach D x y \<and> D (cb_event_date dto) = Inr day
    \<and> bookings (store y) = bookings (store x) @ [new_booking ck p dto day (next_id (store x))]"
proof -
  from assms(1) obtain day where day: "D (cb_event_date dto) = Inr day" "str_le (iso_date (db_now ck)) day"
    by (rule bookable_passes)
  have i: "threads x 0 = Idle" using idle by simp
  note s = proposal_steps [OF assms(1) i]
  let ?row = "new_booking ck p dto day (next_id (store x))"
  let ?s = "store x\<lparr>bookings := bookings (store x) @ [?row], next_id := Suc (next_id (store x))\<rparr>"
  let ?y = "x\<lparr>store := ?s, threads := (threads x)(0 := Stored p dto ?row)\<rparr>"
  have "calm_reach D x (put x 0 (Slot_read p dto))"
    by (rule calm_reach.step [OF calm_reach.step [OF calm_reach.step [OF calm_reach.step [OF calm_reach.start s(1)] s(2)] s(3)] s(4)])
      (rule lone_no_rivals_put [OF idle])+
  moreover have "bk_step D (put x 0 (Slot_read p dto)) ?y"
    using bk_step.stored [of "put x 0 (Slot_read p dto)" 0 p dto D ck ?row ?s]
    by (simp add: create_insert_def day Let_def)
  ultimately have "calm_reach D x ?y" by (rule calm_reach.step) (rule lone_no_rivals [OF idle])
  with day(1) show ?thesis by (intro exI [of _ ?y] exI [of _ day]) simp
qed

text \<open>An artist with one pending booking, and its planner.\<close>

definition demo_clock :: clock where
  "demo_clock = \<lparr>db_now = 1000, js_now = 1000\<rparr>"

definition demo_booking :: booking where
  "demo_booking =
     \<lparr>b_id = 0, b_artist_id = 7, b_planner_id = 8, b_conversation_id = None, b_event_name = ''gig'',
      b_event_date = ''2030-01-01'', b_event_location = None, b_duration_hours = None,
      b_agreed_fee_usd = None, b_notes = None, b_status = B_pending, b_artist_accepted_at = None,
      b_planner_accepted_at = Some 1, b_cancelled_by = None, b_cancelled_at = None,
      b_cancellation_note = None, b_review_emails_sent_at = None, b_created_at = 1\<rparr>"

definition demo_member :: "uuid \<Rightarrow> user_role \<Rightarrow> user_row" where
  "demo_member uid role = \<lparr>u_id = uid, u_email = ''m@x.lb'', u_phone = None, u_password_hash = None, u_role = role,
     u_status = U_active, u_account_code = ''PL000001'', u_email_verified_at = Some 1, u_phone_verified_at = None,
     u_last_login_at = None, u_created_at = 1, u_deleted_at = None, u_pending_email = None\<rparr>"

definition demo_db :: db where
  "demo_db = empty_db\<lparr>users := [demo_member 7 R_artist, demo_member 8 R_planner], bookings := [demo_booking], next_id := 9\<rparr>"

definition demo_start :: bk_sys where
  "demo_start = \<lparr>store = demo_db, threads = (\<lambda>i. Idle)\<rparr>"

text \<open>The proposal for the day after, its date in the compact form.\<close>

definition demo_proposal :: create_booking_dto where
  "demo_proposal = \<lparr>cb_artist_id = 7, cb_conversation_id = None, cb_event_name = ''gala'', cb_event_date = ''20300102'',
     cb_event_location = None, cb_duration_hours = None, cb_agreed_fee_usd = None, cb_notes = None\<rparr>"

lemma demo_quiet: "quiet demo_start"
  by (simp add: quiet_def demo_start_def demo_db_def demo_booking_def empty_db_def booking_ids_ok_def)

lemma demo_bookable: "bookable iso_input demo_clock (demo_member 8 R_planner) demo_proposal demo_db"
proof -
  have "iso_date 1000 = ''1970-01-01''" "str_less ''1970-01-01'' ''20300102''" "str_le ''1970-01-01'' ''2030-01-02''"
    by code_simp+
  then show ?thesis
    by (simp add: bookable_def demo_clock_def demo_member_def demo_proposal_def demo_db_def demo_booking_def empty_db_def
        is_active_artist_def iso_input_def holds_slot_def)
qed

lemma demo_checks: "respond_check 7 0 demo_db = Inr demo_booking"
  by (simp add: respond_check_def find_and_assert_participant_def demo_db_def demo_booking_def)

lemma demo_swap:
  "respond_swap demo_clock 0 dec demo_db =
     (Inr (answer demo_clock dec demo_booking), demo_db\<lparr>bookings := [answer demo_clock dec demo_booking]\<rparr>)"
  by (simp add: respond_swap_def updated_rows_def is_pending_def demo_db_def demo_booking_def)

text \<open>Two answers to the booking, both past their checks; either may swap first.\<close>

lemma answers_race:
  "\<exists>m. bk_reach iso_input demo_start m \<and> threads m 0 = Checked (Answer 7 0 Accept) demo_booking
     \<and> threads m 1 = Checked (Answer 7 0 Decline) demo_booking \<and> store m = demo_db"
proof -
  let ?asks = "\<lambda>dec. Asked (Answer 7 0 dec)" and ?read = "\<lambda>dec. Checked (Answer 7 0 dec) demo_booking"
  have ask: "bk_step iso_input x (put x i (?asks dec))" if "threads x i = Idle" for x i dec
    using that by (rule bk_step.arrive)
  have read: "bk_step iso_input x (put x i (?read dec))" if "threads x i = ?asks dec" "store x = demo_db" for x i dec
    by (rule bk_step.check) (simp_all add: that demo_checks)
  let ?a = "put (put demo_start 0 (?asks Accept)) 1 (?asks Decline)"
  let ?m = "put (put ?a 0 (?read Accept)) 1 (?read Decline)"
  have "bk_reach iso_input demo_start (put demo_start 0 (?asks Accept))"
    by (rule bk_reach.step [OF bk_reach.start ask]) (simp add: demo_start_def)
  then have "bk_reach iso_input demo_start ?a" by (rule bk_reach.step) (rule ask, simp add: demo_start_def)
  then have "bk_reach iso_input demo_start (put ?a 0 (?read Accept))"
    by (rule bk_reach.step) (rule read, simp_all add: demo_start_def)
  then have "bk_reach iso_input demo_start ?m" by (rule bk_reach.step) (rule read, simp_all add: demo_start_def)
  then show ?thesis by (intro exI [of _ ?m]) (simp add: demo_start_def)
qed

lemma demo_run:
  "\<exists>y. bk_reach iso_input demo_start y \<and> announced ''booking_accepted'' 0 (store y)
     \<and> bookings (store y) = [answer demo_clock Accept demo_booking]"
proof -
  let ?won = "answer demo_clock Accept demo_booking"
  obtain m where m: "bk_reach iso_input demo_start m" "threads m 0 = Checked (Answer 7 0 Accept) demo_booking"
    "store m = demo_db"
    using answers_race by blast
  let ?n = "m\<lparr>store := demo_db\<lparr>bookings := [?won]\<rparr>, threads := (threads m)(0 := Swapped (Answer 7 0 Accept) demo_booking ?won)\<rparr>"
  have n: "bk_reach iso_input demo_start ?n"
    by (rule bk_reach.step [OF m(1) bk_step.win [OF m(2), where ck = demo_clock]]) (simp add: m(3) demo_swap)
  let ?y = "?n\<lparr>store := respond_notify demo_clock 0 Accept demo_booking (store ?n),
      threads := (threads ?n)(0 := Returned (Inr ?won))\<rparr>"
  have "bk_reach iso_input demo_start ?y"
    using bk_reach.step [OF n bk_step.tell [of ?n 0 "Answer 7 0 Accept" demo_booking ?won iso_input demo_clock]] by simp
  then show ?thesis
    by (intro exI [of _ ?y]) (simp add: announced_def respond_notify_def table_simps)
qed

theorem announcements_are_true_witness:
  "\<exists>y. bk_reach iso_input demo_start y \<and> announced (answer_type Accept) 0 (store y)
     \<and> outcome_stands Accept B_accepted \<and> \<not> announced ''booking_declined'' 0 (store y)"
proof -
  obtain y where y: "bk_reach iso_input demo_start y" "announced (answer_type Accept) 0 (store y)"
    and rows: "bookings (store y) = [answer demo_clock Accept demo_booking]"
    using demo_run by auto
  have "b_id (answer demo_clock Accept demo_booking) = 0" by (simp add: demo_booking_def)
  with announcements_are_true [OF demo_quiet y(1), of Accept "answer demo_clock Accept demo_booking"] y rows
  show ?thesis by auto
qed

text \<open>The declining answer swaps first; the accepting one, though past its check, changes nothing.\<close>

theorem terminal_statuses_are_final_witness:
  "\<exists>m n. bk_reach iso_input demo_start m \<and> bk_reach iso_input m n
     \<and> threads m 0 = Checked (Answer 7 0 Accept) demo_booking
     \<and> threads n 0 = Returned (Inl (Conflict concurrent_change))
     \<and> bookings (store m) = [answer demo_clock Decline demo_booking]
     \<and> (\<exists>b' \<in> set (bookings (store n)). b_id b' = 0 \<and> b_status b' = B_declined)"
proof -
  let ?row = "answer demo_clock Decline demo_booking"
  let ?s = "demo_db\<lparr>bookings := [?row]\<rparr>"
  obtain w where w: "bk_reach iso_input demo_start w" "threads w 0 = Checked (Answer 7 0 Accept) demo_booking"
    "threads w 1 = Checked (Answer 7 0 Decline) demo_booking" "store w = demo_db"
    using answers_race by blast
  let ?m = "w\<lparr>store := ?s, threads := (threads w)(1 := Swapped (Answer 7 0 Decline) demo_booking ?row)\<rparr>"
  have m: "bk_reach iso_input demo_start ?m"
    by (rule bk_reach.step [OF w(1) bk_step.win [OF w(3), where ck = demo_clock]]) (simp add: w(4) demo_swap)
  have at0: "threads ?m 0 = Checked (Answer 7 0 Accept) demo_booking" using w(2) by simp
  let ?n = "?m\<lparr>store := ?s, threads := (threads ?m)(0 := Returned (Inl (Conflict concurrent_change)))\<rparr>"
  have run: "bk_reach iso_input ?m ?n"
    by (rule bk_reach.step [OF bk_reach.start bk_step.lose [OF at0, where ck = demo_clock]])
      (simp add: respond_swap_def updated_rows_def is_pending_def)
  have row: "?row \<in> set (bookings (store ?m))" by simp
  have "b_id ?row = 0" "b_status ?row = B_declined" by (simp_all add: demo_booking_def)
  with terminal_statuses_are_final [OF run row]
  have "\<exists>b' \<in> set (bookings (store ?n)). b_id b' = 0 \<and> b_status b' = B_declined"
    by (metis may_end.simps(2) may_end.simps(3) may_become.simps(3))
  with m run at0 show ?thesis by (intro exI [of _ ?m] exI [of _ ?n]) simp
qed

theorem no_double_booking_witness:
  "\<exists>y. calm_reach iso_input demo_start y
     \<and> map slot_of (bookings (store y)) = [(7, ''2030-01-01''), (7, ''2030-01-02'')] \<and> slots_ok (store y)
     \<and> (\<exists>z. bk_reach iso_input demo_start z \<and> \<not> slots_ok (store z))"
proof -
  have idle: "threads demo_start = (\<lambda>i. Idle)" and free: "slots_ok (store demo_start)"
    by (simp_all add: demo_start_def slots_ok_def demo_db_def)
  have ask: "bookable iso_input demo_clock (demo_member 8 R_planner) demo_proposal (store demo_start)"
    using demo_bookable by (simp add: demo_start_def)
  obtain y day where y: "calm_reach iso_input demo_start y" and day: "iso_input ''20300102'' = Inr day"
    and rows: "bookings (store y) = bookings (store demo_start) @
      [new_booking demo_clock (demo_member 8 R_planner) demo_proposal day (next_id (store demo_start))]"
    using lone_proposal_stored [OF ask idle] by (auto simp: demo_proposal_def)
  from day have "day = ''2030-01-02''" by (simp add: iso_input_def)
  with rows have "map slot_of (bookings (store y)) = [(7, ''2030-01-01''), (7, ''2030-01-02'')]"
    by (simp add: slot_of_def new_booking_def demo_start_def demo_db_def demo_booking_def demo_proposal_def)
  with no_double_booking [OF idle free, of iso_input y demo_clock "demo_member 8 R_planner" demo_proposal] y ask
  show ?thesis by (intro exI [of _ y]) simp
qed

end
