(* ===== verification/Reviews.thy ===== *)
theory Reviews
  imports Schema
begin

text \<open>
  \<open>src/reviews/reviews.service.ts\<close>: submitting a review under the mutual-blind rule,
  unlocking expired windows, removing a review, and the rating aggregates kept on the
  profiles. Dates move by whole days of a UTC server.
\<close>

section \<open>Operations\<close>

definition review_window_days :: int where
  "review_window_days = 7"

record submit_review_dto =
  sr_booking_id :: uuid
  sr_overall_score :: int
  sr_score_communication :: int
  sr_score_professionalism :: int
  sr_score_punctuality :: int
  sr_score_quality :: int
  sr_body :: "string option"

text \<open>\<open>ROUND(AVG(overall_score)::NUMERIC, 2)\<close> over visible reviews, and their count.\<close>

definition round2 :: "rat \<Rightarrow> rat" where
  "round2 x = of_int \<lfloor>x * 100 + 1 / 2\<rfloor> / 100"

definition reviews_for :: "review list \<Rightarrow> uuid \<Rightarrow> review list" where
  "reviews_for rs uid = filter (\<lambda>r. r_reviewee_id r = uid \<and> r_is_visible r) rs"

definition aggregate :: "review list \<Rightarrow> uuid \<Rightarrow> rat option \<times> int" where
  "aggregate rs uid =
     (let vs = reviews_for rs uid
      in (if vs = [] then None
          else Some (round2 (of_int (sum_list (map r_overall_score vs)) / of_nat (length vs))),
          int (length vs)))"

definition recalculate_aggregate :: "uuid \<Rightarrow> db \<Rightarrow> db" where
  "recalculate_aggregate uid s =
     (let (avg, cnt) = aggregate (reviews s) uid
      in s\<lparr>artist_profiles := update_where (\<lambda>p. ap_user_id p = uid)
             (\<lambda>p. p\<lparr>ap_avg_rating := avg, ap_review_count := cnt\<rparr>) (artist_profiles s),
           planner_profiles := update_where (\<lambda>p. pp_user_id p = uid)
             (\<lambda>p. p\<lparr>pp_avg_rating := avg, pp_review_count := cnt\<rparr>) (planner_profiles s)\<rparr>)"

definition try_unlock_pair :: "uuid \<Rightarrow> db \<Rightarrow> db" where
  "try_unlock_pair bid s =
     (let rs = filter (\<lambda>r. r_booking_id r = bid) (reviews s)
      in if length rs = 2
         then fold recalculate_aggregate (map r_reviewee_id rs)
                (s\<lparr>reviews := update_where (\<lambda>r. r_booking_id r = bid) (\<lambda>r. r\<lparr>r_is_visible := True\<rparr>) (reviews s)\<rparr>)
         else s)"

definition window_closed :: "clock \<Rightarrow> booking \<Rightarrow> bool" where
  "window_closed ck b \<longleftrightarrow>
     (case b_review_emails_sent_at b of None \<Rightarrow> False
      | Some sent \<Rightarrow> sent + review_window_days * ms_per_day < js_now ck)"

definition review_submit :: "clock \<Rightarrow> user_row \<Rightarrow> submit_review_dto \<Rightarrow> db \<Rightarrow> review result \<times> db" where
  "review_submit ck reviewer dto s =
     (case find (\<lambda>b. b_id b = sr_booking_id dto) (bookings s) of
        None \<Rightarrow> (Inl (NotFound ''Booking not found.''), s)
      | Some b \<Rightarrow>
          if b_status b \<noteq> B_completed
          then (Inl (BadRequest ''Reviews can only be submitted for completed bookings.''), s)
          else if b_artist_id b \<noteq> u_id reviewer \<and> b_planner_id b \<noteq> u_id reviewer
          then (Inl (Forbidden ''You are not a participant in this booking.''), s)
          else if window_closed ck b
          then (Inl (BadRequest ''The 7-day review window for this booking has closed.''), s)
          else (case find (\<lambda>r. r_booking_id r = sr_booking_id dto \<and> r_reviewer_id r = u_id reviewer) (reviews s) of
             Some existing \<Rightarrow> (Inl (BadRequest ''You have already submitted a review for this booking.''), s)
           | None \<Rightarrow>
               (let is_artist = (b_artist_id b = u_id reviewer);
                    r = \<lparr>r_id = next_id s, r_booking_id = sr_booking_id dto, r_reviewer_id = u_id reviewer,
                         r_reviewee_id = (if is_artist then b_planner_id b else b_artist_id b),
                         r_reviewer_role = (if is_artist then R_artist else R_planner),
                         r_overall_score = sr_overall_score dto,
                         r_score_communication = sr_score_communication dto,
                         r_score_professionalism = sr_score_professionalism dto,
                         r_score_punctuality = sr_score_punctuality dto,
                         r_score_quality = sr_score_quality dto, r_body = sr_body dto,
                         r_is_visible = False, r_submitted_at = db_now ck\<rparr>
                in (Inr r, try_unlock_pair (sr_booking_id dto)
                      (s\<lparr>reviews := reviews s @ [r], next_id := Suc (next_id s)\<rparr>)))))"

text \<open>\<open>getForArtist\<close> and \<open>getForPlanner\<close>: a visible review with its author's card.\<close>

record review_card =
  rc_review :: review
  rc_display_name :: "string option"
  rc_thumbnail_url :: "string option"

definition visible_for :: "uuid \<Rightarrow> user_role \<Rightarrow> db \<Rightarrow> review list" where
  "visible_for uid by_role s =
     sort_by (\<lambda>a b. r_submitted_at b \<le> r_submitted_at a)
       (filter (\<lambda>r. r_reviewee_id r = uid \<and> r_reviewer_role r = by_role \<and> r_is_visible r
                  \<and> list_ex (\<lambda>u. u_id u = r_reviewer_id r) (users s)) (reviews s))"

definition get_for_artist :: "uuid \<Rightarrow> db \<Rightarrow> review_card list" where
  "get_for_artist uid s =
     map (\<lambda>r. let p = find (\<lambda>p. pp_user_id p = r_reviewer_id r) (planner_profiles s)
              in \<lparr>rc_review = r, rc_display_name = Option.bind p pp_display_name,
                  rc_thumbnail_url = Option.bind p pp_thumbnail_url\<rparr>)
       (visible_for uid R_planner s)"

definition get_for_planner :: "uuid \<Rightarrow> db \<Rightarrow> review_card list" where
  "get_for_planner uid s =
     map (\<lambda>r. let p = find (\<lambda>p. ap_user_id p = r_reviewer_id r) (artist_profiles s)
              in \<lparr>rc_review = r, rc_display_name = Option.bind p ap_display_name,
                  rc_thumbnail_url = Option.bind p ap_thumbnail_url\<rparr>)
       (visible_for uid R_artist s)"

definition expired_bookings :: "clock \<Rightarrow> db \<Rightarrow> uuid list" where
  "expired_bookings ck s =
     remdups (map b_id (filter (\<lambda>b. b_status b = B_completed
         \<and> (case b_review_emails_sent_at b of None \<Rightarrow> False
            | Some sent \<Rightarrow> sent \<le> js_now ck - review_window_days * ms_per_day)
         \<and> list_ex (\<lambda>r. r_booking_id r = b_id b \<and> \<not> r_is_visible r) (reviews s)) (bookings s)))"

definition unlock_expired_reviews :: "clock \<Rightarrow> db \<Rightarrow> nat \<times> db" where
  "unlock_expired_reviews ck s =
     (let due = expired_bookings ck s
      in if due = [] then (0, s)
         else let hidden = (\<lambda>r. r_booking_id r \<in> set due \<and> \<not> r_is_visible r);
                  cnt = length (filter hidden (reviews s));
                  s1 = s\<lparr>reviews := update_where hidden (\<lambda>r. r\<lparr>r_is_visible := True\<rparr>) (reviews s)\<rparr>;
                  affected = remdups (map r_reviewee_id (filter (\<lambda>r. r_booking_id r \<in> set due) (reviews s1)))
              in (cnt, fold recalculate_aggregate affected s1))"

definition admin_remove :: "uuid \<Rightarrow> db \<Rightarrow> unit result \<times> db" where
  "admin_remove rid s =
     (case find (\<lambda>r. r_id r = rid) (reviews s) of
        None \<Rightarrow> (Inl (NotFound ''Review not found.''), s)
      | Some r \<Rightarrow>
          (Inr (), recalculate_aggregate (r_reviewee_id r)
             (s\<lparr>reviews := update_where (\<lambda>x. r_id x = rid) (\<lambda>x. x\<lparr>r_is_visible := False\<rparr>) (reviews s)\<rparr>)))"

text \<open>\<open>adminList\<close>: one page of the moderation queue, and its metadata.\<close>

definition review_admin_list :: "nat \<Rightarrow> nat \<Rightarrow> db \<Rightarrow> review list \<times> page_meta" where
  "review_admin_list page limit s =
     (page_of page limit
        (sort_by (\<lambda>a b. r_submitted_at b \<le> r_submitted_at a)
          (filter (\<lambda>r. list_ex (\<lambda>u. u_id u = r_reviewer_id r) (users s)
               \<and> list_ex (\<lambda>u. u_id u = r_reviewee_id r) (users s)
               \<and> list_ex (\<lambda>b. b_id b = r_booking_id r) (bookings s)) (reviews s))),
      meta_of (length (reviews s)) page limit)"

lemmas review_op_defs [op_defs] =
  review_submit_def try_unlock_pair_def unlock_expired_reviews_def admin_remove_def

section \<open>The rating aggregates agree with the visible reviews\<close>

definition aggregates_ok_except :: "uuid set \<Rightarrow> db \<Rightarrow> bool" where
  "aggregates_ok_except U s \<longleftrightarrow>
     (\<forall>p \<in> set (artist_profiles s). ap_user_id p \<notin> U \<longrightarrow>
        (ap_avg_rating p, ap_review_count p) = aggregate (reviews s) (ap_user_id p))
   \<and> (\<forall>p \<in> set (planner_profiles s). pp_user_id p \<notin> U \<longrightarrow>
        (pp_avg_rating p, pp_review_count p) = aggregate (reviews s) (pp_user_id p))"

definition aggregates_ok :: "db \<Rightarrow> bool" where
  "aggregates_ok s \<longleftrightarrow>
     list_all (\<lambda>p. (ap_avg_rating p, ap_review_count p) = aggregate (reviews s) (ap_user_id p)) (artist_profiles s)
   \<and> list_all (\<lambda>p. (pp_avg_rating p, pp_review_count p) = aggregate (reviews s) (pp_user_id p)) (planner_profiles s)"

lemma aggregates_ok_except_empty: "aggregates_ok s \<longleftrightarrow> aggregates_ok_except {} s"
  by (simp add: aggregates_ok_def aggregates_ok_except_def list_all_iff)

lemma recalculate_frame [simp]:
  "reviews (recalculate_aggregate uid s) = reviews s"
  "bookings (recalculate_aggregate uid s) = bookings s"
  "users (recalculate_aggregate uid s) = users s"
  "next_id (recalculate_aggregate uid s) = next_id s"
  by (simp_all add: recalculate_aggregate_def split: prod.splits)

lemma fold_recalculate_frame [simp]:
  "reviews (fold recalculate_aggregate us s) = reviews s"
  "bookings (fold recalculate_aggregate us s) = bookings s"
  "next_id (fold recalculate_aggregate us s) = next_id s"
  by (induction us arbitrary: s) simp_all

lemma recalculate_ok:
  "aggregates_ok_except U s \<Longrightarrow> aggregates_ok_except (U - {uid}) (recalculate_aggregate uid s)"
  by (cases "aggregate (reviews s) uid")
    (auto simp: aggregates_ok_except_def recalculate_aggregate_def table_simps)

lemma fold_recalculate_ok:
  "aggregates_ok_except U s \<Longrightarrow> aggregates_ok_except (U - set us) (fold recalculate_aggregate us s)"
proof (induction us arbitrary: U s)
  case Nil
  then show ?case by simp
next
  case (Cons u us)
  have "U - {u} - set us = U - set (u # us)" by auto
  with Cons.IH [OF recalculate_ok [OF Cons.prems, of u]] show ?case by simp
qed

text \<open>
  Changing reviews and then recalculating every user whose visible reviews changed keeps
  the aggregates right.
\<close>

lemma aggregates_after_change:
  assumes "aggregates_ok s"
    and "\<And>u. u \<notin> set us \<Longrightarrow> reviews_for rs' u = reviews_for (reviews s) u"
  shows "aggregates_ok (fold recalculate_aggregate us (s\<lparr>reviews := rs'\<rparr>))"
proof -
  have "aggregates_ok_except (set us) (s\<lparr>reviews := rs'\<rparr>)"
    using assms by (auto simp: aggregates_ok_def aggregates_ok_except_def aggregate_def list_all_iff)
  from fold_recalculate_ok [OF this, of us] show ?thesis
    by (simp add: aggregates_ok_except_empty)
qed

lemma reviews_for_update:
  assumes "\<And>r. P r \<Longrightarrow> r_reviewee_id (f r) = r_reviewee_id r"
    and "\<And>r. r \<in> set rs \<Longrightarrow> P r \<Longrightarrow> r_reviewee_id r \<noteq> u"
  shows "reviews_for (update_where P f rs) u = reviews_for rs u"
  using assms(2) by (induction rs) (auto simp: reviews_for_def assms(1))

lemma aggregates_ok_cong:
  "reviews s = reviews t \<Longrightarrow> artist_profiles s = artist_profiles t \<Longrightarrow>
   planner_profiles s = planner_profiles t \<Longrightarrow> aggregates_ok s = aggregates_ok t"
  by (simp add: aggregates_ok_def)

lemma aggregates_ok_unlock_pair:
  assumes "aggregates_ok s"
  shows "aggregates_ok (try_unlock_pair bid s)"
proof (cases "length (filter (\<lambda>r. r_booking_id r = bid) (reviews s)) = 2")
  case True
  let ?us = "map r_reviewee_id (filter (\<lambda>r. r_booking_id r = bid) (reviews s))"
  have "aggregates_ok (fold recalculate_aggregate ?us (s\<lparr>reviews :=
      update_where (\<lambda>r. r_booking_id r = bid) (\<lambda>r. r\<lparr>r_is_visible := True\<rparr>) (reviews s)\<rparr>))"
    by (rule aggregates_after_change [OF assms], rule reviews_for_update) auto
  with True show ?thesis by (simp add: try_unlock_pair_def Let_def)
next
  case False
  with assms show ?thesis by (simp add: try_unlock_pair_def Let_def)
qed

lemma aggregates_ok_submit:
  assumes "aggregates_ok s"
  shows "aggregates_ok (snd (review_submit ck reviewer dto s))"
proof -
  have hidden: "aggregates_ok (s\<lparr>reviews := reviews s @ [r], next_id := n\<rparr>)" if "\<not> r_is_visible r" for r n
    using assms that by (simp add: aggregates_ok_def aggregate_def reviews_for_def)
  show ?thesis
    using assms by (auto simp: review_submit_def Let_def intro!: aggregates_ok_unlock_pair hidden
        split: option.splits)
qed

lemma aggregates_ok_unlock:
  assumes "aggregates_ok s"
  shows "aggregates_ok (snd (unlock_expired_reviews ck s))"
proof (cases "expired_bookings ck s = []")
  case True
  with assms show ?thesis by (simp add: unlock_expired_reviews_def)
next
  case False
  let ?hidden = "\<lambda>r. r_booking_id r \<in> set (expired_bookings ck s) \<and> \<not> r_is_visible r"
  let ?rs = "update_where ?hidden (\<lambda>r. r\<lparr>r_is_visible := True\<rparr>) (reviews s)"
  let ?us = "remdups (map r_reviewee_id (filter (\<lambda>r. r_booking_id r \<in> set (expired_bookings ck s)) ?rs))"
  have touched: "r_reviewee_id r \<in> set ?us" if "r \<in> set (reviews s)" and "?hidden r" for r
  proof -
    from that have "r\<lparr>r_is_visible := True\<rparr> \<in> set ?rs" by (force simp: table_simps)
    with that(2) show ?thesis
      by (auto simp: image_iff intro!: bexI [of _ "r\<lparr>r_is_visible := True\<rparr>"])
  qed
  have "aggregates_ok (fold recalculate_aggregate ?us (s\<lparr>reviews := ?rs\<rparr>))"
  proof (rule aggregates_after_change [OF assms])
    fix u assume "u \<notin> set ?us"
    with touched have "r_reviewee_id r \<noteq> u" if "r \<in> set (reviews s)" and "?hidden r" for r
      using that by blast
    then show "reviews_for ?rs u = reviews_for (reviews s) u" by (intro reviews_for_update) auto
  qed
  with False show ?thesis by (simp add: unlock_expired_reviews_def Let_def)
qed

lemma aggregates_ok_remove:
  assumes "aggregates_ok s" and "distinct (map r_id (reviews s))"
  shows "aggregates_ok (snd (admin_remove rid s))"
proof (cases "find (\<lambda>r. r_id r = rid) (reviews s)")
  case None
  with assms show ?thesis by (simp add: admin_remove_def)
next
  case (Some r)
  then have r: "r \<in> set (reviews s)" "r_id r = rid" by (auto dest: find_SomeD)
  let ?rs = "update_where (\<lambda>x. r_id x = rid) (\<lambda>x. x\<lparr>r_is_visible := False\<rparr>) (reviews s)"
  have "aggregates_ok (fold recalculate_aggregate [r_reviewee_id r] (s\<lparr>reviews := ?rs\<rparr>))"
    using r assms(2) by (intro aggregates_after_change [OF assms(1)] reviews_for_update)
      (auto dest: distinct_key_eq)
  with Some show ?thesis by (simp add: admin_remove_def)
qed

section \<open>Any sequence of review requests\<close>

datatype review_op =
    Do_submit user_row submit_review_dto
  | Do_unlock
  | Do_remove uuid

fun run_review_op :: "clock \<Rightarrow> review_op \<Rightarrow> db \<Rightarrow> db" where
  "run_review_op ck (Do_submit u dto) s = snd (review_submit ck u dto s)"
| "run_review_op ck Do_unlock s = snd (unlock_expired_reviews ck s)"
| "run_review_op ck (Do_remove rid) s = snd (admin_remove rid s)"

fun run_review_ops :: "(clock \<times> review_op) list \<Rightarrow> db \<Rightarrow> db" where
  "run_review_ops [] s = s"
| "run_review_ops ((ck, x) # xs) s = run_review_ops xs (run_review_op ck x s)"

text \<open>
  The table's own invariant: ids below the supply and distinct, one review per person and
  booking, and every review runs from one party of its booking to the other.
\<close>

definition written_by_party :: "db \<Rightarrow> review \<Rightarrow> bool" where
  "written_by_party s r \<longleftrightarrow>
     list_ex (\<lambda>b. b_id b = r_booking_id r \<and>
        (r_reviewer_id r = b_artist_id b \<and> r_reviewee_id r = b_planner_id b \<and> r_reviewer_role r = R_artist
         \<or> r_reviewer_id r = b_planner_id b \<and> r_reviewee_id r = b_artist_id b \<and> r_reviewer_role r = R_planner))
       (bookings s)"

definition reviews_ok :: "db \<Rightarrow> bool" where
  "reviews_ok s \<longleftrightarrow>
     distinct (map r_id (reviews s)) \<and> list_all (\<lambda>r. r_id r < next_id s) (reviews s)
   \<and> distinct (map (\<lambda>r. (r_booking_id r, r_reviewer_id r)) (reviews s))
   \<and> list_all (written_by_party s) (reviews s)"

lemma reviews_ok_distinct: "reviews_ok s \<Longrightarrow> distinct (map r_id (reviews s))"
  by (simp add: reviews_ok_def)

lemma reviews_ok_update:
  assumes "reviews_ok s" and "reviews t = update_where P (\<lambda>r. r\<lparr>r_is_visible := v\<rparr>) (reviews s)"
    and "bookings t = bookings s" and "next_id t = next_id s"
  shows "reviews_ok t"
  using assms map_update_where_same [of r_id "\<lambda>r. r\<lparr>r_is_visible := v\<rparr>" P "reviews s"]
    map_update_where_same [of "\<lambda>r. (r_booking_id r, r_reviewer_id r)" "\<lambda>r. r\<lparr>r_is_visible := v\<rparr>" P "reviews s"]
  by (auto simp: reviews_ok_def written_by_party_def list_all_iff table_simps)

lemma unlock_pair_shape:
  "\<exists>P. reviews (try_unlock_pair bid s) = update_where P (\<lambda>r. r\<lparr>r_is_visible := True\<rparr>) (reviews s)
     \<and> bookings (try_unlock_pair bid s) = bookings s \<and> next_id (try_unlock_pair bid s) = next_id s"
proof (cases "length (filter (\<lambda>r. r_booking_id r = bid) (reviews s)) = 2")
  case True
  then show ?thesis by (auto simp: try_unlock_pair_def Let_def)
next
  case False
  then show ?thesis
    by (intro exI [of _ "\<lambda>_. False"]) (simp add: try_unlock_pair_def Let_def update_where_none)
qed

lemma reviews_ok_unlock_pair: "reviews_ok s \<Longrightarrow> reviews_ok (try_unlock_pair bid s)"
  using unlock_pair_shape [of bid s] by (auto intro: reviews_ok_update)

lemma reviews_ok_submit: "reviews_ok s \<Longrightarrow> reviews_ok (snd (review_submit ck u dto s))"
  by (auto simp: review_submit_def Let_def intro!: reviews_ok_unlock_pair split: option.splits)
    (auto simp: reviews_ok_def written_by_party_def list_all_iff list_ex_iff find_None_iff
      dest!: find_SomeD intro: less_SucI)

lemma reviews_ok_unlock: "reviews_ok s \<Longrightarrow> reviews_ok (snd (unlock_expired_reviews ck s))"
  by (cases "expired_bookings ck s = []")
    (auto simp: unlock_expired_reviews_def Let_def intro: reviews_ok_update)

lemma reviews_ok_remove: "reviews_ok s \<Longrightarrow> reviews_ok (snd (admin_remove rid s))"
  by (auto simp: admin_remove_def intro: reviews_ok_update split: option.splits)

lemmas reviews_ok_intros = reviews_ok_submit reviews_ok_unlock reviews_ok_remove
lemmas aggregates_ok_intros = aggregates_ok_submit aggregates_ok_unlock aggregates_ok_remove


lemma aggregates_reviews_ok_step:
  "aggregates_ok s \<Longrightarrow> reviews_ok s \<Longrightarrow> aggregates_ok (run_review_op ck x s) \<and> reviews_ok (run_review_op ck x s)"
  by (cases x) (simp_all add: reviews_ok_intros aggregates_ok_submit aggregates_ok_unlock
      aggregates_ok_remove reviews_ok_distinct)

text \<open>A completed booking between artist 7 and planner 8, and their profiles.\<close>

definition demo_reviewed :: db where
  "demo_reviewed = empty_db\<lparr>
     bookings := [\<lparr>b_id = 0, b_artist_id = 7, b_planner_id = 8, b_conversation_id = None,
       b_event_name = ''gig'', b_event_date = ''2026-01-01'', b_event_location = None,
       b_duration_hours = None, b_agreed_fee_usd = None, b_notes = None, b_status = B_completed,
       b_artist_accepted_at = Some 2, b_planner_accepted_at = Some 1, b_cancelled_by = None,
       b_cancelled_at = None, b_cancellation_note = None, b_review_emails_sent_at = Some 0,
       b_created_at = 0\<rparr>],
     reviews := [\<lparr>r_id = 1, r_booking_id = 0, r_reviewer_id = 8, r_reviewee_id = 7,
       r_reviewer_role = R_planner, r_overall_score = 4, r_score_communication = 4,
       r_score_professionalism = 4, r_score_punctuality = 4, r_score_quality = 4, r_body = None,
       r_is_visible = False, r_submitted_at = 3\<rparr>],
     artist_profiles := [default_artist_profile 2 7 0],
     next_id := 9\<rparr>"

lemma demo_reviewed_ok: "aggregates_ok demo_reviewed \<and> reviews_ok demo_reviewed"
  by (simp add: demo_reviewed_def default_artist_profile_def empty_db_def aggregates_ok_def aggregate_def reviews_for_def
      reviews_ok_def written_by_party_def)

text \<open>
  C4: whatever submissions, expiry runs and removals the service handles, the rating and
  the review count shown on every profile are the average (to two decimals) and the number
  of that user's visible reviews; and no person reviews one booking twice.
\<close>

theorem ratings_stay_consistent:
  "aggregates_ok s \<and> reviews_ok s \<Longrightarrow>
     aggregates_ok (run_review_ops ops s) \<and> reviews_ok (run_review_ops ops s)"
proof (induction ops arbitrary: s)
  case Nil
  then show ?case by simp
next
  case (Cons x ops)
  obtain ck y where x: "x = (ck, y)" by (cases x)
  from Cons.prems have "aggregates_ok (run_review_op ck y s) \<and> reviews_ok (run_review_op ck y s)"
    by (blast intro: aggregates_reviews_ok_step [THEN conjunct1] aggregates_reviews_ok_step [THEN conjunct2])
  from Cons.IH [OF this] x show ?case by simp
qed

theorem ratings_stay_consistent_witness:
  "aggregates_ok (run_review_ops [(\<lparr>db_now = 700000000, js_now = 700000000\<rparr>, Do_unlock)] demo_reviewed)
   \<and> reviews_ok (run_review_ops [(\<lparr>db_now = 700000000, js_now = 700000000\<rparr>, Do_unlock)] demo_reviewed)"
  by (rule ratings_stay_consistent [OF demo_reviewed_ok])

section \<open>The mutual-blind rule\<close>

text \<open>
  A review may be read only if both parties have written one, or the seven days since the
  review requests went out have passed.
\<close>

definition paired :: "uuid \<Rightarrow> db \<Rightarrow> bool" where
  "paired bid s \<longleftrightarrow> 2 \<le> length (filter (\<lambda>x. r_booking_id x = bid) (reviews s))"

definition window_over :: "timestamp \<Rightarrow> uuid \<Rightarrow> db \<Rightarrow> bool" where
  "window_over t bid s \<longleftrightarrow>
     list_ex (\<lambda>b. b_id b = bid \<and>
        (case b_review_emails_sent_at b of None \<Rightarrow> False
         | Some sent \<Rightarrow> sent + review_window_days * ms_per_day \<le> t)) (bookings s)"

definition blind_ok :: "timestamp \<Rightarrow> db \<Rightarrow> bool" where
  "blind_ok t s \<longleftrightarrow>
     list_all (\<lambda>r. \<not> r_is_visible r \<or> paired (r_booking_id r) s \<or> window_over t (r_booking_id r) s) (reviews s)"

text \<open>An update that reveals only rows allowed to be read keeps the rule.\<close>

lemma paired_update:
  "reviews s' = update_where P (\<lambda>r. r\<lparr>r_is_visible := v\<rparr>) (reviews s) \<Longrightarrow> paired bid s' = paired bid s"
  by (simp add: paired_def length_filter_update_where_eq)

lemma window_over_cong: "bookings s' = bookings s \<Longrightarrow> window_over t bid s' = window_over t bid s"
  by (simp add: window_over_def)

lemma blind_ok_update:
  assumes "blind_ok t s" and rs: "reviews s' = update_where P (\<lambda>r. r\<lparr>r_is_visible := v\<rparr>) (reviews s)"
    and "bookings s' = bookings s"
    and "\<And>r. r \<in> set (reviews s) \<Longrightarrow> P r \<Longrightarrow> v \<Longrightarrow>
        paired (r_booking_id r) s \<or> window_over t (r_booking_id r) s"
  shows "blind_ok t s'"
proof -
  have "\<not> r_is_visible x \<or> paired (r_booking_id x) s \<or> window_over t (r_booking_id x) s"
    if x: "x \<in> set (reviews s')" for x
  proof -
    from x rs obtain r where r: "r \<in> set (reviews s)"
      and "x = (if P r then r\<lparr>r_is_visible := v\<rparr> else r)"
      by (auto simp: table_simps)
    with assms(1) assms(4) [OF r] show ?thesis by (auto simp: blind_ok_def list_all_iff)
  qed
  then show ?thesis
    by (simp add: blind_ok_def list_all_iff paired_update [OF rs] window_over_cong [OF assms(3)])
qed

lemma expired_window_over:
  "bid \<in> set (expired_bookings ck s) \<Longrightarrow> js_now ck \<le> t \<Longrightarrow> window_over t bid s"
  by (force simp: expired_bookings_def window_over_def list_ex_iff split: option.splits)

lemma blind_ok_unlock_pair: "blind_ok t s \<Longrightarrow> blind_ok t (try_unlock_pair bid s)"
proof (cases "length (filter (\<lambda>r. r_booking_id r = bid) (reviews s)) = 2")
  case True
  assume "blind_ok t s"
  then show ?thesis
    by (rule blind_ok_update [where P = "\<lambda>r. r_booking_id r = bid" and v = True])
      (use True in \<open>simp_all add: try_unlock_pair_def Let_def paired_def\<close>)
qed (simp add: try_unlock_pair_def Let_def)

lemma blind_ok_submit: "blind_ok t s \<Longrightarrow> blind_ok t (snd (review_submit ck u dto s))"
proof -
  assume ok: "blind_ok t s"
  have add: "blind_ok t (s\<lparr>reviews := reviews s @ [r], next_id := n\<rparr>)" if "\<not> r_is_visible r" for r n
    using ok that by (auto simp: blind_ok_def list_all_iff paired_def window_over_def)
  show ?thesis
    using ok by (auto simp: review_submit_def Let_def intro!: blind_ok_unlock_pair add split: option.splits)
qed

lemma blind_ok_unlock:
  assumes "blind_ok t s" and "js_now ck \<le> t"
  shows "blind_ok t (snd (unlock_expired_reviews ck s))"
proof (cases "expired_bookings ck s = []")
  case False
  show ?thesis
    using assms(1)
    by (rule blind_ok_update [where v = True and
          P = "\<lambda>r. r_booking_id r \<in> set (expired_bookings ck s) \<and> \<not> r_is_visible r"])
      (use False assms(2) expired_window_over in \<open>auto simp: unlock_expired_reviews_def Let_def\<close>)
qed (simp add: unlock_expired_reviews_def assms(1))

lemma blind_ok_remove: "blind_ok t s \<Longrightarrow> blind_ok t (snd (admin_remove rid s))"
  by (auto simp: admin_remove_def intro: blind_ok_update split: option.splits)

text \<open>
  The mutual-blind rule. After any sequence of review requests made no later than
  \<open>t\<close>, every review that can be read at \<open>t\<close> belongs to a booking both parties have reviewed
  or whose seven-day window is over.
\<close>

theorem mutual_blind:
  "blind_ok t s \<Longrightarrow> list_all (\<lambda>(ck, x). js_now ck \<le> t) ops \<Longrightarrow> blind_ok t (run_review_ops ops s)"
proof (induction ops arbitrary: s)
  case Nil
  then show ?case by simp
next
  case (Cons x ops)
  obtain ck y where x: "x = (ck, y)" by (cases x)
  from Cons.prems x have "blind_ok t (run_review_op ck y s)"
    by (cases y) (simp_all add: blind_ok_submit blind_ok_unlock blind_ok_remove)
  with Cons x show ?case by simp
qed

theorem mutual_blind_witness:
  "blind_ok 700000000 (run_review_ops [(\<lparr>db_now = 700000000, js_now = 700000000\<rparr>, Do_unlock)] demo_reviewed)"
proof -
  have "blind_ok 700000000 demo_reviewed"
    by (simp add: demo_reviewed_def empty_db_def blind_ok_def)
  from mutual_blind [OF this, of "[(\<lparr>db_now = 700000000, js_now = 700000000\<rparr>, Do_unlock)]"]
  show ?thesis by simp
qed

section \<open>A removed review comes back\<close>

text \<open>
  Removal does not last. \<open>admin_remove\<close> hides a review by clearing the same flag that
  the expiry run sets, so for a completed booking past its window the next nightly run
  makes the removed review readable again.
\<close>

theorem removed_review_resurfaces:
  assumes "r \<in> set (reviews s)" and "distinct (map r_id (reviews s))"
    and "b \<in> set (bookings s)" and "b_id b = r_booking_id r" and "b_status b = B_completed"
    and "b_review_emails_sent_at b = Some sent" and "sent \<le> js_now ck - review_window_days * ms_per_day"
  shows "(\<exists>x \<in> set (reviews (snd (admin_remove (r_id r) s))). r_id x = r_id r \<and> \<not> r_is_visible x)
    \<and> (\<exists>x \<in> set (reviews (snd (unlock_expired_reviews ck (snd (admin_remove (r_id r) s))))).
          r_id x = r_id r \<and> r_is_visible x)"
proof -
  let ?s1 = "snd (admin_remove (r_id r) s)" and ?x = "r\<lparr>r_is_visible := False\<rparr>"
  from assms(1,2) have "find (\<lambda>x. r_id x = r_id r) (reviews s) = Some r" by (rule find_distinct_key [rotated])
  then have rs: "reviews ?s1 = update_where (\<lambda>x. r_id x = r_id r) (\<lambda>x. x\<lparr>r_is_visible := False\<rparr>) (reviews s)"
    and bs: "bookings ?s1 = bookings s"
    by (simp_all add: admin_remove_def)
  from rs assms(1) have x: "?x \<in> set (reviews ?s1)" by (force simp: table_simps)
  then have "list_ex (\<lambda>y. r_booking_id y = b_id b \<and> \<not> r_is_visible y) (reviews ?s1)"
    using assms(4) unfolding list_ex_iff by (intro bexI [of _ ?x]) simp_all
  with bs assms have due: "r_booking_id r \<in> set (expired_bookings ck ?s1)"
    by (auto simp: expired_bookings_def intro!: image_eqI [of _ _ b])
  then have "expired_bookings ck ?s1 \<noteq> []" by auto
  then have "reviews (snd (unlock_expired_reviews ck ?s1)) =
      update_where (\<lambda>r. r_booking_id r \<in> set (expired_bookings ck ?s1) \<and> \<not> r_is_visible r)
        (\<lambda>r. r\<lparr>r_is_visible := True\<rparr>) (reviews ?s1)"
    by (simp add: unlock_expired_reviews_def Let_def)
  moreover have "?x\<lparr>r_is_visible := True\<rparr> \<in> set (update_where
      (\<lambda>r. r_booking_id r \<in> set (expired_bookings ck ?s1) \<and> \<not> r_is_visible r)
        (\<lambda>r. r\<lparr>r_is_visible := True\<rparr>) (reviews ?s1))"
    using x due by (intro update_where_mem) simp_all
  ultimately have "?x\<lparr>r_is_visible := True\<rparr> \<in> set (reviews (snd (unlock_expired_reviews ck ?s1)))"
    by (simp only:)
  then show ?thesis using x by (intro conjI bexI [of _ ?x] bexI [of _ "?x\<lparr>r_is_visible := True\<rparr>"]) simp_all
qed

theorem removed_review_resurfaces_witness:
  "\<exists>x \<in> set (reviews (snd (unlock_expired_reviews \<lparr>db_now = 700000000, js_now = 700000000\<rparr>
      (snd (admin_remove 1 demo_reviewed))))). r_id x = 1 \<and> r_is_visible x"
proof -
  let ?r = "hd (reviews demo_reviewed)" and ?b = "hd (bookings demo_reviewed)"
  have "r_id ?r = 1" by (simp add: demo_reviewed_def)
  with removed_review_resurfaces [of ?r demo_reviewed ?b 0 "\<lparr>db_now = 700000000, js_now = 700000000\<rparr>"]
  show ?thesis by (simp add: demo_reviewed_def review_window_days_def ms_per_day_def)
qed

end
