(* ===== verification/Access.thy ===== *)
theory Access
  imports Common_Utils
begin

text \<open>
  \<open>src/common/subscription.util.ts\<close> and \<open>src/common/subscription.guard.ts\<close>: the one
  answer to "does this user have paid access right now?", the message allowance of the
  running plan, and the route guard that answers 401, 402 or lets the request through.
\<close>

section \<open>The running subscription\<close>

record active_subscription =
  as_row :: subscription
  as_requires_id_doc :: bool
  as_message_cap :: "int option"

text \<open>\<open>s.expires_at > now()\<close>, which is not true of a null expiry.\<close>

definition unexpired :: "clock \<Rightarrow> subscription \<Rightarrow> bool" where
  "unexpired ck r \<longleftrightarrow> (case s_expires_at r of None \<Rightarrow> False | Some e \<Rightarrow> db_now ck < e)"

definition live_for :: "clock \<Rightarrow> uuid \<Rightarrow> subscription \<Rightarrow> bool" where
  "live_for ck uid r \<longleftrightarrow> s_user_id r = uid \<and> s_status r = S_active \<and> unexpired ck r"

text \<open>The join of a subscription with its plan.\<close>

definition with_plan :: "plan_row list \<Rightarrow> subscription \<Rightarrow> (subscription \<times> plan_row) list" where
  "with_plan ps r = map (Pair r) (filter (\<lambda>p. p_code p = s_plan_code r) ps)"

definition get_active_subscription :: "clock \<Rightarrow> uuid \<Rightarrow> db \<Rightarrow> active_subscription option" where
  "get_active_subscription ck uid s =
     (case concat (map (with_plan (plans s)) (filter (live_for ck uid) (subscriptions s))) of
        [] \<Rightarrow> None
      | (r, p) # _ \<Rightarrow> Some \<lparr>as_row = r, as_requires_id_doc = p_requires_id_doc p,
                             as_message_cap = p_message_cap p\<rparr>)"

definition has_active_subscription :: "clock \<Rightarrow> uuid \<Rightarrow> db \<Rightarrow> bool" where
  "has_active_subscription ck uid s \<longleftrightarrow> get_active_subscription ck uid s \<noteq> None"

definition has_plan :: "plan_row list \<Rightarrow> subscription \<Rightarrow> bool" where
  "has_plan ps r \<longleftrightarrow> list_ex (\<lambda>p. p_code p = s_plan_code r) ps"

lemma with_plan_empty [simp]: "with_plan ps r = [] \<longleftrightarrow> \<not> has_plan ps r"
  by (simp add: with_plan_def has_plan_def filter_empty_conv list_ex_iff)

lemma has_active_iff:
  "has_active_subscription ck uid s \<longleftrightarrow>
     list_ex (\<lambda>r. live_for ck uid r \<and> has_plan (plans s) r) (subscriptions s)"
proof -
  define c where "c = concat (map (with_plan (plans s)) (filter (live_for ck uid) (subscriptions s)))"
  have "c = [] \<longleftrightarrow> \<not> list_ex (\<lambda>r. live_for ck uid r \<and> has_plan (plans s) r) (subscriptions s)"
    unfolding c_def by (auto simp: concat_eq_Nil_conv list_ex_iff)
  then show ?thesis
    unfolding has_active_subscription_def get_active_subscription_def c_def [symmetric]
    by (cases c) (simp_all split: prod.splits)
qed

lemma get_active_SomeD:
  assumes "get_active_subscription ck uid s = Some a"
  shows "as_row a \<in> set (subscriptions s)" and "live_for ck uid (as_row a)"
    and "\<exists>p \<in> set (plans s). p_code p = s_plan_code (as_row a) \<and> as_message_cap a = p_message_cap p
           \<and> as_requires_id_doc a = p_requires_id_doc p"
proof -
  obtain r p rest where c: "concat (map (with_plan (plans s)) (filter (live_for ck uid) (subscriptions s)))
        = (r, p) # rest"
    and a: "a = \<lparr>as_row = r, as_requires_id_doc = p_requires_id_doc p, as_message_cap = p_message_cap p\<rparr>"
    using assms by (auto simp: get_active_subscription_def split: list.splits)
  have "(r, p) \<in> set (concat (map (with_plan (plans s)) (filter (live_for ck uid) (subscriptions s))))"
    unfolding c by simp
  then have "r \<in> set (subscriptions s)" "live_for ck uid r" "p \<in> set (plans s)" "p_code p = s_plan_code r"
    by (auto simp: with_plan_def)
  with a show "as_row a \<in> set (subscriptions s)" and "live_for ck uid (as_row a)"
    and "\<exists>p \<in> set (plans s). p_code p = s_plan_code (as_row a) \<and> as_message_cap a = p_message_cap p
           \<and> as_requires_id_doc a = p_requires_id_doc p" by auto
qed

section \<open>What every gate may rely on\<close>

text \<open>
  The features that charge for something (messaging, contact details, identity documents)
  ask one question and rely on two laws: the answer depends on the two subscription tables
  alone, and waiting never brings access back.
\<close>

locale access_gate =
  fixes live :: "clock \<Rightarrow> uuid \<Rightarrow> db \<Rightarrow> bool"
  assumes depends: "subscriptions s = subscriptions t \<Longrightarrow> plans s = plans t \<Longrightarrow> live ck u s = live ck u t"
    and lapses: "live ck' u s \<Longrightarrow> db_now ck \<le> db_now ck' \<Longrightarrow> live ck u s"
begin

lemma stays_closed:
  "\<not> live ck u s \<Longrightarrow> db_now ck \<le> db_now ck' \<Longrightarrow> subscriptions t = subscriptions s \<Longrightarrow> plans t = plans s
   \<Longrightarrow> \<not> live ck' u t"
  using depends lapses by metis

lemma same_instant: "db_now ck = db_now ck' \<Longrightarrow> live ck u s = live ck' u s"
  using lapses [of ck' u s ck] lapses [of ck u s ck'] by auto

lemma notify_keeps [simp]: "live ck u (insert_notification ck' v ty ti d s) = live ck u s"
  by (rule depends) simp_all

end

interpretation paid: access_gate has_active_subscription
  by unfold_locales
     (auto simp: has_active_iff list_ex_iff live_for_def unexpired_def split: option.splits)

section \<open>The message allowance\<close>

definition sent_since :: "uuid \<Rightarrow> timestamp \<Rightarrow> db \<Rightarrow> nat" where
  "sent_since uid t s = length (filter (\<lambda>m. m_sender_id m = uid \<and> t \<le> m_created_at m) (messages s))"

definition period_start :: "subscription \<Rightarrow> timestamp option" where
  "period_start r = (case s_starts_at r of Some t \<Rightarrow> Some t | None \<Rightarrow> s_activated_at r)"

definition remaining_messages :: "active_subscription \<Rightarrow> db \<Rightarrow> int option" where
  "remaining_messages a s =
     (case as_message_cap a of None \<Rightarrow> None
      | Some cap \<Rightarrow> (case period_start (as_row a) of None \<Rightarrow> None
         | Some t \<Rightarrow> Some (max 0 (cap - int (aggregate_value (Some (sent_since (s_user_id (as_row a)) t s)))))))"

lemma remaining_messages_bounds:
  "remaining_messages a s = Some n \<Longrightarrow> 0 \<le> n"
  by (auto simp: remaining_messages_def split: option.splits)

text \<open>One more message inside the period costs exactly one unit of what is left.\<close>

lemma remaining_after_send:
  assumes "remaining_messages a s = Some n" and "0 < n" and "period_start (as_row a) = Some t"
    and "m_sender_id m = s_user_id (as_row a)" and "t \<le> m_created_at m"
  shows "remaining_messages a (s\<lparr>messages := messages s @ [m]\<rparr>) = Some (n - 1)"
  using assms by (auto simp: remaining_messages_def sent_since_def aggregate_value_def split: option.splits)

section \<open>The guard\<close>

text \<open>
  \<open>@RequiresSubscription\<close> on the handler overrides the one on the class; no declaration and
  an empty one both mean every role.
\<close>

definition subscription_scope :: "user_role list option \<Rightarrow> user_role list option \<Rightarrow> user_role list" where
  "subscription_scope on_handler on_class =
     (case on_handler of Some rs \<Rightarrow> rs | None \<Rightarrow> (case on_class of Some rs \<Rightarrow> rs | None \<Rightarrow> []))"

definition subscription_guard ::
  "clock \<Rightarrow> user_row option \<Rightarrow> user_role list option \<Rightarrow> user_role list option \<Rightarrow> db \<Rightarrow> bool result" where
  "subscription_guard ck session on_handler on_class s =
     (case session of
        None \<Rightarrow> Inl (Unauthorized ''You must be signed in to access this resource.'')
      | Some user \<Rightarrow>
          (let scoped = subscription_scope on_handler on_class
           in if scoped \<noteq> [] \<and> u_role user \<notin> set scoped then Inr True
              else if \<not> has_active_subscription ck (u_id user) s
              then Inl (PaymentRequired ''This requires an active subscription.'')
              else Inr True))"

text \<open>
  A refusal for want of a plan is final for the tables at hand: at every later instant the
  same request is refused with the same 402, and nobody outside the scope is ever billed.
\<close>

lemma guard_refusal_stands:
  assumes "subscription_guard ck (Some u) h c s = Inl e" and "db_now ck \<le> db_now ck'"
    and "subscriptions t = subscriptions s" and "plans t = plans s"
  shows "subscription_guard ck' (Some u) h c t = Inl (PaymentRequired ''This requires an active subscription.'')"
  using assms paid.stays_closed [of ck "u_id u" s ck' t]
  by (auto simp: subscription_guard_def Let_def split: if_splits)

end
