(* ===== verification/Providers.thy ===== *)
theory Providers
  imports Common_Utils
begin

text \<open>
  \<open>src/payments/providers/*.ts\<close> and \<open>src/payments/payment-provider.registry.ts\<close>: the four
  payment providers behind one interface, and the registry that resolves them. The keyed
  hash, the JSON codec and the text a value becomes in a template literal or a bound
  parameter belong to the platform and are arguments of the definitions that use them.
\<close>

section \<open>The platform\<close>

record platform =
  hmac_hex :: "string \<Rightarrow> string \<Rightarrow> string" \<comment> \<open>key, data: \<open>createHmac('sha256', key).update(data).digest('hex')\<close>\<close>
  json_parse :: "string \<Rightarrow> js_value option" \<comment> \<open>\<open>None\<close> when \<open>JSON.parse\<close> throws\<close>
  json_stringify :: "js_value \<Rightarrow> string"
  render :: "js_value \<Rightarrow> string"

text \<open>\<open>value.toFixed(2)\<close> for a value that is not negative.\<close>

definition to_fixed2 :: "rat \<Rightarrow> string" where
  "to_fixed2 x =
     (let cents = nat (js_round (x * 100))
      in show_nat (cents div 100) @ ''.'' @ pad_left 2 (show_nat (cents mod 100)))"

text \<open>Reading a property: \<open>null\<close> and \<open>undefined\<close> throw, a primitive has none of ours.\<close>

fun get_prop :: "js_value \<Rightarrow> string \<Rightarrow> js_value option" where
  "get_prop (Js_object kvs) k = Some (case map_of kvs k of None \<Rightarrow> Js_undefined | Some v \<Rightarrow> v)"
| "get_prop Js_null k = None"
| "get_prop Js_undefined k = None"
| "get_prop v k = Some Js_undefined"

text \<open>\<open>a ?? b\<close>.\<close>

fun nullish :: "js_value \<Rightarrow> js_value \<Rightarrow> js_value" where
  "nullish Js_null d = d"
| "nullish Js_undefined d = d"
| "nullish v d = v"

text \<open>\<open>Number(v)\<close> on any value; an array goes through its text.\<close>

fun to_number :: "js_value \<Rightarrow> rat option" where
  "to_number (Js_number x) = Some x"
| "to_number (Js_string t) = js_number t"
| "to_number (Js_bool b) = Some (if b then 1 else 0)"
| "to_number Js_null = Some 0"
| "to_number (Js_array []) = Some 0"
| "to_number (Js_array [Js_bool b]) = None"
| "to_number (Js_array [Js_undefined]) = Some 0"
| "to_number (Js_array [v]) = to_number v"
| "to_number v = None"

section \<open>The interface\<close>

record payment_recipient =
  rcp_service :: string
  rcp_account_name :: string
  rcp_account_number :: string
  rcp_reference :: "string option"
  rcp_if_it_fails :: string

record payment_intent =
  in_provider_ref :: string
  in_redirect_url :: "string option"
  in_instructions :: "string option"
  in_recipient :: "payment_recipient option"
  in_expires_at :: "timestamp option"

record parsed_webhook =
  pw_provider_ref :: js_value
  pw_status :: js_value
  pw_amount :: "rat option" \<comment> \<open>\<open>None\<close> is \<open>NaN\<close>\<close>
  pw_currency :: js_value
  pw_event_type :: js_value

record create_intent_input =
  ci_payment_id :: uuid
  ci_amount_usd :: rat
  ci_currency :: string
  ci_user_id :: uuid
  ci_account_code :: string
  ci_plan_code :: plan_code
  ci_quantity :: nat

type_synonym headers = "(string \<times> string) list"

datatype provider = Manual | Mock | Whish | Omt

fun provider_code :: "provider \<Rightarrow> string" where
  "provider_code Manual = ''manual''"
| "provider_code Mock = ''mock''"
| "provider_code Whish = ''whish''"
| "provider_code Omt = ''omt''"

lemma provider_code_inject [simp]: "provider_code p = provider_code q \<longleftrightarrow> p = q"
  by (cases p; cases q) simp_all

section \<open>The manual provider\<close>

definition trimmed :: "config \<Rightarrow> string \<Rightarrow> string" where
  "trimmed cfg key = (case cfg key of None \<Rightarrow> [] | Some v \<Rightarrow> js_trim v)"

definition or_default :: "string \<Rightarrow> string \<Rightarrow> string" where
  "or_default v d = (if v = [] then d else v)"

definition manual_recipient :: "config \<Rightarrow> payment_recipient option" where
  "manual_recipient cfg =
     (let name = trimmed cfg ''WHISH_ACCOUNT_NAME''; num = trimmed cfg ''WHISH_ACCOUNT_NUMBER''
      in if name = [] \<or> num = [] then None
         else Some \<lparr>rcp_service = or_default (trimmed cfg ''WHISH_SERVICE_LABEL'') ''Whish Money'',
                rcp_account_name = name, rcp_account_number = num,
                rcp_reference = (let r = trimmed cfg ''WHISH_ACCOUNT_REFERENCE'' in if r = [] then None else Some r),
                rcp_if_it_fails = or_default (trimmed cfg ''WHISH_FAILURE_NOTE'')
                  ''If the transfer fails or is reversed, nothing is charged and no plan starts. Contact support with your reference code and we will sort it out.''\<rparr>)"

definition manual_create_intent :: "config \<Rightarrow> create_intent_input \<Rightarrow> payment_intent" where
  "manual_create_intent cfg input =
     \<lparr>in_provider_ref = show_nat (ci_payment_id input), in_redirect_url = None,
      in_instructions = Some (''Transfer $'' @ to_fixed2 (ci_amount_usd input) @ '' '' @ ci_currency input @ ''. ''
         @ ''Quote reference '' @ ci_account_code input @ '' on the transfer. ''
         @ ''Then tell us the transfer reference number so we can match it.''),
      in_recipient = manual_recipient cfg, in_expires_at = None\<rparr>"

text \<open>A payee is shown whole or not at all: never a blank name or number.\<close>

lemma manual_recipient_complete:
  "manual_recipient cfg = Some r \<Longrightarrow> rcp_account_name r \<noteq> [] \<and> rcp_account_number r \<noteq> [] \<and> rcp_service r \<noteq> []"
  by (auto simp: manual_recipient_def or_default_def Let_def split: if_splits)

section \<open>The mock provider\<close>

definition mock_signature_header :: string where
  "mock_signature_header = ''x-mock-signature''"

definition mock_secret :: "config \<Rightarrow> string" where
  "mock_secret cfg = (case cfg ''MOCK_PAYMENT_SECRET'' of None \<Rightarrow> ''mock-secret'' | Some k \<Rightarrow> k)"

text \<open>\<open>randomUUID()\<close> draws from the same supply as the column defaults.\<close>

definition mock_create_intent :: "clock \<Rightarrow> config \<Rightarrow> uuid \<Rightarrow> payment_intent" where
  "mock_create_intent ck cfg fresh =
     (let ref = ''mock_'' @ show_nat fresh;
          app = (case cfg ''APP_URL'' of None \<Rightarrow> ''http://localhost:4000'' | Some u \<Rightarrow> u)
      in \<lparr>in_provider_ref = ref, in_redirect_url = Some (app @ ''/api/v1/payments/mock/checkout/'' @ ref),
          in_instructions = None, in_recipient = None, in_expires_at = Some (js_now ck + 30 * 60 * 1000)\<rparr>)"

definition mock_sign :: "platform \<Rightarrow> config \<Rightarrow> string \<Rightarrow> string" where
  "mock_sign pf cfg raw = hmac_hex pf (mock_secret cfg) raw"

definition mock_verify :: "platform \<Rightarrow> config \<Rightarrow> string \<Rightarrow> headers \<Rightarrow> bool" where
  "mock_verify pf cfg raw hs =
     (case map_of hs mock_signature_header of
        None \<Rightarrow> False
      | Some provided \<Rightarrow>
          if provided = [] then False
          else let expected = mock_sign pf cfg raw
               in if length provided \<noteq> length expected then False else provided = expected)"

definition mock_parse :: "platform \<Rightarrow> string \<Rightarrow> parsed_webhook result" where
  "mock_parse pf raw =
     (case json_parse pf raw of
        None \<Rightarrow> Inl (InternalError ''SyntaxError'')
      | Some payload \<Rightarrow>
          (case get_prop payload ''reference'' of
             None \<Rightarrow> Inl (InternalError ''TypeError'')
           | Some reference \<Rightarrow>
               (let prop = (\<lambda>k. case get_prop payload k of None \<Rightarrow> Js_undefined | Some v \<Rightarrow> v)
                in Inr \<lparr>pw_provider_ref = reference, pw_status = nullish (prop ''status'') (Js_string ''unknown''),
                     pw_amount = to_number (prop ''amount''),
                     pw_currency = nullish (prop ''currency'') (Js_string ''USD''), pw_event_type = prop ''event''\<rparr>)))"

section \<open>The interface, one clause per provider\<close>

fun create_intent ::
  "clock \<Rightarrow> config \<Rightarrow> uuid \<Rightarrow> provider \<Rightarrow> create_intent_input \<Rightarrow> payment_intent result" where
  "create_intent ck cfg fresh Manual input = Inr (manual_create_intent cfg input)"
| "create_intent ck cfg fresh Mock input = Inr (mock_create_intent ck cfg fresh)"
| "create_intent ck cfg fresh Whish input =
     Inl (NotImplemented ''Whish Money is not configured yet. Use the manual flow.'')"
| "create_intent ck cfg fresh Omt input =
     Inl (NotImplemented ''OMT is not configured yet. Use the manual flow.'')"

fun verify_signature :: "platform \<Rightarrow> config \<Rightarrow> provider \<Rightarrow> string \<Rightarrow> headers \<Rightarrow> bool" where
  "verify_signature pf cfg Manual raw hs = False"
| "verify_signature pf cfg Mock raw hs = mock_verify pf cfg raw hs"
| "verify_signature pf cfg Whish raw hs = False"
| "verify_signature pf cfg Omt raw hs = False"

fun parse_webhook :: "platform \<Rightarrow> provider \<Rightarrow> string \<Rightarrow> parsed_webhook result" where
  "parse_webhook pf Manual raw = Inl (InternalError ''The manual provider does not receive webhooks.'')"
| "parse_webhook pf Mock raw = mock_parse pf raw"
| "parse_webhook pf Whish raw = Inl (NotImplemented ''Whish Money webhooks are not implemented.'')"
| "parse_webhook pf Omt raw = Inl (NotImplemented ''OMT webhooks are not implemented.'')"

text \<open>\<open>getStatus\<close> exists on the mock alone; \<open>None\<close> is a provider without it.\<close>

fun get_status :: "provider \<Rightarrow> (string \<Rightarrow> js_value) option" where
  "get_status Mock = Some (\<lambda>ref. Js_string ''unknown'')"
| "get_status _ = None"

section \<open>What the webhook handler relies on\<close>

text \<open>
  The signature contract: a delivery is let in only by a tag that the keyed hash gives for
  the exact bytes received. A provider that refuses everything is the special case in which
  nothing is let in.
\<close>

locale signed_delivery =
  fixes verify :: "string \<Rightarrow> headers \<Rightarrow> bool"
    and tag :: "string \<Rightarrow> string"
    and header :: string
  assumes genuine: "verify raw hs \<Longrightarrow> map_of hs header = Some (tag raw)"
begin

lemma missing_header_refused: "map_of hs header = None \<Longrightarrow> \<not> verify raw hs"
  by (metis genuine option.distinct(1))

text \<open>Tampering with the body under the old tag is caught whenever the tags differ.\<close>

lemma tampering_refused: "verify raw hs \<Longrightarrow> tag raw' \<noteq> tag raw \<Longrightarrow> \<not> verify raw' hs"
  by (metis genuine option.inject)

end

locale refusing_provider = signed_delivery +
  assumes refuses: "\<not> verify raw hs"

interpretation mock: signed_delivery "verify_signature pf cfg Mock" "mock_sign pf cfg" mock_signature_header
  by unfold_locales (auto simp: mock_verify_def Let_def split: option.splits if_splits)

interpretation manual: refusing_provider "verify_signature pf cfg Manual" "mock_sign pf cfg" mock_signature_header
  by unfold_locales simp_all

interpretation whish: refusing_provider "verify_signature pf cfg Whish" "mock_sign pf cfg" mock_signature_header
  by unfold_locales simp_all

interpretation omt: refusing_provider "verify_signature pf cfg Omt" "mock_sign pf cfg" mock_signature_header
  by unfold_locales simp_all

section \<open>The registry\<close>

definition registered :: "provider list" where
  "registered = [Manual, Mock, Whish, Omt]"

definition registry_get :: "string \<Rightarrow> provider option" where
  "registry_get code = find (\<lambda>p. provider_code p = code) registered"

definition registry_active :: "config \<Rightarrow> provider" where
  "registry_active cfg =
     (let code = (case cfg ''PAYMENT_PROVIDER'' of None \<Rightarrow> ''manual'' | Some c \<Rightarrow> c)
      in case registry_get code of None \<Rightarrow> Manual | Some p \<Rightarrow> p)"

definition registry_by_code :: "string \<Rightarrow> provider result" where
  "registry_by_code code =
     (case registry_get code of
        None \<Rightarrow> Inl (NotFound (''Unknown payment provider: '' @ code))
      | Some p \<Rightarrow> Inr p)"

definition registry_has :: "string \<Rightarrow> bool" where
  "registry_has code \<longleftrightarrow> registry_get code \<noteq> None"

definition registry_pollable :: "provider list" where
  "registry_pollable = filter (\<lambda>p. get_status p \<noteq> None) registered"

lemma registry_get_code [simp]: "registry_get (provider_code p) = Some p"
  by (cases p) (simp_all add: registry_get_def registered_def)

lemma registry_get_SomeD: "registry_get c = Some p \<Longrightarrow> c = provider_code p"
  by (auto simp: registry_get_def dest: find_SomeD)

lemma registry_pollable_eq: "registry_pollable = [Mock]"
  by (simp add: registry_pollable_def registered_def)

text \<open>
  Switching the active provider strands no payment: the code a payment was created with
  still resolves to the provider that created it, whatever the configuration says now.
\<close>

lemma registry_by_code_stable:
  "registry_by_code (provider_code (registry_active cfg)) = Inr (registry_active cfg)"
  by (simp add: registry_by_code_def)

end
