(* ===== verification/Subscriptions.thy ===== *)
theory Subscriptions
  imports Access Providers
begin

text \<open>
  \<open>src/subscriptions/subscriptions.service.ts\<close>: plans and purchase intents, activating a
  banked day pass, minting subscription rows from a confirmed payment, the nightly expiry
  and promotion, and the renewal reminders. The partial unique index
  \<open>one_active_sub_per_user\<close> of migration 018 is checked by every statement that writes an
  active row and fails it with SQLSTATE 23505.
\<close>

section \<open>The table and its index\<close>

definition one_active :: "subscription list \<Rightarrow> bool" where
  "one_active rows \<longleftrightarrow> distinct (map s_user_id (filter (\<lambda>r. s_status r = S_active) rows))"

text \<open>A statement that leaves the table as \<open>rows\<close>, or fails as a whole.\<close>

definition write_subscriptions :: "subscription list \<Rightarrow> db \<Rightarrow> db result" where
  "write_subscriptions rows s =
     (if one_active rows then Inr (s\<lparr>subscriptions := rows\<rparr>) else Inl unique_violation)"

text \<open>\<open>now() + (? || ' days')::interval\<close>, and \<open>addDays\<close> in Node.\<close>

definition add_days :: "timestamp \<Rightarrow> int \<Rightarrow> timestamp" where
  "add_days t d = t + d * ms_per_day"

definition whole_days_until :: "clock \<Rightarrow> timestamp \<Rightarrow> int" where
  "whole_days_until ck t = ceil_div (t - js_now ck) ms_per_day"

section \<open>Reads\<close>

record plan_card =
  pc_plan :: plan_row
  pc_vat_rate :: rat

definition current_vat_rate :: "config \<Rightarrow> rat" where
  "current_vat_rate cfg = resolve_vat_rate (cfg ''VAT_RATE'')"

definition list_plans :: "config \<Rightarrow> db \<Rightarrow> plan_card list" where
  "list_plans cfg s =
     map (\<lambda>p. \<lparr>pc_plan = p, pc_vat_rate = current_vat_rate cfg\<rparr>)
       (sort_by (\<lambda>p q. p_sort_order p \<le> p_sort_order q) (filter p_is_active (plans s)))"

record my_subscriptions =
  ms_active :: "(active_subscription \<times> int option) option"
  ms_queued :: "subscription list"
  ms_credits_available :: nat
  ms_credits :: "subscription list"
  ms_history :: "subscription list"

definition get_mine :: "clock \<Rightarrow> uuid \<Rightarrow> db \<Rightarrow> my_subscriptions" where
  "get_mine ck uid s =
     (let rows = map fst (concat (map (with_plan (plans s))
           (sort_by (\<lambda>a b. s_created_at a \<le> s_created_at b)
              (filter (\<lambda>r. s_user_id r = uid) (subscriptions s)))));
          credits = filter (\<lambda>r. s_status r = S_ready) rows
      in \<lparr>ms_active = map_option (\<lambda>a. (a, remaining_messages a s)) (get_active_subscription ck uid s),
          ms_queued = filter (\<lambda>r. s_status r = S_queued) rows,
          ms_credits_available = length credits, ms_credits = credits,
          ms_history = rev (filter (\<lambda>r. s_status r = S_expired \<or> s_status r = S_cancelled) rows)\<rparr>)"

definition list_my_payments :: "uuid \<Rightarrow> db \<Rightarrow> payment list" where
  "list_my_payments uid s =
     sort_by (\<lambda>a b. y_created_at b \<le> y_created_at a) (filter (\<lambda>y. y_planner_id y = uid) (payments s))"

definition get_my_payment :: "uuid \<Rightarrow> uuid \<Rightarrow> db \<Rightarrow> payment result" where
  "get_my_payment uid pid s =
     (case find (\<lambda>y. y_id y = pid \<and> y_planner_id y = uid) (payments s) of
        None \<Rightarrow> Inl (NotFound ''Payment not found.'') | Some y \<Rightarrow> Inr y)"

section \<open>Purchase\<close>

record create_payment_intent_dto =
  pd_plan_code :: plan_code
  pd_quantity :: "nat option"
  pd_transfer_service :: "string option"
  pd_reference_code :: "string option"

record intent_response =
  ir_payment :: payment
  ir_provider :: string
  ir_redirect_url :: "string option"
  ir_instructions :: "string option"
  ir_recipient :: "payment_recipient option"
  ir_account_code :: "string option"

definition new_payment ::
  "clock \<Rightarrow> config \<Rightarrow> uuid \<Rightarrow> create_payment_intent_dto \<Rightarrow> plan_row \<Rightarrow> provider \<Rightarrow> uuid \<Rightarrow> payment" where
  "new_payment ck cfg uid dto plan pr pid =
     (let q = (case pd_quantity dto of None \<Rightarrow> 1 | Some n \<Rightarrow> n);
          v = vat_of (p_price_usd plan * of_nat q) (current_vat_rate cfg)
      in \<lparr>y_id = pid, y_planner_id = uid, y_plan_code = Some (pd_plan_code dto), y_quantity = q,
          y_subtotal_usd = p_price_usd plan * of_nat q, y_vat_rate = vb_vat_rate v, y_vat_usd = vb_vat_usd v,
          y_amount_usd = vb_total_usd v, y_currency = ''USD'', y_provider = provider_code pr,
          y_provider_ref = None, y_status = Y_pending, y_transfer_service = pd_transfer_service dto,
          y_reference_code = pd_reference_code dto, y_intent_expires_at = None, y_confirmed_by = None, y_confirmed_at = None, y_rejection_reason = None,
          y_created_at = db_now ck\<rparr>)"

definition hand_over :: "payment_intent \<Rightarrow> payment \<Rightarrow> payment" where
  "hand_over i y = y\<lparr>y_provider_ref := Some (in_provider_ref i), y_status := Y_awaiting_provider,
                    y_intent_expires_at := in_expires_at i\<rparr>"

text \<open>The statement after the provider's answer, by the payment's id alone.\<close>

definition record_hand_over :: "uuid \<Rightarrow> payment_intent \<Rightarrow> db \<Rightarrow> db" where
  "record_hand_over pid i s = s\<lparr>payments := update_where (\<lambda>x. y_id x = pid) (hand_over i) (payments s)\<rparr>"

text \<open>
  The row is inserted first, so a provider that throws leaves it behind as \<open>pending\<close>; a reference
  the provider draws takes an id of the supply.
\<close>

definition place_payment ::
  "clock \<Rightarrow> config \<Rightarrow> uuid \<Rightarrow> create_payment_intent_dto \<Rightarrow> plan_row \<Rightarrow> db \<Rightarrow> intent_response result \<times> db" where
  "place_payment ck cfg uid dto plan s =
     (let pr = registry_active cfg;
          code = map_option u_account_code (find (\<lambda>u. u_id u = uid) (users s));
          y = new_payment ck cfg uid dto plan pr (next_id s);
          s1 = s\<lparr>payments := payments s @ [y], next_id := Suc (next_id s)\<rparr>
      in case create_intent ck cfg (next_id s1) pr
           \<lparr>ci_payment_id = y_id y, ci_amount_usd = y_amount_usd y, ci_currency = ''USD'', ci_user_id = uid,
            ci_account_code = (case code of None \<Rightarrow> [] | Some c \<Rightarrow> c), ci_plan_code = pd_plan_code dto,
            ci_quantity = y_quantity y\<rparr> of
           Inl e \<Rightarrow> (Inl e, s1)
         | Inr i \<Rightarrow>
             (Inr \<lparr>ir_payment = y\<lparr>y_status := Y_awaiting_provider\<rparr>, ir_provider = provider_code pr,
                   ir_redirect_url = in_redirect_url i, ir_instructions = in_instructions i,
                   ir_recipient = in_recipient i, ir_account_code = code\<rparr>,
              record_hand_over (y_id y) i (s1\<lparr>next_id := Suc (next_id s1)\<rparr>)))"

definition create_payment_intent ::
  "clock \<Rightarrow> config \<Rightarrow> uuid \<Rightarrow> create_payment_intent_dto \<Rightarrow> db \<Rightarrow> intent_response result \<times> db" where
  "create_payment_intent ck cfg uid dto s =
     (case find (\<lambda>p. p_code p = pd_plan_code dto \<and> p_is_active p) (plans s) of
        None \<Rightarrow> (Inl (NotFound ''That plan is not available.''), s)
      | Some plan \<Rightarrow> place_payment ck cfg uid dto plan s)"

definition unsettled :: "payment \<Rightarrow> bool" where
  "unsettled y \<longleftrightarrow> y_status y = Y_pending \<or> y_status y = Y_awaiting_provider"

definition report_transfer :: "uuid \<Rightarrow> uuid \<Rightarrow> string \<Rightarrow> string \<Rightarrow> db \<Rightarrow> string result \<times> db" where
  "report_transfer uid pid service reference s =
     (let mine = (\<lambda>y. y_id y = pid \<and> y_planner_id y = uid \<and> unsettled y);
          assign = (\<lambda>y. y\<lparr>y_transfer_service := Some service, y_reference_code := Some reference\<rparr>)
      in if updated_rows mine assign (payments s) = []
         then (Inl (NotFound ''No pending payment found to update.''), s)
         else (Inr ''Transfer details recorded. An admin will confirm shortly.'',
               s\<lparr>payments := update_where mine assign (payments s)\<rparr>))"

section \<open>Activation\<close>

definition ready_credit :: "uuid \<Rightarrow> uuid \<Rightarrow> subscription \<Rightarrow> bool" where
  "ready_credit uid sid r \<longleftrightarrow> s_id r = sid \<and> s_user_id r = uid \<and> s_status r = S_ready"

definition start_running :: "clock \<Rightarrow> int \<Rightarrow> subscription \<Rightarrow> subscription" where
  "start_running ck days r =
     r\<lparr>s_status := S_active, s_activated_at := Some (db_now ck), s_starts_at := Some (db_now ck),
       s_expires_at := Some (add_days (db_now ck) days)\<rparr>"

definition activate_check :: "clock \<Rightarrow> uuid \<Rightarrow> uuid \<Rightarrow> db \<Rightarrow> plan_row result" where
  "activate_check ck uid sid s =
     (case find (\<lambda>r. s_id r = sid \<and> s_user_id r = uid) (subscriptions s) of
        None \<Rightarrow> Inl (NotFound ''Subscription not found.'')
      | Some credit \<Rightarrow>
          if s_status credit \<noteq> S_ready
          then Inl (BadRequest (if s_status credit = S_active then ''That pass is already running.''
             else ''That pass cannot be activated (it is '' @ subscription_status_name (s_status credit) @ '').''))
          else (case get_active_subscription ck uid s of
             Some running \<Rightarrow>
               Inl (Conflict (if s_plan_code (as_row running) = P_day
                  then ''You already have a day pass running. Wait for it to finish before starting another.''
                  else ''Your '' @ plan_name (s_plan_code (as_row running))
                    @ '' subscription is already active, so this day pass would be wasted. It will keep until you need it.''))
           | None \<Rightarrow>
               (case find (\<lambda>p. p_code p = s_plan_code credit) (plans s) of
                  None \<Rightarrow> Inl (NotFound ''Plan not found for this subscription.'')
                | Some plan \<Rightarrow> Inr plan)))"

definition activate_swap :: "clock \<Rightarrow> uuid \<Rightarrow> uuid \<Rightarrow> int \<Rightarrow> db \<Rightarrow> subscription result \<times> db" where
  "activate_swap ck uid sid days s =
     (case write_subscriptions (update_where (ready_credit uid sid) (start_running ck days) (subscriptions s)) s of
        Inl e \<Rightarrow> (if e = unique_violation then (Inl (Conflict ''You already have a subscription running.''), s)
                  else (Inl e, s))
      | Inr s1 \<Rightarrow>
          (case updated_rows (ready_credit uid sid) (start_running ck days) (subscriptions s) of
             [] \<Rightarrow> (Inl (Conflict ''That pass has already been used.''), s1)
           | r # _ \<Rightarrow> (Inr r, s1)))"

definition activate :: "clock \<Rightarrow> uuid \<Rightarrow> uuid \<Rightarrow> db \<Rightarrow> subscription result \<times> db" where
  "activate ck uid sid s =
     (case activate_check ck uid sid s of
        Inl e \<Rightarrow> (Inl e, s)
      | Inr plan \<Rightarrow> activate_swap ck uid sid (p_duration_days plan) s)"

interpretation credit_cas: compare_and_swap "ready_credit uid sid" "start_running ck days"
  by unfold_locales (simp add: ready_credit_def start_running_def)

section \<open>Minting\<close>

record mint_result =
  mr_minted :: nat
  mr_already_minted :: bool
  mr_rows :: "subscription list"

definition new_subscription ::
  "clock \<Rightarrow> uuid \<Rightarrow> plan_code \<Rightarrow> uuid \<Rightarrow> subscription_status \<Rightarrow> timestamp option \<Rightarrow> timestamp option \<Rightarrow> uuid \<Rightarrow> subscription" where
  "new_subscription ck uid plan pid st starts expires sid =
     \<lparr>s_id = sid, s_user_id = uid, s_plan_code = plan, s_payment_id = Some pid, s_status = st,
      s_activated_at = None, s_starts_at = starts, s_expires_at = expires, s_created_at = db_now ck\<rparr>"

text \<open>\<open>INSERT .. RETURNING *\<close> of some rows, subject to the index.\<close>

definition insert_subscriptions :: "subscription list \<Rightarrow> db \<Rightarrow> db result" where
  "insert_subscriptions rows s =
     map_sum id (\<lambda>s1. s1\<lparr>next_id := next_id s1 + length rows\<rparr>) (write_subscriptions (subscriptions s @ rows) s)"

definition mint_day_credits :: "clock \<Rightarrow> uuid \<Rightarrow> uuid \<Rightarrow> nat \<Rightarrow> db \<Rightarrow> (mint_result \<times> db) result" where
  "mint_day_credits ck uid pid quantity s =
     (let rows = map (\<lambda>i. new_subscription ck uid P_day pid S_ready None None (next_id s + i)) [0..<quantity]
      in map_sum id (\<lambda>s1. (\<lparr>mr_minted = length rows, mr_already_minted = False, mr_rows = rows\<rparr>, s1))
           (insert_subscriptions rows s))"

text \<open>Where the existing chain runs out: \<open>chainEnd\<close> before the loop.\<close>

definition queued_of :: "uuid \<Rightarrow> db \<Rightarrow> (subscription \<times> plan_row) list" where
  "queued_of uid s =
     concat (map (with_plan (plans s))
       (sort_by (\<lambda>a b. s_created_at a \<le> s_created_at b)
          (filter (\<lambda>r. s_user_id r = uid \<and> s_status r = S_queued) (subscriptions s))))"

definition chain_step :: "clock \<Rightarrow> subscription \<times> plan_row \<Rightarrow> timestamp option \<Rightarrow> timestamp option" where
  "chain_step ck rp c =
     Some (add_days (case c of None \<Rightarrow> js_now ck | Some t \<Rightarrow> t) (p_duration_days (snd rp)))"

definition chain_end :: "clock \<Rightarrow> uuid \<Rightarrow> db \<Rightarrow> timestamp option" where
  "chain_end ck uid s =
     (let queued = queued_of uid s;
          running = find (\<lambda>r. s_user_id r = uid \<and> s_status r = S_active) (subscriptions s);
          start = (case Option.bind running s_expires_at of Some e \<Rightarrow> Some e
                   | None \<Rightarrow> if queued \<noteq> [] then Some (js_now ck) else None)
      in fold (chain_step ck) queued start)"

text \<open>The loop of \<open>mintDatedPlan\<close>: one insert per unit, the first active if nothing runs.\<close>

fun mint_loop ::
  "clock \<Rightarrow> uuid \<Rightarrow> uuid \<Rightarrow> plan_code \<Rightarrow> int \<Rightarrow> nat \<Rightarrow> timestamp option \<Rightarrow> subscription list \<Rightarrow> db \<Rightarrow>
   (subscription list \<times> db) result" where
  "mint_loop ck uid pid plan days 0 c rows s = Inr (rows, s)"
| "mint_loop ck uid pid plan days (Suc n) c rows s =
     (let row = (case c of
          None \<Rightarrow> new_subscription ck uid plan pid S_active (Some (db_now ck)) (Some (add_days (db_now ck) days)) (next_id s)
        | Some t \<Rightarrow> new_subscription ck uid plan pid S_queued (Some t) None (next_id s));
          c' = (case c of None \<Rightarrow> s_expires_at row | Some t \<Rightarrow> Some (add_days t days))
      in case insert_subscriptions [row] s of
           Inl e \<Rightarrow> Inl e
         | Inr s1 \<Rightarrow> mint_loop ck uid pid plan days n c' (rows @ [row]) s1)"

definition mint_dated_plan ::
  "clock \<Rightarrow> uuid \<Rightarrow> uuid \<Rightarrow> plan_code \<Rightarrow> int \<Rightarrow> nat \<Rightarrow> db \<Rightarrow> (mint_result \<times> db) result" where
  "mint_dated_plan ck uid pid plan days quantity s =
     map_sum id (\<lambda>(rows, s1). (\<lparr>mr_minted = length rows, mr_already_minted = False, mr_rows = rows\<rparr>, s1))
       (mint_loop ck uid pid plan days quantity (chain_end ck uid s) [] s)"

definition minted_for :: "uuid \<Rightarrow> db \<Rightarrow> subscription list" where
  "minted_for pid s = filter (\<lambda>r. s_payment_id r = Some pid) (subscriptions s)"

definition mint_for_payment :: "clock \<Rightarrow> uuid \<Rightarrow> db \<Rightarrow> (mint_result \<times> db) result" where
  "mint_for_payment ck pid s =
     (case find (\<lambda>y. y_id y = pid) (payments s) of
        None \<Rightarrow> Inl (NotFound ''Payment not found.'')
      | Some y \<Rightarrow>
          (case y_plan_code y of
             None \<Rightarrow> Inr (\<lparr>mr_minted = 0, mr_already_minted = False, mr_rows = []\<rparr>, s)
           | Some code \<Rightarrow>
               if minted_for pid s \<noteq> [] then Inr (\<lparr>mr_minted = 0, mr_already_minted = True, mr_rows = []\<rparr>, s)
               else (case find (\<lambda>p. p_code p = code) (plans s) of
                  None \<Rightarrow> Inl (NotFound ''Plan not found for this payment.'')
                | Some plan \<Rightarrow>
                    if p_code plan = P_day then mint_day_credits ck (y_planner_id y) pid (y_quantity y) s
                    else mint_dated_plan ck (y_planner_id y) pid (p_code plan) (p_duration_days plan)
                           (y_quantity y) s)))"

section \<open>Expiry and promotion\<close>

definition lapsed :: "clock \<Rightarrow> subscription \<Rightarrow> bool" where
  "lapsed ck r \<longleftrightarrow> s_status r = S_active \<and> (case s_expires_at r of None \<Rightarrow> False | Some e \<Rightarrow> e \<le> db_now ck)"

definition expire :: "subscription \<Rightarrow> subscription" where
  "expire r = r\<lparr>s_status := S_expired\<rparr>"

definition expire_lapsed :: "clock \<Rightarrow> db \<Rightarrow> subscription list \<times> db" where
  "expire_lapsed ck s =
     (updated_rows (lapsed ck) expire (subscriptions s),
      s\<lparr>subscriptions := update_where (lapsed ck) expire (subscriptions s)\<rparr>)"

definition holds_active :: "uuid \<Rightarrow> db \<Rightarrow> bool" where
  "holds_active uid s \<longleftrightarrow> list_ex (\<lambda>a. s_user_id a = uid \<and> s_status a = S_active) (subscriptions s)"

definition waiting_users :: "db \<Rightarrow> uuid list" where
  "waiting_users s =
     remdups (map s_user_id (filter (\<lambda>r. s_status r = S_queued \<and> \<not> holds_active (s_user_id r) s) (subscriptions s)))"

definition promote :: "clock \<Rightarrow> int \<Rightarrow> subscription \<Rightarrow> subscription" where
  "promote ck days r =
     r\<lparr>s_status := S_active, s_starts_at := Some (db_now ck), s_expires_at := Some (add_days (db_now ck) days)\<rparr>"

definition is_queued :: "uuid \<Rightarrow> subscription \<Rightarrow> bool" where
  "is_queued sid r \<longleftrightarrow> s_id r = sid \<and> s_status r = S_queued"

text \<open>One turn of the loop; a failing statement is logged and the loop goes on.\<close>

definition promote_next :: "clock \<Rightarrow> uuid \<Rightarrow> subscription list \<times> db \<Rightarrow> subscription list \<times> db" where
  "promote_next ck uid acc =
     (case acc of (promoted, s) \<Rightarrow>
        (case queued_of uid s of
           [] \<Rightarrow> (promoted, s)
         | (next, p) # _ \<Rightarrow>
             (let assign = promote ck (p_duration_days p)
              in case write_subscriptions (update_where (is_queued (s_id next)) assign (subscriptions s)) s of
                   Inl e \<Rightarrow> (promoted, s)
                 | Inr s1 \<Rightarrow> (promoted @ take 1 (updated_rows (is_queued (s_id next)) assign (subscriptions s)), s1))))"

definition expire_and_promote :: "clock \<Rightarrow> db \<Rightarrow> (subscription list \<times> subscription list) \<times> db" where
  "expire_and_promote ck s =
     (let (expired, s1) = expire_lapsed ck s;
          (promoted, s2) = fold (promote_next ck) (waiting_users s1) ([], s1)
      in ((expired, promoted), s2))"

section \<open>Renewal reminders\<close>

fun renewal_reminder_days :: "plan_code \<Rightarrow> int list" where
  "renewal_reminder_days P_year = [30, 7, 1]"
| "renewal_reminder_days P_month = [3]"
| "renewal_reminder_days P_day = []"

definition reminder_notification_type :: string where
  "reminder_notification_type = ''subscription_expiring''"

record reminder =
  rm_subscription_id :: uuid
  rm_user_id :: uuid
  rm_plan_code :: plan_code
  rm_days :: int
  rm_expires_at :: timestamp

definition reminder_threshold :: "clock \<Rightarrow> plan_code \<Rightarrow> timestamp \<Rightarrow> int option" where
  "reminder_threshold ck plan expires =
     find (\<lambda>t. whole_days_until ck expires \<le> t) (sort (renewal_reminder_days plan))"

definition reminder_candidate :: "clock \<Rightarrow> subscription \<Rightarrow> reminder option" where
  "reminder_candidate ck r =
     (case s_expires_at r of None \<Rightarrow> None
      | Some e \<Rightarrow>
          (case reminder_threshold ck (s_plan_code r) e of None \<Rightarrow> None
           | Some t \<Rightarrow> Some \<lparr>rm_subscription_id = s_id r, rm_user_id = s_user_id r,
                            rm_plan_code = s_plan_code r, rm_days = t, rm_expires_at = e\<rparr>))"

definition sent_key :: "notification \<Rightarrow> jval option \<times> jval option" where
  "sent_key n = (map_of (n_data n) ''subscription_id'', map_of (n_data n) ''days'')"

definition reminder_key :: "reminder \<Rightarrow> jval option \<times> jval option" where
  "reminder_key c = (Some (JUuid (rm_subscription_id c)), Some (JInt (rm_days c)))"

definition find_due_renewal_reminders :: "clock \<Rightarrow> db \<Rightarrow> reminder list" where
  "find_due_renewal_reminders ck s =
     (let candidates = List.map_filter (reminder_candidate ck)
            (filter (\<lambda>r. s_status r = S_active \<and> unexpired ck r) (subscriptions s));
          sent = map sent_key (filter (\<lambda>n. n_type n = reminder_notification_type
              \<and> n_user_id n \<in> set (map rm_user_id candidates)) (notifications s))
      in filter (\<lambda>c. reminder_key c \<notin> set sent) candidates)"

end
