(* ===== verification/Subscription_Ledger.thy ===== *)
theory Subscription_Ledger
  imports Subscriptions
begin

text \<open>
  What the subscription table promises: one running subscription per user, every payment
  minted once and for the quantity bought, the index never tripped by minting or promotion,
  the nightly sweep leaves nobody waiting, and a sweep never changes who has access.
\<close>

section \<open>The shape of the table\<close>

definition row_ok :: "db \<Rightarrow> subscription \<Rightarrow> bool" where
  "row_ok s r \<longleftrightarrow> s_id r < next_id s \<and> has_plan (plans s) r
     \<and> (s_status r = S_active \<longrightarrow> s_expires_at r \<noteq> None)
     \<and> (case s_payment_id r of None \<Rightarrow> True | Some p \<Rightarrow> p < next_id s)"

definition plans_ok :: "plan_row list \<Rightarrow> bool" where
  "plans_ok ps \<longleftrightarrow> distinct (map p_code ps) \<and> list_all (\<lambda>p. 0 < p_duration_days p) ps"

definition subs_ok :: "db \<Rightarrow> bool" where
  "subs_ok s \<longleftrightarrow> one_active (subscriptions s) \<and> distinct (map s_id (subscriptions s))
     \<and> list_all (row_ok s) (subscriptions s) \<and> plans_ok (plans s)"

lemma one_active_append_other:
  "s_status r \<noteq> S_active \<Longrightarrow> one_active (rows @ [r]) = one_active rows"
  by (simp add: one_active_def)

lemma one_active_append_active:
  "\<not> list_ex (\<lambda>a. s_user_id a = s_user_id r \<and> s_status a = S_active) rows \<Longrightarrow> one_active rows \<Longrightarrow>
   one_active (rows @ [r])"
  by (auto simp: one_active_def list_ex_iff)

lemma row_ok_mono: "row_ok s r \<Longrightarrow> next_id s \<le> next_id t \<Longrightarrow> plans t = plans s \<Longrightarrow> row_ok t r"
  by (auto simp: row_ok_def split: option.splits)

lemma has_plan_find: "has_plan ps r \<Longrightarrow> \<exists>p. find (\<lambda>p. p_code p = s_plan_code r) ps = Some p"
  by (metis (mono_tags, lifting) find_None_iff has_plan_def list_ex_iff not_None_eq)

lemma with_plan_find:
  "distinct (map p_code ps) \<Longrightarrow> find (\<lambda>p. p_code p = s_plan_code r) ps = Some p \<Longrightarrow> with_plan ps r = [(r, p)]"
  using filter_distinct_key [of p_code ps p] by (auto simp: with_plan_def dest!: find_SomeD)

text \<open>A statement that appends rows keeps the shape when the new rows have it.\<close>

lemma subs_ok_append:
  assumes "subs_ok s" and "one_active (subscriptions s @ [r])" and "s_id r = next_id s"
    and "row_ok (s\<lparr>next_id := Suc (next_id s)\<rparr>) r"
  shows "subs_ok (s\<lparr>subscriptions := subscriptions s @ [r], next_id := Suc (next_id s)\<rparr>)"
  using assms by (auto simp: subs_ok_def list_all_iff row_ok_def split: option.splits)

text \<open>A statement that rewrites one row keeps it when the row stays where it belongs.\<close>

lemma subs_ok_update:
  assumes "subs_ok s" and "\<And>r. s_id (f r) = s_id r"
    and "\<And>r. row_ok s r \<Longrightarrow> P r \<Longrightarrow> row_ok s (f r)"
    and "one_active (update_where P f (subscriptions s))"
  shows "subs_ok (s\<lparr>subscriptions := update_where P f (subscriptions s)\<rparr>)"
proof -
  have "row_ok (s\<lparr>subscriptions := rows\<rparr>) r = row_ok s r" for rows r
    by (simp add: row_ok_def split: option.splits)
  with assms map_update_where_same [of s_id f P "subscriptions s"] show ?thesis
    by (auto simp: subs_ok_def list_all_iff table_simps split: if_splits)
qed

lemma subs_ok_cong:
  "subs_ok s \<Longrightarrow> subscriptions t = subscriptions s \<Longrightarrow> plans t = plans s \<Longrightarrow> next_id s \<le> next_id t \<Longrightarrow> subs_ok t"
  by (auto simp: subs_ok_def list_all_iff intro: row_ok_mono)

lemma subs_ok_notify [simp]: "subs_ok s \<Longrightarrow> subs_ok (insert_notification ck u ty ti d s)"
  by (erule subs_ok_cong) simp_all

section \<open>Minting\<close>

text \<open>
  The rows a dated purchase ought to give: each period starts where the one before it ends.
\<close>

definition stacked ::
  "clock \<Rightarrow> uuid \<Rightarrow> uuid \<Rightarrow> plan_code \<Rightarrow> int \<Rightarrow> timestamp \<Rightarrow> uuid \<Rightarrow> nat \<Rightarrow> subscription list" where
  "stacked ck uid pid plan days t i n =
     map (\<lambda>j. new_subscription ck uid plan pid S_queued (Some (add_days t (int j * days))) None (i + j)) [0..<n]"

lemma stacked_0 [simp]: "stacked ck uid pid plan days t i 0 = []"
  by (simp add: stacked_def)

lemma stacked_Suc [simp]:
  "stacked ck uid pid plan days t i (Suc n) =
     new_subscription ck uid plan pid S_queued (Some t) None i # stacked ck uid pid plan days (add_days t days) (Suc i) n"
  unfolding stacked_def by (simp del: upt_Suc add: map_upt_Suc add_days_def algebra_simps)

lemma length_stacked [simp]: "length (stacked ck uid pid plan days t i n) = n"
  by (simp add: stacked_def)

lemma new_subscription_simps [simp]:
  "s_id (new_subscription ck uid plan pid st a b i) = i"
  "s_user_id (new_subscription ck uid plan pid st a b i) = uid"
  "s_status (new_subscription ck uid plan pid st a b i) = st"
  "s_plan_code (new_subscription ck uid plan pid st a b i) = plan"
  "s_payment_id (new_subscription ck uid plan pid st a b i) = Some pid"
  "s_starts_at (new_subscription ck uid plan pid st a b i) = a"
  "s_expires_at (new_subscription ck uid plan pid st a b i) = b"
  by (simp_all add: new_subscription_def)

definition with_rows :: "subscription list \<Rightarrow> db \<Rightarrow> db" where
  "with_rows rows s = s\<lparr>subscriptions := subscriptions s @ rows, next_id := next_id s + length rows\<rparr>"

lemma with_rows_simps [simp]:
  "subscriptions (with_rows rows s) = subscriptions s @ rows"
  "next_id (with_rows rows s) = next_id s + length rows"
  "plans (with_rows rows s) = plans s"
  "payments (with_rows rows s) = payments s"
  "messages (with_rows rows s) = messages s"
  "users (with_rows rows s) = users s"
  "notifications (with_rows rows s) = notifications s"
  by (simp_all add: with_rows_def)

lemma with_rows_Nil [simp]: "with_rows [] s = s"
  by (simp add: with_rows_def)

lemma with_rows_append [simp]: "with_rows ys (with_rows xs s) = with_rows (xs @ ys) s"
  by (simp add: with_rows_def)

lemma insert_subscriptions_ok:
  "one_active (subscriptions s @ rows) \<Longrightarrow> insert_subscriptions rows s = Inr (with_rows rows s)"
  by (simp add: insert_subscriptions_def write_subscriptions_def with_rows_def)

lemma mint_loop_queued:
  "one_active (subscriptions s) \<Longrightarrow>
   mint_loop ck uid pid plan days n (Some t) rows s =
     Inr (rows @ stacked ck uid pid plan days t (next_id s) n,
          with_rows (stacked ck uid pid plan days t (next_id s) n) s)"
proof (induction n arbitrary: t rows s)
  case 0
  then show ?case by simp
next
  case (Suc n)
  let ?r = "new_subscription ck uid plan pid S_queued (Some t) None (next_id s)"
  have one: "one_active (subscriptions s @ [?r])"
    using Suc.prems by (simp add: one_active_append_other)
  with Suc.IH [of "with_rows [?r] s"] show ?case
    by (simp add: insert_subscriptions_ok Let_def)
qed

text \<open>The rows of a purchase, by where the chain stands.\<close>

definition dated_rows ::
  "clock \<Rightarrow> uuid \<Rightarrow> uuid \<Rightarrow> plan_code \<Rightarrow> int \<Rightarrow> nat \<Rightarrow> timestamp option \<Rightarrow> uuid \<Rightarrow> subscription list" where
  "dated_rows ck uid pid plan days n c i =
     (case c of
        Some t \<Rightarrow> stacked ck uid pid plan days t i n
      | None \<Rightarrow> (case n of 0 \<Rightarrow> [] | Suc m \<Rightarrow>
          new_subscription ck uid plan pid S_active (Some (db_now ck)) (Some (add_days (db_now ck) days)) i
          # stacked ck uid pid plan days (add_days (db_now ck) days) (Suc i) m))"

lemma mint_loop_rows:
  assumes "one_active (subscriptions s)" and "c = None \<Longrightarrow> \<not> holds_active uid s"
  shows "mint_loop ck uid pid plan days n c [] s =
    Inr (dated_rows ck uid pid plan days n c (next_id s),
         with_rows (dated_rows ck uid pid plan days n c (next_id s)) s)"
proof (cases c)
  case None
  show ?thesis
  proof (cases n)
    case (Suc m)
    let ?r = "new_subscription ck uid plan pid S_active (Some (db_now ck)) (Some (add_days (db_now ck) days)) (next_id s)"
    have one: "one_active (subscriptions s @ [?r])"
      using assms None by (intro one_active_append_active) (auto simp: holds_active_def)
    with mint_loop_queued [of "with_rows [?r] s"] show ?thesis
      by (simp add: None Suc insert_subscriptions_ok dated_rows_def Let_def)
  qed (simp add: None dated_rows_def)
qed (simp add: mint_loop_queued [OF assms(1)] dated_rows_def)

lemma chain_end_None:
  assumes "subs_ok s" and "chain_end ck uid s = None"
  shows "\<not> holds_active uid s"
proof
  assume "holds_active uid s"
  then obtain r where r: "find (\<lambda>r. s_user_id r = uid \<and> s_status r = S_active) (subscriptions s) = Some r"
    by (metis (mono_tags, lifting) find_None_iff holds_active_def list_ex_iff not_None_eq)
  then have "r \<in> set (subscriptions s)" "s_status r = S_active" by (auto dest: find_SomeD)
  with assms(1) obtain e where "s_expires_at r = Some e"
    by (auto simp: subs_ok_def list_all_iff row_ok_def)
  with assms(2) r have "fold (chain_step ck) (queued_of uid s) (Some e) = None"
    by (simp add: chain_end_def Let_def)
  moreover have "fold (chain_step ck) q (Some x) \<noteq> None" for q x
    by (induction q arbitrary: x) (simp_all add: chain_step_def)
  ultimately show False by blast
qed

text \<open>The whole of a mint, on a well-formed table: exactly which rows appear.\<close>

definition minted_rows :: "clock \<Rightarrow> payment \<Rightarrow> plan_row \<Rightarrow> db \<Rightarrow> subscription list" where
  "minted_rows ck y plan s =
     (if p_code plan = P_day
      then map (\<lambda>i. new_subscription ck (y_planner_id y) P_day (y_id y) S_ready None None (next_id s + i)) [0..<y_quantity y]
      else dated_rows ck (y_planner_id y) (y_id y) (p_code plan) (p_duration_days plan) (y_quantity y)
             (chain_end ck (y_planner_id y) s) (next_id s))"

lemma one_active_append_inactive:
  "list_all (\<lambda>r. s_status r \<noteq> S_active) rows \<Longrightarrow> one_active (xs @ rows) = one_active xs"
  by (simp add: one_active_def list_all_iff filter_False)

lemma length_dated_rows [simp]: "length (dated_rows ck uid pid plan days n c i) = n"
  by (simp add: dated_rows_def split: option.splits nat.splits)

lemma length_minted_rows [simp]: "length (minted_rows ck y plan s) = y_quantity y"
  by (simp add: minted_rows_def)

lemma mint_for_payment_fresh:
  assumes "subs_ok s" and "find (\<lambda>x. y_id x = pid) (payments s) = Some y" and "y_plan_code y = Some code"
    and "minted_for pid s = []" and "find (\<lambda>p. p_code p = code) (plans s) = Some plan"
  shows "mint_for_payment ck pid s =
    Inr (\<lparr>mr_minted = y_quantity y, mr_already_minted = False, mr_rows = minted_rows ck y plan s\<rparr>,
         with_rows (minted_rows ck y plan s) s)"
proof -
  from assms(2) have pid: "pid = y_id y" by (auto dest: find_SomeD)
  from assms(1) have one: "one_active (subscriptions s)" by (simp add: subs_ok_def)
  let ?rows = "minted_rows ck y plan s"
  show ?thesis
  proof (cases "p_code plan = P_day")
    case True
    have "one_active (subscriptions s @ ?rows)"
      using one True by (subst one_active_append_inactive) (auto simp: minted_rows_def list_all_iff)
    with True assms pid show ?thesis
      by (simp add: mint_for_payment_def mint_day_credits_def insert_subscriptions_ok minted_rows_def Let_def)
  next
    case False
    with assms pid mint_loop_rows [OF one, of "chain_end ck (y_planner_id y) s" "y_planner_id y"]
      chain_end_None [OF assms(1)] show ?thesis
      by (simp add: mint_for_payment_def mint_dated_plan_def minted_rows_def)
  qed
qed

section \<open>Every operation keeps the ledger\<close>

lemma subs_ok_with_rows:
  assumes "subs_ok s" and "one_active (subscriptions s @ rows)"
    and "map s_id rows = [next_id s..<next_id s + length rows]"
    and "list_all (row_ok (with_rows rows s)) rows"
  shows "subs_ok (with_rows rows s)"
proof -
  have old: "row_ok s r \<Longrightarrow> row_ok (with_rows rows s) r" for r by (erule row_ok_mono) simp_all
  have "s_id ` set rows = {next_id s..<next_id s + length rows}"
    using arg_cong [OF assms(3), of set] by simp
  moreover have "list_all (\<lambda>r. s_id r < next_id s) (subscriptions s)"
    using assms(1) by (auto simp: subs_ok_def list_all_iff row_ok_def)
  ultimately have "set (map s_id (subscriptions s)) \<inter> set (map s_id rows) = {}"
    by (force simp: list_all_iff)
  moreover have "distinct (map s_id rows)" unfolding assms(3) by simp
  ultimately show ?thesis
    using assms old by (auto simp: subs_ok_def list_all_iff)
qed

lemma map_id_stacked: "map s_id (stacked ck uid pid plan days t i n) = [i..<i + n]"
  by (induction n arbitrary: t i) (simp_all add: upt_conv_Cons)

lemma map_id_minted_rows: "map s_id (minted_rows ck y plan s) = [next_id s..<next_id s + y_quantity y]"
proof (cases "p_code plan = P_day")
  case True
  have "map (\<lambda>i. next_id s + i) [0..<n] = [next_id s..<next_id s + n]" for n
    by (induction n) simp_all
  with True show ?thesis by (simp add: minted_rows_def comp_def)
next
  case False
  then show ?thesis
    by (auto simp: minted_rows_def dated_rows_def map_id_stacked upt_conv_Cons split: option.splits nat.splits)
qed

lemma stacked_mem: "r \<in> set (stacked ck uid pid plan days t i n) \<Longrightarrow>
   s_status r = S_queued \<and> s_user_id r = uid \<and> s_plan_code r = plan \<and> s_payment_id r = Some pid"
  by (auto simp: stacked_def)

lemma minted_rows_mem: "r \<in> set (minted_rows ck y plan s) \<Longrightarrow>
   s_user_id r = y_planner_id y \<and> s_plan_code r = p_code plan \<and> s_payment_id r = Some (y_id y)
   \<and> (s_status r = S_active \<longrightarrow> s_expires_at r \<noteq> None)"
  by (auto simp: minted_rows_def dated_rows_def dest!: stacked_mem split: if_splits option.splits nat.splits)

lemma one_active_minted:
  assumes "subs_ok s"
  shows "one_active (subscriptions s @ minted_rows ck y plan s)"
proof -
  have one: "one_active (subscriptions s)" using assms by (simp add: subs_ok_def)
  show ?thesis
  proof (cases "p_code plan \<noteq> P_day \<and> chain_end ck (y_planner_id y) s = None \<and> y_quantity y \<noteq> 0")
    case False
    then have "list_all (\<lambda>r. s_status r \<noteq> S_active) (minted_rows ck y plan s)"
      by (auto simp: list_all_iff minted_rows_def dated_rows_def dest!: stacked_mem split: option.splits nat.splits)
    with one show ?thesis by (simp add: one_active_append_inactive)
  next
    case True
    then obtain m where m: "y_quantity y = Suc m" by (cases "y_quantity y") auto
    define r where "r = new_subscription ck (y_planner_id y) (p_code plan) (y_id y) S_active
      (Some (db_now ck)) (Some (add_days (db_now ck) (p_duration_days plan))) (next_id s)"
    define rest where "rest = stacked ck (y_planner_id y) (y_id y) (p_code plan) (p_duration_days plan)
      (add_days (db_now ck) (p_duration_days plan)) (Suc (next_id s)) m"
    have rows: "minted_rows ck y plan s = r # rest"
      using True m by (simp add: minted_rows_def dated_rows_def r_def rest_def)
    have user: "s_user_id r = y_planner_id y" by (simp add: r_def)
    have rest: "list_all (\<lambda>r. s_status r \<noteq> S_active) rest"
      by (auto simp: rest_def list_all_iff dest: stacked_mem)
    have "one_active (subscriptions s @ [r])"
      using chain_end_None [OF assms] True one user
      by (intro one_active_append_active) (auto simp: holds_active_def)
    then have "one_active ((subscriptions s @ [r]) @ rest)" by (simp only: one_active_append_inactive [OF rest])
    then show ?thesis by (simp add: rows)
  qed
qed

text \<open>What a payment bought, read off the table.\<close>

definition minted_key :: "subscription \<Rightarrow> uuid option \<times> uuid \<times> plan_code" where
  "minted_key r = (s_payment_id r, s_user_id r, s_plan_code r)"

definition bought :: "uuid \<Rightarrow> subscription list \<Rightarrow> (uuid option \<times> uuid \<times> plan_code) list" where
  "bought pid rows = filter (\<lambda>k. fst k = Some pid) (map minted_key rows)"

definition paid_out :: "subscription list \<Rightarrow> payment \<Rightarrow> bool" where
  "paid_out rows y \<longleftrightarrow> (bought (y_id y) rows = [] \<or> length (bought (y_id y) rows) = y_quantity y)
     \<and> list_all (\<lambda>k. fst (snd k) = y_planner_id y \<and> Some (snd (snd k)) = y_plan_code y) (bought (y_id y) rows)"

definition payments_ok :: "db \<Rightarrow> bool" where
  "payments_ok s \<longleftrightarrow> distinct (map y_id (payments s)) \<and> list_all (\<lambda>y. y_id y < next_id s) (payments s)"

definition ledger_ok :: "db \<Rightarrow> bool" where
  "ledger_ok s \<longleftrightarrow> subs_ok s \<and> payments_ok s \<and> list_all (paid_out (subscriptions s)) (payments s)"

lemma bought_minted_for: "bought pid (subscriptions s) = map minted_key (minted_for pid s)"
  by (simp add: bought_def minted_for_def filter_map comp_def minted_key_def)

lemma bought_append [simp]: "bought pid (xs @ ys) = bought pid xs @ bought pid ys"
  by (simp add: bought_def)

lemma paid_out_update:
  assumes "\<And>r. minted_key (f r) = minted_key r"
  shows "paid_out (update_where P f rows) = paid_out rows"
proof
  fix y
  show "paid_out (update_where P f rows) y = paid_out rows y"
    using map_update_where_same [of minted_key f P rows] assms by (simp add: paid_out_def bought_def)
qed

lemma bought_minted_rows:
  "bought pid (minted_rows ck y plan s) =
     (if pid = y_id y then replicate (y_quantity y) (Some pid, y_planner_id y, p_code plan) else [])"
proof -
  have "map minted_key (minted_rows ck y plan s) =
      replicate (y_quantity y) (Some (y_id y), y_planner_id y, p_code plan)"
    by (intro replicate_eqI) (auto simp: minted_key_def dest: minted_rows_mem)
  then show ?thesis by (simp add: bought_def)
qed

lemma ledger_mint:
  assumes "ledger_ok s" and "mint_for_payment ck pid s = Inr (m, t)"
  shows "ledger_ok t"
proof (cases "t = s")
  case False
  with assms(2) obtain y code plan where y: "find (\<lambda>x. y_id x = pid) (payments s) = Some y"
    and code: "y_plan_code y = Some code" and new: "minted_for pid s = []"
    and plan: "find (\<lambda>p. p_code p = code) (plans s) = Some plan"
    by (auto simp: mint_for_payment_def split: option.splits if_splits)
  from assms(1) have ok: "subs_ok s" "payments_ok s" "list_all (paid_out (subscriptions s)) (payments s)"
    by (simp_all add: ledger_ok_def)
  let ?rows = "minted_rows ck y plan s"
  from mint_for_payment_fresh [OF ok(1) y code new plan] assms(2) have t: "t = with_rows ?rows s" by simp
  from y ok(2) have yid: "y_id y = pid" "y \<in> set (payments s)" "pid < next_id s"
    by (auto simp: payments_ok_def list_all_iff dest!: find_SomeD)
  from plan have pl: "p_code plan = code" "plan \<in> set (plans s)" by (auto dest: find_SomeD)
  have "row_ok (with_rows ?rows s) r" if "r \<in> set ?rows" for r
  proof -
    have "s_id r \<in> set (map s_id ?rows)" using that by simp
    then have "s_id r < next_id s + y_quantity y" unfolding map_id_minted_rows by simp
    with minted_rows_mem [OF that] pl yid show ?thesis
      by (auto simp: row_ok_def has_plan_def list_ex_iff)
  qed
  then have "subs_ok t"
    unfolding t using ok(1) one_active_minted [OF ok(1)] map_id_minted_rows
    by (intro subs_ok_with_rows) (simp_all add: list_all_iff)
  moreover have "payments_ok t" using ok(2) by (auto simp: t payments_ok_def list_all_iff)
  moreover have "paid_out (subscriptions t) x" if x: "x \<in> set (payments s)" for x
  proof (cases "y_id x = pid")
    case True
    with x yid ok(2) have "x = y" by (auto simp: payments_ok_def intro: distinct_key_eq)
    with new code pl yid show ?thesis
      by (simp add: t paid_out_def bought_minted_rows bought_minted_for list_all_iff)
  next
    case False
    with x ok(3) yid show ?thesis by (auto simp: t paid_out_def bought_minted_rows list_all_iff)
  qed
  ultimately show ?thesis by (simp add: ledger_ok_def t list_all_iff)
qed (use assms in simp)


lemma ledger_cong:
  assumes "ledger_ok s" and "subscriptions t = subscriptions s" and "plans t = plans s"
    and "next_id s \<le> next_id t" and "payments t = payments s"
  shows "ledger_ok t"
  using assms subs_ok_cong [of s t]
  by (auto simp: ledger_ok_def payments_ok_def list_all_iff dest: less_le_trans)

text \<open>A row of the table rewritten in place, keeping owner, plan and payment.\<close>

lemma ledger_update:
  assumes "ledger_ok s" and "\<And>r. s_id (f r) = s_id r" and "\<And>r. minted_key (f r) = minted_key r"
    and "\<And>r. row_ok s r \<Longrightarrow> P r \<Longrightarrow> row_ok s (f r)"
    and "one_active (update_where P f (subscriptions s))"
  shows "ledger_ok (s\<lparr>subscriptions := update_where P f (subscriptions s)\<rparr>)"
  using assms subs_ok_update [of s f P]
  by (simp add: ledger_ok_def payments_ok_def paid_out_update)

text \<open>A payment rewritten in place, keeping payer, plan and quantity.\<close>

lemma ledger_update_payments:
  assumes "ledger_ok s"
    and "\<And>y. y_id (f y) = y_id y \<and> y_planner_id (f y) = y_planner_id y
             \<and> y_plan_code (f y) = y_plan_code y \<and> y_quantity (f y) = y_quantity y"
  shows "ledger_ok (s\<lparr>payments := update_where P f (payments s)\<rparr>)"
proof -
  have "paid_out rows (f y) = paid_out rows y" for rows y using assms(2) [of y] by (simp add: paid_out_def)
  moreover have "map y_id (update_where P f (payments s)) = map y_id (payments s)"
    using assms(2) by (intro map_update_where_same) blast
  moreover have "subs_ok (s\<lparr>payments := ys\<rparr>)" for ys
    using assms(1) subs_ok_cong [of s "s\<lparr>payments := ys\<rparr>"] by (simp add: ledger_ok_def)
  ultimately show ?thesis
    using assms by (auto simp: ledger_ok_def payments_ok_def list_all_iff table_simps split: if_splits)
qed

lemma start_running_key [simp]: "minted_key (start_running ck d r) = minted_key r" "s_id (start_running ck d r) = s_id r"
  by (simp_all add: start_running_def minted_key_def)

lemma expire_key [simp]: "minted_key (expire r) = minted_key r" "s_id (expire r) = s_id r" "s_user_id (expire r) = s_user_id r"
  by (simp_all add: expire_def minted_key_def)

lemma promote_key [simp]:
  "minted_key (promote ck d r) = minted_key r" "s_id (promote ck d r) = s_id r"
  "s_user_id (promote ck d r) = s_user_id r" "s_status (promote ck d r) = S_active"
  "s_plan_code (promote ck d r) = s_plan_code r"
  by (simp_all add: promote_def minted_key_def)

text \<open>A row that keeps its id, plan and payment stays well-formed if it has an expiry when active.\<close>

lemma row_ok_rewrite:
  assumes "row_ok s r" and "s_id r' = s_id r" and "minted_key r' = minted_key r"
    and "s_status r' = S_active \<Longrightarrow> s_expires_at r' \<noteq> None"
  shows "row_ok s r'"
  using assms by (simp add: row_ok_def minted_key_def has_plan_def)

lemma row_ok_start [simp]: "row_ok s r \<Longrightarrow> row_ok s (start_running ck d r)"
  by (erule row_ok_rewrite) (simp_all add: start_running_def minted_key_def)

lemma row_ok_promote [simp]: "row_ok s r \<Longrightarrow> row_ok s (promote ck d r)"
  by (erule row_ok_rewrite) (simp_all add: promote_def minted_key_def)

lemma row_ok_expire [simp]: "row_ok s r \<Longrightarrow> row_ok s (expire r)"
  by (erule row_ok_rewrite) (simp_all add: expire_def minted_key_def)

lemma ledger_activate: "ledger_ok s \<Longrightarrow> ledger_ok (snd (activate ck uid sid s))"
  by (auto simp: activate_def activate_swap_def write_subscriptions_def intro: ledger_update
      split: sum.splits list.splits)

lemma one_active_expire: "one_active rows \<Longrightarrow> one_active (update_where (lapsed ck) expire rows)"
  unfolding one_active_def by (rule distinct_filter_update_where) (simp_all add: expire_def)

lemma ledger_expire: "ledger_ok s \<Longrightarrow> ledger_ok (snd (expire_lapsed ck s))"
proof -
  assume ok: "ledger_ok s"
  then have "one_active (update_where (lapsed ck) expire (subscriptions s))"
    by (simp add: ledger_ok_def subs_ok_def one_active_expire)
  with ledger_update [OF ok, of expire "lapsed ck"] show ?thesis by (simp add: expire_lapsed_def)
qed

lemma ledger_promote_next: "ledger_ok (snd acc) \<Longrightarrow> ledger_ok (snd (promote_next ck uid acc))"
  by (auto simp: promote_next_def write_subscriptions_def Let_def intro: ledger_update
      split: prod.splits list.splits)

lemma snd_sweep:
  "snd (expire_and_promote ck s) =
     snd (fold (promote_next ck) (waiting_users (snd (expire_lapsed ck s))) ([], snd (expire_lapsed ck s)))"
  by (simp add: expire_and_promote_def case_prod_beta Let_def)

lemma ledger_sweep: "ledger_ok s \<Longrightarrow> ledger_ok (snd (expire_and_promote ck s))"
proof -
  assume "ledger_ok s"
  then have s1: "ledger_ok (snd (expire_lapsed ck s))" by (rule ledger_expire)
  have "ledger_ok (snd acc) \<Longrightarrow> ledger_ok (snd (fold (promote_next ck) us acc))" for us acc
    by (induction us arbitrary: acc) (simp_all add: ledger_promote_next)
  with s1 show ?thesis by (simp add: snd_sweep)
qed

lemma ledger_new_payment:
  assumes "ledger_ok s" and "y_id y = next_id s"
  shows "ledger_ok (s\<lparr>payments := payments s @ [y], next_id := Suc (next_id s)\<rparr>)"
proof -
  have "bought (next_id s) (subscriptions s) = []"
    using assms(1) by (auto simp: bought_def minted_key_def filter_empty_conv ledger_ok_def subs_ok_def
        list_all_iff row_ok_def split: option.splits)
  then have "paid_out (subscriptions s) y" using assms(2) by (simp add: paid_out_def)
  moreover have "subs_ok (s\<lparr>payments := payments s @ [y], next_id := Suc (next_id s)\<rparr>)"
    by (rule subs_ok_cong [of s]) (use assms(1) in \<open>simp_all add: ledger_ok_def\<close>)
  ultimately show ?thesis
    using assms by (auto simp: ledger_ok_def payments_ok_def list_all_iff)
qed

lemma ledger_hand_over:
  assumes "ledger_ok s"
  shows "ledger_ok (record_hand_over pid i (s\<lparr>next_id := Suc (next_id s)\<rparr>))"
proof -
  have "ledger_ok (s\<lparr>next_id := Suc (next_id s)\<rparr>)" using assms by (rule ledger_cong) simp_all
  then show ?thesis unfolding record_hand_over_def by (rule ledger_update_payments) (simp add: hand_over_def)
qed

lemma ledger_place_payment:
  assumes "ledger_ok s"
  shows "ledger_ok (snd (place_payment ck cfg uid dto plan s))"
proof -
  define y where "y = new_payment ck cfg uid dto plan (registry_active cfg) (next_id s)"
  define s1 where "s1 = s\<lparr>payments := payments s @ [y], next_id := Suc (next_id s)\<rparr>"
  have "ledger_ok s1"
    unfolding s1_def using assms by (rule ledger_new_payment) (simp add: y_def new_payment_def Let_def)
  with ledger_hand_over [OF this] show ?thesis
    unfolding place_payment_def Let_def y_def [symmetric] s1_def [symmetric] by (simp split: sum.splits)
qed

lemma ledger_intent: "ledger_ok s \<Longrightarrow> ledger_ok (snd (create_payment_intent ck cfg uid dto s))"
  by (simp add: create_payment_intent_def ledger_place_payment split: option.splits)

lemma ledger_report: "ledger_ok s \<Longrightarrow> ledger_ok (snd (report_transfer uid pid sv rf s))"
  by (auto simp: report_transfer_def Let_def intro!: ledger_update_payments)

section \<open>Any sequence of operations\<close>

datatype sub_op =
    Buy uuid create_payment_intent_dto
  | Report uuid uuid string string
  | Activate uuid uuid
  | Mint uuid
  | Sweep

fun run_sub_op :: "config \<Rightarrow> clock \<Rightarrow> sub_op \<Rightarrow> db \<Rightarrow> db" where
  "run_sub_op cfg ck (Buy uid dto) s = snd (create_payment_intent ck cfg uid dto s)"
| "run_sub_op cfg ck (Report uid pid sv rf) s = snd (report_transfer uid pid sv rf s)"
| "run_sub_op cfg ck (Activate uid sid) s = snd (activate ck uid sid s)"
| "run_sub_op cfg ck (Mint pid) s = (case mint_for_payment ck pid s of Inl e \<Rightarrow> s | Inr (m, t) \<Rightarrow> t)"
| "run_sub_op cfg ck Sweep s = snd (expire_and_promote ck s)"

fun run_sub_ops :: "config \<Rightarrow> (clock \<times> sub_op) list \<Rightarrow> db \<Rightarrow> db" where
  "run_sub_ops cfg [] s = s"
| "run_sub_ops cfg ((ck, x) # xs) s = run_sub_ops cfg xs (run_sub_op cfg ck x s)"

lemma ledger_step: "ledger_ok s \<Longrightarrow> ledger_ok (run_sub_op cfg ck x s)"
  by (cases x) (auto simp: ledger_intent ledger_report ledger_activate ledger_sweep
      intro: ledger_mint split: sum.splits)

text \<open>A small shop: the plans of migration 018, one buyer, one payment of three months.\<close>

definition shop_plans :: "plan_row list" where
  "shop_plans =
     [\<lparr>p_code = P_day, p_price_usd = 5, p_duration_days = 1, p_requires_id_doc = False,
       p_message_cap = Some 15, p_is_active = True, p_sort_order = 1\<rparr>,
      \<lparr>p_code = P_month, p_price_usd = 15, p_duration_days = 30, p_requires_id_doc = True,
       p_message_cap = None, p_is_active = True, p_sort_order = 2\<rparr>,
      \<lparr>p_code = P_year, p_price_usd = 100, p_duration_days = 365, p_requires_id_doc = True,
       p_message_cap = None, p_is_active = True, p_sort_order = 3\<rparr>]"

definition shop_payment :: "plan_code \<Rightarrow> nat \<Rightarrow> payment" where
  "shop_payment code n =
     \<lparr>y_id = 1, y_planner_id = 0, y_plan_code = Some code, y_quantity = n, y_subtotal_usd = 45,
      y_vat_rate = 11 / 100, y_vat_usd = 495 / 100, y_amount_usd = 4995 / 100, y_currency = ''USD'',
      y_provider = ''mock'', y_provider_ref = Some ''mock_2'', y_status = Y_awaiting_provider,
      y_transfer_service = None, y_reference_code = None, y_intent_expires_at = None,
      y_confirmed_by = None, y_confirmed_at = None, y_rejection_reason = None, y_created_at = 0\<rparr>"

definition shop :: "plan_code \<Rightarrow> nat \<Rightarrow> db" where
  "shop code n = empty_db\<lparr>plans := shop_plans, payments := [shop_payment code n], next_id := 3\<rparr>"

lemma plans_ok_shop [simp]: "plans_ok shop_plans"
  by (simp add: plans_ok_def shop_plans_def)

lemma ledger_shop: "ledger_ok (shop code n)"
  by (simp add: ledger_ok_def subs_ok_def payments_ok_def shop_def empty_db_def one_active_def
      shop_payment_def paid_out_def bought_def)

text \<open>
  C6: the subscription ledger is sound under any sequence of purchases, transfer reports,
  activations, mints and nightly sweeps: at most one running subscription per user, every
  running one with an end, ids unique, and every payment paid out either not at all or in
  full, to the payer and under the plan that was bought.
\<close>

theorem subscription_ledger_sound:
  "ledger_ok s \<Longrightarrow> ledger_ok (run_sub_ops cfg ops s)"
  by (induction ops arbitrary: s) (auto simp: ledger_step)

theorem subscription_ledger_sound_witness:
  "ledger_ok (run_sub_ops (\<lambda>_. None) [(\<lparr>db_now = 5, js_now = 5\<rparr>, Mint 1), (\<lparr>db_now = 9, js_now = 9\<rparr>, Sweep)]
     (shop P_month 3))"
  using subscription_ledger_sound [OF ledger_shop] by blast

text \<open>What a payment bought is never taken back by a later operation.\<close>

lemma bought_update: "(\<And>r. minted_key (f r) = minted_key r) \<Longrightarrow> bought pid (update_where P f rows) = bought pid rows"
  using map_update_where_same [of minted_key f P rows] by (simp add: bought_def)

lemma bought_promotions: "bought pid (subscriptions (snd (fold (promote_next ck) us acc))) = bought pid (subscriptions (snd acc))"
proof (induction us arbitrary: acc)
  case (Cons u us)
  have "bought pid (subscriptions (snd (promote_next ck u acc))) = bought pid (subscriptions (snd acc))"
    by (auto simp: promote_next_def write_subscriptions_def Let_def bought_update split: prod.splits list.splits)
  with Cons show ?case by simp
qed simp

lemma bought_sweep: "bought pid (subscriptions (snd (expire_and_promote ck s))) = bought pid (subscriptions s)"
  by (simp add: snd_sweep bought_promotions) (simp add: expire_lapsed_def bought_update)

lemma bought_mint:
  assumes "ledger_ok s" and "mint_for_payment ck q s = Inr (m, t)"
  shows "\<exists>ks. bought pid (subscriptions t) = bought pid (subscriptions s) @ ks"
proof (cases "t = s")
  case False
  with assms(2) obtain y code plan where y: "find (\<lambda>x. y_id x = q) (payments s) = Some y"
    and code: "y_plan_code y = Some code" and new: "minted_for q s = []"
    and plan: "find (\<lambda>p. p_code p = code) (plans s) = Some plan"
    by (auto simp: mint_for_payment_def split: option.splits if_splits)
  from assms(1) have "subs_ok s" by (simp add: ledger_ok_def)
  from mint_for_payment_fresh [OF this y code new plan] assms(2) show ?thesis by auto
qed simp

lemma subscriptions_place_payment [simp]: "subscriptions (snd (place_payment ck cfg uid dto plan s)) = subscriptions s"
  by (simp add: place_payment_def record_hand_over_def Let_def split: sum.splits)

lemma bought_step:
  "ledger_ok s \<Longrightarrow> \<exists>ks. bought pid (subscriptions (run_sub_op cfg ck x s)) = bought pid (subscriptions s) @ ks"
  by (cases x) (auto simp: create_payment_intent_def report_transfer_def activate_def activate_swap_def
      write_subscriptions_def Let_def bought_update bought_sweep split: option.splits sum.splits list.splits
      dest: bought_mint)

lemma bought_run:
  "ledger_ok s \<Longrightarrow> \<exists>ks. bought pid (subscriptions (run_sub_ops cfg ops s)) = bought pid (subscriptions s) @ ks"
proof (induction ops arbitrary: s)
  case (Cons x ops)
  obtain ck y where x: "x = (ck, y)" by (cases x)
  from bought_step [OF Cons.prems, of pid cfg ck y] Cons.IH [OF ledger_step [OF Cons.prems, of cfg ck y]]
  show ?case by (auto simp: x)
qed simp

section \<open>A confirmed payment is minted exactly once\<close>

lemma mint_again:
  "find (\<lambda>y. y_id y = pid) (payments s) = Some y \<Longrightarrow> y_plan_code y \<noteq> None \<Longrightarrow> bought pid (subscriptions s) \<noteq> []
   \<Longrightarrow> mint_for_payment ck pid s = Inr (\<lparr>mr_minted = 0, mr_already_minted = True, mr_rows = []\<rparr>, s)"
  by (auto simp: mint_for_payment_def bought_minted_for)

text \<open>No operation drops a payment row or changes its plan.\<close>

definition same_purchase :: "payment \<Rightarrow> payment \<Rightarrow> bool" where
  "same_purchase y y' \<longleftrightarrow> y_id y' = y_id y \<and> y_plan_code y' = y_plan_code y \<and> y_quantity y' = y_quantity y"

definition keeps_payment :: "uuid \<Rightarrow> db \<Rightarrow> db \<Rightarrow> bool" where
  "keeps_payment pid s t \<longleftrightarrow>
     (\<forall>y. find (\<lambda>x. y_id x = pid) (payments s) = Some y \<longrightarrow>
        (\<exists>y'. find (\<lambda>x. y_id x = pid) (payments t) = Some y' \<and> same_purchase y y'))"

lemma keeps_payment_refl: "payments t = payments s \<Longrightarrow> keeps_payment pid s t"
  by (simp add: keeps_payment_def same_purchase_def)

lemma keeps_payment_trans: "keeps_payment pid s t \<Longrightarrow> keeps_payment pid t u \<Longrightarrow> keeps_payment pid s u"
  by (fastforce simp: keeps_payment_def same_purchase_def)

lemma find_update_where:
  "(\<And>y. Q (f y) = Q y) \<Longrightarrow> find Q (update_where P f ys) = map_option (\<lambda>y. if P y then f y else y) (find Q ys)"
  by (induction ys) auto

lemma keeps_payment_update:
  "(\<And>y. same_purchase y (f y)) \<Longrightarrow> payments t = update_where P f (payments s) \<Longrightarrow> keeps_payment pid s t"
  by (auto simp: keeps_payment_def find_update_where same_purchase_def)

lemma keeps_payment_place: "keeps_payment pid s (snd (place_payment ck cfg uid dto plan s))"
proof -
  define y where "y = new_payment ck cfg uid dto plan (registry_active cfg) (next_id s)"
  define s1 where "s1 = s\<lparr>payments := payments s @ [y], next_id := Suc (next_id s)\<rparr>"
  have 1: "keeps_payment pid s s1"
    by (auto simp: keeps_payment_def s1_def find_append same_purchase_def)
  have 2: "keeps_payment pid s1 (record_hand_over q i (s1\<lparr>next_id := n\<rparr>))" for q i n
    by (rule keeps_payment_update [of "hand_over i" _ "\<lambda>x. y_id x = q"]) (simp_all add: same_purchase_def hand_over_def record_hand_over_def)
  show ?thesis
    unfolding place_payment_def Let_def y_def [symmetric] s1_def [symmetric]
    using 1 keeps_payment_trans [OF 1 2] by (simp split: sum.splits)
qed

lemma payments_promotions [simp]: "payments (snd (fold (promote_next ck) us acc)) = payments (snd acc)"
proof (induction us arbitrary: acc)
  case (Cons u us)
  have "payments (snd (promote_next ck u acc)) = payments (snd acc)"
    by (auto simp: promote_next_def write_subscriptions_def Let_def split: prod.splits list.splits)
  with Cons show ?case by simp
qed simp

lemma payments_sweep [simp]: "payments (snd (expire_and_promote ck s)) = payments s"
  by (simp add: snd_sweep) (simp add: expire_lapsed_def)

lemma payments_mint: "mint_for_payment ck q s = Inr (m, t) \<Longrightarrow> payments t = payments s"
proof -
  have "mint_loop ck uid pid plan days n c rows s = Inr (x, t) \<Longrightarrow> payments t = payments s" for uid pid plan days n c rows x s
    by (induction n arbitrary: c rows s)
       (auto simp: Let_def insert_subscriptions_def write_subscriptions_def split: sum.splits if_splits)
  then show "mint_for_payment ck q s = Inr (m, t) \<Longrightarrow> payments t = payments s"
    by (auto simp: mint_for_payment_def mint_day_credits_def mint_dated_plan_def insert_subscriptions_def
        write_subscriptions_def Let_def map_sum_def split: option.splits if_splits sum.splits)
qed

lemma keeps_payment_step: "keeps_payment pid s (run_sub_op cfg ck x s)"
proof (cases x)
  case (Report uid p sv rf)
  have "keeps_payment pid s (s\<lparr>payments := update_where P
      (\<lambda>y. y\<lparr>y_transfer_service := Some sv, y_reference_code := Some rf\<rparr>) (payments s)\<rparr>)" for P
    by (rule keeps_payment_update [where P = P]) (simp_all add: same_purchase_def)
  then show ?thesis by (simp add: Report report_transfer_def Let_def keeps_payment_refl)
qed (auto simp: create_payment_intent_def activate_def activate_swap_def write_subscriptions_def
     intro!: keeps_payment_refl keeps_payment_place dest: payments_mint split: option.splits sum.splits list.splits)

lemma keeps_payment_run: "keeps_payment pid s (run_sub_ops cfg ops s)"
proof (induction ops arbitrary: s)
  case (Cons x ops)
  obtain ck y where "x = (ck, y)" by (cases x)
  with Cons [of "run_sub_op cfg ck y s"] keeps_payment_step [of pid s cfg ck y] show ?case
    by (auto intro: keeps_payment_trans)
qed (simp add: keeps_payment_refl)

text \<open>
  C5: a retried confirmation hands out nothing. Once a mint has produced rows for a payment,
  then after any further operations a second mint of it, at any time, reports
  \<open>alreadyMinted\<close> and leaves the database exactly as it is.
\<close>

theorem mint_is_once_only:
  assumes "ledger_ok s" and "mint_for_payment ck pid s = Inr (m, t)" and "0 < mr_minted m"
  shows "mint_for_payment ck' pid (run_sub_ops cfg ops t) =
    Inr (\<lparr>mr_minted = 0, mr_already_minted = True, mr_rows = []\<rparr>, run_sub_ops cfg ops t)"
proof -
  from assms(2,3) obtain y code plan where y: "find (\<lambda>x. y_id x = pid) (payments s) = Some y"
    and code: "y_plan_code y = Some code" and new: "minted_for pid s = []"
    and plan: "find (\<lambda>p. p_code p = code) (plans s) = Some plan"
    by (auto simp: mint_for_payment_def split: option.splits if_splits)
  have "subs_ok s" using assms(1) by (simp add: ledger_ok_def)
  from mint_for_payment_fresh [OF this y code new plan] assms(2,3)
  have t: "t = with_rows (minted_rows ck y plan s) s" and "0 < y_quantity y" by auto
  moreover from y have "pid = y_id y" by (auto dest: find_SomeD)
  ultimately have "bought pid (subscriptions t) \<noteq> []" by (simp add: bought_minted_rows)
  with bought_run [OF ledger_mint [OF assms(1,2)], of pid cfg ops]
  have "bought pid (subscriptions (run_sub_ops cfg ops t)) \<noteq> []" by auto
  moreover have "keeps_payment pid s (run_sub_ops cfg ops t)"
    using keeps_payment_run [of pid t] by (simp add: keeps_payment_def t)
  with y code obtain y' where "find (\<lambda>x. y_id x = pid) (payments (run_sub_ops cfg ops t)) = Some y'"
    and "y_plan_code y' \<noteq> None" by (auto simp: keeps_payment_def same_purchase_def)
  ultimately show ?thesis by (intro mint_again)
qed

theorem mint_is_once_only_witness:
  "\<exists>m t. mint_for_payment \<lparr>db_now = 5, js_now = 5\<rparr> 1 (shop P_day 2) = Inr (m, t) \<and> mr_minted m = 2
     \<and> mint_for_payment \<lparr>db_now = 7, js_now = 7\<rparr> 1 t =
         Inr (\<lparr>mr_minted = 0, mr_already_minted = True, mr_rows = []\<rparr>, t)"
proof -
  let ?ck = "\<lparr>db_now = 5, js_now = 5\<rparr>"
  obtain m t where 1: "mint_for_payment ?ck 1 (shop P_day 2) = Inr (m, t)" and 2: "mr_minted m = 2"
    using mint_for_payment_fresh [of "shop P_day 2" 1 "shop_payment P_day 2" P_day "hd shop_plans" ?ck]
      ledger_shop [of P_day 2]
    by (simp add: ledger_ok_def shop_def empty_db_def shop_payment_def shop_plans_def minted_for_def)
  have "0 < mr_minted m" using 2 by simp
  from mint_is_once_only [OF ledger_shop 1 this, of "\<lparr>db_now = 7, js_now = 7\<rparr>" "\<lambda>_. None" "[]"] 1 2
  show ?thesis by auto
qed

section \<open>The nightly sweep\<close>

definition swept :: "clock \<Rightarrow> plan_row list \<Rightarrow> subscription \<Rightarrow> subscription \<Rightarrow> bool" where
  "swept ck ps r r' \<longleftrightarrow>
     r' = r \<or> (lapsed ck r \<and> r' = expire r)
   \<or> (s_status r = S_queued \<and> list_ex (\<lambda>p. p_code p = s_plan_code r \<and> r' = promote ck (p_duration_days p) r) ps)"

definition waits :: "uuid \<Rightarrow> db \<Rightarrow> bool" where
  "waits uid s \<longleftrightarrow> list_ex (\<lambda>r. s_user_id r = uid \<and> s_status r = S_queued) (subscriptions s)"

definition first_in_line :: "db \<Rightarrow> subscription \<Rightarrow> bool" where
  "first_in_line s r \<longleftrightarrow> s_status r = S_queued
     \<and> list_all (\<lambda>x. s_created_at r \<le> s_created_at x)
         (filter (\<lambda>x. s_user_id x = s_user_id r \<and> s_status x = S_queued) (subscriptions s))"

lemma queued_of_hd:
  assumes "subs_ok s" and "waits uid s"
  obtains r p rest where "queued_of uid s = (r, p) # rest" and "r \<in> set (subscriptions s)"
    and "first_in_line s r" and "s_user_id r = uid" and "p \<in> set (plans s)" and "p_code p = s_plan_code r"
proof -
  let ?mine = "filter (\<lambda>r. s_user_id r = uid \<and> s_status r = S_queued) (subscriptions s)"
  let ?sorted = "sort_by (\<lambda>a b. s_created_at a \<le> s_created_at b) ?mine"
  have "?sorted \<noteq> []" using assms(2) by (auto simp: waits_def list_ex_iff filter_empty_conv)
  then obtain r rs where rs: "?sorted = r # rs" by (cases ?sorted) auto
  have "r \<in> set ?sorted" unfolding rs by simp
  then have r: "r \<in> set (subscriptions s)" "s_user_id r = uid" "s_status r = S_queued" by simp_all
  with assms(1) have "has_plan (plans s) r" by (simp add: subs_ok_def list_all_iff row_ok_def)
  then have "with_plan (plans s) r \<noteq> []" by simp
  then obtain q qs where q: "with_plan (plans s) r = q # qs" by (cases "with_plan (plans s) r") auto
  then have "q \<in> set (with_plan (plans s) r)" by simp
  then obtain p where p: "q = (r, p)" "p \<in> set (plans s)" "p_code p = s_plan_code r"
    by (auto simp: with_plan_def)
  have "queued_of uid s = (r, p) # qs @ concat (map (with_plan (plans s)) rs)"
    by (simp add: queued_of_def rs q p)
  moreover have "first_in_line s r"
    using first_sorted_least [OF rs] r by (simp add: first_in_line_def list_all_iff)
  ultimately show thesis using that r p by blast
qed

lemma promote_next_works:
  assumes "subs_ok s" and "waits uid s" and "\<not> holds_active uid s"
  obtains r p where "r \<in> set (subscriptions s)" and "first_in_line s r" and "s_user_id r = uid"
    and "p \<in> set (plans s)" and "p_code p = s_plan_code r"
    and "promote_next ck uid (ps, s) = (ps @ [promote ck (p_duration_days p) r],
      s\<lparr>subscriptions := update_where (\<lambda>x. s_id x = s_id r) (promote ck (p_duration_days p)) (subscriptions s)\<rparr>)"
proof -
  from assms(1,2) obtain r p rest where q: "queued_of uid s = (r, p) # rest"
    and r: "r \<in> set (subscriptions s)" "first_in_line s r" "s_user_id r = uid"
    and p: "p \<in> set (plans s)" "p_code p = s_plan_code r"
    by (rule queued_of_hd)
  then have queued: "s_status r = S_queued" by (simp add: first_in_line_def)
  let ?f = "promote ck (p_duration_days p)"
  from assms(1) have ids: "distinct (map s_id (subscriptions s))" and one: "one_active (subscriptions s)"
    by (simp_all add: subs_ok_def)
  have upd: "updated_rows (is_queued (s_id r)) ?f (subscriptions s) = [?f r]"
    "update_where (is_queued (s_id r)) ?f (subscriptions s) = update_where (\<lambda>x. s_id x = s_id r) ?f (subscriptions s)"
    using ids r queued by (auto simp: is_queued_def intro!: updated_rows_key [where key = s_id])
  have "s_user_id (?f x) \<notin> s_user_id ` set (filter (\<lambda>r. s_status r = S_active) (subscriptions s))"
    if "x \<in> set (subscriptions s)" "s_id x = s_id r" for x
    using distinct_key_eq [OF ids that(1) r(1) that(2)] r(3) assms(3) by (auto simp: holds_active_def list_ex_iff)
  then have "one_active (update_where (\<lambda>x. s_id x = s_id r) ?f (subscriptions s))"
    using one ids unfolding one_active_def by (intro distinct_filter_update_one) auto
  then have "promote_next ck uid (ps, s) = (ps @ [?f r],
      s\<lparr>subscriptions := update_where (\<lambda>x. s_id x = s_id r) ?f (subscriptions s)\<rparr>)"
    by (simp add: promote_next_def q write_subscriptions_def upd Let_def)
  with that r p show thesis by blast
qed

text \<open>How one row moves through the promotions of some users.\<close>

definition moved_up :: "clock \<Rightarrow> plan_row list \<Rightarrow> uuid list \<Rightarrow> subscription \<Rightarrow> subscription \<Rightarrow> bool" where
  "moved_up ck ps us r r' \<longleftrightarrow> r' = r \<or> (s_status r = S_queued \<and> s_user_id r \<in> set us
     \<and> list_ex (\<lambda>p. p_code p = s_plan_code r \<and> r' = promote ck (p_duration_days p) r) ps)"

lemma moved_up_trans:
  assumes "moved_up ck ps us r r1" and "moved_up ck ps vs r1 r2"
  shows "moved_up ck ps (us @ vs) r r2"
proof (cases "r1 = r")
  case True
  with assms(2) show ?thesis by (auto simp: moved_up_def)
next
  case False
  with assms(1) have "s_status r1 = S_active" by (auto simp: moved_up_def list_ex_iff)
  with assms(2) have "r2 = r1" by (simp add: moved_up_def)
  with assms(1) show ?thesis by (auto simp: moved_up_def)
qed

lemma list_all2_update_where: "(\<And>r. r \<in> set xs \<Longrightarrow> R r (if P r then f r else r)) \<Longrightarrow> list_all2 R xs (update_where P f xs)"
  by (simp add: update_where_def list_all2_map2 list_all2_same)

lemma holds_active_update_one:
  assumes "distinct (map s_id (subscriptions s))" and "r \<in> set (subscriptions s)"
    and "s_user_id (f r) = s_user_id r" and "s_status (f r) = S_active"
  shows "holds_active v (s\<lparr>subscriptions := update_where (\<lambda>x. s_id x = s_id r) f (subscriptions s)\<rparr>)
    \<longleftrightarrow> v = s_user_id r \<or> holds_active v s"
proof -
  have "\<And>x. x \<in> set (subscriptions s) \<Longrightarrow> s_id x = s_id r \<Longrightarrow> x = r"
    using distinct_key_eq [OF assms(1) _ assms(2)] by blast
  with assms(2-4) show ?thesis by (auto simp: holds_active_def list_ex_iff table_simps)
qed

lemma waits_update_one:
  assumes "distinct (map s_id (subscriptions s))" and "r \<in> set (subscriptions s)"
    and "v \<noteq> s_user_id r" and "s_user_id (f r) = s_user_id r"
  shows "waits v (s\<lparr>subscriptions := update_where (\<lambda>x. s_id x = s_id r) f (subscriptions s)\<rparr>) = waits v s"
proof -
  have "\<And>x. x \<in> set (subscriptions s) \<Longrightarrow> s_id x = s_id r \<Longrightarrow> x = r"
    using distinct_key_eq [OF assms(1) _ assms(2)] by blast
  with assms show ?thesis by (auto simp: waits_def list_ex_iff table_simps)
qed

lemma promotions_work:
  assumes "ledger_ok s" and "distinct us"
    and "list_all (\<lambda>u. waits u s \<and> \<not> holds_active u s) us"
  shows "(\<forall>v. holds_active v (snd (fold (promote_next ck) us (ps, s))) \<longleftrightarrow> v \<in> set us \<or> holds_active v s)
    \<and> list_all2 (moved_up ck (plans s) us) (subscriptions s) (subscriptions (snd (fold (promote_next ck) us (ps, s))))
    \<and> plans (snd (fold (promote_next ck) us (ps, s))) = plans s
    \<and> map s_user_id (fst (fold (promote_next ck) us (ps, s))) = map s_user_id ps @ us"
  using assms
proof (induction us arbitrary: ps s)
  case Nil
  then show ?case by (simp add: moved_up_def list_all2_same)
next
  case (Cons u us)
  from Cons.prems have ok: "subs_ok s" and u: "waits u s" "\<not> holds_active u s" by (simp_all add: ledger_ok_def)
  then have ids: "distinct (map s_id (subscriptions s))" by (simp add: subs_ok_def)
  obtain r p where r: "r \<in> set (subscriptions s)" "first_in_line s r" "s_user_id r = u"
    and p: "p \<in> set (plans s)" "p_code p = s_plan_code r"
    and run: "promote_next ck u (ps, s) = (ps @ [promote ck (p_duration_days p) r],
      s\<lparr>subscriptions := update_where (\<lambda>x. s_id x = s_id r) (promote ck (p_duration_days p)) (subscriptions s)\<rparr>)"
    by (rule promote_next_works [OF ok u])
  let ?f = "promote ck (p_duration_days p)"
  define s1 where "s1 = s\<lparr>subscriptions := update_where (\<lambda>x. s_id x = s_id r) ?f (subscriptions s)\<rparr>"
  have act: "holds_active v s1 \<longleftrightarrow> v = u \<or> holds_active v s" for v
    unfolding s1_def r(3) [symmetric] by (rule holds_active_update_one [OF ids r(1)]) simp_all
  have wait: "v \<noteq> u \<Longrightarrow> waits v s1 = waits v s" for v
    unfolding s1_def r(3) [symmetric] by (rule waits_update_one [OF ids r(1)]) simp_all
  have ok1: "ledger_ok s1"
    using ledger_promote_next [of "(ps, s)" ck u] Cons.prems(1) run by (simp add: s1_def)
  have "waits v s1 \<and> \<not> holds_active v s1" if "v \<in> set us" for v
    using that Cons.prems(2,3) act [of v] wait [of v] by (cases "v = u") (auto simp: list_all_iff)
  then have rest: "list_all (\<lambda>v. waits v s1 \<and> \<not> holds_active v s1) us" by (simp add: list_all_iff)
  have "list_all2 (moved_up ck (plans s) [u]) (subscriptions s)
      (update_where (\<lambda>x. s_id x = s_id r) ?f (subscriptions s))"
  proof (rule list_all2_update_where)
    fix x assume x: "x \<in> set (subscriptions s)"
    have "moved_up ck (plans s) [u] r (?f r)"
      using r p by (auto simp: moved_up_def list_ex_iff first_in_line_def)
    with distinct_key_eq [OF ids x r(1)]
    show "moved_up ck (plans s) [u] x (if s_id x = s_id r then ?f x else x)"
      by (auto simp: moved_up_def)
  qed
  then have "list_all2 (moved_up ck (plans s) [u]) (subscriptions s) (subscriptions s1)"
    by (simp add: s1_def)
  moreover have "list_all2 (moved_up ck (plans s) us) (subscriptions s1)
      (subscriptions (snd (fold (promote_next ck) us (ps @ [?f r], s1))))"
    using Cons.IH [OF ok1 _ rest, of "ps @ [?f r]"] Cons.prems(2) by (simp add: s1_def)
  ultimately have "list_all2 (moved_up ck (plans s) ([u] @ us)) (subscriptions s)
      (subscriptions (snd (fold (promote_next ck) us (ps @ [?f r], s1))))"
    by (rule list_all2_trans [rotated]) (rule moved_up_trans)
  with Cons.IH [OF ok1 _ rest, of "ps @ [?f r]"] Cons.prems(2) act r(3) show ?case
    by (auto simp: run s1_def)
qed

lemma waiting_users_iff: "v \<in> set (waiting_users s) \<longleftrightarrow> waits v s \<and> \<not> holds_active v s"
  by (auto simp: waiting_users_def waits_def list_ex_iff)

lemma sweep_rows:
  fixes ck :: clock
  assumes "ledger_ok s"
  defines "t \<equiv> snd (expire_and_promote ck s)" and "s1 \<equiv> snd (expire_lapsed ck s)"
  shows "plans t = plans s"
    and "holds_active v t \<longleftrightarrow> waits v s1 \<or> holds_active v s1"
    and "list_all2 (moved_up ck (plans s) (waiting_users s1)) (subscriptions s1) (subscriptions t)"
proof -
  have p1: "plans s1 = plans s" by (simp add: s1_def expire_lapsed_def)
  have "ledger_ok s1" unfolding s1_def by (rule ledger_expire [OF assms(1)])
  moreover have "distinct (waiting_users s1)" by (simp add: waiting_users_def)
  moreover have "list_all (\<lambda>u. waits u s1 \<and> \<not> holds_active u s1) (waiting_users s1)"
    by (simp add: list_all_iff waiting_users_iff)
  ultimately have "(\<forall>v. holds_active v t \<longleftrightarrow> v \<in> set (waiting_users s1) \<or> holds_active v s1)
    \<and> list_all2 (moved_up ck (plans s1) (waiting_users s1)) (subscriptions s1) (subscriptions t)
    \<and> plans t = plans s1"
    unfolding t_def snd_sweep s1_def [symmetric] using promotions_work [of s1 "waiting_users s1" ck "[]"] by blast
  then show "plans t = plans s" and "holds_active v t \<longleftrightarrow> waits v s1 \<or> holds_active v s1"
    and "list_all2 (moved_up ck (plans s) (waiting_users s1)) (subscriptions s1) (subscriptions t)"
    by (auto simp: p1 waiting_users_iff)
qed

text \<open>The lists a sweep reports name each user at most once.\<close>

lemma sweep_reports_distinct:
  assumes "ledger_ok s" and "expire_and_promote ck s = ((expired, promoted), t)"
  shows "distinct (map s_user_id expired)" and "distinct (map s_user_id promoted)"
proof -
  define s1 where "s1 = snd (expire_lapsed ck s)"
  have e: "expired = updated_rows (lapsed ck) expire (subscriptions s)"
    and p: "promoted = fst (fold (promote_next ck) (waiting_users s1) ([], s1))"
    using assms(2) by (auto simp: expire_and_promote_def expire_lapsed_def s1_def case_prod_beta Let_def)
  have "filter (lapsed ck) (subscriptions s) = filter (lapsed ck) (filter (\<lambda>r. s_status r = S_active) (subscriptions s))"
    unfolding filter_filter by (intro filter_cong) (auto simp: lapsed_def)
  then have "map s_user_id expired =
      map s_user_id (filter (lapsed ck) (filter (\<lambda>r. s_status r = S_active) (subscriptions s)))"
    unfolding e updated_rows_def by (simp add: comp_def)
  moreover have "distinct (map s_user_id (filter (\<lambda>r. s_status r = S_active) (subscriptions s)))"
    using assms(1) by (simp add: ledger_ok_def subs_ok_def one_active_def)
  ultimately show "distinct (map s_user_id expired)" using distinct_map_filter by metis
  have "ledger_ok s1" unfolding s1_def by (rule ledger_expire [OF assms(1)])
  moreover have "distinct (waiting_users s1)" by (simp add: waiting_users_def)
  moreover have "list_all (\<lambda>u. waits u s1 \<and> \<not> holds_active u s1) (waiting_users s1)"
    by (simp add: list_all_iff waiting_users_iff)
  ultimately have "map s_user_id promoted = waiting_users s1"
    unfolding p using promotions_work [of s1 "waiting_users s1" ck "[]"] by simp
  then show "distinct (map s_user_id promoted)" by (simp add: waiting_users_def)
qed

lemma list_all2_exD: "list_all2 R xs ys \<Longrightarrow> y \<in> set ys \<Longrightarrow> \<exists>x \<in> set xs. R x y"
  by (metis in_set_conv_nth list_all2_conv_all_nth)

text \<open>
  C7: the nightly sweep does all of its job and nothing else. Each row stays as it was, or
  expires because its time is up, or is a queued period started now for its plan's length;
  afterwards no running row is past its end, and nobody with a queued period is left without
  a running one.
\<close>

theorem sweep_leaves_nobody_waiting:
  assumes "ledger_ok s" and "t = snd (expire_and_promote ck s)"
  shows "list_all2 (swept ck (plans s)) (subscriptions s) (subscriptions t)
    \<and> \<not> list_ex (lapsed ck) (subscriptions t)
    \<and> list_all (\<lambda>r. holds_active (s_user_id r) t) (filter (\<lambda>r. s_status r = S_queued) (subscriptions t))"
proof -
  define s1 where "s1 = snd (expire_lapsed ck s)"
  note rows = sweep_rows [OF assms(1), where ck = ck, folded assms(2) s1_def]
  have first: "list_all2 (\<lambda>r r'. r' = (if lapsed ck r then expire r else r)) (subscriptions s) (subscriptions s1)"
    by (simp add: s1_def expire_lapsed_def list_all2_update_where)
  have "swept ck (plans s) r r''"
    if "r' = (if lapsed ck r then expire r else r)" and "moved_up ck (plans s) us r' r''" for r r' r'' us
    using that by (auto simp: swept_def moved_up_def expire_def lapsed_def split: if_splits)
  with first rows(3) have all: "list_all2 (swept ck (plans s)) (subscriptions s) (subscriptions t)"
    by (rule list_all2_trans [rotated])
  have clean: "\<not> lapsed ck r" if "r \<in> set (subscriptions s1)" for r
    using that by (auto simp: s1_def expire_lapsed_def table_simps lapsed_def expire_def split: if_splits)
  have pos: "0 < p_duration_days p" if "p \<in> set (plans s)" for p
    using assms(1) that by (auto simp: ledger_ok_def subs_ok_def plans_ok_def list_all_iff)
  have "\<not> lapsed ck r'" if "r' \<in> set (subscriptions t)" for r'
    using list_all2_exD [OF rows(3) that] clean pos
    by (fastforce simp: moved_up_def list_ex_iff lapsed_def promote_def add_days_def ms_per_day_def)
  moreover have "holds_active (s_user_id r') t" if "r' \<in> set (subscriptions t)" "s_status r' = S_queued" for r'
  proof -
    from list_all2_exD [OF rows(3) that(1)] that(2) have "r' \<in> set (subscriptions s1)"
      by (auto simp: moved_up_def list_ex_iff)
    with that(2) have "waits (s_user_id r') s1" by (auto simp: waits_def list_ex_iff)
    with rows(2) show ?thesis by blast
  qed
  ultimately show ?thesis using all by (simp add: list_ex_iff list_all_iff)
qed

text \<open>
  Nobody's access depends on whether the nightly job has run. For a user with nothing
  queued, and at every instant from the sweep on, \<open>hasActiveSubscription\<close> answers the same
  before the sweep as after it.
\<close>

theorem sweep_changes_no_access:
  assumes "ledger_ok s" and "\<not> waits v s" and "db_now ck \<le> db_now ck'"
  shows "has_active_subscription ck' v (snd (expire_and_promote ck s)) = has_active_subscription ck' v s"
proof -
  define t where "t = snd (expire_and_promote ck s)"
  define s1 where "s1 = snd (expire_lapsed ck s)"
  note rows = sweep_rows [OF assms(1), where ck = ck, folded t_def s1_def]
  let ?live = "\<lambda>r. live_for ck' v r \<and> has_plan (plans s) r"
  have old: "?live (if lapsed ck r then expire r else r) = ?live r" for r
    using assms(3) by (auto simp: live_for_def lapsed_def expire_def unexpired_def split: option.splits)
  have no_wait: "s_status r \<noteq> S_queued \<or> s_user_id r \<noteq> v" if "r \<in> set (subscriptions s1)" for r
    using that assms(2)
    by (auto simp: s1_def expire_lapsed_def table_simps waits_def list_ex_iff expire_def split: if_splits)
  have "?live r' = ?live r" if "r \<in> set (subscriptions s1)" "moved_up ck (plans s) us r r'" for r r' us
    using that no_wait [OF that(1)] by (auto simp: moved_up_def list_ex_iff live_for_def)
  with rows(3) have "list_ex ?live (subscriptions t) = list_ex ?live (subscriptions s1)"
    by (induction rule: list_all2_induct) (auto)
  also have "list_ex ?live (update_where (lapsed ck) expire xs) = list_ex ?live xs" for xs
  proof (induction xs)
    case (Cons x xs)
    with old [of x] show ?case by (simp only: update_where_Cons list_ex_iff set_simps bex_simps)
  qed simp
  then have "list_ex ?live (subscriptions s1) = list_ex ?live (subscriptions s)"
    by (simp add: s1_def expire_lapsed_def)
  finally show ?thesis by (simp add: has_active_iff rows(1) t_def [symmetric])
qed

text \<open>A shop whose buyer has a month that ended at 10 and two months stacked behind it.\<close>

definition lapsed_shop :: db where
  "lapsed_shop = (shop P_month 3)\<lparr>subscriptions :=
     [new_subscription \<lparr>db_now = 0, js_now = 0\<rparr> 0 P_month 1 S_active (Some 0) (Some 10) 3,
      new_subscription \<lparr>db_now = 0, js_now = 0\<rparr> 0 P_month 1 S_queued (Some 10) None 4,
      new_subscription \<lparr>db_now = 0, js_now = 0\<rparr> 0 P_month 1 S_queued (Some 20) None 5], next_id := 6\<rparr>"

lemma ledger_lapsed_shop: "ledger_ok lapsed_shop"
  by (simp add: ledger_ok_def subs_ok_def payments_ok_def lapsed_shop_def shop_def empty_db_def one_active_def
      shop_payment_def paid_out_def bought_def row_ok_def minted_key_def has_plan_def shop_plans_def plans_ok_def)

theorem sweep_leaves_nobody_waiting_witness:
  "\<not> list_ex (lapsed \<lparr>db_now = 20, js_now = 20\<rparr>)
     (subscriptions (snd (expire_and_promote \<lparr>db_now = 20, js_now = 20\<rparr> lapsed_shop)))"
  using sweep_leaves_nobody_waiting [OF ledger_lapsed_shop refl, of "\<lparr>db_now = 20, js_now = 20\<rparr>"] by blast

theorem sweep_changes_no_access_witness:
  "has_active_subscription \<lparr>db_now = 20, js_now = 20\<rparr> 7
       (snd (expire_and_promote \<lparr>db_now = 20, js_now = 20\<rparr> lapsed_shop)) =
     has_active_subscription \<lparr>db_now = 20, js_now = 20\<rparr> 7 lapsed_shop"
proof -
  have "\<not> waits 7 lapsed_shop" by (simp add: waits_def lapsed_shop_def)
  from sweep_changes_no_access [OF ledger_lapsed_shop this, of "\<lparr>db_now = 20, js_now = 20\<rparr>" "\<lparr>db_now = 20, js_now = 20\<rparr>"]
  show ?thesis by simp
qed

section \<open>Activating a credit\<close>

lemma credit_found:
  assumes "ledger_ok s" and "r \<in> set (subscriptions s)" and "s_user_id r = uid"
  shows "find (\<lambda>x. s_id x = s_id r \<and> s_user_id x = uid) (subscriptions s) = Some r"
proof -
  have ids: "distinct (map s_id (subscriptions s))" using assms(1) by (simp add: ledger_ok_def subs_ok_def)
  obtain x where x: "find (\<lambda>x. s_id x = s_id r \<and> s_user_id x = uid) (subscriptions s) = Some x"
    using assms(2,3) by (metis (mono_tags, lifting) find_None_iff not_None_eq)
  then have "x = r" using distinct_key_eq [OF ids _ assms(2)] by (auto dest: find_SomeD)
  with x show ?thesis by simp
qed

lemma start_running_simps [simp]:
  "s_user_id (start_running ck d r) = s_user_id r" "s_status (start_running ck d r) = S_active"
  by (simp_all add: start_running_def)

text \<open>The write of an activation, by whether the user holds an active row.\<close>

lemma activate_swap_outcome:
  assumes "ledger_ok s" and "r \<in> set (subscriptions s)" and "s_user_id r = uid" and "s_status r = S_ready"
  shows "activate_swap ck uid (s_id r) d s =
    (if holds_active uid s then (Inl (Conflict ''You already have a subscription running.''), s)
     else (Inr (start_running ck d r),
           s\<lparr>subscriptions := update_where (\<lambda>x. s_id x = s_id r) (start_running ck d) (subscriptions s)\<rparr>))"
proof -
  let ?f = "start_running ck d"
  have ids: "distinct (map s_id (subscriptions s))" and one: "one_active (subscriptions s)"
    using assms(1) by (simp_all add: ledger_ok_def subs_ok_def)
  have same: "x = r" if "x \<in> set (subscriptions s)" "s_id x = s_id r" for x
    using that distinct_key_eq [OF ids _ assms(2)] by blast
  have upd: "updated_rows (ready_credit uid (s_id r)) ?f (subscriptions s) = [?f r]"
    "update_where (ready_credit uid (s_id r)) ?f (subscriptions s) = update_where (\<lambda>x. s_id x = s_id r) ?f (subscriptions s)"
    using ids assms by (auto simp: ready_credit_def intro!: updated_rows_key [where key = s_id])
  show ?thesis
  proof (cases "holds_active uid s")
    case True
    then obtain a where a: "a \<in> set (subscriptions s)" "s_user_id a = uid" "s_status a = S_active"
      by (auto simp: holds_active_def list_ex_iff)
    with assms(4) same [of a] have ar: "s_id a \<noteq> s_id r" by auto
    let ?new = "update_where (\<lambda>x. s_id x = s_id r) ?f (subscriptions s)"
    have m: "a \<in> set ?new" "?f r \<in> set ?new"
      using a ar assms(2) by (force simp: table_simps image_iff)+
    have "\<not> one_active ?new"
    proof
      assume "one_active ?new"
      then have "a = ?f r"
        unfolding one_active_def
        by (rule distinct_key_eq) (use a assms(3) m in simp_all)
      with ar show False by simp
    qed
    with True show ?thesis
      by (simp add: activate_swap_def write_subscriptions_def upd unique_violation_def)
  next
    case False
    have "s_user_id (?f x) \<notin> s_user_id ` set (filter (\<lambda>r. s_status r = S_active) (subscriptions s))"
      if "x \<in> set (subscriptions s)" "s_id x = s_id r" for x
      using same [OF that] False assms(3) by (auto simp: holds_active_def list_ex_iff)
    then have "one_active (update_where (\<lambda>x. s_id x = s_id r) ?f (subscriptions s))"
      using one ids unfolding one_active_def by (intro distinct_filter_update_one) auto
    with False show ?thesis by (simp add: activate_swap_def write_subscriptions_def upd)
  qed
qed

text \<open>
  A banked credit starts exactly when nothing of the user's holds the running slot: then
  the credit alone is rewritten, to run from now for the length of its plan; otherwise the
  request gets a 409 and the credit is kept.
\<close>

theorem activate_exact:
  assumes "ledger_ok s" and "r \<in> set (subscriptions s)" and "s_user_id r = uid" and "s_status r = S_ready"
  shows "if holds_active uid s then \<exists>m. activate ck uid (s_id r) s = (Inl (Conflict m), s)
    else \<exists>p. p \<in> set (plans s) \<and> p_code p = s_plan_code r
       \<and> activate ck uid (s_id r) s = (Inr (start_running ck (p_duration_days p) r),
          s\<lparr>subscriptions := update_where (\<lambda>x. s_id x = s_id r) (start_running ck (p_duration_days p)) (subscriptions s)\<rparr>)"
proof -
  from assms(1,2) have "has_plan (plans s) r" by (simp add: ledger_ok_def subs_ok_def list_all_iff row_ok_def)
  then obtain p where p: "find (\<lambda>p. p_code p = s_plan_code r) (plans s) = Some p" by (auto dest: has_plan_find)
  have live: "get_active_subscription ck uid s = None" if "\<not> holds_active uid s"
    using that has_active_iff [of ck uid s]
    by (auto simp: has_active_subscription_def holds_active_def list_ex_iff live_for_def)
  note found = credit_found [OF assms(1-3)] and swap = activate_swap_outcome [OF assms, of ck]
  show ?thesis
  proof (cases "holds_active uid s")
    case True
    with found swap p assms(4) show ?thesis
      by (auto simp: activate_def activate_check_def split: option.splits)
  next
    case False
    with found swap p assms(4) live show ?thesis
      by (auto simp: activate_def activate_check_def dest: find_SomeD)
  qed
qed

text \<open>
  A pass that ended but has not been swept yet still blocks the next one. The user has no
  access, and activating a banked credit is nevertheless refused with "You already have a
  subscription running" until the maintenance job has run.
\<close>

theorem lapsed_pass_blocks_activation:
  assumes "ledger_ok s" and "r \<in> set (subscriptions s)" and "s_user_id r = uid" and "s_status r = S_ready"
    and "holds_active uid s" and "\<not> has_active_subscription ck uid s"
  shows "activate ck uid (s_id r) s = (Inl (Conflict ''You already have a subscription running.''), s)"
proof -
  from assms(1,2) have "has_plan (plans s) r" by (simp add: ledger_ok_def subs_ok_def list_all_iff row_ok_def)
  then obtain p where "find (\<lambda>p. p_code p = s_plan_code r) (plans s) = Some p" by (auto dest: has_plan_find)
  with credit_found [OF assms(1-3)] activate_swap_outcome [OF assms(1-4), of ck] assms(4-6) show ?thesis
    by (simp add: activate_def activate_check_def has_active_subscription_def)
qed

text \<open>
  C8: two activations race. Whatever the second asks for (the same credit, another one, or
  something that is no credit), once the first swap has won, the second swap of that user
  is refused with 409 and changes nothing.
\<close>

theorem activation_race_has_one_winner:
  assumes "ledger_ok s" and "activate_swap ck uid sid d s = (Inr a, t)"
  shows "\<exists>m. activate_swap ck' uid sid' d' t = (Inl (Conflict m), t)"
proof -
  have t: "t = s\<lparr>subscriptions := update_where (ready_credit uid sid) (start_running ck d) (subscriptions s)\<rparr>"
    and up: "updated_rows (ready_credit uid sid) (start_running ck d) (subscriptions s) \<noteq> []"
    and one: "one_active (subscriptions t)"
    using assms(2)
    by (auto simp: activate_swap_def write_subscriptions_def split: sum.splits list.splits if_splits)
  from assms(1) one have ok: "ledger_ok t"
    unfolding t by (intro ledger_update) simp_all
  from up obtain r where r: "r \<in> set (subscriptions s)" "ready_credit uid sid r"
    by (auto simp: updated_rows_empty)
  then have "start_running ck d r \<in> set (subscriptions t)"
    unfolding t by (auto intro: update_where_mem)
  with r have act: "holds_active uid t"
    by (auto simp: holds_active_def list_ex_iff ready_credit_def intro!: bexI [of _ "start_running ck d r"])
  show ?thesis
  proof (cases "list_ex (ready_credit uid sid') (subscriptions t)")
    case True
    then obtain x where "x \<in> set (subscriptions t)" "s_id x = sid'" "s_user_id x = uid" "s_status x = S_ready"
      by (auto simp: list_ex_iff ready_credit_def)
    with activate_swap_outcome [OF ok, of x uid ck' d'] act show ?thesis by auto
  next
    case False
    then have none: "\<forall>x \<in> set (subscriptions t). \<not> ready_credit uid sid' x" by (simp add: list_ex_iff)
    then have "updated_rows (ready_credit uid sid') (start_running ck' d') (subscriptions t) = []"
      by (simp add: updated_rows_empty)
    with none one show ?thesis
      by (simp add: activate_swap_def write_subscriptions_def update_where_none)
  qed
qed

section \<open>What a mint gives\<close>

fun back_to_back :: "int \<Rightarrow> subscription list \<Rightarrow> bool" where
  "back_to_back d (r # r' # rs) =
     (s_starts_at r' = map_option (\<lambda>t. add_days t d) (s_starts_at r) \<and> back_to_back d (r' # rs))"
| "back_to_back d rs = True"

lemma back_to_back_stacked: "back_to_back d (stacked ck uid pid plan d t i n)"
proof (induction n arbitrary: t i)
  case (Suc n)
  then show ?case by (cases n) simp_all
qed simp

lemma back_to_back_dated: "back_to_back d (dated_rows ck uid pid plan d n c i)"
proof (cases c)
  case None
  show ?thesis
  proof (cases n)
    case (Suc m)
    then show ?thesis using None back_to_back_stacked [of d ck uid pid plan "add_days (db_now ck) d" "Suc i" m]
      by (cases m) (simp_all add: dated_rows_def)
  qed (simp add: None dated_rows_def)
qed (simp add: dated_rows_def back_to_back_stacked)

definition first_runs :: "clock \<Rightarrow> int \<Rightarrow> subscription list \<Rightarrow> bool" where
  "first_runs ck d rows \<longleftrightarrow> (case rows of [] \<Rightarrow> True
     | r # rs \<Rightarrow> s_status r = S_active \<and> s_starts_at r = Some (db_now ck)
         \<and> s_expires_at r = Some (add_days (db_now ck) d) \<and> list_all (\<lambda>r. s_status r = S_queued) rs)"

lemma chain_end_iff:
  assumes "subs_ok s"
  shows "chain_end ck uid s = None \<longleftrightarrow> \<not> holds_active uid s \<and> \<not> waits uid s"
proof
  assume none: "chain_end ck uid s = None"
  have "\<not> waits uid s"
  proof
    assume "waits uid s"
    with assms obtain r p rest where q: "queued_of uid s = (r, p) # rest" by (rule queued_of_hd)
    obtain c where c: "chain_end ck uid s = fold (chain_step ck) (queued_of uid s) c"
      by (simp add: chain_end_def Let_def)
    have "fold (chain_step ck) (q # qs) c \<noteq> None" for q qs c
    proof (induction qs rule: rev_induct)
      case (snoc x xs)
      then show ?case by (simp add: chain_step_def)
    qed (simp add: chain_step_def)
    then show False using none c q by metis
  qed
  with chain_end_None [OF assms none] show "\<not> holds_active uid s \<and> \<not> waits uid s" by blast
next
  assume idle: "\<not> holds_active uid s \<and> \<not> waits uid s"
  then have "find (\<lambda>r. s_user_id r = uid \<and> s_status r = S_active) (subscriptions s) = None"
    by (auto simp: holds_active_def list_ex_iff find_None_iff)
  moreover have "filter (\<lambda>r. s_user_id r = uid \<and> s_status r = S_queued) (subscriptions s) = []"
    using idle by (auto simp: waits_def list_ex_iff filter_empty_conv)
  then have "queued_of uid s = []" by (simp add: queued_of_def)
  ultimately show "chain_end ck uid s = None" by (simp add: chain_end_def Let_def)
qed

text \<open>
  A mint gives what was bought. One row per unit, all appended in one go; day passes are
  banked without dates; a month or year starts now exactly when the buyer has nothing running
  and nothing queued, everything else queues, and each period starts where the one before it
  ends.
\<close>

theorem mint_gives_what_was_bought:
  assumes "ledger_ok s" and "find (\<lambda>x. y_id x = pid) (payments s) = Some y" and "y_plan_code y = Some code"
    and "minted_for pid s = []" and "find (\<lambda>p. p_code p = code) (plans s) = Some plan"
  shows "\<exists>rows. mint_for_payment ck pid s =
      Inr (\<lparr>mr_minted = y_quantity y, mr_already_minted = False, mr_rows = rows\<rparr>, with_rows rows s)
    \<and> length rows = y_quantity y
    \<and> (if code = P_day
       then list_all (\<lambda>r. s_status r = S_ready \<and> s_starts_at r = None \<and> s_expires_at r = None) rows
       else back_to_back (p_duration_days plan) rows
         \<and> (if holds_active (y_planner_id y) s \<or> waits (y_planner_id y) s
            then list_all (\<lambda>r. s_status r = S_queued) rows
            else first_runs ck (p_duration_days plan) rows))"
proof -
  from assms(1) have ok: "subs_ok s" by (simp add: ledger_ok_def)
  let ?rows = "minted_rows ck y plan s"
  have code: "p_code plan = code" using assms(5) by (auto dest: find_SomeD)
  have "mint_for_payment ck pid s =
      Inr (\<lparr>mr_minted = y_quantity y, mr_already_minted = False, mr_rows = ?rows\<rparr>, with_rows ?rows s)"
    by (rule mint_for_payment_fresh [OF ok assms(2-5)])
  moreover have "list_all (\<lambda>r. s_status r = S_ready \<and> s_starts_at r = None \<and> s_expires_at r = None) ?rows"
    if "code = P_day" using that code by (simp add: minted_rows_def list_all_iff)
  moreover have "back_to_back (p_duration_days plan) ?rows" if "code \<noteq> P_day"
    using that code by (simp add: minted_rows_def back_to_back_dated)
  moreover have "if holds_active (y_planner_id y) s \<or> waits (y_planner_id y) s
      then list_all (\<lambda>r. s_status r = S_queued) ?rows else first_runs ck (p_duration_days plan) ?rows"
    if "code \<noteq> P_day"
    using that code chain_end_iff [OF ok, of ck "y_planner_id y"]
    by (auto simp: minted_rows_def dated_rows_def list_all_iff first_runs_def dest: stacked_mem
        split: option.splits nat.splits)
  ultimately show ?thesis by (intro exI [of _ ?rows]) simp
qed

section \<open>Concrete instances\<close>

theorem mint_gives_what_was_bought_witness:
  "\<exists>rows. mint_for_payment \<lparr>db_now = 5, js_now = 5\<rparr> 1 (shop P_month 3) =
      Inr (\<lparr>mr_minted = 3, mr_already_minted = False, mr_rows = rows\<rparr>, with_rows rows (shop P_month 3))
    \<and> back_to_back 30 rows \<and> first_runs \<lparr>db_now = 5, js_now = 5\<rparr> 30 rows"
proof -
  have "find (\<lambda>x. y_id x = 1) (payments (shop P_month 3)) = Some (shop_payment P_month 3)"
    and "y_plan_code (shop_payment P_month 3) = Some P_month" and "y_quantity (shop_payment P_month 3) = 3"
    and "minted_for 1 (shop P_month 3) = []"
    and "find (\<lambda>p. p_code p = P_month) (plans (shop P_month 3)) = Some (shop_plans ! 1)"
    and "p_duration_days (shop_plans ! 1) = 30"
    and "\<not> holds_active u (shop P_month 3)" and "\<not> waits u (shop P_month 3)" for u
    by (simp_all add: shop_def shop_payment_def shop_plans_def empty_db_def minted_for_def holds_active_def waits_def)
  with mint_gives_what_was_bought [OF ledger_shop this(1,2,4,5), of "\<lparr>db_now = 5, js_now = 5\<rparr>"]
  show ?thesis by fastforce
qed

text \<open>Two banked day passes; in the second shop a month that ended at 10 is not swept yet.\<close>

definition credit_shop :: "subscription list \<Rightarrow> db" where
  "credit_shop extra = (shop P_day 2)\<lparr>subscriptions :=
     [new_subscription \<lparr>db_now = 0, js_now = 0\<rparr> 0 P_day 1 S_ready None None 3,
      new_subscription \<lparr>db_now = 0, js_now = 0\<rparr> 0 P_day 1 S_ready None None 4] @ extra, next_id := 6\<rparr>"

definition old_month :: subscription where
  "old_month = (new_subscription \<lparr>db_now = 0, js_now = 0\<rparr> 0 P_month 1 S_active (Some 0) (Some 10) 5)\<lparr>s_payment_id := None\<rparr>"

lemma ledger_credit_shop: "ledger_ok (credit_shop [])" "ledger_ok (credit_shop [old_month])"
  by (simp_all add: ledger_ok_def subs_ok_def payments_ok_def credit_shop_def shop_def empty_db_def one_active_def
      shop_payment_def paid_out_def bought_def row_ok_def minted_key_def has_plan_def shop_plans_def plans_ok_def old_month_def)

lemma credit_in_shop:
  "new_subscription \<lparr>db_now = 0, js_now = 0\<rparr> 0 P_day 1 S_ready None None 3 \<in> set (subscriptions (credit_shop extra))"
  by (simp add: credit_shop_def)

theorem activate_exact_witness:
  "\<exists>p. p \<in> set shop_plans \<and> p_code p = P_day
     \<and> fst (activate \<lparr>db_now = 5, js_now = 5\<rparr> 0 3 (credit_shop [])) =
         Inr (start_running \<lparr>db_now = 5, js_now = 5\<rparr> (p_duration_days p)
               (new_subscription \<lparr>db_now = 0, js_now = 0\<rparr> 0 P_day 1 S_ready None None 3))"
proof -
  have "\<not> holds_active 0 (credit_shop [])" and "plans (credit_shop []) = shop_plans"
    by (simp_all add: holds_active_def credit_shop_def shop_def)
  with activate_exact [OF ledger_credit_shop(1) credit_in_shop, of 0 "\<lparr>db_now = 5, js_now = 5\<rparr>"]
  show ?thesis by fastforce
qed

theorem lapsed_pass_blocks_activation_witness:
  "\<not> has_active_subscription \<lparr>db_now = 20, js_now = 20\<rparr> 0 (credit_shop [old_month])
   \<and> fst (activate \<lparr>db_now = 20, js_now = 20\<rparr> 0 3 (credit_shop [old_month])) =
       Inl (Conflict ''You already have a subscription running.'')"
proof -
  have h: "holds_active 0 (credit_shop [old_month])"
    and n: "\<not> has_active_subscription \<lparr>db_now = 20, js_now = 20\<rparr> 0 (credit_shop [old_month])"
    by (simp_all add: holds_active_def credit_shop_def old_month_def has_active_iff live_for_def unexpired_def)
  from lapsed_pass_blocks_activation [OF ledger_credit_shop(2) credit_in_shop _ _ h n] n
  show ?thesis by simp
qed

theorem activation_race_has_one_winner_witness:
  "\<exists>a t m. activate_swap \<lparr>db_now = 5, js_now = 5\<rparr> 0 3 1 (credit_shop []) = (Inr a, t)
     \<and> activate_swap \<lparr>db_now = 6, js_now = 6\<rparr> 0 4 1 t = (Inl (Conflict m), t)"
proof -
  have "\<not> holds_active 0 (credit_shop [])" by (simp add: holds_active_def credit_shop_def shop_def)
  with activate_swap_outcome [OF ledger_credit_shop(1) credit_in_shop, of 0 "\<lparr>db_now = 5, js_now = 5\<rparr>" 1]
  obtain a t where 1: "activate_swap \<lparr>db_now = 5, js_now = 5\<rparr> 0 3 1 (credit_shop []) = (Inr a, t)"
    by simp
  from activation_race_has_one_winner [OF ledger_credit_shop(1) 1] 1 show ?thesis by blast
qed

end
