(* ===== verification/Webhooks.thy ===== *)
theory Webhooks
  imports Subscription_Ledger
begin

text \<open>
  \<open>src/payments/webhooks.service.ts\<close> and the two controllers in front of it: one inbound
  delivery from its record to its outcome. The steps before the payment is read
  (\<open>wh_intake\<close>) and the ones that act on what was read (\<open>wh_settle\<close>) are separate, so that
  concurrent deliveries, each acting on its own stale read, can be interleaved.
\<close>

section \<open>Recording and matching\<close>

datatype webhook_outcome =
    W_recorded_unknown_provider
  | W_bad_signature
  | W_unparseable
  | W_payment_not_found
  | W_amount_mismatch
  | W_already_confirmed
  | W_not_paid
  | W_confirmed

definition set_event :: "uuid \<Rightarrow> (webhook_event \<Rightarrow> webhook_event) \<Rightarrow> db \<Rightarrow> db" where
  "set_event eid f s = s\<lparr>webhook_events := update_where (\<lambda>w. w_id w = eid) f (webhook_events s)\<rparr>"

definition record_event :: "string \<Rightarrow> string \<Rightarrow> headers \<Rightarrow> db \<Rightarrow> db" where
  "record_event code raw hs s =
     s\<lparr>webhook_events := webhook_events s @
         [\<lparr>w_id = next_id s, w_provider = code, w_signature_ok = False, w_raw_body = raw, w_headers = hs,
           w_provider_ref = None, w_event_type = None, w_payment_id = None, w_processed_at = None,
           w_process_error = None\<rparr>],
       next_id := Suc (next_id s)\<rparr>"

definition finish :: "clock \<Rightarrow> uuid \<Rightarrow> string option \<Rightarrow> db \<Rightarrow> db" where
  "finish ck eid err s = set_event eid (\<lambda>w. w\<lparr>w_processed_at := Some (db_now ck), w_process_error := err\<rparr>) s"

text \<open>
  Binding a JavaScript value to a text column: \<open>null\<close> becomes IS NULL, knex refuses
  \<open>undefined\<close>, anything else is sent as its text.
\<close>

fun bind_text :: "platform \<Rightarrow> js_value \<Rightarrow> string option result" where
  "bind_text pf Js_undefined = Inl (InternalError ''Undefined binding(s) detected when compiling FIRST.'')"
| "bind_text pf Js_null = Inr None"
| "bind_text pf (Js_string t) = Inr (Some t)"
| "bind_text pf v = Inr (Some (render pf v))"

text \<open>The same in a SET clause, where an undefined member is left out (\<open>d\<close> stays).\<close>

definition set_text :: "platform \<Rightarrow> js_value \<Rightarrow> string option \<Rightarrow> string option" where
  "set_text pf v d = (case bind_text pf v of Inl e \<Rightarrow> d | Inr t \<Rightarrow> t)"

definition has_reference :: "string \<Rightarrow> string option \<Rightarrow> payment \<Rightarrow> bool" where
  "has_reference code ref y \<longleftrightarrow> y_provider y = code \<and> y_provider_ref y = ref"

text \<open>A delivery that got as far as a payment, with the row as it was read.\<close>

record matched =
  mt_event :: uuid
  mt_parsed :: parsed_webhook
  mt_payment :: payment

datatype intake = Finished webhook_outcome | Matched matched

text \<open>\<open>String(err)\<close>, as far as the model knows it: the message of the error.\<close>

fun error_message :: "http_error \<Rightarrow> string" where
  "error_message (BadRequest m) = m"
| "error_message (Unauthorized m) = m"
| "error_message (PaymentRequired m) = m"
| "error_message (Forbidden m) = m"
| "error_message (NotFound m) = m"
| "error_message (Conflict m) = m"
| "error_message (NotImplemented m) = m"
| "error_message (InternalError m) = m"
| "error_message (ServiceUnavailable m) = m"
| "error_message (PgError m) = m"

definition wh_match :: "clock \<Rightarrow> platform \<Rightarrow> string \<Rightarrow> uuid \<Rightarrow> parsed_webhook \<Rightarrow> db \<Rightarrow> intake result \<times> db" where
  "wh_match ck pf code eid p s =
     (let s1 = set_event eid (\<lambda>w. w\<lparr>w_provider_ref := set_text pf (pw_provider_ref p) (w_provider_ref w),
                                  w_event_type := set_text pf (nullish (pw_event_type p) Js_null) None\<rparr>) s
      in case bind_text pf (pw_provider_ref p) of
           Inl e \<Rightarrow> (Inl e, s1)
         | Inr ref \<Rightarrow>
             (case find (has_reference code ref) (payments s1) of
                None \<Rightarrow> (Inr (Finished W_payment_not_found), finish ck eid (Some ''no matching payment'') s1)
              | Some y \<Rightarrow> (Inr (Matched \<lparr>mt_event = eid, mt_parsed = p, mt_payment = y\<rparr>),
                          set_event eid (\<lambda>w. w\<lparr>w_payment_id := Some (y_id y)\<rparr>) s1)))"

definition wh_intake ::
  "clock \<Rightarrow> platform \<Rightarrow> config \<Rightarrow> string \<Rightarrow> string \<Rightarrow> headers \<Rightarrow> db \<Rightarrow> intake result \<times> db" where
  "wh_intake ck pf cfg code raw hs s =
     (let eid = next_id s; s1 = record_event code raw hs s
      in case registry_get code of
           None \<Rightarrow> (Inr (Finished W_recorded_unknown_provider), finish ck eid (Some (''unknown provider: '' @ code)) s1)
         | Some pr \<Rightarrow>
             (if \<not> verify_signature pf cfg pr raw hs
              then (Inr (Finished W_bad_signature), finish ck eid (Some ''signature verification failed'') s1)
              else (let s2 = set_event eid (\<lambda>w. w\<lparr>w_signature_ok := True\<rparr>) s1
                    in case parse_webhook pf pr raw of
                         Inl e \<Rightarrow> (Inr (Finished W_unparseable), finish ck eid (Some (error_message e)) s2)
                       | Inr p \<Rightarrow> wh_match ck pf code eid p s2)))"

section \<open>Deciding and settling\<close>

datatype decision_taken =
    Already
  | Mismatch string
  | Not_paid payment_status string
  | Confirm

definition render_number :: "platform \<Rightarrow> rat option \<Rightarrow> string" where
  "render_number pf x = (case x of None \<Rightarrow> ''NaN'' | Some q \<Rightarrow> render pf (Js_number q))"

definition amount_matches :: "payment \<Rightarrow> parsed_webhook \<Rightarrow> bool" where
  "amount_matches y p \<longleftrightarrow> (case pw_amount p of None \<Rightarrow> False | Some x \<Rightarrow> \<bar>y_amount_usd y - x\<bar> < 1 / 100)"

text \<open>\<open>(parsed.currency ?? '').toUpperCase()\<close>, a TypeError when it is not a string.\<close>

fun currency_text :: "js_value \<Rightarrow> string result" where
  "currency_text (Js_string t) = Inr (to_upper t)"
| "currency_text Js_null = Inr []"
| "currency_text Js_undefined = Inr []"
| "currency_text v = Inl (InternalError ''TypeError: toUpperCase is not a function'')"

definition wh_decide :: "platform \<Rightarrow> payment \<Rightarrow> parsed_webhook \<Rightarrow> decision_taken result" where
  "wh_decide pf y p =
     (if y_status y = Y_confirmed then Inr Already
      else case currency_text (pw_currency p) of
             Inl e \<Rightarrow> Inl e
           | Inr cur \<Rightarrow>
               if \<not> amount_matches y p \<or> cur \<noteq> to_upper (y_currency y)
               then Inr (Mismatch (''expected '' @ render pf (Js_number (y_amount_usd y)) @ '' '' @ y_currency y
                      @ '', got '' @ render_number pf (pw_amount p) @ '' '' @ render pf (pw_currency p)))
               else if pw_status p \<noteq> Js_string ''paid''
               then Inr (Not_paid (if pw_status p = Js_string ''failed'' then Y_rejected else Y_expired)
                      (''provider reported '' @ render pf (pw_status p)))
               else Inr Confirm)"

definition set_payment :: "uuid \<Rightarrow> (payment \<Rightarrow> payment) \<Rightarrow> db \<Rightarrow> db" where
  "set_payment pid f s = s\<lparr>payments := update_where (\<lambda>y. y_id y = pid) f (payments s)\<rparr>"

definition mark_status :: "payment_status \<Rightarrow> payment \<Rightarrow> payment" where
  "mark_status st y = y\<lparr>y_status := st\<rparr>"

definition mark_confirmed :: "clock \<Rightarrow> payment \<Rightarrow> payment" where
  "mark_confirmed ck y = y\<lparr>y_status := Y_confirmed, y_confirmed_at := Some (db_now ck)\<rparr>"

definition notify_admins_of_dispute :: "clock \<Rightarrow> uuid \<Rightarrow> rat \<Rightarrow> rat option \<Rightarrow> db \<Rightarrow> db" where
  "notify_admins_of_dispute ck pid expected received s =
     fold (\<lambda>a. insert_notification ck (u_id a) ''payment_disputed'' ''A payment amount did not match''
             [(''payment_id'', JUuid pid), (''expected'', JRat expected),
              (''received'', case received of None \<Rightarrow> JNull | Some x \<Rightarrow> JRat x)])
       (filter (\<lambda>u. u_role u = R_admin) (users s)) s"

text \<open>The transaction: the row is confirmed and its rows are minted, or neither.\<close>

definition confirm_and_mint :: "clock \<Rightarrow> uuid \<Rightarrow> db \<Rightarrow> (mint_result \<times> db) result" where
  "confirm_and_mint ck pid s = mint_for_payment ck pid (set_payment pid (mark_confirmed ck) s)"

definition plan_jval :: "plan_code option \<Rightarrow> jval" where
  "plan_jval p = (case p of None \<Rightarrow> JNull | Some c \<Rightarrow> JStr (plan_name c))"

definition wh_settle :: "clock \<Rightarrow> platform \<Rightarrow> matched \<Rightarrow> db \<Rightarrow> webhook_outcome result \<times> db" where
  "wh_settle ck pf m s =
     (let y = mt_payment m; eid = mt_event m
      in case wh_decide pf y (mt_parsed m) of
           Inl e \<Rightarrow> (Inl e, s)
         | Inr Already \<Rightarrow> (Inr W_already_confirmed, finish ck eid None s)
         | Inr (Mismatch err) \<Rightarrow>
             (Inr W_amount_mismatch,
              finish ck eid (Some err)
                (notify_admins_of_dispute ck (y_id y) (y_amount_usd y) (pw_amount (mt_parsed m))
                  (set_payment (y_id y) (mark_status Y_disputed) s)))
         | Inr (Not_paid st err) \<Rightarrow>
             (Inr W_not_paid, finish ck eid (Some err) (set_payment (y_id y) (mark_status st) s))
         | Inr Confirm \<Rightarrow>
             (case confirm_and_mint ck (y_id y) s of
                Inl e \<Rightarrow> (Inl e, s)
              | Inr (minted, s1) \<Rightarrow>
                  (Inr W_confirmed,
                   finish ck eid None
                     (insert_notification ck (y_planner_id y) ''payment_confirmed'' ''Your payment was confirmed''
                        [(''payment_id'', JUuid (y_id y)), (''plan_code'', plan_jval (y_plan_code y)),
                         (''quantity'', JInt (int (y_quantity y)))] s1))))"

definition process ::
  "clock \<Rightarrow> platform \<Rightarrow> config \<Rightarrow> string \<Rightarrow> string \<Rightarrow> headers \<Rightarrow> db \<Rightarrow> webhook_outcome result \<times> db" where
  "process ck pf cfg code raw hs s =
     (case wh_intake ck pf cfg code raw hs s of
        (Inl e, s1) \<Rightarrow> (Inl e, s1)
      | (Inr (Finished out), s1) \<Rightarrow> (Inr out, s1)
      | (Inr (Matched m), s1) \<Rightarrow> wh_settle ck pf m s1)"

text \<open>
  \<open>WebhooksController.receive\<close> passes the raw body on, or an empty one; its answer is 200
  with the outcome, or the exception filter's when \<open>process\<close> rejects.
\<close>

definition receive ::
  "clock \<Rightarrow> platform \<Rightarrow> config \<Rightarrow> string \<Rightarrow> string option \<Rightarrow> headers \<Rightarrow> db \<Rightarrow> nat \<times> db" where
  "receive ck pf cfg code raw hs s =
     (case process ck pf cfg code (case raw of None \<Rightarrow> [] | Some b \<Rightarrow> b) hs s of
        (Inl e, s1) \<Rightarrow> (http_status e, s1) | (Inr out, s1) \<Rightarrow> (200, s1))"

section \<open>The stand-in checkout\<close>

definition assert_mock_enabled :: "config \<Rightarrow> unit result" where
  "assert_mock_enabled cfg =
     (if cfg ''PAYMENT_PROVIDER'' \<noteq> Some ''mock''
      then Inl (Forbidden ''The mock checkout is only available when PAYMENT_PROVIDER=mock.'') else Inr ())"

definition mock_payload :: "string \<Rightarrow> bool \<Rightarrow> payment \<Rightarrow> js_value" where
  "mock_payload ref failed y =
     Js_object [(''event'', Js_string (if failed then ''payment.failed'' else ''payment.completed'')),
       (''reference'', Js_string ref), (''status'', Js_string (if failed then ''failed'' else ''paid'')),
       (''amount'', Js_number (y_amount_usd y)), (''currency'', Js_string (y_currency y))]"

definition mock_complete ::
  "clock \<Rightarrow> platform \<Rightarrow> config \<Rightarrow> string \<Rightarrow> string option \<Rightarrow> db \<Rightarrow> (uuid \<times> webhook_outcome) result \<times> db" where
  "mock_complete ck pf cfg ref status s =
     (case assert_mock_enabled cfg of
        Inl e \<Rightarrow> (Inl e, s)
      | Inr _ \<Rightarrow>
          (case find (has_reference ''mock'' (Some ref)) (payments s) of
             None \<Rightarrow> (Inl (NotFound ''Unknown payment reference.''), s)
           | Some y \<Rightarrow>
               (let raw = json_stringify pf (mock_payload ref (status = Some ''failed'') y)
                in case process ck pf cfg ''mock'' raw [(mock_signature_header, mock_sign pf cfg raw)] s of
                     (Inl e, s1) \<Rightarrow> (Inl e, s1) | (Inr out, s1) \<Rightarrow> (Inr (y_id y, out), s1))))"

lemmas webhook_op_defs [op_defs] =
  set_event_def record_event_def finish_def wh_match_def wh_intake_def set_payment_def wh_settle_def process_def

section \<open>What the steps touch\<close>

lemma set_event_frame [simp]:
  "payments (set_event eid f s) = payments s" "subscriptions (set_event eid f s) = subscriptions s"
  "plans (set_event eid f s) = plans s" "notifications (set_event eid f s) = notifications s"
  "users (set_event eid f s) = users s" "next_id (set_event eid f s) = next_id s"
  "bookings (set_event eid f s) = bookings s" "messages (set_event eid f s) = messages s"
  by (simp_all add: set_event_def)

lemma finish_frame [simp]:
  "payments (finish ck eid e s) = payments s" "subscriptions (finish ck eid e s) = subscriptions s"
  "plans (finish ck eid e s) = plans s" "notifications (finish ck eid e s) = notifications s"
  "users (finish ck eid e s) = users s" "next_id (finish ck eid e s) = next_id s"
  by (simp_all add: finish_def)

lemma record_event_frame [simp]:
  "payments (record_event c r h s) = payments s" "subscriptions (record_event c r h s) = subscriptions s"
  "plans (record_event c r h s) = plans s" "notifications (record_event c r h s) = notifications s"
  "users (record_event c r h s) = users s" "next_id (record_event c r h s) = Suc (next_id s)"
  by (simp_all add: record_event_def)

lemma set_payment_frame [simp]:
  "subscriptions (set_payment p f s) = subscriptions s" "plans (set_payment p f s) = plans s"
  "notifications (set_payment p f s) = notifications s" "users (set_payment p f s) = users s"
  "next_id (set_payment p f s) = next_id s" "webhook_events (set_payment p f s) = webhook_events s"
  "payments (set_payment p f s) = update_where (\<lambda>y. y_id y = p) f (payments s)"
  by (simp_all add: set_payment_def)

lemma dispute_frame [simp]:
  "payments (notify_admins_of_dispute ck p e r s) = payments s"
  "subscriptions (notify_admins_of_dispute ck p e r s) = subscriptions s"
  "plans (notify_admins_of_dispute ck p e r s) = plans s"
  "webhook_events (notify_admins_of_dispute ck p e r s) = webhook_events s"
  "next_id s \<le> next_id (notify_admins_of_dispute ck p e r s)"
proof -
  have f: "payments (fold (\<lambda>a. insert_notification ck (u_id a) ty ti d) us s) = payments s
    \<and> subscriptions (fold (\<lambda>a. insert_notification ck (u_id a) ty ti d) us s) = subscriptions s
    \<and> plans (fold (\<lambda>a. insert_notification ck (u_id a) ty ti d) us s) = plans s
    \<and> webhook_events (fold (\<lambda>a. insert_notification ck (u_id a) ty ti d) us s) = webhook_events s
    \<and> next_id s \<le> next_id (fold (\<lambda>a. insert_notification ck (u_id a) ty ti d) us s)" for us ty ti d
  proof (induction us arbitrary: s)
    case (Cons a us)
    from Cons [of "insert_notification ck (u_id a) ty ti d s"] show ?case by simp
  qed simp
  show "payments (notify_admins_of_dispute ck p e r s) = payments s"
    "subscriptions (notify_admins_of_dispute ck p e r s) = subscriptions s"
    "plans (notify_admins_of_dispute ck p e r s) = plans s"
    "webhook_events (notify_admins_of_dispute ck p e r s) = webhook_events s"
    "next_id s \<le> next_id (notify_admins_of_dispute ck p e r s)"
    unfolding notify_admins_of_dispute_def using f by blast+
qed

lemma intake_frame:
  assumes "wh_intake ck pf cfg code raw hs s = (x, t)"
  shows "payments t = payments s" and "subscriptions t = subscriptions s" and "plans t = plans s"
    and "notifications t = notifications s" and "users t = users s" and "next_id t = Suc (next_id s)"
  using assms
  by (auto simp: wh_intake_def wh_match_def Let_def split: option.splits if_splits sum.splits)

text \<open>A delivery that matched was signed, parsed and refers to a payment of its provider.\<close>

definition genuine :: "platform \<Rightarrow> config \<Rightarrow> string \<Rightarrow> string \<Rightarrow> headers \<Rightarrow> bool" where
  "genuine pf cfg code raw hs \<longleftrightarrow>
     code = ''mock'' \<and> map_of hs mock_signature_header = Some (hmac_hex pf (mock_secret cfg) raw)"

lemma verified_genuine: "verify_signature pf cfg pr raw hs \<Longrightarrow> genuine pf cfg (provider_code pr) raw hs"
proof (cases pr)
  case Mock
  assume "verify_signature pf cfg pr raw hs"
  with mock.genuine [of pf cfg raw hs] Mock show ?thesis by (simp add: genuine_def mock_sign_def)
qed (simp_all add: manual.refuses whish.refuses omt.refuses)

lemma intake_matched:
  assumes "wh_intake ck pf cfg code raw hs s = (Inr (Matched m), t)"
  shows "genuine pf cfg code raw hs" and "parse_webhook pf Mock raw = Inr (mt_parsed m)"
    and "mt_payment m \<in> set (payments s)" and "y_provider (mt_payment m) = code"
    and "bind_text pf (pw_provider_ref (mt_parsed m)) = Inr (y_provider_ref (mt_payment m))"
    and "mt_event m = next_id s"
proof -
  from assms obtain pr p where pr: "registry_get code = Some pr" "verify_signature pf cfg pr raw hs"
    "parse_webhook pf pr raw = Inr p"
    and mt: "wh_match ck pf code (next_id s) p
       (set_event (next_id s) (\<lambda>w. w\<lparr>w_signature_ok := True\<rparr>) (record_event code raw hs s)) = (Inr (Matched m), t)"
    by (auto simp: wh_intake_def Let_def split: option.splits if_splits sum.splits)
  then have code: "code = provider_code pr" by (auto dest: registry_get_SomeD)
  with pr(2) show "genuine pf cfg code raw hs" by (simp add: verified_genuine)
  with code have "pr = Mock" by (cases pr) (simp_all add: genuine_def)
  with pr mt show "parse_webhook pf Mock raw = Inr (mt_parsed m)" and "mt_event m = next_id s"
    and "mt_payment m \<in> set (payments s)" and "y_provider (mt_payment m) = code"
    and "bind_text pf (pw_provider_ref (mt_parsed m)) = Inr (y_provider_ref (mt_payment m))"
    by (auto simp: wh_match_def Let_def has_reference_def split: sum.splits option.splits dest!: find_SomeD)
qed

section \<open>One delivery\<close>

text \<open>What settling does to the payments and the subscriptions, by outcome.\<close>

definition payments_after :: "clock \<Rightarrow> payment \<Rightarrow> parsed_webhook \<Rightarrow> webhook_outcome result \<Rightarrow> payment list \<Rightarrow> payment list" where
  "payments_after ck y p out ys =
     (case out of
        Inr W_confirmed \<Rightarrow> update_where (\<lambda>x. y_id x = y_id y) (mark_confirmed ck) ys
      | Inr W_amount_mismatch \<Rightarrow> update_where (\<lambda>x. y_id x = y_id y) (mark_status Y_disputed) ys
      | Inr W_not_paid \<Rightarrow> update_where (\<lambda>x. y_id x = y_id y)
            (mark_status (if pw_status p = Js_string ''failed'' then Y_rejected else Y_expired)) ys
      | _ \<Rightarrow> ys)"

lemma settle_payments:
  "wh_settle ck pf m s = (out, t) \<Longrightarrow> payments t = payments_after ck (mt_payment m) (mt_parsed m) out (payments s)"
  by (auto simp: wh_settle_def wh_decide_def confirm_and_mint_def payments_after_def Let_def
      dest!: payments_mint split: sum.splits decision_taken.splits if_splits)

lemma settle_subscriptions:
  "wh_settle ck pf m s = (out, t) \<Longrightarrow> out \<noteq> Inr W_confirmed \<Longrightarrow> subscriptions t = subscriptions s"
  by (auto simp: wh_settle_def Let_def split: sum.splits decision_taken.splits)

lemma settle_confirmed:
  assumes "wh_settle ck pf m s = (Inr W_confirmed, t)"
  shows "y_status (mt_payment m) \<noteq> Y_confirmed" and "amount_matches (mt_payment m) (mt_parsed m)"
    and "currency_text (pw_currency (mt_parsed m)) = Inr (to_upper (y_currency (mt_payment m)))"
    and "pw_status (mt_parsed m) = Js_string ''paid''"
    and "\<exists>r s1. confirm_and_mint ck (y_id (mt_payment m)) s = Inr (r, s1) \<and> subscriptions t = subscriptions s1"
  using assms
  by (auto simp: wh_settle_def wh_decide_def Let_def split: sum.splits decision_taken.splits if_splits)

lemma process_confirmed_matched:
  assumes "process ck pf cfg code raw hs s = (Inr W_confirmed, t)"
  obtains m s1 where "wh_intake ck pf cfg code raw hs s = (Inr (Matched m), s1)"
    and "wh_settle ck pf m s1 = (Inr W_confirmed, t)"
proof -
  have "wh_intake ck pf cfg code raw hs s \<noteq> (Inr (Finished W_confirmed), s1)" for s1
    by (auto simp: wh_intake_def wh_match_def Let_def split: option.splits if_splits sum.splits)
  with assms that show thesis
    by (auto simp: process_def split: prod.splits sum.splits intake.splits)
qed

text \<open>
  C9: money is taken as received only on proof. A delivery that confirms carried a signature
  valid for the exact bytes received, named a payment of its own provider, reported it paid in
  the amount (to within a cent) and currency that were asked for, and met a payment that was
  not confirmed yet; what it changes is that one payment.
\<close>

theorem webhook_confirms_only_genuine:
  assumes "process ck pf cfg code raw hs s = (Inr W_confirmed, t)"
  shows "genuine pf cfg code raw hs
    \<and> (\<exists>y p. y \<in> set (payments s) \<and> parse_webhook pf Mock raw = Inr p \<and> y_provider y = code
        \<and> bind_text pf (pw_provider_ref p) = Inr (y_provider_ref y)
        \<and> y_status y \<noteq> Y_confirmed \<and> amount_matches y p
        \<and> currency_text (pw_currency p) = Inr (to_upper (y_currency y)) \<and> pw_status p = Js_string ''paid''
        \<and> payments t = update_where (\<lambda>x. y_id x = y_id y) (mark_confirmed ck) (payments s))"
proof -
  obtain m s1 where i: "wh_intake ck pf cfg code raw hs s = (Inr (Matched m), s1)"
    and st: "wh_settle ck pf m s1 = (Inr W_confirmed, t)"
    by (rule process_confirmed_matched [OF assms])
  from settle_payments [OF st] intake_frame(1) [OF i]
  have "payments t = update_where (\<lambda>x. y_id x = y_id (mt_payment m)) (mark_confirmed ck) (payments s)"
    by (simp add: payments_after_def)
  with intake_matched [OF i] settle_confirmed(1-4) [OF st] show ?thesis by blast
qed

text \<open>
  A delivery without a valid signature is inert. Whatever it claims and whichever provider
  it names, the payments, the subscriptions and the notifications stay as they were, and the
  caller is told nothing but that it was refused.
\<close>

theorem unsigned_delivery_is_inert:
  assumes "\<not> genuine pf cfg code raw hs" and "process ck pf cfg code raw hs s = (out, t)"
  shows "payments t = payments s \<and> subscriptions t = subscriptions s \<and> notifications t = notifications s
    \<and> (out = Inr W_recorded_unknown_provider \<or> out = Inr W_bad_signature)"
proof -
  obtain x s1 where i: "wh_intake ck pf cfg code raw hs s = (x, s1)" by fastforce
  have "x = Inr (Finished W_recorded_unknown_provider) \<or> x = Inr (Finished W_bad_signature)"
    using i assms(1) verified_genuine
    by (auto simp: wh_intake_def Let_def split: option.splits if_splits dest!: registry_get_SomeD)
  with assms(2) i intake_frame [OF i] show ?thesis by (auto simp: process_def)
qed

text \<open>
  A retried delivery is a no-op. Once a delivery has confirmed its payment, the same body
  delivered again with a valid signature, at any time, answers \<open>already_confirmed\<close> and changes
  neither payments nor subscriptions nor notifications.
\<close>

theorem webhook_replay_is_noop:
  assumes "process ck pf cfg code raw hs s = (Inr W_confirmed, t)"
  shows "case process ck' pf cfg code raw hs t of
      (out, u) \<Rightarrow> out = Inr W_already_confirmed \<and> payments u = payments t
        \<and> subscriptions u = subscriptions t \<and> notifications u = notifications t"
proof -
  obtain m s1 where i: "wh_intake ck pf cfg code raw hs s = (Inr (Matched m), s1)"
    and st: "wh_settle ck pf m s1 = (Inr W_confirmed, t)"
    by (rule process_confirmed_matched [OF assms])
  let ?y = "mt_payment m"
  obtain pr p ref where pr: "registry_get code = Some pr" "verify_signature pf cfg pr raw hs"
    "parse_webhook pf pr raw = Inr p" "bind_text pf (pw_provider_ref p) = Inr ref"
    and y: "find (has_reference code ref) (payments s) = Some ?y" and p: "mt_parsed m = p"
    using i by (auto simp: wh_intake_def wh_match_def Let_def split: option.splits if_splits sum.splits)
  have pt: "payments t = update_where (\<lambda>x. y_id x = y_id ?y) (mark_confirmed ck) (payments s)"
    using settle_payments [OF st] intake_frame(1) [OF i] by (simp add: payments_after_def)
  have "find (has_reference code ref) (payments t) = Some (mark_confirmed ck ?y)"
    using y unfolding pt by (subst find_update_where) (simp_all add: has_reference_def mark_confirmed_def)
  with pr obtain m' s2 where i2: "wh_intake ck' pf cfg code raw hs t = (Inr (Matched m'), s2)"
    and m': "mt_payment m' = mark_confirmed ck ?y"
    by (auto simp: wh_intake_def wh_match_def Let_def)
  have "wh_decide pf (mt_payment m') (mt_parsed m') = Inr Already"
    by (simp add: wh_decide_def m' mark_confirmed_def)
  with i2 intake_frame [OF i2] show ?thesis by (simp add: process_def wh_settle_def Let_def)
qed

definition events_ok :: "db \<Rightarrow> bool" where
  "events_ok s \<longleftrightarrow> list_all (\<lambda>w. w_id w < next_id s) (webhook_events s)"

definition logged :: "uuid \<Rightarrow> string \<Rightarrow> string \<Rightarrow> headers \<Rightarrow> db \<Rightarrow> db \<Rightarrow> bool" where
  "logged eid code raw hs s t \<longleftrightarrow>
     (\<exists>w. webhook_events t = webhook_events s @ [w] \<and> w_id w = eid \<and> w_provider w = code
        \<and> w_raw_body w = raw \<and> w_headers w = hs)"

lemma set_event_new:
  "list_all (\<lambda>w. w_id w < eid) old \<Longrightarrow> webhook_events s = old @ [w] \<Longrightarrow> w_id w = eid \<Longrightarrow>
   webhook_events (set_event eid f s) = old @ [f w]"
  by (auto simp: set_event_def list_all_iff intro!: update_where_none)

lemma logged_set_event:
  assumes "events_ok s" and "logged (next_id s) code raw hs s t"
    and "\<And>w. w_id (f w) = w_id w \<and> w_provider (f w) = w_provider w \<and> w_raw_body (f w) = w_raw_body w
             \<and> w_headers (f w) = w_headers w"
  shows "logged (next_id s) code raw hs s (set_event (next_id s) f t)"
  using assms set_event_new [of "next_id s" "webhook_events s" t]
  by (fastforce simp: logged_def events_ok_def)

lemma logged_finish:
  "events_ok s \<Longrightarrow> logged (next_id s) code raw hs s t \<Longrightarrow> logged (next_id s) code raw hs s (finish ck (next_id s) e t)"
  unfolding finish_def by (rule logged_set_event) simp_all

lemma logged_record: "logged (next_id s) code raw hs s (record_event code raw hs s)"
  by (simp add: logged_def record_event_def)

lemma logged_cong: "webhook_events t = webhook_events u \<Longrightarrow> logged i code raw hs s t = logged i code raw hs s u"
  by (simp add: logged_def)

lemma logged_intake:
  assumes "events_ok s" and "wh_intake ck pf cfg code raw hs s = (x, t)"
  shows "logged (next_id s) code raw hs s t"
proof -
  note sets = logged_set_event [OF assms(1)] and fin = logged_finish [OF assms(1)]
  let ?s2 = "set_event (next_id s) (\<lambda>w. w\<lparr>w_signature_ok := True\<rparr>) (record_event code raw hs s)"
  have 2: "logged (next_id s) code raw hs s ?s2" by (rule sets [OF logged_record]) simp
  have 3: "logged (next_id s) code raw hs s (snd (wh_match ck pf code (next_id s) p ?s2))" for p
    using sets [OF 2] sets [OF sets [OF 2]] fin [OF sets [OF 2]]
    by (simp add: wh_match_def Let_def split: sum.splits option.splits)
  show ?thesis
    using assms(2) fin [OF logged_record] fin [OF 2] 3
    by (auto simp: wh_intake_def Let_def split: option.splits if_splits sum.splits) (metis snd_conv)
qed

lemma insert_notification_events [simp]:
  "webhook_events (insert_notification ck u ty ti d s) = webhook_events s"
  by (simp add: insert_notification_def)

lemma events_mint: "mint_for_payment ck q s = Inr (m, t) \<Longrightarrow> webhook_events t = webhook_events s"
proof -
  have "mint_loop ck uid pid plan days n c rows s = Inr (x, t) \<Longrightarrow> webhook_events t = webhook_events s" for uid pid plan days n c rows x s
    by (induction n arbitrary: c rows s)
       (auto simp: Let_def insert_subscriptions_def write_subscriptions_def split: sum.splits if_splits)
  then show "mint_for_payment ck q s = Inr (m, t) \<Longrightarrow> webhook_events t = webhook_events s"
    by (auto simp: mint_for_payment_def mint_day_credits_def mint_dated_plan_def insert_subscriptions_def
        write_subscriptions_def Let_def map_sum_def split: option.splits if_splits sum.splits)
qed

lemma settle_events:
  "wh_settle ck pf m u = (out, t) \<Longrightarrow>
   webhook_events t = webhook_events u \<or> (\<exists>e v. t = finish ck (mt_event m) e v \<and> webhook_events v = webhook_events u)"
  by (fastforce simp: wh_settle_def confirm_and_mint_def Let_def dest!: events_mint split: sum.splits decision_taken.splits)

text \<open>
  Every delivery is on the record, whatever becomes of it: the table keeps all earlier
  events as they were and gains exactly one row, with the provider named in the path and the
  bytes and headers as received.
\<close>

theorem every_delivery_is_recorded:
  assumes "events_ok s" and "process ck pf cfg code raw hs s = (out, t)"
  shows "logged (next_id s) code raw hs s t"
proof -
  obtain x s1 where i: "wh_intake ck pf cfg code raw hs s = (x, s1)" by fastforce
  have log: "logged (next_id s) code raw hs s s1" by (rule logged_intake [OF assms(1) i])
  show ?thesis
  proof (cases "\<exists>m. x = Inr (Matched m)")
    case True
    then obtain m where m: "x = Inr (Matched m)" by blast
    with i have "mt_event m = next_id s" by (simp add: intake_matched(6))
    moreover have "wh_settle ck pf m s1 = (out, t)" using assms(2) i m by (simp add: process_def)
    ultimately show ?thesis
      using settle_events log logged_finish [OF assms(1)] logged_cong by metis
  next
    case False
    with assms(2) i log show ?thesis by (auto simp: process_def split: sum.splits intake.splits)
  qed
qed

section \<open>Concurrent deliveries\<close>

text \<open>
  Any number of deliveries in flight: one step lets a delivery come in and read its payment,
  another settles it on that (by now possibly stale) reading; in between the other services
  may act. The row lock of \<open>UPDATE payments\<close> makes the settling transaction one step.
\<close>

datatype wh_thread = Wh_idle | Wh_read matched | Wh_answered "webhook_outcome result"

record wh_sys =
  wh_store :: db
  wh_threads :: "nat \<Rightarrow> wh_thread"

inductive wh_step :: "platform \<Rightarrow> config \<Rightarrow> wh_sys \<Rightarrow> wh_sys \<Rightarrow> bool" for pf cfg where
  turned_away: "wh_threads x i = Wh_idle \<Longrightarrow> wh_intake ck pf cfg code raw hs (wh_store x) = (Inr (Finished out), s1) \<Longrightarrow>
     wh_step pf cfg x (x\<lparr>wh_store := s1, wh_threads := (wh_threads x)(i := Wh_answered (Inr out))\<rparr>)"
| broke: "wh_threads x i = Wh_idle \<Longrightarrow> wh_intake ck pf cfg code raw hs (wh_store x) = (Inl e, s1) \<Longrightarrow>
     wh_step pf cfg x (x\<lparr>wh_store := s1, wh_threads := (wh_threads x)(i := Wh_answered (Inl e))\<rparr>)"
| came_in: "wh_threads x i = Wh_idle \<Longrightarrow> wh_intake ck pf cfg code raw hs (wh_store x) = (Inr (Matched m), s1) \<Longrightarrow>
     wh_step pf cfg x (x\<lparr>wh_store := s1, wh_threads := (wh_threads x)(i := Wh_read m)\<rparr>)"
| settled: "wh_threads x i = Wh_read m \<Longrightarrow> wh_settle ck pf m (wh_store x) = (out, s1) \<Longrightarrow>
     wh_step pf cfg x (x\<lparr>wh_store := s1, wh_threads := (wh_threads x)(i := Wh_answered out)\<rparr>)"
| meanwhile: "wh_step pf cfg x (x\<lparr>wh_store := run_sub_op cfg ck y (wh_store x)\<rparr>)"

inductive_cases wh_stepE: "wh_step pf cfg x y"

inductive wh_reach :: "platform \<Rightarrow> config \<Rightarrow> wh_sys \<Rightarrow> wh_sys \<Rightarrow> bool" for pf cfg x where
  wh_start: "wh_reach pf cfg x x"
| wh_more: "wh_reach pf cfg x y \<Longrightarrow> wh_step pf cfg y z \<Longrightarrow> wh_reach pf cfg x z"

text \<open>One delivery run alone is \<open>process\<close>.\<close>

lemma wh_alone:
  "process ck pf cfg code raw hs s =
     (case wh_intake ck pf cfg code raw hs s of
        (Inr (Matched m), s1) \<Rightarrow> wh_settle ck pf m s1
      | (Inr (Finished out), s1) \<Rightarrow> (Inr out, s1)
      | (Inl e, s1) \<Rightarrow> (Inl e, s1))"
  by (simp add: process_def split: prod.splits sum.splits intake.splits)

lemma ledger_intake:
  "ledger_ok s \<Longrightarrow> wh_intake ck pf cfg code raw hs s = (x, t) \<Longrightarrow> ledger_ok t"
  by (erule ledger_cong) (simp_all add: intake_frame)

lemma ledger_set_payment:
  assumes "ledger_ok s" and "\<And>y. y_id (f y) = y_id y \<and> y_planner_id (f y) = y_planner_id y
             \<and> y_plan_code (f y) = y_plan_code y \<and> y_quantity (f y) = y_quantity y"
  shows "ledger_ok (set_payment pid f s)"
  unfolding set_payment_def using assms by (rule ledger_update_payments)

lemma ledger_marked: "ledger_ok s \<Longrightarrow> ledger_ok (set_payment pid (mark_confirmed ck) s)"
  "ledger_ok s \<Longrightarrow> ledger_ok (set_payment pid (mark_status st) s)"
  by (rule ledger_set_payment; simp add: mark_confirmed_def mark_status_def)+

lemma ledger_finish: "ledger_ok s \<Longrightarrow> ledger_ok (finish ck eid e s)"
  by (erule ledger_cong) simp_all

lemma ledger_dispute: "ledger_ok s \<Longrightarrow> ledger_ok (notify_admins_of_dispute ck p e r s)"
  by (erule ledger_cong) simp_all

lemma ledger_notify: "ledger_ok s \<Longrightarrow> ledger_ok (insert_notification ck u ty ti d s)"
  by (erule ledger_cong) simp_all

lemma ledger_settle:
  assumes "ledger_ok s" and "wh_settle ck pf m s = (out, t)"
  shows "ledger_ok t"
  using assms ledger_mint [OF ledger_marked(1) [OF assms(1)]]
  by (auto simp: wh_settle_def Let_def confirm_and_mint_def
      intro!: ledger_finish ledger_dispute ledger_notify ledger_marked split: sum.splits decision_taken.splits)

text \<open>
  C10: however deliveries, their retries, purchases, activations, admin mints and nightly
  sweeps interleave, the subscription ledger stays sound: no payment is ever paid out twice
  or in part, and no user has two running subscriptions.
\<close>

theorem concurrent_deliveries_mint_once:
  "wh_reach pf cfg x y \<Longrightarrow> ledger_ok (wh_store x) \<Longrightarrow> ledger_ok (wh_store y)"
proof (induction rule: wh_reach.induct)
  case (wh_more y z)
  then have "ledger_ok (wh_store y)" by blast
  with wh_more.hyps(2) show ?case
    by (cases rule: wh_step.cases) (auto intro: ledger_intake ledger_settle ledger_step)
qed

section \<open>A concrete shop\<close>

definition demo_body :: "string \<Rightarrow> js_value" where
  "demo_body st = Js_object [(''reference'', Js_string ''mock_2''), (''status'', Js_string st),
     (''amount'', Js_number (4995 / 100)), (''currency'', Js_string ''usd'')]"

definition demo_platform :: platform where
  "demo_platform = \<lparr>hmac_hex = (\<lambda>k d. k @ d),
     json_parse = (\<lambda>raw. if raw = ''p'' then Some (demo_body ''paid'')
                        else if raw = ''f'' then Some (demo_body ''failed'')
                        else if raw = ''n'' then Some (Js_object []) else None),
     json_stringify = (\<lambda>v. ''p''), render = (\<lambda>v. ''?'')\<rparr>"

definition demo_headers :: "string \<Rightarrow> headers" where
  "demo_headers raw = [(''x-mock-signature'', ''mock-secret'' @ raw)]"

abbreviation demo_cfg :: config where "demo_cfg \<equiv> \<lambda>_. None"

abbreviation clock_at :: "int \<Rightarrow> clock" where "clock_at n \<equiv> \<lparr>db_now = n, js_now = n\<rparr>"

definition demo_parsed :: "string \<Rightarrow> parsed_webhook" where
  "demo_parsed st = \<lparr>pw_provider_ref = Js_string ''mock_2'', pw_status = Js_string st,
     pw_amount = Some (4995 / 100), pw_currency = Js_string ''usd'', pw_event_type = Js_undefined\<rparr>"

lemma demo_parse:
  "parse_webhook demo_platform Mock ''p'' = Inr (demo_parsed ''paid'')"
  "parse_webhook demo_platform Mock ''f'' = Inr (demo_parsed ''failed'')"
  by (simp_all add: mock_parse_def demo_platform_def demo_body_def demo_parsed_def Let_def)

lemma demo_verify: "verify_signature demo_platform demo_cfg Mock raw (demo_headers raw)"
  by (simp add: mock_verify_def mock_sign_def demo_headers_def mock_signature_header_def demo_platform_def mock_secret_def)

lemma demo_intake:
  assumes "payments s = [shop_payment c n]" and "parse_webhook demo_platform Mock raw = Inr (demo_parsed st)"
  shows "\<exists>t. wh_intake ck demo_platform demo_cfg ''mock'' raw (demo_headers raw) s =
    (Inr (Matched \<lparr>mt_event = next_id s, mt_parsed = demo_parsed st, mt_payment = shop_payment c n\<rparr>), t)"
proof -
  have "registry_get ''mock'' = Some Mock" by (simp add: registry_get_def registered_def)
  with assms demo_verify [of raw] show ?thesis
    by (simp add: wh_intake_def wh_match_def Let_def demo_parsed_def shop_payment_def has_reference_def)
qed

lemma demo_upper: "to_upper ''usd'' = ''USD''" "to_upper ''USD'' = ''USD''"
  by code_simp+

lemma demo_decide:
  "wh_decide demo_platform (shop_payment c n) (demo_parsed ''paid'') = Inr Confirm"
  "wh_decide demo_platform (shop_payment c n) (demo_parsed ''failed'') = Inr (Not_paid Y_rejected ''provider reported ?'')"
  by (simp_all add: wh_decide_def shop_payment_def demo_parsed_def amount_matches_def demo_upper
      demo_platform_def)

lemma demo_confirm:
  assumes "ledger_ok s" and "payments s = [shop_payment c n]" and "minted_for 1 s = []" and "plans s = shop_plans"
  shows "\<exists>r t rows. confirm_and_mint ck 1 s = Inr (r, t) \<and> t = with_rows rows (set_payment 1 (mark_confirmed ck) s)
    \<and> length rows = n \<and> list_all (\<lambda>r. s_payment_id r = Some 1) rows"
proof -
  let ?s = "set_payment 1 (mark_confirmed ck) s" and ?y = "mark_confirmed ck (shop_payment c n)"
  have ok: "ledger_ok ?s" by (rule ledger_marked(1) [OF assms(1)])
  have y: "find (\<lambda>x. y_id x = 1) (payments ?s) = Some ?y" "y_plan_code ?y = Some c" "y_quantity ?y = n" "y_id ?y = 1"
    using assms(2) by (simp_all add: mark_confirmed_def shop_payment_def)
  obtain p where p: "find (\<lambda>p. p_code p = c) (plans ?s) = Some p"
    using assms(4) by (cases c) (simp_all add: shop_plans_def)
  have "minted_for 1 ?s = []" using assms(3) by (simp add: minted_for_def)
  from mint_for_payment_fresh [OF _ y(1,2) this p, of ck] ok
  have "mint_for_payment ck 1 ?s = Inr (\<lparr>mr_minted = n, mr_already_minted = False, mr_rows = minted_rows ck ?y p ?s\<rparr>,
      with_rows (minted_rows ck ?y p ?s) ?s)" by (simp add: ledger_ok_def y(3))
  moreover have "list_all (\<lambda>r. s_payment_id r = Some 1) (minted_rows ck ?y p ?s)"
    by (auto simp: list_all_iff y(4) dest: minted_rows_mem)
  ultimately show ?thesis by (auto simp: confirm_and_mint_def y(3))
qed

lemma demo_shop: "payments (shop c n) = [shop_payment c n]" "minted_for 1 (shop c n) = []" "plans (shop c n) = shop_plans"
  by (simp_all add: shop_def empty_db_def minted_for_def)

lemma demo_settle_paid:
  assumes "ledger_ok s" and "payments s = [shop_payment c n]" and "minted_for 1 s = []" and "plans s = shop_plans"
  shows "\<exists>t rows. wh_settle ck demo_platform \<lparr>mt_event = e, mt_parsed = demo_parsed ''paid'', mt_payment = shop_payment c n\<rparr> s =
      (Inr W_confirmed, t) \<and> payments t = [mark_confirmed ck (shop_payment c n)]
    \<and> subscriptions t = subscriptions s @ rows \<and> length rows = n \<and> list_all (\<lambda>r. s_payment_id r = Some 1) rows"
proof -
  from demo_confirm [OF assms, of ck] obtain r t rows where "confirm_and_mint ck 1 s = Inr (r, t)"
    and "t = with_rows rows (set_payment 1 (mark_confirmed ck) s)"
    and "length rows = n" "list_all (\<lambda>r. s_payment_id r = Some 1) rows" by blast
  moreover have "y_id (shop_payment c n) = 1" by (simp add: shop_payment_def)
  ultimately show ?thesis using assms(2) by (auto simp: wh_settle_def demo_decide Let_def)
qed

lemma demo_process:
  "\<exists>t. process ck demo_platform demo_cfg ''mock'' ''p'' (demo_headers ''p'') (shop c n) = (Inr W_confirmed, t)"
proof -
  obtain s1 where i: "wh_intake ck demo_platform demo_cfg ''mock'' ''p'' (demo_headers ''p'') (shop c n) =
    (Inr (Matched \<lparr>mt_event = next_id (shop c n), mt_parsed = demo_parsed ''paid'', mt_payment = shop_payment c n\<rparr>), s1)"
    using demo_intake [OF demo_shop(1) demo_parse(1)] by blast
  note f = intake_frame [OF i]
  have "ledger_ok s1" by (rule ledger_intake [OF ledger_shop i])
  with demo_settle_paid [of s1 c n ck "next_id (shop c n)"] f demo_shop [of c n] i show ?thesis
    by (auto simp: process_def minted_for_def)
qed

lemma reach_in:
  "wh_reach pf cfg x \<lparr>wh_store = s, wh_threads = th\<rparr> \<Longrightarrow> th i = Wh_idle \<Longrightarrow>
   wh_intake ck pf cfg code raw hs s = (Inr (Matched m), s1) \<Longrightarrow>
   wh_reach pf cfg x \<lparr>wh_store = s1, wh_threads = th(i := Wh_read m)\<rparr>"
  using wh_step.came_in [of "\<lparr>wh_store = s, wh_threads = th\<rparr>" i ck pf cfg code raw hs m s1]
  by (auto intro: wh_more)

lemma reach_settle:
  "wh_reach pf cfg x \<lparr>wh_store = s, wh_threads = th\<rparr> \<Longrightarrow> th i = Wh_read m \<Longrightarrow>
   wh_settle ck pf m s = (out, s1) \<Longrightarrow>
   wh_reach pf cfg x \<lparr>wh_store = s1, wh_threads = th(i := Wh_answered out)\<rparr>"
  using wh_step.settled [of "\<lparr>wh_store = s, wh_threads = th\<rparr>" i m ck pf out s1 cfg]
  by (auto intro: wh_more)

lemma demo_race:
  "\<exists>y. wh_reach demo_platform demo_cfg \<lparr>wh_store = shop P_month 2, wh_threads = \<lambda>_. Wh_idle\<rparr> y
     \<and> map y_status (payments (wh_store y)) = [Y_rejected] \<and> length (minted_for 1 (wh_store y)) = 2"
proof -
  let ?x0 = "\<lparr>wh_store = shop P_month 2, wh_threads = \<lambda>_. Wh_idle\<rparr>"
  let ?mp = "\<lambda>e. \<lparr>mt_event = e, mt_parsed = demo_parsed ''paid'', mt_payment = shop_payment P_month 2\<rparr>"
  let ?mf = "\<lambda>e. \<lparr>mt_event = e, mt_parsed = demo_parsed ''failed'', mt_payment = shop_payment P_month 2\<rparr>"
  obtain s1 where 1: "wh_intake (clock_at 5) demo_platform demo_cfg ''mock'' ''p'' (demo_headers ''p'') (shop P_month 2) =
      (Inr (Matched (?mp (next_id (shop P_month 2)))), s1)"
    using demo_intake [OF demo_shop(1) demo_parse(1)] by blast
  note f1 = intake_frame [OF 1]
  obtain s2 where 2: "wh_intake (clock_at 6) demo_platform demo_cfg ''mock'' ''f'' (demo_headers ''f'') s1 =
      (Inr (Matched (?mf (next_id s1))), s2)"
    using demo_intake [OF _ demo_parse(2), of s1 P_month 2 "clock_at 6"] f1(1) demo_shop(1) by auto
  note f2 = intake_frame [OF 2]
  have ok: "ledger_ok s2" by (rule ledger_intake [OF ledger_intake [OF ledger_shop 1] 2])
  obtain s3 rows where 3: "wh_settle (clock_at 7) demo_platform (?mp (next_id (shop P_month 2))) s2 = (Inr W_confirmed, s3)"
    and p3: "payments s3 = [mark_confirmed (clock_at 7) (shop_payment P_month 2)]"
    and r3: "subscriptions s3 = subscriptions s2 @ rows" "length rows = 2" "list_all (\<lambda>r. s_payment_id r = Some 1) rows"
    using demo_settle_paid [OF ok, of P_month 2 "clock_at 7" "next_id (shop P_month 2)"] f1 f2 demo_shop [of P_month 2]
    by (auto simp: minted_for_def)
  obtain s4 where 4: "wh_settle (clock_at 8) demo_platform (?mf (next_id s1)) s3 = (Inr W_not_paid, s4)"
    by (simp add: wh_settle_def demo_decide)
  have fin: "map y_status (payments s4) = [Y_rejected]" "length (minted_for 1 s4) = 2"
    using settle_payments [OF 4] settle_subscriptions [OF 4] p3 r3 f1 f2
    by (simp_all add: payments_after_def demo_parsed_def mark_status_def mark_confirmed_def shop_payment_def
        minted_for_def shop_def empty_db_def list_all_iff filter_id_conv)
  have "wh_reach demo_platform demo_cfg ?x0 ?x0" by (rule wh_start)
  from reach_in [OF this _ 1, of 0] have "wh_reach demo_platform demo_cfg ?x0
      \<lparr>wh_store = s1, wh_threads = (\<lambda>_. Wh_idle)(0 := Wh_read (?mp (next_id (shop P_month 2))))\<rparr>" by simp
  from reach_in [OF this _ 2, of 1] have "wh_reach demo_platform demo_cfg ?x0
      \<lparr>wh_store = s2, wh_threads = (\<lambda>_. Wh_idle)(0 := Wh_read (?mp (next_id (shop P_month 2))),
         1 := Wh_read (?mf (next_id s1)))\<rparr>" by simp
  from reach_settle [OF this _ 3, of 0] have "wh_reach demo_platform demo_cfg ?x0
      \<lparr>wh_store = s3, wh_threads = (\<lambda>_. Wh_idle)(0 := Wh_read (?mp (next_id (shop P_month 2))),
         1 := Wh_read (?mf (next_id s1)), 0 := Wh_answered (Inr W_confirmed))\<rparr>" by simp
  from reach_settle [OF this _ 4, of 1] fin show ?thesis by fastforce
qed

text \<open>
  A stale reading can undo a confirmation. Two deliveries for one payment, one reporting
  it paid and one reporting it failed, both read it before either settles; the paid one
  confirms and mints, and the failed one then overwrites the status, since the update carries
  no expected status: the payment ends as \<open>rejected\<close> with its subscriptions handed out.
\<close>

theorem stale_failure_overwrites_confirmation:
  "\<exists>y. wh_reach demo_platform demo_cfg \<lparr>wh_store = shop P_month 2, wh_threads = \<lambda>_. Wh_idle\<rparr> y
     \<and> map y_status (payments (wh_store y)) = [Y_rejected] \<and> length (minted_for 1 (wh_store y)) = 2"
  by (rule demo_race)

text \<open>
  A signed delivery without a reference escapes the handler. The lookup by an undefined
  reference throws inside knex, so \<open>process\<close> rejects and the provider is answered 500, where
  the controller means to answer 200 to everything.
\<close>

theorem unreferenced_delivery_throws:
  assumes "verify_signature pf cfg Mock raw hs" and "json_parse pf raw = Some (Js_object kvs)"
    and "map_of kvs ''reference'' = None"
  shows "fst (receive ck pf cfg ''mock'' (Some raw) hs s) = 500"
proof -
  have "registry_get ''mock'' = Some Mock" by (simp add: registry_get_def registered_def)
  with assms show ?thesis
    by (simp add: receive_def process_def wh_intake_def wh_match_def mock_parse_def Let_def
        http_status_def internal_response_def)
qed

theorem unreferenced_delivery_throws_witness:
  "fst (receive (clock_at 5) demo_platform demo_cfg ''mock'' (Some ''n'') (demo_headers ''n'') empty_db) = 500"
proof -
  have "json_parse demo_platform ''n'' = Some (Js_object [])" by (simp add: demo_platform_def)
  from unreferenced_delivery_throws [OF demo_verify this] show ?thesis by simp
qed

theorem webhook_confirms_only_genuine_witness:
  "\<exists>t. process (clock_at 5) demo_platform demo_cfg ''mock'' ''p'' (demo_headers ''p'') (shop P_month 2) = (Inr W_confirmed, t)
     \<and> genuine demo_platform demo_cfg ''mock'' ''p'' (demo_headers ''p'')"
  using demo_process [of "clock_at 5" P_month 2] webhook_confirms_only_genuine by blast

theorem unsigned_delivery_is_inert_witness:
  "payments (snd (process (clock_at 5) demo_platform demo_cfg ''mock'' ''p'' [] (shop P_month 2))) = payments (shop P_month 2)"
proof -
  have "\<not> genuine demo_platform demo_cfg ''mock'' ''p'' []" by (simp add: genuine_def)
  from unsigned_delivery_is_inert [OF this, of "clock_at 5" "shop P_month 2"] show ?thesis
    by (metis prod.collapse)
qed

theorem webhook_replay_is_noop_witness:
  "\<exists>t. process (clock_at 5) demo_platform demo_cfg ''mock'' ''p'' (demo_headers ''p'') (shop P_day 2) = (Inr W_confirmed, t)
     \<and> fst (process (clock_at 9) demo_platform demo_cfg ''mock'' ''p'' (demo_headers ''p'') t) = Inr W_already_confirmed"
proof -
  obtain t where 1: "process (clock_at 5) demo_platform demo_cfg ''mock'' ''p'' (demo_headers ''p'') (shop P_day 2) = (Inr W_confirmed, t)"
    using demo_process by blast
  from webhook_replay_is_noop [OF 1, of "clock_at 9"] 1 show ?thesis by (auto split: prod.splits)
qed

theorem every_delivery_is_recorded_witness:
  "logged 3 ''nobody'' ''x'' [] (shop P_day 2)
     (snd (process (clock_at 5) demo_platform demo_cfg ''nobody'' ''x'' [] (shop P_day 2)))"
proof -
  have e: "events_ok (shop P_day 2)" and n: "next_id (shop P_day 2) = 3"
    by (simp_all add: events_ok_def shop_def empty_db_def)
  from every_delivery_is_recorded [OF e, of "clock_at 5" demo_platform demo_cfg "''nobody''" "''x''" "[]"] n
  show ?thesis by (metis prod.collapse)
qed

theorem concurrent_deliveries_mint_once_witness:
  "\<exists>y. wh_reach demo_platform demo_cfg \<lparr>wh_store = shop P_month 2, wh_threads = \<lambda>_. Wh_idle\<rparr> y
     \<and> length (minted_for 1 (wh_store y)) = 2 \<and> ledger_ok (wh_store y)"
proof -
  obtain y where 1: "wh_reach demo_platform demo_cfg \<lparr>wh_store = shop P_month 2, wh_threads = \<lambda>_. Wh_idle\<rparr> y"
    and 2: "length (minted_for 1 (wh_store y)) = 2" using demo_race by blast
  have "ledger_ok (wh_store \<lparr>wh_store = shop P_month 2, wh_threads = \<lambda>_. Wh_idle\<rparr>)" by (simp add: ledger_shop)
  from concurrent_deliveries_mint_once [OF 1 this] 1 2 show ?thesis by blast
qed

end
