(* ===== verification/Scheduler.thy ===== *)
theory Scheduler
  imports Bookings Reviews Webhooks "HOL-Library.Word"
begin

unbundle bit_operations_syntax

text \<open>
  \<open>src/scheduler/scheduler.service.ts\<close> and \<open>src/scheduler/cron.controller.ts\<close>: the advisory
  lock around every job, the two ways a job is triggered, subscription maintenance with the
  messages it sends, renewal reminders, payment reconciliation and the daily review trigger.
  An outgoing email is a value appended to the result; \<open>EmailService.send\<close> never throws.
\<close>

section \<open>The lock key\<close>

text \<open>FNV-1a on 32-bit words; \<open>hash | 0\<close> reads the word as a signed number.\<close>

definition fnv_step :: "32 word \<Rightarrow> char \<Rightarrow> 32 word" where
  "fnv_step h c = (h XOR of_nat (of_char c)) * 0x01000193"

definition cron_lock_key :: "string \<Rightarrow> int" where
  "cron_lock_key job = sint (foldl fnv_step 0x811c9dc5 job)"

definition cron_lock_namespace :: int where
  "cron_lock_namespace = 0x66616e6e"

definition job_names :: "string list" where
  "job_names = [''subscription-maintenance'', ''renewal-reminders'', ''payment-reconciliation'',
     ''identity-document-retention'', ''daily-review-trigger'', ''expired-review-unlock'', ''telemetry-prune'']"

text \<open>The key fits the signed int4 the lock function takes, for every name.\<close>

lemma cron_lock_key_int4: "- (2 ^ 31) \<le> cron_lock_key job" "cron_lock_key job < 2 ^ 31"
  using sint_greater_eq [of "foldl fnv_step 0x811c9dc5 job"] sint_less [of "foldl fnv_step 0x811c9dc5 job"]
  by (simp_all add: cron_lock_key_def)

section \<open>Triggers\<close>

definition in_process_cron_enabled :: "config \<Rightarrow> bool" where
  "in_process_cron_enabled cfg \<longleftrightarrow>
     (case cfg ''SCHEDULER_MODE'' of None \<Rightarrow> ''in-process'' | Some m \<Rightarrow> m) = ''in-process''"

text \<open>\<open>authorization.replace(/^Bearer\s+/i, '')\<close>.\<close>

definition strip_bearer :: "string \<Rightarrow> string" where
  "strip_bearer a =
     (let rest = drop 6 a
      in if to_lower (take 6 a) = ''bearer'' \<and> rest \<noteq> [] \<and> is_space (hd rest) then dropWhile is_space rest else a)"

definition assert_authorised :: "config \<Rightarrow> string option \<Rightarrow> unit result" where
  "assert_authorised cfg authorization =
     (if cfg ''SCHEDULER_MODE'' \<noteq> Some ''http''
      then Inl (Forbidden ''Scheduled work runs in-process here. Set SCHEDULER_MODE=http to drive it over HTTP.'')
      else case cfg ''CRON_SECRET'' of
             None \<Rightarrow> Inl (Forbidden ''CRON_SECRET is not configured.'')
           | Some secret \<Rightarrow>
               if secret = [] then Inl (Forbidden ''CRON_SECRET is not configured.'')
               else let provided = (case authorization of None \<Rightarrow> [] | Some a \<Rightarrow> strip_bearer a)
                    in if length provided \<noteq> length secret \<or> provided \<noteq> secret
                       then Inl (Forbidden ''Invalid cron secret.'') else Inr ())"

lemma authorised_iff:
  "assert_authorised cfg a = Inr () \<longleftrightarrow>
     cfg ''SCHEDULER_MODE'' = Some ''http''
     \<and> (\<exists>secret. cfg ''CRON_SECRET'' = Some secret \<and> secret \<noteq> [] \<and> map_option strip_bearer a = Some secret)"
  by (auto simp: assert_authorised_def Let_def split: option.splits)

text \<open>The two triggers are never live together, so a job is never driven twice.\<close>

lemma one_trigger: "assert_authorised cfg a = Inr () \<Longrightarrow> \<not> in_process_cron_enabled cfg"
  by (simp add: authorised_iff in_process_cron_enabled_def)

section \<open>Mail\<close>

datatype mail =
    Mail_expiring string string plan_code int timestamp string
      \<comment> \<open>to, recipient name, plan, days left, expiry, renewal link\<close>
  | Mail_review_request string string string string string int "string list"
      \<comment> \<open>to, recipient name, event name, event date, link, days, what is asked\<close>

section \<open>Subscription maintenance\<close>

record maintenance_notification =
  mn_user_id :: uuid
  mn_type :: string
  mn_title :: string
  mn_data :: jobject

text \<open>
  \<open>new Map(promoted.map(p => [p.user_id, p]))\<close>: a later entry for a key replaces the value
  in the place of the first.
\<close>

fun map_set :: "'k \<Rightarrow> 'v \<Rightarrow> ('k \<times> 'v) list \<Rightarrow> ('k \<times> 'v) list" where
  "map_set k v [] = [(k, v)]"
| "map_set k v ((k', v') # m) = (if k' = k then (k, v) # m else (k', v') # map_set k v m)"

definition map_delete :: "'k \<Rightarrow> ('k \<times> 'v) list \<Rightarrow> ('k \<times> 'v) list" where
  "map_delete k m = filter (\<lambda>kv. fst kv \<noteq> k) m"

definition jtime :: "timestamp option \<Rightarrow> jval" where
  "jtime t = (case t of None \<Rightarrow> JNull | Some x \<Rightarrow> JTime x)"

definition expired_message :: "subscription \<Rightarrow> maintenance_notification" where
  "expired_message e =
     \<lparr>mn_user_id = s_user_id e, mn_type = ''subscription_expired'', mn_title = ''Your subscription ended'',
      mn_data = [(''subscription_id'', JUuid (s_id e)), (''plan_code'', JStr (plan_name (s_plan_code e)))]\<rparr>"

definition rolled_over_message :: "subscription \<Rightarrow> subscription \<Rightarrow> maintenance_notification" where
  "rolled_over_message e n =
     \<lparr>mn_user_id = s_user_id e, mn_type = ''subscription_rolled_over'',
      mn_title = ''Your '' @ plan_name (s_plan_code e) @ '' plan ended and your '' @ plan_name (s_plan_code n) @ '' plan started'',
      mn_data = [(''subscription_id'', JUuid (s_id n)), (''plan_code'', JStr (plan_name (s_plan_code n))),
        (''expires_at'', jtime (s_expires_at n)), (''previous_subscription_id'', JUuid (s_id e)),
        (''previous_plan_code'', JStr (plan_name (s_plan_code e)))]\<rparr>"

definition started_message :: "subscription \<Rightarrow> maintenance_notification" where
  "started_message n =
     \<lparr>mn_user_id = s_user_id n, mn_type = ''subscription_started'', mn_title = ''Your next plan has started'',
      mn_data = [(''subscription_id'', JUuid (s_id n)), (''plan_code'', JStr (plan_name (s_plan_code n))),
        (''expires_at'', jtime (s_expires_at n))]\<rparr>"

fun maintenance_loop ::
  "subscription list \<Rightarrow> (uuid \<times> subscription) list \<Rightarrow> maintenance_notification list \<times> (uuid \<times> subscription) list" where
  "maintenance_loop [] pend = ([], pend)"
| "maintenance_loop (e # es) pend =
     (case map_of pend (s_user_id e) of
        None \<Rightarrow> (let (ns, p') = maintenance_loop es pend in (expired_message e # ns, p'))
      | Some n \<Rightarrow> (let (ns, p') = maintenance_loop es (map_delete (s_user_id e) pend) in (rolled_over_message e n # ns, p')))"

definition build_maintenance_notifications :: "subscription list \<Rightarrow> subscription list \<Rightarrow> maintenance_notification list" where
  "build_maintenance_notifications expired promoted =
     (let pend = fold (\<lambda>p. map_set (s_user_id p) p) promoted [];
          (ns, left) = maintenance_loop expired pend
      in ns @ map (\<lambda>kv. started_message (snd kv)) left)"

definition send_maintenance :: "clock \<Rightarrow> maintenance_notification list \<Rightarrow> db \<Rightarrow> db" where
  "send_maintenance ck ns s =
     fold (\<lambda>n. insert_notification ck (mn_user_id n) (mn_type n) (mn_title n) (mn_data n)) ns s"

definition do_subscription_maintenance :: "clock \<Rightarrow> db \<Rightarrow> db" where
  "do_subscription_maintenance ck s =
     (let ((expired, promoted), s1) = expire_and_promote ck s
      in send_maintenance ck (build_maintenance_notifications expired promoted) s1)"

section \<open>Renewal reminders\<close>

definition app_url :: "config \<Rightarrow> string" where
  "app_url cfg = (case cfg ''APP_URL'' of None \<Rightarrow> ''undefined'' | Some u \<Rightarrow> u)"

definition name_or_email :: "string option \<Rightarrow> string \<Rightarrow> string" where
  "name_or_email n email = (case n of None \<Rightarrow> email | Some x \<Rightarrow> x)"

definition planner_name :: "uuid \<Rightarrow> db \<Rightarrow> string option" where
  "planner_name uid s = Option.bind (find (\<lambda>p. pp_user_id p = uid) (planner_profiles s)) pp_display_name"

definition artist_name :: "uuid \<Rightarrow> db \<Rightarrow> string option" where
  "artist_name uid s = Option.bind (find (\<lambda>p. ap_user_id p = uid) (artist_profiles s)) ap_display_name"

definition send_reminder :: "clock \<Rightarrow> config \<Rightarrow> reminder \<Rightarrow> mail list \<times> db \<Rightarrow> mail list \<times> db" where
  "send_reminder ck cfg c acc =
     (case acc of (ms, s) \<Rightarrow>
        (case find (\<lambda>u. u_id u = rm_user_id c) (users s) of
           None \<Rightarrow> (ms, s)
         | Some u \<Rightarrow>
             (ms @ [Mail_expiring (u_email u) (name_or_email (planner_name (u_id u) s) (u_email u)) (rm_plan_code c)
                      (rm_days c) (rm_expires_at c) (app_url cfg @ ''/plans'')],
              insert_notification ck (rm_user_id c) reminder_notification_type
                (''Your '' @ plan_name (rm_plan_code c) @ '' plan ends in '' @ show_int (rm_days c) @ '' day(s)'')
                [(''subscription_id'', JUuid (rm_subscription_id c)), (''plan_code'', JStr (plan_name (rm_plan_code c))),
                 (''days'', JInt (rm_days c)), (''expires_at'', JTime (rm_expires_at c))] s)))"

definition do_renewal_reminders :: "clock \<Rightarrow> config \<Rightarrow> db \<Rightarrow> mail list \<times> db" where
  "do_renewal_reminders ck cfg s = fold (send_reminder ck cfg) (find_due_renewal_reminders ck s) ([], s)"

section \<open>Payment reconciliation\<close>

definition manual_intent_abandon_days :: int where
  "manual_intent_abandon_days = 30"

definition intent_ran_out :: "clock \<Rightarrow> payment \<Rightarrow> bool" where
  "intent_ran_out ck y \<longleftrightarrow> y_status y = Y_awaiting_provider \<and> y_provider y \<noteq> ''manual''
     \<and> (case y_intent_expires_at y of None \<Rightarrow> False | Some t \<Rightarrow> t < db_now ck)"

definition intent_abandoned :: "clock \<Rightarrow> payment \<Rightarrow> bool" where
  "intent_abandoned ck y \<longleftrightarrow> y_status y = Y_awaiting_provider \<and> y_provider y = ''manual''
     \<and> y_reference_code y = None \<and> y_created_at y < db_now ck - manual_intent_abandon_days * ms_per_day"

definition worth_polling :: "clock \<Rightarrow> provider \<Rightarrow> payment \<Rightarrow> bool" where
  "worth_polling ck pr y \<longleftrightarrow> y_status y = Y_awaiting_provider \<and> y_provider y = provider_code pr
     \<and> y_provider_ref y \<noteq> None \<and> y_created_at y < db_now ck - 30 * 60 * 1000"

definition poll_one :: "(string \<Rightarrow> js_value) \<Rightarrow> payment \<Rightarrow> db \<Rightarrow> db" where
  "poll_one status y s =
     (let st = status (case y_provider_ref y of None \<Rightarrow> [] | Some r \<Rightarrow> r)
      in if st = Js_string ''unknown'' then s
         else if st = Js_string ''failed'' then set_payment (y_id y) (mark_status Y_rejected) s
         else if st = Js_string ''expired'' then set_payment (y_id y) (mark_status Y_expired) s
         else s)"

definition poll_provider :: "clock \<Rightarrow> provider \<Rightarrow> db \<Rightarrow> db" where
  "poll_provider ck pr s =
     (case get_status pr of
        None \<Rightarrow> s
      | Some status \<Rightarrow>
          if provider_code pr = ''manual'' then s
          else fold (poll_one status) (filter (worth_polling ck pr) (payments s)) s)"

definition expire_intents :: "clock \<Rightarrow> db \<Rightarrow> db" where
  "expire_intents ck s =
     (let s1 = s\<lparr>payments := update_where (intent_ran_out ck) (mark_status Y_expired) (payments s)\<rparr>
      in s1\<lparr>payments := update_where (intent_abandoned ck) (mark_status Y_expired) (payments s1)\<rparr>)"

definition do_payment_reconciliation :: "clock \<Rightarrow> db \<Rightarrow> db" where
  "do_payment_reconciliation ck s = fold (poll_provider ck) registry_pollable (expire_intents ck s)"

section \<open>The review trigger\<close>

definition questions_for_artist :: "string list" where
  "questions_for_artist =
     [''How was the planner'' @ [CHR 0x27] @ ''s communication throughout?'',
      ''Was the planner professional and organised?'',
      ''Was everything ready on time?'',
      ''How well was the event organised overall?'']"

definition questions_for_planner :: "string list" where
  "questions_for_planner =
     [''How was the artist'' @ [CHR 0x27] @ ''s communication throughout?'',
      ''Did the artist behave professionally?'',
      ''Did the artist arrive and set up on time?'',
      ''How was the quality of the performance overall?'']"

definition send_review_requests :: "clock \<Rightarrow> config \<Rightarrow> booking \<Rightarrow> db \<Rightarrow> mail list \<times> db" where
  "send_review_requests ck cfg b s =
     (case (find (\<lambda>x. b_id x = b_id b) (bookings s), find (\<lambda>u. u_id u = b_artist_id b) (users s),
            find (\<lambda>u. u_id u = b_planner_id b) (users s)) of
        (Some bk, Some artist, Some planner) \<Rightarrow>
          (let payload = [(''booking_id'', JUuid (b_id b)), (''event_name'', JStr (b_event_name bk))];
               ask = (\<lambda>uid. insert_notification ck uid ''review_request'' ''How was your booking?'' payload);
               url = app_url cfg @ ''/reviews/submit?bookingId='' @ show_nat (b_id b);
               mail = (\<lambda>u nm qs. Mail_review_request (u_email u) (name_or_email nm (u_email u)) (b_event_name bk)
                          (b_event_date bk) url review_window_days qs)
           in ([mail artist (artist_name (b_artist_id b) s) questions_for_artist,
                mail planner (planner_name (b_planner_id b) s) questions_for_planner],
               ask (b_planner_id b) (ask (b_artist_id b) s)))
      | _ \<Rightarrow> ([], s))"

definition stamp_review_emails :: "clock \<Rightarrow> uuid \<Rightarrow> db \<Rightarrow> db" where
  "stamp_review_emails ck bid s =
     s\<lparr>bookings := update_where (\<lambda>b. b_id b = bid) (\<lambda>b. b\<lparr>b_review_emails_sent_at := Some (db_now ck)\<rparr>) (bookings s)\<rparr>"

definition trigger_one :: "clock \<Rightarrow> config \<Rightarrow> booking \<Rightarrow> mail list \<times> db \<Rightarrow> mail list \<times> db" where
  "trigger_one ck cfg b acc =
     (case acc of (ms, s) \<Rightarrow>
        if b_review_emails_sent_at b \<noteq> None then (ms, s)
        else (let (ms', s1) = send_review_requests ck cfg b s in (ms @ ms', stamp_review_emails ck (b_id b) s1)))"

definition do_daily_review_trigger :: "clock \<Rightarrow> config \<Rightarrow> db \<Rightarrow> mail list \<times> db" where
  "do_daily_review_trigger ck cfg s =
     (let (completed, s1) = mark_completed_batch ck s
      in fold (trigger_one ck cfg) completed ([], s1))"

definition do_expired_review_unlock :: "clock \<Rightarrow> db \<Rightarrow> db" where
  "do_expired_review_unlock ck s = snd (unlock_expired_reviews ck s)"

section \<open>Mutual exclusion\<close>

text \<open>
  \<open>withCronLock\<close>: without a connection, or when another session holds the key, the run is
  skipped; the lock is released in a \<open>finally\<close>.
\<close>

definition with_cron_lock :: "bool \<Rightarrow> (int \<Rightarrow> bool) \<Rightarrow> string \<Rightarrow> ('w \<Rightarrow> 'w) \<Rightarrow> 'w \<Rightarrow> 'w" where
  "with_cron_lock got_conn held job work w =
     (if \<not> got_conn then w else if held (cron_lock_key job) then w else work w)"

text \<open>
  Any number of instances, each firing jobs at any time: \<open>held\<close> maps a key to the session
  that holds it, \<open>working\<close> an instance to the job it is in.
\<close>

record cron_sys =
  held :: "int \<Rightarrow> nat option"
  working :: "nat \<Rightarrow> string option"

inductive cron_step :: "cron_sys \<Rightarrow> cron_sys \<Rightarrow> bool" where
  acquire: "working x i = None \<Longrightarrow> held x (cron_lock_key job) = None \<Longrightarrow>
     cron_step x (x\<lparr>held := (held x)(cron_lock_key job := Some i), working := (working x)(i := Some job)\<rparr>)"
| skip: "working x i = None \<Longrightarrow> held x (cron_lock_key job) \<noteq> None \<Longrightarrow> cron_step x x"
| release: "working x i = Some job \<Longrightarrow>
     cron_step x (x\<lparr>held := (held x)(cron_lock_key job := None), working := (working x)(i := None)\<rparr>)"

inductive cron_reach :: "cron_sys \<Rightarrow> bool" where
  cron_init: "cron_reach \<lparr>held = \<lambda>_. None, working = \<lambda>_. None\<rparr>"
| cron_more: "cron_reach x \<Longrightarrow> cron_step x y \<Longrightarrow> cron_reach y"

inductive_cases cron_stepE: "cron_step x y"

definition holds_key :: "cron_sys \<Rightarrow> int \<Rightarrow> nat \<Rightarrow> bool" where
  "holds_key x k i \<longleftrightarrow> map_option cron_lock_key (working x i) = Some k"

definition locks_ok :: "cron_sys \<Rightarrow> bool" where
  "locks_ok x \<longleftrightarrow> (\<forall>k i. held x k = Some i \<longleftrightarrow> holds_key x k i)"

lemma locks_step:
  assumes "locks_ok x" and "cron_step x y"
  shows "locks_ok y"
  using assms(2)
proof cases
  case (acquire i job)
  have none: "\<not> holds_key x (cron_lock_key job) j" for j
    using assms(1) acquire(3) unfolding locks_ok_def by (metis option.distinct(1))
  have "held y k = Some j \<longleftrightarrow> holds_key y k j" for k j
    using assms(1) acquire(2,3) none [of j] unfolding acquire(1)
    by (cases "k = cron_lock_key job"; cases "j = i") (auto simp: locks_ok_def holds_key_def)
  then show ?thesis by (simp add: locks_ok_def)
next
  case (release i job)
  have "held x (cron_lock_key job) = Some i"
    using assms(1) release(2) by (simp add: locks_ok_def holds_key_def)
  then have only: "holds_key x (cron_lock_key job) j \<Longrightarrow> j = i" for j
    using assms(1) unfolding locks_ok_def by (metis option.inject)
  have "held y k = Some j \<longleftrightarrow> holds_key y k j" for k j
  proof -
    have x: "held x k = Some j \<longleftrightarrow> holds_key x k j" using assms(1) by (simp add: locks_ok_def)
    have h: "holds_key y k j \<longleftrightarrow> j \<noteq> i \<and> holds_key x k j" unfolding release(1) by (simp add: holds_key_def)
    have i: "holds_key x k i \<longleftrightarrow> k = cron_lock_key job" using release(2) by (auto simp: holds_key_def)
    show ?thesis
    proof (cases "k = cron_lock_key job")
      case True
      with only h show ?thesis unfolding release(1) by auto
    next
      case False
      with x h i show ?thesis unfolding release(1) by (cases "j = i") auto
    qed
  qed
  then show ?thesis by (simp add: locks_ok_def)
qed (use assms(1) in simp)

lemma locks_reach: "cron_reach x \<Longrightarrow> locks_ok x"
proof (induction rule: cron_reach.induct)
  case cron_init
  then show ?case by (simp add: locks_ok_def holds_key_def)
qed (rule locks_step)

lemma job_keys_distinct: "distinct (map cron_lock_key job_names)"
  by code_simp

text \<open>
  No job ever runs twice at once, and no job is kept waiting by another. However many
  instances fire however often, two of them are never inside jobs with one key; and a run of
  one of the seven jobs finds its lock taken exactly when some instance is inside that very
  job, provided the seven are all that is run.
\<close>

theorem jobs_exclude_only_themselves:
  assumes "cron_reach x" and "list_all (\<lambda>i. the (working x i) \<in> set job_names) instances"
    and "working x i = Some job" and "working x j = Some job'"
    and "i \<in> set instances" and "j \<in> set instances"
  shows "(i = j) = (job = job') \<and> held x (cron_lock_key job) = Some i"
proof -
  have locks: "held x (cron_lock_key job) = Some i" "held x (cron_lock_key job') = Some j"
    using locks_reach [OF assms(1)] assms(3,4) by (simp_all add: locks_ok_def holds_key_def)
  have "job \<in> set job_names" "job' \<in> set job_names"
    using assms(2-6) by (auto simp: list_all_iff)
  with locks assms(3,4) job_keys_distinct show ?thesis by auto
qed

theorem jobs_exclude_only_themselves_witness:
  "\<exists>x. cron_reach x \<and> working x 0 = Some ''renewal-reminders''
     \<and> held x (cron_lock_key ''renewal-reminders'') = Some 0"
proof -
  let ?x0 = "\<lparr>held = \<lambda>_. None, working = \<lambda>_. None\<rparr>"
  let ?x1 = "?x0\<lparr>held := (held ?x0)(cron_lock_key ''renewal-reminders'' := Some 0),
     working := (working ?x0)(0 := Some ''renewal-reminders'')\<rparr>"
  have r: "cron_reach ?x1" by (rule cron_more [OF cron_init], rule cron_step.acquire) simp_all
  have "list_all (\<lambda>i. the (working ?x1 i) \<in> set job_names) [0]" by (simp add: job_names_def)
  from jobs_exclude_only_themselves [OF r this, of 0 "''renewal-reminders''" 0 "''renewal-reminders''"] r
  show ?thesis by fastforce
qed

section \<open>What the maintenance run says\<close>

lemma map_of_map_set [simp]: "map_of (map_set k v m) = (map_of m)(k \<mapsto> v)"
  by (induction m) auto

lemma keys_map_set: "map fst (map_set k v m) = (if k \<in> set (map fst m) then map fst m else map fst m @ [k])"
  by (induction m) (auto simp: rev_image_eqI)

lemma map_set_new: "k \<notin> set (map fst m) \<Longrightarrow> map_set k v m = m @ [(k, v)]"
  by (induction m) auto

lemma pending_of_promoted:
  "distinct (map s_user_id promoted) \<Longrightarrow> set (map fst m) \<inter> set (map s_user_id promoted) = {} \<Longrightarrow>
   fold (\<lambda>p. map_set (s_user_id p) p) promoted m = m @ map (\<lambda>p. (s_user_id p, p)) promoted"
  by (induction promoted arbitrary: m) (auto simp: map_set_new)

text \<open>The kind of message a user gets, by what happened to them.\<close>

definition message_kind :: "subscription list \<Rightarrow> subscription list \<Rightarrow> uuid \<Rightarrow> string" where
  "message_kind expired promoted u =
     (if list_ex (\<lambda>e. s_user_id e = u) expired
      then (if list_ex (\<lambda>p. s_user_id p = u) promoted then ''subscription_rolled_over'' else ''subscription_expired'')
      else ''subscription_started'')"

lemma map_of_pending:
  "map_of (map (\<lambda>p. (s_user_id p, p)) ps) u \<noteq> None \<longleftrightarrow> list_ex (\<lambda>p. s_user_id p = u) ps"
  by (induction ps) auto

lemma map_of_delete: "map_of (map_delete k m) u = (if u = k then None else map_of m u)"
  by (induction m) (auto simp: map_delete_def)

lemma maintenance_loop_spec:
  assumes "distinct (map s_user_id es)" and "maintenance_loop es pend = (ns, left)"
  shows "map mn_user_id ns = map s_user_id es
    \<and> list_all (\<lambda>n. mn_type n = (if map_of pend (mn_user_id n) \<noteq> None then ''subscription_rolled_over'' else ''subscription_expired'')) ns
    \<and> left = filter (\<lambda>kv. fst kv \<notin> set (map s_user_id es)) pend"
  using assms
proof (induction es arbitrary: pend ns left)
  case Nil
  then show ?case by simp
next
  case (Cons e es)
  show ?case
  proof (cases "map_of pend (s_user_id e)")
    case None
    obtain ns' where loop: "maintenance_loop es pend = (ns', left)" and ns: "ns = expired_message e # ns'"
      using Cons.prems(2) None by (auto simp: Let_def split: prod.splits)
    have "s_user_id e \<notin> fst ` set pend" using None by (simp add: map_of_eq_None_iff)
    then have "filter (\<lambda>kv. fst kv \<notin> set (map s_user_id es)) pend = filter (\<lambda>kv. fst kv \<notin> set (map s_user_id (e # es))) pend"
      by (intro filter_cong) (auto simp: rev_image_eqI)
    with Cons.IH [OF _ loop] Cons.prems(1) ns None show ?thesis by (simp add: expired_message_def)
  next
    case (Some n)
    obtain ns' where loop: "maintenance_loop es (map_delete (s_user_id e) pend) = (ns', left)"
      and ns: "ns = rolled_over_message e n # ns'"
      using Cons.prems(2) Some by (auto simp: Let_def split: prod.splits)
    from Cons.IH [OF _ loop] Cons.prems(1) have IH: "map mn_user_id ns' = map s_user_id es"
      "list_all (\<lambda>n. mn_type n = (if map_of (map_delete (s_user_id e) pend) (mn_user_id n) \<noteq> None
         then ''subscription_rolled_over'' else ''subscription_expired'')) ns'"
      "left = filter (\<lambda>kv. fst kv \<notin> set (map s_user_id es)) (map_delete (s_user_id e) pend)" by simp_all
    have "mn_user_id ` set ns' = s_user_id ` set es" using arg_cong [OF IH(1), of set] by simp
    then have "mn_user_id x \<noteq> s_user_id e" if "x \<in> set ns'" for x
      using Cons.prems(1) imageI [OF that, of mn_user_id] by auto
    with IH(2) have "list_all (\<lambda>n. mn_type n = (if map_of pend (mn_user_id n) \<noteq> None
         then ''subscription_rolled_over'' else ''subscription_expired'')) ns'"
      by (simp add: list_all_iff map_of_delete)
    moreover have "left = filter (\<lambda>kv. fst kv \<notin> set (map s_user_id (e # es))) pend"
      unfolding IH(3) map_delete_def by (simp add: conj_commute)
    ultimately show ?thesis using IH(1) ns Some by (simp add: rolled_over_message_def)
  qed
qed

lemma messages_for_distinct:
  assumes "distinct (map s_user_id expired)" and "distinct (map s_user_id promoted)"
  shows "distinct (map mn_user_id (build_maintenance_notifications expired promoted))
    \<and> set (map mn_user_id (build_maintenance_notifications expired promoted)) =
        set (map s_user_id expired) \<union> set (map s_user_id promoted)
    \<and> list_all (\<lambda>n. mn_type n = message_kind expired promoted (mn_user_id n))
        (build_maintenance_notifications expired promoted)"
proof -
  let ?pend = "map (\<lambda>p. (s_user_id p, p)) promoted"
  obtain ns left where loop: "maintenance_loop expired ?pend = (ns, left)" by fastforce
  have built: "build_maintenance_notifications expired promoted = ns @ map (\<lambda>kv. started_message (snd kv)) left"
    using pending_of_promoted [OF assms(2), of "[]"] loop by (simp add: build_maintenance_notifications_def)
  from maintenance_loop_spec [OF assms(1) loop] have ns: "map mn_user_id ns = map s_user_id expired"
    and ty: "list_all (\<lambda>n. mn_type n = (if map_of ?pend (mn_user_id n) \<noteq> None
       then ''subscription_rolled_over'' else ''subscription_expired'')) ns"
    and left: "left = filter (\<lambda>kv. fst kv \<notin> set (map s_user_id expired)) ?pend" by blast+
  have users: "map (mn_user_id \<circ> (\<lambda>kv. started_message (snd kv))) left =
      filter (\<lambda>u. u \<notin> set (map s_user_id expired)) (map s_user_id promoted)"
    unfolding left by (induction promoted) (simp_all add: started_message_def)
  have in_expired: "list_ex (\<lambda>e. s_user_id e = mn_user_id n) expired" if "n \<in> set ns" for n
  proof -
    have "mn_user_id n \<in> set (map mn_user_id ns)" using that by simp
    then show ?thesis unfolding ns by (auto simp: list_ex_iff)
  qed
  have "list_all (\<lambda>n. mn_type n = message_kind expired promoted (mn_user_id n)) ns"
    using ty in_expired map_of_pending [of promoted] by (auto simp: list_all_iff message_kind_def)
  moreover have "list_all (\<lambda>kv. mn_type (started_message (snd kv)) =
      message_kind expired promoted (mn_user_id (started_message (snd kv)))) left"
    unfolding left
    by (auto simp: list_all_iff message_kind_def started_message_def list_ex_iff intro: rev_image_eqI)
  ultimately show ?thesis
    unfolding built map_append map_map users
    using assms ns by (auto simp: list.pred_map comp_def simp del: map_map)
qed

text \<open>
  The maintenance run tells everyone it touched exactly once. Each user whose plan ended
  or whose next plan started gets one message and nobody else gets any; a seamless change
  reads as a rollover, an end without a successor as an end, a start without an end as a start.
\<close>

theorem maintenance_tells_each_user_once:
  assumes "ledger_ok s" and "expire_and_promote ck s = ((expired, promoted), t)"
    and "ns = build_maintenance_notifications expired promoted"
  shows "do_subscription_maintenance ck s = send_maintenance ck ns t
    \<and> distinct (map mn_user_id ns)
    \<and> set (map mn_user_id ns) = set (map s_user_id expired) \<union> set (map s_user_id promoted)
    \<and> list_all (\<lambda>n. mn_type n = message_kind expired promoted (mn_user_id n)) ns"
  using assms messages_for_distinct [OF sweep_reports_distinct [OF assms(1,2)]]
  by (simp add: do_subscription_maintenance_def)

theorem maintenance_tells_each_user_once_witness:
  "\<exists>expired promoted t. expire_and_promote (clock_at 20) lapsed_shop = ((expired, promoted), t)
     \<and> distinct (map mn_user_id (build_maintenance_notifications expired promoted))"
proof -
  obtain expired promoted t where 1: "expire_and_promote (clock_at 20) lapsed_shop = ((expired, promoted), t)"
    by (metis prod.exhaust)
  from maintenance_tells_each_user_once [OF ledger_lapsed_shop 1 refl] 1 show ?thesis by blast
qed

section \<open>Reminders\<close>

text \<open>The threshold is the nearest one at or above the days left.\<close>

lemma threshold_least:
  "reminder_threshold ck plan e = Some t \<Longrightarrow>
     t \<in> set (renewal_reminder_days plan) \<and> whole_days_until ck e \<le> t
   \<and> list_all (\<lambda>t'. whole_days_until ck e \<le> t' \<longrightarrow> t \<le> t') (renewal_reminder_days plan)"
  by (cases plan) (auto simp: reminder_threshold_def split: if_splits)

definition is_reminder :: "notification \<Rightarrow> bool" where
  "is_reminder n \<longleftrightarrow> n_type n = reminder_notification_type"

definition about_own_subscription :: "db \<Rightarrow> notification \<Rightarrow> bool" where
  "about_own_subscription s n \<longleftrightarrow>
     list_ex (\<lambda>r. fst (sent_key n) = Some (JUuid (s_id r)) \<and> n_user_id n = s_user_id r) (subscriptions s)"

definition reminders_ok :: "db \<Rightarrow> bool" where
  "reminders_ok s \<longleftrightarrow> distinct (map sent_key (filter is_reminder (notifications s)))
     \<and> list_all (about_own_subscription s) (filter is_reminder (notifications s))
     \<and> distinct (map s_id (subscriptions s))"

lemma candidate_of:
  "reminder_candidate ck r = Some c \<Longrightarrow> rm_subscription_id c = s_id r \<and> rm_user_id c = s_user_id r"
  by (auto simp: reminder_candidate_def split: option.splits)

lemma due_reminders:
  assumes "reminders_ok s" and "c \<in> set (find_due_renewal_reminders ck s)"
  shows "\<exists>r \<in> set (subscriptions s). rm_subscription_id c = s_id r \<and> rm_user_id c = s_user_id r"
    and "reminder_key c \<notin> set (map sent_key (filter is_reminder (notifications s)))"
proof -
  let ?cs = "List.map_filter (reminder_candidate ck)
      (filter (\<lambda>r. s_status r = S_active \<and> unexpired ck r) (subscriptions s))"
  from assms(2) have c: "c \<in> set ?cs" and new: "reminder_key c \<notin> set (map sent_key
      (filter (\<lambda>n. n_type n = reminder_notification_type \<and> n_user_id n \<in> set (map rm_user_id ?cs)) (notifications s)))"
    by (simp_all add: find_due_renewal_reminders_def Let_def)
  then obtain r where r: "r \<in> set (subscriptions s)" "reminder_candidate ck r = Some c"
    by (auto simp: List.map_filter_def)
  then show "\<exists>r \<in> set (subscriptions s). rm_subscription_id c = s_id r \<and> rm_user_id c = s_user_id r"
    using candidate_of by blast
  show "reminder_key c \<notin> set (map sent_key (filter is_reminder (notifications s)))"
  proof
    assume "reminder_key c \<in> set (map sent_key (filter is_reminder (notifications s)))"
    then obtain n where n: "n \<in> set (notifications s)" "is_reminder n" "sent_key n = reminder_key c" by auto
    with assms(1) have "about_own_subscription s n" by (auto simp: reminders_ok_def list_all_iff)
    then obtain x where x: "x \<in> set (subscriptions s)" "fst (sent_key n) = Some (JUuid (s_id x))" "n_user_id n = s_user_id x"
      by (auto simp: about_own_subscription_def list_ex_iff)
    with n(3) candidate_of [OF r(2)] have "s_id x = s_id r" by (simp add: reminder_key_def)
    with assms(1) x(1) r(1) have "x = r" by (auto simp: reminders_ok_def intro: distinct_key_eq)
    with x(3) candidate_of [OF r(2)] c have "n_user_id n \<in> set (map rm_user_id ?cs)" by (metis image_eqI set_map)
    with n(1,2) have "sent_key n \<in> set (map sent_key (filter (\<lambda>n. n_type n = reminder_notification_type
        \<and> n_user_id n \<in> set (map rm_user_id ?cs)) (notifications s)))"
      unfolding set_map by (intro imageI) (simp add: is_reminder_def)
    with n(3) new show False by simp
  qed
qed

lemma due_distinct:
  assumes "distinct (map s_id (subscriptions s))"
  shows "distinct (map rm_subscription_id (find_due_renewal_reminders ck s))"
proof -
  have "distinct (map rm_subscription_id (List.map_filter (reminder_candidate ck) rows))
    \<and> set (map rm_subscription_id (List.map_filter (reminder_candidate ck) rows)) \<subseteq> set (map s_id rows)"
    if "distinct (map s_id rows)" for rows
    using that
  proof (induction rows)
    case (Cons r rows)
    then show ?case
      by (cases "reminder_candidate ck r") (auto simp: List.map_filter_simps dest!: candidate_of, metis imageI subsetD)
  qed (simp add: List.map_filter_simps)
  from this [of "filter (\<lambda>r. s_status r = S_active \<and> unexpired ck r) (subscriptions s)"] assms
  show ?thesis by (simp add: find_due_renewal_reminders_def Let_def distinct_map_filter)
qed

definition reminded :: "clock \<Rightarrow> config \<Rightarrow> reminder \<Rightarrow> db \<Rightarrow> db" where
  "reminded ck cfg c s = snd (send_reminder ck cfg c ([], s))"

lemma snd_send_reminder: "snd (send_reminder ck cfg c acc) = reminded ck cfg c (snd acc)"
  by (simp add: reminded_def send_reminder_def split: prod.splits option.splits)

lemma snd_reminders: "snd (fold (send_reminder ck cfg) cs acc) = fold (reminded ck cfg) cs (snd acc)"
  by (induction cs arbitrary: acc) (simp_all add: snd_send_reminder)

lemma reminded_cases:
  "reminded ck cfg c s = s \<or> (\<exists>n. notifications (reminded ck cfg c s) = notifications s @ [n]
     \<and> sent_key n = reminder_key c \<and> n_user_id n = rm_user_id c \<and> is_reminder n
     \<and> subscriptions (reminded ck cfg c s) = subscriptions s)"
  by (auto simp: reminded_def send_reminder_def insert_notification_def sent_key_def reminder_key_def is_reminder_def
      split: option.splits)

lemma reminders_ok_fold:
  assumes "reminders_ok s" and "distinct (map rm_subscription_id cs)"
    and "list_all (\<lambda>c. reminder_key c \<notin> set (map sent_key (filter is_reminder (notifications s)))
      \<and> list_ex (\<lambda>r. rm_subscription_id c = s_id r \<and> rm_user_id c = s_user_id r) (subscriptions s)) cs"
  shows "reminders_ok (fold (reminded ck cfg) cs s)"
  using assms
proof (induction cs arbitrary: s)
  case (Cons c cs)
  show ?case
  proof (cases "reminded ck cfg c s = s")
    case True
    with Cons show ?thesis by simp
  next
    case False
    with reminded_cases [of ck cfg c s] obtain n where
      n: "notifications (reminded ck cfg c s) = notifications s @ [n]" "sent_key n = reminder_key c"
        "n_user_id n = rm_user_id c" "is_reminder n" and subs: "subscriptions (reminded ck cfg c s) = subscriptions s"
      by blast
    have old: "about_own_subscription (reminded ck cfg c s) = about_own_subscription s"
      by (rule ext) (simp add: about_own_subscription_def subs)
    have "about_own_subscription s n"
      using Cons.prems(3) n by (auto simp: about_own_subscription_def reminder_key_def list_ex_iff)
    with Cons.prems(1,3) have "reminders_ok (reminded ck cfg c s)"
      by (simp add: reminders_ok_def n old subs)
    moreover have "reminder_key c' \<noteq> reminder_key c" if "c' \<in> set cs" for c'
      using Cons.prems(2) imageI [OF that, of rm_subscription_id] by (auto simp: reminder_key_def)
    ultimately have "reminders_ok (fold (reminded ck cfg) cs (reminded ck cfg c s))"
      using Cons.prems by (intro Cons.IH) (auto simp: n subs list_all_iff)
    then show ?thesis by simp
  qed
qed simp

lemma reminders_ok_run:
  assumes "reminders_ok s"
  shows "reminders_ok (snd (do_renewal_reminders ck cfg s))"
proof -
  have "distinct (map rm_subscription_id (find_due_renewal_reminders ck s))"
    by (rule due_distinct) (use assms in \<open>simp add: reminders_ok_def\<close>)
  then show ?thesis
    unfolding do_renewal_reminders_def snd_reminders snd_conv
    using assms due_reminders [OF assms, of _ ck]
    by (intro reminders_ok_fold) (simp_all add: list_all_iff list_ex_iff)
qed

datatype reminder_op =
    Remind clock
  | Maintain clock
  | Other_message clock uuid string string jobject

fun run_reminder_op :: "config \<Rightarrow> reminder_op \<Rightarrow> db \<Rightarrow> db" where
  "run_reminder_op cfg (Remind ck) s = snd (do_renewal_reminders ck cfg s)"
| "run_reminder_op cfg (Maintain ck) s = do_subscription_maintenance ck s"
| "run_reminder_op cfg (Other_message ck u ty ti d) s =
     (if ty = reminder_notification_type then s else insert_notification ck u ty ti d s)"


fun run_reminder_ops :: "config \<Rightarrow> reminder_op list \<Rightarrow> db \<Rightarrow> db" where
  "run_reminder_ops cfg [] s = s"
| "run_reminder_ops cfg (x # xs) s = run_reminder_ops cfg xs (run_reminder_op cfg x s)"

definition owner_key :: "subscription \<Rightarrow> uuid \<times> uuid" where
  "owner_key r = (s_id r, s_user_id r)"

lemma reminders_ok_cong:
  assumes "reminders_ok s" and "filter is_reminder (notifications t) = filter is_reminder (notifications s)"
    and "map owner_key (subscriptions t) = map owner_key (subscriptions s)"
  shows "reminders_ok t"
proof -
  have ex: "list_ex (\<lambda>r. Q (s_id r) (s_user_id r)) rows = list_ex (\<lambda>(i, u). Q i u) (map owner_key rows)" for Q rows
    by (induction rows) (simp_all add: owner_key_def)
  have "about_own_subscription t = about_own_subscription s"
    unfolding about_own_subscription_def
    using ex [of "\<lambda>i u. fst (sent_key n) = Some (JUuid i) \<and> n_user_id n = u" for n] assms(3) by auto
  moreover have "map s_id rows = map fst (map owner_key rows)" for rows by (simp add: owner_key_def comp_def)
  ultimately show ?thesis using assms by (simp only: reminders_ok_def)
qed

lemma owner_sweep:
  "map owner_key (subscriptions (snd (expire_and_promote ck s))) = map owner_key (subscriptions s)"
  "notifications (snd (expire_and_promote ck s)) = notifications s"
proof -
  have "map owner_key (update_where P (promote ck d) rows) = map owner_key rows" for P d rows
    by (rule map_update_where_same) (simp add: owner_key_def)
  then have step: "map owner_key (subscriptions (snd (promote_next ck u acc))) = map owner_key (subscriptions (snd acc))
    \<and> notifications (snd (promote_next ck u acc)) = notifications (snd acc)" for u acc
    by (auto simp: promote_next_def write_subscriptions_def Let_def split: prod.splits list.splits)
  have all: "map owner_key (subscriptions (snd (fold (promote_next ck) us acc))) = map owner_key (subscriptions (snd acc))
    \<and> notifications (snd (fold (promote_next ck) us acc)) = notifications (snd acc)" for us acc
    by (induction us arbitrary: acc) (simp_all add: step)
  have "map owner_key (update_where P expire rows) = map owner_key rows" for P rows
    by (rule map_update_where_same) (simp add: owner_key_def)
  with all show "map owner_key (subscriptions (snd (expire_and_promote ck s))) = map owner_key (subscriptions s)"
    and "notifications (snd (expire_and_promote ck s)) = notifications s"
    by (simp_all add: snd_sweep expire_lapsed_def)
qed

lemma maintenance_types:
  "n \<in> set (build_maintenance_notifications expired promoted) \<Longrightarrow> mn_type n \<noteq> reminder_notification_type"
proof -
  have "maintenance_loop es pend = (ns, left) \<Longrightarrow> list_all (\<lambda>n. mn_type n \<noteq> reminder_notification_type) ns" for es pend ns left
    by (induction es arbitrary: pend ns left)
       (auto simp: Let_def expired_message_def rolled_over_message_def reminder_notification_type_def
         split: option.splits prod.splits)
  note loop = this
  obtain ns left where l: "maintenance_loop expired (fold (\<lambda>p. map_set (s_user_id p) p) promoted []) = (ns, left)"
    by fastforce
  from loop [OF l] show "n \<in> set (build_maintenance_notifications expired promoted) \<Longrightarrow> mn_type n \<noteq> reminder_notification_type"
    by (auto simp: build_maintenance_notifications_def l Let_def list_all_iff started_message_def
        reminder_notification_type_def)
qed

lemma send_maintenance_frame:
  assumes "list_all (\<lambda>n. mn_type n \<noteq> reminder_notification_type) ns"
  shows "filter is_reminder (notifications (send_maintenance ck ns s)) = filter is_reminder (notifications s)"
    and "subscriptions (send_maintenance ck ns s) = subscriptions s"
  using assms unfolding send_maintenance_def
  by (induction ns arbitrary: s) (simp_all add: notifications_insert is_reminder_def)

lemma reminders_ok_maintain: "reminders_ok s \<Longrightarrow> reminders_ok (do_subscription_maintenance ck s)"
proof -
  assume ok: "reminders_ok s"
  obtain e p t where run: "expire_and_promote ck s = ((e, p), t)" by (metis prod.exhaust)
  have ns: "list_all (\<lambda>n. mn_type n \<noteq> reminder_notification_type) (build_maintenance_notifications e p)"
    using maintenance_types by (simp add: list_all_iff)
  from ok show ?thesis
    by (rule reminders_ok_cong)
       (use owner_sweep [of ck s] run in \<open>simp_all add: do_subscription_maintenance_def send_maintenance_frame [OF ns]\<close>)
qed

lemma reminders_ok_other: "ty \<noteq> reminder_notification_type \<Longrightarrow> reminders_ok s \<Longrightarrow> reminders_ok (insert_notification ck u ty ti d s)"
  by (erule reminders_ok_cong) (simp_all add: notifications_insert is_reminder_def)

text \<open>
  Nobody is warned twice about the same thing. Over any number of reminder runs, at any
  times, with the sweep and other messages in between, no two reminder notifications are for
  the same subscription and the same threshold.
\<close>

theorem reminders_are_sent_once:
  "reminders_ok s \<Longrightarrow> distinct (map sent_key (filter is_reminder (notifications (run_reminder_ops cfg ops s))))"
proof -
  have "reminders_ok s \<Longrightarrow> reminders_ok (run_reminder_ops cfg ops s)"
  proof (induction ops arbitrary: s)
    case (Cons x ops)
    have "reminders_ok (run_reminder_op cfg x s)"
      using Cons.prems by (cases x) (simp_all add: reminders_ok_run reminders_ok_maintain reminders_ok_other)
    with Cons.IH show ?case by simp
  qed simp
  then show "reminders_ok s \<Longrightarrow> distinct (map sent_key (filter is_reminder (notifications (run_reminder_ops cfg ops s))))"
    by (simp add: reminders_ok_def)
qed

theorem reminders_are_sent_once_witness:
  "distinct (map sent_key (filter is_reminder (notifications
     (run_reminder_ops demo_cfg [Remind (clock_at 1), Maintain (clock_at 2), Remind (clock_at 3)] lapsed_shop))))"
proof -
  have "reminders_ok lapsed_shop" by (simp add: reminders_ok_def lapsed_shop_def shop_def empty_db_def)
  from reminders_are_sent_once [OF this] show ?thesis .
qed

section \<open>Reconciliation\<close>

lemma poll_mock_nothing: "poll_provider ck Mock s = s"
proof -
  have "poll_one (\<lambda>ref. Js_string ''unknown'') y s = s" for y s by (simp add: poll_one_def)
  then have "fold (poll_one (\<lambda>ref. Js_string ''unknown'')) ys s = s" for ys s by (induction ys) simp_all
  then show ?thesis by (simp add: poll_provider_def)
qed

lemma ran_out_not_abandoned: "intent_ran_out ck y \<Longrightarrow> \<not> intent_abandoned ck (mark_status st y)"
  by (simp add: intent_ran_out_def intent_abandoned_def mark_status_def)

text \<open>
  Reconciliation never grants anything and never cancels a buyer who reported a transfer.
  It rewrites exactly the open intents that ran out at a provider and the manual ones older
  than thirty days without a reference, to \<open>expired\<close>; every other payment, and every
  subscription and notification, stays as it was.
\<close>

theorem reconciliation_exact:
  "payments (do_payment_reconciliation ck s) =
     map (\<lambda>y. if intent_ran_out ck y \<or> intent_abandoned ck y then y\<lparr>y_status := Y_expired\<rparr> else y) (payments s)
   \<and> subscriptions (do_payment_reconciliation ck s) = subscriptions s
   \<and> notifications (do_payment_reconciliation ck s) = notifications s"
proof -
  have "do_payment_reconciliation ck s = expire_intents ck s"
    by (simp add: do_payment_reconciliation_def registry_pollable_eq poll_mock_nothing)
  moreover have "payments (expire_intents ck s) =
      map (\<lambda>y. if intent_ran_out ck y \<or> intent_abandoned ck y then y\<lparr>y_status := Y_expired\<rparr> else y) (payments s)"
    using ran_out_not_abandoned [of ck _ Y_expired]
    by (auto simp: expire_intents_def Let_def update_where_def mark_status_def)
  ultimately show ?thesis by (simp add: expire_intents_def Let_def)
qed

section \<open>The review trigger\<close>

lemma send_review_requests_frame:
  "bookings (snd (send_review_requests ck cfg b s)) = bookings s"
  "users (snd (send_review_requests ck cfg b s)) = users s"
  "reviews (snd (send_review_requests ck cfg b s)) = reviews s"
  by (auto simp: send_review_requests_def Let_def split: option.splits)

definition stamped :: "clock \<Rightarrow> booking list \<Rightarrow> booking \<Rightarrow> booking" where
  "stamped ck bs b = (if b_review_emails_sent_at b = None \<and> list_ex (\<lambda>x. b_id x = b_id b) bs
     then b\<lparr>b_review_emails_sent_at := Some (db_now ck)\<rparr> else b)"

lemma trigger_one_bookings:
  "bookings (snd (trigger_one ck cfg b acc)) =
     (if b_review_emails_sent_at b \<noteq> None then bookings (snd acc)
      else update_where (\<lambda>x. b_id x = b_id b) (\<lambda>x. x\<lparr>b_review_emails_sent_at := Some (db_now ck)\<rparr>) (bookings (snd acc)))"
  by (auto simp: trigger_one_def stamp_review_emails_def send_review_requests_frame split: prod.splits)
     (metis send_review_requests_frame(1) snd_conv)+

lemma trigger_fold_bookings:
  "bookings (snd (fold (trigger_one ck cfg) cs acc)) =
     map (\<lambda>x. if list_ex (\<lambda>c. b_review_emails_sent_at c = None \<and> b_id c = b_id x) cs
              then x\<lparr>b_review_emails_sent_at := Some (db_now ck)\<rparr> else x) (bookings (snd acc))"
  by (induction cs arbitrary: acc) (auto simp: trigger_one_bookings update_where_def)

lemma trigger_bookings:
  assumes "booking_ids_ok s"
  shows "bookings (snd (do_daily_review_trigger ck cfg s)) =
    map (\<lambda>b. if is_over ck b
             then b\<lparr>b_status := B_completed, b_review_emails_sent_at :=
                (case b_review_emails_sent_at b of None \<Rightarrow> Some (db_now ck) | Some t \<Rightarrow> Some t)\<rparr>
             else b) (bookings s)"
proof -
  let ?done = "\<lambda>b. b\<lparr>b_status := B_completed\<rparr>"
  have ids: "distinct (map b_id (bookings s))" using assms by (simp add: booking_ids_ok_def)
  have hit: "list_ex (\<lambda>c. b_review_emails_sent_at c = None \<and> b_id c = b_id b) (updated_rows (is_over ck) ?done (bookings s))
      \<longleftrightarrow> is_over ck b \<and> b_review_emails_sent_at b = None" if "b \<in> set (bookings s)" for b
    using that distinct_key_eq [OF ids that] by (auto simp: updated_rows_def list_ex_iff) metis+
  have "bookings (snd (do_daily_review_trigger ck cfg s)) =
      map (\<lambda>x. if list_ex (\<lambda>c. b_review_emails_sent_at c = None \<and> b_id c = b_id x) (updated_rows (is_over ck) ?done (bookings s))
               then x\<lparr>b_review_emails_sent_at := Some (db_now ck)\<rparr> else x)
        (update_where (is_over ck) ?done (bookings s))"
    by (simp add: do_daily_review_trigger_def mark_completed_batch_def trigger_fold_bookings)
  also have "\<dots> = map (\<lambda>b. if is_over ck b
             then b\<lparr>b_status := B_completed, b_review_emails_sent_at :=
                (case b_review_emails_sent_at b of None \<Rightarrow> Some (db_now ck) | Some t \<Rightarrow> Some t)\<rparr>
             else b) (bookings s)"
    unfolding update_where_def map_map
    by (rule map_cong [OF refl]) (auto simp: hit split: option.splits)
  finally show ?thesis .
qed

text \<open>
  The daily trigger closes every booking that is over and opens its review window. An
  accepted booking dated yesterday or earlier becomes completed with its review requests
  stamped now (an earlier stamp is kept); every other booking stays as it was.
\<close>

theorem review_trigger_exact:
  assumes "booking_ids_ok s"
  shows "bookings (snd (do_daily_review_trigger ck cfg s)) =
    map (\<lambda>b. if is_over ck b
             then b\<lparr>b_status := B_completed, b_review_emails_sent_at :=
                (case b_review_emails_sent_at b of None \<Rightarrow> Some (db_now ck) | Some t \<Rightarrow> Some t)\<rparr>
             else b) (bookings s)"
  by (rule trigger_bookings [OF assms])

text \<open>
  A booking the trigger completed but did not get to is never picked up again. The whole
  batch is completed before the first request goes out, so when the run dies in between (a
  database error ends the loop, a serverless function times out) the rest stay completed and
  unstamped: no later trigger run changes them, and the unlock job never counts their window
  as over, so a one-sided review of them stays hidden.
\<close>

theorem interrupted_trigger_strands_bookings:
  assumes "booking_ids_ok s" and "b \<in> set (bookings s)" and "b_status b = B_completed"
    and "b_review_emails_sent_at b = None"
  shows "b \<in> set (bookings (snd (do_daily_review_trigger ck cfg s))) \<and> b_id b \<notin> set (expired_bookings ck s)"
proof -
  have "\<not> is_over ck b" using assms(3) by (simp add: is_over_def)
  with assms(2) have "b \<in> set (bookings (snd (do_daily_review_trigger ck cfg s)))"
    unfolding trigger_bookings [OF assms(1)] by (auto intro: rev_image_eqI)
  moreover have "b_id b \<notin> set (expired_bookings ck s)"
  proof
    assume "b_id b \<in> set (expired_bookings ck s)"
    then obtain x where "x \<in> set (bookings s)" "b_id x = b_id b" "b_review_emails_sent_at x \<noteq> None"
      by (auto simp: expired_bookings_def split: option.splits)
    with assms show False using distinct_key_eq [of b_id "bookings s" x b] by (auto simp: booking_ids_ok_def)
  qed
  ultimately show ?thesis by blast
qed

definition late_booking :: "booking_status \<Rightarrow> booking" where
  "late_booking st = \<lparr>b_id = 0, b_artist_id = 1, b_planner_id = 2, b_conversation_id = None, b_event_name = ''Gig'',
     b_event_date = ''1970-01-01'', b_event_location = None, b_duration_hours = None, b_agreed_fee_usd = None,
     b_notes = None, b_status = st, b_artist_accepted_at = None, b_planner_accepted_at = None, b_cancelled_by = None,
     b_cancelled_at = None, b_cancellation_note = None, b_review_emails_sent_at = None, b_created_at = 0\<rparr>"

definition late_db :: "booking_status \<Rightarrow> db" where
  "late_db st = empty_db\<lparr>bookings := [late_booking st], next_id := 5\<rparr>"

lemma late_ids: "booking_ids_ok (late_db st)"
  by (simp add: booking_ids_ok_def late_db_def late_booking_def)

lemma late_over: "is_over (clock_at (5 * ms_per_day)) (late_booking B_accepted)"
  by code_simp

theorem review_trigger_exact_witness:
  "map b_status (bookings (snd (do_daily_review_trigger (clock_at (5 * ms_per_day)) demo_cfg (late_db B_accepted)))) = [B_completed]"
  using review_trigger_exact [OF late_ids, of "clock_at (5 * ms_per_day)" demo_cfg B_accepted] late_over
  by (simp add: late_db_def)

theorem interrupted_trigger_strands_bookings_witness:
  "b_id (late_booking B_completed) \<notin> set (expired_bookings (clock_at (5 * ms_per_day)) (late_db B_completed))"
  using interrupted_trigger_strands_bookings [OF late_ids, of "late_booking B_completed" B_completed "clock_at (5 * ms_per_day)" demo_cfg]
  by (simp add: late_db_def late_booking_def)

end
