(* ===== verification/Messaging.thy ===== *)
theory Messaging
  imports Subscription_Ledger
begin

text \<open>
  \<open>src/messaging/messaging.service.ts\<close> and the gated routes of
  \<open>src/messaging/messaging.controller.ts\<close>: opening a thread from either side, answering a
  request, the message cap, sending, reading and listing. A planner's thread is open at
  once; an artist's is a request the planner has to accept.
\<close>

section \<open>Finding and reading\<close>

definition max_pending_artist_requests :: nat where
  "max_pending_artist_requests = 10"

definition assert_participant :: "uuid \<Rightarrow> uuid \<Rightarrow> db \<Rightarrow> conversation result" where
  "assert_participant uid cid s =
     (case find (\<lambda>c. c_id c = cid) (conversations s) of
        None \<Rightarrow> Inl (NotFound ''Conversation not found.'')
      | Some c \<Rightarrow>
          if c_artist_id c \<noteq> uid \<and> c_planner_id c \<noteq> uid
          then Inl (Forbidden ''You are not a participant in this conversation.'') else Inr c)"

definition get_conversation :: "uuid \<Rightarrow> uuid \<Rightarrow> db \<Rightarrow> conversation result" where
  "get_conversation uid cid s = assert_participant uid cid s"

definition artist_display_name :: "uuid \<Rightarrow> db \<Rightarrow> string option" where
  "artist_display_name uid s = Option.bind (find (\<lambda>p. ap_user_id p = uid) (artist_profiles s)) ap_display_name"

definition planner_display_name :: "uuid \<Rightarrow> db \<Rightarrow> string option" where
  "planner_display_name uid s = Option.bind (find (\<lambda>p. pp_user_id p = uid) (planner_profiles s)) pp_display_name"

definition or_text :: "string option \<Rightarrow> string \<Rightarrow> string" where
  "or_text v d = (case v of None \<Rightarrow> d | Some x \<Rightarrow> x)"

section \<open>Opening a thread\<close>

text \<open>\<open>INSERT\<close> under the unique constraint on (artist, planner).\<close>

definition insert_conversation ::
  "clock \<Rightarrow> uuid \<Rightarrow> uuid \<Rightarrow> uuid \<Rightarrow> conversation_status \<Rightarrow> db \<Rightarrow> conversation result \<times> db" where
  "insert_conversation ck artist planner by st s =
     (if list_ex (\<lambda>c. c_artist_id c = artist \<and> c_planner_id c = planner) (conversations s)
      then (Inl unique_violation, s)
      else let c = \<lparr>c_id = next_id s, c_artist_id = artist, c_planner_id = planner, c_initiated_by = Some by,
                    c_status = st, c_last_message_at = None, c_created_at = db_now ck\<rparr>
           in (Inr c, s\<lparr>conversations := conversations s @ [c], next_id := Suc (next_id s)\<rparr>))"

definition pair_thread :: "uuid \<Rightarrow> uuid \<Rightarrow> db \<Rightarrow> conversation option" where
  "pair_thread artist planner s =
     find (\<lambda>c. c_artist_id c = artist \<and> c_planner_id c = planner) (conversations s)"

definition start_as_planner :: "clock \<Rightarrow> user_row \<Rightarrow> uuid option \<Rightarrow> db \<Rightarrow> conversation result \<times> db" where
  "start_as_planner ck planner artist_id s =
     (case artist_id of
        None \<Rightarrow> (Inl (BadRequest ''artistId is required to message an artist.''), s)
      | Some aid \<Rightarrow>
          (case find (\<lambda>u. u_id u = aid \<and> u_role u = R_artist \<and> u_status u = U_active) (users s) of
             None \<Rightarrow> (Inl (NotFound ''Artist not found.''), s)
           | Some artist \<Rightarrow>
               if u_id artist = u_id planner then (Inl (BadRequest ''Cannot message yourself.''), s)
               else case pair_thread aid (u_id planner) s of
                      Some c \<Rightarrow> (Inr c, s)
                    | None \<Rightarrow> insert_conversation ck aid (u_id planner) (u_id planner) C_accepted s))"

definition pending_requests :: "uuid \<Rightarrow> db \<Rightarrow> nat" where
  "pending_requests aid s =
     length (filter (\<lambda>c. c_artist_id c = aid \<and> c_initiated_by c = Some aid \<and> c_status c = C_pending) (conversations s))"

text \<open>The transaction under the artist's advisory lock: count, then insert.\<close>

definition insert_request :: "clock \<Rightarrow> uuid \<Rightarrow> uuid \<Rightarrow> db \<Rightarrow> conversation result \<times> db" where
  "insert_request ck artist planner s =
     (if max_pending_artist_requests \<le> aggregate_value (Some (pending_requests artist s))
      then (Inl (Forbidden (''You have '' @ show_nat max_pending_artist_requests
              @ '' message requests still waiting for a reply. Wait for one to be answered before sending another.'')), s)
      else insert_conversation ck artist planner artist C_pending s)"

definition notify_request :: "clock \<Rightarrow> uuid \<Rightarrow> uuid \<Rightarrow> conversation \<Rightarrow> db \<Rightarrow> db" where
  "notify_request ck artist planner c s =
     (let name = artist_display_name artist s
      in insert_notification ck planner ''message_request'' (or_text name ''An artist'' @ '' wants to message you'')
           [(''conversation_id'', JUuid (c_id c)), (''artist_name'', case name of None \<Rightarrow> JNull | Some n \<Rightarrow> JStr n)] s)"

definition start_as_artist :: "clock \<Rightarrow> user_row \<Rightarrow> uuid option \<Rightarrow> db \<Rightarrow> conversation result \<times> db" where
  "start_as_artist ck artist planner_id s =
     (case planner_id of
        None \<Rightarrow> (Inl (BadRequest ''plannerId is required to message a planner.''), s)
      | Some pid \<Rightarrow>
          (case find (\<lambda>u. u_id u = pid \<and> u_role u = R_planner \<and> u_status u = U_active) (users s) of
             None \<Rightarrow> (Inl (NotFound ''Planner not found.''), s)
           | Some planner \<Rightarrow>
               if u_id planner = u_id artist then (Inl (BadRequest ''Cannot message yourself.''), s)
               else case pair_thread (u_id artist) pid s of
                      Some c \<Rightarrow>
                        if c_status c = C_declined
                        then (Inl (Forbidden ''This planner declined your message request.''), s) else (Inr c, s)
                    | None \<Rightarrow>
                        (case insert_request ck (u_id artist) pid s of
                           (Inl e, s1) \<Rightarrow> (Inl e, s1)
                         | (Inr c, s1) \<Rightarrow> (Inr c, notify_request ck (u_id artist) pid c s1))))"

record create_conversation_dto =
  cc_artist_id :: "uuid option"
  cc_planner_id :: "uuid option"

definition create_conversation ::
  "clock \<Rightarrow> user_row \<Rightarrow> create_conversation_dto \<Rightarrow> db \<Rightarrow> conversation result \<times> db" where
  "create_conversation ck user dto s =
     (if u_role user = R_planner then start_as_planner ck user (cc_artist_id dto) s
      else if u_role user = R_artist then start_as_artist ck user (cc_planner_id dto) s
      else (Inl (Forbidden ''Only artists and planners can start conversations.''), s))"

section \<open>Answering a request\<close>

definition request_check :: "uuid \<Rightarrow> uuid \<Rightarrow> db \<Rightarrow> conversation result" where
  "request_check planner cid s =
     (case assert_participant planner cid s of
        Inl e \<Rightarrow> Inl e
      | Inr c \<Rightarrow>
          if c_planner_id c \<noteq> planner then Inl (Forbidden ''Only the planner can respond to a message request.'')
          else if c_status c \<noteq> C_pending
          then Inl (BadRequest (''This request is already '' @ conversation_status_name (c_status c) @ ''.''))
          else Inr c)"

fun decided :: "decision \<Rightarrow> conversation_status" where
  "decided Accept = C_accepted"
| "decided Decline = C_declined"

text \<open>The update matches by id alone.\<close>

definition request_write :: "clock \<Rightarrow> uuid \<Rightarrow> uuid \<Rightarrow> decision \<Rightarrow> conversation \<Rightarrow> db \<Rightarrow> conversation option \<times> db" where
  "request_write ck planner cid dec c s =
     (let upd = (\<lambda>x. x\<lparr>c_status := decided dec\<rparr>); mine = (\<lambda>x. c_id x = cid);
          s1 = s\<lparr>conversations := update_where mine upd (conversations s)\<rparr>;
          row = (case updated_rows mine upd (conversations s) of [] \<Rightarrow> None | u # _ \<Rightarrow> Some u)
      in (row, if dec = Accept
               then insert_notification ck (c_artist_id c) ''message_request_accepted''
                      (or_text (planner_display_name planner s1) ''A booker'' @ '' accepted your message request'')
                      [(''conversation_id'', JUuid cid)] s1
               else s1))"

definition respond_to_request ::
  "clock \<Rightarrow> uuid \<Rightarrow> uuid \<Rightarrow> decision \<Rightarrow> db \<Rightarrow> conversation option result \<times> db" where
  "respond_to_request ck planner cid dec s =
     (case request_check planner cid s of
        Inl e \<Rightarrow> (Inl e, s)
      | Inr c \<Rightarrow> (case request_write ck planner cid dec c s of (row, s1) \<Rightarrow> (Inr row, s1)))"

section \<open>Sending\<close>

definition assert_within_message_cap :: "clock \<Rightarrow> uuid \<Rightarrow> db \<Rightarrow> unit result" where
  "assert_within_message_cap ck sender s =
     (case get_active_subscription ck sender s of
        None \<Rightarrow> Inr ()
      | Some a \<Rightarrow>
          (case remaining_messages a s of
             None \<Rightarrow> Inr ()
           | Some n \<Rightarrow>
               if n > 0 then Inr ()
               else Inl (PaymentRequired (''You have used all '' @ show_int (the (as_message_cap a))
                      @ '' messages included with your '' @ plan_name (s_plan_code (as_row a))
                      @ '' pass. Buy another plan to keep messaging.''))))"

definition send_check :: "clock \<Rightarrow> uuid \<Rightarrow> uuid \<Rightarrow> db \<Rightarrow> conversation result" where
  "send_check ck sender cid s =
     (case assert_participant sender cid s of
        Inl e \<Rightarrow> Inl e
      | Inr c \<Rightarrow>
          if c_status c = C_declined then Inl (Forbidden ''This conversation was declined.'')
          else if c_status c = C_pending \<and> c_initiated_by c \<noteq> Some sender
          then Inl (Forbidden ''Accept this message request before replying.'')
          else (case assert_within_message_cap ck sender s of Inl e \<Rightarrow> Inl e | Inr _ \<Rightarrow> Inr c))"

definition new_message :: "clock \<Rightarrow> uuid \<Rightarrow> uuid \<Rightarrow> string \<Rightarrow> uuid \<Rightarrow> message" where
  "new_message ck sender cid body mid =
     \<lparr>m_id = mid, m_conversation_id = cid, m_sender_id = sender, m_body = body, m_read_at = None,
      m_created_at = db_now ck\<rparr>"

definition store_message :: "clock \<Rightarrow> uuid \<Rightarrow> uuid \<Rightarrow> string \<Rightarrow> db \<Rightarrow> message \<times> db" where
  "store_message ck sender cid body s =
     (let m = new_message ck sender cid body (next_id s)
      in (m, s\<lparr>messages := messages s @ [m], next_id := Suc (next_id s),
               conversations := update_where (\<lambda>c. c_id c = cid)
                 (\<lambda>c. c\<lparr>c_last_message_at := Some (m_created_at m)\<rparr>) (conversations s)\<rparr>))"

definition notify_new_message :: "clock \<Rightarrow> user_row \<Rightarrow> conversation \<Rightarrow> uuid \<Rightarrow> db \<Rightarrow> db" where
  "notify_new_message ck sender c cid s =
     (let recipient = (if c_artist_id c = u_id sender then c_planner_id c else c_artist_id c)
      in if list_ex (\<lambda>n. n_user_id n = recipient \<and> n_type n = ''new_message'' \<and> n_read_at n = None
               \<and> map_of (n_data n) ''conversation_id'' = Some (JUuid cid)) (notifications s)
         then s
         else let name = or_text (if u_role sender = R_artist then artist_display_name (u_id sender) s
                                  else planner_display_name (u_id sender) s) ''Someone''
              in insert_notification ck recipient ''new_message'' (''New message from '' @ name)
                   [(''conversation_id'', JUuid cid), (''sender_name'', JStr name)] s)"

definition send_message :: "clock \<Rightarrow> user_row \<Rightarrow> uuid \<Rightarrow> string \<Rightarrow> db \<Rightarrow> message result \<times> db" where
  "send_message ck sender cid body s =
     (case send_check ck (u_id sender) cid s of
        Inl e \<Rightarrow> (Inl e, s)
      | Inr c \<Rightarrow>
          (case store_message ck (u_id sender) cid body s of
             (m, s1) \<Rightarrow> (Inr m, notify_new_message ck sender c cid s1)))"

text \<open>The two gated routes: \<open>@RequiresSubscription('planner')\<close> in front of the service.\<close>

definition gated :: "clock \<Rightarrow> user_row \<Rightarrow> (db \<Rightarrow> 'a result \<times> db) \<Rightarrow> db \<Rightarrow> 'a result \<times> db" where
  "gated ck user handler s =
     (case subscription_guard ck (Some user) (Some [R_planner]) None s of
        Inl e \<Rightarrow> (Inl e, s) | Inr _ \<Rightarrow> handler s)"

definition post_conversation :: "clock \<Rightarrow> user_row \<Rightarrow> create_conversation_dto \<Rightarrow> db \<Rightarrow> conversation result \<times> db" where
  "post_conversation ck user dto s = gated ck user (create_conversation ck user dto) s"

definition post_message :: "clock \<Rightarrow> user_row \<Rightarrow> uuid \<Rightarrow> string \<Rightarrow> db \<Rightarrow> message result \<times> db" where
  "post_message ck user cid body s = gated ck user (send_message ck user cid body) s"

section \<open>Reading\<close>

definition unread_for :: "uuid \<Rightarrow> uuid \<Rightarrow> message \<Rightarrow> bool" where
  "unread_for uid cid m \<longleftrightarrow> m_conversation_id m = cid \<and> m_read_at m = None \<and> m_sender_id m \<noteq> uid"

definition mark_read :: "clock \<Rightarrow> uuid \<Rightarrow> uuid \<Rightarrow> db \<Rightarrow> nat result \<times> db" where
  "mark_read ck uid cid s =
     (case assert_participant uid cid s of
        Inl e \<Rightarrow> (Inl e, s)
      | Inr _ \<Rightarrow>
          (let f = (\<lambda>m. m\<lparr>m_read_at := Some (db_now ck)\<rparr>)
           in (Inr (length (updated_rows (unread_for uid cid) f (messages s))),
               s\<lparr>messages := update_where (unread_for uid cid) f (messages s)\<rparr>)))"

definition get_messages :: "uuid \<Rightarrow> uuid \<Rightarrow> nat option \<Rightarrow> nat option \<Rightarrow> db \<Rightarrow> (message list \<times> page_meta) result" where
  "get_messages uid cid pg per_page s =
     (case assert_participant uid cid s of
        Inl e \<Rightarrow> Inl e
      | Inr _ \<Rightarrow>
          (let page = (case pg of None \<Rightarrow> 1 | Some p \<Rightarrow> p); limit = (case per_page of None \<Rightarrow> 50 | Some l \<Rightarrow> l);
               thread = filter (\<lambda>m. m_conversation_id m = cid) (messages s)
           in Inr (page_of page limit (sort_by (\<lambda>a b. m_created_at b \<le> m_created_at a)
                     (filter (\<lambda>m. list_ex (\<lambda>u. u_id u = m_sender_id m) (users s)) thread)),
                   meta_of (aggregate_value (Some (length thread))) page limit)))"

record conversation_card =
  cv_conversation :: conversation
  cv_other_display_name :: "string option"
  cv_last_message_body :: "string option"
  cv_last_message_sender_id :: "uuid option"
  cv_unread_count :: nat

text \<open>\<open>DISTINCT ON (conversation_id) .. ORDER BY created_at DESC, id DESC\<close>: one newest message.\<close>

definition last_message :: "uuid \<Rightarrow> db \<Rightarrow> message option" where
  "last_message cid s =
     (case sort_by (\<lambda>a b. m_created_at b < m_created_at a \<or> (m_created_at b = m_created_at a \<and> m_id b \<le> m_id a))
             (filter (\<lambda>m. m_conversation_id m = cid) (messages s)) of
        [] \<Rightarrow> None | m # _ \<Rightarrow> Some m)"

definition time_le :: "timestamp option \<Rightarrow> timestamp option \<Rightarrow> bool" where
  "time_le a b = (case b of None \<Rightarrow> True | Some y \<Rightarrow> (case a of None \<Rightarrow> False | Some x \<Rightarrow> x \<le> y))"

definition other_names :: "user_row \<Rightarrow> conversation \<Rightarrow> db \<Rightarrow> string option list" where
  "other_names user c s =
     (if u_role user = R_artist
      then map pp_display_name (filter (\<lambda>p. pp_user_id p = c_planner_id c) (planner_profiles s))
      else map ap_display_name (filter (\<lambda>p. ap_user_id p = c_artist_id c) (artist_profiles s)))"

definition list_conversations :: "user_row \<Rightarrow> db \<Rightarrow> conversation_card list" where
  "list_conversations user s =
     (let mine = filter (\<lambda>c. (if u_role user = R_artist then c_artist_id c else c_planner_id c) = u_id user
                    \<and> c_status c \<noteq> C_declined) (conversations s)
      in concat (map (\<lambda>c. map (\<lambda>name.
             \<lparr>cv_conversation = c, cv_other_display_name = name,
              cv_last_message_body = map_option m_body (last_message (c_id c) s),
              cv_last_message_sender_id = map_option m_sender_id (last_message (c_id c) s),
              cv_unread_count = length (filter (unread_for (u_id user) (c_id c)) (messages s))\<rparr>)
           (other_names user c s))
         (sort_by (\<lambda>a b. time_le (c_last_message_at b) (c_last_message_at a)) mine)))"

lemmas messaging_op_defs [op_defs] =
  assert_participant_def insert_conversation_def start_as_planner_def insert_request_def notify_request_def
  start_as_artist_def create_conversation_def request_check_def request_write_def respond_to_request_def
  send_check_def store_message_def notify_new_message_def send_message_def gated_def

end
