(* ===== verification/Message_Flow.thy ===== *)
theory Message_Flow
  imports Messaging
begin

text \<open>
  What the messaging rules promise over any sequence of requests: a message request keeps
  the planner's inbox closed until the planner accepts it, a declined one stays declined,
  an artist never has more than ten requests waiting, and a capped plan buys the messages
  it names and no more. The last section takes the two places apart where the code decides
  on a row it read before somebody else's write.
\<close>

section \<open>Requests, one after the other\<close>

datatype msg_op =
    Open user_row create_conversation_dto
  | Answer uuid uuid decision
  | Send user_row uuid string
  | Mark uuid uuid

fun run_msg_op :: "clock \<Rightarrow> msg_op \<Rightarrow> db \<Rightarrow> db" where
  "run_msg_op ck (Open u dto) s = snd (post_conversation ck u dto s)"
| "run_msg_op ck (Answer p cid dec) s = snd (respond_to_request ck p cid dec s)"
| "run_msg_op ck (Send u cid body) s = snd (post_message ck u cid body s)"
| "run_msg_op ck (Mark uid cid) s = snd (mark_read ck uid cid s)"

fun run_msg_ops :: "(clock \<times> msg_op) list \<Rightarrow> db \<Rightarrow> db" where
  "run_msg_ops [] s = s"
| "run_msg_ops ((ck, x) # xs) s = run_msg_ops xs (run_msg_op ck x s)"

text \<open>What each operation does to the two tables, notifications aside.\<close>

definition opens :: "clock \<Rightarrow> uuid \<Rightarrow> uuid \<Rightarrow> uuid \<Rightarrow> conversation_status \<Rightarrow> db \<Rightarrow> db \<Rightarrow> bool" where
  "opens ck artist planner by st s t \<longleftrightarrow>
     (\<exists>c. conversations t = conversations s @ [c] \<and> messages t = messages s \<and> next_id s < next_id t
        \<and> c_id c = next_id s \<and> c_artist_id c = artist \<and> c_planner_id c = planner
        \<and> c_initiated_by c = Some by \<and> c_status c = st
        \<and> \<not> list_ex (\<lambda>c. c_artist_id c = artist \<and> c_planner_id c = planner) (conversations s))"

definition same_threads :: "db \<Rightarrow> db \<Rightarrow> bool" where
  "same_threads s t \<longleftrightarrow> conversations t = conversations s \<and> messages t = messages s \<and> next_id s \<le> next_id t"

lemma same_threads_refl [simp]: "same_threads s s"
  by (simp add: same_threads_def)

lemma insert_conversation_effect:
  "insert_conversation ck a p by st s = (Inr c, t) \<Longrightarrow> opens ck a p by st s t"
  "insert_conversation ck a p by st s = (Inl e, t) \<Longrightarrow> t = s"
  by (auto simp: insert_conversation_def opens_def Let_def split: if_splits)

lemma insert_request_effect:
  "insert_request ck a p s = (Inr c, t) \<Longrightarrow>
     opens ck a p a C_pending s t \<and> pending_requests a s < max_pending_artist_requests"
  "insert_request ck a p s = (Inl e, t) \<Longrightarrow> t = s"
  by (auto simp: insert_request_def aggregate_value_def dest: insert_conversation_effect split: if_splits)

lemma opens_notify: "opens ck a p by st s t \<Longrightarrow> opens ck a p by st s (insert_notification ck u ty ti d t)"
  by (auto simp: opens_def)

lemma start_as_planner_effect:
  "(\<exists>a. opens ck a (u_id u) (u_id u) C_accepted s (snd (start_as_planner ck u aid s)))
     \<or> snd (start_as_planner ck u aid s) = s"
proof -
  have "(\<exists>a. opens ck a (u_id u) (u_id u) C_accepted s (snd (insert_conversation ck b (u_id u) (u_id u) C_accepted s)))
      \<or> snd (insert_conversation ck b (u_id u) (u_id u) C_accepted s) = s" for b
    by (cases "insert_conversation ck b (u_id u) (u_id u) C_accepted s"; cases "fst (insert_conversation ck b (u_id u) (u_id u) C_accepted s)")
       (auto dest: insert_conversation_effect)
  then show ?thesis by (auto simp: start_as_planner_def split: option.splits)
qed

lemma start_as_artist_effect:
  "(\<exists>p. opens ck (u_id u) p (u_id u) C_pending s (snd (start_as_artist ck u pid s))
        \<and> pending_requests (u_id u) s < max_pending_artist_requests)
     \<or> snd (start_as_artist ck u pid s) = s"
  by (auto simp: start_as_artist_def notify_request_def Let_def split: option.splits prod.splits sum.splits
      dest!: insert_request_effect intro: opens_notify)

lemma post_conversation_effect:
  "(\<exists>a. opens ck a (u_id u) (u_id u) C_accepted s (snd (post_conversation ck u dto s)))
   \<or> (\<exists>p. opens ck (u_id u) p (u_id u) C_pending s (snd (post_conversation ck u dto s))
        \<and> pending_requests (u_id u) s < max_pending_artist_requests)
   \<or> snd (post_conversation ck u dto s) = s"
  using start_as_planner_effect [of ck u s "cc_artist_id dto"] start_as_artist_effect [of ck u s "cc_planner_id dto"]
  by (auto simp: post_conversation_def gated_def create_conversation_def split: sum.splits)

definition answers :: "uuid \<Rightarrow> decision \<Rightarrow> db \<Rightarrow> db \<Rightarrow> bool" where
  "answers cid dec s t \<longleftrightarrow>
     (\<exists>c. find (\<lambda>c. c_id c = cid) (conversations s) = Some c \<and> c_status c = C_pending)
     \<and> conversations t = update_where (\<lambda>x. c_id x = cid) (\<lambda>x. x\<lparr>c_status := decided dec\<rparr>) (conversations s)
     \<and> messages t = messages s \<and> next_id s \<le> next_id t"

lemma respond_effect:
  "answers cid dec s (snd (respond_to_request ck p cid dec s)) \<or> snd (respond_to_request ck p cid dec s) = s"
  by (auto simp: respond_to_request_def request_check_def request_write_def assert_participant_def answers_def Let_def
      split: sum.splits prod.splits option.splits if_splits)

definition sends :: "clock \<Rightarrow> uuid \<Rightarrow> uuid \<Rightarrow> db \<Rightarrow> db \<Rightarrow> bool" where
  "sends ck sender cid s t \<longleftrightarrow>
     (\<exists>c m. find (\<lambda>c. c_id c = cid) (conversations s) = Some c
        \<and> (sender = c_artist_id c \<or> sender = c_planner_id c) \<and> c_status c \<noteq> C_declined
        \<and> (c_status c = C_pending \<longrightarrow> c_initiated_by c = Some sender)
        \<and> assert_within_message_cap ck sender s = Inr ()
        \<and> messages t = messages s @ [m] \<and> m_conversation_id m = cid \<and> m_sender_id m = sender
        \<and> m_created_at m = db_now ck
        \<and> conversations t = update_where (\<lambda>x. c_id x = cid) (\<lambda>x. x\<lparr>c_last_message_at := Some (db_now ck)\<rparr>) (conversations s)
        \<and> next_id s \<le> next_id t)"

lemma notify_new_message_frame [simp]:
  "conversations (notify_new_message ck u c cid s) = conversations s"
  "messages (notify_new_message ck u c cid s) = messages s"
  "subscriptions (notify_new_message ck u c cid s) = subscriptions s"
  "plans (notify_new_message ck u c cid s) = plans s"
  "next_id s \<le> next_id (notify_new_message ck u c cid s)"
  by (auto simp: notify_new_message_def Let_def)

lemma send_check_InrD:
  "send_check ck sender cid s = Inr c \<Longrightarrow>
     find (\<lambda>c. c_id c = cid) (conversations s) = Some c
     \<and> (sender = c_artist_id c \<or> sender = c_planner_id c) \<and> c_status c \<noteq> C_declined
     \<and> (c_status c = C_pending \<longrightarrow> c_initiated_by c = Some sender) \<and> assert_within_message_cap ck sender s = Inr ()"
  by (auto simp: send_check_def assert_participant_def split: sum.splits option.splits if_splits)

lemma send_message_effect:
  "sends ck (u_id u) cid s (snd (send_message ck u cid body s)) \<or> snd (send_message ck u cid body s) = s"
proof (cases "send_check ck (u_id u) cid s")
  case (Inr c)
  from send_check_InrD [OF Inr] show ?thesis
    by (auto simp: send_message_def Inr store_message_def new_message_def sends_def Let_def
        intro: order_trans [OF le_SucI [OF order_refl]] order_trans [OF _ notify_new_message_frame(5)])
qed (simp add: send_message_def)

definition marks :: "uuid \<Rightarrow> uuid \<Rightarrow> db \<Rightarrow> db \<Rightarrow> bool" where
  "marks uid cid s t \<longleftrightarrow>
     (\<exists>n. t = s\<lparr>messages := update_where (unread_for uid cid) (\<lambda>m. m\<lparr>m_read_at := Some n\<rparr>) (messages s)\<rparr>)"

lemma mark_read_effect: "marks uid cid s (snd (mark_read ck uid cid s)) \<or> snd (mark_read ck uid cid s) = s"
  by (auto simp: mark_read_def marks_def Let_def split: sum.splits)

text \<open>Every step is one of five, and only the two gated ones look at a plan.\<close>

lemma msg_step_cases:
  obtains (same) "run_msg_op ck x s = s"
    | (thread) a p where "opens ck a p p C_accepted s (run_msg_op ck x s)"
    | (request) a p where "opens ck a p a C_pending s (run_msg_op ck x s)"
        "pending_requests a s < max_pending_artist_requests"
    | (answer) cid dec where "answers cid dec s (run_msg_op ck x s)"
    | (send) u cid body where "x = Send u cid body" "sends ck (u_id u) cid s (run_msg_op ck x s)"
    | (mark) uid cid where "marks uid cid s (run_msg_op ck x s)"
proof (cases x)
  case (Open u dto)
  with post_conversation_effect [of ck u s dto] show ?thesis
    by (auto intro: same thread request)
next
  case (Answer p cid dec)
  with respond_effect [of cid dec s ck p] show ?thesis by (auto intro: same answer)
next
  case (Send u cid body)
  have "sends ck (u_id u) cid s (run_msg_op ck x s) \<or> run_msg_op ck x s = s"
    using send_message_effect [of ck u cid s body]
    by (auto simp: Send post_message_def gated_def split: sum.splits)
  with Send show ?thesis by (auto intro: same send)
next
  case (Mark uid cid)
  with mark_read_effect [of uid cid s ck] show ?thesis by (auto intro: same mark)
qed

section \<open>The inbox stays closed until the planner opens it\<close>

definition written_by_right :: "conversation list \<Rightarrow> message \<Rightarrow> bool" where
  "written_by_right cs m \<longleftrightarrow>
     (\<exists>c \<in> set cs. c_id c = m_conversation_id m
        \<and> (m_sender_id m = c_artist_id c \<or> m_sender_id m = c_planner_id c)
        \<and> (c_status c = C_accepted \<or> m_sender_id m = c_artist_id c))"

definition threads_ok :: "db \<Rightarrow> bool" where
  "threads_ok s \<longleftrightarrow>
     distinct (map c_id (conversations s)) \<and> (\<forall>c \<in> set (conversations s). c_id c < next_id s)
     \<and> distinct (map (\<lambda>c. (c_artist_id c, c_planner_id c)) (conversations s))
     \<and> (\<forall>c \<in> set (conversations s). c_status c = C_accepted \<or> c_initiated_by c = Some (c_artist_id c))
     \<and> (\<forall>m \<in> set (messages s). written_by_right (conversations s) m)"

lemma written_append: "written_by_right cs m \<Longrightarrow> written_by_right (cs @ ds) m"
  by (auto simp: written_by_right_def)

lemma written_update:
  assumes "written_by_right cs m"
    and "\<And>c. P c \<Longrightarrow> c \<in> set cs \<Longrightarrow> c_id (f c) = c_id c \<and> c_artist_id (f c) = c_artist_id c
          \<and> c_planner_id (f c) = c_planner_id c \<and> (c_status c = C_accepted \<longrightarrow> c_status (f c) = C_accepted)"
  shows "written_by_right (update_where P f cs) m"
proof -
  from assms(1) obtain c where c: "c \<in> set cs" "c_id c = m_conversation_id m"
      "m_sender_id m = c_artist_id c \<or> m_sender_id m = c_planner_id c"
      "c_status c = C_accepted \<or> m_sender_id m = c_artist_id c" by (auto simp: written_by_right_def)
  have "(if P c then f c else c) \<in> set (update_where P f cs)"
    unfolding set_update_where by (rule imageI [OF c(1)])
  with c assms(2) [OF _ c(1)] show ?thesis unfolding written_by_right_def
    by (intro bexI [of _ "if P c then f c else c"]) auto
qed

lemma threads_ok_update:
  assumes "threads_ok s" and "conversations t = update_where P f (conversations s)"
    and "messages t = messages s" and "next_id s \<le> next_id t"
    and "\<And>c. P c \<Longrightarrow> c \<in> set (conversations s) \<Longrightarrow> c_status c = C_accepted \<longrightarrow> c_status (f c) = C_accepted"
    and "\<And>c. c_id (f c) = c_id c" "\<And>c. c_artist_id (f c) = c_artist_id c"
        "\<And>c. c_planner_id (f c) = c_planner_id c" "\<And>c. c_initiated_by (f c) = c_initiated_by c"
  shows "threads_ok t"
proof -
  have ids: "map c_id (conversations t) = map c_id (conversations s)"
    and pairs: "map (\<lambda>c. (c_artist_id c, c_planner_id c)) (conversations t)
        = map (\<lambda>c. (c_artist_id c, c_planner_id c)) (conversations s)"
    by (auto simp: assms(2) update_where_def assms(6-8))
  have "\<forall>c \<in> set (conversations t). c_id c < next_id t"
    using assms(1,4) by (fastforce simp: assms(2) table_simps assms(6) threads_ok_def)
  moreover have "\<forall>c \<in> set (conversations t). c_status c = C_accepted \<or> c_initiated_by c = Some (c_artist_id c)"
    using assms(1,5) by (auto simp: assms(2) table_simps assms(6-9) threads_ok_def)
  moreover have "\<forall>m \<in> set (messages t). written_by_right (conversations t) m"
    using assms(1,5) unfolding assms(2,3)
    by (auto simp: threads_ok_def assms(6-8) intro!: written_update)
  ultimately show ?thesis using assms(1) by (simp add: threads_ok_def ids pairs)
qed

lemma threads_ok_opens:
  assumes "threads_ok s" and "opens ck a p by st s t" and "st = C_accepted \<or> by = a"
  shows "threads_ok t"
proof -
  from assms(2) obtain c where t: "conversations t = conversations s @ [c]" "messages t = messages s" "next_id s < next_id t"
    and c: "c_id c = next_id s" "c_artist_id c = a" "c_planner_id c = p" "c_initiated_by c = Some by" "c_status c = st"
    and new: "\<forall>d \<in> set (conversations s). \<not> (c_artist_id d = a \<and> c_planner_id d = p)"
    by (auto simp: opens_def list_ex_iff)
  have "next_id s \<notin> c_id ` set (conversations s)" using assms(1) by (auto simp: threads_ok_def)
  moreover have "(a, p) \<notin> (\<lambda>c. (c_artist_id c, c_planner_id c)) ` set (conversations s)"
    using new by auto
  moreover have "\<forall>d \<in> set (conversations s). c_id d < next_id t"
    using assms(1) t(3) by (meson less_trans threads_ok_def)
  ultimately show ?thesis using assms(1,3) t(3)
    by (auto simp: threads_ok_def t c written_append)
qed

lemma find_conversationD:
  assumes "threads_ok s" and "find (\<lambda>c. c_id c = cid) (conversations s) = Some c"
  shows "c \<in> set (conversations s)" and "c_id c = cid"
    and "d \<in> set (conversations s) \<Longrightarrow> c_id d = cid \<Longrightarrow> d = c"
proof -
  from assms(2) show c: "c \<in> set (conversations s)" "c_id c = cid" by (auto dest: find_SomeD)
  assume "d \<in> set (conversations s)" "c_id d = cid"
  with c assms(1) show "d = c" by (auto simp: threads_ok_def intro: distinct_key_eq [where key = c_id])
qed

lemma threads_ok_sends:
  assumes "threads_ok s" and "sends ck u cid s t"
  shows "threads_ok t"
proof -
  from assms(2) obtain c m where c: "find (\<lambda>c. c_id c = cid) (conversations s) = Some c"
      "u = c_artist_id c \<or> u = c_planner_id c" "c_status c \<noteq> C_declined" "c_status c = C_pending \<longrightarrow> c_initiated_by c = Some u"
    and m: "messages t = messages s @ [m]" "m_conversation_id m = cid" "m_sender_id m = u"
    and t: "conversations t = update_where (\<lambda>x. c_id x = cid) (\<lambda>x. x\<lparr>c_last_message_at := Some (db_now ck)\<rparr>) (conversations s)"
      "next_id s \<le> next_id t" by (auto simp: sends_def)
  have base: "threads_ok (t\<lparr>messages := messages s\<rparr>)"
    using t by (intro threads_ok_update [OF assms(1), where P = "\<lambda>x. c_id x = cid"
          and f = "\<lambda>x. x\<lparr>c_last_message_at := Some (db_now ck)\<rparr>"]) simp_all
  note mem = find_conversationD(1,2) [OF assms(1) c(1)]
  then have "c_status c = C_accepted \<or> c_initiated_by c = Some (c_artist_id c)"
    using assms(1) by (auto simp: threads_ok_def)
  with c(3,4) have "c_status c = C_accepted \<or> u = c_artist_id c" by (cases "c_status c") auto
  with mem c(2) m have "written_by_right (conversations s) m" by (auto simp: written_by_right_def)
  then have "written_by_right (conversations t) m" unfolding t by (rule written_update) simp
  with base show ?thesis by (auto simp: threads_ok_def m(1))
qed

lemma threads_ok_answers:
  assumes "threads_ok s" and "answers cid dec s t"
  shows "threads_ok t"
proof -
  from assms(2) obtain c where c: "find (\<lambda>c. c_id c = cid) (conversations s) = Some c" "c_status c = C_pending"
    and t: "conversations t = update_where (\<lambda>x. c_id x = cid) (\<lambda>x. x\<lparr>c_status := decided dec\<rparr>) (conversations s)"
      "messages t = messages s" "next_id s \<le> next_id t" by (auto simp: answers_def)
  have "c_status d = C_pending" if "d \<in> set (conversations s)" "c_id d = cid" for d
    using find_conversationD(3) [OF assms(1) c(1) that] c(2) by simp
  then show ?thesis by (intro threads_ok_update [OF assms(1) t]) auto
qed

lemma written_by_same:
  "m_conversation_id n = m_conversation_id m \<Longrightarrow> m_sender_id n = m_sender_id m
   \<Longrightarrow> written_by_right cs n = written_by_right cs m"
  by (simp add: written_by_right_def)

lemma threads_ok_marks: "threads_ok s \<Longrightarrow> marks uid cid s t \<Longrightarrow> threads_ok t"
proof -
  assume s: "threads_ok s" and "marks uid cid s t"
  then obtain n where t: "t = s\<lparr>messages := update_where (unread_for uid cid)
      (\<lambda>m. m\<lparr>m_read_at := Some n\<rparr>) (messages s)\<rparr>" by (auto simp: marks_def)
  have "written_by_right (conversations s) (m\<lparr>m_read_at := Some n\<rparr>) = written_by_right (conversations s) m" for m
    by (rule written_by_same) simp_all
  with s show ?thesis by (auto simp: threads_ok_def t table_simps)
qed

lemma threads_ok_step: "threads_ok s \<Longrightarrow> threads_ok (run_msg_op ck x s)"
  by (rule msg_step_cases [of ck x s])
     (auto simp del: run_msg_op.simps intro: threads_ok_opens threads_ok_sends threads_ok_answers threads_ok_marks)

text \<open>A thread keeps its parties and its opener, and an answer, once given, stands.\<close>

definition thread_kept :: "conversation \<Rightarrow> conversation \<Rightarrow> bool" where
  "thread_kept c d \<longleftrightarrow> c_id d = c_id c \<and> c_artist_id d = c_artist_id c \<and> c_planner_id d = c_planner_id c
     \<and> c_initiated_by d = c_initiated_by c \<and> (c_status c = C_pending \<or> c_status d = c_status c)"

definition threads_kept :: "db \<Rightarrow> db \<Rightarrow> bool" where
  "threads_kept s t \<longleftrightarrow> (\<forall>c \<in> set (conversations s). \<exists>d \<in> set (conversations t). thread_kept c d)"

lemma threads_kept_refl [simp]: "threads_kept s s"
  by (auto simp: threads_kept_def thread_kept_def)

lemma threads_kept_trans: "threads_kept r s \<Longrightarrow> threads_kept s t \<Longrightarrow> threads_kept r t"
  unfolding threads_kept_def thread_kept_def by (metis (no_types, lifting))

lemma threads_kept_update:
  assumes "conversations t = update_where P f (conversations s)"
    and "\<And>c. c \<in> set (conversations s) \<Longrightarrow> P c \<Longrightarrow> thread_kept c (f c)"
  shows "threads_kept s t"
  unfolding threads_kept_def
proof
  fix c assume c: "c \<in> set (conversations s)"
  then have "(if P c then f c else c) \<in> set (conversations t)"
    unfolding assms(1) set_update_where by (rule imageI)
  moreover have "thread_kept c (if P c then f c else c)" using assms(2) [OF c] by (auto simp: thread_kept_def)
  ultimately show "\<exists>d \<in> set (conversations t). thread_kept c d" by blast
qed

lemma threads_kept_answers:
  assumes "threads_ok s" and "answers cid dec s t"
  shows "threads_kept s t"
proof -
  from assms(2) obtain c where c: "find (\<lambda>c. c_id c = cid) (conversations s) = Some c" "c_status c = C_pending"
    and t: "conversations t = update_where (\<lambda>x. c_id x = cid) (\<lambda>x. x\<lparr>c_status := decided dec\<rparr>) (conversations s)"
    by (auto simp: answers_def)
  have "c_status d = C_pending" if "d \<in> set (conversations s)" "c_id d = cid" for d
    using find_conversationD(3) [OF assms(1) c(1) that] c(2) by simp
  then show ?thesis by (intro threads_kept_update [OF t]) (simp add: thread_kept_def)
qed

lemma threads_kept_others:
  "opens ck a p by st s t \<Longrightarrow> threads_kept s t"
  "sends ck u cid s t \<Longrightarrow> threads_kept s t"
  "marks u cid s t \<Longrightarrow> threads_kept s t"
    apply (fastforce simp: opens_def threads_kept_def thread_kept_def)
   apply (force simp: sends_def thread_kept_def intro!: threads_kept_update)
  apply (force simp: marks_def threads_kept_def thread_kept_def)
  done

lemma threads_kept_step: "threads_ok s \<Longrightarrow> threads_kept s (run_msg_op ck x s)"
  by (rule msg_step_cases [of ck x s])
     (auto simp del: run_msg_op.simps intro: threads_kept_others threads_kept_answers)

lemma threads_ok_run: "threads_ok s \<Longrightarrow> threads_ok (run_msg_ops ops s)"
  by (induction ops arbitrary: s) (auto simp del: run_msg_op.simps simp: threads_ok_step)

lemma threads_kept_run: "threads_ok s \<Longrightarrow> threads_kept s (run_msg_ops ops s)"
proof (induction ops arbitrary: s)
  case (Cons x ops)
  obtain ck y where "x = (ck, y)" by (cases x)
  with Cons.IH [OF threads_ok_step [OF Cons.prems, of ck y]] threads_kept_step [OF Cons.prems, of ck y]
  show ?case by (auto simp del: run_msg_op.simps intro: threads_kept_trans)
qed simp

lemma empty_inbox: "threads_ok empty_db"
  by (simp add: threads_ok_def empty_db_def)

section \<open>The caps\<close>

lemma requests_append:
  "pending_requests a (s\<lparr>conversations := conversations s @ [c]\<rparr>) =
     pending_requests a s + (if c_artist_id c = a \<and> c_initiated_by c = Some a \<and> c_status c = C_pending then 1 else 0)"
  by (simp add: pending_requests_def)

lemma pending_requests_cong: "conversations t = conversations s \<Longrightarrow> pending_requests a t = pending_requests a s"
  by (simp add: pending_requests_def)

lemma marks_conversations: "marks v cid s t \<Longrightarrow> conversations t = conversations s"
  by (auto simp: marks_def)

lemma pending_requests_opens:
  assumes "opens ck b p by st s t"
  shows "pending_requests a t = pending_requests a s + (if b = a \<and> by = a \<and> st = C_pending then 1 else 0)"
  using assms by (auto simp: opens_def pending_requests_def)

lemma pending_requests_update:
  assumes "conversations t = update_where P f (conversations s)"
    and "\<And>c. c_artist_id (f c) = c_artist_id c" "\<And>c. c_initiated_by (f c) = c_initiated_by c"
    and "\<And>c. c_status (f c) = C_pending \<Longrightarrow> c_status c = C_pending"
  shows "pending_requests a t \<le> pending_requests a s"
  unfolding pending_requests_def assms(1)
  by (rule length_filter_update_where_le) (simp add: assms)

lemma decided_not_pending [simp]: "decided dec \<noteq> C_pending"
  by (cases dec) simp_all

lemma pending_requests_step:
  assumes "pending_requests a s \<le> max_pending_artist_requests"
  shows "pending_requests a (run_msg_op ck x s) \<le> max_pending_artist_requests"
proof (rule msg_step_cases [of ck x s])
  fix cid dec assume "answers cid dec s (run_msg_op ck x s)"
  then have "pending_requests a (run_msg_op ck x s) \<le> pending_requests a s"
    by (intro pending_requests_update [where P = "\<lambda>x. c_id x = cid" and f = "\<lambda>x. x\<lparr>c_status := decided dec\<rparr>"])
       (auto simp: answers_def)
  with assms show ?thesis by simp
next
  fix u cid body assume "sends ck (u_id u) cid s (run_msg_op ck x s)"
  then have "pending_requests a (run_msg_op ck x s) \<le> pending_requests a s"
    by (intro pending_requests_update [where P = "\<lambda>x. c_id x = cid"
          and f = "\<lambda>x. x\<lparr>c_last_message_at := Some (db_now ck)\<rparr>"]) (auto simp: sends_def)
  with assms show ?thesis by simp
next
  fix b p assume "opens ck b p b C_pending s (run_msg_op ck x s)" "pending_requests b s < max_pending_artist_requests"
  then show ?thesis using assms by (auto simp del: run_msg_op.simps simp: pending_requests_opens)
next
  fix b p assume "opens ck b p p C_accepted s (run_msg_op ck x s)"
  then show ?thesis using assms by (simp del: run_msg_op.simps add: pending_requests_opens)
next
  fix v cid assume "marks v cid s (run_msg_op ck x s)"
  from pending_requests_cong [OF marks_conversations [OF this], of a] assms show ?thesis by simp
qed (use assms in simp)

lemma sent_since_cong: "messages t = messages s \<Longrightarrow> sent_since uid b t = sent_since uid b s"
  by (simp add: sent_since_def)

lemma sent_since_marks: "marks v cid s t \<Longrightarrow> sent_since uid b t = sent_since uid b s"
  by (auto simp: marks_def sent_since_def intro!: length_filter_update_where_eq)

lemma sent_since_sends:
  "sends ck v cid s t \<Longrightarrow> sent_since uid b t = sent_since uid b s + (if v = uid \<and> b \<le> db_now ck then 1 else 0)"
  by (auto simp: sends_def sent_since_def)

text \<open>
  At most one row per user is active, so whatever the clock says, the running subscription
  is that row or none.
\<close>

lemma running_row_unique:
  assumes "subs_ok s" and "get_active_subscription ck uid s = Some a" and "get_active_subscription ck' uid s = Some b"
  shows "b = a"
proof -
  note a = get_active_SomeD [OF assms(2)] and b = get_active_SomeD [OF assms(3)]
  have "inj_on s_user_id (set (filter (\<lambda>r. s_status r = S_active) (subscriptions s)))"
    using assms(1) by (auto simp: subs_ok_def one_active_def distinct_map)
  with a(1,2) b(1,2) have row: "as_row b = as_row a" by (auto simp: live_for_def inj_on_def)
  from a(3) b(3) obtain p q where "p \<in> set (plans s)" "q \<in> set (plans s)" "p_code p = p_code q"
    and "as_message_cap a = p_message_cap p" "as_requires_id_doc a = p_requires_id_doc p"
    and "as_message_cap b = p_message_cap q" "as_requires_id_doc b = p_requires_id_doc q"
    using row by auto
  moreover from this(1-3) have "p = q"
    using assms(1) by (auto simp: subs_ok_def plans_ok_def intro: distinct_key_eq [where key = p_code])
  ultimately show ?thesis using row by (cases a; cases b) simp
qed

definition sends_as_planner :: "uuid \<Rightarrow> msg_op \<Rightarrow> bool" where
  "sends_as_planner uid x \<longleftrightarrow> (case x of Send u cid body \<Rightarrow> u_id u = uid \<longrightarrow> u_role u = R_planner | _ \<Rightarrow> True)"

lemma msg_op_tables [simp]:
  "subscriptions (run_msg_op ck x s) = subscriptions s \<and> plans (run_msg_op ck x s) = plans s"
  by (cases x)
     (auto simp: op_defs mark_read_def post_conversation_def post_message_def Let_def
       split: sum.splits prod.splits option.splits if_splits)

text \<open>While the plan runs, a send goes through only with something left; once it has lapsed, never.\<close>

lemma planner_send_paid:
  assumes "u_role u = R_planner" and "run_msg_op ck (Send u cid body) s \<noteq> s"
  shows "has_active_subscription ck (u_id u) s"
  using assms by (auto simp: post_message_def gated_def subscription_guard_def subscription_scope_def
      Let_def split: sum.splits if_splits)

lemma send_within_cap:
  assumes "get_active_subscription ck uid s = Some a" and "as_message_cap a = Some cap"
    and "period_start (as_row a) = Some b" and "assert_within_message_cap ck uid s = Inr ()"
  shows "sent_since uid b s < nat cap"
  using assms get_active_SomeD(2) [OF assms(1)]
  by (auto simp: assert_within_message_cap_def remaining_messages_def live_for_def aggregate_value_def
      split: if_splits option.splits)

lemma cap_step:
  assumes ok: "subs_ok s" and a: "get_active_subscription ck0 uid s = Some a" "as_message_cap a = Some cap"
      "period_start (as_row a) = Some b"
    and le: "sent_since uid b s \<le> nat cap" and pl: "sends_as_planner uid x"
  shows "sent_since uid b (run_msg_op ck x s) \<le> nat cap"
proof (rule msg_step_cases [of ck x s])
  fix u cid body assume x: "x = Send u cid body" and snd: "sends ck (u_id u) cid s (run_msg_op ck x s)"
  show ?thesis
  proof (cases "u_id u = uid \<and> run_msg_op ck x s \<noteq> s")
    case True
    with pl have "u_role u = R_planner" by (simp add: x sends_as_planner_def)
    with True planner_send_paid [of u ck cid body s] have "has_active_subscription ck uid s" by (simp add: x)
    then obtain d where d: "get_active_subscription ck uid s = Some d" by (auto simp: has_active_subscription_def)
    with running_row_unique [OF ok a(1)] have "d = a" by blast
    moreover from snd True have "assert_within_message_cap ck uid s = Inr ()" by (auto simp: sends_def)
    ultimately have "sent_since uid b s < nat cap" using send_within_cap d a(2,3) by blast
    with sent_since_sends [OF snd, of uid b] show ?thesis by simp
  next
    case False
    with sent_since_sends [OF snd, of uid b] le show ?thesis by (auto simp del: run_msg_op.simps)
  qed
next
  fix v cid assume "marks v cid s (run_msg_op ck x s)"
  from sent_since_marks [OF this, of uid b] le show ?thesis by simp
next
  fix cid dec assume "answers cid dec s (run_msg_op ck x s)"
  then have "messages (run_msg_op ck x s) = messages s" unfolding answers_def by (elim conjE)
  from sent_since_cong [OF this, of uid b] le show ?thesis by simp
next
  fix b' p assume "opens ck b' p p C_accepted s (run_msg_op ck x s)"
  then have "messages (run_msg_op ck x s) = messages s" unfolding opens_def by (elim exE conjE)
  from sent_since_cong [OF this, of uid b] le show ?thesis by simp
next
  fix b' p assume "opens ck b' p b' C_pending s (run_msg_op ck x s)"
  then have "messages (run_msg_op ck x s) = messages s" unfolding opens_def by (elim exE conjE)
  from sent_since_cong [OF this, of uid b] le show ?thesis by simp
qed (use le in simp)

lemma get_active_cong:
  "subscriptions t = subscriptions s \<Longrightarrow> plans t = plans s \<Longrightarrow>
   get_active_subscription ck uid t = get_active_subscription ck uid s"
  by (simp add: get_active_subscription_def)

lemma next_id_step: "next_id s \<le> next_id (run_msg_op ck x s)"
proof (rule msg_step_cases [of ck x s])
  fix v cid assume "marks v cid s (run_msg_op ck x s)"
  then obtain n where "run_msg_op ck x s = s\<lparr>messages := n\<rparr>" unfolding marks_def by blast
  then show ?thesis by (simp del: run_msg_op.simps)
qed (auto simp del: run_msg_op.simps simp: opens_def answers_def sends_def)

lemma cap_run:
  assumes "subs_ok s" and "get_active_subscription ck0 uid s = Some a" and "as_message_cap a = Some cap"
    and "period_start (as_row a) = Some b" and "sent_since uid b s \<le> nat cap"
    and "\<forall>x \<in> set ops. sends_as_planner uid (snd x)"
  shows "sent_since uid b (run_msg_ops ops s) \<le> nat cap"
  using assms
proof (induction ops arbitrary: s)
  case (Cons x ops)
  obtain ck y where x: "x = (ck, y)" by (cases x)
  let ?t = "run_msg_op ck y s"
  have "subs_ok ?t" using msg_op_tables next_id_step Cons.prems(1) by (intro subs_ok_cong [of s ?t]) blast+
  moreover have "get_active_subscription ck0 uid ?t = Some a"
    using get_active_cong [of ?t s] msg_op_tables Cons.prems(2) by metis
  moreover have "sent_since uid b ?t \<le> nat cap" using Cons.prems by (intro cap_step) (simp_all add: x)
  ultimately have "sent_since uid b (run_msg_ops ops ?t) \<le> nat cap" using Cons.prems by (intro Cons.IH) simp_all
  then show ?case by (simp only: x run_msg_ops.simps)
qed simp

text \<open>A small hall: artist 0, planner 1 on a day pass, and their thread 2.\<close>

definition hall_user :: "uuid \<Rightarrow> user_role \<Rightarrow> user_row" where
  "hall_user i r = \<lparr>u_id = i, u_email = show_nat i, u_phone = None, u_password_hash = None, u_role = r,
     u_status = U_active, u_account_code = show_nat i, u_email_verified_at = None, u_phone_verified_at = None,
     u_last_login_at = None, u_created_at = 0, u_deleted_at = None, u_pending_email = None\<rparr>"

definition hall_pass :: subscription where
  "hall_pass = \<lparr>s_id = 3, s_user_id = 1, s_plan_code = P_day, s_payment_id = None, s_status = S_active,
     s_activated_at = Some 0, s_starts_at = Some 0, s_expires_at = Some 1000, s_created_at = 0\<rparr>"

definition hall_thread :: "conversation_status \<Rightarrow> conversation" where
  "hall_thread st = \<lparr>c_id = 2, c_artist_id = 0, c_planner_id = 1, c_initiated_by = Some 0, c_status = st,
     c_last_message_at = None, c_created_at = 0\<rparr>"

definition hall_message :: message where
  "hall_message = \<lparr>m_id = 4, m_conversation_id = 2, m_sender_id = 1, m_body = ''hi'', m_read_at = Some 1, m_created_at = 1\<rparr>"

definition hall :: "conversation_status \<Rightarrow> nat \<Rightarrow> db" where
  "hall st n = empty_db\<lparr>users := [hall_user 0 R_artist, hall_user 1 R_planner], plans := shop_plans,
     subscriptions := [hall_pass], conversations := [hall_thread st], messages := replicate n hall_message,
     next_id := 5\<rparr>"

lemma hall_pending: "threads_ok (hall C_pending 0)"
  by (simp add: threads_ok_def hall_def empty_db_def hall_thread_def)

lemma hall_running:
  "db_now ck < 1000 \<Longrightarrow> get_active_subscription ck 1 (hall st n) =
     Some \<lparr>as_row = hall_pass, as_requires_id_doc = False, as_message_cap = Some 15\<rparr>"
  by (simp add: get_active_subscription_def hall_def live_for_def unexpired_def hall_pass_def with_plan_def shop_plans_def)

lemma hall_subs: "subs_ok (hall st n)"
  by (simp add: subs_ok_def hall_def one_active_def row_ok_def hall_pass_def has_plan_def shop_plans_def plans_ok_def)

lemma hall_sent: "sent_since 1 0 (hall st n) = n"
  by (simp add: sent_since_def hall_def hall_message_def)

text \<open>
  C11: a message request keeps the planner's inbox closed until the planner accepts. After any
  sequence of requests, in any order and at any time: every stored message was written by a
  party to its thread, in a thread that is not accepted only by the artist who asked; and an
  accepted thread stays accepted, a declined one declined.
\<close>

theorem inbox_closed_until_accepted:
  assumes "threads_ok s"
  shows "threads_ok (run_msg_ops ops s) \<and> threads_kept s (run_msg_ops ops s)"
  using threads_ok_run [OF assms] threads_kept_run [OF assms] by blast

theorem inbox_closed_until_accepted_witness:
  "threads_kept (hall C_pending 0) (run_msg_ops [(\<lparr>db_now = 5, js_now = 5\<rparr>, Send (hall_user 1 R_planner) 2 ''no''),
     (\<lparr>db_now = 6, js_now = 6\<rparr>, Answer 1 2 Decline), (\<lparr>db_now = 7, js_now = 7\<rparr>, Answer 1 2 Accept)] (hall C_pending 0))"
  using inbox_closed_until_accepted [OF hall_pending] by blast

text \<open>
  An artist never has more than ten requests waiting for an answer, whatever is sent,
  answered or opened in between.
\<close>

theorem pending_requests_bounded:
  assumes "pending_requests a s \<le> max_pending_artist_requests"
  shows "pending_requests a (run_msg_ops ops s) \<le> max_pending_artist_requests"
  using assms
  by (induction ops arbitrary: s) (auto simp del: run_msg_op.simps simp: pending_requests_step)

theorem pending_requests_bounded_witness:
  "pending_requests 0 (run_msg_ops [(\<lparr>db_now = 5, js_now = 5\<rparr>, Open (hall_user 0 R_artist)
     \<lparr>cc_artist_id = None, cc_planner_id = Some 1\<rparr>)] (hall C_pending 0)) \<le> max_pending_artist_requests"
  by (rule pending_requests_bounded) (simp add: pending_requests_def hall_def hall_thread_def max_pending_artist_requests_def)

text \<open>
  C12: a capped plan buys the messages it names. With one request at a time, a planner whose
  running plan has a cap never has more messages in the period than the cap, however the
  sends are spread, whatever else happens, and also after the plan has lapsed.
\<close>

theorem message_cap_holds:
  assumes "subs_ok s" and "get_active_subscription ck uid s = Some a" and "as_message_cap a = Some cap"
    and "period_start (as_row a) = Some b" and "sent_since uid b s \<le> nat cap"
    and "\<forall>x \<in> set ops. sends_as_planner uid (snd x)"
  shows "sent_since uid b (run_msg_ops ops s) \<le> nat cap"
  using assms by (rule cap_run)

theorem message_cap_holds_witness:
  "sent_since 1 0 (run_msg_ops [(\<lparr>db_now = 5, js_now = 5\<rparr>, Send (hall_user 1 R_planner) 2 ''x''),
     (\<lparr>db_now = 6, js_now = 6\<rparr>, Send (hall_user 1 R_planner) 2 ''y'')] (hall C_accepted 14)) \<le> nat 15"
  by (rule message_cap_holds [OF hall_subs hall_running [of "\<lparr>db_now = 5, js_now = 5\<rparr>"]])
     (simp_all add: hall_pass_def period_start_def hall_sent [unfolded One_nat_def] sends_as_planner_def hall_user_def)

section \<open>Decisions taken on a row somebody else has changed\<close>

text \<open>
  \<open>respondToRequest\<close> reads the row, checks its status, and updates by id alone. Two answers
  to the same request that both read it pending are both written, the later one over the
  earlier one.
\<close>

definition racing_answers ::
  "clock \<Rightarrow> uuid \<Rightarrow> uuid \<Rightarrow> decision \<Rightarrow> decision \<Rightarrow> db \<Rightarrow> conversation option result \<times> conversation option result \<times> db" where
  "racing_answers ck p cid d1 d2 s =
     (case (request_check p cid s, request_check p cid s) of
        (Inr c1, Inr c2) \<Rightarrow>
          (case request_write ck p cid d1 c1 s of
             (r1, s1) \<Rightarrow> (case request_write ck p cid d2 c2 s1 of (r2, s2) \<Rightarrow> (Inr r1, Inr r2, s2)))
      | (Inl e, _) \<Rightarrow> (Inl e, Inl e, s) | (_, Inl e) \<Rightarrow> (Inl e, Inl e, s))"

lemma update_where_twice:
  "(\<And>r. P (f r) = P r) \<Longrightarrow> (\<And>r. g (f r) = g r) \<Longrightarrow> update_where P g (update_where P f xs) = update_where P g xs"
  by (induction xs) auto

text \<open>
  A request that the planner has declined comes back to life when an answer to accept it
  read the row before the decline was written: both answers report success and the thread is
  accepted, as if it had never been declined.
\<close>

theorem stale_accept_revives_a_declined_request:
  assumes "request_check p cid s = Inr c" and "racing_answers ck p cid Decline Accept s = (r1, r2, t)"
  shows "\<not> isl r1 \<and> \<not> isl r2
    \<and> conversations t = update_where (\<lambda>x. c_id x = cid) (\<lambda>x. x\<lparr>c_status := C_accepted\<rparr>) (conversations s)"
  using assms
  by (auto simp: racing_answers_def request_write_def Let_def intro!: update_where_twice)

theorem stale_accept_revives_a_declined_request_witness:
  "\<exists>r1 r2 t. racing_answers \<lparr>db_now = 5, js_now = 5\<rparr> 1 2 Decline Accept (hall C_pending 0) = (r1, r2, t)
     \<and> conversations t = [hall_thread C_accepted]"
proof -
  obtain r1 r2 t where r: "racing_answers \<lparr>db_now = 5, js_now = 5\<rparr> 1 2 Decline Accept (hall C_pending 0) = (r1, r2, t)"
    by (metis prod_cases3)
  have "request_check 1 2 (hall C_pending 0) = Inr (hall_thread C_pending)"
    by (simp add: request_check_def assert_participant_def hall_def hall_thread_def)
  from stale_accept_revives_a_declined_request [OF this r] r show ?thesis
    by (auto simp: hall_def hall_thread_def)
qed

text \<open>
  Sends that all pass the count before any of them is stored: the check is made on the same
  table for every one of them.
\<close>

fun store_all :: "clock \<Rightarrow> uuid \<Rightarrow> uuid \<Rightarrow> string list \<Rightarrow> db \<Rightarrow> db" where
  "store_all ck uid cid [] s = s"
| "store_all ck uid cid (b # bs) s = store_all ck uid cid bs (snd (store_message ck uid cid b s))"

definition racing_sends :: "clock \<Rightarrow> uuid \<Rightarrow> uuid \<Rightarrow> string list \<Rightarrow> db \<Rightarrow> db" where
  "racing_sends ck uid cid bodies s =
     (case send_check ck uid cid s of Inl e \<Rightarrow> s | Inr c \<Rightarrow> store_all ck uid cid bodies s)"

lemma sent_since_store_all:
  "b \<le> db_now ck \<Longrightarrow> sent_since uid b (store_all ck uid cid bodies s) = sent_since uid b s + length bodies"
  by (induction bodies arbitrary: s) (simp_all add: store_message_def new_message_def sent_since_def Let_def)

text \<open>
  The cap is not a ceiling that a race can pass by one only: any number of sends that
  were checked before the first of them was stored all go through, so a planner with one
  message left sends as many as are in flight.
\<close>

theorem racing_sends_all_pass:
  assumes "send_check ck uid cid s = Inr c" and "b \<le> db_now ck"
  shows "sent_since uid b (racing_sends ck uid cid bodies s) = sent_since uid b s + length bodies"
  using assms by (simp add: racing_sends_def sent_since_store_all)

theorem racing_sends_all_pass_witness:
  "sent_since 1 0 (racing_sends \<lparr>db_now = 5, js_now = 5\<rparr> 1 2 [''a'', ''b'', ''c'', ''d''] (hall C_accepted 14)) = 18"
proof -
  have "assert_within_message_cap \<lparr>db_now = 5, js_now = 5\<rparr> 1 (hall C_accepted 14) = Inr ()"
    unfolding assert_within_message_cap_def remaining_messages_def
    by (subst hall_running) (simp_all add: period_start_def aggregate_value_def hall_pass_def hall_sent [unfolded One_nat_def])
  then have "send_check \<lparr>db_now = 5, js_now = 5\<rparr> 1 2 (hall C_accepted 14) = Inr (hall_thread C_accepted)"
    by (simp add: send_check_def assert_participant_def) (simp add: hall_def hall_thread_def)
  from racing_sends_all_pass [OF this, of 0 "[''a'', ''b'', ''c'', ''d'']"] show ?thesis
    by (simp add: hall_sent [unfolded One_nat_def])
qed

end
