(* ===== verification/Redis_Store.thy ===== *)
theory Redis_Store
  imports Common_Utils
begin

text \<open>
  \<open>src/redis/*.ts\<close>: the keyed store behind one-time codes, refresh tokens, verification and
  reset links (\<open>redis.service.ts\<close>), the rate limiter that runs as one script inside it
  (\<open>redis-throttler.storage.ts\<close>), and the grading of connection errors (\<open>redis-error.ts\<close>).
  The store itself is modelled as Redis documents the commands used: \<open>GET\<close>, \<open>SET .. EX/PX\<close>,
  \<open>DEL\<close>, \<open>INCR\<close>, \<open>EXPIRE\<close>, \<open>PTTL\<close>; a key whose time has come is gone. Times are milliseconds
  of the Redis server's own clock.
\<close>

section \<open>The store\<close>

record entry =
  e_value :: string
  e_expires_at :: "int option"

type_synonym redis = "string \<Rightarrow> entry option"

definition fresh_entry :: "int \<Rightarrow> entry \<Rightarrow> bool" where
  "fresh_entry t e \<longleftrightarrow> (case e_expires_at e of None \<Rightarrow> True | Some x \<Rightarrow> t < x)"

text \<open>What a command issued at time \<open>t\<close> finds under a key.\<close>

definition r_entry :: "int \<Rightarrow> string \<Rightarrow> redis \<Rightarrow> entry option" where
  "r_entry t k r = (case r k of None \<Rightarrow> None | Some e \<Rightarrow> if fresh_entry t e then Some e else None)"

definition r_get :: "int \<Rightarrow> string \<Rightarrow> redis \<Rightarrow> string option" where
  "r_get t k r = map_option e_value (r_entry t k r)"

definition r_set_px :: "int \<Rightarrow> string \<Rightarrow> string \<Rightarrow> int \<Rightarrow> redis \<Rightarrow> redis" where
  "r_set_px t k v ttl r = r(k \<mapsto> \<lparr>e_value = v, e_expires_at = Some (t + ttl)\<rparr>)"

definition r_set_ex :: "int \<Rightarrow> string \<Rightarrow> string \<Rightarrow> int \<Rightarrow> redis \<Rightarrow> redis" where
  "r_set_ex t k v secs r = r_set_px t k v (1000 * secs) r"

definition r_del :: "string \<Rightarrow> redis \<Rightarrow> redis" where
  "r_del k r = r(k := None)"

text \<open>\<open>INCR\<close> keeps the key's expiry and starts an absent key at one, without an expiry.\<close>

definition r_incr :: "int \<Rightarrow> string \<Rightarrow> redis \<Rightarrow> nat \<times> redis" where
  "r_incr t k r =
     (case r_entry t k r of
        None \<Rightarrow> (1, r(k \<mapsto> \<lparr>e_value = show_nat 1, e_expires_at = None\<rparr>))
      | Some e \<Rightarrow> (let n = Suc (read_nat (e_value e)) in (n, r(k \<mapsto> e\<lparr>e_value := show_nat n\<rparr>))))"

definition r_pexpire :: "int \<Rightarrow> string \<Rightarrow> int \<Rightarrow> redis \<Rightarrow> redis" where
  "r_pexpire t k ttl r =
     (case r_entry t k r of None \<Rightarrow> r | Some e \<Rightarrow> r(k \<mapsto> e\<lparr>e_expires_at := Some (t + ttl)\<rparr>))"

text \<open>\<open>PTTL\<close>: -2 for no key, -1 for a key without expiry.\<close>

definition r_pttl :: "int \<Rightarrow> string \<Rightarrow> redis \<Rightarrow> int" where
  "r_pttl t k r =
     (case r_entry t k r of None \<Rightarrow> -2 | Some e \<Rightarrow> (case e_expires_at e of None \<Rightarrow> -1 | Some x \<Rightarrow> x - t))"

lemmas redis_defs = r_get_def r_entry_def r_set_px_def r_set_ex_def r_del_def r_incr_def r_pexpire_def r_pttl_def

section \<open>RedisService\<close>

definition otp_key :: "string \<Rightarrow> string" where
  "otp_key phone = ''otp:'' @ phone"

definition otp_attempts_key :: "string \<Rightarrow> string" where
  "otp_attempts_key phone = ''otp:attempts:'' @ phone"

definition refresh_key :: "string \<Rightarrow> string" where
  "refresh_key uid = ''refresh:'' @ uid"

definition email_verify_key :: "string \<Rightarrow> string" where
  "email_verify_key token = ''email-verify:'' @ token"

definition password_reset_key :: "string \<Rightarrow> string" where
  "password_reset_key token = ''password-reset:'' @ token"

definition set_otp :: "int \<Rightarrow> string \<Rightarrow> string \<Rightarrow> redis \<Rightarrow> redis" where
  "set_otp t phone code r = r_set_ex t (otp_key phone) code 600 r"

definition get_otp :: "int \<Rightarrow> string \<Rightarrow> redis \<Rightarrow> string option" where
  "get_otp t phone r = r_get t (otp_key phone) r"

definition delete_otp :: "string \<Rightarrow> redis \<Rightarrow> redis" where
  "delete_otp phone r = r_del (otp_attempts_key phone) (r_del (otp_key phone) r)"

definition record_otp_failure :: "int \<Rightarrow> string \<Rightarrow> redis \<Rightarrow> nat \<times> redis" where
  "record_otp_failure t phone r =
     (let key = otp_attempts_key phone
      in case r_incr t key r of
           (attempts, r1) \<Rightarrow> (attempts, if attempts = 1 then r_pexpire t key (1000 * 600) r1 else r1))"

definition set_refresh_token :: "int \<Rightarrow> string \<Rightarrow> string \<Rightarrow> redis \<Rightarrow> redis" where
  "set_refresh_token t uid h r = r_set_ex t (refresh_key uid) h (60 * 60 * 24 * 30) r"

definition get_refresh_token :: "int \<Rightarrow> string \<Rightarrow> redis \<Rightarrow> string option" where
  "get_refresh_token t uid r = r_get t (refresh_key uid) r"

definition delete_refresh_token :: "string \<Rightarrow> redis \<Rightarrow> redis" where
  "delete_refresh_token uid r = r_del (refresh_key uid) r"

definition set_email_verify_token :: "int \<Rightarrow> string \<Rightarrow> string \<Rightarrow> redis \<Rightarrow> redis" where
  "set_email_verify_token t token uid r = r_set_ex t (email_verify_key token) uid (60 * 60 * 24) r"

definition get_email_verify_token :: "int \<Rightarrow> string \<Rightarrow> redis \<Rightarrow> string option" where
  "get_email_verify_token t token r = r_get t (email_verify_key token) r"

definition delete_email_verify_token :: "string \<Rightarrow> redis \<Rightarrow> redis" where
  "delete_email_verify_token token r = r_del (email_verify_key token) r"

definition set_password_reset_token :: "int \<Rightarrow> string \<Rightarrow> string \<Rightarrow> redis \<Rightarrow> redis" where
  "set_password_reset_token t token uid r = r_set_ex t (password_reset_key token) uid (60 * 60) r"

definition get_password_reset_token :: "int \<Rightarrow> string \<Rightarrow> redis \<Rightarrow> string option" where
  "get_password_reset_token t token r = r_get t (password_reset_key token) r"

definition delete_password_reset_token :: "string \<Rightarrow> redis \<Rightarrow> redis" where
  "delete_password_reset_token token r = r_del (password_reset_key token) r"

text \<open>No two of the five families share a key; phone numbers never begin with a letter.\<close>

definition phone_like :: "string \<Rightarrow> bool" where
  "phone_like p \<longleftrightarrow> p \<noteq> [] \<and> (hd p = CHR ''+'' \<or> is_digit (hd p))"

lemma phone_not_attempts: "phone_like p \<Longrightarrow> p \<noteq> ''attempts:'' @ q"
  by (auto simp: phone_like_def is_digit_def)

lemma keys_apart [simp]:
  "refresh_key a \<noteq> email_verify_key b" "email_verify_key b \<noteq> refresh_key a"
  "refresh_key a \<noteq> password_reset_key b" "password_reset_key b \<noteq> refresh_key a"
  "refresh_key a \<noteq> otp_key b" "otp_key b \<noteq> refresh_key a"
  "refresh_key a \<noteq> otp_attempts_key b" "otp_attempts_key b \<noteq> refresh_key a"
  "email_verify_key a \<noteq> password_reset_key b" "password_reset_key b \<noteq> email_verify_key a"
  "email_verify_key a \<noteq> otp_key b" "otp_key b \<noteq> email_verify_key a"
  "email_verify_key a \<noteq> otp_attempts_key b" "otp_attempts_key b \<noteq> email_verify_key a"
  "password_reset_key a \<noteq> otp_key b" "otp_key b \<noteq> password_reset_key a"
  "password_reset_key a \<noteq> otp_attempts_key b" "otp_attempts_key b \<noteq> password_reset_key a"
  by (simp_all add: refresh_key_def email_verify_key_def password_reset_key_def otp_key_def otp_attempts_key_def)

lemma keys_inject [simp]:
  "refresh_key a = refresh_key b \<longleftrightarrow> a = b" "email_verify_key a = email_verify_key b \<longleftrightarrow> a = b"
  "password_reset_key a = password_reset_key b \<longleftrightarrow> a = b" "otp_key a = otp_key b \<longleftrightarrow> a = b"
  "otp_attempts_key a = otp_attempts_key b \<longleftrightarrow> a = b"
  by (simp_all add: refresh_key_def email_verify_key_def password_reset_key_def otp_key_def otp_attempts_key_def)

lemma otp_keys_apart: "phone_like p \<Longrightarrow> otp_key p \<noteq> otp_attempts_key q"
  using phone_not_attempts [of p q] by (simp add: otp_key_def otp_attempts_key_def)

section \<open>One contract for the four kinds of secret\<close>

text \<open>
  Codes, refresh tokens, verification links and reset links are all kept the same way: put
  under a name with a life time, looked up, and dropped. The contract speaks of names that
  satisfy \<open>valid\<close> (phone numbers, for codes).
\<close>

locale expiring_slot =
  fixes put :: "int \<Rightarrow> string \<Rightarrow> string \<Rightarrow> redis \<Rightarrow> redis"
    and look :: "int \<Rightarrow> string \<Rightarrow> redis \<Rightarrow> string option"
    and discard :: "string \<Rightarrow> redis \<Rightarrow> redis"
    and life :: int
    and valid :: "string \<Rightarrow> bool"
  assumes look_put: "look t' k (put t k v r) = (if t' < t + life then Some v else None)"
    and look_put_other: "k \<noteq> k' \<Longrightarrow> look t' k' (put t k v r) = look t' k' r"
    and look_discard: "valid k \<Longrightarrow> look t k (discard k r) = None"
    and look_discard_other: "valid k \<Longrightarrow> valid k' \<Longrightarrow> k \<noteq> k' \<Longrightarrow> look t k' (discard k r) = look t k' r"
    and lapses: "look t k r = None \<Longrightarrow> t \<le> t' \<Longrightarrow> look t' k r = None"
begin

lemma stays_lapsed: "look t' k r = Some v \<Longrightarrow> t \<le> t' \<Longrightarrow> \<exists>w. look t k r = Some w"
  using lapses by (metis not_None_eq)

lemma newest_wins: "look t'' k (put t' k w (put t k v r)) = (if t'' < t' + life then Some w else None)"
  by (rule look_put)

lemma discarded_until_put:
  "valid k \<Longrightarrow> valid k' \<Longrightarrow> look t k r = None \<Longrightarrow> look t k (discard k' r) = None"
  by (metis look_discard look_discard_other)

lemma put_elsewhere: "k \<noteq> k' \<Longrightarrow> look t k r = None \<Longrightarrow> look t k (put t' k' v r) = None"
  using look_put_other by metis

end

lemma r_get_set [simp]:
  "r_get t' k (r_set_ex t k v s r) = (if t' < t + 1000 * s then Some v else None)"
  "k \<noteq> k' \<Longrightarrow> r_get t' k' (r_set_ex t k v s r) = r_get t' k' r"
  by (auto simp: redis_defs fresh_entry_def)

lemma r_get_del [simp]:
  "r_get t k (r_del k r) = None"
  "k \<noteq> k' \<Longrightarrow> r_get t k' (r_del k r) = r_get t k' r"
  by (auto simp: redis_defs)

lemma r_get_lapses: "r_get t k r = None \<Longrightarrow> t \<le> t' \<Longrightarrow> r_get t' k r = None"
  by (auto simp: redis_defs fresh_entry_def split: option.splits if_splits)

interpretation refresh_slot: expiring_slot set_refresh_token get_refresh_token delete_refresh_token
    "1000 * (60 * 60 * 24 * 30)" "\<lambda>_. True"
  by unfold_locales
     (simp_all add: set_refresh_token_def get_refresh_token_def delete_refresh_token_def r_get_lapses)

interpretation verify_slot: expiring_slot set_email_verify_token get_email_verify_token delete_email_verify_token
    "1000 * (60 * 60 * 24)" "\<lambda>_. True"
  by unfold_locales
     (simp_all add: set_email_verify_token_def get_email_verify_token_def delete_email_verify_token_def r_get_lapses)

interpretation reset_slot: expiring_slot set_password_reset_token get_password_reset_token delete_password_reset_token
    "1000 * (60 * 60)" "\<lambda>_. True"
  by unfold_locales
     (simp_all add: set_password_reset_token_def get_password_reset_token_def delete_password_reset_token_def r_get_lapses)

lemma get_delete_otp:
  "phone_like p \<Longrightarrow> get_otp t p (delete_otp q r) = (if p = q then None else get_otp t p r)"
  using otp_keys_apart [of p q]
  by (auto simp: get_otp_def delete_otp_def)

interpretation otp_slot: expiring_slot set_otp get_otp delete_otp "1000 * 600" phone_like
  by unfold_locales (simp_all add: set_otp_def get_otp_def get_delete_otp [unfolded get_otp_def] r_get_lapses)

section \<open>The store, seen as five tables\<close>

text \<open>
  The callers of \<open>RedisService\<close> reason as if codes, failure counts, refresh tokens and the two
  kinds of link were five tables. The view of a store as those tables, and each operation on
  them.
\<close>

type_synonym slots = "string \<Rightarrow> entry option"

record secrets =
  sc_codes :: slots
  sc_failures :: slots
  sc_refresh :: slots
  sc_verify :: slots
  sc_reset :: slots

definition view :: "redis \<Rightarrow> secrets" where
  "view r = \<lparr>sc_codes = (\<lambda>p. if phone_like p then r (otp_key p) else None), sc_failures = r \<circ> otp_attempts_key,
     sc_refresh = r \<circ> refresh_key, sc_verify = r \<circ> email_verify_key, sc_reset = r \<circ> password_reset_key\<rparr>"

datatype store_op =
    Set_code int string string
  | Drop_code string
  | Fail_code int string
  | Set_refresh int string string
  | Drop_refresh string
  | Set_verify int string string
  | Drop_verify string
  | Set_reset int string string
  | Drop_reset string

fun run_store_op :: "store_op \<Rightarrow> redis \<Rightarrow> redis" where
  "run_store_op (Set_code t p c) r = set_otp t p c r"
| "run_store_op (Drop_code p) r = delete_otp p r"
| "run_store_op (Fail_code t p) r = snd (record_otp_failure t p r)"
| "run_store_op (Set_refresh t u h) r = set_refresh_token t u h r"
| "run_store_op (Drop_refresh u) r = delete_refresh_token u r"
| "run_store_op (Set_verify t k u) r = set_email_verify_token t k u r"
| "run_store_op (Drop_verify k) r = delete_email_verify_token k r"
| "run_store_op (Set_reset t k u) r = set_password_reset_token t k u r"
| "run_store_op (Drop_reset k) r = delete_password_reset_token k r"

definition until :: "int \<Rightarrow> int \<Rightarrow> string \<Rightarrow> entry" where
  "until t secs v = \<lparr>e_value = v, e_expires_at = Some (t + 1000 * secs)\<rparr>"

text \<open>A failure adds one to a live count and starts a count of ten minutes otherwise.\<close>

definition count_failure :: "int \<Rightarrow> string \<Rightarrow> slots \<Rightarrow> slots" where
  "count_failure t p f =
     (case f p of
        None \<Rightarrow> f(p \<mapsto> until t 600 (show_nat 1))
      | Some e \<Rightarrow>
          if \<not> fresh_entry t e then f(p \<mapsto> until t 600 (show_nat 1))
          else if read_nat (e_value e) = 0 then f(p \<mapsto> until t 600 (show_nat 1))
          else f(p \<mapsto> e\<lparr>e_value := show_nat (Suc (read_nat (e_value e)))\<rparr>))"

fun spec_store_op :: "store_op \<Rightarrow> secrets \<Rightarrow> secrets" where
  "spec_store_op (Set_code t p c) s = s\<lparr>sc_codes := (sc_codes s)(p \<mapsto> until t 600 c)\<rparr>"
| "spec_store_op (Drop_code p) s = s\<lparr>sc_codes := (sc_codes s)(p := None), sc_failures := (sc_failures s)(p := None)\<rparr>"
| "spec_store_op (Fail_code t p) s = s\<lparr>sc_failures := count_failure t p (sc_failures s)\<rparr>"
| "spec_store_op (Set_refresh t u h) s = s\<lparr>sc_refresh := (sc_refresh s)(u \<mapsto> until t 2592000 h)\<rparr>"
| "spec_store_op (Drop_refresh u) s = s\<lparr>sc_refresh := (sc_refresh s)(u := None)\<rparr>"
| "spec_store_op (Set_verify t k u) s = s\<lparr>sc_verify := (sc_verify s)(k \<mapsto> until t 86400 u)\<rparr>"
| "spec_store_op (Drop_verify k) s = s\<lparr>sc_verify := (sc_verify s)(k := None)\<rparr>"
| "spec_store_op (Set_reset t k u) s = s\<lparr>sc_reset := (sc_reset s)(k \<mapsto> until t 3600 u)\<rparr>"
| "spec_store_op (Drop_reset k) s = s\<lparr>sc_reset := (sc_reset s)(k := None)\<rparr>"

definition proper_op :: "store_op \<Rightarrow> bool" where
  "proper_op x = (case x of Set_code t p c \<Rightarrow> phone_like p | Drop_code p \<Rightarrow> phone_like p
     | Fail_code t p \<Rightarrow> phone_like p | _ \<Rightarrow> True)"

lemma view_update:
  "phone_like p \<Longrightarrow> view (r(otp_key p := e)) = (view r)\<lparr>sc_codes := (sc_codes (view r))(p := e)\<rparr>"
  "view (r(otp_attempts_key q := e)) = (view r)\<lparr>sc_failures := (sc_failures (view r))(q := e)\<rparr>"
  "view (r(refresh_key u := e)) = (view r)\<lparr>sc_refresh := (sc_refresh (view r))(u := e)\<rparr>"
  "view (r(email_verify_key k := e)) = (view r)\<lparr>sc_verify := (sc_verify (view r))(k := e)\<rparr>"
  "view (r(password_reset_key k := e)) = (view r)\<lparr>sc_reset := (sc_reset (view r))(k := e)\<rparr>"
  using otp_keys_apart by (auto simp: view_def fun_eq_iff otp_keys_apart otp_keys_apart [symmetric])

lemma record_failure_view:
  "phone_like p \<Longrightarrow> snd (record_otp_failure t p r) = r(otp_attempts_key p := count_failure t p (sc_failures (view r)) p)"
  by (auto simp: record_otp_failure_def count_failure_def view_def redis_defs until_def fresh_entry_def Let_def
      split: option.splits if_splits)

lemma count_failure_elsewhere: "(f(p := count_failure t p f p)) = count_failure t p f"
  by (auto simp: count_failure_def fun_eq_iff split: option.splits)

lemma view_step: "proper_op x \<Longrightarrow> view (run_store_op x r) = spec_store_op x (view r)"
proof (cases x)
  case (Fail_code t p)
  assume "proper_op x"
  with Fail_code show ?thesis
    by (simp add: proper_op_def record_failure_view view_update count_failure_elsewhere)
qed (simp_all add: proper_op_def set_otp_def delete_otp_def set_refresh_token_def delete_refresh_token_def
    set_email_verify_token_def delete_email_verify_token_def set_password_reset_token_def
    delete_password_reset_token_def r_set_ex_def r_set_px_def r_del_def view_update until_def)



section \<open>The rate limiter\<close>

record throttle_record =
  th_total_hits :: nat
  th_time_to_expire :: int
  th_is_blocked :: bool
  th_time_to_block_expire :: int

definition hit_key :: "string \<Rightarrow> string \<Rightarrow> string" where
  "hit_key name key = ''throttle:'' @ name @ '':'' @ key"

definition block_key :: "string \<Rightarrow> string \<Rightarrow> string" where
  "block_key name key = ''throttle:blocked:'' @ name @ '':'' @ key"

text \<open>The script: one atomic evaluation, durations in milliseconds, answers in seconds.\<close>

definition increment_script :: "int \<Rightarrow> string \<Rightarrow> string \<Rightarrow> int \<Rightarrow> int \<Rightarrow> int \<Rightarrow> redis \<Rightarrow> throttle_record \<times> redis" where
  "increment_script t hk bk ttl limit block r =
     (let block_pttl = r_pttl t bk r
      in if block_pttl > 0
         then (\<lparr>th_total_hits = (case r_get t hk r of None \<Rightarrow> 0 | Some v \<Rightarrow> read_nat v),
                th_time_to_expire = ceil_div (max 0 (r_pttl t hk r)) 1000, th_is_blocked = True,
                th_time_to_block_expire = ceil_div block_pttl 1000\<rparr>, r)
         else case r_incr t hk r of
           (n, r1) \<Rightarrow>
             (let r2 = (if n = 1 then r_pexpire t hk ttl r1 else r1);
                  left = r_pttl t hk r2;
                  r3 = (if left < 0 then r_pexpire t hk ttl r2 else r2);
                  expire = (if left < 0 then ttl else left)
              in if int n > limit
                 then (\<lparr>th_total_hits = n, th_time_to_expire = ceil_div expire 1000, th_is_blocked = True,
                        th_time_to_block_expire = ceil_div block 1000\<rparr>, r_set_px t bk ''1'' block r3)
                 else (\<lparr>th_total_hits = n, th_time_to_expire = ceil_div expire 1000, th_is_blocked = False,
                        th_time_to_block_expire = 0\<rparr>, r3)))"

text \<open>
  \<open>increment\<close>: \<open>up\<close> says whether Redis answered. When it did not, the caller is let through.
\<close>

definition throttle_increment ::
  "bool \<Rightarrow> int \<Rightarrow> string \<Rightarrow> int \<Rightarrow> int \<Rightarrow> int \<Rightarrow> string \<Rightarrow> redis \<Rightarrow> throttle_record \<times> redis" where
  "throttle_increment up t key ttl limit block name r =
     (if up then increment_script t (hit_key name key) (block_key name key) ttl limit block r
      else (\<lparr>th_total_hits = 0, th_time_to_expire = ceil_div ttl 1000, th_is_blocked = False,
             th_time_to_block_expire = 0\<rparr>, r))"

text \<open>A caller's requests at the given times, and which of them were blocked.\<close>

fun throttle_run :: "string \<Rightarrow> int \<Rightarrow> int \<Rightarrow> int \<Rightarrow> string \<Rightarrow> int list \<Rightarrow> redis \<Rightarrow> bool list" where
  "throttle_run key ttl limit block name [] r = []"
| "throttle_run key ttl limit block name (t # ts) r =
     (case throttle_increment True t key ttl limit block name r of
        (a, r1) \<Rightarrow> th_is_blocked a # throttle_run key ttl limit block name ts r1)"

definition counting :: "string \<Rightarrow> string \<Rightarrow> nat \<Rightarrow> int \<Rightarrow> redis \<Rightarrow> bool" where
  "counting hk bk k until_t r \<longleftrightarrow> r hk = Some \<lparr>e_value = show_nat k, e_expires_at = Some until_t\<rparr>"

lemma script_counts:
  assumes "hk \<noteq> bk" and "counting hk bk k e r" and "t < e" and "0 < k"
  shows "increment_script t hk bk ttl limit block r = (a, r1) \<Longrightarrow>
    (if r_pttl t bk r > 0 then th_is_blocked a \<and> r1 = r
     else th_is_blocked a = (limit < int (Suc k)) \<and> counting hk bk (Suc k) e r1
       \<and> (int (Suc k) \<le> limit \<longrightarrow> r1 bk = r bk))"
  using assms
  by (auto simp: increment_script_def counting_def redis_defs fresh_entry_def Let_def split: if_splits option.splits)

lemma script_starts:
  assumes "hk \<noteq> bk" and "r_entry t hk r = None" and "r_entry t bk r = None" and "0 < ttl"
  shows "increment_script t hk bk ttl limit block r = (a, r1) \<Longrightarrow>
     th_is_blocked a = (limit < 1) \<and> counting hk bk 1 (t + ttl) r1 \<and> (1 \<le> limit \<longrightarrow> r1 bk = r bk)"
  using assms
  by (auto simp: increment_script_def counting_def redis_defs fresh_entry_def Let_def split: if_splits option.splits)

lemma no_block_later: "r_entry t bk r = None \<Longrightarrow> t \<le> t' \<Longrightarrow> r1 bk = r bk \<Longrightarrow> r_entry t' bk r1 = None"
  by (auto simp: r_entry_def fresh_entry_def split: option.splits if_splits)

lemma pttl_absent: "r_entry t bk r = None \<Longrightarrow> r_pttl t bk r = -2"
  by (simp add: r_pttl_def)

lemma window_run:
  assumes "counting (hit_key name key) (block_key name key) k e r" and "hit_key name key \<noteq> block_key name key"
    and "0 < k" and "k \<le> i" and "\<forall>t \<in> set ts. t < e"
    and "int k \<le> limit \<Longrightarrow> k = i \<and> (\<forall>t \<in> set ts. r_entry t (block_key name key) r = None)"
  shows "throttle_run key ttl limit block name ts r = map (\<lambda>j. limit \<le> int j) [i..<i + length ts]"
  using assms
proof (induction ts arbitrary: k i r)
  case (Cons t ts)
  let ?hk = "hit_key name key" and ?bk = "block_key name key"
  obtain a r1 where a: "increment_script t ?hk ?bk ttl limit block r = (a, r1)" by (meson surj_pair)
  note s = script_counts [OF Cons.prems(2,1) _ Cons.prems(3) a]
  from Cons.prems(5) have t: "t < e" by simp
  have step: "throttle_run key ttl limit block name (t # ts) r = th_is_blocked a # throttle_run key ttl limit block name ts r1"
    by (simp add: throttle_increment_def a)
  have "th_is_blocked a = (limit \<le> int i)
      \<and> throttle_run key ttl limit block name ts r1 = map (\<lambda>j. limit \<le> int j) [Suc i..<Suc i + length ts]"
  proof (cases "r_pttl t ?bk r > 0")
    case True
    with Cons.prems(6) pttl_absent [of t ?bk r] have k: "\<not> int k \<le> limit" by auto
    from s [OF t] True have b: "th_is_blocked a" "r1 = r" by auto
    have "throttle_run key ttl limit block name ts r = map (\<lambda>j. limit \<le> int j) [Suc i..<Suc i + length ts]"
      using Cons.prems k by (intro Cons.IH [of k]) auto
    moreover from k Cons.prems(4) have "limit \<le> int i" by linarith
    ultimately show ?thesis using b by blast
  next
    case False
    with s [OF t] have b: "th_is_blocked a = (limit < int (Suc k))" "counting ?hk ?bk (Suc k) e r1"
      "int (Suc k) \<le> limit \<longrightarrow> r1 ?bk = r ?bk" by auto
    have later: "r_entry t' ?bk r1 = None" if "int (Suc k) \<le> limit" "t' \<in> set ts" for t'
      using that Cons.prems(6) b(3) by (auto simp: r_entry_def)
    have "throttle_run key ttl limit block name ts r1 = map (\<lambda>j. limit \<le> int j) [Suc i..<Suc i + length ts]"
      using Cons.prems b(2) later by (intro Cons.IH [of "Suc k"]) auto
    moreover have "th_is_blocked a = (limit \<le> int i)" using b(1) Cons.prems(4,6) by auto
    ultimately show ?thesis by blast
  qed
  moreover have "[i..<i + length (t # ts)] = i # [Suc i..<Suc i + length ts]" by (simp add: upt_conv_Cons del: upt_Suc)
  ultimately show ?case by (simp only: step list.map)
qed simp

lemma default_keys_apart: "hit_key ''default'' a \<noteq> block_key ''default'' b"
  by (simp add: hit_key_def block_key_def)

text \<open>
  C14: within one window a caller gets exactly the budget. For a caller without a live counter
  or block, the requests made before the window that the first one opens has run out are let
  through up to the limit and blocked from then on, however they are spread and whichever
  instance of the API serves them, also when a block shorter than the window lapses inside it.
\<close>

theorem limiter_admits_the_budget:
  assumes "r_entry t (hit_key ''default'' key) r = None" and "\<forall>u \<in> set (t # ts). r_entry u (block_key ''default'' key) r = None"
    and "0 < ttl" and "\<forall>u \<in> set ts. u < t + ttl"
  shows "throttle_run key ttl limit block ''default'' (t # ts) r = map (\<lambda>j. limit \<le> int j) [0..<Suc (length ts)]"
proof -
  obtain a r1 where a: "increment_script t (hit_key ''default'' key) (block_key ''default'' key) ttl limit block r = (a, r1)"
    by (meson surj_pair)
  from script_starts [OF default_keys_apart assms(1) _ assms(3) a] assms(2)
  have s: "th_is_blocked a = (limit < 1)" "counting (hit_key ''default'' key) (block_key ''default'' key) 1 (t + ttl) r1"
    "1 \<le> limit \<longrightarrow> r1 (block_key ''default'' key) = r (block_key ''default'' key)" by auto
  have "throttle_run key ttl limit block ''default'' ts r1 = map (\<lambda>j. limit \<le> int j) [1..<1 + length ts]"
    using s assms(2,4) by (intro window_run [OF s(2) default_keys_apart]) (auto simp: r_entry_def)
  with s(1) show ?thesis by (simp add: throttle_increment_def a upt_conv_Cons del: upt_Suc) auto
qed

theorem limiter_admits_the_budget_witness:
  "throttle_run ''1.2.3.4'' 60000 2 60000 ''default'' [0, 10, 20, 30] (\<lambda>_. None) = [False, False, True, True]"
  using limiter_admits_the_budget [of 0 "''1.2.3.4''" "\<lambda>_. None" "[10, 20, 30]" 60000 2 60000]
  by (simp add: r_entry_def upt_rec)

text \<open>When Redis does not answer nobody is limited, and nothing is counted.\<close>

lemma limiter_fails_open:
  "throttle_increment False t key ttl limit block name r =
     (\<lparr>th_total_hits = 0, th_time_to_expire = ceil_div ttl 1000, th_is_blocked = False, th_time_to_block_expire = 0\<rparr>, r)"
  by (simp add: throttle_increment_def)

section \<open>Connection errors\<close>

text \<open>
  What the classifier reads of a thrown value: its \<open>code\<close>, when that is a string, and its
  message (or its text).
\<close>

record redis_failure =
  rf_code :: "string option"
  rf_message :: string

datatype log_level = Lv_debug | Lv_warn | Lv_error

record verdict =
  vd_level :: log_level
  vd_reason :: string

definition sustained_error_threshold :: nat where
  "sustained_error_threshold = 5"

definition transient_codes :: "string list" where
  "transient_codes = [''ETIMEDOUT'', ''ECONNRESET'', ''EPIPE'', ''ECONNABORTED'', ''EAI_AGAIN'']"

definition fatal_codes :: "string list" where
  "fatal_codes = [''ENOTFOUND'', ''ECONNREFUSED'', ''ERR_TLS_CERT_ALTNAME_INVALID'']"

definition code_of :: "redis_failure \<Rightarrow> string" where
  "code_of f = (case rf_code f of None \<Rightarrow> [] | Some c \<Rightarrow> c)"

definition is_auth_failure :: "redis_failure \<Rightarrow> bool" where
  "is_auth_failure f \<longleftrightarrow>
     (let message = to_upper (rf_message f)
      in str_includes ''NOAUTH'' message \<or> str_includes ''WRONGPASS'' message
         \<or> str_includes ''INVALID PASSWORD'' message \<or> str_includes ''AUTH FAILED'' message)"

record connection =
  has_connected :: bool
  consecutive_errors :: nat

definition classify_redis_error :: "redis_failure \<Rightarrow> connection \<Rightarrow> verdict" where
  "classify_redis_error f c =
     (if is_auth_failure f then \<lparr>vd_level = Lv_error, vd_reason = ''authentication''\<rparr>
      else let code = code_of f
      in if code \<in> set fatal_codes then \<lparr>vd_level = Lv_error, vd_reason = ''unreachable:'' @ code\<rparr>
      else if code \<in> set transient_codes
      then (if \<not> has_connected c then \<lparr>vd_level = Lv_error, vd_reason = ''never-connected''\<rparr>
            else if sustained_error_threshold \<le> consecutive_errors c then \<lparr>vd_level = Lv_error, vd_reason = ''sustained''\<rparr>
            else \<lparr>vd_level = Lv_debug, vd_reason = ''idle-reconnect''\<rparr>)
      else \<lparr>vd_level = Lv_warn, vd_reason = ''unclassified''\<rparr>)"

text \<open>The two listeners of \<open>attachDiagnostics\<close>: the new counters, and the level logged.\<close>

datatype connection_event = Ready | Failed redis_failure

fun on_event :: "connection_event \<Rightarrow> connection \<Rightarrow> log_level option \<times> connection" where
  "on_event Ready c = (None, \<lparr>has_connected = True, consecutive_errors = 0\<rparr>)"
| "on_event (Failed f) c =
     (let c1 = c\<lparr>consecutive_errors := Suc (consecutive_errors c)\<rparr>
      in (Some (vd_level (classify_redis_error f c1)), c1))"

fun diagnose :: "connection_event list \<Rightarrow> connection \<Rightarrow> log_level option list" where
  "diagnose [] c = []"
| "diagnose (e # es) c = (case on_event e c of (l, c1) \<Rightarrow> l # diagnose es c1)"

text \<open>A connection that has just come up.\<close>

definition connected_now :: connection where
  "connected_now = \<lparr>has_connected = True, consecutive_errors = 0\<rparr>"

definition transient :: "redis_failure \<Rightarrow> bool" where
  "transient f \<longleftrightarrow> \<not> is_auth_failure f \<and> code_of f \<in> set transient_codes"

lemma transient_not_fatal: "transient f \<Longrightarrow> code_of f \<notin> set fatal_codes"
  by (auto simp: transient_def transient_codes_def fatal_codes_def)

lemma diagnose_run:
  "\<forall>f \<in> set fs. transient f \<Longrightarrow>
   diagnose (map Failed fs) \<lparr>has_connected = True, consecutive_errors = n\<rparr> =
     map (\<lambda>i. Some (if 5 \<le> i then Lv_error else Lv_debug)) [Suc n..<Suc n + length fs]"
proof (induction fs arbitrary: n)
  case (Cons f fs)
  then have "transient f" by simp
  with transient_not_fatal [OF this] Cons show ?case
    by (auto simp: classify_redis_error_def sustained_error_threshold_def transient_def Let_def upt_conv_Cons
        simp del: upt_Suc)
qed simp

text \<open>
  Idle reconnects stay quiet and an outage does not: on a connection that has been up, the
  first four consecutive dropped-connection errors are logged at debug, the fifth and every
  later one at error, and coming up again starts the count over.
\<close>

theorem outage_is_reported_at_the_fifth_error:
  assumes "\<forall>f \<in> set fs. transient f"
  shows "diagnose (Ready # map Failed fs) c =
    None # map (\<lambda>i. Some (if 5 \<le> i then Lv_error else Lv_debug)) [1..<Suc (length fs)]"
  using diagnose_run [OF assms, of 0] by simp

theorem outage_is_reported_at_the_fifth_error_witness:
  "diagnose (Ready # map Failed (replicate 5 \<lparr>rf_code = Some ''EPIPE'', rf_message = ''boom''\<rparr>)) connected_now =
     [None, Some Lv_debug, Some Lv_debug, Some Lv_debug, Some Lv_debug, Some Lv_error]"
proof -
  have "transient \<lparr>rf_code = Some ''EPIPE'', rf_message = ''boom''\<rparr>" by code_simp
  then have "diagnose (Ready # map Failed (replicate 5 \<lparr>rf_code = Some ''EPIPE'', rf_message = ''boom''\<rparr>)) connected_now =
      None # map (\<lambda>i. Some (if 5 \<le> i then Lv_error else Lv_debug))
        [1..<Suc (length (replicate 5 \<lparr>rf_code = Some ''EPIPE'', rf_message = ''boom''\<rparr>))]"
    by (intro outage_is_reported_at_the_fifth_error) simp
  then show ?thesis by (simp add: upt_rec)
qed

end
