(* ===== verification/Accounts.thy ===== *)
theory Accounts
  imports Common_Utils
begin

text \<open>
  \<open>src/users/users.service.ts\<close>: the accounts themselves. Lookups, registration of an account
  with its profile in one transaction, the account code, the change of address, the soft
  delete. The table is under four unique indexes; a writing statement checks those a new or
  changed row can violate, in the order Postgres does.
\<close>

section \<open>Spellings\<close>

definition profile_table_by_role :: "user_role \<Rightarrow> string option" where
  "profile_table_by_role r = (case r of R_artist \<Rightarrow> Some ''artist_profiles''
     | R_planner \<Rightarrow> Some ''planner_profiles'' | R_admin \<Rightarrow> None)"

definition account_code_prefix :: "user_role \<Rightarrow> planner_kind option \<Rightarrow> string option \<Rightarrow> string" where
  "account_code_prefix r kind booker_type =
     (if r = R_artist then ''ART'' else if r = R_admin then ''ADM''
      else if kind \<noteq> Some K_company then ''PLN''
      else if booker_type = Some ''Venue'' then ''VEN'' else ''CMP'')"

definition normalize_email :: "string \<Rightarrow> string" where
  "normalize_email email = to_lower (js_trim email)"

lemma normalize_lower [simp]: "to_lower (normalize_email e) = normalize_email e"
  by (simp add: normalize_email_def)

lemma js_trim_idem [simp]: "js_trim (js_trim s) = js_trim s"
proof -
  let ?t = "dropWhile is_space s" and ?u = "rev (dropWhile is_space (rev (dropWhile is_space s)))"
  have "?t = ?u @ rev (takeWhile is_space (rev ?t))"
    by (metis rev_append rev_rev_ident takeWhile_dropWhile_id)
  then have "?u \<noteq> [] \<Longrightarrow> hd ?u = hd ?t" by (metis hd_append2)
  moreover have "?u \<noteq> [] \<Longrightarrow> ?t \<noteq> []" by (cases ?t) simp_all
  ultimately have "?u \<noteq> [] \<Longrightarrow> \<not> is_space (hd ?u)" by (metis hd_dropWhile)
  then have "dropWhile is_space ?u = ?u" by (metis dropWhile.simps(1) dropWhile_eq_self_iff)
  then show ?thesis by (simp add: js_trim_def)
qed

lemma normalize_idem [simp]: "normalize_email (normalize_email e) = normalize_email e"
  by (simp add: normalize_email_def trim_lower)

lemma prefix_length [simp]: "length (account_code_prefix r k b) = 3"
  by (simp add: account_code_prefix_def)

section \<open>Lookups\<close>

definition user_by_id :: "uuid \<Rightarrow> db \<Rightarrow> user_row option" where
  "user_by_id uid s = find (\<lambda>u. u_id u = uid) (users s)"

definition find_by_email :: "string \<Rightarrow> db \<Rightarrow> user_row option" where
  "find_by_email email s = find (\<lambda>u. to_lower (u_email u) = normalize_email email) (users s)"

definition find_by_oauth :: "string \<Rightarrow> string \<Rightarrow> db \<Rightarrow> user_row option" where
  "find_by_oauth provider uid s =
     (case concat (map (\<lambda>oa. filter (\<lambda>u. u_id u = oa_user_id oa) (users s))
             (filter (\<lambda>oa. oa_provider oa = provider \<and> oa_provider_uid oa = uid) (oauth_accounts s))) of
        [] \<Rightarrow> None | u # _ \<Rightarrow> Some u)"

record public_info =
  pb_id :: uuid
  pb_role :: user_role
  pb_display_name :: "string option"
  pb_thumbnail_url :: "string option"
  pb_profile_id :: "uuid option"

definition get_public_info :: "uuid \<Rightarrow> db \<Rightarrow> public_info result" where
  "get_public_info uid s =
     (case user_by_id uid s of
        None \<Rightarrow> Inl (NotFound ''User not found.'')
      | Some u \<Rightarrow>
          if u_role u = R_admin
          then Inr \<lparr>pb_id = uid, pb_role = R_admin, pb_display_name = None, pb_thumbnail_url = None, pb_profile_id = None\<rparr>
          else if u_role u = R_artist
          then (let p = find (\<lambda>p. ap_user_id p = uid) (artist_profiles s)
                in Inr \<lparr>pb_id = uid, pb_role = u_role u, pb_display_name = Option.bind p ap_display_name,
                     pb_thumbnail_url = Option.bind p ap_thumbnail_url, pb_profile_id = map_option ap_id p\<rparr>)
          else (let p = find (\<lambda>p. pp_user_id p = uid) (planner_profiles s)
                in Inr \<lparr>pb_id = uid, pb_role = u_role u, pb_display_name = Option.bind p pp_display_name,
                     pb_thumbnail_url = Option.bind p pp_thumbnail_url, pb_profile_id = map_option pp_id p\<rparr>))"

section \<open>Registration\<close>

record new_account =
  na_email :: string
  na_password_hash :: "string option"
  na_role :: user_role
  na_phone :: "string option"
  na_planner_kind :: "planner_kind option"
  na_booker_type :: "string option"
  na_interests :: "booker_interest list option"

definition generate_account_code :: "user_role \<Rightarrow> planner_kind option \<Rightarrow> string option \<Rightarrow> db \<Rightarrow> string" where
  "generate_account_code r kind booker_type s =
     account_code_prefix r kind booker_type @ ''-''
       @ pad_left 6 (show_nat (aggregate_value (Some (length (filter (\<lambda>u. u_role u = r) (users s)))) + 1))"

definition new_user :: "clock \<Rightarrow> new_account \<Rightarrow> string \<Rightarrow> string \<Rightarrow> uuid \<Rightarrow> user_row" where
  "new_user ck d email code uid =
     \<lparr>u_id = uid, u_email = email, u_phone = na_phone d, u_password_hash = na_password_hash d, u_role = na_role d,
      u_status = U_pending_review, u_account_code = code, u_email_verified_at = None, u_phone_verified_at = None,
      u_last_login_at = None, u_created_at = db_now ck, u_deleted_at = None, u_pending_email = None\<rparr>"

text \<open>
  The insert and the handler around it: on a violated index the service answers by the name of
  the constraint.
\<close>

definition insert_user :: "clock \<Rightarrow> new_account \<Rightarrow> string \<Rightarrow> string \<Rightarrow> db \<Rightarrow> user_row result \<times> db" where
  "insert_user ck d email code s =
     (if list_ex (\<lambda>u. u_email u = email) (users s)
      then (Inl (Conflict ''An account with this email already exists.''), s)
      else if list_ex (\<lambda>u. u_account_code u = code) (users s)
      then (Inl (Conflict ''Two accounts were created at the same moment. Please try again.''), s)
      else if list_ex (\<lambda>u. to_lower (u_email u) = to_lower email) (users s)
      then (Inl (Conflict ''An account with this email already exists.''), s)
      else (let u = new_user ck d email code (next_id s)
            in (Inr u, s\<lparr>users := users s @ [u], next_id := Suc (next_id s)\<rparr>)))"

text \<open>\<open>[...new Set(xs)]\<close> keeps the first of equal values.\<close>

fun js_set :: "'a list \<Rightarrow> 'a list" where
  "js_set [] = []"
| "js_set (x # xs) = x # filter (\<lambda>y. y \<noteq> x) (js_set xs)"

lemma js_set_distinct [simp]: "distinct (js_set xs)" and js_set_set [simp]: "set (js_set xs) = set xs"
proof -
  show "set (js_set xs) = set xs" by (induction xs) auto
  show "distinct (js_set xs)" by (induction xs) auto
qed

definition insert_profile :: "clock \<Rightarrow> new_account \<Rightarrow> uuid \<Rightarrow> db \<Rightarrow> db" where
  "insert_profile ck d uid s =
     (case na_role d of
        R_admin \<Rightarrow> s
      | R_artist \<Rightarrow>
          s\<lparr>artist_profiles := artist_profiles s @ [default_artist_profile (next_id s) uid (db_now ck)],
            next_id := Suc (next_id s)\<rparr>
      | R_planner \<Rightarrow>
          (let pid = next_id s;
               p = (default_planner_profile pid uid (db_now ck))\<lparr>pp_kind := na_planner_kind d, pp_booker_type := na_booker_type d\<rparr>
           in s\<lparr>planner_profiles := planner_profiles s @ [p], next_id := Suc pid,
                planner_interests := planner_interests s
                  @ map (\<lambda>i. \<lparr>pi_planner_profile_id = pid, pi_interest = i\<rparr>)
                      (case na_interests d of None \<Rightarrow> [] | Some xs \<Rightarrow> js_set xs)\<rparr>))"

text \<open>The transaction, once the address was looked up and the code drawn.\<close>

definition create_account :: "clock \<Rightarrow> new_account \<Rightarrow> string \<Rightarrow> string \<Rightarrow> db \<Rightarrow> user_row result \<times> db" where
  "create_account ck d email code s =
     (case insert_user ck d email code s of
        (Inl e, _) \<Rightarrow> (Inl e, s)
      | (Inr u, s1) \<Rightarrow> (Inr u, insert_profile ck d (u_id u) s1))"

definition user_create :: "clock \<Rightarrow> new_account \<Rightarrow> db \<Rightarrow> user_row result \<times> db" where
  "user_create ck d s =
     (let email = normalize_email (na_email d)
      in case find_by_email email s of
           Some _ \<Rightarrow> (Inl (Conflict ''An account with this email already exists.''), s)
         | None \<Rightarrow> create_account ck d email
             (generate_account_code (na_role d) (na_planner_kind d) (na_booker_type d) s) s)"

definition link_oauth_account :: "uuid \<Rightarrow> string \<Rightarrow> string \<Rightarrow> db \<Rightarrow> db" where
  "link_oauth_account uid provider puid s =
     (if list_ex (\<lambda>oa. oa_provider oa = provider \<and> oa_provider_uid oa = puid) (oauth_accounts s) then s
      else s\<lparr>oauth_accounts := oauth_accounts s @ [\<lparr>oa_user_id = uid, oa_provider = provider, oa_provider_uid = puid\<rparr>]\<rparr>)"

section \<open>Updates\<close>

definition set_user :: "uuid \<Rightarrow> (user_row \<Rightarrow> user_row) \<Rightarrow> db \<Rightarrow> db" where
  "set_user uid f s = s\<lparr>users := update_where (\<lambda>u. u_id u = uid) f (users s)\<rparr>"

definition mark_email_verified :: "clock \<Rightarrow> uuid \<Rightarrow> db \<Rightarrow> db" where
  "mark_email_verified ck uid s = set_user uid (\<lambda>u. u\<lparr>u_email_verified_at := Some (db_now ck)\<rparr>) s"

definition mark_phone_verified :: "clock \<Rightarrow> uuid \<Rightarrow> db \<Rightarrow> db" where
  "mark_phone_verified ck uid s = set_user uid (\<lambda>u. u\<lparr>u_phone_verified_at := Some (db_now ck)\<rparr>) s"

definition update_phone :: "uuid \<Rightarrow> string \<Rightarrow> db \<Rightarrow> db" where
  "update_phone uid phone s = set_user uid (\<lambda>u. u\<lparr>u_phone := Some phone\<rparr>) s"

definition update_password :: "uuid \<Rightarrow> string \<Rightarrow> db \<Rightarrow> db" where
  "update_password uid h s = set_user uid (\<lambda>u. u\<lparr>u_password_hash := Some h\<rparr>) s"

definition set_pending_email :: "uuid \<Rightarrow> string \<Rightarrow> db \<Rightarrow> db" where
  "set_pending_email uid email s = set_user uid (\<lambda>u. u\<lparr>u_pending_email := Some (normalize_email email)\<rparr>) s"

text \<open>Writing an address: the two unique indexes against every other row.\<close>

definition address_free :: "uuid \<Rightarrow> string \<Rightarrow> db \<Rightarrow> bool" where
  "address_free uid email s \<longleftrightarrow> \<not> list_ex (\<lambda>u. u_id u \<noteq> uid \<and> to_lower (u_email u) = to_lower email) (users s)"

definition write_email :: "uuid \<Rightarrow> string \<Rightarrow> (user_row \<Rightarrow> user_row) \<Rightarrow> db \<Rightarrow> unit result \<times> db" where
  "write_email uid email f s =
     (if list_ex (\<lambda>u. u_id u = uid) (users s) \<and> \<not> address_free uid email s then (Inl unique_violation, s)
      else (Inr (), set_user uid (\<lambda>u. (f u)\<lparr>u_email := email\<rparr>) s))"

definition apply_pending_email :: "clock \<Rightarrow> uuid \<Rightarrow> string \<Rightarrow> db \<Rightarrow> unit result \<times> db" where
  "apply_pending_email ck uid email s =
     (case write_email uid (normalize_email email)
             (\<lambda>u. u\<lparr>u_pending_email := None, u_email_verified_at := Some (db_now ck)\<rparr>) s of
        (Inl e, s1) \<Rightarrow> (Inl (Conflict ''That email is already in use by another account.''), s1)
      | (Inr _, s1) \<Rightarrow> (Inr (), s1))"

definition deleted_address :: "uuid \<Rightarrow> string" where
  "deleted_address uid = ''deleted-'' @ show_nat uid @ ''@deleted.aynu.local''"

definition soft_delete_account :: "clock \<Rightarrow> uuid \<Rightarrow> db \<Rightarrow> unit result \<times> db" where
  "soft_delete_account ck uid s =
     write_email uid (deleted_address uid) (\<lambda>u. u\<lparr>u_status := U_banned, u_deleted_at := Some (db_now ck)\<rparr>) s"

definition update_status :: "uuid \<Rightarrow> user_status \<Rightarrow> db \<Rightarrow> db" where
  "update_status uid st s = set_user uid (\<lambda>u. u\<lparr>u_status := st\<rparr>) s"

definition update_last_login :: "clock \<Rightarrow> uuid \<Rightarrow> db \<Rightarrow> db" where
  "update_last_login ck uid s = set_user uid (\<lambda>u. u\<lparr>u_last_login_at := Some (db_now ck)\<rparr>) s"

lemmas account_op_defs [op_defs] =
  insert_user_def insert_profile_def create_account_def user_create_def link_oauth_account_def set_user_def
  mark_email_verified_def mark_phone_verified_def update_phone_def update_password_def set_pending_email_def
  write_email_def apply_pending_email_def soft_delete_account_def update_status_def update_last_login_def

end
