(* ===== verification/Account_Rules.thy ===== *)
theory Account_Rules
  imports Accounts
begin

text \<open>
  What the account table promises over any sequence of registrations and changes: addresses
  unique whatever their case, account codes unique and counted per role across all prefixes,
  and no account of a role without its profile.
\<close>

section \<open>Account codes\<close>

definition account_code :: "string \<Rightarrow> nat \<Rightarrow> string" where
  "account_code prefix n = prefix @ ''-'' @ pad_left 6 (show_nat n)"

definition code_seq :: "string \<Rightarrow> nat" where
  "code_seq code = read_nat (drop 4 code)"

definition prefixes :: "user_role \<Rightarrow> string list" where
  "prefixes r = (case r of R_artist \<Rightarrow> [''ART''] | R_admin \<Rightarrow> [''ADM''] | R_planner \<Rightarrow> [''PLN'', ''CMP'', ''VEN''])"

lemma code_seq_code [simp]: "length p = 3 \<Longrightarrow> code_seq (account_code p n) = n"
  by (simp add: code_seq_def account_code_def)

lemma prefix_of_role: "account_code_prefix r k b \<in> set (prefixes r)"
  by (cases r) (auto simp: account_code_prefix_def prefixes_def)

lemma prefixes_apart: "p \<in> set (prefixes r) \<Longrightarrow> p \<in> set (prefixes q) \<Longrightarrow> r = q"
  by (cases r; cases q) (auto simp: prefixes_def)

lemma prefixes_length: "p \<in> set (prefixes r) \<Longrightarrow> length p = 3"
  by (cases r) (auto simp: prefixes_def)

definition of_role :: "user_role \<Rightarrow> user_row list \<Rightarrow> user_row list" where
  "of_role r us = filter (\<lambda>u. u_role u = r) us"

lemma generated_code:
  "generate_account_code r k b s = account_code (account_code_prefix r k b) (Suc (length (of_role r (users s))))"
  by (simp add: generate_account_code_def account_code_def aggregate_value_def of_role_def)

definition codes_ok :: "user_row list \<Rightarrow> bool" where
  "codes_ok us \<longleftrightarrow>
     (\<forall>r. map (code_seq \<circ> u_account_code) (of_role r us) = [1..<Suc (length (of_role r us))])
     \<and> (\<forall>u \<in> set us. \<exists>p \<in> set (prefixes (u_role u)). u_account_code u = account_code p (code_seq (u_account_code u)))"

lemma codes_unique:
  assumes "codes_ok us"
  shows "distinct (map u_account_code us)"
proof -
  have canon: "\<exists>p \<in> set (prefixes (u_role u)). u_account_code u = account_code p (code_seq (u_account_code u))"
    if "u \<in> set us" for u using assms that by (auto simp: codes_ok_def)
  have seqs: "distinct (map (code_seq \<circ> u_account_code) (of_role r us))" for r
    using assms by (simp add: codes_ok_def del: upt_Suc)
  have "u_role u = u_role v" if "u \<in> set us" "v \<in> set us" "u_account_code u = u_account_code v" for u v
  proof -
    from canon [OF that(1)] canon [OF that(2)] obtain p q where
      p: "p \<in> set (prefixes (u_role u))" "u_account_code u = account_code p (code_seq (u_account_code u))"
      and q: "q \<in> set (prefixes (u_role v))" "u_account_code v = account_code q (code_seq (u_account_code v))" by blast
    from p(2) q(2) that(3) have "take 3 (u_account_code u) = p" "take 3 (u_account_code v) = q"
      using prefixes_length [OF p(1)] prefixes_length [OF q(1)]
      by (metis account_code_def append_eq_conv_conj)+
    with that(3) p(1) q(1) show ?thesis using prefixes_apart by metis
  qed
  with seqs show ?thesis
  proof (induction us)
    case (Cons u us)
    have "u_account_code v \<noteq> u_account_code u" if "v \<in> set us" for v
    proof
      assume eq: "u_account_code v = u_account_code u"
      with Cons.prems(2) [of v u] that have "u_role v = u_role u" by simp
      with that have "v \<in> set (of_role (u_role u) us)" by (simp add: of_role_def)
      then have "code_seq (u_account_code u) \<in> set (map (code_seq \<circ> u_account_code) (of_role (u_role u) us))"
        unfolding set_map by (rule rev_image_eqI) (simp add: eq)
      with Cons.prems(1) [of "u_role u"] show False by (simp add: of_role_def)
    qed
    then have "u_account_code u \<notin> u_account_code ` set us" by (metis imageE)
    moreover have "distinct (map u_account_code us)"
    proof (rule Cons.IH)
      show "distinct (map (code_seq \<circ> u_account_code) (of_role r us))" for r
        using Cons.prems(1) [of r] by (cases "u_role u = r") (simp_all add: of_role_def comp_def)
      show "u_role v = u_role w" if "v \<in> set us" "w \<in> set us" "u_account_code v = u_account_code w" for v w
        using Cons.prems(2) [of v w] that by simp
    qed
    ultimately show ?case by simp
  qed simp
qed

lemma codes_ok_append:
  assumes "codes_ok us" and "u_role u = r" and "p \<in> set (prefixes r)"
    and "u_account_code u = account_code p (Suc (length (of_role r us)))"
  shows "codes_ok (us @ [u])"
proof -
  have "map (code_seq \<circ> u_account_code) (of_role q (us @ [u])) = [1..<Suc (length (of_role q (us @ [u])))]" for q
  proof (cases "q = r")
    case True
    with assms(1,2) have "of_role q (us @ [u]) = of_role r us @ [u]" by (simp add: of_role_def)
    moreover have "map (code_seq \<circ> u_account_code) (of_role r us) = [1..<Suc (length (of_role r us))]"
      using assms(1) by (simp add: codes_ok_def del: upt_Suc)
    ultimately show ?thesis using assms(4) prefixes_length [OF assms(3)] by simp
  next
    case False
    with assms(1,2) show ?thesis by (auto simp: codes_ok_def of_role_def simp del: upt_Suc)
  qed
  moreover have "\<exists>p \<in> set (prefixes (u_role v)). u_account_code v = account_code p (code_seq (u_account_code v))"
    if "v \<in> set (us @ [u])" for v
    using assms that prefixes_length [OF assms(3)] by (auto simp: codes_ok_def)
  ultimately show ?thesis by (simp only: codes_ok_def) blast
qed

lemma codes_ok_update:
  assumes "codes_ok us" and "\<And>u. u_role (f u) = u_role u" "\<And>u. u_account_code (f u) = u_account_code u"
  shows "codes_ok (update_where P f us)"
proof -
  have of_role: "of_role r (update_where P f us) = update_where P f (of_role r us)" for r
    unfolding of_role_def by (induction us) (auto simp: assms)
  have "map (code_seq \<circ> u_account_code) (update_where P f xs) = map (code_seq \<circ> u_account_code) xs" for xs
    by (rule map_update_where_same) (simp add: assms)
  with assms show ?thesis by (auto simp: codes_ok_def of_role table_simps simp del: upt_Suc)
qed

section \<open>The invariant\<close>

definition profiles_ok :: "db \<Rightarrow> bool" where
  "profiles_ok s \<longleftrightarrow>
     (\<forall>u \<in> set (users s).
        length (filter (\<lambda>p. ap_user_id p = u_id u) (artist_profiles s)) = (if u_role u = R_artist then 1 else 0)
        \<and> length (filter (\<lambda>p. pp_user_id p = u_id u) (planner_profiles s)) = (if u_role u = R_planner then 1 else 0))
     \<and> (\<forall>p \<in> set (artist_profiles s). ap_user_id p < next_id s)
     \<and> (\<forall>p \<in> set (planner_profiles s). pp_user_id p < next_id s)"

definition users_ok :: "db \<Rightarrow> bool" where
  "users_ok s \<longleftrightarrow> distinct (map u_id (users s)) \<and> (\<forall>u \<in> set (users s). u_id u < next_id s)
     \<and> distinct (map (to_lower \<circ> u_email) (users s)) \<and> codes_ok (users s)"

definition accounts_ok :: "db \<Rightarrow> bool" where
  "accounts_ok s \<longleftrightarrow> users_ok s \<and> profiles_ok s"

lemma insert_profile_frame [simp]: "users (insert_profile ck d uid s) = users s"
  by (simp add: insert_profile_def Let_def split: user_role.split)

lemma user_create_cases:
  assumes "user_create ck d s = (r, t)"
  obtains (refused) e where "r = Inl e" "t = s"
    | (stored) u where "r = Inr u" "u = new_user ck d (normalize_email (na_email d))
          (generate_account_code (na_role d) (na_planner_kind d) (na_booker_type d) s) (next_id s)"
        "t = insert_profile ck d (next_id s) (s\<lparr>users := users s @ [u], next_id := Suc (next_id s)\<rparr>)"
        "\<forall>v \<in> set (users s). to_lower (u_email v) \<noteq> normalize_email (na_email d)"
proof (cases "find_by_email (normalize_email (na_email d)) s")
  case None
  then have free: "\<forall>v \<in> set (users s). to_lower (u_email v) \<noteq> normalize_email (na_email d)"
    by (auto simp: find_by_email_def find_None_iff)
  obtain r' t' where i: "insert_user ck d (normalize_email (na_email d))
      (generate_account_code (na_role d) (na_planner_kind d) (na_booker_type d) s) s = (r', t')" by (meson surj_pair)
  show ?thesis
  proof (cases r')
    case (Inl e)
    with assms None i show ?thesis by (intro refused) (auto simp: user_create_def create_account_def)
  next
    case (Inr u)
    with i have "u = new_user ck d (normalize_email (na_email d))
          (generate_account_code (na_role d) (na_planner_kind d) (na_booker_type d) s) (next_id s)"
      "t' = s\<lparr>users := users s @ [u], next_id := Suc (next_id s)\<rparr>"
      by (auto simp: insert_user_def Let_def split: if_splits)
    moreover have "user_create ck d s = (Inr u, insert_profile ck d (u_id u) t')"
      using None i Inr by (simp add: user_create_def create_account_def)
    moreover from calculation(1) have "u_id u = next_id s" by (simp add: new_user_def)
    ultimately show ?thesis using assms free by (intro stored [of u]) simp_all
  qed
next
  case (Some v)
  with assms show ?thesis by (intro refused) (auto simp: user_create_def)
qed

lemma users_ok_create: "users_ok s \<Longrightarrow> users_ok (snd (user_create ck d s))"
proof -
  assume ok: "users_ok s"
  obtain r t where c: "user_create ck d s = (r, t)" by (meson surj_pair)
  then show ?thesis
  proof (cases rule: user_create_cases)
    case (stored u)
    have "next_id s \<le> next_id (snd (user_create ck d s))"
      using stored(3) by (simp add: c insert_profile_def Let_def split: user_role.split)
    have "Suc (next_id s) \<le> next_id t"
      using stored(3) by (simp add: insert_profile_def Let_def split: user_role.split)
    moreover have "users t = users s @ [u]" by (simp add: stored(3))
    moreover have "codes_ok (users s @ [u])"
      using ok by (intro codes_ok_append [where p = "account_code_prefix (na_role d) (na_planner_kind d) (na_booker_type d)"])
        (auto simp: users_ok_def stored(2) new_user_def prefix_of_role generated_code)
    moreover have "u_id u = next_id s" "to_lower (u_email u) = normalize_email (na_email d)"
      by (simp_all add: stored(2) new_user_def)
    ultimately show ?thesis using ok stored(4) by (auto simp: users_ok_def c)
  qed (simp add: c ok)
qed

lemma profiles_ok_create: "accounts_ok s \<Longrightarrow> profiles_ok (snd (user_create ck d s))"
proof -
  assume ok: "accounts_ok s"
  obtain r t where c: "user_create ck d s = (r, t)" by (meson surj_pair)
  then show ?thesis
  proof (cases rule: user_create_cases)
    case refused
    with ok show ?thesis by (simp add: c accounts_ok_def)
  next
    case (stored u)
    let ?n = "next_id s"
    have u: "u_id u = ?n" "u_role u = na_role d" by (simp_all add: stored(2) new_user_def)
    have lt: "u_id v < ?n" if "v \<in> set (users s)" for v using that ok by (auto simp: accounts_ok_def users_ok_def)
    have "filter (\<lambda>p. ap_user_id p = ?n) (artist_profiles s) = []" "filter (\<lambda>p. pp_user_id p = ?n) (planner_profiles s) = []"
      using ok by (auto simp: accounts_ok_def profiles_ok_def filter_empty_conv)
    moreover have "\<forall>v \<in> set (users s). u_id v \<noteq> ?n" using lt by (metis less_irrefl)
    ultimately show ?thesis using ok u
      by (cases "na_role d")
         (auto simp: c stored(3) accounts_ok_def profiles_ok_def insert_profile_def default_artist_profile_def
           default_planner_profile_def Let_def less_SucI)
  qed
qed

lemma users_ok_set_user:
  assumes "users_ok s" and "\<And>u. u_id (f u) = u_id u" "\<And>u. u_role (f u) = u_role u"
    "\<And>u. u_account_code (f u) = u_account_code u" "\<And>u. u_email (f u) = u_email u"
  shows "users_ok (set_user uid f s)"
  using assms codes_ok_update [of "users s" f "\<lambda>u. u_id u = uid"]
    map_update_where_same [of u_id f "\<lambda>u. u_id u = uid" "users s"]
    map_update_where_same [of "to_lower \<circ> u_email" f "\<lambda>u. u_id u = uid" "users s"]
  by (auto simp: users_ok_def set_user_def table_simps)

lemma distinct_update_one:
  assumes "distinct (map g xs)" and "distinct (map key xs)"
    and "\<And>x y. x \<in> set xs \<Longrightarrow> y \<in> set xs \<Longrightarrow> key x = k \<Longrightarrow> key y \<noteq> k \<Longrightarrow> g (f x) \<noteq> g y"
  shows "distinct (map g (update_where (\<lambda>x. key x = k) f xs))"
  using assms
proof (induction xs)
  case (Cons x xs)
  show ?case
  proof (cases "key x = k")
    case True
    have others: "key y \<noteq> k" if "y \<in> set xs" for y
      using Cons.prems(2) True imageI [OF that, of key] by auto
    then have "update_where (\<lambda>x. key x = k) f xs = xs" by (intro update_where_none) simp
    moreover have "g (f x) \<notin> g ` set xs" using Cons.prems(3) [of x] True others by fastforce
    ultimately show ?thesis using True Cons.prems(1) by simp
  next
    case False
    have "g y \<noteq> g x" if "y \<in> set (update_where (\<lambda>x. key x = k) f xs)" for y
    proof -
      from that obtain z where z: "z \<in> set xs" "y = (if key z = k then f z else z)" by (auto simp: table_simps)
      have "g z \<noteq> g x" using Cons.prems(1) z(1) by (auto simp: rev_image_eqI)
      with z Cons.prems(3) [of z x] False show ?thesis by auto
    qed
    moreover have "distinct (map g (update_where (\<lambda>x. key x = k) f xs))"
      using Cons.prems by (intro Cons.IH) auto
    ultimately show ?thesis using False by (auto simp: image_iff) metis
  qed
qed simp

lemma users_ok_write_email:
  assumes "users_ok s" and "\<And>u. u_id (f u) = u_id u" "\<And>u. u_role (f u) = u_role u"
    "\<And>u. u_account_code (f u) = u_account_code u"
  shows "users_ok (snd (write_email uid email f s))"
proof (cases "list_ex (\<lambda>u. u_id u = uid) (users s) \<and> \<not> address_free uid email s")
  case False
  let ?f = "\<lambda>u. (f u)\<lparr>u_email := email\<rparr>"
  have "distinct (map (to_lower \<circ> u_email) (update_where (\<lambda>u. u_id u = uid) ?f (users s)))"
    using assms(1) False
    by (intro distinct_update_one) (auto simp: users_ok_def address_free_def list_ex_iff)
  then show ?thesis
    using False assms codes_ok_update [of "users s" ?f "\<lambda>u. u_id u = uid"]
      map_update_where_same [of u_id ?f "\<lambda>u. u_id u = uid" "users s"]
    by (auto simp: users_ok_def write_email_def set_user_def table_simps)
qed (simp add: write_email_def assms)

lemma set_user_profiles [simp]:
  "artist_profiles (set_user uid f s) = artist_profiles s" "planner_profiles (set_user uid f s) = planner_profiles s"
  "next_id (set_user uid f s) = next_id s"
  by (simp_all add: set_user_def)

lemma profiles_ok_set_user:
  assumes "profiles_ok s" and "\<And>u. u_id (f u) = u_id u" "\<And>u. u_role (f u) = u_role u"
  shows "profiles_ok (set_user uid f s)"
  using assms by (auto simp: profiles_ok_def set_user_def table_simps)

lemma profiles_ok_write_email:
  assumes "profiles_ok s" and "\<And>u. u_id (f u) = u_id u" "\<And>u. u_role (f u) = u_role u"
  shows "profiles_ok (snd (write_email uid email f s))"
  using assms profiles_ok_set_user [of s "\<lambda>u. (f u)\<lparr>u_email := email\<rparr>" uid] by (simp add: write_email_def)

lemma accounts_ok_set_user:
  assumes "accounts_ok s" and "\<And>u. u_id (f u) = u_id u" "\<And>u. u_role (f u) = u_role u"
    "\<And>u. u_account_code (f u) = u_account_code u" "\<And>u. u_email (f u) = u_email u"
  shows "accounts_ok (set_user uid f s)"
  using assms users_ok_set_user [of s f uid] profiles_ok_set_user [of s f uid] by (simp add: accounts_ok_def)

lemma accounts_ok_write_email:
  assumes "accounts_ok s" and "\<And>u. u_id (f u) = u_id u" "\<And>u. u_role (f u) = u_role u"
    "\<And>u. u_account_code (f u) = u_account_code u"
  shows "accounts_ok (snd (write_email uid email f s))"
  using assms users_ok_write_email [of s f uid email] profiles_ok_write_email [of s f uid email]
  by (simp add: accounts_ok_def)

section \<open>Every sequence of account operations\<close>

datatype account_op =
    Op_register new_account
  | Op_email_verified uuid
  | Op_phone uuid string
  | Op_phone_verified uuid
  | Op_password uuid string
  | Op_pending_email uuid string
  | Op_apply_email uuid string
  | Op_soft_delete uuid
  | Op_status uuid user_status
  | Op_last_login uuid
  | Op_link uuid string string

fun run_account_op :: "clock \<Rightarrow> account_op \<Rightarrow> db \<Rightarrow> db" where
  "run_account_op ck (Op_register d) s = snd (user_create ck d s)"
| "run_account_op ck (Op_email_verified uid) s = mark_email_verified ck uid s"
| "run_account_op ck (Op_phone uid p) s = update_phone uid p s"
| "run_account_op ck (Op_phone_verified uid) s = mark_phone_verified ck uid s"
| "run_account_op ck (Op_password uid h) s = update_password uid h s"
| "run_account_op ck (Op_pending_email uid e) s = set_pending_email uid e s"
| "run_account_op ck (Op_apply_email uid e) s = snd (apply_pending_email ck uid e s)"
| "run_account_op ck (Op_soft_delete uid) s = snd (soft_delete_account ck uid s)"
| "run_account_op ck (Op_status uid st) s = update_status uid st s"
| "run_account_op ck (Op_last_login uid) s = update_last_login ck uid s"
| "run_account_op ck (Op_link uid p q) s = link_oauth_account uid p q s"

fun run_account_ops :: "(clock \<times> account_op) list \<Rightarrow> db \<Rightarrow> db" where
  "run_account_ops [] s = s"
| "run_account_ops ((ck, op) # ops) s = run_account_ops ops (run_account_op ck op s)"

lemma accounts_ok_create: "accounts_ok s \<Longrightarrow> accounts_ok (snd (user_create ck d s))"
  using users_ok_create profiles_ok_create by (auto simp: accounts_ok_def)

lemma accounts_ok_link: "accounts_ok s \<Longrightarrow> accounts_ok (link_oauth_account uid p q s)"
  by (simp add: link_oauth_account_def accounts_ok_def users_ok_def profiles_ok_def)

lemma snd_apply_pending:
  "snd (apply_pending_email ck uid e s) = snd (write_email uid (normalize_email e)
     (\<lambda>u. u\<lparr>u_pending_email := None, u_email_verified_at := Some (db_now ck)\<rparr>) s)"
  by (simp add: apply_pending_email_def split: prod.split sum.split)

lemma accounts_ok_step: "accounts_ok s \<Longrightarrow> accounts_ok (run_account_op ck op s)"
  by (cases op)
     (auto simp: mark_email_verified_def update_phone_def mark_phone_verified_def update_password_def
        set_pending_email_def soft_delete_account_def update_status_def update_last_login_def snd_apply_pending
       intro!: accounts_ok_create accounts_ok_link accounts_ok_set_user accounts_ok_write_email)

lemma accounts_ok_run: "accounts_ok s \<Longrightarrow> accounts_ok (run_account_ops ops s)"
  by (induction ops s rule: run_account_ops.induct) (simp_all add: accounts_ok_step)

lemma accounts_ok_unique:
  assumes "accounts_ok s" and "u \<in> set (users s)" "v \<in> set (users s)" "u \<noteq> v"
  shows "to_lower (u_email u) \<noteq> to_lower (u_email v)" and "u_account_code u \<noteq> u_account_code v"
proof -
  have "distinct (map (to_lower \<circ> u_email) (users s))" and "codes_ok (users s)"
    using assms(1) by (auto simp: accounts_ok_def users_ok_def)
  then show "to_lower (u_email u) \<noteq> to_lower (u_email v)" and "u_account_code u \<noteq> u_account_code v"
    using assms(2-) distinct_key_eq [of "to_lower \<circ> u_email" "users s" u v]
      distinct_key_eq [OF codes_unique, of "users s" u v] by auto
qed

section \<open>What the account table promises\<close>

text \<open>
  C15: registration, verification, password and address changes, moderation, sign-in linking and
  account deletion, in any order and with any input, keep the account table sound: no two
  accounts, deleted ones included, answer to the same address in any case or to the same account
  code, codes are numbered without a gap within a role, and every artist and planner has exactly
  one profile row of its kind.
\<close>

theorem accounts_stay_sound:
  assumes "accounts_ok s"
  shows "accounts_ok (run_account_ops ops s)
    \<and> (\<forall>u \<in> set (users (run_account_ops ops s)). \<forall>v \<in> set (users (run_account_ops ops s)). u \<noteq> v \<longrightarrow>
          to_lower (u_email u) \<noteq> to_lower (u_email v) \<and> u_account_code u \<noteq> u_account_code v)"
  using accounts_ok_run [OF assms] accounts_ok_unique [OF accounts_ok_run [OF assms]] by auto

definition demo_signup :: "string \<Rightarrow> user_role \<Rightarrow> new_account" where
  "demo_signup email r = \<lparr>na_email = email, na_password_hash = None, na_role = r, na_phone = None,
     na_planner_kind = None, na_booker_type = None, na_interests = None\<rparr>"

definition signup_clock :: clock where
  "signup_clock = \<lparr>db_now = 1, js_now = 1\<rparr>"

lemma demo_signup_email [simp]: "na_email (demo_signup e r) = e"
  by (simp add: demo_signup_def)

lemma empty_accounts_ok: "accounts_ok empty_db"
  by (simp add: accounts_ok_def users_ok_def profiles_ok_def codes_ok_def of_role_def empty_db_def)

theorem accounts_stay_sound_witness:
  "accounts_ok (run_account_ops
     [(\<lparr>db_now = 1, js_now = 1\<rparr>, Op_register (demo_signup '' Ana@x.org'' R_artist)),
      (\<lparr>db_now = 2, js_now = 2\<rparr>, Op_register (demo_signup ''ANA@x.org'' R_planner)),
      (\<lparr>db_now = 3, js_now = 3\<rparr>, Op_soft_delete 0)] empty_db)"
  by (rule accounts_stay_sound [OF empty_accounts_ok, THEN conjunct1])

lemma code_is_fresh:
  assumes "accounts_ok s"
  shows "\<forall>u \<in> set (users s). u_account_code u \<noteq> generate_account_code r k b s"
proof
  fix u assume u: "u \<in> set (users s)"
  have ok: "codes_ok (users s)" using assms by (simp add: accounts_ok_def users_ok_def)
  let ?n = "Suc (length (of_role r (users s)))" and ?p = "account_code_prefix r k b"
  obtain p where p: "p \<in> set (prefixes (u_role u))" "u_account_code u = account_code p (code_seq (u_account_code u))"
    using ok u by (auto simp: codes_ok_def)
  show "u_account_code u \<noteq> generate_account_code r k b s"
  proof
    assume eq: "u_account_code u = generate_account_code r k b s"
    then have code: "u_account_code u = account_code ?p ?n" by (simp add: generated_code)
    then have seq: "code_seq (u_account_code u) = ?n" by simp
    have "p = take 3 (u_account_code u)" using prefixes_length [OF p(1)] p(2) by (metis account_code_def append_eq_conv_conj)
    also have "\<dots> = ?p" by (simp add: code account_code_def)
    finally have "u_role u = r" using p(1) prefix_of_role prefixes_apart by metis
    with u have "code_seq (u_account_code u) \<in> set (map (code_seq \<circ> u_account_code) (of_role r (users s)))"
      by (auto simp: of_role_def)
    moreover have "map (code_seq \<circ> u_account_code) (of_role r (users s)) = [1..<?n]"
      using ok by (simp only: codes_ok_def)
    ultimately show False using seq by simp
  qed
qed

lemma tombstone_trim: "js_trim (deleted_address n) = deleted_address n"
  by (simp add: js_trim_def deleted_address_def is_space_def)

lemma create_when_free:
  fixes d :: new_account
  defines "e \<equiv> normalize_email (na_email d)"
    and "code \<equiv> generate_account_code (na_role d) (na_planner_kind d) (na_booker_type d)"
  assumes "accounts_ok s" and "\<forall>v \<in> set (users s). to_lower (u_email v) \<noteq> e"
  shows "create_account ck d e (code s) s =
      (Inr (new_user ck d e (code s) (next_id s)),
       insert_profile ck d (next_id s) (s\<lparr>users := users s @ [new_user ck d e (code s) (next_id s)], next_id := Suc (next_id s)\<rparr>))"
    and "user_create ck d s = create_account ck d e (code s) s"
proof -
  have lower: "to_lower e = e" by (simp add: e_def)
  have "\<not> list_ex (\<lambda>u. u_email u = e) (users s)" using assms(4) lower by (auto simp: list_ex_iff)
  moreover have "\<not> list_ex (\<lambda>u. to_lower (u_email u) = to_lower e) (users s)"
    using assms(4) lower by (auto simp: list_ex_iff)
  moreover have "\<not> list_ex (\<lambda>u. u_account_code u = code s) (users s)"
    using code_is_fresh [OF assms(3)] by (auto simp: list_ex_iff code_def)
  ultimately show "create_account ck d e (code s) s =
      (Inr (new_user ck d e (code s) (next_id s)),
       insert_profile ck d (next_id s) (s\<lparr>users := users s @ [new_user ck d e (code s) (next_id s)], next_id := Suc (next_id s)\<rparr>))"
    by (simp add: create_account_def insert_user_def Let_def new_user_def)
  have "find_by_email e s = None"
    using assms(4) by (auto simp: find_by_email_def find_None_iff e_def)
  then show "user_create ck d s = create_account ck d e (code s) s"
    by (simp add: user_create_def e_def code_def)
qed

text \<open>
  On a sound table a registration is accepted exactly when no account, deleted or not, answers
  to that address once both are trimmed and lower-cased; a refusal changes nothing and always
  names the address, and the message about two accounts created at the same moment is never given
  to registrations that run one after the other.
\<close>

theorem registration_accepted_iff_address_unused:
  assumes "accounts_ok s"
  shows "(case user_create ck d s of
      (Inr u, t) \<Rightarrow> (\<forall>v \<in> set (users s). to_lower (u_email v) \<noteq> normalize_email (na_email d))
        \<and> u_email u = normalize_email (na_email d) \<and> u_status u = U_pending_review \<and> users t = users s @ [u]
    | (Inl e, t) \<Rightarrow> (\<exists>v \<in> set (users s). to_lower (u_email v) = normalize_email (na_email d))
        \<and> e = Conflict ''An account with this email already exists.'' \<and> t = s)"
proof (cases "\<exists>v \<in> set (users s). to_lower (u_email v) = normalize_email (na_email d)")
  case True
  then obtain u where "find_by_email (normalize_email (na_email d)) s = Some u"
    by (cases "find_by_email (normalize_email (na_email d)) s") (auto simp: find_by_email_def find_None_iff)
  with True show ?thesis by (auto simp: user_create_def)
next
  case False
  with create_when_free [OF assms, of d ck] show ?thesis by (simp add: new_user_def)
qed

theorem registration_accepted_iff_address_unused_witness:
  "case user_create signup_clock (demo_signup '' Ana@x.org'' R_artist) empty_db of
     (Inr u, t) \<Rightarrow> u_email u = ''ana@x.org'' \<and> users t = [u] | (Inl e, t) \<Rightarrow> False"
proof -
  have email: "normalize_email (na_email (demo_signup '' Ana@x.org'' R_artist)) = ''ana@x.org''" by code_simp
  from registration_accepted_iff_address_unused [OF empty_accounts_ok, where ck = signup_clock
      and d = "demo_signup '' Ana@x.org'' R_artist"]
  show ?thesis unfolding email by (auto simp: empty_db_def split: prod.splits sum.splits)
qed

text \<open>
  Two people of one role who register at the same moment: both transactions draw their code
  from the same count, and the one that commits second is refused with a request to try again and
  leaves nothing behind, not a half-made account; its retry is accepted.
\<close>

theorem racing_registration_is_refused_whole:
  assumes "accounts_ok s"
    and "\<forall>v \<in> set (users s). to_lower (u_email v) \<noteq> normalize_email (na_email d) \<and> to_lower (u_email v) \<noteq> normalize_email (na_email d')"
    and "normalize_email (na_email d) \<noteq> normalize_email (na_email d')"
    and "code = generate_account_code (na_role d) (na_planner_kind d) (na_booker_type d) s"
    and "s1 = snd (create_account ck d (normalize_email (na_email d)) code s)"
  shows "create_account ck' d' (normalize_email (na_email d')) code s1
      = (Inl (Conflict ''Two accounts were created at the same moment. Please try again.''), s1)
    \<and> (\<exists>u t. user_create ck' d' s1 = (Inr u, t))"
proof
  let ?e = "normalize_email (na_email d)" and ?e' = "normalize_email (na_email d')"
  have free: "\<forall>v \<in> set (users s). to_lower (u_email v) \<noteq> ?e" using assms(2) by blast
  note made = create_when_free [OF assms(1) free, of ck]
  have s1: "s1 = snd (user_create ck d s)" by (simp only: made(2) assms(4,5))
  have users1: "users s1 = users s @ [new_user ck d ?e code (next_id s)]"
    using made(1) by (simp add: assms(4,5))
  have "accounts_ok s1" unfolding s1 by (rule accounts_ok_create [OF assms(1)])
  moreover have free': "\<forall>v \<in> set (users s1). to_lower (u_email v) \<noteq> ?e'"
    using assms(2,3) by (auto simp: users1 new_user_def)
  ultimately show "\<exists>u t. user_create ck' d' s1 = (Inr u, t)" by (simp add: create_when_free)
  from free' have "\<not> list_ex (\<lambda>u. u_email u = ?e') (users s1)" by (auto simp: list_ex_iff)
  moreover have "list_ex (\<lambda>u. u_account_code u = code) (users s1)" by (simp add: users1 new_user_def)
  ultimately show "create_account ck' d' ?e' code s1
      = (Inl (Conflict ''Two accounts were created at the same moment. Please try again.''), s1)"
    by (simp add: create_account_def insert_user_def)
qed

theorem racing_registration_is_refused_whole_witness:
  "fst (create_account signup_clock (demo_signup ''bo@x.org'' R_artist) (normalize_email ''bo@x.org'') ''ART-000001''
     (snd (create_account signup_clock (demo_signup ''ana@x.org'' R_artist) (normalize_email ''ana@x.org'') ''ART-000001'' empty_db)))
     = Inl (Conflict ''Two accounts were created at the same moment. Please try again.'')"
proof -
  have code: "''ART-000001'' = generate_account_code R_artist None None empty_db"
    by (simp add: empty_db_def) code_simp
  have e: "normalize_email ''ana@x.org'' \<noteq> normalize_email ''bo@x.org''" by code_simp
  show ?thesis
    using racing_registration_is_refused_whole [where d = "demo_signup ''ana@x.org'' R_artist"
          and d' = "demo_signup ''bo@x.org'' R_artist" and code = "''ART-000001''",
        OF empty_accounts_ok _ _ _ refl, THEN conjunct1] e code
    by (simp add: demo_signup_def empty_db_def)
qed

text \<open>
  An account can be deleted only while its tombstone address is unused, and anyone may
  register that address: after such a registration the deletion fails on the unique index with an
  error nobody handles and the account keeps its data.
\<close>

theorem deletion_blocked_by_a_squatted_address:
  assumes "accounts_ok s" and "v \<in> set (users s)"
    and "\<forall>u \<in> set (users s). to_lower (u_email u) \<noteq> normalize_email (deleted_address (u_id v))"
    and "na_email d = deleted_address (u_id v)"
  shows "\<exists>u t. user_create ck d s = (Inr u, t) \<and> soft_delete_account ck' (u_id v) t = (Inl unique_violation, t)"
proof -
  let ?e = "normalize_email (na_email d)"
  have free: "\<forall>u \<in> set (users s). to_lower (u_email u) \<noteq> ?e" using assms(3,4) by simp
  note made = create_when_free [OF assms(1) free, of ck]
  have "u_id v < next_id s" using assms(1,2) by (auto simp: accounts_ok_def users_ok_def)
  then have differ: "u_id v \<noteq> next_id s" by simp
  have address: "to_lower ?e = to_lower (deleted_address (u_id v))"
    by (simp add: assms(4) normalize_email_def tombstone_trim)
  have users1: "users (snd (user_create ck d s)) = users s @
      [new_user ck d ?e (generate_account_code (na_role d) (na_planner_kind d) (na_booker_type d) s) (next_id s)]"
    by (simp add: made new_user_def)
  have "\<not> address_free (u_id v) (deleted_address (u_id v)) (snd (user_create ck d s))"
    using differ address by (simp add: address_free_def users1 new_user_def)
  moreover have "list_ex (\<lambda>u. u_id u = u_id v) (users (snd (user_create ck d s)))"
    using assms(2) by (auto simp: users1 list_ex_iff)
  ultimately show ?thesis by (simp add: soft_delete_account_def write_email_def made)
qed

definition demo_account :: user_row where
  "demo_account = new_user signup_clock (demo_signup ''ana@x.org'' R_artist) ''ana@x.org'' ''ART-000001'' 0"

lemma one_account_ok: "accounts_ok (snd (user_create signup_clock (demo_signup ''ana@x.org'' R_artist) empty_db))"
  by (rule accounts_ok_create [OF empty_accounts_ok])

lemma one_account: "users (snd (user_create signup_clock (demo_signup ''ana@x.org'' R_artist) empty_db)) = [demo_account]"
  by code_simp

theorem deletion_blocked_by_a_squatted_address_witness:
  "\<exists>u t. user_create signup_clock (demo_signup (deleted_address 0) R_planner)
        (snd (user_create signup_clock (demo_signup ''ana@x.org'' R_artist) empty_db)) = (Inr u, t)
      \<and> soft_delete_account signup_clock 0 t = (Inl unique_violation, t)"
proof -
  have id: "u_id demo_account = 0" by (simp add: demo_account_def new_user_def)
  have "to_lower (u_email demo_account) \<noteq> normalize_email (deleted_address (u_id demo_account))" by code_simp
  then show ?thesis
    using deletion_blocked_by_a_squatted_address [OF one_account_ok, where v = demo_account
        and d = "demo_signup (deleted_address 0) R_planner" and ck = signup_clock and ck' = signup_clock]
    by (simp add: one_account id)
qed

end
