(* ===== verification/Consents.thy ===== *)
theory Consents
  imports Common_Utils
begin

text \<open>
  \<open>src/consent/\<close> and \<open>src/verification/verification.service.ts\<close>: the append-only consent table,
  the routes over it, the signed unsubscribe link, and the verification record an admin settles.
  The keyed hash of the platform is an argument \<open>hmac secret text\<close>.
\<close>

section \<open>Documents\<close>

definition consent_versions :: "consent_document \<Rightarrow> string" where
  "consent_versions d = (case d of D_terms \<Rightarrow> ''2026-08-11'' | D_privacy \<Rightarrow> ''2026-08-11''
     | D_marketing \<Rightarrow> ''2026-09-08'')"

definition mandatory_documents :: "consent_document list" where
  "mandatory_documents = [D_terms, D_privacy]"

definition document_name :: "consent_document \<Rightarrow> string" where
  "document_name d = (case d of D_terms \<Rightarrow> ''terms'' | D_privacy \<Rightarrow> ''privacy'' | D_marketing \<Rightarrow> ''marketing'')"

record consent_context =
  cx_ip_address :: "string option"
  cx_user_agent :: "string option"
  cx_contact_email :: "string option"

section \<open>The service\<close>

definition new_consent :: "clock \<Rightarrow> uuid \<Rightarrow> consent_document \<Rightarrow> bool \<Rightarrow> consent_context \<Rightarrow> uuid \<Rightarrow> consent_row" where
  "new_consent ck uid d granted cx kid =
     \<lparr>k_id = kid, k_user_id = uid, k_document = d, k_version = consent_versions d, k_granted = granted,
      k_accepted_at = db_now ck, k_ip_address = cx_ip_address cx, k_user_agent = cx_user_agent cx,
      k_contact_email = cx_contact_email cx\<rparr>"

fun insert_consents :: "clock \<Rightarrow> uuid \<Rightarrow> consent_document list \<Rightarrow> consent_context \<Rightarrow> db \<Rightarrow> db" where
  "insert_consents ck uid [] cx s = s"
| "insert_consents ck uid (d # ds) cx s =
     insert_consents ck uid ds cx
       (s\<lparr>consents := consents s @ [new_consent ck uid d True cx (next_id s)], next_id := Suc (next_id s)\<rparr>)"

definition record_consents :: "clock \<Rightarrow> uuid \<Rightarrow> consent_document list \<Rightarrow> consent_context \<Rightarrow> db \<Rightarrow> db" where
  "record_consents ck uid ds cx s = (if length ds = 0 then s else insert_consents ck uid ds cx s)"

definition set_consent ::
  "clock \<Rightarrow> uuid \<Rightarrow> consent_document \<Rightarrow> bool \<Rightarrow> consent_context \<Rightarrow> db \<Rightarrow> unit result \<times> db" where
  "set_consent ck uid d granted cx s =
     (if d \<in> set mandatory_documents
      then (Inl (BadRequest (document_name d @ '' is a condition of using Fann and cannot be changed here.'')), s)
      else (Inr (), s\<lparr>consents := consents s @ [new_consent ck uid d granted cx (next_id s)],
                      next_id := Suc (next_id s)\<rparr>))"

definition consents_of_user :: "uuid \<Rightarrow> db \<Rightarrow> consent_row list" where
  "consents_of_user uid s =
     sort_by (\<lambda>a b. k_accepted_at b \<le> k_accepted_at a) (filter (\<lambda>k. k_user_id k = uid) (consents s))"

text \<open>\<open>latestForUser\<close>: walking newest first, the first row of each document stays.\<close>

fun keep_first :: "consent_row list \<Rightarrow> (consent_document \<Rightarrow> consent_row option) \<Rightarrow> consent_document \<Rightarrow> consent_row option" where
  "keep_first [] latest = latest"
| "keep_first (row # rows) latest =
     keep_first rows (case latest (k_document row) of None \<Rightarrow> latest(k_document row \<mapsto> row) | Some _ \<Rightarrow> latest)"

definition latest_for_user :: "uuid \<Rightarrow> db \<Rightarrow> consent_document \<Rightarrow> consent_row option" where
  "latest_for_user uid s = keep_first (consents_of_user uid s) (\<lambda>_. None)"

definition outdated_documents :: "uuid \<Rightarrow> db \<Rightarrow> consent_document list" where
  "outdated_documents uid s =
     filter (\<lambda>d. map_option k_version (latest_for_user uid s d) \<noteq> Some (consent_versions d)) mandatory_documents"

definition consent_granted :: "uuid \<Rightarrow> consent_document \<Rightarrow> db \<Rightarrow> bool" where
  "consent_granted uid d s =
     (case sort_by (\<lambda>a b. k_accepted_at b \<le> k_accepted_at a)
             (filter (\<lambda>k. k_user_id k = uid \<and> k_document k = d) (consents s)) of
        [] \<Rightarrow> False | k # _ \<Rightarrow> k_granted k)"

section \<open>The unsubscribe link\<close>

definition unsubscribe_purpose :: string where
  "unsubscribe_purpose = ''unsubscribe:marketing''"

definition secret_from :: "(string \<Rightarrow> string option) \<Rightarrow> string result" where
  "secret_from cfg =
     (case cfg ''UNSUBSCRIBE_SECRET'' of
        Some (c # k) \<Rightarrow> Inr (c # k)
      | _ \<Rightarrow> (case cfg ''JWT_SECRET'' of
          Some (c # k) \<Rightarrow> Inr (c # k)
        | _ \<Rightarrow> Inl (InternalError ''Cannot sign unsubscribe links: set UNSUBSCRIBE_SECRET or JWT_SECRET.'')))"

definition sign_unsubscribe :: "(string \<Rightarrow> string \<Rightarrow> string) \<Rightarrow> string \<Rightarrow> string \<Rightarrow> string" where
  "sign_unsubscribe hmac uid secret = hmac secret (unsubscribe_purpose @ '':'' @ uid)"

definition create_unsubscribe_token ::
  "(string \<Rightarrow> string \<Rightarrow> string) \<Rightarrow> (string \<Rightarrow> string option) \<Rightarrow> string \<Rightarrow> string result" where
  "create_unsubscribe_token hmac cfg uid =
     (case secret_from cfg of Inl e \<Rightarrow> Inl e | Inr k \<Rightarrow> Inr (uid @ ''.'' @ sign_unsubscribe hmac uid k))"

text \<open>\<open>lastIndexOf('.')\<close>: the token around its last dot.\<close>

definition split_last_dot :: "string \<Rightarrow> (string \<times> string) option" where
  "split_last_dot token =
     (if CHR ''.'' \<in> set token
      then Some (rev (tl (dropWhile (\<lambda>c. c \<noteq> CHR ''.'') (rev token))), rev (takeWhile (\<lambda>c. c \<noteq> CHR ''.'') (rev token)))
      else None)"

definition read_unsubscribe_token ::
  "(string \<Rightarrow> string \<Rightarrow> string) \<Rightarrow> (string \<Rightarrow> string option) \<Rightarrow> string \<Rightarrow> string option result" where
  "read_unsubscribe_token hmac cfg token =
     (case split_last_dot token of
        None \<Rightarrow> Inr None
      | Some (uid, provided) \<Rightarrow>
          if length uid \<le> 0 then Inr None
          else if uid = [] \<or> provided = [] then Inr None
          else case secret_from cfg of
            Inl e \<Rightarrow> Inl e
          | Inr k \<Rightarrow>
              (let expected = sign_unsubscribe hmac uid k
               in if length provided \<noteq> length expected then Inr None
                  else Inr (if provided = expected then Some uid else None)))"

section \<open>The routes\<close>

definition unsubscribe ::
  "(string \<Rightarrow> string \<Rightarrow> string) \<Rightarrow> (string \<Rightarrow> string option) \<Rightarrow> clock \<Rightarrow> string \<Rightarrow> string option \<Rightarrow> string option \<Rightarrow> db
   \<Rightarrow> string result \<times> db" where
  "unsubscribe hmac cfg ck token ip agent s =
     (case read_unsubscribe_token hmac cfg token of
        Inl e \<Rightarrow> (Inl e, s)
      | Inr uid \<Rightarrow>
          (case (case uid of None \<Rightarrow> (Inr (), s)
                 | Some u \<Rightarrow> set_consent ck (read_nat u) D_marketing False
                     \<lparr>cx_ip_address = ip, cx_user_agent = agent, cx_contact_email = None\<rparr> s) of
             (Inl e, s1) \<Rightarrow> (Inl e, s1)
           | (Inr _, s1) \<Rightarrow> (Inr ''You have been unsubscribed from marketing emails.'', s1)))"

definition consent_status :: "uuid \<Rightarrow> db \<Rightarrow> consent_document list \<times> bool" where
  "consent_status uid s = (let outdated = outdated_documents uid s in (outdated, length outdated > 0))"

text \<open>\<open>AcceptDocumentsDto\<close>: a non-empty list of mandatory documents.\<close>

definition accept_documents_dto :: "consent_document list \<Rightarrow> bool" where
  "accept_documents_dto ds \<longleftrightarrow> ds \<noteq> [] \<and> (\<forall>d \<in> set ds. d \<in> set mandatory_documents)"

definition accept_documents ::
  "clock \<Rightarrow> user_row \<Rightarrow> consent_document list \<Rightarrow> string option \<Rightarrow> string option \<Rightarrow> db \<Rightarrow> consent_document list \<times> db" where
  "accept_documents ck u ds ip agent s =
     (let s1 = record_consents ck (u_id u) ds
                 \<lparr>cx_ip_address = ip, cx_user_agent = agent, cx_contact_email = Some (u_email u)\<rparr> s
      in (outdated_documents (u_id u) s1, s1))"

definition get_marketing :: "uuid \<Rightarrow> db \<Rightarrow> bool" where
  "get_marketing uid s = consent_granted uid D_marketing s"

definition set_marketing ::
  "clock \<Rightarrow> user_row \<Rightarrow> bool \<Rightarrow> string option \<Rightarrow> string option \<Rightarrow> db \<Rightarrow> bool result \<times> db" where
  "set_marketing ck u granted ip agent s =
     (case set_consent ck (u_id u) D_marketing granted
             \<lparr>cx_ip_address = ip, cx_user_agent = agent, cx_contact_email = Some (u_email u)\<rparr> s of
        (Inl e, s1) \<Rightarrow> (Inl e, s1)
      | (Inr _, s1) \<Rightarrow> (Inr granted, s1))"

lemmas consent_op_defs [op_defs] =
  record_consents_def set_consent_def unsubscribe_def accept_documents_def set_marketing_def

section \<open>The verification record\<close>

definition audit_step_of :: "clock \<Rightarrow> jval \<Rightarrow> string \<Rightarrow> string option \<Rightarrow> audit_step" where
  "audit_step_of ck actor stp detail =
     \<lparr>st_at = js_now ck, st_actor = actor, st_step = stp,
      st_detail = (case detail of Some (c # d) \<Rightarrow> Some (c # d) | _ \<Rightarrow> None)\<rparr>"

definition snapshot_consent :: "consent_row \<Rightarrow> consent_snapshot" where
  "snapshot_consent k = \<lparr>cs_document = k_document k, cs_version = k_version k, cs_granted = k_granted k,
     cs_accepted_at = k_accepted_at k, cs_ip_address = k_ip_address k\<rparr>"

definition open_for_signup :: "clock \<Rightarrow> uuid \<Rightarrow> string option \<Rightarrow> string option \<Rightarrow> db \<Rightarrow> db" where
  "open_for_signup ck uid ip agent s =
     s\<lparr>verification_records := verification_records s @
         [\<lparr>v_id = next_id s, v_user_id = uid, v_result = V_pending, v_completed_at = None, v_methods = [],
           v_ip_address = ip, v_user_agent = agent,
           v_consent_snapshot = map snapshot_consent (consents_of_user uid s),
           v_audit_log = [audit_step_of ck (JStr ''system'') ''account_created''
                            (Some ''Account registered; awaiting review.'')],
           v_reviewed_by = None, v_created_at = db_now ck\<rparr>],
       next_id := Suc (next_id s)\<rparr>"

definition verifications_of :: "uuid \<Rightarrow> db \<Rightarrow> verification_record list" where
  "verifications_of uid s =
     sort_by (\<lambda>a b. v_created_at b \<le> v_created_at a) (filter (\<lambda>v. v_user_id v = uid) (verification_records s))"

definition latest_verification :: "uuid \<Rightarrow> db \<Rightarrow> verification_record option" where
  "latest_verification uid s = (case verifications_of uid s of [] \<Rightarrow> None | v # _ \<Rightarrow> Some v)"

definition record_admin_decision :: "clock \<Rightarrow> uuid \<Rightarrow> uuid \<Rightarrow> bool \<Rightarrow> string option \<Rightarrow> db \<Rightarrow> db" where
  "record_admin_decision ck uid admin approved remark s =
     (case latest_verification uid s of
        None \<Rightarrow> s
      | Some r \<Rightarrow>
          (let stp = audit_step_of ck (JUuid admin) (if approved then ''manually_approved'' else ''manually_rejected'') remark
           in s\<lparr>verification_records := update_where (\<lambda>v. v_id v = v_id r)
                  (\<lambda>v. v\<lparr>v_result := (if approved then V_manually_approved else V_failed),
                         v_completed_at := Some (db_now ck), v_reviewed_by := Some admin,
                         v_methods := [''manual_review''], v_audit_log := v_audit_log v @ [stp]\<rparr>)
                  (verification_records s)\<rparr>))"

definition append_step :: "clock \<Rightarrow> uuid \<Rightarrow> jval \<Rightarrow> string \<Rightarrow> string option \<Rightarrow> db \<Rightarrow> db" where
  "append_step ck uid actor stp detail s =
     (case latest_verification uid s of
        None \<Rightarrow> s
      | Some r \<Rightarrow>
          s\<lparr>verification_records := update_where (\<lambda>v. v_id v = v_id r)
              (\<lambda>v. v\<lparr>v_audit_log := v_audit_log v @ [audit_step_of ck actor stp detail]\<rparr>) (verification_records s)\<rparr>)"

record verification_line =
  vl_record :: verification_record
  vl_email :: string
  vl_role :: user_role
  vl_status :: user_status
  vl_account_code :: string

record 'a listing_page =
  lp_data :: "'a list"
  lp_total :: nat
  lp_page :: int
  lp_limit :: int

definition verification_list :: "verification_result option \<Rightarrow> int option \<Rightarrow> int option \<Rightarrow> db \<Rightarrow> verification_line listing_page" where
  "verification_list wanted lim_opt page_opt s =
     (let lim_n = min (case lim_opt of None \<Rightarrow> 50 | Some n \<Rightarrow> n) 200;
          page = max (case page_opt of None \<Rightarrow> 1 | Some n \<Rightarrow> n) 1;
          rows = concat (map (\<lambda>v. map (\<lambda>u. \<lparr>vl_record = v, vl_email = u_email u, vl_role = u_role u,
                                          vl_status = u_status u, vl_account_code = u_account_code u\<rparr>)
                                  (filter (\<lambda>u. u_id u = v_user_id v) (users s)))
                   (filter (\<lambda>v. case wanted of None \<Rightarrow> True | Some w \<Rightarrow> v_result v = w) (verification_records s)))
      in \<lparr>lp_data = take (nat lim_n) (drop (nat ((page - 1) * lim_n))
            (sort_by (\<lambda>a b. v_created_at (vl_record b) \<le> v_created_at (vl_record a)) rows)),
          lp_total = length rows, lp_page = page, lp_limit = lim_n\<rparr>)"

lemmas verification_op_defs [op_defs] =
  open_for_signup_def record_admin_decision_def append_step_def

end
