(* ===== verification/Consent_Rules.thy ===== *)
theory Consent_Rules
  imports Consents
begin

text \<open>
  What the consent table proves about a user: it only grows, every row names wording that was
  live, and what stands now is what was last chosen. And the unsubscribe link: it opens for the
  user it was made for and nothing else opens.
\<close>

section \<open>The standing row\<close>

lemma filter_insert_by:
  assumes "\<And>x y z. le x y \<Longrightarrow> le y z \<Longrightarrow> le x z"
  shows "sorted_wrt le ys \<Longrightarrow> filter P (insert_by le x ys) = (if P x then insert_by le x (filter P ys) else filter P ys)"
proof (induction ys)
  case (Cons y ys)
  have front: "insert_by le x (filter P ys) = x # filter P ys" if "le x y"
  proof (cases "filter P ys")
    case (Cons z zs)
    then have "z \<in> set ys" using filter_is_subset [of P ys] by simp
    then have "le x z" using Cons.prems that assms [of x y z] by auto
    with Cons show ?thesis by simp
  qed simp
  show ?case using Cons front by auto
qed simp

lemma filter_sort_by:
  assumes "\<And>x y. le x y \<or> le y x" and "\<And>x y z. le x y \<Longrightarrow> le y z \<Longrightarrow> le x z"
  shows "filter P (sort_by le xs) = sort_by le (filter P xs)"
proof (induction xs)
  case (Cons x xs)
  have "sorted_wrt le (sort_by le xs)" by (rule sorted_sort_by [OF assms])
  then have "filter P (insert_by le x (sort_by le xs)) =
      (if P x then insert_by le x (filter P (sort_by le xs)) else filter P (sort_by le xs))"
    by (rule filter_insert_by [rotated]) (rule assms(2))
  with Cons show ?case by simp
qed simp

definition newest_first :: "consent_row \<Rightarrow> consent_row \<Rightarrow> bool" where
  "newest_first a b \<longleftrightarrow> k_accepted_at b \<le> k_accepted_at a"

definition rows_on :: "uuid \<Rightarrow> consent_document \<Rightarrow> consent_row list \<Rightarrow> consent_row list" where
  "rows_on uid d ks = filter (\<lambda>k. k_user_id k = uid \<and> k_document k = d) ks"

definition standing :: "uuid \<Rightarrow> consent_document \<Rightarrow> consent_row list \<Rightarrow> consent_row option" where
  "standing uid d ks = (case sort_by newest_first (rows_on uid d ks) of [] \<Rightarrow> None | k # _ \<Rightarrow> Some k)"

lemma keep_first_find:
  "keep_first rows latest d = (case latest d of Some k \<Rightarrow> Some k | None \<Rightarrow> find (\<lambda>k. k_document k = d) rows)"
  by (induction rows arbitrary: latest) (auto split: option.splits)

lemma find_head: "find P xs = (case filter P xs of [] \<Rightarrow> None | x # _ \<Rightarrow> Some x)"
  by (induction xs) auto

lemma latest_standing: "latest_for_user uid s d = standing uid d (consents s)"
proof -
  have "filter (\<lambda>k. k_document k = d) (sort_by newest_first (filter (\<lambda>k. k_user_id k = uid) (consents s)))
      = sort_by newest_first (rows_on uid d (consents s))"
    unfolding rows_on_def by (subst filter_sort_by) (auto simp: newest_first_def conj_commute)
  then show ?thesis
    by (simp add: latest_for_user_def keep_first_find find_head consents_of_user_def standing_def newest_first_def [abs_def])
qed

lemma granted_standing:
  "consent_granted uid d s = (case standing uid d (consents s) of None \<Rightarrow> False | Some k \<Rightarrow> k_granted k)"
  by (simp add: consent_granted_def standing_def rows_on_def newest_first_def [abs_def] split: list.split)

lemma standing_newest:
  assumes "standing uid d ks = Some k"
  shows "k \<in> set (rows_on uid d ks)" and "\<And>j. j \<in> set (rows_on uid d ks) \<Longrightarrow> k_accepted_at j \<le> k_accepted_at k"
proof -
  from assms obtain rest where l: "sort_by newest_first (rows_on uid d ks) = k # rest"
    by (auto simp: standing_def split: list.splits)
  then have sets: "set (rows_on uid d ks) = set (k # rest)" by (metis set_sort_by)
  then show "k \<in> set (rows_on uid d ks)" by simp
  have "sorted_wrt newest_first (k # rest)"
    unfolding l [symmetric] by (rule sorted_sort_by) (auto simp: newest_first_def)
  then show "k_accepted_at j \<le> k_accepted_at k" if "j \<in> set (rows_on uid d ks)" for j
    using that sets by (auto simp: newest_first_def)
qed

text \<open>Rows of a later moment take over exactly where they speak.\<close>

definition before :: "timestamp \<Rightarrow> consent_row list \<Rightarrow> bool" where
  "before t ks \<longleftrightarrow> (\<forall>k \<in> set ks. k_accepted_at k < t)"

lemma standing_append:
  assumes "before t ks" and "\<forall>k \<in> set new. k_accepted_at k = t"
  shows "if rows_on uid d new = [] then standing uid d (ks @ new) = standing uid d ks
    else \<exists>k \<in> set (rows_on uid d new). standing uid d (ks @ new) = Some k"
proof (cases "rows_on uid d new = []")
  case True
  then show ?thesis by (simp add: standing_def rows_on_def)
next
  case False
  then obtain j where j: "j \<in> set (rows_on uid d new)" by (cases "rows_on uid d new") auto
  have split: "rows_on uid d (ks @ new) = rows_on uid d ks @ rows_on uid d new" by (simp add: rows_on_def)
  obtain k where k: "standing uid d (ks @ new) = Some k"
    using False by (cases "standing uid d (ks @ new)") (auto simp: standing_def split split: list.splits)
  have "k_accepted_at j \<le> k_accepted_at k" using standing_newest(2) [OF k, of j] j by (simp add: split)
  moreover have "k_accepted_at j = t" using assms(2) j by (auto simp: rows_on_def)
  ultimately have "k \<notin> set (rows_on uid d ks)" using assms(1) by (force simp: rows_on_def before_def)
  then have "k \<in> set (rows_on uid d new)" using standing_newest(1) [OF k] by (simp add: split)
  with False k show ?thesis by auto
qed

section \<open>Sequences of requests\<close>

datatype consent_op =
    Do_accept user_row "consent_document list"
  | Do_marketing user_row bool
  | Do_unsubscribe string

text \<open>The platform as the routes see it: keyed hash and configuration.\<close>

record mailer =
  ml_hmac :: "string \<Rightarrow> string \<Rightarrow> string"
  ml_config :: "string \<Rightarrow> string option"

fun run_consent_op :: "mailer \<Rightarrow> clock \<Rightarrow> consent_op \<Rightarrow> db \<Rightarrow> db" where
  "run_consent_op ml ck (Do_accept u ds) s =
     (if accept_documents_dto ds then snd (accept_documents ck u ds None None s) else s)"
| "run_consent_op ml ck (Do_marketing u g) s = snd (set_marketing ck u g None None s)"
| "run_consent_op ml ck (Do_unsubscribe token) s = snd (unsubscribe (ml_hmac ml) (ml_config ml) ck token None None s)"

fun run_consent_ops :: "mailer \<Rightarrow> (clock \<times> consent_op) list \<Rightarrow> db \<Rightarrow> db" where
  "run_consent_ops ml [] s = s"
| "run_consent_ops ml ((ck, x) # ops) s = run_consent_ops ml ops (run_consent_op ml ck x s)"

text \<open>What one request writes.\<close>

fun written :: "mailer \<Rightarrow> consent_op \<Rightarrow> (uuid \<times> consent_document \<times> bool) list" where
  "written ml (Do_accept u ds) = (if accept_documents_dto ds then map (\<lambda>d. (u_id u, d, True)) ds else [])"
| "written ml (Do_marketing u g) = [(u_id u, D_marketing, g)]"
| "written ml (Do_unsubscribe token) =
     (case read_unsubscribe_token (ml_hmac ml) (ml_config ml) token of
        Inr (Some u) \<Rightarrow> [(read_nat u, D_marketing, False)] | _ \<Rightarrow> [])"

definition row_says :: "consent_row \<Rightarrow> uuid \<times> consent_document \<times> bool" where
  "row_says k = (k_user_id k, k_document k, k_granted k)"

definition live_row :: "timestamp \<Rightarrow> consent_row \<Rightarrow> bool" where
  "live_row t k \<longleftrightarrow> k_version k = consent_versions (k_document k) \<and> k_accepted_at k = t"

lemma insert_consents_rows:
  "\<exists>new. consents (insert_consents ck uid ds cx s) = consents s @ new
     \<and> map row_says new = map (\<lambda>d. (uid, d, True)) ds \<and> (\<forall>k \<in> set new. live_row (db_now ck) k)"
proof (induction ds arbitrary: s)
  case (Cons d ds)
  let ?k = "new_consent ck uid d True cx (next_id s)"
  obtain new where "consents (insert_consents ck uid (d # ds) cx s) = consents s @ ?k # new"
    "map row_says new = map (\<lambda>d. (uid, d, True)) ds" "\<forall>k \<in> set new. live_row (db_now ck) k"
    using Cons.IH [of "s\<lparr>consents := consents s @ [?k], next_id := Suc (next_id s)\<rparr>"] by auto
  moreover have "row_says ?k = (uid, d, True)" "live_row (db_now ck) ?k"
    by (simp_all add: row_says_def live_row_def new_consent_def)
  ultimately show ?case by (intro exI [of _ "?k # new"]) (simp only: list.map list.set ball_simps HOL.simp_thms)
qed simp

lemma op_rows:
  "\<exists>new. consents (run_consent_op ml ck x s) = consents s @ new
     \<and> map row_says new = written ml x \<and> (\<forall>k \<in> set new. live_row (db_now ck) k)"
proof (cases x)
  case (Do_accept u ds)
  then show ?thesis
    using insert_consents_rows [of ck "u_id u" ds _ s]
    by (auto simp: accept_documents_def record_consents_def Let_def)
next
  case (Do_marketing u g)
  then show ?thesis
    by (auto simp: set_marketing_def set_consent_def mandatory_documents_def row_says_def live_row_def new_consent_def)
next
  case (Do_unsubscribe token)
  then show ?thesis
    by (auto simp: unsubscribe_def set_consent_def mandatory_documents_def row_says_def live_row_def new_consent_def
        split: sum.split option.split)
qed

text \<open>Later requests see a later database clock.\<close>

fun later :: "timestamp \<Rightarrow> (clock \<times> consent_op) list \<Rightarrow> bool" where
  "later t [] \<longleftrightarrow> True"
| "later t ((ck, x) # ops) \<longleftrightarrow> t \<le> db_now ck \<and> later (db_now ck + 1) ops"

text \<open>
  The account of a user's choices the table stands for: who currently opted in, and who accepted
  which document at its current wording.
\<close>

record choices =
  opted_in :: "uuid set"
  accepted :: "(uuid \<times> consent_document) set"

fun chosen :: "uuid \<times> consent_document \<times> bool \<Rightarrow> choices \<Rightarrow> choices" where
  "chosen (uid, d, g) c =
     (if d = D_marketing then c\<lparr>opted_in := (if g then insert uid (opted_in c) else opted_in c - {uid})\<rparr>
      else c\<lparr>accepted := insert (uid, d) (accepted c)\<rparr>)"

definition choices_of :: "db \<Rightarrow> choices" where
  "choices_of s = \<lparr>opted_in = {uid. get_marketing uid s},
     accepted = {(uid, d). d \<in> set mandatory_documents \<and> d \<notin> set (outdated_documents uid s)}\<rparr>"

lemma choices_standing:
  "choices_of s = \<lparr>opted_in = {uid. \<exists>k. standing uid D_marketing (consents s) = Some k \<and> k_granted k},
     accepted = {(uid, d). d \<noteq> D_marketing \<and> (\<exists>k. standing uid d (consents s) = Some k \<and> k_version k = consent_versions d)}\<rparr>"
proof -
  have "get_marketing uid s \<longleftrightarrow> (\<exists>k. standing uid D_marketing (consents s) = Some k \<and> k_granted k)" for uid
    by (simp add: get_marketing_def granted_standing split: option.split)
  moreover have "d \<in> set mandatory_documents \<and> d \<notin> set (outdated_documents uid s) \<longleftrightarrow>
      d \<noteq> D_marketing \<and> (\<exists>k. standing uid d (consents s) = Some k \<and> k_version k = consent_versions d)" for uid d
    by (cases d; cases "standing uid d (consents s)")
       (simp_all add: outdated_documents_def latest_standing mandatory_documents_def)
  ultimately show ?thesis by (simp only: choices_of_def)
qed

lemma choices_append_one:
  assumes "before t ks" and "\<forall>k \<in> set new. live_row t k"
  shows "(\<exists>k. standing uid d (ks @ new) = Some k \<and> k_version k = consent_versions d)
      \<longleftrightarrow> rows_on uid d new \<noteq> [] \<or> (\<exists>k. standing uid d ks = Some k \<and> k_version k = consent_versions d)"
proof -
  have "\<forall>k \<in> set new. k_accepted_at k = t" using assms(2) by (simp add: live_row_def)
  note now = standing_append [OF assms(1) this, of uid d]
  show ?thesis
  proof (cases "rows_on uid d new = []")
    case False
    with now obtain k where "k \<in> set (rows_on uid d new)" "standing uid d (ks @ new) = Some k" by auto
    with False assms(2) show ?thesis by (auto simp: rows_on_def live_row_def)
  qed (use now in simp)
qed

lemma before_append: "before t ks \<Longrightarrow> \<forall>k \<in> set new. live_row t k \<Longrightarrow> before (t + 1) (ks @ new)"
  by (force simp: before_def live_row_def)

lemma before_mono: "before t ks \<Longrightarrow> t \<le> t' \<Longrightarrow> before t' ks"
  by (force simp: before_def)

text \<open>A request writes rows about the mandatory documents, or one row about the newsletter.\<close>

lemma written_shape:
  "(\<exists>uid ds. written ml x = map (\<lambda>d. (uid, d, True)) ds \<and> D_marketing \<notin> set ds) \<or> (\<exists>uid g. written ml x = [(uid, D_marketing, g)])"
proof (cases x)
  case (Do_accept u ds)
  show ?thesis
  proof (cases "accept_documents_dto ds")
    case True
    then have "D_marketing \<notin> set ds" by (auto simp: accept_documents_dto_def mandatory_documents_def)
    with Do_accept True show ?thesis by auto
  next
    case False
    with Do_accept show ?thesis by (intro disjI1 exI [of _ 0] exI [of _ "[]"]) simp
  qed
next
  case (Do_unsubscribe token)
  then show ?thesis by (auto split: sum.split option.split intro: exI [of _ "[]"])
qed auto

lemma fold_accepts:
  "D_marketing \<notin> set ds \<Longrightarrow> fold chosen (map (\<lambda>d. (uid, d, True)) ds) c = c\<lparr>accepted := accepted c \<union> (\<lambda>d. (uid, d)) ` set ds\<rparr>"
  by (induction ds arbitrary: c) (auto simp: Un_commute)

lemma rows_on_says: "rows_on uid d ks = [] \<longleftrightarrow> (\<forall>g. (uid, d, g) \<notin> set (map row_says ks))"
  by (auto simp: rows_on_def filter_empty_conv row_says_def image_iff)

lemma choices_step:
  assumes "before (db_now ck) (consents s)"
  shows "choices_of (run_consent_op ml ck x s) = fold chosen (written ml x) (choices_of s)"
    and "before (db_now ck + 1) (consents (run_consent_op ml ck x s))"
proof -
  obtain new where new: "consents (run_consent_op ml ck x s) = consents s @ new" "map row_says new = written ml x"
    "\<forall>k \<in> set new. live_row (db_now ck) k" using op_rows by blast
  then show "before (db_now ck + 1) (consents (run_consent_op ml ck x s))" using before_append [OF assms] by simp
  note acc = choices_append_one [OF assms new(3), folded new(1), unfolded rows_on_says new(2)]
  from new(3) have times: "\<forall>k \<in> set new. k_accepted_at k = db_now ck" by (simp add: live_row_def)
  note stand = standing_append [OF assms times, folded new(1)]
  let ?t = "run_consent_op ml ck x s"
  have acc': "(\<exists>k. standing uid d (consents ?t) = Some k \<and> k_version k = consent_versions d) \<longleftrightarrow>
      (\<exists>g. (uid, d, g) \<in> set (written ml x)) \<or> (\<exists>k. standing uid d (consents s) = Some k \<and> k_version k = consent_versions d)" for uid d
    using acc [of uid d] by simp
  consider (acc) uid ds where "written ml x = map (\<lambda>d. (uid, d, True)) ds" "D_marketing \<notin> set ds"
    | (opt) uid g where "written ml x = [(uid, D_marketing, g)]" using written_shape [of ml x] by blast
  then show "choices_of ?t = fold chosen (written ml x) (choices_of s)"
  proof cases
    case acc
    then have "rows_on u D_marketing new = []" for u by (auto simp: rows_on_says new(2))
    then have "standing u D_marketing (consents ?t) = standing u D_marketing (consents s)" for u
      using stand [of u D_marketing] by simp
    with acc show ?thesis by (auto simp: choices_standing fold_accepts acc')
  next
    case opt
    have "standing u D_marketing (consents ?t) = standing u D_marketing (consents s)" if "u \<noteq> uid" for u
      using stand [of u D_marketing] that by (auto simp: rows_on_says new(2) opt split: if_splits)
    moreover have "\<exists>k. standing uid D_marketing (consents ?t) = Some k \<and> k_granted k = g"
    proof -
      have "rows_on uid D_marketing new \<noteq> []" by (auto simp: rows_on_says new(2) opt)
      then obtain k where k: "k \<in> set (rows_on uid D_marketing new)" "standing uid D_marketing (consents ?t) = Some k"
        using stand [of uid D_marketing] by auto
      then have "row_says k \<in> set (map row_says new)" by (simp add: rows_on_def)
      then have "row_says k \<in> set (written ml x)" by (simp only: new(2))
      with k show ?thesis by (simp add: opt row_says_def)
    qed
    ultimately have "(\<exists>k. standing u D_marketing (consents ?t) = Some k \<and> k_granted k)
        \<longleftrightarrow> (if u = uid then g else \<exists>k. standing u D_marketing (consents s) = Some k \<and> k_granted k)" for u
      by (cases "u = uid") auto
    then show ?thesis by (auto simp: choices_standing opt acc')
  qed
qed
lemma choices_run:
  "before t (consents s) \<Longrightarrow> later t ops \<Longrightarrow>
   choices_of (run_consent_ops ml ops s) = fold chosen (concat (map (\<lambda>(ck, x). written ml x) ops)) (choices_of s)"
proof (induction ops arbitrary: t s)
  case (Cons a ops)
  obtain ck x where a: "a = (ck, x)" by (cases a)
  have "before (db_now ck) (consents s)" using Cons.prems a by (auto intro: before_mono)
  note step = choices_step [OF this, of ml x]
  from Cons.prems(2) a have "later (db_now ck + 1) ops" by simp
  from Cons.IH [OF step(2) this] show ?case by (simp add: a step(1))
qed simp

text \<open>
  C16: as long as the database clock moves on between requests, the append-only table answers like
  two plain sets kept in step with every choice: who wants the newsletter is whoever opted in and
  has not since opted out, signed in or by an unsubscribe link, and a person is asked to accept
  exactly the mandatory documents they never accepted at the wording now live.
\<close>

theorem consent_standing_follows_choices:
  assumes "before t (consents s)" and "later t ops"
  shows "choices_of (run_consent_ops ml ops s)
    = fold chosen (concat (map (\<lambda>(ck, x). written ml x) ops)) (choices_of s)"
  by (rule choices_run [OF assms])

definition demo_mailer :: mailer where
  "demo_mailer = \<lparr>ml_hmac = (\<lambda>k m. rev m), ml_config = (\<lambda>k. if k = ''JWT_SECRET'' then Some ''s3cret'' else None)\<rparr>"

definition reader :: user_row where
  "reader = \<lparr>u_id = 7, u_email = ''ana@x.org'', u_phone = None, u_password_hash = None, u_role = R_planner,
     u_status = U_active, u_account_code = ''PLN-000001'', u_email_verified_at = None, u_phone_verified_at = None,
     u_last_login_at = None, u_created_at = 0, u_deleted_at = None, u_pending_email = None\<rparr>"

theorem consent_standing_follows_choices_witness:
  "choices_of (run_consent_ops demo_mailer
      [(\<lparr>db_now = 1, js_now = 1\<rparr>, Do_accept reader [D_terms, D_privacy]),
       (\<lparr>db_now = 2, js_now = 2\<rparr>, Do_marketing reader True)] empty_db)
   = \<lparr>opted_in = {7}, accepted = {(7, D_terms), (7, D_privacy)}\<rparr>"
proof -
  let ?ops = "[(\<lparr>db_now = 1, js_now = 1\<rparr>, Do_accept reader [D_terms, D_privacy]),
       (\<lparr>db_now = 2, js_now = 2\<rparr>, Do_marketing reader True)]"
  have start: "before 1 (consents empty_db)" by (simp add: before_def empty_db_def)
  have empty: "choices_of empty_db = \<lparr>opted_in = {}, accepted = {}\<rparr>"
    by (simp add: choices_standing standing_def rows_on_def empty_db_def)
  have "choices_of (run_consent_ops demo_mailer ?ops empty_db)
      = fold chosen (concat (map (\<lambda>(ck, x). written demo_mailer x) ?ops)) (choices_of empty_db)"
    by (rule consent_standing_follows_choices [OF start]) simp
  then show ?thesis
    by (simp add: empty accept_documents_dto_def mandatory_documents_def reader_def insert_commute)
qed

text \<open>
  Consent is evidence: whatever requests arrive, valid or forged links included, no row is
  ever changed or removed, each request appends exactly the choices it makes, every row names the
  wording live at that moment whatever the request said, and no row ever records that terms or
  privacy were taken back.
\<close>

theorem consent_history_is_evidence:
  "\<exists>new. consents (run_consent_ops ml ops s) = consents s @ new
     \<and> map row_says new = concat (map (\<lambda>(ck, x). written ml x) ops)
     \<and> list_all (\<lambda>k. k_version k = consent_versions (k_document k)
          \<and> (k_granted k \<or> k_document k = D_marketing)) new"
proof (induction ops arbitrary: s)
  case (Cons a ops)
  obtain ck x where a: "a = (ck, x)" by (cases a)
  obtain new where new: "consents (run_consent_op ml ck x s) = consents s @ new" "map row_says new = written ml x"
    "\<forall>k \<in> set new. live_row (db_now ck) k" using op_rows by blast
  obtain rest where rest: "consents (run_consent_ops ml ops (run_consent_op ml ck x s)) = consents s @ new @ rest"
    "map row_says rest = concat (map (\<lambda>(ck, x). written ml x) ops)"
    "list_all (\<lambda>k. k_version k = consent_versions (k_document k)
          \<and> (k_granted k \<or> k_document k = D_marketing)) rest"
    using Cons.IH [of "run_consent_op ml ck x s"] new(1) by auto
  have "k_granted k \<or> k_document k = D_marketing" if "k \<in> set new" for k
  proof -
    have "row_says k \<in> set (map row_says new)" using that by simp
    then have "row_says k \<in> set (written ml x)" by (simp only: new(2))
    with written_shape [of ml x] show ?thesis by (auto simp: row_says_def)
  qed
  with new rest show ?case
    by (intro exI [of _ "new @ rest"]) (auto simp: a list_all_iff live_row_def)
qed simp

section \<open>The unsubscribe link\<close>

lemma split_last_dot_app:
  assumes "CHR ''.'' \<notin> set b"
  shows "split_last_dot (a @ ''.'' @ b) = Some (a, b)"
proof -
  have all: "\<And>c. c \<in> set (rev b) \<Longrightarrow> c \<noteq> CHR ''.''" using assms by auto
  have "dropWhile (\<lambda>c. c \<noteq> CHR ''.'') (rev b @ CHR ''.'' # rev a) = CHR ''.'' # rev a"
    by (subst dropWhile_append2) (use all in auto)
  moreover have "takeWhile (\<lambda>c. c \<noteq> CHR ''.'') (rev b @ CHR ''.'' # rev a) = rev b"
    by (subst takeWhile_append2) (use all in auto)
  ultimately show ?thesis by (simp add: split_last_dot_def)
qed

lemma split_last_dot_join:
  assumes "split_last_dot token = Some (a, b)"
  shows "token = a @ ''.'' @ b"
proof -
  let ?p = "\<lambda>c. c \<noteq> CHR ''.''"
  have dot: "CHR ''.'' \<in> set (rev token)" and ab: "a = rev (tl (dropWhile ?p (rev token)))" "b = rev (takeWhile ?p (rev token))"
    using assms by (auto simp: split_last_dot_def split: if_splits)
  have "dropWhile ?p (rev token) \<noteq> []" using dot by (auto simp: dropWhile_eq_Nil_conv)
  then obtain c cs where d: "dropWhile ?p (rev token) = c # cs" by (cases "dropWhile ?p (rev token)") auto
  then have "c = CHR ''.''" using hd_dropWhile [of ?p "rev token"] by simp
  with d have "rev token = takeWhile ?p (rev token) @ CHR ''.'' # cs" using takeWhile_dropWhile_id [of ?p "rev token"] by simp
  then have "token = rev (takeWhile ?p (rev token) @ CHR ''.'' # cs)" by (simp only: rev_swap)
  with d show ?thesis by (simp add: ab)
qed

text \<open>
  The unsubscribe link opens for the user it was made for, and reading a token as some user
  means it is, character for character, the link made for that user: there is no second token for
  anyone. Asked of the keyed hash: its text form is not empty and holds no dot, as base64url does.
\<close>

theorem unsubscribe_link_roundtrip:
  assumes "\<And>k m. hmac k m \<noteq> [] \<and> CHR ''.'' \<notin> set (hmac k m)"
    and "secret_from cfg = Inr key" and "uid \<noteq> []"
  shows "read_unsubscribe_token hmac cfg token = Inr (Some uid) \<longleftrightarrow> create_unsubscribe_token hmac cfg uid = Inr token"
proof
  assume r: "read_unsubscribe_token hmac cfg token = Inr (Some uid)"
  then obtain provided where "split_last_dot token = Some (uid, provided)" "provided = sign_unsubscribe hmac uid key"
    by (auto simp: read_unsubscribe_token_def assms(2) Let_def split: option.splits if_splits)
  with split_last_dot_join show "create_unsubscribe_token hmac cfg uid = Inr token"
    by (simp add: create_unsubscribe_token_def assms(2))
next
  assume "create_unsubscribe_token hmac cfg uid = Inr token"
  then have "token = uid @ ''.'' @ sign_unsubscribe hmac uid key" by (simp add: create_unsubscribe_token_def assms(2))
  moreover have "sign_unsubscribe hmac uid key \<noteq> []" "CHR ''.'' \<notin> set (sign_unsubscribe hmac uid key)"
    using assms(1) by (simp_all add: sign_unsubscribe_def)
  ultimately show "read_unsubscribe_token hmac cfg token = Inr (Some uid)"
    using split_last_dot_app assms(2,3) by (simp add: read_unsubscribe_token_def)
qed

definition demo_hmac :: "string \<Rightarrow> string \<Rightarrow> string" where
  "demo_hmac k m = ''mac'' @ map (\<lambda>c. if c = CHR ''.'' then CHR ''-'' else c) (k @ m)"

theorem unsubscribe_link_roundtrip_witness:
  "read_unsubscribe_token demo_hmac (ml_config demo_mailer) ''7.macs3cretunsubscribe:marketing:7'' = Inr (Some ''7'')"
proof -
  have "demo_hmac k m \<noteq> [] \<and> CHR ''.'' \<notin> set (demo_hmac k m)" for k m by (auto simp: demo_hmac_def)
  moreover have "secret_from (ml_config demo_mailer) = Inr ''s3cret''" by (simp add: secret_from_def demo_mailer_def)
  moreover have "create_unsubscribe_token demo_hmac (ml_config demo_mailer) ''7'' = Inr ''7.macs3cretunsubscribe:marketing:7''"
    by code_simp
  ultimately show ?thesis
    by (simp add: unsubscribe_link_roundtrip [where hmac = demo_hmac and cfg = "ml_config demo_mailer" and uid = "''7''"])
qed

end
