(* ===== verification/Auth.thy ===== *)
theory Auth
  imports Accounts Redis_Store Consents
begin

text \<open>
  \<open>src/auth/\<close>: registration, sign-in by password and by Google or Apple, the session with its
  refresh token, email verification and change, password reset, one-time codes for phones, and
  the strategies and guards a request passes. The state is the database, the Redis store and the
  messages handed to the mail and WhatsApp providers. Hashing, token signing and every random
  draw are arguments; the mail service logs its failures and never throws.
\<close>

section \<open>The platform\<close>

record jwt_payload =
  j_sub :: uuid
  j_email :: string
  j_role :: user_role
  j_status :: user_status
  j_account_code :: string

text \<open>
  \<open>bcrypt.hash\<close> with its salt, \<open>bcrypt.compare\<close>, \<open>sha256\<close>; \<open>jwtService.sign\<close> and \<open>verify\<close> by
  secret and time, with the life time in seconds.
\<close>

record auth_platform =
  pf_bcrypt :: "string \<Rightarrow> string \<Rightarrow> string"
  pf_compare :: "string \<Rightarrow> string \<Rightarrow> bool"
  pf_sha256 :: "string \<Rightarrow> string"
  pf_sign :: "string \<Rightarrow> timestamp \<Rightarrow> int \<Rightarrow> jwt_payload \<Rightarrow> string"
  pf_verify :: "string \<Rightarrow> timestamp \<Rightarrow> string \<Rightarrow> jwt_payload option"
  pf_jwt_secret :: string
  pf_jwt_refresh_secret :: string
  pf_app_url :: string
  pf_frontend_url :: string

datatype mail =
    Verification_email string string \<comment> \<open>address and link\<close>
  | Password_reset_email string string
  | Whatsapp_code string string \<comment> \<open>number and code\<close>

record world =
  w_db :: db
  w_redis :: redis
  w_outbox :: "mail list"

definition on_db :: "(db \<Rightarrow> db) \<Rightarrow> world \<Rightarrow> world" where
  "on_db f w = w\<lparr>w_db := f (w_db w)\<rparr>"

definition on_redis :: "(redis \<Rightarrow> redis) \<Rightarrow> world \<Rightarrow> world" where
  "on_redis f w = w\<lparr>w_redis := f (w_redis w)\<rparr>"

definition send_mail :: "mail \<Rightarrow> world \<Rightarrow> world" where
  "send_mail m w = w\<lparr>w_outbox := w_outbox w @ [m]\<rparr>"

text \<open>Redis holds user ids as text.\<close>

definition id_text :: "uuid \<Rightarrow> string" where
  "id_text uid = show_nat uid"

definition self_service_roles :: "user_role list" where
  "self_service_roles = [R_artist, R_planner]"

definition max_otp_attempts :: nat where
  "max_otp_attempts = 5"

definition email_not_verified :: string where
  "email_not_verified = ''EMAIL_NOT_VERIFIED''"

section \<open>Registration\<close>

record register_dto =
  rd_email :: string
  rd_password :: string
  rd_role :: user_role
  rd_phone :: "string option"
  rd_accepted_marketing :: bool
  rd_planner_kind :: "planner_kind option"
  rd_booker_type :: "string option"
  rd_interests :: "booker_interest list option"

definition send_email_verification :: "auth_platform \<Rightarrow> clock \<Rightarrow> string \<Rightarrow> uuid \<Rightarrow> string \<Rightarrow> world \<Rightarrow> world" where
  "send_email_verification pf ck token uid email w =
     send_mail (Verification_email email (pf_app_url pf @ ''/auth/verify-email?token='' @ token))
       (on_redis (set_email_verify_token (js_now ck) token (id_text uid)) w)"

definition register ::
  "auth_platform \<Rightarrow> clock \<Rightarrow> string \<Rightarrow> string \<Rightarrow> register_dto \<Rightarrow> string option \<Rightarrow> string option \<Rightarrow> world \<Rightarrow> string result \<times> world" where
  "register pf ck salt token dto ip agent w =
     (let data = \<lparr>na_email = rd_email dto, na_password_hash = Some (pf_bcrypt pf salt (rd_password dto)), na_role = rd_role dto,
            na_phone = rd_phone dto, na_planner_kind = rd_planner_kind dto, na_booker_type = rd_booker_type dto,
            na_interests = rd_interests dto\<rparr>
      in case user_create ck data (w_db w) of
           (Inl e, s) \<Rightarrow> (Inl e, w\<lparr>w_db := s\<rparr>)
         | (Inr u, s) \<Rightarrow>
             (let documents = [D_terms, D_privacy] @ (if rd_accepted_marketing dto then [D_marketing] else []);
                  s1 = record_consents ck (u_id u) documents
                         \<lparr>cx_ip_address = ip, cx_user_agent = agent, cx_contact_email = Some (rd_email dto)\<rparr> s;
                  s2 = open_for_signup ck (u_id u) ip agent s1
              in (Inr ''Account created. Please check your email to verify your address.'',
                  send_email_verification pf ck token (u_id u) (u_email u) (w\<lparr>w_db := s2\<rparr>))))"

section \<open>Sign-in and the session\<close>

definition validate_local_user :: "auth_platform \<Rightarrow> string \<Rightarrow> string \<Rightarrow> world \<Rightarrow> user_row option" where
  "validate_local_user pf email password w =
     (case find_by_email email (w_db w) of
        None \<Rightarrow> None
      | Some u \<Rightarrow>
          (case u_password_hash u of
             None \<Rightarrow> None
           | Some h \<Rightarrow> if h = [] then None else if \<not> pf_compare pf password h then None else Some u))"

text \<open>\<open>LocalStrategy.validate\<close>.\<close>

definition local_validate :: "auth_platform \<Rightarrow> string \<Rightarrow> string \<Rightarrow> world \<Rightarrow> user_row result" where
  "local_validate pf email password w =
     (case validate_local_user pf email password w of
        None \<Rightarrow> Inl (Unauthorized ''Invalid email or password.'') | Some u \<Rightarrow> Inr u)"

definition payload_of :: "user_row \<Rightarrow> jwt_payload" where
  "payload_of u = \<lparr>j_sub = u_id u, j_email = u_email u, j_role = u_role u, j_status = u_status u, j_account_code = u_account_code u\<rparr>"

definition sign_access_token :: "auth_platform \<Rightarrow> clock \<Rightarrow> user_row \<Rightarrow> string" where
  "sign_access_token pf ck u = pf_sign pf (pf_jwt_secret pf) (js_now ck) (15 * 60) (payload_of u)"

definition hash_token :: "auth_platform \<Rightarrow> string \<Rightarrow> string" where
  "hash_token pf token = pf_sha256 pf token"

record session =
  ss_access_token :: string
  ss_refresh_token :: string

definition issue_tokens :: "auth_platform \<Rightarrow> clock \<Rightarrow> user_row \<Rightarrow> world \<Rightarrow> session \<times> world" where
  "issue_tokens pf ck u w =
     (let access = sign_access_token pf ck u;
          refresh = pf_sign pf (pf_jwt_refresh_secret pf) (js_now ck) (30 * 24 * 60 * 60) (payload_of u)
      in (\<lparr>ss_access_token = access, ss_refresh_token = refresh\<rparr>,
          on_redis (set_refresh_token (js_now ck) (id_text (u_id u)) (hash_token pf refresh)) w))"

definition sanitize :: "user_row \<Rightarrow> user_row" where
  "sanitize u = u\<lparr>u_password_hash := None\<rparr>"

definition login :: "auth_platform \<Rightarrow> clock \<Rightarrow> user_row \<Rightarrow> world \<Rightarrow> (session \<times> user_row) result \<times> world" where
  "login pf ck u w =
     (if u_deleted_at u \<noteq> None then (Inl (Unauthorized ''This account has been deleted.''), w)
      else if u_status u = U_suspended then (Inl (Unauthorized ''Account suspended.''), w)
      else if u_status u = U_banned then (Inl (Unauthorized ''Account banned.''), w)
      else if u_email_verified_at u = None then (Inl (Unauthorized email_not_verified), w)
      else (let w1 = on_db (update_last_login ck (u_id u)) w
            in case issue_tokens pf ck u w1 of (t, w2) \<Rightarrow> (Inr (t, sanitize u), w2)))"

definition refresh :: "auth_platform \<Rightarrow> clock \<Rightarrow> string \<Rightarrow> world \<Rightarrow> string result" where
  "refresh pf ck token w =
     (case pf_verify pf (pf_jwt_refresh_secret pf) (js_now ck) token of
        None \<Rightarrow> Inl (Unauthorized ''Invalid or expired refresh token.'')
      | Some p \<Rightarrow>
          (let stored = get_refresh_token (js_now ck) (id_text (j_sub p)) (w_redis w);
               incoming = hash_token pf token
           in if stored = None \<or> stored = Some [] \<or> stored \<noteq> Some incoming
              then Inl (Unauthorized ''Refresh token has been invalidated.'')
              else case user_by_id (j_sub p) (w_db w) of
                None \<Rightarrow> Inl (Unauthorized ''User not found.'')
              | Some u \<Rightarrow> Inr (sign_access_token pf ck u)))"

definition logout :: "uuid \<Rightarrow> world \<Rightarrow> string \<times> world" where
  "logout uid w = (''Logged out successfully.'', on_redis (delete_refresh_token (id_text uid)) w)"

text \<open>\<open>JwtStrategy.validate\<close>: the account is read again on every request.\<close>

definition jwt_validate :: "jwt_payload \<Rightarrow> world \<Rightarrow> user_row result" where
  "jwt_validate p w =
     (case user_by_id (j_sub p) (w_db w) of
        None \<Rightarrow> Inl (Unauthorized ''User not found.'')
      | Some u \<Rightarrow>
          if u_status u = U_suspended then Inl (Unauthorized ''Account suspended.'')
          else if u_status u = U_banned then Inl (Unauthorized ''Account banned.'')
          else Inr u)"

section \<open>Email verification and change\<close>

definition resend_email_verification :: "auth_platform \<Rightarrow> clock \<Rightarrow> string \<Rightarrow> string \<Rightarrow> world \<Rightarrow> string \<times> world" where
  "resend_email_verification pf ck token email w =
     (''If that address needs verifying, a new link is on its way.'',
      case find_by_email email (w_db w) of
        None \<Rightarrow> w
      | Some u \<Rightarrow>
          if u_email_verified_at u = None \<and> u_deleted_at u = None
          then send_email_verification pf ck token (u_id u) (u_email u) w else w)"

definition verify_email :: "clock \<Rightarrow> string \<Rightarrow> world \<Rightarrow> string result \<times> world" where
  "verify_email ck token w =
     (case get_email_verify_token (js_now ck) token (w_redis w) of
        None \<Rightarrow> (Inl (BadRequest ''Verification link is invalid or has expired.''), w)
      | Some uid_text \<Rightarrow>
          if uid_text = [] then (Inl (BadRequest ''Verification link is invalid or has expired.''), w)
          else (let uid = read_nat uid_text
            in case user_by_id uid (w_db w) of
              None \<Rightarrow> (Inl (BadRequest ''Account not found.''), w)
            | Some u \<Rightarrow>
                (case u_pending_email u of
                   Some (c # p) \<Rightarrow>
                     (case apply_pending_email ck uid (c # p) (w_db w) of
                        (Inl e, s) \<Rightarrow> (Inl e, w\<lparr>w_db := s\<rparr>)
                      | (Inr _, s) \<Rightarrow> (Inr ''Email address updated and verified.'',
                          on_redis (delete_email_verify_token token) (w\<lparr>w_db := s\<rparr>)))
                 | _ \<Rightarrow> (Inr ''Email verified successfully.'',
                     on_redis (delete_email_verify_token token) (on_db (mark_email_verified ck uid) w)))))"

text \<open>The guard three routes share: a password, where there is one, must match.\<close>

definition password_ok :: "auth_platform \<Rightarrow> string \<Rightarrow> user_row \<Rightarrow> bool" where
  "password_ok pf password u =
     (case u_password_hash u of None \<Rightarrow> True | Some h \<Rightarrow> h = [] \<or> pf_compare pf password h)"

definition request_email_change :: "auth_platform \<Rightarrow> clock \<Rightarrow> string \<Rightarrow> uuid \<Rightarrow> string \<Rightarrow> string \<Rightarrow> world \<Rightarrow> string result \<times> world" where
  "request_email_change pf ck token uid new_email password w =
     (case user_by_id uid (w_db w) of
        None \<Rightarrow> (Inl (BadRequest ''Account not found.''), w)
      | Some u \<Rightarrow>
          if \<not> password_ok pf password u then (Inl (BadRequest ''Current password is incorrect.''), w)
          else if to_lower new_email = to_lower (u_email u)
          then (Inl (BadRequest ''That is already your current email address.''), w)
          else case find_by_email new_email (w_db w) of
            Some _ \<Rightarrow> (Inl (Conflict ''That email is already in use by another account.''), w)
          | None \<Rightarrow>
              (Inr (''Verification email sent to '' @ new_email @ ''. Your email won't change until you confirm it.''),
               send_email_verification pf ck token (u_id u) new_email (on_db (set_pending_email uid new_email) w)))"

section \<open>Passwords and deletion\<close>

definition forgot_password :: "auth_platform \<Rightarrow> clock \<Rightarrow> string \<Rightarrow> string \<Rightarrow> world \<Rightarrow> string \<times> world" where
  "forgot_password pf ck token email w =
     (''If an account with that email exists, a password reset link has been sent.'',
      case find_by_email email (w_db w) of
        None \<Rightarrow> w
      | Some u \<Rightarrow>
          if u_password_hash u \<noteq> None \<and> u_password_hash u \<noteq> Some []
          then send_mail (Password_reset_email (u_email u) (pf_frontend_url pf @ ''/reset-password?token='' @ token))
                 (on_redis (set_password_reset_token (js_now ck) token (id_text (u_id u))) w)
          else w)"

definition is_password_reset_token_valid :: "clock \<Rightarrow> string \<Rightarrow> world \<Rightarrow> bool" where
  "is_password_reset_token_valid ck token w =
     (if token = [] then False
      else case get_password_reset_token (js_now ck) token (w_redis w) of None \<Rightarrow> False | Some uid \<Rightarrow> uid \<noteq> [])"

definition reset_password :: "auth_platform \<Rightarrow> clock \<Rightarrow> string \<Rightarrow> string \<Rightarrow> string \<Rightarrow> world \<Rightarrow> string result \<times> world" where
  "reset_password pf ck salt token new_password w =
     (case get_password_reset_token (js_now ck) token (w_redis w) of
        None \<Rightarrow> (Inl (BadRequest ''Reset link is invalid or has expired.''), w)
      | Some uid \<Rightarrow>
          if uid = [] then (Inl (BadRequest ''Reset link is invalid or has expired.''), w)
          else (Inr ''Password reset successfully. Please log in with your new password.'',
                on_redis (delete_refresh_token uid) (on_redis (delete_password_reset_token token)
                  (on_db (update_password (read_nat uid) (pf_bcrypt pf salt new_password)) w))))"

definition change_password :: "auth_platform \<Rightarrow> string \<Rightarrow> uuid \<Rightarrow> string \<Rightarrow> string \<Rightarrow> world \<Rightarrow> string result \<times> world" where
  "change_password pf salt uid current new_password w =
     (case user_by_id uid (w_db w) of
        None \<Rightarrow> (Inl (BadRequest ''Account not found.''), w)
      | Some u \<Rightarrow>
          if u_password_hash u = None \<or> u_password_hash u = Some []
          then (Inl (BadRequest ''This account signed up with Google/Apple and has no password to change.''), w)
          else if \<not> password_ok pf current u then (Inl (BadRequest ''Current password is incorrect.''), w)
          else (Inr ''Password updated.'', on_db (update_password uid (pf_bcrypt pf salt new_password)) w))"

definition delete_account :: "auth_platform \<Rightarrow> clock \<Rightarrow> uuid \<Rightarrow> string \<Rightarrow> world \<Rightarrow> string result \<times> world" where
  "delete_account pf ck uid password w =
     (case user_by_id uid (w_db w) of
        None \<Rightarrow> (Inl (BadRequest ''Account not found.''), w)
      | Some u \<Rightarrow>
          if \<not> password_ok pf password u then (Inl (BadRequest ''Password is incorrect.''), w)
          else case soft_delete_account ck uid (w_db w) of
            (Inl e, s) \<Rightarrow> (Inl e, w\<lparr>w_db := s\<rparr>)
          | (Inr _, s) \<Rightarrow> (Inr ''Account deleted.'', on_redis (delete_refresh_token (id_text uid)) (w\<lparr>w_db := s\<rparr>)))"

section \<open>One-time codes\<close>

definition digits_only :: "string \<Rightarrow> string" where
  "digits_only phone = filter is_digit phone"

text \<open>\<open>delivered\<close> says whether the provider took the message.\<close>

definition send_otp :: "clock \<Rightarrow> string \<Rightarrow> bool \<Rightarrow> string \<Rightarrow> world \<Rightarrow> string result \<times> world" where
  "send_otp ck code delivered phone w =
     (let w1 = on_redis (set_otp (js_now ck) phone code) w
      in if \<not> delivered then (Inl (InternalError ''Failed to send OTP. Please try again.''), w1)
         else (Inr ''OTP sent via WhatsApp.'', send_mail (Whatsapp_code (digits_only phone) code) w1))"

definition verify_otp :: "clock \<Rightarrow> uuid \<Rightarrow> string \<Rightarrow> string \<Rightarrow> world \<Rightarrow> string result \<times> world" where
  "verify_otp ck uid phone code w =
     (case get_otp (js_now ck) phone (w_redis w) of
        None \<Rightarrow> (Inl (BadRequest ''OTP has expired. Please request a new one.''), w)
      | Some stored \<Rightarrow>
          if stored = [] then (Inl (BadRequest ''OTP has expired. Please request a new one.''), w)
          else if stored \<noteq> code then
            (case record_otp_failure (js_now ck) phone (w_redis w) of
               (attempts, r) \<Rightarrow>
                 if attempts \<ge> max_otp_attempts
                 then (Inl (BadRequest ''Too many incorrect codes. Please request a new one.''), w\<lparr>w_redis := delete_otp phone r\<rparr>)
                 else (Inl (BadRequest ''Incorrect OTP.''), w\<lparr>w_redis := r\<rparr>))
          else (Inr ''Phone number verified.'',
                on_redis (delete_otp phone) (on_db (mark_phone_verified ck uid \<circ> update_phone uid phone) w)))"

section \<open>Google and Apple\<close>

record oauth_data =
  od_provider :: string
  od_provider_uid :: string
  od_email :: "string option"
  od_role :: string

text \<open>A role as the \<open>state\<close> parameter spells it.\<close>

definition role_named :: "string \<Rightarrow> user_role option" where
  "role_named r = (if r = ''artist'' then Some R_artist else if r = ''planner'' then Some R_planner
     else if r = ''admin'' then Some R_admin else None)"

definition chosen_role :: "string \<Rightarrow> user_role" where
  "chosen_role r = (case role_named r of Some q \<Rightarrow> if q \<in> set self_service_roles then q else R_artist | None \<Rightarrow> R_artist)"

definition oauth_account :: "string \<Rightarrow> user_role \<Rightarrow> new_account" where
  "oauth_account email r = \<lparr>na_email = email, na_password_hash = None, na_role = r, na_phone = None,
     na_planner_kind = None, na_booker_type = None, na_interests = None\<rparr>"

text \<open>A provider that names no address makes the lookup by address throw.\<close>

definition find_or_create_oauth_user ::
  "clock \<Rightarrow> oauth_data \<Rightarrow> string option \<Rightarrow> string option \<Rightarrow> world \<Rightarrow> user_row result \<times> world" where
  "find_or_create_oauth_user ck d ip agent w =
     (case find_by_oauth (od_provider d) (od_provider_uid d) (w_db w) of
        Some u \<Rightarrow> (Inr u, w)
      | None \<Rightarrow>
          (case od_email d of
             None \<Rightarrow> (Inl (InternalError ''TypeError''), w)
           | Some email \<Rightarrow>
               (case find_by_email email (w_db w) of
                  Some u \<Rightarrow>
                    if u_email_verified_at u = None
                    then (Inl (Conflict (''An unverified account already uses this email address. ''
                            @ ''Verify it from the link we emailed you, then sign in with Google or Apple.'')), w)
                    else (Inr u, on_db (link_oauth_account (u_id u) (od_provider d) (od_provider_uid d)) w)
                | None \<Rightarrow>
                    (case user_create ck (oauth_account email (chosen_role (od_role d))) (w_db w) of
                       (Inl e, s) \<Rightarrow> (Inl e, w\<lparr>w_db := s\<rparr>)
                     | (Inr u, s) \<Rightarrow>
                         (Inr u, w\<lparr>w_db := mark_email_verified ck (u_id u) (open_for_signup ck (u_id u) ip agent
                            (record_consents ck (u_id u) [D_terms, D_privacy]
                               \<lparr>cx_ip_address = ip, cx_user_agent = agent, cx_contact_email = Some email\<rparr>
                               (link_oauth_account (u_id u) (od_provider d) (od_provider_uid d) s)))\<rparr>)))))"

definition login_oauth_user :: "auth_platform \<Rightarrow> clock \<Rightarrow> user_row \<Rightarrow> world \<Rightarrow> (session \<times> user_row) \<times> world" where
  "login_oauth_user pf ck u w =
     (case issue_tokens pf ck u (on_db (update_last_login ck (u_id u)) w) of (t, w1) \<Rightarrow> ((t, sanitize u), w1))"

text \<open>\<open>GoogleStrategy.validate\<close> and \<open>AppleStrategy.validate\<close>: what they read from the provider.\<close>

definition google_validate ::
  "clock \<Rightarrow> string \<Rightarrow> string list \<Rightarrow> string option \<Rightarrow> string option \<Rightarrow> string option \<Rightarrow> world \<Rightarrow> user_row result \<times> world" where
  "google_validate ck profile_id emails state ip agent w =
     find_or_create_oauth_user ck
       \<lparr>od_provider = ''google'', od_provider_uid = profile_id,
        od_email = (case emails of [] \<Rightarrow> None | e # _ \<Rightarrow> Some e),
        od_role = (case state of None \<Rightarrow> ''artist'' | Some r \<Rightarrow> r)\<rparr> ip agent w"

definition apple_validate ::
  "clock \<Rightarrow> string \<Rightarrow> string option \<Rightarrow> string option \<Rightarrow> string option \<Rightarrow> string option \<Rightarrow> string option \<Rightarrow> world \<Rightarrow> user_row result \<times> world" where
  "apple_validate ck sub token_email profile_email state ip agent w =
     find_or_create_oauth_user ck
       \<lparr>od_provider = ''apple'', od_provider_uid = sub,
        od_email = (case token_email of None \<Rightarrow> profile_email | Some e \<Rightarrow> Some e),
        od_role = (case state of None \<Rightarrow> ''artist'' | Some r \<Rightarrow> r)\<rparr> ip agent w"

lemmas auth_op_defs [op_defs] =
  on_db_def on_redis_def send_mail_def send_email_verification_def register_def issue_tokens_def login_def
  logout_def resend_email_verification_def verify_email_def request_email_change_def forgot_password_def
  reset_password_def change_password_def delete_account_def send_otp_def verify_otp_def
  find_or_create_oauth_user_def login_oauth_user_def

section \<open>Guards and cookies\<close>

definition google_env_keys :: "string list" where
  "google_env_keys = [''GOOGLE_CLIENT_ID'', ''GOOGLE_CLIENT_SECRET'', ''GOOGLE_CALLBACK_URL'']"

definition apple_env_keys :: "string list" where
  "apple_env_keys = [''APPLE_CLIENT_ID'', ''APPLE_TEAM_ID'', ''APPLE_KEY_ID'', ''APPLE_PRIVATE_KEY'', ''APPLE_CALLBACK_URL'']"

fun join_with :: "string \<Rightarrow> string list \<Rightarrow> string" where
  "join_with sep [] = []"
| "join_with sep [x] = x"
| "join_with sep (x # y # xs) = x @ sep @ join_with sep (y # xs)"

definition assert_configured :: "config \<Rightarrow> string \<Rightarrow> string list \<Rightarrow> unit result" where
  "assert_configured cfg provider keys =
     (let missing = missing_oauth_keys cfg keys
      in if length missing > 0
         then Inl (ServiceUnavailable (provider @ '' sign-in is not configured on this server. ''
                @ ''Missing environment variables: '' @ join_with '', '' missing @ ''.''))
         else Inr ())"

text \<open>
  The token of a request: the cookie, else the bearer header; the strategy verifies it and reads
  the account. A route marked public skips the guard, and the optional guard turns every failure
  into a guest.
\<close>

definition jwt_session :: "auth_platform \<Rightarrow> clock \<Rightarrow> string option \<Rightarrow> string option \<Rightarrow> world \<Rightarrow> user_row result" where
  "jwt_session pf ck cookie bearer w =
     (case (case cookie of Some (c # k) \<Rightarrow> Some (c # k) | _ \<Rightarrow> bearer) of
        None \<Rightarrow> Inl (Unauthorized ''Unauthorized'')
      | Some [] \<Rightarrow> Inl (Unauthorized ''Unauthorized'')
      | Some (c # k) \<Rightarrow>
          (case pf_verify pf (pf_jwt_secret pf) (js_now ck) (c # k) of
             None \<Rightarrow> Inl (Unauthorized ''Unauthorized'')
           | Some p \<Rightarrow> jwt_validate p w))"

definition jwt_auth_guard :: "auth_platform \<Rightarrow> clock \<Rightarrow> bool \<Rightarrow> string option \<Rightarrow> string option \<Rightarrow> world \<Rightarrow> user_row option result" where
  "jwt_auth_guard pf ck is_public cookie bearer w =
     (if is_public then Inr None
      else case jwt_session pf ck cookie bearer w of Inl e \<Rightarrow> Inl e | Inr u \<Rightarrow> Inr (Some u))"

definition optional_jwt_guard :: "auth_platform \<Rightarrow> clock \<Rightarrow> string option \<Rightarrow> string option \<Rightarrow> world \<Rightarrow> user_row option" where
  "optional_jwt_guard pf ck cookie bearer w =
     (case jwt_session pf ck cookie bearer w of Inl _ \<Rightarrow> None | Inr u \<Rightarrow> Some u)"

definition roles_guard :: "user_role list option \<Rightarrow> user_row option \<Rightarrow> unit result" where
  "roles_guard required u =
     (case required of
        None \<Rightarrow> Inr ()
      | Some rs \<Rightarrow>
          if rs = [] then Inr ()
          else case u of
            None \<Rightarrow> Inl (Forbidden ''You do not have permission to access this resource.'')
          | Some v \<Rightarrow> if u_role v \<in> set rs then Inr ()
                      else Inl (Forbidden ''You do not have permission to access this resource.''))"

record cookie =
  ck_name :: string
  ck_value :: string
  ck_http_only :: bool
  ck_secure :: bool
  ck_max_age_ms :: int
  ck_path :: string

definition set_access_token_cookie :: "bool \<Rightarrow> string \<Rightarrow> cookie" where
  "set_access_token_cookie is_prod token =
     \<lparr>ck_name = ''accessToken'', ck_value = token, ck_http_only = True, ck_secure = is_prod,
      ck_max_age_ms = 15 * 60 * 1000, ck_path = ''/''\<rparr>"

definition set_auth_cookies :: "bool \<Rightarrow> session \<Rightarrow> cookie list" where
  "set_auth_cookies is_prod t =
     [set_access_token_cookie is_prod (ss_access_token t),
      \<lparr>ck_name = ''refreshToken'', ck_value = ss_refresh_token t, ck_http_only = True, ck_secure = is_prod,
       ck_max_age_ms = 30 * 24 * 60 * 60 * 1000, ck_path = ''/api/v1/auth''\<rparr>]"

definition clear_auth_cookies :: "(string \<times> string) list" where
  "clear_auth_cookies = [(''accessToken'', ''/''), (''refreshToken'', ''/api/v1/auth'')]"

text \<open>The routes that set or read cookies.\<close>

definition login_route :: "auth_platform \<Rightarrow> bool \<Rightarrow> clock \<Rightarrow> string \<Rightarrow> string \<Rightarrow> world \<Rightarrow> (cookie list \<times> user_row) result \<times> world" where
  "login_route pf is_prod ck email password w =
     (case local_validate pf email password w of
        Inl e \<Rightarrow> (Inl e, w)
      | Inr u \<Rightarrow>
          (case login pf ck u w of
             (Inl e, w1) \<Rightarrow> (Inl e, w1)
           | (Inr (t, safe), w1) \<Rightarrow> (Inr (set_auth_cookies is_prod t, safe), w1)))"

definition refresh_route :: "auth_platform \<Rightarrow> bool \<Rightarrow> clock \<Rightarrow> string option \<Rightarrow> world \<Rightarrow> (cookie \<times> string) result" where
  "refresh_route pf is_prod ck refresh_cookie w =
     (case refresh_cookie of
        None \<Rightarrow> Inl (Unauthorized ''No refresh token provided.'')
      | Some token \<Rightarrow>
          if token = [] then Inl (Unauthorized ''No refresh token provided.'')
          else case refresh pf ck token w of
            Inl e \<Rightarrow> Inl e
          | Inr access \<Rightarrow> Inr (set_access_token_cookie is_prod access, ''Access token refreshed.''))"

definition logout_route :: "uuid \<Rightarrow> world \<Rightarrow> (string \<times> (string \<times> string) list) \<times> world" where
  "logout_route uid w = (case logout uid w of (m, w1) \<Rightarrow> ((m, clear_auth_cookies), w1))"

definition oauth_callback :: "auth_platform \<Rightarrow> bool \<Rightarrow> clock \<Rightarrow> user_row result \<times> world \<Rightarrow> (cookie list \<times> string) result \<times> world" where
  "oauth_callback pf is_prod ck validated =
     (case validated of
        (Inl e, w) \<Rightarrow> (Inl e, w)
      | (Inr u, w) \<Rightarrow>
          (case login_oauth_user pf ck u w of
             ((t, _), w1) \<Rightarrow> (Inr (set_auth_cookies is_prod t, pf_frontend_url pf @ ''/auth/callback''), w1)))"

end
