(* ===== verification/Address_Rules.thy ===== *)
theory Address_Rules
  imports Auth_Rules Consent_Rules
begin

text \<open>
  Sign-in with Google or Apple rests on addresses having been proved. What it never does, and the
  two ways it goes wrong: a verification link proves whatever address is pending when it is
  opened, and an account deleted by its owner keeps its link to the provider.
\<close>

section \<open>What sign-in with a provider never does\<close>

lemma chosen_role_self_service: "chosen_role r \<in> set self_service_roles"
  by (auto simp: chosen_role_def self_service_roles_def split: option.split)

text \<open>
  C18: sign-in with a provider hands out an account only if it was already linked to that provider
  identity, or had proved the same address and is now linked, or is brand new; a new one is an
  artist or a planner whatever role the query string asked for, verified, with terms and privacy
  recorded and no newsletter; an account that never proved its address is refused and nothing is
  written.
\<close>

theorem oauth_hands_out_only_proved_accounts:
  "(case find_or_create_oauth_user ck d ip agent w of
      (Inl e, w1) \<Rightarrow> w1 = w
    | (Inr u, w1) \<Rightarrow>
        (find_by_oauth (od_provider d) (od_provider_uid d) (w_db w) = Some u \<and> w1 = w)
      \<or> (\<exists>email. od_email d = Some email \<and> find_by_email email (w_db w) = Some u \<and> u_email_verified_at u \<noteq> None
           \<and> w1 = on_db (link_oauth_account (u_id u) (od_provider d) (od_provider_uid d)) w)
      \<or> (\<exists>email. od_email d = Some email \<and> find_by_email email (w_db w) = None
           \<and> u_role u \<in> {R_artist, R_planner} \<and> u_password_hash u = None
           \<and> users (w_db w1) = update_where (\<lambda>v. u_id v = u_id u) (\<lambda>v. v\<lparr>u_email_verified_at := Some (db_now ck)\<rparr>) (users (w_db w) @ [u])
           \<and> map row_says (consents (w_db w1)) = map row_says (consents (w_db w)) @ [(u_id u, D_terms, True), (u_id u, D_privacy, True)]))"
proof -
  have refused: "s = w_db w" if "user_create ck x (w_db w) = (Inl e, s)" for x e s
    using that by (cases rule: user_create_cases) auto
  have made: "users s = users (w_db w) @ [u] \<and> u_role u = na_role x \<and> u_password_hash u = na_password_hash x
      \<and> consents s = consents (w_db w)" if "user_create ck x (w_db w) = (Inr u, s)" for x u s
    using that
    by (cases rule: user_create_cases) (auto simp: new_user_def insert_profile_def Let_def split: user_role.split)
  have role: "chosen_role r = R_artist \<or> chosen_role r = R_planner" for r
    using chosen_role_self_service [of r] by (auto simp: self_service_roles_def)
  have signup: "users (mark_email_verified ck uid (open_for_signup ck uid ip agent (record_consents ck uid [D_terms, D_privacy] cx
        (link_oauth_account uid p q s)))) = update_where (\<lambda>v. u_id v = uid) (\<lambda>v. v\<lparr>u_email_verified_at := Some (db_now ck)\<rparr>) (users s)"
    "map row_says (consents (mark_email_verified ck uid (open_for_signup ck uid ip agent (record_consents ck uid [D_terms, D_privacy] cx
        (link_oauth_account uid p q s))))) = map row_says (consents s) @ [(uid, D_terms, True), (uid, D_privacy, True)]" for uid cx p q s
    by (simp_all add: mark_email_verified_def set_user_def open_for_signup_def record_consents_def link_oauth_account_def
        new_consent_def row_says_def)
  show ?thesis
    using refused made role
    by (auto simp: find_or_create_oauth_user_def signup oauth_account_def split: option.split prod.split sum.split)
qed

section \<open>A verification link proves any address\<close>

lemma find_by_id_set_user:
  assumes "user_by_id uid s = Some u" and "u_id (f u) = uid"
  shows "user_by_id uid (set_user uid f s) = Some (f u)"
proof -
  have "find (\<lambda>v. u_id v = uid) (update_where (\<lambda>v. u_id v = uid) f xs) = Some (f u)" if "find (\<lambda>v. u_id v = uid) xs = Some u" for xs
    using that assms(2) by (induction xs) (auto split: if_splits)
  with assms(1) show ?thesis by (simp add: user_by_id_def set_user_def)
qed

lemma only_holder_found:
  assumes "v \<in> set (users s)" and "to_lower (u_email v) = normalize_email email"
    and "\<forall>x \<in> set (users s). to_lower (u_email x) = normalize_email email \<longrightarrow> x = v"
  shows "find_by_email email s = Some v"
proof (cases "find_by_email email s")
  case None
  with assms(1,2) show ?thesis by (auto simp: find_by_email_def find_None_iff)
next
  case (Some x)
  then show ?thesis using assms(3) by (auto simp: find_by_email_def dest: find_SomeD)
qed

text \<open>
  C19: the link mailed to an account's old address, opened while a change to another address is
  pending, makes that other address the account's own and marks it verified, with the password kept,
  although nothing was ever opened at the new address; from then on the owner of that address who
  signs in with Google or Apple is handed this account.
\<close>

theorem old_link_proves_any_pending_address:
  assumes "accounts_ok (w_db w)"
    and "get_email_verify_token (js_now ck) token (w_redis w) = Some (id_text uid)"
    and "user_by_id uid (w_db w) = Some u" and "u_pending_email u = Some victim" and "victim \<noteq> []"
    and "address_free uid (normalize_email victim) (w_db w)"
    and "w1 = snd (verify_email ck token w)"
    and "od_email d = Some victim" and "find_by_oauth (od_provider d) (od_provider_uid d) (w_db w1) = None"
  shows "\<exists>v w2. user_by_id uid (w_db w1) = Some v \<and> u_email v = normalize_email victim
     \<and> u_email_verified_at v = Some (db_now ck) \<and> u_password_hash v = u_password_hash u
     \<and> find_or_create_oauth_user ck' d ip agent w1 = (Inr v, w2)"
proof -
  let ?f = "\<lambda>u. (u\<lparr>u_pending_email := None, u_email_verified_at := Some (db_now ck)\<rparr>)\<lparr>u_email := normalize_email victim\<rparr>"
  have uid: "u_id u = uid" and u: "u \<in> set (users (w_db w))" using assms(3) by (auto simp: user_by_id_def dest: find_SomeD)
  obtain c p where victim: "victim = c # p" using assms(5) by (cases victim) auto
  have db1: "w_db w1 = set_user uid ?f (w_db w)"
    using assms(2,3,4,6) by (simp add: assms(7) verify_email_def victim apply_pending_email_def write_email_def Let_def)
  have v: "user_by_id uid (w_db w1) = Some (?f u)"
    unfolding db1 by (rule find_by_id_set_user [OF assms(3)]) (simp add: uid)
  then have member: "?f u \<in> set (users (w_db w1))" by (auto simp: user_by_id_def dest: find_SomeD)
  have ids: "distinct (map u_id (users (w_db w)))" using assms(1) by (simp add: accounts_ok_def users_ok_def)
  have only: "x = ?f u" if x: "x \<in> set (users (w_db w1))" "to_lower (u_email x) = normalize_email victim" for x
  proof -
    obtain y where y: "y \<in> set (users (w_db w))" "x = (if u_id y = uid then ?f y else y)"
      using x(1) by (auto simp: db1 set_user_def table_simps)
    show ?thesis
    proof (cases "u_id y = uid")
      case True
      then have "y = u" using distinct_key_eq [OF ids y(1) u] uid by simp
      with y True show ?thesis by simp
    next
      case False
      with y x(2) assms(6) show ?thesis by (auto simp: address_free_def list_ex_iff)
    qed
  qed
  have "find_by_email victim (w_db w1) = Some (?f u)"
  proof (rule only_holder_found [OF member])
    show "\<forall>x \<in> set (users (w_db w1)). to_lower (u_email x) = normalize_email victim \<longrightarrow> x = ?f u"
      using only by blast
  qed simp
  then have "find_or_create_oauth_user ck' d ip agent w1
      = (Inr (?f u), on_db (link_oauth_account (u_id (?f u)) (od_provider d) (od_provider_uid d)) w1)"
    using assms(8,9) by (simp add: find_or_create_oauth_user_def)
  with v show ?thesis by (intro exI conjI) auto
qed

text \<open>
  The requests that bring it about: sign up, ask for the link again, open the first link, ask to
  move to someone else's address, open the second link.
\<close>

definition eve :: register_dto where
  "eve = ana\<lparr>rd_email := ''eve@x.org''\<rparr>"

definition eve_world :: world where
  "eve_world = run_auth_ops demo_platform
     [(second 1, Sign_up ''s'' ''t1'' eve), (second 2, Resend ''t2'' ''eve@x.org''), (second 3, Verify ''t1''),
      (second 4, Change_email ''t3'' 0 ''bob@x.org'' ''Secret123'')] fresh_world"

definition google_bob :: oauth_data where
  "google_bob = \<lparr>od_provider = ''google'', od_provider_uid = ''bob'', od_email = Some ''bob@x.org'', od_role = ''planner''\<rparr>"

lemma eve_world_ok: "accounts_ok (w_db eve_world)"
  unfolding eve_world_def by (rule accounts_ok_auth) (simp add: fresh_world_def empty_accounts_ok)

theorem old_link_proves_any_pending_address_witness:
  "Verification_email ''eve@x.org'' ''https://api/auth/verify-email?token=t2'' \<in> set (w_outbox eve_world)
   \<and> (\<exists>v w2. user_by_id 0 (w_db (snd (verify_email (second 5) ''t2'' eve_world))) = Some v
     \<and> u_email v = ''bob@x.org'' \<and> u_email_verified_at v = Some 5 \<and> u_password_hash v = Some ''#Secret123''
     \<and> find_or_create_oauth_user (second 6) google_bob None None (snd (verify_email (second 5) ''t2'' eve_world)) = (Inr v, w2))"
proof -
  have sent: "Verification_email ''eve@x.org'' ''https://api/auth/verify-email?token=t2'' \<in> set (w_outbox eve_world)"
    by code_simp
  have token: "get_email_verify_token (js_now (second 5)) ''t2'' (w_redis eve_world) = Some (id_text 0)" by code_simp
  have pending: "map_option u_pending_email (user_by_id 0 (w_db eve_world)) = Some (Some ''bob@x.org'')"
    "map_option u_password_hash (user_by_id 0 (w_db eve_world)) = Some (Some ''#Secret123'')" by code_simp+
  then obtain u where u: "user_by_id 0 (w_db eve_world) = Some u" "u_pending_email u = Some ''bob@x.org''"
    "u_password_hash u = Some ''#Secret123''" by auto
  have free: "address_free 0 (normalize_email ''bob@x.org'') (w_db eve_world)" by code_simp
  have unlinked: "find_by_oauth (od_provider google_bob) (od_provider_uid google_bob) (w_db (snd (verify_email (second 5) ''t2'' eve_world))) = None"
    by code_simp
  have lower: "normalize_email ''bob@x.org'' = ''bob@x.org''" by code_simp
  from old_link_proves_any_pending_address [OF eve_world_ok token u(1,2) _ free refl, of google_bob "second 6" None None] unlinked
  show ?thesis by (auto simp: google_bob_def lower u(3) second_def sent [simplified])
qed

section \<open>A deleted account keeps its provider\<close>

lemma find_by_oauth_set_user:
  assumes "\<And>u. u_id (f u) = u_id u"
  shows "find_by_oauth p q (set_user uid f s) = map_option (\<lambda>u. if u_id u = uid then f u else u) (find_by_oauth p q s)"
proof -
  let ?g = "\<lambda>u. if u_id u = uid then f u else u"
  have "filter (\<lambda>u. u_id u = k) (map ?g us) = map ?g (filter (\<lambda>u. u_id u = k) us)" for k us
    by (induction us) (auto simp: assms)
  then have "concat (map (\<lambda>oa. filter (\<lambda>u. u_id u = oa_user_id oa) (map ?g us)) oas)
      = map ?g (concat (map (\<lambda>oa. filter (\<lambda>u. u_id u = oa_user_id oa) us) oas))" for us and oas :: "oauth_row list"
    by (induction oas) simp_all
  moreover have "(case map ?g us of [] \<Rightarrow> None | u # _ \<Rightarrow> Some u) = map_option ?g (case us of [] \<Rightarrow> None | u # _ \<Rightarrow> Some u)" for us
    by (cases us) auto
  moreover have "users (set_user uid f s) = map ?g (users s)" "oauth_accounts (set_user uid f s) = oauth_accounts s"
    by (simp_all add: set_user_def update_where_def)
  ultimately show ?thesis by (simp only: find_by_oauth_def)
qed

text \<open>
  Deleting an account frees its address for a new sign-up by form, but not for its owner's
  Google or Apple identity: signing in with it still hands out the deleted account, sets the session
  cookies, and every guarded request of that session is then refused as banned, so no new account
  can be made with that identity.
\<close>

theorem deleted_account_locks_its_provider:
  assumes "find_by_oauth (od_provider d) (od_provider_uid d) (w_db w) = Some u"
    and "user_by_id (u_id u) (w_db w) = Some u"
    and "delete_account pf ck (u_id u) password w = (Inr m, w1)"
  shows "\<exists>v cookies url w2. find_or_create_oauth_user ck' d ip agent w1 = (Inr v, w1) \<and> u_id v = u_id u
     \<and> u_email v = deleted_address (u_id u)
     \<and> oauth_callback pf is_prod ck' (find_or_create_oauth_user ck' d ip agent w1) = (Inr (cookies, url), w2)
     \<and> jwt_validate (payload_of v) w2 = Inl (Unauthorized ''Account banned.'')"
proof -
  let ?f = "\<lambda>u. (u\<lparr>u_status := U_banned, u_deleted_at := Some (db_now ck)\<rparr>)\<lparr>u_email := deleted_address (u_id u)\<rparr>"
  let ?f0 = "\<lambda>v. (v\<lparr>u_status := U_banned, u_deleted_at := Some (db_now ck)\<rparr>)\<lparr>u_email := deleted_address (u_id u)\<rparr>"
  let ?l = "\<lambda>v. v\<lparr>u_last_login_at := Some (db_now ck')\<rparr>"
  have db1: "w_db w1 = set_user (u_id u) ?f0 (w_db w)"
    using assms(2,3) by (auto simp: delete_account_def soft_delete_account_def write_email_def split: if_splits)
  have v: "find_by_oauth (od_provider d) (od_provider_uid d) (w_db w1) = Some (?f0 u)"
    unfolding db1 by (subst find_by_oauth_set_user) (simp_all add: assms(1))
  have row: "user_by_id (u_id u) (w_db w1) = Some (?f0 u)"
    unfolding db1 by (rule find_by_id_set_user [OF assms(2)]) simp
  have found: "find_or_create_oauth_user ck' d ip agent w1 = (Inr (?f0 u), w1)" using v by (simp add: find_or_create_oauth_user_def)
  let ?w2 = "snd (login_oauth_user pf ck' (?f0 u) w1)"
  have "w_db ?w2 = set_user (u_id u) ?l (w_db w1)"
    by (simp add: login_oauth_user_def issue_tokens_def update_last_login_def Let_def)
  then have "user_by_id (u_id u) (w_db ?w2) = Some (?l (?f0 u))" using find_by_id_set_user [OF row, of ?l] by simp
  then have "jwt_validate (payload_of (?f0 u)) ?w2 = Inl (Unauthorized ''Account banned.'')"
    by (simp add: jwt_validate_def payload_of_def)
  moreover obtain t x w2 where "login_oauth_user pf ck' (?f0 u) w1 = ((t, x), w2)" by (metis surj_pair)
  then obtain cookies url where "oauth_callback pf is_prod ck' (Inr (?f0 u), w1) = (Inr (cookies, url), ?w2)"
    by (simp add: oauth_callback_def)
  ultimately show ?thesis using found
    by (intro exI [of _ "?f0 u"] exI [of _ cookies] exI [of _ url] exI [of _ ?w2]) simp
qed

definition bob_world :: world where
  "bob_world = snd (find_or_create_oauth_user (second 1) google_bob None None fresh_world)"

theorem deleted_account_locks_its_provider_witness:
  "\<exists>v cookies url w2. find_or_create_oauth_user (second 3) google_bob None None (snd (delete_account demo_platform (second 2) 0 [] bob_world))
        = (Inr v, snd (delete_account demo_platform (second 2) 0 [] bob_world)) \<and> u_email v = deleted_address 0
     \<and> oauth_callback demo_platform True (second 3) (find_or_create_oauth_user (second 3) google_bob None None
          (snd (delete_account demo_platform (second 2) 0 [] bob_world))) = (Inr (cookies, url), w2)
     \<and> jwt_validate (payload_of v) w2 = Inl (Unauthorized ''Account banned.'')"
proof -
  have users: "map u_id (users (w_db bob_world)) = [0]" by code_simp
  have link: "oauth_accounts (w_db bob_world) = [\<lparr>oa_user_id = 0, oa_provider = ''google'', oa_provider_uid = ''bob''\<rparr>]" by code_simp
  from users obtain u where us: "users (w_db bob_world) = [u]" "u_id u = 0" by auto
  then have u: "find_by_oauth (od_provider google_bob) (od_provider_uid google_bob) (w_db bob_world) = Some u" "u_id u = 0"
    by (simp_all add: find_by_oauth_def link google_bob_def)
  have row: "user_by_id (u_id u) (w_db bob_world) = Some u" using us by (simp add: user_by_id_def)
  have "fst (delete_account demo_platform (second 2) 0 [] bob_world) = Inr ''Account deleted.''" by code_simp
  then have del: "delete_account demo_platform (second 2) (u_id u) [] bob_world
      = (Inr ''Account deleted.'', snd (delete_account demo_platform (second 2) 0 [] bob_world))"
    by (simp add: u(2) prod_eq_iff)
  from deleted_account_locks_its_provider [OF u(1) row del, of "second 3" None None True] show ?thesis
    by (simp only: u(2)) blast
qed

end
