(* ===== verification/Identity_Documents.thy ===== *)
theory Identity_Documents
  imports Common_Utils
begin

text \<open>
  \<open>src/verification/identity-documents.service.ts\<close> and its routes: the documents an artist or a
  venue submits to go live, the private bucket their files sit in, the gate they open and the
  retention that removes the files. The bucket is the list of its object keys; an upload is the
  browser's own request, and whether the storage accepts a delete is an argument.
\<close>

section \<open>Kinds and file names\<close>

definition required_kinds :: "doc_kind list" where
  "required_kinds = [DK_id_document, DK_selfie]"

definition venue_required_kinds :: "doc_kind list" where
  "venue_required_kinds = [DK_trade_licence]"

definition venue_category_slug :: string where
  "venue_category_slug = ''venue''"

definition retention_days_approved :: int where
  "retention_days_approved = 90"

definition retention_days_rejected :: int where
  "retention_days_rejected = 30"

definition identity_mime_map :: "string \<Rightarrow> string option" where
  "identity_mime_map = map_of [(''.jpg'', ''image/jpeg''), (''.jpeg'', ''image/jpeg''), (''.png'', ''image/png''),
     (''.webp'', ''image/webp''), (''.heic'', ''image/heic''), (''.pdf'', ''application/pdf'')]"

definition selfie_extensions :: "string list" where
  "selfie_extensions = [''.jpg'', ''.jpeg'', ''.png'', ''.webp'', ''.heic'']"

definition identity_max_bytes :: int where
  "identity_max_bytes = 15 * 1024 * 1024"

definition kind_name :: "doc_kind \<Rightarrow> string" where
  "kind_name k = (case k of DK_id_document \<Rightarrow> ''id_document'' | DK_selfie \<Rightarrow> ''selfie'' | DK_trade_licence \<Rightarrow> ''trade_licence'')"

definition doc_status_name :: "doc_status \<Rightarrow> string" where
  "doc_status_name st = (case st of DS_pending \<Rightarrow> ''pending'' | DS_approved \<Rightarrow> ''approved'' | DS_rejected \<Rightarrow> ''rejected'')"

text \<open>\<open>path.extname\<close> on a POSIX path: from the last dot of the last segment, unless it begins it.\<close>

definition base_name :: "string \<Rightarrow> string" where
  "base_name p = rev (takeWhile (\<lambda>c. c \<noteq> CHR ''/'') (dropWhile (\<lambda>c. c = CHR ''/'') (rev p)))"

definition ext_name :: "string \<Rightarrow> string" where
  "ext_name p =
     (let b = base_name p;
          ext = rev (takeWhile (\<lambda>c. c \<noteq> CHR ''.'') (rev b));
          stem = rev (tl (dropWhile (\<lambda>c. c \<noteq> CHR ''.'') (rev b)))
      in if CHR ''.'' \<notin> set b then []
         else if stem = [] then []
         else if stem = ''.'' \<and> ext = [] then []
         else CHR ''.'' # ext)"

section \<open>Upload\<close>

text \<open>\<open>PresignIdDocumentDto\<close> and \<open>ConfirmIdDocumentDto\<close> name the kinds a request may carry.\<close>

definition id_document_kinds :: "doc_kind list" where
  "id_document_kinds = [DK_id_document, DK_selfie]"

definition presign_document :: "string \<Rightarrow> uuid \<Rightarrow> doc_kind \<Rightarrow> string \<Rightarrow> int \<Rightarrow> string result" where
  "presign_document draw uid kind filename size_bytes =
     (if size_bytes > identity_max_bytes then Inl (BadRequest ''Files must be 15MB or smaller.'')
      else (let ext = to_lower (ext_name filename)
        in case identity_mime_map ext of
             None \<Rightarrow> Inl (BadRequest (''Unsupported file type: '' @ (if ext = [] then ''(none)'' else ext)))
           | Some _ \<Rightarrow>
               if kind = DK_selfie \<and> ext \<notin> set selfie_extensions
               then Inl (BadRequest ''A selfie must be a photo, not a document.'')
               else Inr (''identity/'' @ show_nat uid @ ''/'' @ kind_name kind @ ''-'' @ draw @ ext)))"

definition own_prefix :: "uuid \<Rightarrow> string" where
  "own_prefix uid = ''identity/'' @ show_nat uid @ ''/''"

definition pending_document :: "clock \<Rightarrow> uuid \<Rightarrow> doc_kind \<Rightarrow> string \<Rightarrow> uuid \<Rightarrow> id_document" where
  "pending_document ck uid kind key did =
     \<lparr>i_id = did, i_user_id = uid, i_kind = kind, i_s3_key = Some key, i_status = DS_pending, i_rejection_reason = None,
      i_reviewed_by = None, i_reviewed_at = None, i_uploaded_at = db_now ck, i_purged_at = None\<rparr>"

definition resubmitted :: "clock \<Rightarrow> string \<Rightarrow> id_document \<Rightarrow> id_document" where
  "resubmitted ck key d = d\<lparr>i_s3_key := Some key, i_status := DS_pending, i_rejection_reason := None,
     i_reviewed_by := None, i_reviewed_at := None, i_uploaded_at := db_now ck\<rparr>"

text \<open>\<open>INSERT .. ON CONFLICT (user_id, kind) DO UPDATE\<close>.\<close>

definition confirm_document :: "clock \<Rightarrow> uuid \<Rightarrow> doc_kind \<Rightarrow> string \<Rightarrow> db \<Rightarrow> unit result \<times> db" where
  "confirm_document ck uid kind key s =
     (if \<not> starts_with (own_prefix uid) key then (Inl (BadRequest ''That upload does not belong to you.''), s)
      else if list_ex (\<lambda>d. i_user_id d = uid \<and> i_kind d = kind) (id_documents s)
      then (Inr (), s\<lparr>id_documents := update_where (\<lambda>d. i_user_id d = uid \<and> i_kind d = kind) (resubmitted ck key) (id_documents s)\<rparr>)
      else (Inr (), s\<lparr>id_documents := id_documents s @ [pending_document ck uid kind key (next_id s)], next_id := Suc (next_id s)\<rparr>))"

text \<open>The routes: artists only, and only the kinds the DTOs allow.\<close>

definition confirm_route :: "clock \<Rightarrow> user_row \<Rightarrow> doc_kind \<Rightarrow> string \<Rightarrow> db \<Rightarrow> unit result \<times> db" where
  "confirm_route ck u kind key s =
     (if u_role u \<noteq> R_artist then (Inl (Forbidden ''You do not have permission to access this resource.''), s)
      else if kind \<notin> set id_document_kinds then (Inl (BadRequest ''kind must be one of the following values: id_document, selfie''), s)
      else confirm_document ck (u_id u) kind key s)"

section \<open>The gate\<close>

definition is_venue :: "uuid \<Rightarrow> db \<Rightarrow> bool" where
  "is_venue uid s = list_ex (\<lambda>p. ap_user_id p = uid \<and>
     list_ex (\<lambda>a. ac_artist_profile_id a = ap_id p \<and>
       list_ex (\<lambda>c. ct_id c = ac_category_id a \<and> ct_slug c = venue_category_slug) (categories s)) (artist_categories s)) (artist_profiles s)"

definition required_kinds_for :: "uuid \<Rightarrow> db \<Rightarrow> doc_kind list" where
  "required_kinds_for uid s = (if is_venue uid s then venue_required_kinds else required_kinds)"

definition has_complete_verification :: "uuid \<Rightarrow> db \<Rightarrow> bool" where
  "has_complete_verification uid s =
     (let approved = map i_kind (filter (\<lambda>d. i_user_id d = uid \<and> i_status d = DS_approved) (id_documents s))
      in list_all (\<lambda>k. k \<in> set approved) (required_kinds_for uid s))"

record checklist_line =
  cl_kind :: doc_kind
  cl_status :: string
  cl_rejection_reason :: "string option"
  cl_uploaded_at :: "timestamp option"
  cl_reviewed_at :: "timestamp option"

record checklist =
  cl_documents :: "checklist_line list"
  cl_complete :: bool
  cl_outstanding :: "string list"

definition describe_outstanding :: "doc_kind \<Rightarrow> string \<Rightarrow> string" where
  "describe_outstanding kind st =
     (let label = (case kind of DK_selfie \<Rightarrow> ''selfie'' | DK_trade_licence \<Rightarrow> ''trade licence'' | DK_id_document \<Rightarrow> ''ID document'')
      in if st = ''missing'' then ''Upload your '' @ label
         else if st = ''rejected'' then ''Your '' @ label @ '' was rejected '' @ [CHR 0xE2, CHR 0x80, CHR 0x94] @ '' upload a new one''
         else ''Your '' @ label @ '' is waiting to be reviewed'')"

text \<open>\<open>new Map(rows.map(..))\<close>: the last row of a kind stands.\<close>

definition document_of_kind :: "uuid \<Rightarrow> doc_kind \<Rightarrow> db \<Rightarrow> id_document option" where
  "document_of_kind uid k s = find (\<lambda>d. i_kind d = k) (rev (filter (\<lambda>d. i_user_id d = uid) (id_documents s)))"

definition get_my_documents :: "uuid \<Rightarrow> db \<Rightarrow> checklist" where
  "get_my_documents uid s =
     (let docs = map (\<lambda>k. let row = document_of_kind uid k s in
              \<lparr>cl_kind = k, cl_status = (case row of None \<Rightarrow> ''missing'' | Some d \<Rightarrow> doc_status_name (i_status d)),
               cl_rejection_reason = Option.bind row i_rejection_reason, cl_uploaded_at = map_option i_uploaded_at row,
               cl_reviewed_at = Option.bind row i_reviewed_at\<rparr>) (required_kinds_for uid s)
      in \<lparr>cl_documents = docs, cl_complete = list_all (\<lambda>l. cl_status l = ''approved'') docs,
          cl_outstanding = map (\<lambda>l. describe_outstanding (cl_kind l) (cl_status l)) (filter (\<lambda>l. cl_status l \<noteq> ''approved'') docs)\<rparr>)"

definition presign_view_url :: "(string option \<Rightarrow> string) \<Rightarrow> uuid \<Rightarrow> db \<Rightarrow> string result" where
  "presign_view_url signed did s =
     (case find (\<lambda>d. i_id d = did) (id_documents s) of
        None \<Rightarrow> Inl (NotFound ''Document not found.'') | Some d \<Rightarrow> Inr (signed (i_s3_key d)))"

section \<open>Retention\<close>

definition retention_over :: "clock \<Rightarrow> db \<Rightarrow> id_document \<Rightarrow> bool" where
  "retention_over ck s d \<longleftrightarrow> i_s3_key d \<noteq> None \<and>
     (list_ex (\<lambda>u. u_id u = i_user_id d \<and> u_deleted_at u \<noteq> None) (users s)
      \<or> i_status d = DS_approved \<and> (case i_reviewed_at d of None \<Rightarrow> False | Some t \<Rightarrow> t < db_now ck - retention_days_approved * ms_per_day)
      \<or> i_status d = DS_rejected \<and> (case i_reviewed_at d of None \<Rightarrow> False | Some t \<Rightarrow> t < db_now ck - retention_days_rejected * ms_per_day))"

definition prune_candidates :: "clock \<Rightarrow> db \<Rightarrow> id_document list" where
  "prune_candidates ck s =
     concat (map (\<lambda>d. map (\<lambda>u. d) (filter (\<lambda>u. u_id u = i_user_id d) (users s))) (filter (retention_over ck s) (id_documents s)))"

text \<open>\<open>accepts\<close> says for which keys the storage carries out a delete; the row is updated after it.\<close>

record prune_state =
  ps_db :: db
  ps_bucket :: "string list"
  ps_purged :: nat
  ps_failed :: nat

definition purge_one :: "clock \<Rightarrow> (string \<Rightarrow> bool) \<Rightarrow> id_document \<Rightarrow> prune_state \<Rightarrow> prune_state" where
  "purge_one ck accepts d p =
     (case i_s3_key d of
        None \<Rightarrow> p
      | Some key \<Rightarrow>
          if \<not> accepts key then p\<lparr>ps_failed := Suc (ps_failed p)\<rparr>
          else p\<lparr>ps_bucket := removeAll key (ps_bucket p),
                 ps_db := (ps_db p)\<lparr>id_documents := update_where (\<lambda>x. i_id x = i_id d)
                    (\<lambda>x. x\<lparr>i_s3_key := None, i_purged_at := Some (db_now ck)\<rparr>) (id_documents (ps_db p))\<rparr>,
                 ps_purged := Suc (ps_purged p)\<rparr>)"

definition prune_expired_documents :: "clock \<Rightarrow> (string \<Rightarrow> bool) \<Rightarrow> db \<Rightarrow> string list \<Rightarrow> prune_state" where
  "prune_expired_documents ck accepts s bucket =
     fold (purge_one ck accepts) (prune_candidates ck s) \<lparr>ps_db = s, ps_bucket = bucket, ps_purged = 0, ps_failed = 0\<rparr>"

end
