(* ===== verification/Admin.thy ===== *)
theory Admin
  imports Auth Identity_Documents Subscriptions Reviews
begin

text \<open>
  \<open>src/admin/admin.service.ts\<close>, first half: the decisions an administrator takes about accounts,
  documents, payments and reports, each with its audit row, its message to the user and the state
  it changes, and the queues they are taken from.
\<close>

section \<open>Audit rows and spellings\<close>

definition write_audit :: "clock \<Rightarrow> uuid \<Rightarrow> string \<Rightarrow> uuid \<Rightarrow> string option \<Rightarrow> jobject \<Rightarrow> db \<Rightarrow> db" where
  "write_audit ck admin action target remark metadata s =
     s\<lparr>audit_log := audit_log s @ [\<lparr>a_id = next_id s, a_admin_id = admin, a_action = action, a_target_id = target,
         a_note = remark, a_metadata = metadata, a_created_at = db_now ck\<rparr>], next_id := Suc (next_id s)\<rparr>"

lemma write_audit_frame [simp]:
  "users (write_audit ck a act t n m s) = users s"
  "artist_profiles (write_audit ck a act t n m s) = artist_profiles s"
  "categories (write_audit ck a act t n m s) = categories s"
  "category_groups (write_audit ck a act t n m s) = category_groups s"
  "artist_categories (write_audit ck a act t n m s) = artist_categories s"
  "id_documents (write_audit ck a act t n m s) = id_documents s"
  "payments (write_audit ck a act t n m s) = payments s"
  "subscriptions (write_audit ck a act t n m s) = subscriptions s"
  "flag_rows (write_audit ck a act t n m s) = flag_rows s"
  "notifications (write_audit ck a act t n m s) = notifications s"
  "messages (write_audit ck a act t n m s) = messages s"
  "conversations (write_audit ck a act t n m s) = conversations s"
  "reviews (write_audit ck a act t n m s) = reviews s"
  "next_id (write_audit ck a act t n m s) = Suc (next_id s)"
  by (simp_all add: write_audit_def)

text \<open>\<open>...(x \&\& { key: x })\<close>: the pair is there when the text is neither missing nor empty.\<close>

definition when_text :: "string \<Rightarrow> string option \<Rightarrow> jobject" where
  "when_text key t = (case t of Some (c # r) \<Rightarrow> [(key, JStr (c # r))] | _ \<Rightarrow> [])"

definition present :: "string option \<Rightarrow> bool" where
  "present t \<longleftrightarrow> (case t of Some (c # r) \<Rightarrow> True | _ \<Rightarrow> False)"

fun payment_status_name :: "payment_status \<Rightarrow> string" where
  "payment_status_name Y_pending = ''pending''"
| "payment_status_name Y_awaiting_provider = ''awaiting_provider''"
| "payment_status_name Y_paid = ''paid''"
| "payment_status_name Y_confirmed = ''confirmed''"
| "payment_status_name Y_rejected = ''rejected''"
| "payment_status_name Y_expired = ''expired''"
| "payment_status_name Y_disputed = ''disputed''"

definition flag_status_name :: "flag_status \<Rightarrow> string" where
  "flag_status_name st = (case st of F_open \<Rightarrow> ''open'' | F_dismissed \<Rightarrow> ''dismissed'' | F_actioned \<Rightarrow> ''actioned'')"

section \<open>Accounts\<close>

text \<open>\<open>UpdateUserStatusDto\<close> names three of the four states.\<close>

datatype target_status = To_active | To_suspended | To_banned

definition status_of_target :: "target_status \<Rightarrow> user_status" where
  "status_of_target t = (case t of To_active \<Rightarrow> U_active | To_suspended \<Rightarrow> U_suspended | To_banned \<Rightarrow> U_banned)"

definition target_name :: "target_status \<Rightarrow> string" where
  "target_name t = (case t of To_active \<Rightarrow> ''active'' | To_suspended \<Rightarrow> ''suspended'' | To_banned \<Rightarrow> ''banned'')"

definition status_audit :: "target_status \<Rightarrow> string" where
  "status_audit t = (case t of To_active \<Rightarrow> ''user.approved'' | To_suspended \<Rightarrow> ''user.suspended'' | To_banned \<Rightarrow> ''user.banned'')"

definition status_title :: "target_status \<Rightarrow> string" where
  "status_title t = (case t of To_active \<Rightarrow> ''Your account has been approved''
     | To_suspended \<Rightarrow> ''Your account has been suspended'' | To_banned \<Rightarrow> ''Your account has been banned'')"

definition status_message :: "target_status \<Rightarrow> string" where
  "status_message t = (case t of To_active \<Rightarrow> ''account_approved'' | To_suspended \<Rightarrow> ''account_suspended'' | To_banned \<Rightarrow> ''account_banned'')"

definition update_user_status :: "clock \<Rightarrow> uuid \<Rightarrow> uuid \<Rightarrow> target_status \<Rightarrow> string option \<Rightarrow> db \<Rightarrow> string result \<times> db" where
  "update_user_status ck admin uid t remark s =
     (case user_by_id uid s of
        None \<Rightarrow> (Inl (NotFound ''User not found.''), s)
      | Some u \<Rightarrow>
          if u_role u = R_admin then (Inl (BadRequest ''Cannot change status of admin accounts.''), s)
          else if t = To_active \<and> u_role u = R_artist \<and> u_status u \<noteq> U_active \<and> \<not> has_complete_verification uid s
          then (Inl (BadRequest (''This artist has not passed identity verification. Both the ID document ''
                  @ ''and the selfie must be approved before the account can go live.'')), s)
          else (Inr (''User status updated to '' @ target_name t @ ''.''),
            insert_notification ck uid (status_message t) (status_title t) (when_text ''note'' remark)
              (record_admin_decision ck uid admin (t = To_active) remark
                (write_audit ck admin (status_audit t) uid remark []
                  (update_status uid (status_of_target t) s)))))"

text \<open>The alphabets, and the draws \<open>randomInt\<close> gives, in the order they are asked for.\<close>

definition temp_lower :: string where
  "temp_lower = ''abcdefghijkmnopqrstuvwxyz''"

definition temp_upper :: string where
  "temp_upper = ''ABCDEFGHJKLMNPQRSTUVWXYZ''"

definition temp_digits :: string where
  "temp_digits = ''23456789''"

definition temp_all :: string where
  "temp_all = temp_lower @ temp_upper @ temp_digits"

definition swap_at :: "nat \<Rightarrow> nat \<Rightarrow> 'a list \<Rightarrow> 'a list" where
  "swap_at i j xs = xs[i := xs ! j, j := xs ! i]"

text \<open>The shuffle, from the last place down; the draw for place \<open>i\<close> is at most \<open>i\<close>.\<close>

fun shuffle_down :: "nat \<Rightarrow> nat list \<Rightarrow> 'a list \<Rightarrow> 'a list" where
  "shuffle_down 0 draws xs = xs"
| "shuffle_down (Suc i) [] xs = xs"
| "shuffle_down (Suc i) (j # draws) xs = shuffle_down i draws (swap_at (Suc i) j xs)"

definition generate_temporary_password :: "nat list \<Rightarrow> nat list \<Rightarrow> string" where
  "generate_temporary_password picks moves =
     (let first = [temp_lower ! (picks ! 0), temp_upper ! (picks ! 1), temp_digits ! (picks ! 2)];
          chars = first @ map (\<lambda>r. temp_all ! r) (take 9 (drop 3 picks))
      in shuffle_down (length chars - 1) moves chars)"

text \<open>The rule of the sign-up form: \<open>MinLength(8)\<close> and the three lookaheads, which stop at a line break.\<close>

definition password_acceptable :: "string \<Rightarrow> bool" where
  "password_acceptable p \<longleftrightarrow>
     (let line = takeWhile (\<lambda>c. (of_char c :: nat) \<notin> {10, 13}) p
      in 8 \<le> length p \<and> list_ex (\<lambda>c. 97 \<le> (of_char c :: nat) \<and> (of_char c :: nat) \<le> 122) line
         \<and> list_ex (\<lambda>c. 65 \<le> (of_char c :: nat) \<and> (of_char c :: nat) \<le> 90) line \<and> list_ex is_digit line)"

definition reset_user_password ::
  "auth_platform \<Rightarrow> clock \<Rightarrow> string \<Rightarrow> nat list \<Rightarrow> nat list \<Rightarrow> uuid \<Rightarrow> uuid \<Rightarrow> string option \<Rightarrow> db \<Rightarrow> string result \<times> db" where
  "reset_user_password pf ck salt picks moves admin uid remark s =
     (case user_by_id uid s of
        None \<Rightarrow> (Inl (NotFound ''User not found.''), s)
      | Some u \<Rightarrow>
          if u_role u = R_admin then (Inl (BadRequest ''Cannot reset the password of an admin account.''), s)
          else (let temporary = generate_temporary_password picks moves
            in (Inr temporary,
                insert_notification ck uid ''password_reset_by_admin'' ''Your password was reset'' (when_text ''note'' remark)
                  (write_audit ck admin ''user_password_reset'' uid remark []
                    (set_user uid (\<lambda>u. u\<lparr>u_password_hash := Some (pf_bcrypt pf salt temporary)\<rparr>) s)))))"

section \<open>Documents\<close>

datatype doc_decision = Doc_approved | Doc_rejected

definition doc_decision_status :: "doc_decision \<Rightarrow> doc_status" where
  "doc_decision_status d = (case d of Doc_approved \<Rightarrow> DS_approved | Doc_rejected \<Rightarrow> DS_rejected)"

definition has_required_approved :: "uuid \<Rightarrow> db \<Rightarrow> bool" where
  "has_required_approved uid s =
     (let approved = map i_kind (filter (\<lambda>d. i_user_id d = uid \<and> i_status d = DS_approved) (id_documents s));
          required = (if is_venue uid s then venue_required_kinds else required_kinds)
      in list_all (\<lambda>k. k \<in> set approved) required)"

definition review_document ::
  "clock \<Rightarrow> uuid \<Rightarrow> uuid \<Rightarrow> doc_decision \<Rightarrow> string option \<Rightarrow> db \<Rightarrow> string result \<times> db" where
  "review_document ck admin did decision reason s =
     (case find (\<lambda>d. i_id d = did) (id_documents s) of
        None \<Rightarrow> (Inl (NotFound ''ID document not found.''), s)
      | Some doc \<Rightarrow>
          if i_status doc \<noteq> DS_pending
          then (Inl (BadRequest (''Document has already been '' @ doc_status_name (i_status doc) @ ''.'')), s)
          else if decision = Doc_rejected \<and> \<not> present reason then (Inl (BadRequest ''A rejection reason is required.''), s)
          else (let s1 = s\<lparr>id_documents := update_where (\<lambda>d. i_id d = did)
                       (\<lambda>d. d\<lparr>i_status := doc_decision_status decision, i_rejection_reason := reason,
                              i_reviewed_by := Some admin, i_reviewed_at := Some (db_now ck)\<rparr>) (id_documents s)\<rparr>;
                    verified = (decision = Doc_approved \<and> has_required_approved (i_user_id doc) s1);
                    s2 = s1\<lparr>artist_profiles := update_where (\<lambda>p. ap_user_id p = i_user_id doc)
                       (\<lambda>p. p\<lparr>ap_is_verified := verified\<rparr>) (artist_profiles s1)\<rparr>;
                    s3 = write_audit ck admin (if decision = Doc_approved then ''id_doc.approved'' else ''id_doc.rejected'')
                       (i_user_id doc) reason ([(''doc_id'', JUuid did)] @ when_text ''rejection_reason'' reason) s2
                in (Inr (''Document '' @ doc_status_name (doc_decision_status decision) @ ''.''),
                    insert_notification ck (i_user_id doc)
                      (if decision = Doc_approved then ''id_verified'' else ''id_rejected'')
                      (if decision = Doc_approved then ''Your ID has been verified'' else ''Your ID verification was rejected'')
                      (when_text ''rejection_reason'' reason) s3)))"

section \<open>Payments\<close>

datatype pay_decision = Pay_confirmed | Pay_rejected

definition pay_decision_status :: "pay_decision \<Rightarrow> payment_status" where
  "pay_decision_status d = (case d of Pay_confirmed \<Rightarrow> Y_confirmed | Pay_rejected \<Rightarrow> Y_rejected)"

definition bought :: "payment \<Rightarrow> jobject" where
  "bought y = (case y_plan_code y of None \<Rightarrow> [] | Some c \<Rightarrow> [(''plan_code'', JStr (plan_name c)), (''quantity'', JInt (int (y_quantity y)))])"

definition minted_count :: "nat \<Rightarrow> jobject" where
  "minted_count n = (if n > 0 then [(''subscriptions_minted'', JInt (int n))] else [])"

definition text_or_null :: "string option \<Rightarrow> jval" where
  "text_or_null t = (case t of None \<Rightarrow> JNull | Some x \<Rightarrow> JStr x)"

text \<open>The transaction: a failed mint rolls the decision back with it.\<close>

definition settle_payment :: "clock \<Rightarrow> uuid \<Rightarrow> uuid \<Rightarrow> pay_decision \<Rightarrow> string option \<Rightarrow> db \<Rightarrow> (nat \<times> db) result" where
  "settle_payment ck admin pid decision reason s =
     (let s1 = s\<lparr>payments := update_where (\<lambda>y. y_id y = pid)
            (\<lambda>y. y\<lparr>y_status := pay_decision_status decision, y_rejection_reason := reason,
                   y_confirmed_by := (if decision = Pay_confirmed then Some admin else None),
                   y_confirmed_at := (if decision = Pay_confirmed then Some (db_now ck) else None)\<rparr>) (payments s)\<rparr>
      in if decision = Pay_confirmed
         then (case mint_for_payment ck pid s1 of Inl e \<Rightarrow> Inl e | Inr (m, s2) \<Rightarrow> Inr (mr_minted m, s2))
         else Inr (0, s1))"

text \<open>
  \<open>reviewPayment\<close>: the read with its checks, the transaction above, which goes by the payment's id
  alone, and what is written down afterwards.
\<close>

definition review_check :: "uuid \<Rightarrow> pay_decision \<Rightarrow> string option \<Rightarrow> db \<Rightarrow> payment result" where
  "review_check pid decision reason s =
     (case find (\<lambda>y. y_id y = pid) (payments s) of
        None \<Rightarrow> Inl (NotFound ''Payment not found.'')
      | Some y \<Rightarrow>
          if y_status y \<noteq> Y_pending \<and> y_status y \<noteq> Y_awaiting_provider
          then Inl (BadRequest (''Payment has already been '' @ payment_status_name (y_status y) @ ''.''))
          else if decision = Pay_rejected \<and> \<not> present reason then Inl (BadRequest ''A rejection reason is required.'')
          else Inr y)"

definition review_log :: "clock \<Rightarrow> uuid \<Rightarrow> uuid \<Rightarrow> pay_decision \<Rightarrow> string option \<Rightarrow> payment \<Rightarrow> nat \<Rightarrow> db \<Rightarrow> db" where
  "review_log ck admin pid decision reason y minted s1 =
     (let s2 = write_audit ck admin (if decision = Pay_confirmed then ''payment.confirmed'' else ''payment.rejected'')
            (y_planner_id y) reason
            ([(''payment_id'', JUuid pid), (''transfer_service'', text_or_null (y_transfer_service y)),
              (''reference'', text_or_null (y_reference_code y))]
             @ bought y @ minted_count minted @ when_text ''rejection_reason'' reason) s1
      in insert_notification ck (y_planner_id y)
           (if decision = Pay_confirmed then ''payment_confirmed'' else ''payment_rejected'')
           (if decision = Pay_confirmed then ''Your payment was confirmed'' else ''Your payment was rejected'')
           ([(''payment_id'', JUuid pid)] @ bought y @ minted_count minted @ when_text ''rejection_reason'' reason) s2)"

definition review_write ::
  "clock \<Rightarrow> uuid \<Rightarrow> uuid \<Rightarrow> pay_decision \<Rightarrow> string option \<Rightarrow> payment \<Rightarrow> db \<Rightarrow> (string \<times> nat) result \<times> db" where
  "review_write ck admin pid decision reason y s =
     (case settle_payment ck admin pid decision reason s of
        Inl e \<Rightarrow> (Inl e, s)
      | Inr (minted, s1) \<Rightarrow>
          (Inr (''Payment '' @ payment_status_name (pay_decision_status decision) @ ''.'', minted),
           review_log ck admin pid decision reason y minted s1))"

definition review_payment ::
  "clock \<Rightarrow> uuid \<Rightarrow> uuid \<Rightarrow> pay_decision \<Rightarrow> string option \<Rightarrow> db \<Rightarrow> (string \<times> nat) result \<times> db" where
  "review_payment ck admin pid decision reason s =
     (case review_check pid decision reason s of
        Inl e \<Rightarrow> (Inl e, s)
      | Inr y \<Rightarrow> review_write ck admin pid decision reason y s)"

section \<open>Reports\<close>

datatype flag_decision = Flag_dismissed | Flag_actioned

definition flag_decision_status :: "flag_decision \<Rightarrow> flag_status" where
  "flag_decision_status d = (case d of Flag_dismissed \<Rightarrow> F_dismissed | Flag_actioned \<Rightarrow> F_actioned)"

text \<open>
  The column is \<open>flagged_by\<close>; the row read with \<open>.first()\<close> has no field \<open>reporter_id\<close>.
\<close>

definition flag_reporter_id :: "flag_row \<Rightarrow> uuid option" where
  "flag_reporter_id f = None"

definition resolve_flag_target_user_id :: "flag_row \<Rightarrow> db \<Rightarrow> uuid option" where
  "resolve_flag_target_user_id f s =
     (case f_target_type f of
        FT_profile \<Rightarrow> Some (f_target_id f)
      | FT_message \<Rightarrow> map_option m_sender_id (find (\<lambda>m. m_id m = f_target_id f) (messages s))
      | FT_conversation \<Rightarrow>
          (case find (\<lambda>c. c_id c = f_target_id f) (conversations s) of
             None \<Rightarrow> None
           | Some c \<Rightarrow> Some (if Some (c_artist_id c) = flag_reporter_id f then c_planner_id c else c_artist_id c)))"

text \<open>A message to nobody violates \<open>user_id NOT NULL\<close>.\<close>

definition notify_maybe :: "clock \<Rightarrow> uuid option \<Rightarrow> string \<Rightarrow> string \<Rightarrow> jobject \<Rightarrow> db \<Rightarrow> unit result \<times> db" where
  "notify_maybe ck uid ty title payload s =
     (case uid of None \<Rightarrow> (Inl (PgError ''23502''), s) | Some u \<Rightarrow> (Inr (), insert_notification ck u ty title payload s))"

definition note_pair :: "string option \<Rightarrow> jobject" where
  "note_pair t = (case t of None \<Rightarrow> [] | Some x \<Rightarrow> [(''note'', JStr x)])"

definition resolve_flag :: "clock \<Rightarrow> uuid \<Rightarrow> uuid \<Rightarrow> flag_decision \<Rightarrow> string option \<Rightarrow> db \<Rightarrow> string result \<times> db" where
  "resolve_flag ck admin fid decision remark s =
     (case find (\<lambda>f. f_id f = fid) (flag_rows s) of
        None \<Rightarrow> (Inl (NotFound ''Flag not found.''), s)
      | Some f \<Rightarrow>
          if f_status f \<noteq> F_open
          then (Inl (BadRequest (''Flag has already been '' @ flag_status_name (f_status f) @ ''.'')), s)
          else (let s1 = s\<lparr>flag_rows := update_where (\<lambda>f. f_id f = fid)
                       (\<lambda>f. f\<lparr>f_status := flag_decision_status decision, f_resolved_by := Some admin,
                              f_resolved_at := Some (db_now ck), f_resolver_note := remark\<rparr>) (flag_rows s)\<rparr>;
                    s2 = write_audit ck admin (if decision = Flag_dismissed then ''flag.dismissed'' else ''flag.actioned'')
                       (f_target_id f) remark [(''flag_id'', JUuid fid)] s1
                in case notify_maybe ck (flag_reporter_id f) ''flag_resolved'' ''Your report has been reviewed'' (note_pair remark) s2 of
                     (Inl e, s3) \<Rightarrow> (Inl e, s3)
                   | (Inr _, s3) \<Rightarrow>
                       (Inr (''Flag '' @ flag_status_name (flag_decision_status decision) @ ''.''),
                        if decision = Flag_actioned
                        then (case resolve_flag_target_user_id f s3 of
                                None \<Rightarrow> s3
                              | Some u \<Rightarrow> insert_notification ck u ''flag_actioned'' ''Action was taken following a report'' (note_pair remark) s3)
                        else s3)))"

section \<open>Moderation of reviews\<close>

definition remove_review :: "clock \<Rightarrow> uuid \<Rightarrow> uuid \<Rightarrow> db \<Rightarrow> unit result \<times> db" where
  "remove_review ck admin rid s =
     (case admin_remove rid s of
        (Inl e, s1) \<Rightarrow> (Inl e, s1)
      | (Inr _, s1) \<Rightarrow> (Inr (), write_audit ck admin ''review.removed'' rid None [(''review_id'', JUuid rid)] s1))"

lemmas admin_op_defs [op_defs] =
  write_audit_def update_user_status_def reset_user_password_def review_document_def settle_payment_def
  review_check_def review_log_def review_write_def review_payment_def resolve_flag_def remove_review_def

end
