(* ===== verification/Admin_Catalogue.thy ===== *)
theory Admin_Catalogue
  imports Admin
begin

text \<open>
  \<open>src/admin/admin.service.ts\<close>, second half: the catalogue of categories and their groups. Names
  and slugs are unique, a category belongs to a group that exists, and nothing in use is deleted.
\<close>

section \<open>Slugs\<close>

definition slug_char :: "char \<Rightarrow> bool" where
  "slug_char c \<longleftrightarrow> (97 \<le> (of_char c :: nat) \<and> (of_char c :: nat) \<le> 122) \<or> is_digit c"

text \<open>\<open>replace(/[^a-z0-9]+/g, '-')\<close>: each run of other characters becomes one hyphen.\<close>

fun hyphenate :: "bool \<Rightarrow> string \<Rightarrow> string" where
  "hyphenate gap [] = []"
| "hyphenate gap (c # cs) =
     (if slug_char c then c # hyphenate False cs
      else if gap then hyphenate True cs else CHR ''-'' # hyphenate True cs)"

definition strip_hyphens :: "string \<Rightarrow> string" where
  "strip_hyphens s = rev (dropWhile (\<lambda>c. c = CHR ''-'') (rev (dropWhile (\<lambda>c. c = CHR ''-'') s)))"

definition slugify :: "string \<Rightarrow> string" where
  "slugify name = strip_hyphens (hyphenate False (js_trim (to_lower name)))"

text \<open>The pattern \<open>^[a-z0-9]+(-[a-z0-9]+)*$\<close> of the DTOs.\<close>

fun after_hyphen :: "string \<Rightarrow> bool" and in_word :: "string \<Rightarrow> bool" where
  "after_hyphen [] \<longleftrightarrow> False"
| "after_hyphen (c # cs) \<longleftrightarrow> slug_char c \<and> in_word cs"
| "in_word [] \<longleftrightarrow> True"
| "in_word (c # cs) \<longleftrightarrow> (slug_char c \<and> in_word cs) \<or> (c = CHR ''-'' \<and> after_hyphen cs)"

definition slug_pattern :: "string \<Rightarrow> bool" where
  "slug_pattern s \<longleftrightarrow> after_hyphen s"

section \<open>Categories\<close>

record create_category_dto =
  cc_name :: string
  cc_group_id :: uuid
  cc_booker_interest :: "booker_interest option"
  cc_slug :: "string option"
  cc_sort_order :: "int option"

record update_category_dto =
  uc_booker_interest :: "booker_interest option option"
  uc_name :: "string option"
  uc_group_id :: "uuid option"
  uc_slug :: "string option"
  uc_sort_order :: "int option"

definition interest_name :: "booker_interest \<Rightarrow> string" where
  "interest_name i = (case i of I_musical_acts \<Rightarrow> ''musical_acts'' | I_performance_acts \<Rightarrow> ''performance_acts''
     | I_photo_video \<Rightarrow> ''photo_video'' | I_djs_and_services \<Rightarrow> ''djs_and_services'' | I_venues \<Rightarrow> ''venues'')"

definition list_categories_admin :: "db \<Rightarrow> (category \<times> string \<times> string \<times> nat) list" where
  "list_categories_admin s =
     map (\<lambda>(c, g). (c, cg_name g, cg_slug g, length (filter (\<lambda>a. ac_category_id a = ct_id c) (artist_categories s))))
       (sort_by (\<lambda>(c, g) (c', g'). cg_sort_order g < cg_sort_order g' \<or> cg_sort_order g = cg_sort_order g' \<and> ct_sort_order c \<le> ct_sort_order c')
         (concat (map (\<lambda>c. map (\<lambda>g. (c, g)) (filter (\<lambda>g. cg_id g = ct_group_id c) (category_groups s))) (categories s))))"

definition create_category :: "clock \<Rightarrow> uuid \<Rightarrow> create_category_dto \<Rightarrow> db \<Rightarrow> category result \<times> db" where
  "create_category ck admin dto s =
     (case find (\<lambda>g. cg_id g = cc_group_id dto) (category_groups s) of
        None \<Rightarrow> (Inl (NotFound ''Category group not found.''), s)
      | Some _ \<Rightarrow>
          (let slug = (case cc_slug dto of Some x \<Rightarrow> x | None \<Rightarrow> slugify (cc_name dto))
           in case find (\<lambda>c. ct_slug c = slug \<or> ct_name c = cc_name dto) (categories s) of
                Some _ \<Rightarrow> (Inl (BadRequest ''A category with that name or slug already exists.''), s)
              | None \<Rightarrow>
                  (let c = \<lparr>ct_id = next_id s, ct_name = cc_name dto, ct_slug = slug,
                         ct_sort_order = (case cc_sort_order dto of Some n \<Rightarrow> n | None \<Rightarrow> 0), ct_group_id = cc_group_id dto,
                         ct_booker_interest = cc_booker_interest dto, ct_created_at = db_now ck\<rparr>
                   in (Inr c, write_audit ck admin ''category.created'' (ct_id c) None
                        [(''name'', JStr (ct_name c)), (''slug'', JStr (ct_slug c)), (''group_id'', JUuid (ct_group_id c)),
                         (''booker_interest'', text_or_null (map_option interest_name (ct_booker_interest c)))]
                        (s\<lparr>categories := categories s @ [c], next_id := Suc (next_id s)\<rparr>)))))"

text \<open>
  \<open>where({ slug }).orWhere({ name }).whereNot({ id })\<close>: in SQL the conjunction binds tighter, so
  the exception for the row itself covers the name only.
\<close>

definition category_clash :: "uuid \<Rightarrow> string \<Rightarrow> string \<Rightarrow> category \<Rightarrow> bool" where
  "category_clash cid slug name c \<longleftrightarrow> ct_slug c = slug \<or> ct_name c = name \<and> \<not> ct_id c = cid"

definition category_facts :: "category \<Rightarrow> jobject" where
  "category_facts c = [(''name'', JStr (ct_name c)), (''slug'', JStr (ct_slug c)), (''sort_order'', JInt (ct_sort_order c)),
     (''group_id'', JUuid (ct_group_id c))]"

text \<open>\<open>{ before, after }\<close>, one level down.\<close>

definition before_after :: "jobject \<Rightarrow> jobject \<Rightarrow> jobject" where
  "before_after b a = map (\<lambda>(k, v). (''before.'' @ k, v)) b @ map (\<lambda>(k, v). (''after.'' @ k, v)) a"

definition next_slug :: "string option \<Rightarrow> string option \<Rightarrow> string \<Rightarrow> string" where
  "next_slug dto_slug dto_name current =
     (case dto_slug of Some x \<Rightarrow> x
      | None \<Rightarrow> (case dto_name of Some (c # n) \<Rightarrow> slugify (c # n) | _ \<Rightarrow> current))"

definition update_category :: "clock \<Rightarrow> uuid \<Rightarrow> uuid \<Rightarrow> update_category_dto \<Rightarrow> db \<Rightarrow> category result \<times> db" where
  "update_category ck admin cid dto s =
     (case find (\<lambda>c. ct_id c = cid) (categories s) of
        None \<Rightarrow> (Inl (NotFound ''Category not found.''), s)
      | Some c \<Rightarrow>
          if (case uc_group_id dto of None \<Rightarrow> False | Some g \<Rightarrow> \<not> list_ex (\<lambda>x. cg_id x = g) (category_groups s))
          then (Inl (NotFound ''Category group not found.''), s)
          else (let name = (case uc_name dto of Some n \<Rightarrow> n | None \<Rightarrow> ct_name c);
                    slug = next_slug (uc_slug dto) (uc_name dto) (ct_slug c)
            in if (slug \<noteq> ct_slug c \<or> name \<noteq> ct_name c) \<and> list_ex (category_clash cid slug name) (categories s)
               then (Inl (BadRequest ''A category with that name or slug already exists.''), s)
               else (let f = (\<lambda>x. x\<lparr>ct_name := name, ct_slug := slug,
                            ct_sort_order := (case uc_sort_order dto of Some n \<Rightarrow> n | None \<Rightarrow> ct_sort_order c),
                            ct_group_id := (case uc_group_id dto of Some g \<Rightarrow> g | None \<Rightarrow> ct_group_id c),
                            ct_booker_interest := (case uc_booker_interest dto of None \<Rightarrow> ct_booker_interest c | Some i \<Rightarrow> i)\<rparr>)
                 in (Inr (f c), write_audit ck admin ''category.updated'' cid None
                       (before_after (category_facts c) (category_facts (f c)))
                       (s\<lparr>categories := update_where (\<lambda>x. ct_id x = cid) f (categories s)\<rparr>)))))"

definition delete_category :: "clock \<Rightarrow> uuid \<Rightarrow> uuid \<Rightarrow> db \<Rightarrow> string result \<times> db" where
  "delete_category ck admin cid s =
     (case find (\<lambda>c. ct_id c = cid) (categories s) of
        None \<Rightarrow> (Inl (NotFound ''Category not found.''), s)
      | Some c \<Rightarrow>
          (let n = aggregate_value (Some (length (filter (\<lambda>a. ac_category_id a = cid) (artist_categories s))))
           in if n > 0
              then (Inl (BadRequest (''Cannot delete '' @ [CHR 0xE2, CHR 0x80, CHR 0x94] @ '' '' @ show_nat n
                      @ '' artist profile(s) still use this category. Reassign them first.'')), s)
              else (Inr ''Category deleted.'', write_audit ck admin ''category.deleted'' cid None
                      [(''name'', JStr (ct_name c)), (''slug'', JStr (ct_slug c))]
                      (s\<lparr>categories := filter (\<lambda>x. ct_id x \<noteq> cid) (categories s)\<rparr>))))"

section \<open>Groups\<close>

record create_group_dto =
  gc_name :: string
  gc_slug :: "string option"
  gc_icon :: "string option"
  gc_sort_order :: "int option"

record update_group_dto =
  gu_name :: "string option"
  gu_slug :: "string option"
  gu_icon :: "string option"
  gu_sort_order :: "int option"

definition list_category_groups :: "db \<Rightarrow> (category_group \<times> nat) list" where
  "list_category_groups s =
     map (\<lambda>g. (g, length (filter (\<lambda>c. ct_group_id c = cg_id g) (categories s))))
       (sort_by (\<lambda>g h. cg_sort_order g \<le> cg_sort_order h) (category_groups s))"

definition create_category_group :: "clock \<Rightarrow> uuid \<Rightarrow> create_group_dto \<Rightarrow> db \<Rightarrow> category_group result \<times> db" where
  "create_category_group ck admin dto s =
     (let slug = (case gc_slug dto of Some x \<Rightarrow> x | None \<Rightarrow> slugify (gc_name dto))
      in case find (\<lambda>g. cg_slug g = slug \<or> cg_name g = gc_name dto) (category_groups s) of
           Some _ \<Rightarrow> (Inl (BadRequest ''A category group with that name or slug already exists.''), s)
         | None \<Rightarrow>
             (let g = \<lparr>cg_id = next_id s, cg_name = gc_name dto, cg_slug = slug, cg_icon = gc_icon dto,
                    cg_sort_order = (case gc_sort_order dto of Some n \<Rightarrow> n | None \<Rightarrow> 0), cg_created_at = db_now ck\<rparr>
              in (Inr g, write_audit ck admin ''category_group.created'' (cg_id g) None
                    [(''name'', JStr (cg_name g)), (''slug'', JStr (cg_slug g))]
                    (s\<lparr>category_groups := category_groups s @ [g], next_id := Suc (next_id s)\<rparr>))))"

definition group_clash :: "uuid \<Rightarrow> string \<Rightarrow> string \<Rightarrow> category_group \<Rightarrow> bool" where
  "group_clash gid slug name g \<longleftrightarrow> cg_slug g = slug \<or> cg_name g = name \<and> \<not> cg_id g = gid"

definition group_facts :: "category_group \<Rightarrow> jobject" where
  "group_facts g = [(''name'', JStr (cg_name g)), (''slug'', JStr (cg_slug g))]"

definition update_category_group :: "clock \<Rightarrow> uuid \<Rightarrow> uuid \<Rightarrow> update_group_dto \<Rightarrow> db \<Rightarrow> category_group result \<times> db" where
  "update_category_group ck admin gid dto s =
     (case find (\<lambda>g. cg_id g = gid) (category_groups s) of
        None \<Rightarrow> (Inl (NotFound ''Category group not found.''), s)
      | Some g \<Rightarrow>
          (let name = (case gu_name dto of Some n \<Rightarrow> n | None \<Rightarrow> cg_name g);
               slug = next_slug (gu_slug dto) (gu_name dto) (cg_slug g)
           in if (slug \<noteq> cg_slug g \<or> name \<noteq> cg_name g) \<and> list_ex (group_clash gid slug name) (category_groups s)
              then (Inl (BadRequest ''A category group with that name or slug already exists.''), s)
              else (let f = (\<lambda>x. x\<lparr>cg_name := name, cg_slug := slug,
                           cg_icon := (case gu_icon dto of Some i \<Rightarrow> Some i | None \<Rightarrow> cg_icon g),
                           cg_sort_order := (case gu_sort_order dto of Some n \<Rightarrow> n | None \<Rightarrow> cg_sort_order g)\<rparr>)
                in (Inr (f g), write_audit ck admin ''category_group.updated'' gid None (before_after (group_facts g) (group_facts (f g)))
                      (s\<lparr>category_groups := update_where (\<lambda>x. cg_id x = gid) f (category_groups s)\<rparr>)))))"

definition delete_category_group :: "clock \<Rightarrow> uuid \<Rightarrow> uuid \<Rightarrow> db \<Rightarrow> string result \<times> db" where
  "delete_category_group ck admin gid s =
     (case find (\<lambda>g. cg_id g = gid) (category_groups s) of
        None \<Rightarrow> (Inl (NotFound ''Category group not found.''), s)
      | Some g \<Rightarrow>
          (let n = aggregate_value (Some (length (filter (\<lambda>c. ct_group_id c = gid) (categories s))))
           in if n > 0
              then (Inl (BadRequest (''Cannot delete '' @ [CHR 0xE2, CHR 0x80, CHR 0x94] @ '' '' @ show_nat n @ '' categor''
                      @ (if n = 1 then ''y'' else ''ies'') @ '' still belong to this group. Reassign or delete them first.'')), s)
              else (Inr ''Category group deleted.'', write_audit ck admin ''category_group.deleted'' gid None
                      [(''name'', JStr (cg_name g)), (''slug'', JStr (cg_slug g))]
                      (s\<lparr>category_groups := filter (\<lambda>x. cg_id x \<noteq> gid) (category_groups s)\<rparr>))))"

lemmas catalogue_op_defs [op_defs] =
  create_category_def update_category_def delete_category_def create_category_group_def update_category_group_def
  delete_category_group_def

section \<open>Slugs fit the pattern\<close>

lemma hyphen_no_slug_char [simp]: "\<not> slug_char (CHR ''-'')"
  by (simp add: slug_char_def is_digit_def)

text \<open>What the pattern says, the other way round: single hyphens, and none at an end.\<close>

definition single_hyphens :: "string \<Rightarrow> bool" where
  "single_hyphens s \<longleftrightarrow> (\<forall>c \<in> set s. slug_char c \<or> c = CHR ''-'') \<and> successively (\<lambda>a b. a \<noteq> CHR ''-'' \<or> b \<noteq> CHR ''-'') s"

definition bare_ends :: "string \<Rightarrow> bool" where
  "bare_ends s \<longleftrightarrow> hd s \<noteq> CHR ''-'' \<and> last s \<noteq> CHR ''-''"

lemma single_hyphens_Cons: "single_hyphens (c # cs) \<longleftrightarrow>
    (slug_char c \<or> c = CHR ''-'') \<and> single_hyphens cs \<and> (c = CHR ''-'' \<and> cs \<noteq> [] \<longrightarrow> hd cs \<noteq> CHR ''-'')"
  by (cases cs) (auto simp: single_hyphens_def)

lemma single_hyphens_Nil [simp]: "single_hyphens []"
  by (simp add: single_hyphens_def)

lemma words_of_single_hyphens:
  "single_hyphens s \<Longrightarrow> s = [] \<or> last s \<noteq> CHR ''-'' \<Longrightarrow> in_word s \<and> (s \<noteq> [] \<and> hd s \<noteq> CHR ''-'' \<longrightarrow> after_hyphen s)"
proof (induction s)
  case (Cons c cs)
  have "cs = [] \<or> last cs \<noteq> CHR ''-''" using Cons.prems(2) by auto
  with Cons.IH Cons.prems(1) have "in_word cs \<and> (cs \<noteq> [] \<and> hd cs \<noteq> CHR ''-'' \<longrightarrow> after_hyphen cs)"
    by (simp add: single_hyphens_Cons)
  with Cons.prems show ?case by (auto simp: single_hyphens_Cons)
qed simp

lemma single_hyphens_of_words:
  "(after_hyphen s \<longrightarrow> s \<noteq> [] \<and> single_hyphens s \<and> bare_ends s) \<and> (in_word s \<longrightarrow> single_hyphens s \<and> (s = [] \<or> last s \<noteq> CHR ''-''))"
proof (induction s)
  case (Cons c cs)
  then show ?case by (cases "cs = []") (auto simp: single_hyphens_Cons bare_ends_def)
qed simp

lemma slug_pattern_iff: "slug_pattern s \<longleftrightarrow> s \<noteq> [] \<and> single_hyphens s \<and> bare_ends s"
proof
  assume "slug_pattern s"
  then show "s \<noteq> [] \<and> single_hyphens s \<and> bare_ends s" using single_hyphens_of_words [of s] by (simp add: slug_pattern_def)
next
  assume "s \<noteq> [] \<and> single_hyphens s \<and> bare_ends s"
  then show "slug_pattern s" using words_of_single_hyphens [of s] by (simp add: slug_pattern_def bare_ends_def)
qed

lemma hyphenate_single: "single_hyphens (hyphenate gap x) \<and> (gap \<and> hyphenate gap x \<noteq> [] \<longrightarrow> hd (hyphenate gap x) \<noteq> CHR ''-'')"
  by (induction gap x rule: hyphenate.induct) (auto simp: single_hyphens_Cons)

lemma single_hyphens_appendD: "single_hyphens (xs @ ys) \<Longrightarrow> single_hyphens xs \<and> single_hyphens ys"
  by (auto simp: single_hyphens_def successively_append_iff)

lemma strip_hyphens_bare:
  assumes "single_hyphens s"
  shows "strip_hyphens s = [] \<or> slug_pattern (strip_hyphens s)"
proof -
  let ?p = "\<lambda>c. c = CHR ''-''"
  define t where "t = dropWhile ?p s"
  define u where "u = strip_hyphens s"
  have u: "u = rev (dropWhile ?p (rev t))" by (simp add: u_def t_def strip_hyphens_def)
  have "s = takeWhile ?p s @ t" by (simp add: t_def)
  then have "single_hyphens t" using assms single_hyphens_appendD by metis
  moreover have "t = u @ rev (takeWhile ?p (rev t))"
    unfolding u by (metis rev_append rev_rev_ident takeWhile_dropWhile_id)
  ultimately have "single_hyphens u" using single_hyphens_appendD by metis
  moreover have "bare_ends u" if "u \<noteq> []"
  proof -
    have "t \<noteq> []" using that by (auto simp: u)
    then have "hd t \<noteq> CHR ''-''" unfolding t_def by (rule hd_dropWhile)
    moreover have "hd t = hd u" using \<open>t = u @ _\<close> that by (metis hd_append2)
    moreover have "dropWhile ?p (rev t) \<noteq> []" using that by (simp add: u)
    then have "hd (dropWhile ?p (rev t)) \<noteq> CHR ''-''" by (rule hd_dropWhile)
    then have "last u \<noteq> CHR ''-''" using \<open>dropWhile ?p (rev t) \<noteq> []\<close> by (simp add: u last_rev)
    ultimately show ?thesis by (simp add: bare_ends_def)
  qed
  ultimately show ?thesis by (auto simp: slug_pattern_iff simp flip: u_def)
qed

lemma slug_char_lower: "slug_char c \<or> c = CHR ''-'' \<Longrightarrow> lower_char c = c \<and> \<not> is_space c"
  by (auto simp: slug_char_def is_digit_def lower_char_def is_space_def Let_def)

lemma hyphenate_fixed: "single_hyphens s \<Longrightarrow> hyphenate False s = s \<and> (s \<noteq> [] \<and> hd s \<noteq> CHR ''-'' \<longrightarrow> hyphenate True s = s)"
  by (induction s) (auto simp: single_hyphens_Cons)

lemma strip_fixed:
  assumes "s = [] \<or> (\<not> p (hd s) \<and> \<not> p (last s))"
  shows "rev (dropWhile p (rev (dropWhile p s))) = s"
proof (cases "s = []")
  case False
  then have "dropWhile p s = s" using assms by (metis dropWhile_eq_self_iff)
  moreover have "dropWhile p (rev s) = rev s" using assms False by (metis dropWhile_eq_self_iff hd_rev rev_is_Nil_conv)
  ultimately show ?thesis by simp
qed simp

text \<open>
  A slug the service makes from a name is one the API would accept, lower-case words of letters
  and digits joined by single hyphens, unless the name holds no such character and the slug is
  empty; and a text that already is such a slug is kept as it is, so making a slug twice changes
  nothing.
\<close>

theorem slugify_makes_valid_slugs:
  "(slugify name = [] \<or> slug_pattern (slugify name)) \<and> (if slug_pattern name then slugify name = name else True)
   \<and> slugify (slugify name) = slugify name"
proof -
  have made: "slugify x = [] \<or> slug_pattern (slugify x)" for x
    unfolding slugify_def using strip_hyphens_bare hyphenate_single by blast
  have kept: "slugify x = x" if "slug_pattern x" for x
  proof -
    from that have x: "x \<noteq> []" "single_hyphens x" "bare_ends x" by (simp_all add: slug_pattern_iff)
    then have chars: "\<forall>c \<in> set x. slug_char c \<or> c = CHR ''-''" by (simp add: single_hyphens_def)
    then have "to_lower x = x" by (simp add: to_lower_def map_idI slug_char_lower)
    moreover have "js_trim x = x" unfolding js_trim_def
      by (rule strip_fixed) (use chars x(1) slug_char_lower in auto)
    moreover have "strip_hyphens x = x" unfolding strip_hyphens_def
      by (rule strip_fixed) (use x(3) in \<open>auto simp: bare_ends_def\<close>)
    ultimately show ?thesis using hyphenate_fixed [OF x(2)] by (simp add: slugify_def)
  qed
  have "slugify [] = []" by (simp add: slugify_def to_lower_def strip_hyphens_def)
  with made [of name] kept [of name] kept [of "slugify name"] show ?thesis by auto
qed

section \<open>The catalogue stays sound\<close>

text \<open>Names and slugs unique, ids unique and drawn, and no category without its group.\<close>

definition catalogue_ok :: "db \<Rightarrow> bool" where
  "catalogue_ok s \<longleftrightarrow>
     distinct (map ct_id (categories s)) \<and> distinct (map ct_name (categories s)) \<and> distinct (map ct_slug (categories s)) \<and>
     distinct (map cg_id (category_groups s)) \<and> distinct (map cg_name (category_groups s)) \<and> distinct (map cg_slug (category_groups s)) \<and>
     (\<forall>c \<in> set (categories s). ct_id c < next_id s \<and> (\<exists>g \<in> set (category_groups s). cg_id g = ct_group_id c)) \<and>
     (\<forall>g \<in> set (category_groups s). cg_id g < next_id s)"

datatype catalogue_request =
    Create_category create_category_dto
  | Update_category uuid update_category_dto
  | Delete_category uuid
  | Create_group create_group_dto
  | Update_group uuid update_group_dto
  | Delete_group uuid

definition catalogue_step :: "clock \<times> uuid \<times> catalogue_request \<Rightarrow> db \<Rightarrow> db" where
  "catalogue_step e s = (case e of (ck, admin, r) \<Rightarrow>
     (case r of
        Create_category dto \<Rightarrow> snd (create_category ck admin dto s)
      | Update_category i dto \<Rightarrow> snd (update_category ck admin i dto s)
      | Delete_category i \<Rightarrow> snd (delete_category ck admin i s)
      | Create_group dto \<Rightarrow> snd (create_category_group ck admin dto s)
      | Update_group i dto \<Rightarrow> snd (update_category_group ck admin i dto s)
      | Delete_group i \<Rightarrow> snd (delete_category_group ck admin i s)))"

text \<open>Giving one row a value that no other row has keeps the values distinct.\<close>

lemma distinct_update_row:
  assumes "distinct (map g xs)" and "distinct (map key xs)"
    and "\<And>x y. x \<in> set xs \<Longrightarrow> y \<in> set xs \<Longrightarrow> key x = k \<Longrightarrow> key y \<noteq> k \<Longrightarrow> g (f x) \<noteq> g y"
  shows "distinct (map g (update_where (\<lambda>x. key x = k) f xs))"
  using assms
proof (induction xs)
  case (Cons x xs)
  show ?case
  proof (cases "key x = k")
    case True
    with Cons.prems(2) have others: "\<forall>y \<in> set xs. key y \<noteq> k" by (auto simp: image_iff)
    then have "update_where (\<lambda>x. key x = k) f xs = xs" by (intro update_where_none) simp
    moreover have "g (f x) \<notin> g ` set xs" using Cons.prems(3) [of x] True others by force
    ultimately show ?thesis using Cons.prems(1) True by simp
  next
    case False
    have "distinct (map g (update_where (\<lambda>x. key x = k) f xs))" using Cons.prems by (intro Cons.IH) simp_all
    moreover have "g y \<noteq> g x" if "y \<in> set (update_where (\<lambda>x. key x = k) f xs)" for y
    proof -
      from that obtain z where "z \<in> set xs" "y = (if key z = k then f z else z)" by (auto simp: table_simps)
      then show ?thesis using Cons.prems(1) Cons.prems(3) [of z x] False by (cases "key z = k") (auto simp: image_iff)
    qed
    ultimately show ?thesis using False by force
  qed
qed simp

lemma create_category_ok: "catalogue_ok s \<Longrightarrow> catalogue_ok (snd (create_category ck admin dto s))"
  by (force simp: create_category_def catalogue_ok_def Let_def less_Suc_eq find_None_iff find_Some_iff
      split: option.splits)

lemma delete_category_ok: "catalogue_ok s \<Longrightarrow> catalogue_ok (snd (delete_category ck admin i s))"
  by (auto simp: delete_category_def catalogue_ok_def Let_def distinct_map_filter less_Suc_eq split: option.splits)

lemma create_group_ok: "catalogue_ok s \<Longrightarrow> catalogue_ok (snd (create_category_group ck admin dto s))"
  by (force simp: create_category_group_def catalogue_ok_def Let_def less_Suc_eq find_None_iff find_Some_iff
      split: option.splits)

lemma delete_group_ok: "catalogue_ok s \<Longrightarrow> catalogue_ok (snd (delete_category_group ck admin i s))"
  by (force simp: delete_category_group_def catalogue_ok_def Let_def distinct_map_filter less_Suc_eq aggregate_value_def
      filter_empty_conv split: option.splits if_splits)

text \<open>
  What lets an update through: the name and slug stay as they are, or the slug is new and no other
  row has the name.
\<close>

lemma category_update_clash_free:
  assumes "distinct (map ct_id xs)" and "c \<in> set xs" and "ct_id c = cid" and "slug \<noteq> ct_slug c \<or> name \<noteq> ct_name c"
  shows "\<not> list_ex (category_clash cid slug name) xs \<longleftrightarrow>
    slug \<noteq> ct_slug c \<and> (\<forall>x \<in> set xs. ct_id x \<noteq> cid \<longrightarrow> ct_slug x \<noteq> slug \<and> ct_name x \<noteq> name)"
proof -
  have me: "x = c" if "x \<in> set xs" "ct_id x = cid" for x using distinct_key_eq [OF assms(1)] that assms(2,3) by metis
  show ?thesis using assms(2,3) me by (fastforce simp: list_ex_iff category_clash_def)
qed

lemma group_update_clash_free:
  assumes "distinct (map cg_id xs)" and "c \<in> set xs" and "cg_id c = gid" and "slug \<noteq> cg_slug c \<or> name \<noteq> cg_name c"
  shows "\<not> list_ex (group_clash gid slug name) xs \<longleftrightarrow>
    slug \<noteq> cg_slug c \<and> (\<forall>x \<in> set xs. cg_id x \<noteq> gid \<longrightarrow> cg_slug x \<noteq> slug \<and> cg_name x \<noteq> name)"
proof -
  have me: "x = c" if "x \<in> set xs" "cg_id x = gid" for x using distinct_key_eq [OF assms(1)] that assms(2,3) by metis
  show ?thesis using assms(2,3) me by (fastforce simp: list_ex_iff group_clash_def)
qed

lemma update_where_id_image: "(\<And>x. key (f x) = key x) \<Longrightarrow> key ` set (update_where P f xs) = key ` set xs"
  by (induction xs) auto

text \<open>The rewriting step of both updates keeps a table's keys, names and slugs distinct.\<close>

lemma distinct_after_rename:
  assumes "distinct (map g xs)" and "distinct (map key xs)" and "c \<in> set xs" and "key c = k" and "\<And>x. g (f x) = v"
    and "v = g c \<or> (\<forall>x \<in> set xs. key x \<noteq> k \<longrightarrow> g x \<noteq> v)"
  shows "distinct (map g (update_where (\<lambda>x. key x = k) f xs))"
proof (rule distinct_update_row [OF assms(1,2)])
  fix x y
  assume x: "x \<in> set xs" "y \<in> set xs" "key x = k" "key y \<noteq> k"
  have "g y \<noteq> g c" using distinct_key_eq [OF assms(1), of y c] x assms(3,4) by auto
  then show "g (f x) \<noteq> g y" using assms(5,6) x by auto
qed

lemma update_category_ok:
  assumes "catalogue_ok s"
  shows "catalogue_ok (snd (update_category ck admin i dto s))"
proof (cases "fst (update_category ck admin i dto s)")
  case (Inl e)
  then have "snd (update_category ck admin i dto s) = s"
    by (auto simp: update_category_def Let_def split: option.splits if_splits)
  then show ?thesis using assms by simp
next
  case (Inr r)
  obtain c where c: "find (\<lambda>c. ct_id c = i) (categories s) = Some c"
    using Inr by (auto simp: update_category_def split: option.splits)
  define name where "name = (case uc_name dto of Some n \<Rightarrow> n | None \<Rightarrow> ct_name c)"
  define slug where "slug = next_slug (uc_slug dto) (uc_name dto) (ct_slug c)"
  define f where "f = (\<lambda>x :: category. x\<lparr>ct_name := name, ct_slug := slug,
     ct_sort_order := (case uc_sort_order dto of Some n \<Rightarrow> n | None \<Rightarrow> ct_sort_order c),
     ct_group_id := (case uc_group_id dto of Some g \<Rightarrow> g | None \<Rightarrow> ct_group_id c),
     ct_booker_interest := (case uc_booker_interest dto of None \<Rightarrow> ct_booker_interest c | Some i \<Rightarrow> i)\<rparr>)"
  let ?t = "update_where (\<lambda>x. ct_id x = i) f (categories s)"
  have cin: "c \<in> set (categories s)" "ct_id c = i" using find_SomeD [OF c] by auto
  have ok: "distinct (map ct_id (categories s))" "distinct (map ct_name (categories s))" "distinct (map ct_slug (categories s))"
    using assms by (simp_all add: catalogue_ok_def)
  have grp: "\<exists>g \<in> set (category_groups s). cg_id g = (case uc_group_id dto of Some g \<Rightarrow> g | None \<Rightarrow> ct_group_id c)"
    using Inr c assms cin by (auto simp: update_category_def catalogue_ok_def Let_def list_ex_iff split: option.splits if_splits)
  have free: "slug = ct_slug c \<and> name = ct_name c \<or> \<not> list_ex (category_clash i slug name) (categories s)"
    using Inr c by (auto simp: update_category_def Let_def slug_def name_def split: if_splits)
  then have free': "slug = ct_slug c \<and> name = ct_name c \<or> (\<forall>x \<in> set (categories s). ct_id x \<noteq> i \<longrightarrow> ct_slug x \<noteq> slug \<and> ct_name x \<noteq> name)"
    using category_update_clash_free [OF ok(1) cin] by blast
  have st: "snd (update_category ck admin i dto s) = write_audit ck admin ''category.updated'' i None
      (before_after (category_facts c) (category_facts (f c))) (s\<lparr>categories := ?t\<rparr>)"
    using Inr c by (auto simp: update_category_def Let_def slug_def name_def f_def split: if_splits option.splits)
  have "distinct (map ct_id ?t)" using ok(1) by (simp add: map_update_where_same f_def)
  moreover have "distinct (map ct_name ?t)"
    by (rule distinct_after_rename [OF ok(2,1) cin, where v = name]) (use free' in \<open>auto simp: f_def\<close>)
  moreover have "distinct (map ct_slug ?t)"
    by (rule distinct_after_rename [OF ok(3,1) cin, where v = slug]) (use free' in \<open>auto simp: f_def\<close>)
  moreover have "ct_id x < Suc (next_id s) \<and> (\<exists>g \<in> set (category_groups s). cg_id g = ct_group_id x)" if "x \<in> set ?t" for x
    using that assms grp by (force simp: table_simps catalogue_ok_def f_def less_Suc_eq split: if_splits)
  ultimately show ?thesis using assms unfolding st by (simp add: catalogue_ok_def less_Suc_eq)
qed

lemma update_group_ok:
  assumes "catalogue_ok s"
  shows "catalogue_ok (snd (update_category_group ck admin i dto s))"
proof (cases "fst (update_category_group ck admin i dto s)")
  case (Inl e)
  then have "snd (update_category_group ck admin i dto s) = s"
    by (auto simp: update_category_group_def Let_def split: option.splits if_splits)
  then show ?thesis using assms by simp
next
  case (Inr r)
  obtain c where c: "find (\<lambda>c. cg_id c = i) (category_groups s) = Some c"
    using Inr by (auto simp: update_category_group_def split: option.splits)
  define name where "name = (case gu_name dto of Some n \<Rightarrow> n | None \<Rightarrow> cg_name c)"
  define slug where "slug = next_slug (gu_slug dto) (gu_name dto) (cg_slug c)"
  define f where "f = (\<lambda>x :: category_group. x\<lparr>cg_name := name, cg_slug := slug,
     cg_icon := (case gu_icon dto of Some i \<Rightarrow> Some i | None \<Rightarrow> cg_icon c),
     cg_sort_order := (case gu_sort_order dto of Some n \<Rightarrow> n | None \<Rightarrow> cg_sort_order c)\<rparr>)"
  let ?t = "update_where (\<lambda>x. cg_id x = i) f (category_groups s)"
  have cin: "c \<in> set (category_groups s)" "cg_id c = i" using find_SomeD [OF c] by auto
  have ok: "distinct (map cg_id (category_groups s))" "distinct (map cg_name (category_groups s))" "distinct (map cg_slug (category_groups s))"
    using assms by (simp_all add: catalogue_ok_def)
  have free: "slug = cg_slug c \<and> name = cg_name c \<or> \<not> list_ex (group_clash i slug name) (category_groups s)"
    using Inr c by (auto simp: update_category_group_def Let_def slug_def name_def split: if_splits)
  then have free': "slug = cg_slug c \<and> name = cg_name c \<or> (\<forall>x \<in> set (category_groups s). cg_id x \<noteq> i \<longrightarrow> cg_slug x \<noteq> slug \<and> cg_name x \<noteq> name)"
    using group_update_clash_free [OF ok(1) cin] by blast
  have st: "snd (update_category_group ck admin i dto s) = write_audit ck admin ''category_group.updated'' i None
      (before_after (group_facts c) (group_facts (f c))) (s\<lparr>category_groups := ?t\<rparr>)"
    using Inr c by (auto simp: update_category_group_def Let_def slug_def name_def f_def split: if_splits option.splits)
  have ids: "cg_id ` set ?t = cg_id ` set (category_groups s)" by (rule update_where_id_image) (simp add: f_def)
  have "distinct (map cg_id ?t)" using ok(1) by (simp add: map_update_where_same f_def)
  moreover have "distinct (map cg_name ?t)"
    by (rule distinct_after_rename [OF ok(2,1) cin, where v = name]) (use free' in \<open>auto simp: f_def\<close>)
  moreover have "distinct (map cg_slug ?t)"
    by (rule distinct_after_rename [OF ok(3,1) cin, where v = slug]) (use free' in \<open>auto simp: f_def\<close>)
  moreover have "(\<exists>g \<in> set ?t. cg_id g = ct_group_id x)" if "x \<in> set (categories s)" for x
    using that assms ids unfolding catalogue_ok_def by (metis (no_types, lifting) imageE imageI)
  moreover have "cg_id x < Suc (next_id s)" if "x \<in> set ?t" for x
    using that assms ids unfolding catalogue_ok_def by (metis (no_types, lifting) imageE imageI less_Suc_eq)
  ultimately show ?thesis using assms unfolding st by (simp add: catalogue_ok_def less_Suc_eq)
qed

lemma catalogue_step_ok: "catalogue_ok s \<Longrightarrow> catalogue_ok (catalogue_step e s)"
  by (cases e) (auto simp: catalogue_step_def create_category_ok update_category_ok delete_category_ok create_group_ok
      update_group_ok delete_group_ok split: catalogue_request.splits)

text \<open>
  C20: whatever administrators do to the catalogue, in any order, the names and the slugs of its
  categories and of its groups stay unique and every category keeps a group that exists.
\<close>

theorem catalogue_stays_sound:
  assumes "catalogue_ok s"
  shows "catalogue_ok (fold catalogue_step rs s)"
  using assms by (induction rs arbitrary: s) (simp_all add: catalogue_step_ok)

definition demo_catalogue :: "(clock \<times> uuid \<times> catalogue_request) list" where
  "demo_catalogue = map (\<lambda>r. (\<lparr>db_now = 5, js_now = 5\<rparr>, 1, r))
     [Create_group \<lparr>gc_name = ''Music'', gc_slug = Some ''music'', gc_icon = None, gc_sort_order = None\<rparr>,
      Create_category \<lparr>cc_name = ''Singer'', cc_group_id = 0, cc_booker_interest = Some I_musical_acts, cc_slug = Some ''singer'', cc_sort_order = None\<rparr>,
      Create_category \<lparr>cc_name = ''Singer'', cc_group_id = 0, cc_booker_interest = None, cc_slug = Some ''other'', cc_sort_order = None\<rparr>,
      Delete_group 0]"

lemma demo_catalogue_state: "categories (fold catalogue_step demo_catalogue empty_db) =
    [\<lparr>ct_id = 2, ct_name = ''Singer'', ct_slug = ''singer'', ct_sort_order = 0, ct_group_id = 0,
      ct_booker_interest = Some I_musical_acts, ct_created_at = 5\<rparr>]"
  "map cg_id (category_groups (fold catalogue_step demo_catalogue empty_db)) = [0]"
  by (simp_all add: demo_catalogue_def catalogue_step_def create_category_group_def create_category_def delete_category_group_def
      empty_db_def write_audit_def aggregate_value_def Let_def)

theorem catalogue_stays_sound_witness:
  "catalogue_ok (fold catalogue_step demo_catalogue empty_db) \<and> length (categories (fold catalogue_step demo_catalogue empty_db)) = 1"
  using catalogue_stays_sound [of empty_db demo_catalogue] by (simp add: demo_catalogue_state) (simp add: catalogue_ok_def empty_db_def)



end
