(* ===== verification/Go_Live.thy ===== *)
theory Go_Live
  imports Admin
begin

text \<open>
  How an artist account goes live: the artist submits documents, an administrator decides them and
  then the account. What the gate guarantees, whom it can never let through, and what becomes of
  the files.
\<close>

section \<open>Frames\<close>

lemma update_status_frame [simp]:
  "id_documents (update_status uid st s) = id_documents s"
  "artist_profiles (update_status uid st s) = artist_profiles s"
  "artist_categories (update_status uid st s) = artist_categories s"
  "categories (update_status uid st s) = categories s"
  "users (update_status uid st s) = update_where (\<lambda>u. u_id u = uid) (\<lambda>u. u\<lparr>u_status := st\<rparr>) (users s)"
  by (simp_all add: update_status_def set_user_def)

lemma record_admin_decision_frame [simp]:
  "users (record_admin_decision ck uid admin b r s) = users s"
  "id_documents (record_admin_decision ck uid admin b r s) = id_documents s"
  "artist_profiles (record_admin_decision ck uid admin b r s) = artist_profiles s"
  "artist_categories (record_admin_decision ck uid admin b r s) = artist_categories s"
  "categories (record_admin_decision ck uid admin b r s) = categories s"
  by (simp_all add: record_admin_decision_def Let_def split: option.splits)


section \<open>Requests\<close>

datatype verif_request =
    Submit_document uuid doc_kind string
  | Decide_document uuid uuid doc_decision "string option"
  | Decide_account uuid uuid target_status "string option"

definition verif_step :: "clock \<times> verif_request \<Rightarrow> db \<Rightarrow> db" where
  "verif_step e s = (case e of (ck, r) \<Rightarrow>
     (case r of
        Submit_document uid k key \<Rightarrow>
          (case user_by_id uid s of None \<Rightarrow> s | Some u \<Rightarrow> snd (confirm_route ck u k key s))
      | Decide_document admin did d reason \<Rightarrow> snd (review_document ck admin did d reason s)
      | Decide_account admin uid t remark \<Rightarrow> snd (update_user_status ck admin uid t remark s)))"

lemma confirm_route_frame [simp]:
  "users (snd (confirm_route ck u k key s)) = users s"
  "artist_profiles (snd (confirm_route ck u k key s)) = artist_profiles s"
  "artist_categories (snd (confirm_route ck u k key s)) = artist_categories s"
  "categories (snd (confirm_route ck u k key s)) = categories s"
  by (simp_all add: confirm_route_def confirm_document_def)

lemma review_document_frame [simp]:
  "users (snd (review_document ck admin did d reason s)) = users s"
  "artist_categories (snd (review_document ck admin did d reason s)) = artist_categories s"
  "categories (snd (review_document ck admin did d reason s)) = categories s"
  "map ap_id (artist_profiles (snd (review_document ck admin did d reason s))) = map ap_id (artist_profiles s)"
  "map ap_user_id (artist_profiles (snd (review_document ck admin did d reason s))) = map ap_user_id (artist_profiles s)"
  by (simp_all add: review_document_def Let_def map_update_where_same split: option.splits)

lemma update_user_status_frame [simp]:
  "id_documents (snd (update_user_status ck admin uid t remark s)) = id_documents s"
  "artist_profiles (snd (update_user_status ck admin uid t remark s)) = artist_profiles s"
  "artist_categories (snd (update_user_status ck admin uid t remark s)) = artist_categories s"
  "categories (snd (update_user_status ck admin uid t remark s)) = categories s"
  by (simp_all add: update_user_status_def split: option.splits)

text \<open>The venue test reads only who owns which profile and the categories.\<close>

lemma is_venue_cong:
  assumes "map ap_id (artist_profiles t) = map ap_id (artist_profiles s)"
    and "map ap_user_id (artist_profiles t) = map ap_user_id (artist_profiles s)"
    and "artist_categories t = artist_categories s" and "categories t = categories s"
  shows "is_venue uid t = is_venue uid s"
proof -
  have z: "list_ex (\<lambda>p. ap_user_id p = uid \<and> Q (ap_id p)) ps = list_ex (\<lambda>(a, b). a = uid \<and> Q b) (zip (map ap_user_id ps) (map ap_id ps))"
    for ps :: "artist_profile list" and Q by (induction ps) auto
  have "list_ex (\<lambda>p. ap_user_id p = uid \<and> Q (ap_id p)) (artist_profiles t) = list_ex (\<lambda>p. ap_user_id p = uid \<and> Q (ap_id p)) (artist_profiles s)" for Q
    unfolding z assms(1,2) ..
  then show ?thesis unfolding is_venue_def assms(3,4) by (rule meta_eq_to_obj_eq [OF eq_reflection])
qed

lemma verif_step_venue [simp]: "is_venue uid (verif_step e s) = is_venue uid s"
  by (rule is_venue_cong) (auto simp: verif_step_def split: prod.splits verif_request.splits option.splits)

section \<open>The gate\<close>

text \<open>An artist account that is not live.\<close>

definition not_live :: "uuid \<Rightarrow> db \<Rightarrow> bool" where
  "not_live uid s \<longleftrightarrow> list_all (\<lambda>u. u_id u = uid \<longrightarrow> u_role u = R_artist \<and> u_status u \<noteq> U_active) (users s)"

text \<open>Every decided document names the administrator who decided it.\<close>

definition decided_by_someone :: "db \<Rightarrow> bool" where
  "decided_by_someone s \<longleftrightarrow> list_all (\<lambda>d. i_status d \<noteq> DS_pending \<longrightarrow> i_reviewed_by d \<noteq> None) (id_documents s)"

definition approved_by_someone :: "uuid \<Rightarrow> db \<Rightarrow> doc_kind \<Rightarrow> bool" where
  "approved_by_someone uid s k \<longleftrightarrow>
     list_ex (\<lambda>d. i_user_id d = uid \<and> i_kind d = k \<and> i_status d = DS_approved \<and> i_reviewed_by d \<noteq> None) (id_documents s)"

lemma confirm_document_decided: "decided_by_someone s \<Longrightarrow> decided_by_someone (snd (confirm_document ck uid k key s))"
  unfolding decided_by_someone_def confirm_document_def
  by (simp add: pending_document_def) (intro impI list_all_update_where, simp_all add: resubmitted_def)

lemma confirm_route_decided: "decided_by_someone s \<Longrightarrow> decided_by_someone (snd (confirm_route ck u k key s))"
  by (simp add: confirm_route_def confirm_document_decided)

lemma review_document_decided:
  assumes "decided_by_someone s"
  shows "decided_by_someone (snd (review_document ck admin did d reason s))"
proof -
  have "list_all (\<lambda>d. i_status d \<noteq> DS_pending \<longrightarrow> i_reviewed_by d \<noteq> None) (update_where (\<lambda>d. i_id d = did)
      (\<lambda>x. x\<lparr>i_status := st, i_rejection_reason := reason, i_reviewed_by := Some admin, i_reviewed_at := Some (db_now ck)\<rparr>) (id_documents s))" for st
    by (rule list_all_update_where [OF assms [unfolded decided_by_someone_def]]) simp
  then show ?thesis using assms by (simp add: decided_by_someone_def review_document_def Let_def split: option.split)
qed

lemma update_user_status_decided: "decided_by_someone s \<Longrightarrow> decided_by_someone (snd (update_user_status ck admin uid t remark s))"
  by (simp add: decided_by_someone_def)

lemma verif_step_simps [simp]:
  "verif_step (ck, Submit_document uid k key) s = (case user_by_id uid s of None \<Rightarrow> s | Some u \<Rightarrow> snd (confirm_route ck u k key s))"
  "verif_step (ck, Decide_document admin did d reason) s = snd (review_document ck admin did d reason s)"
  "verif_step (ck, Decide_account admin uid t remark) s = snd (update_user_status ck admin uid t remark s)"
  by (simp_all add: verif_step_def)

lemma verif_step_decided:
  assumes "decided_by_someone s"
  shows "decided_by_someone (verif_step e s)"
proof (cases e)
  case (Pair ck r)
  show ?thesis
  proof (cases r)
    case (Submit_document w k key)
    show ?thesis unfolding Pair Submit_document by (simp add: assms confirm_route_decided split: option.split)
  next
    case (Decide_document admin did d reason)
    show ?thesis unfolding Pair Decide_document by (simp add: assms review_document_decided)
  next
    case (Decide_account admin w t remark)
    show ?thesis unfolding Pair Decide_account by (simp add: assms update_user_status_decided)
  qed
qed

lemma user_by_id_not_live:
  assumes "not_live uid s" and "user_by_id uid s = Some u"
  shows "u_role u = R_artist \<and> u_status u \<noteq> U_active"
proof -
  have "u \<in> set (users s) \<and> u_id u = uid" using find_SomeD [OF assms(2) [unfolded user_by_id_def]] .
  with assms(1) show ?thesis by (simp add: not_live_def list_all_iff)
qed

lemma not_live_cong: "users t = users s \<Longrightarrow> not_live uid t = not_live uid s"
  by (simp add: not_live_def)

text \<open>What the decision about an account does to the accounts.\<close>

lemma update_user_status_users:
  "users (snd (update_user_status ck admin w t remark s)) =
     (case fst (update_user_status ck admin w t remark s) of
        Inl e \<Rightarrow> users s
      | Inr m \<Rightarrow> update_where (\<lambda>u. u_id u = w) (\<lambda>u. u\<lparr>u_status := status_of_target t\<rparr>) (users s))"
  by (simp add: update_user_status_def split: option.split)

lemma update_user_status_not_live:
  assumes "not_live uid s" and "\<not> (t = To_active \<and> w = uid \<and> has_complete_verification uid s)"
  shows "not_live uid (snd (update_user_status ck admin w t remark s))"
proof -
  have "list_all (\<lambda>u. u_id u = uid \<longrightarrow> u_role u = R_artist \<and> u_status u \<noteq> U_active)
      (update_where (\<lambda>u. u_id u = w) (\<lambda>u. u\<lparr>u_status := status_of_target t\<rparr>) (users s))" if "w \<noteq> uid \<or> t \<noteq> To_active"
    by (rule list_all_update_where [OF assms(1) [unfolded not_live_def]])
      (use that in \<open>auto simp: status_of_target_def split: target_status.split\<close>)
  moreover have "\<exists>e. fst (update_user_status ck admin w t remark s) = Inl e" if "\<not> (w \<noteq> uid \<or> t \<noteq> To_active)"
  proof (cases "user_by_id uid s")
    case (Some u)
    from user_by_id_not_live [OF assms(1) Some] assms(2) that Some show ?thesis by (simp add: update_user_status_def)
  qed (use that in \<open>simp add: update_user_status_def\<close>)
  ultimately show ?thesis using assms(1) unfolding not_live_def update_user_status_users
    by (cases "w = uid \<and> t = To_active") (auto split: sum.split)
qed

lemma verif_step_not_live:
  assumes "not_live uid s" and "\<not> (\<exists>ck admin remark. e = (ck, Decide_account admin uid To_active remark) \<and> has_complete_verification uid s)"
  shows "not_live uid (verif_step e s)"
proof (cases e)
  case (Pair ck r)
  show ?thesis
  proof (cases r)
    case (Submit_document w k key)
    with Pair assms(1) show ?thesis by (cases "user_by_id w s") (simp_all add: not_live_def)
  next
    case (Decide_document admin did d reason)
    with Pair assms(1) show ?thesis by (simp add: not_live_def)
  next
    case (Decide_account admin w t remark)
    with Pair assms have "\<not> (t = To_active \<and> w = uid \<and> has_complete_verification uid s)" by auto
    with update_user_status_not_live [OF assms(1)] Pair Decide_account show ?thesis by simp
  qed
qed

lemma complete_means_approved:
  "decided_by_someone s \<Longrightarrow> has_complete_verification uid s \<Longrightarrow> k \<in> set (required_kinds_for uid s) \<Longrightarrow> approved_by_someone uid s k"
  by (force simp: has_complete_verification_def list_all_iff approved_by_someone_def decided_by_someone_def list_ex_iff)

lemma fold_decided: "decided_by_someone s \<Longrightarrow> decided_by_someone (fold verif_step rs s)"
  by (induction rs arbitrary: s) (simp_all add: verif_step_decided)

text \<open>
  C22: an artist account that was not live becomes live only by an administrator's approval of the
  account, taken while every document its profile needs was approved, and each of those approvals
  names the administrator who gave it.
\<close>

theorem going_live_needs_every_document:
  assumes "not_live uid s" and "decided_by_someone s" and "\<not> not_live uid (fold verif_step rs s)"
  shows "\<exists>before ck admin remark after.
      rs = before @ (ck, Decide_account admin uid To_active remark) # after \<and>
      list_all (approved_by_someone uid (fold verif_step before s)) (required_kinds_for uid (fold verif_step before s))"
  using assms(3)
proof (induction rs rule: rev_induct)
  case Nil
  then show ?case using assms(1) by simp
next
  case (snoc e rs)
  show ?case
  proof (cases "not_live uid (fold verif_step rs s)")
    case True
    from snoc.prems verif_step_not_live [OF True, of e] obtain ck admin remark where
      e: "e = (ck, Decide_account admin uid To_active remark)" and complete: "has_complete_verification uid (fold verif_step rs s)" by auto
    have "list_all (approved_by_someone uid (fold verif_step rs s)) (required_kinds_for uid (fold verif_step rs s))"
      using complete_means_approved [OF fold_decided [OF assms(2)] complete] by (simp add: list_all_iff)
    with e show ?thesis by blast
  next
    case False
    from snoc.IH [OF False] obtain before ck admin remark after where
      "rs = before @ (ck, Decide_account admin uid To_active remark) # after"
      "list_all (approved_by_someone uid (fold verif_step before s)) (required_kinds_for uid (fold verif_step before s))" by blast
    then have "rs @ [e] = before @ (ck, Decide_account admin uid To_active remark) # after @ [e]" by simp
    with \<open>list_all _ _\<close> show ?thesis by blast
  qed
qed

section \<open>Venues\<close>

definition no_licence :: "db \<Rightarrow> bool" where
  "no_licence s \<longleftrightarrow> list_all (\<lambda>d. i_kind d \<noteq> DK_trade_licence) (id_documents s)"

lemma confirm_route_no_licence:
  assumes "no_licence s"
  shows "no_licence (snd (confirm_route ck u k key s))"
proof (cases "k = DK_trade_licence")
  case False
  have "list_all (\<lambda>d. i_kind d \<noteq> DK_trade_licence)
      (update_where (\<lambda>d. i_user_id d = u_id u \<and> i_kind d = k) (resubmitted ck key) (id_documents s))"
    by (rule list_all_update_where [OF assms [unfolded no_licence_def]]) (simp add: resubmitted_def)
  with assms False show ?thesis
    by (simp add: no_licence_def confirm_route_def confirm_document_def pending_document_def)
qed (use assms in \<open>simp add: confirm_route_def id_document_kinds_def\<close>)

lemma review_document_no_licence:
  assumes "no_licence s"
  shows "no_licence (snd (review_document ck admin did d reason s))"
proof -
  have "list_all (\<lambda>d. i_kind d \<noteq> DK_trade_licence) (update_where (\<lambda>d. i_id d = did)
      (\<lambda>x. x\<lparr>i_status := st, i_rejection_reason := reason, i_reviewed_by := Some admin, i_reviewed_at := Some (db_now ck)\<rparr>) (id_documents s))" for st
    by (rule list_all_update_where [OF assms [unfolded no_licence_def]]) simp
  then show ?thesis using assms by (simp add: no_licence_def review_document_def Let_def split: option.split)
qed

lemma verif_step_no_licence:
  assumes "no_licence s"
  shows "no_licence (verif_step e s)"
proof (cases e)
  case (Pair ck r)
  show ?thesis
  proof (cases r)
    case (Submit_document w k key)
    show ?thesis unfolding Pair Submit_document by (simp add: assms confirm_route_no_licence split: option.split)
  next
    case (Decide_document admin did d reason)
    show ?thesis unfolding Pair Decide_document by (simp add: assms review_document_no_licence)
  next
    case (Decide_account admin w t remark)
    show ?thesis unfolding Pair Decide_account using assms by (simp add: no_licence_def)
  qed
qed

lemma venue_incomplete: "is_venue uid s \<Longrightarrow> no_licence s \<Longrightarrow> \<not> has_complete_verification uid s"
  by (auto simp: has_complete_verification_def required_kinds_for_def venue_required_kinds_def no_licence_def list_all_iff)

text \<open>
  C23: a venue has to have its trade licence approved to go live, and the routes accept only ID
  documents and selfies: whatever it submits and whatever administrators decide, in any order, its
  account is never approved.
\<close>

theorem venue_can_never_go_live:
  assumes "is_venue uid s" and "not_live uid s" and "no_licence s"
  shows "not_live uid (fold verif_step rs s)"
  using assms
proof (induction rs arbitrary: s)
  case (Cons e rs)
  have "not_live uid (verif_step e s)"
    using verif_step_not_live [OF Cons.prems(2)] venue_incomplete [OF Cons.prems(1,3)] by blast
  with Cons show ?case by (simp add: verif_step_no_licence)
qed simp

text \<open>An artist, number 7, and an administrator, number 1; as a performer and as a venue.\<close>

definition demo_artist_account :: user_row where
  "demo_artist_account = \<lparr>u_id = 7, u_email = ''a@x.lb'', u_phone = None, u_password_hash = None, u_role = R_artist,
     u_status = U_pending_review, u_account_code = ''AR000001'', u_email_verified_at = Some 1, u_phone_verified_at = None,
     u_last_login_at = None, u_created_at = 1, u_deleted_at = None, u_pending_email = None\<rparr>"

definition demo_performer_db :: db where
  "demo_performer_db = empty_db\<lparr>users := [demo_artist_account],
     artist_profiles := [default_artist_profile 8 7 1], next_id := 20\<rparr>"

definition demo_venue_db :: db where
  "demo_venue_db = demo_performer_db\<lparr>
     categories := [\<lparr>ct_id = 3, ct_name = ''Venue'', ct_slug = ''venue'', ct_sort_order = 0, ct_group_id = 2, ct_booker_interest = None, ct_created_at = 1\<rparr>],
     artist_categories := [\<lparr>ac_artist_profile_id = 8, ac_category_id = 3\<rparr>]\<rparr>"

definition demo_clock :: "int \<Rightarrow> clock" where
  "demo_clock t = \<lparr>db_now = t, js_now = t\<rparr>"

definition demo_requests :: "(clock \<times> verif_request) list" where
  "demo_requests =
     [(demo_clock 10, Submit_document 7 DK_id_document ''identity/7/a''),
      (demo_clock 11, Submit_document 7 DK_selfie ''identity/7/b''),
      (demo_clock 12, Decide_document 1 20 Doc_approved None),
      (demo_clock 13, Decide_document 1 21 Doc_approved None),
      (demo_clock 14, Decide_account 1 7 To_active None)]"

lemmas go_live_defs = empty_db_def demo_artist_account_def demo_performer_db_def demo_venue_db_def demo_clock_def
  default_artist_profile_def

text \<open>Every key below \<open>identity/7/\<close> is the artist's own.\<close>

lemma own_prefix_7: "own_prefix 7 = ''identity/7/''"
  by code_simp

lemma demo_venue_start: "is_venue 7 demo_venue_db" "not_live 7 demo_venue_db" "no_licence demo_venue_db"
  by (simp_all add: go_live_defs is_venue_def not_live_def no_licence_def venue_category_slug_def)

theorem venue_can_never_go_live_witness:
  "not_live 7 (fold verif_step demo_requests demo_venue_db) \<and> is_venue 7 demo_venue_db \<and> not_live 7 demo_venue_db"
  using venue_can_never_go_live [OF demo_venue_start, of demo_requests] demo_venue_start by blast

lemma demo_performer_run:
  "id_documents (fold verif_step (take 4 demo_requests) demo_performer_db) =
     [\<lparr>i_id = 20, i_user_id = 7, i_kind = DK_id_document, i_s3_key = Some ''identity/7/a'', i_status = DS_approved, i_rejection_reason = None,
       i_reviewed_by = Some 1, i_reviewed_at = Some 12, i_uploaded_at = 10, i_purged_at = None\<rparr>,
      \<lparr>i_id = 21, i_user_id = 7, i_kind = DK_selfie, i_s3_key = Some ''identity/7/b'', i_status = DS_approved, i_rejection_reason = None,
       i_reviewed_by = Some 1, i_reviewed_at = Some 13, i_uploaded_at = 11, i_purged_at = None\<rparr>]"
  "users (fold verif_step (take 4 demo_requests) demo_performer_db) = [demo_artist_account]"
  "is_venue uid (fold verif_step (take 4 demo_requests) demo_performer_db) = False"
  by (simp_all add: demo_requests_def go_live_defs user_by_id_def confirm_route_def id_document_kinds_def confirm_document_def own_prefix_7
      starts_with_def pending_document_def review_document_def Let_def doc_decision_status_def write_audit_def insert_notification_def
      is_venue_def)

lemma demo_performer_live: "\<not> not_live 7 (fold verif_step demo_requests demo_performer_db)"
proof -
  let ?s = "fold verif_step (take 4 demo_requests) demo_performer_db"
  have split: "demo_requests = take 4 demo_requests @ [(demo_clock 14, Decide_account 1 7 To_active None)]"
    by (simp add: demo_requests_def)
  have "fold verif_step demo_requests demo_performer_db = snd (update_user_status (demo_clock 14) 1 7 To_active None ?s)"
    by (subst split) simp
  moreover have "has_complete_verification 7 ?s"
    by (simp add: has_complete_verification_def required_kinds_for_def required_kinds_def demo_performer_run)
  ultimately show ?thesis
    by (simp add: not_live_def update_user_status_def user_by_id_def demo_performer_run demo_artist_account_def status_of_target_def)
qed

theorem going_live_needs_every_document_witness:
  "\<exists>before after ck admin remark. demo_requests = before @ (ck, Decide_account admin 7 To_active remark) # after \<and>
     list_all (approved_by_someone 7 (fold verif_step before demo_performer_db)) (required_kinds_for 7 (fold verif_step before demo_performer_db))"
proof -
  have "not_live 7 demo_performer_db" "decided_by_someone demo_performer_db"
    by (simp_all add: go_live_defs not_live_def decided_by_someone_def)
  from going_live_needs_every_document [OF this demo_performer_live] show ?thesis by blast
qed

section \<open>Submitting again\<close>

text \<open>
  An artist whose profile carries the verified mark may submit a document again: it waits for
  review once more, so the documents are no longer complete, but the mark and the live account stay.
\<close>

theorem resubmission_keeps_the_verified_mark:
  assumes "has_complete_verification (u_id u) s" and "u_role u = R_artist" and "\<not> is_venue (u_id u) s"
    and "k \<in> set id_document_kinds" and "starts_with (own_prefix (u_id u)) key"
    and "confirm_route ck u k key s = (r, s')"
  shows "r = Inr () \<and> \<not> has_complete_verification (u_id u) s' \<and> artist_profiles s' = artist_profiles s \<and> users s' = users s"
proof -
  have there: "list_ex (\<lambda>d. i_user_id d = u_id u \<and> i_kind d = k) (id_documents s)"
    using assms(1,3,4) by (auto simp: has_complete_verification_def required_kinds_for_def required_kinds_def id_document_kinds_def
      list_ex_iff)
  have s': "s' = s\<lparr>id_documents := update_where (\<lambda>d. i_user_id d = u_id u \<and> i_kind d = k) (resubmitted ck key) (id_documents s)\<rparr>"
    and r: "r = Inr ()"
    using assms(2,4,5,6) there by (auto simp: confirm_route_def confirm_document_def)
  have "is_venue (u_id u) s' = is_venue (u_id u) s" by (rule is_venue_cong) (simp_all add: s')
  then have req: "k \<in> set (required_kinds_for (u_id u) s')"
    using assms(3,4) by (auto simp: required_kinds_for_def required_kinds_def id_document_kinds_def)
  have docs: "id_documents s' = update_where (\<lambda>d. i_user_id d = u_id u \<and> i_kind d = k) (resubmitted ck key) (id_documents s)"
    by (simp add: s')
  have none: "\<not> (i_user_id d = u_id u \<and> i_kind d = k \<and> i_status d = DS_approved)" if "d \<in> set (id_documents s')" for d
  proof -
    from that obtain e where "d = (if i_user_id e = u_id u \<and> i_kind e = k then resubmitted ck key e else e)"
      unfolding docs set_update_where by blast
    then show ?thesis by (cases "i_user_id e = u_id u \<and> i_kind e = k") (auto simp: resubmitted_def)
  qed
  have "k \<notin> set (map i_kind (filter (\<lambda>d. i_user_id d = u_id u \<and> i_status d = DS_approved) (id_documents s')))"
    using none by auto
  with req have "\<not> has_complete_verification (u_id u) s'"
    by (auto simp: has_complete_verification_def list_all_iff)
  with r show ?thesis by (simp add: s')
qed

theorem resubmission_keeps_the_verified_mark_witness:
  "\<exists>s'. confirm_route (demo_clock 15) (demo_artist_account\<lparr>u_status := U_active\<rparr>) DK_selfie ''identity/7/c''
       (fold verif_step (take 4 demo_requests) demo_performer_db) = (Inr (), s') \<and> \<not> has_complete_verification 7 s'"
proof -
  let ?s = "fold verif_step (take 4 demo_requests) demo_performer_db"
  obtain r s' where c: "confirm_route (demo_clock 15) (demo_artist_account\<lparr>u_status := U_active\<rparr>) DK_selfie ''identity/7/c'' ?s = (r, s')"
    by (meson surj_pair)
  have "has_complete_verification 7 ?s"
    by (simp add: has_complete_verification_def required_kinds_for_def required_kinds_def demo_performer_run)
  with resubmission_keeps_the_verified_mark [OF _ _ _ _ _ c]
  have "r = Inr () \<and> \<not> has_complete_verification 7 s'"
    by (simp add: demo_artist_account_def demo_performer_run id_document_kinds_def own_prefix_7 starts_with_def)
  with c show ?thesis by blast
qed
end
