(* ===== verification/Retention.thy ===== *)
theory Retention
  imports Go_Live
begin

text \<open>
  What the retention sweep of \<open>src/verification/identity-documents.service.ts\<close> does to the rows and
  the files, exactly, and the files it can no longer reach.
\<close>

section \<open>One run\<close>

definition purged :: "clock \<Rightarrow> id_document \<Rightarrow> id_document" where
  "purged ck d = d\<lparr>i_s3_key := None, i_purged_at := Some (db_now ck)\<rparr>"

definition has_account :: "db \<Rightarrow> id_document \<Rightarrow> bool" where
  "has_account s d \<longleftrightarrow> list_ex (\<lambda>u. u_id u = i_user_id d) (users s)"

definition deletable :: "(string \<Rightarrow> bool) \<Rightarrow> id_document \<Rightarrow> bool" where
  "deletable accepts d \<longleftrightarrow> (case i_s3_key d of None \<Rightarrow> False | Some k \<Rightarrow> accepts k)"

lemma purged_simps [simp]: "i_id (purged ck d) = i_id d" "i_s3_key (purged ck d) = None" "purged ck (purged ck d) = purged ck d"
  by (simp_all add: purged_def)

lemma purge_rows_twice:
  "(\<And>x. i_id (f x) = i_id x) \<Longrightarrow> (\<And>x. f (f x) = f x) \<Longrightarrow>
   update_where (\<lambda>x. i_id x \<in> B) f (update_where (\<lambda>x. i_id x = a) f xs) = update_where (\<lambda>x. i_id x \<in> insert a B) f xs"
  by (induction xs) auto

lemma fold_purge:
  assumes "list_all (\<lambda>d. i_s3_key d \<noteq> None) cs"
  shows "fold (purge_one ck accepts) cs p =
    \<lparr>ps_db = (ps_db p)\<lparr>id_documents := update_where (\<lambda>x. i_id x \<in> i_id ` set (filter (deletable accepts) cs)) (purged ck) (id_documents (ps_db p))\<rparr>,
     ps_bucket = filter (\<lambda>k. Some k \<notin> i_s3_key ` set (filter (deletable accepts) cs)) (ps_bucket p),
     ps_purged = ps_purged p + length (filter (deletable accepts) cs),
     ps_failed = ps_failed p + length (filter (\<lambda>d. \<not> deletable accepts d) cs)\<rparr>"
  using assms
proof (induction cs arbitrary: p)
  case Nil
  have "update_where (\<lambda>x. False) (purged ck) xs = xs" for xs by (rule update_where_none) simp
  then show ?case by simp
next
  case (Cons d cs)
  obtain key where key: "i_s3_key d = Some key" using Cons.prems by auto
  have rest: "list_all (\<lambda>d. i_s3_key d \<noteq> None) cs" using Cons.prems by simp
  show ?case
  proof (cases "accepts key")
    case True
    have "filter (\<lambda>k. Some k \<notin> i_s3_key ` set (filter (deletable accepts) cs)) (removeAll key (ps_bucket p))
        = filter (\<lambda>k. Some k \<notin> i_s3_key ` set (filter (deletable accepts) (d # cs))) (ps_bucket p)"
      using True key by (auto simp: deletable_def removeAll_filter_not_eq intro!: filter_cong)
    moreover have "update_where (\<lambda>x. i_id x \<in> i_id ` set (filter (deletable accepts) cs)) (purged ck)
        (update_where (\<lambda>x. i_id x = i_id d) (purged ck) xs)
        = update_where (\<lambda>x. i_id x \<in> i_id ` set (filter (deletable accepts) (d # cs))) (purged ck) xs" for xs
      using True key by (subst purge_rows_twice) (simp_all add: deletable_def)
    moreover have "(\<lambda>x. x\<lparr>i_s3_key := None, i_purged_at := Some (db_now ck)\<rparr>) = purged ck" by (rule ext) (simp add: purged_def)
    ultimately show ?thesis using Cons.IH [OF rest] True key by (simp add: purge_one_def) (simp add: deletable_def)
  next
    case False
    with Cons.IH [OF rest] key show ?thesis by (simp add: purge_one_def deletable_def)
  qed
qed

lemma prune_candidates_filter:
  assumes "distinct (map u_id (users s))"
  shows "prune_candidates ck s = filter (\<lambda>d. retention_over ck s d \<and> has_account s d) (id_documents s)"
proof -
  have one: "map (\<lambda>u. d) (filter (\<lambda>u. u_id u = i_user_id d) us) = (if list_ex (\<lambda>u. u_id u = i_user_id d) us then [d] else [])"
    if "distinct (map u_id us)" for d us
    using that
  proof (induction us)
    case (Cons u us)
    then have "filter (\<lambda>x. u_id x = u_id u) us = []" by (auto simp: filter_empty_conv image_iff)
    with Cons show ?case by (auto simp: list_ex_iff filter_empty_conv)
  qed simp
  have "concat (map (\<lambda>d. map (\<lambda>u. d) (filter (\<lambda>u. u_id u = i_user_id d) (users s))) ds) = filter (has_account s) ds" for ds
    by (induction ds) (simp_all add: one [OF assms] has_account_def)
  then show ?thesis by (simp add: prune_candidates_def filter_filter conj_commute)
qed

text \<open>
  C24: one run of the retention sweep rewrites exactly the documents whose window has passed (or
  whose owner has left) and whose file the storage let go, deletes exactly their files, counts
  both, and touches nothing else: a failed delete leaves the row with its key for the next run, and
  a document waiting for review of a live account keeps its file.
\<close>

theorem retention_run_exact:
  assumes "distinct (map u_id (users s))" and "distinct (map i_id (id_documents s))"
    and "p = prune_expired_documents ck accepts s bucket"
    and "doomed = (\<lambda>d. retention_over ck s d \<and> has_account s d)"
    and "gone = (\<lambda>d. doomed d \<and> deletable accepts d)"
  shows "ps_db p = s\<lparr>id_documents := map (\<lambda>d. if gone d then purged ck d else d) (id_documents s)\<rparr> \<and>
    ps_bucket p = filter (\<lambda>k. \<not> list_ex (\<lambda>d. gone d \<and> i_s3_key d = Some k) (id_documents s)) bucket \<and>
    ps_purged p = length (filter gone (id_documents s)) \<and>
    ps_purged p + ps_failed p = length (filter doomed (id_documents s)) \<and>
    list_all (\<lambda>d. gone d \<longrightarrow> i_status d \<noteq> DS_pending \<or> list_ex (\<lambda>u. u_id u = i_user_id d \<and> u_deleted_at u \<noteq> None) (users s)) (id_documents s)"
proof -
  have cs: "prune_candidates ck s = filter doomed (id_documents s)" using prune_candidates_filter [OF assms(1)] assms(4) by simp
  have keyed: "list_all (\<lambda>d. i_s3_key d \<noteq> None) (filter doomed (id_documents s))"
    by (simp add: list_all_iff assms(4) retention_over_def)
  have del: "filter (deletable accepts) (filter doomed (id_documents s)) = filter gone (id_documents s)"
    by (simp add: assms(5) conj_commute)
  have p: "p = \<lparr>ps_db = s\<lparr>id_documents := update_where (\<lambda>x. i_id x \<in> i_id ` set (filter gone (id_documents s))) (purged ck) (id_documents s)\<rparr>,
     ps_bucket = filter (\<lambda>k. Some k \<notin> i_s3_key ` set (filter gone (id_documents s))) bucket,
     ps_purged = length (filter gone (id_documents s)),
     ps_failed = length (filter (\<lambda>d. \<not> deletable accepts d) (filter doomed (id_documents s)))\<rparr>"
    unfolding assms(3) prune_expired_documents_def cs fold_purge [OF keyed] del by simp
  have "i_id x \<in> i_id ` set (filter gone (id_documents s)) \<longleftrightarrow> gone x" if "x \<in> set (id_documents s)" for x
  proof
    assume "i_id x \<in> i_id ` set (filter gone (id_documents s))"
    then obtain y where y: "y \<in> set (id_documents s)" "gone y" "i_id x = i_id y" by auto
    with distinct_key_eq [OF assms(2) that y(1)] show "gone x" by simp
  next
    assume "gone x"
    with that show "i_id x \<in> i_id ` set (filter gone (id_documents s))" by simp
  qed
  then have "update_where (\<lambda>x. i_id x \<in> i_id ` set (filter gone (id_documents s))) (purged ck) (id_documents s)
      = map (\<lambda>d. if gone d then purged ck d else d) (id_documents s)"
    by (simp add: update_where_def)
  moreover have "(\<lambda>k. Some k \<notin> i_s3_key ` set (filter gone (id_documents s))) = (\<lambda>k. \<not> list_ex (\<lambda>d. gone d \<and> i_s3_key d = Some k) (id_documents s))"
    by (rule ext) (auto simp: list_ex_iff image_iff)
  moreover have "length (filter gone (id_documents s)) + length (filter (\<lambda>d. \<not> deletable accepts d) (filter doomed (id_documents s)))
      = length (filter doomed (id_documents s))"
    using sum_length_filter_compl [of "deletable accepts" "filter doomed (id_documents s)"] unfolding del .
  moreover have "gone d \<longrightarrow> i_status d \<noteq> DS_pending \<or> list_ex (\<lambda>u. u_id u = i_user_id d \<and> u_deleted_at u \<noteq> None) (users s)" for d
    by (auto simp: assms(4,5) retention_over_def)
  ultimately show ?thesis by (simp add: p list_all_iff)
qed

text \<open>Three documents on one day: one approved a hundred days ago, one pending, one the storage will not delete.\<close>

definition demo_document :: "nat \<Rightarrow> doc_kind \<Rightarrow> string \<Rightarrow> doc_status \<Rightarrow> id_document" where
  "demo_document i k key st = \<lparr>i_id = i, i_user_id = 7, i_kind = k, i_s3_key = Some key, i_status = st, i_rejection_reason = None,
     i_reviewed_by = (if st = DS_pending then None else Some 1), i_reviewed_at = (if st = DS_pending then None else Some 0),
     i_uploaded_at = 0, i_purged_at = None\<rparr>"

definition demo_retention_db :: db where
  "demo_retention_db = demo_performer_db\<lparr>id_documents := [demo_document 30 DK_id_document ''old'' DS_approved,
     demo_document 31 DK_selfie ''new'' DS_pending, demo_document 32 DK_trade_licence ''stuck'' DS_rejected]\<rparr>"

theorem retention_run_exact_witness:
  "ps_bucket (prune_expired_documents (demo_clock (100 * ms_per_day)) (\<lambda>k. k \<noteq> ''stuck'') demo_retention_db [''old'', ''new'', ''stuck'', ''old''])
     = [''new'', ''stuck''] \<and>
   ps_purged (prune_expired_documents (demo_clock (100 * ms_per_day)) (\<lambda>k. k \<noteq> ''stuck'') demo_retention_db [''old'', ''new'', ''stuck'', ''old'']) = 1"
proof -
  have "distinct (map u_id (users demo_retention_db))" "distinct (map i_id (id_documents demo_retention_db))"
    by (simp_all add: demo_retention_db_def demo_document_def go_live_defs)
  from retention_run_exact [OF this refl refl refl, of "demo_clock (100 * ms_per_day)" "\<lambda>k. k \<noteq> ''stuck''" "[''old'', ''new'', ''stuck'', ''old'']"]
  show ?thesis
    by (simp add: demo_retention_db_def demo_document_def go_live_defs retention_over_def has_account_def deletable_def
        retention_days_approved_def retention_days_rejected_def ms_per_day_def)
qed

section \<open>Files out of reach\<close>

text \<open>The sweep deletes only what some row points at.\<close>

lemma unreferenced_file_stays:
  assumes "distinct (map u_id (users s))" and "list_all (\<lambda>d. i_s3_key d \<noteq> Some key) (id_documents s)" and "key \<in> set bucket"
  shows "key \<in> set (ps_bucket (prune_expired_documents ck accepts s bucket))
     \<and> list_all (\<lambda>d. i_s3_key d \<noteq> Some key) (id_documents (ps_db (prune_expired_documents ck accepts s bucket)))"
proof -
  let ?A = "filter (deletable accepts) (prune_candidates ck s)"
  have sub: "set (prune_candidates ck s) \<subseteq> {d \<in> set (id_documents s). i_s3_key d \<noteq> None}"
    by (auto simp: prune_candidates_def retention_over_def)
  then have keyed: "list_all (\<lambda>d. i_s3_key d \<noteq> None) (prune_candidates ck s)" by (auto simp: list_all_iff)
  have "Some key \<notin> i_s3_key ` set ?A" using sub assms(2) by (force simp: list_all_iff)
  moreover have "list_all (\<lambda>d. i_s3_key d \<noteq> Some key) (update_where Q (purged ck) (id_documents s))" for Q
    by (rule list_all_update_where [OF assms(2)]) simp
  ultimately show ?thesis using assms(3) unfolding prune_expired_documents_def fold_purge [OF keyed] by simp
qed

text \<open>Later runs of the sweep, each on its own day, over accounts that may have been deleted meanwhile.\<close>

definition sweep_run :: "clock \<times> (string \<Rightarrow> bool) \<times> user_row list \<Rightarrow> db \<times> string list \<Rightarrow> db \<times> string list" where
  "sweep_run e sb = (case e of (ck, accepts, us) \<Rightarrow> case sb of (s, bucket) \<Rightarrow>
     let p = prune_expired_documents ck accepts (s\<lparr>users := us\<rparr>) bucket in (ps_db p, ps_bucket p))"

lemma sweeps_keep_unreferenced:
  assumes "list_all (\<lambda>(ck, accepts, us). distinct (map u_id us)) runs"
    and "list_all (\<lambda>d. i_s3_key d \<noteq> Some key) (id_documents s)" and "key \<in> set bucket"
  shows "key \<in> set (snd (fold sweep_run runs (s, bucket)))"
  using assms
proof (induction runs arbitrary: s bucket)
  case (Cons e runs)
  obtain ck accepts us where e: "e = (ck, accepts, us)" by (cases e)
  let ?p = "prune_expired_documents ck accepts (s\<lparr>users := us\<rparr>) bucket"
  have "key \<in> set (ps_bucket ?p) \<and> list_all (\<lambda>d. i_s3_key d \<noteq> Some key) (id_documents (ps_db ?p))"
    by (rule unreferenced_file_stays) (use Cons.prems e in simp_all)
  then have "key \<in> set (snd (fold sweep_run runs (ps_db ?p, ps_bucket ?p)))" using Cons.prems by (intro Cons.IH) simp_all
  moreover have "sweep_run e (s, bucket) = (ps_db ?p, ps_bucket ?p)" by (simp add: e sweep_run_def Let_def)
  ultimately show ?case by simp
qed simp

text \<open>
  C25: when an artist submits a document again, the row forgets the file it pointed at, and no later
  run of the sweep deletes that file, whatever the day and even after the account is deleted.
\<close>

theorem replaced_file_is_never_deleted:
  assumes "list_all (\<lambda>d. i_s3_key d = Some old \<longrightarrow> i_user_id d = uid \<and> i_kind d = k) (id_documents s)"
    and "starts_with (own_prefix uid) new" and "new \<noteq> old" and "old \<in> set bucket"
    and "list_all (\<lambda>(ck, accepts, us). distinct (map u_id us)) runs"
  shows "fst (confirm_document ck uid k new s) = Inr () \<and> old \<in> set (snd (fold sweep_run runs (snd (confirm_document ck uid k new s), bucket)))"
proof -
  let ?P = "\<lambda>d. i_user_id d = uid \<and> i_kind d = k"
  have upd: "list_all (\<lambda>d. i_s3_key d \<noteq> Some old) (update_where ?P (resubmitted ck new) ds)"
    if "list_all (\<lambda>d. i_s3_key d = Some old \<longrightarrow> ?P d) ds" for ds
    using that assms(3) by (induction ds) (auto simp: resubmitted_def)
  have "list_all (\<lambda>d. i_s3_key d \<noteq> Some old) (id_documents (snd (confirm_document ck uid k new s)))"
  proof (cases "list_ex ?P (id_documents s)")
    case True
    with upd [OF assms(1)] assms(2) show ?thesis by (simp add: confirm_document_def)
  next
    case False
    then have "list_all (\<lambda>d. i_s3_key d \<noteq> Some old) (id_documents s)" using assms(1) by (auto simp: list_all_iff list_ex_iff)
    with False assms(2,3) show ?thesis by (simp add: confirm_document_def pending_document_def)
  qed
  from sweeps_keep_unreferenced [OF assms(5) this assms(4)] assms(2) show ?thesis by (simp add: confirm_document_def)
qed

theorem replaced_file_is_never_deleted_witness:
  "''identity/7/a'' \<in> set (snd (fold sweep_run
      [(demo_clock (200 * ms_per_day), \<lambda>_. True, [demo_artist_account\<lparr>u_deleted_at := Some 2\<rparr>])]
      (snd (confirm_document (demo_clock 15) 7 DK_id_document ''identity/7/c''
         (fold verif_step (take 4 demo_requests) demo_performer_db)), [''identity/7/a'', ''identity/7/b'', ''identity/7/c''])))"
  using replaced_file_is_never_deleted [where s = "fold verif_step (take 4 demo_requests) demo_performer_db" and uid = 7
      and k = DK_id_document and old = "''identity/7/a''" and new = "''identity/7/c''"
      and bucket = "[''identity/7/a'', ''identity/7/b'', ''identity/7/c'']" and ck = "demo_clock 15"
      and runs = "[(demo_clock (200 * ms_per_day), \<lambda>_. True, [demo_artist_account\<lparr>u_deleted_at := Some 2\<rparr>])]"]
  by (simp add: demo_performer_run own_prefix_7 starts_with_def)

end
