(* ===== verification/Admin_Rules.thy ===== *)
theory Admin_Rules
  imports Admin Subscription_Ledger "HOL-Library.Multiset"
begin

text \<open>
  What an administrator's decisions come to: the temporary password, what a decision about a
  payment writes (Payment_Decisions has what becomes of it) and the decision about a report.
\<close>

section \<open>The temporary password\<close>

lemma mset_swap_at: "i < length xs \<Longrightarrow> j < length xs \<Longrightarrow> mset (swap_at i j xs) = mset xs"
  by (simp add: swap_at_def mset_swap)

lemma length_swap_at [simp]: "length (swap_at i j xs) = length xs"
  by (simp add: swap_at_def)

lemma mset_shuffle_down:
  "i < length xs \<Longrightarrow> list_all2 (\<le>) moves (rev [1..<Suc i]) \<Longrightarrow> mset (shuffle_down i moves xs) = mset xs"
proof (induction i moves xs rule: shuffle_down.induct)
  case (3 i j draws xs)
  have "j \<le> Suc i" "list_all2 (\<le>) draws (rev [1..<Suc i])" using "3.prems"(2) by simp_all
  with 3 show ?case by (simp add: mset_swap_at)
qed simp_all

lemma lower_alphabet: "list_all (\<lambda>c. 97 \<le> (of_char c :: nat) \<and> (of_char c :: nat) \<le> 122) temp_lower"
  by (simp add: temp_lower_def)

lemma upper_alphabet: "list_all (\<lambda>c. 65 \<le> (of_char c :: nat) \<and> (of_char c :: nat) \<le> 90) temp_upper"
  by (simp add: temp_upper_def)

lemma digit_alphabet: "list_all is_digit temp_digits"
  by (simp add: temp_digits_def is_digit_def)

lemma one_line: "list_all (\<lambda>c. (of_char c :: nat) \<notin> {10, 13}) temp_all"
  by (simp add: temp_all_def temp_lower_def temp_upper_def temp_digits_def)

lemma no_lookalikes: "list_all (\<lambda>c. c \<noteq> CHR ''0'' \<and> c \<noteq> CHR ''O'' \<and> c \<noteq> CHR ''1'' \<and> c \<noteq> CHR ''l'' \<and> c \<noteq> CHR ''I'') temp_all"
  by code_simp

lemma alphabet_sizes: "length temp_lower = 25" "length temp_upper = 24" "length temp_digits = 8" "length temp_all = 57"
  by (simp_all add: temp_all_def temp_lower_def temp_upper_def temp_digits_def)

text \<open>
  Whatever the random draws, the temporary password an administrator hands out has twelve
  characters, none of the ones that sound or look alike, and passes the rule of the sign-up form.
\<close>

theorem temporary_password_passes_the_rule:
  assumes "list_all2 (<) picks ([25, 24, 8] @ replicate 9 57)" and "list_all2 (\<le>) moves (rev [1..<12])"
  shows "length (generate_temporary_password picks moves) = 12 \<and> password_acceptable (generate_temporary_password picks moves)
    \<and> list_all (\<lambda>c. c \<noteq> CHR ''0'' \<and> c \<noteq> CHR ''O'' \<and> c \<noteq> CHR ''1'' \<and> c \<noteq> CHR ''l'' \<and> c \<noteq> CHR ''I'') (generate_temporary_password picks moves)"
proof -
  define rest where "rest = map (\<lambda>r. temp_all ! r) (take 9 (drop 3 picks))"
  define chars where "chars = [temp_lower ! (picks ! 0), temp_upper ! (picks ! 1), temp_digits ! (picks ! 2)] @ rest"
  define pw where "pw = generate_temporary_password picks moves"
  obtain a b c ps where picks: "picks = a # b # c # ps" and first: "a < 25" "b < 24" "c < 8" and ps: "list_all2 (<) ps (replicate 9 57)"
    using assms(1) by (auto simp: list_all2_Cons2)
  have "length ps = 9" using list_all2_lengthD [OF ps] by simp
  then have len: "length chars = 12" by (simp add: chars_def rest_def picks)
  have "mset (shuffle_down (length chars - 1) moves chars) = mset chars"
    by (rule mset_shuffle_down) (use len assms(2) in simp_all)
  then have pw: "mset pw = mset chars" by (simp add: pw_def generate_temporary_password_def chars_def rest_def Let_def)
  have "set rest \<subseteq> set temp_all"
  proof -
    have "r < 57" if "r \<in> set ps" for r
      using ps that by (auto simp: list_all2_conv_all_nth in_set_conv_nth)
    then show ?thesis using \<open>length ps = 9\<close> by (auto simp: rest_def picks alphabet_sizes)
  qed
  moreover have heads: "temp_lower ! a \<in> set temp_lower" "temp_upper ! b \<in> set temp_upper" "temp_digits ! c \<in> set temp_digits"
    using first by (simp_all add: alphabet_sizes)
  ultimately have sub: "set chars \<subseteq> set temp_all" by (auto simp: chars_def picks temp_all_def)
  have same: "set pw = set chars" "length pw = 12" using pw mset_eq_setD mset_eq_length len by metis+
  have line: "takeWhile (\<lambda>c. (of_char c :: nat) \<notin> {10, 13}) pw = pw"
    using one_line sub same(1) by (auto simp: takeWhile_eq_all_conv list_all_iff)
  have "8 \<le> length pw" using same(2) by simp
  moreover have "list_ex (\<lambda>c. 97 \<le> (of_char c :: nat) \<and> (of_char c :: nat) \<le> 122) pw"
    using lower_alphabet heads(1) same(1) by (auto simp: list_ex_iff list_all_iff chars_def picks)
  moreover have "list_ex (\<lambda>c. 65 \<le> (of_char c :: nat) \<and> (of_char c :: nat) \<le> 90) pw"
    using upper_alphabet heads(2) same(1) by (auto simp: list_ex_iff list_all_iff chars_def picks)
  moreover have "list_ex is_digit pw"
    using digit_alphabet heads(3) same(1) by (auto simp: list_ex_iff list_all_iff chars_def picks)
  ultimately have rule: "password_acceptable pw" unfolding password_acceptable_def Let_def line by blast
  have over: "list_all P pw" if "list_all P temp_all" for P
    using that sub same(1) by (auto simp: list_all_iff)
  from rule same(2) over [OF no_lookalikes] show ?thesis unfolding pw_def by (intro conjI)
qed

theorem temporary_password_passes_the_rule_witness:
  "password_acceptable (generate_temporary_password [24, 23, 7, 56, 0, 1, 2, 3, 4, 5, 6, 7] [11, 0, 9, 0, 7, 0, 5, 0, 3, 0, 1])"
proof -
  have "list_all2 (<) [24, 23, 7, 56, 0, 1, 2, 3, 4, 5, 6, 7 :: nat] ([25, 24, 8] @ replicate 9 57)"
    "list_all2 (\<le>) [11, 0, 9, 0, 7, 0, 5, 0, 3, 0, 1 :: nat] (rev [1..<12])" by code_simp+
  from temporary_password_passes_the_rule [OF this] show ?thesis by blast
qed

section \<open>Payments\<close>

text \<open>What a decision of an administrator adds to the audit log.\<close>

definition decision_logged :: "uuid \<Rightarrow> string \<Rightarrow> uuid \<Rightarrow> string option \<Rightarrow> db \<Rightarrow> db \<Rightarrow> bool" where
  "decision_logged admin action target remark s s' \<longleftrightarrow>
     (case rev (audit_log s') of [] \<Rightarrow> False
      | r # before \<Rightarrow> rev before = audit_log s \<and> a_admin_id r = admin \<and> a_action r = action \<and> a_target_id r = target \<and> a_note r = remark)"

lemma decision_logged_write: "audit_log t = audit_log s \<Longrightarrow> decision_logged admin action target remark s (write_audit ck admin action target remark m t)"
  by (simp add: decision_logged_def write_audit_def)

lemma decision_logged_insert [simp]:
  "decision_logged admin action target remark s (insert_notification ck u ty ti d t) = decision_logged admin action target remark s t"
  by (simp add: decision_logged_def)

lemma find_update_where_key:
  "find (\<lambda>x. key x = k) xs = Some x \<Longrightarrow> (\<And>y. key (f y) = key y) \<Longrightarrow> find (\<lambda>x. key x = k) (update_where (\<lambda>x. key x = k) f xs) = Some (f x)"
  by (induction xs) (auto split: if_splits)

lemma audit_mint: "mint_for_payment ck q s = Inr (m, t) \<Longrightarrow> audit_log t = audit_log s"
proof -
  have "mint_loop ck uid pid plan days n c rows s = Inr (x, t) \<Longrightarrow> audit_log t = audit_log s" for uid pid plan days n c rows x s
    by (induction n arbitrary: c rows s)
       (auto simp: Let_def insert_subscriptions_def write_subscriptions_def split: sum.splits if_splits)
  then show "mint_for_payment ck q s = Inr (m, t) \<Longrightarrow> audit_log t = audit_log s"
    by (auto simp: mint_for_payment_def mint_day_credits_def mint_dated_plan_def insert_subscriptions_def
        write_subscriptions_def Let_def map_sum_def split: option.splits if_splits sum.splits)
qed

definition settled :: "clock \<Rightarrow> uuid \<Rightarrow> pay_decision \<Rightarrow> string option \<Rightarrow> payment \<Rightarrow> payment" where
  "settled ck admin decision reason y = y\<lparr>y_status := pay_decision_status decision, y_rejection_reason := reason,
     y_confirmed_by := (if decision = Pay_confirmed then Some admin else None),
     y_confirmed_at := (if decision = Pay_confirmed then Some (db_now ck) else None)\<rparr>"

lemma settle_payment_tables:
  assumes "settle_payment ck admin pid decision reason s = Inr (n, t)"
  shows "payments t = update_where (\<lambda>y. y_id y = pid) (settled ck admin decision reason) (payments s) \<and> audit_log t = audit_log s"
proof -
  let ?s1 = "s\<lparr>payments := update_where (\<lambda>y. y_id y = pid) (settled ck admin decision reason) (payments s)\<rparr>"
  have s: "settle_payment ck admin pid decision reason s =
      (if decision = Pay_confirmed then (case mint_for_payment ck pid ?s1 of Inl e \<Rightarrow> Inl e | Inr (m, s2) \<Rightarrow> Inr (mr_minted m, s2)) else Inr (0, ?s1))"
    by (simp add: settle_payment_def settled_def [abs_def] Let_def cong: if_cong)
  show ?thesis
  proof (cases "decision = Pay_confirmed")
    case True
    then obtain m where "mint_for_payment ck pid ?s1 = Inr (m, t)" using assms unfolding s by (auto split: sum.splits)
    from payments_mint [OF this] audit_mint [OF this] show ?thesis by simp
  qed (use assms s in auto)
qed

section \<open>Reports\<close>

text \<open>
  A decision about an open report is written to the report and to the audit log, and then the
  request fails, because the message to the reporter has no recipient: neither the reporter nor the
  person reported is told, and trying again is refused because the report is already decided.
\<close>

theorem report_decision_ends_in_an_error:
  assumes "find (\<lambda>f. f_id f = fid) (flag_rows s) = Some f" and "f_status f = F_open"
    and "resolve_flag ck admin fid d remark s = (r, s')"
  shows "r = Inl (PgError ''23502'') \<and> notifications s' = notifications s \<and>
    decision_logged admin (if d = Flag_dismissed then ''flag.dismissed'' else ''flag.actioned'') (f_target_id f) remark s s' \<and>
    resolve_flag ck2 admin2 fid d2 remark2 s' =
      (Inl (BadRequest (''Flag has already been '' @ flag_status_name (flag_decision_status d) @ ''.'')), s')"
proof -
  let ?f = "\<lambda>f. f\<lparr>f_status := flag_decision_status d, f_resolved_by := Some admin, f_resolved_at := Some (db_now ck), f_resolver_note := remark\<rparr>"
  let ?s1 = "s\<lparr>flag_rows := update_where (\<lambda>f. f_id f = fid) ?f (flag_rows s)\<rparr>"
  have r: "r = Inl (PgError ''23502'')" and s': "s' = write_audit ck admin (if d = Flag_dismissed then ''flag.dismissed'' else ''flag.actioned'')
      (f_target_id f) remark [(''flag_id'', JUuid fid)] ?s1"
    using assms by (simp_all add: resolve_flag_def notify_maybe_def flag_reporter_id_def Let_def cong: if_cong)
  have "find (\<lambda>f. f_id f = fid) (flag_rows s') = Some (?f f)"
    unfolding s' using find_update_where_key [OF assms(1), of ?f] by simp
  moreover have "flag_decision_status d \<noteq> F_open" by (cases d) (simp_all add: flag_decision_status_def)
  moreover have "decision_logged admin (if d = Flag_dismissed then ''flag.dismissed'' else ''flag.actioned'') (f_target_id f) remark s s'"
    unfolding s' by (rule decision_logged_write) simp
  moreover have "notifications s' = notifications s" by (simp add: s')
  ultimately show ?thesis using r by (simp add: resolve_flag_def)
qed

definition demo_report_db :: db where
  "demo_report_db = empty_db\<lparr>flag_rows := [\<lparr>f_id = 4, f_flagged_by = 2, f_target_type = FT_profile, f_target_id = 7, f_reason = ''spam'',
     f_status = F_open, f_resolved_by = None, f_resolved_at = None, f_resolver_note = None, f_created_at = 1\<rparr>], next_id := 5\<rparr>"

theorem report_decision_ends_in_an_error_witness:
  "fst (resolve_flag \<lparr>db_now = 5, js_now = 5\<rparr> 9 4 Flag_actioned None demo_report_db) = Inl (PgError ''23502'')"
  using report_decision_ends_in_an_error [of 4 demo_report_db "hd (flag_rows demo_report_db)" "\<lparr>db_now = 5, js_now = 5\<rparr>" 9 Flag_actioned None
      "fst (resolve_flag \<lparr>db_now = 5, js_now = 5\<rparr> 9 4 Flag_actioned None demo_report_db)"
      "snd (resolve_flag \<lparr>db_now = 5, js_now = 5\<rparr> 9 4 Flag_actioned None demo_report_db)"]
  by (simp add: demo_report_db_def)

end
