(* ===== verification/Payment_Decisions.thy ===== *)
theory Payment_Decisions
  imports Admin_Rules Scheduler
begin

text \<open>
  What becomes of an administrator's decision about a payment when others work on the same table:
  further administrators, whose check may have been made before the decision, purchases, deliveries
  of the payment provider and the nightly reconciliation. Each of them is a step here; the ones
  that act on an earlier reading of the payment take that reading as an argument, so that it may be
  as old as one likes.
\<close>

datatype pay_step =
    Ledger sub_op \<comment> \<open>a purchase, a transfer report, an activation, a mint, the sweep\<close>
  | Hand_over uuid payment_intent \<comment> \<open>the last statement of a purchase still in flight\<close>
  | Settle_decision uuid uuid pay_decision "string option" \<comment> \<open>the transaction of a decision: administrator, payment\<close>
  | Log_decision uuid uuid pay_decision "string option" payment nat \<comment> \<open>what is written down after it\<close>
  | Deliver string string headers \<comment> \<open>a whole delivery: provider, body, headers\<close>
  | Settle_delivery matched \<comment> \<open>the end of a delivery that found its payment earlier\<close>
  | Expire_intents \<comment> \<open>the reconciliation's two updates\<close>
  | Poll "string \<Rightarrow> js_value" payment \<comment> \<open>and what it does about one payment it read\<close>

fun run_pay_step :: "platform \<Rightarrow> config \<Rightarrow> clock \<Rightarrow> pay_step \<Rightarrow> db \<Rightarrow> db" where
  "run_pay_step pf cfg ck (Ledger x) s = run_sub_op cfg ck x s"
| "run_pay_step pf cfg ck (Hand_over pid i) s = record_hand_over pid i s"
| "run_pay_step pf cfg ck (Settle_decision admin pid d reason) s =
     (case settle_payment ck admin pid d reason s of Inl e \<Rightarrow> s | Inr (n, t) \<Rightarrow> t)"
| "run_pay_step pf cfg ck (Log_decision admin pid d reason y n) s = review_log ck admin pid d reason y n s"
| "run_pay_step pf cfg ck (Deliver code raw hs) s = snd (process ck pf cfg code raw hs s)"
| "run_pay_step pf cfg ck (Settle_delivery m) s = snd (wh_settle ck pf m s)"
| "run_pay_step pf cfg ck Expire_intents s = expire_intents ck s"
| "run_pay_step pf cfg ck (Poll status y) s = poll_one status y s"

fun pay_run :: "platform \<Rightarrow> config \<Rightarrow> (clock \<times> pay_step) list \<Rightarrow> db \<Rightarrow> db" where
  "pay_run pf cfg [] s = s"
| "pay_run pf cfg ((ck, x) # xs) s = pay_run pf cfg xs (run_pay_step pf cfg ck x s)"

text \<open>The steps the code takes one after the other are the code's own operations.\<close>

lemma decision_steps:
  "review_check pid d reason s = Inr y \<Longrightarrow> settle_payment ck admin pid d reason s = Inr (n, t) \<Longrightarrow>
   snd (review_payment ck admin pid d reason s) =
     pay_run pf cfg [(ck, Settle_decision admin pid d reason), (ck, Log_decision admin pid d reason y n)] s"
  by (simp add: review_payment_def review_write_def)

lemma delivery_steps:
  "wh_intake ck pf cfg code raw hs s = (Inr (Matched m), t) \<Longrightarrow>
   snd (process ck pf cfg code raw hs s) = pay_run pf cfg [(ck, Settle_delivery m)] t"
  by (simp add: process_def)

lemma polling_steps:
  "fold (poll_one status) ys s = pay_run pf cfg (map (\<lambda>y. (ck, Poll status y)) ys) s"
  by (induction ys arbitrary: s) simp_all

section \<open>Decided stays decided\<close>

definition decided :: "uuid \<Rightarrow> db \<Rightarrow> bool" where
  "decided pid s \<longleftrightarrow> (case find (\<lambda>y. y_id y = pid) (payments s) of None \<Rightarrow> False | Some y \<Rightarrow> \<not> unsettled y)"

text \<open>A payment that is there, has an id from the supply, and is not waiting for a decision.\<close>

definition shut :: "uuid \<Rightarrow> db \<Rightarrow> bool" where
  "shut pid s \<longleftrightarrow> decided pid s \<and> pid < next_id s"

lemma decided_update:
  assumes "decided pid s" and "payments t = update_where P f (payments s)" and "\<And>y. y_id (f y) = y_id y"
    and "\<And>y. P y \<Longrightarrow> y_id y = pid \<Longrightarrow> \<not> unsettled y \<Longrightarrow> \<not> unsettled (f y)"
  shows "decided pid t"
proof -
  obtain y where y: "find (\<lambda>y. y_id y = pid) (payments s) = Some y" "\<not> unsettled y"
    using assms(1) by (auto simp: decided_def split: option.splits)
  have "find (\<lambda>y. y_id y = pid) (payments t) = Some (if P y then f y else y)"
    using y(1) assms(3) by (simp add: assms(2) find_update_where)
  moreover have "y_id y = pid" using find_SomeD [OF y(1)] by simp
  ultimately show ?thesis using y(2) assms(4) by (simp add: decided_def)
qed

lemma decided_same: "decided pid s \<Longrightarrow> payments t = payments s \<Longrightarrow> decided pid t"
  by (simp add: decided_def)

lemma decided_append: "decided pid s \<Longrightarrow> payments t = payments s @ ys \<Longrightarrow> decided pid t"
  by (auto simp: decided_def find_append split: option.splits)

lemma unsettled_mark [simp]: "unsettled (mark_status st y) \<longleftrightarrow> st = Y_pending \<or> st = Y_awaiting_provider"
  by (simp add: unsettled_def mark_status_def)

lemma mark_confirmed_settled [simp]: "\<not> unsettled (mark_confirmed ck y)"
  by (simp add: unsettled_def mark_confirmed_def)

lemma settled_settled [simp]: "\<not> unsettled (settled ck admin d reason y)"
  by (cases d) (simp_all add: unsettled_def settled_def pay_decision_status_def)

lemma id_marks [simp]:
  "y_id (mark_status st y) = y_id y" "y_id (mark_confirmed ck y) = y_id y" "y_id (settled ck admin d reason y) = y_id y"
  "y_id (hand_over i y) = y_id y"
  by (simp_all add: mark_status_def mark_confirmed_def settled_def hand_over_def)

subsection \<open>The id supply only grows\<close>

lemma next_id_mint: "mint_for_payment ck q s = Inr (m, t) \<Longrightarrow> next_id s \<le> next_id t"
proof -
  have "mint_loop ck uid pid plan days n c rows s = Inr (x, t) \<Longrightarrow> next_id s \<le> next_id t" for uid pid plan days n c rows x s
  proof (induction n arbitrary: c rows s)
    case (Suc n)
    then show ?case
      by (fastforce simp: Let_def insert_subscriptions_def write_subscriptions_def split: sum.splits if_splits)
  qed simp
  then show "mint_for_payment ck q s = Inr (m, t) \<Longrightarrow> next_id s \<le> next_id t"
    by (auto simp: mint_for_payment_def mint_day_credits_def mint_dated_plan_def insert_subscriptions_def
        write_subscriptions_def Let_def map_sum_def split: option.splits if_splits sum.splits)
qed

lemma next_id_promotions: "next_id (snd (fold (promote_next ck) us acc)) = next_id (snd acc)"
proof (induction us arbitrary: acc)
  case (Cons u us)
  have "next_id (snd (promote_next ck u acc)) = next_id (snd acc)"
    by (auto simp: promote_next_def write_subscriptions_def Let_def split: prod.splits list.splits)
  with Cons show ?case by simp
qed simp

lemma next_id_sweep [simp]: "next_id (snd (expire_and_promote ck s)) = next_id s"
  by (simp add: snd_sweep next_id_promotions) (simp add: expire_lapsed_def)

lemma next_id_intent: "next_id s \<le> next_id (snd (create_payment_intent ck cfg uid dto s))"
  by (simp add: create_payment_intent_def place_payment_def record_hand_over_def Let_def split: option.splits sum.splits)

lemma next_id_sub_op: "next_id s \<le> next_id (run_sub_op cfg ck x s)"
  by (cases x)
    (auto simp: next_id_intent report_transfer_def activate_def activate_swap_def write_subscriptions_def Let_def
      dest: next_id_mint split: option.splits sum.splits list.splits)

lemma next_id_settle: "settle_payment ck admin pid d reason s = Inr (n, t) \<Longrightarrow> next_id s \<le> next_id t"
  by (auto simp: settle_payment_def Let_def dest!: next_id_mint split: if_splits sum.splits)

lemma next_id_wh_settle: "next_id s \<le> next_id (snd (wh_settle ck pf m s))"
  using dispute_frame(5) [of "set_payment (y_id (mt_payment m)) (mark_status Y_disputed) s"]
  by (auto simp: wh_settle_def confirm_and_mint_def Let_def dest!: next_id_mint
      split: sum.splits decision_taken.splits)

subsection \<open>Each step\<close>

lemma shut_purchase:
  assumes "shut pid s"
  shows "shut pid (snd (create_payment_intent ck cfg uid dto s))"
proof -
  have new: "y_id (new_payment ck cfg uid dto plan pr k) = k" for plan pr k by (simp add: new_payment_def Let_def)
  have 1: "decided pid (s\<lparr>payments := payments s @ [y], next_id := n\<rparr>)" for y n
    by (rule decided_append [of pid s _ "[y]"]) (use assms in \<open>simp_all add: shut_def\<close>)
  have 2: "decided pid (record_hand_over (next_id s) i (s\<lparr>payments := payments s @ [y], next_id := n\<rparr>))" for y i n
    by (rule decided_update [OF 1, where P = "\<lambda>x. y_id x = next_id s" and f = "hand_over i"])
      (use assms in \<open>simp_all add: record_hand_over_def shut_def\<close>)
  from assms show ?thesis
    using next_id_intent [of s ck cfg uid dto] 1 2
    by (auto simp: shut_def create_payment_intent_def place_payment_def new Let_def split: option.splits sum.splits)
qed

lemma shut_ledger: "shut pid s \<Longrightarrow> shut pid (run_sub_op cfg ck x s)"
proof (cases x)
  case (Report uid p sv rf)
  assume c: "shut pid s"
  let ?set = "\<lambda>y. y\<lparr>y_transfer_service := Some sv, y_reference_code := Some rf\<rparr>"
  have "decided pid (s\<lparr>payments := update_where P ?set (payments s)\<rparr>)" for P
    by (rule decided_update [where P = P and f = ?set and s = s]) (use c in \<open>simp_all add: shut_def unsettled_def\<close>)
  with c show ?thesis by (simp add: Report report_transfer_def Let_def shut_def)
next
  case (Buy uid dto)
  assume "shut pid s"
  then show ?thesis by (simp add: Buy shut_purchase)
qed (use next_id_sub_op [of s cfg ck x] in \<open>auto simp: shut_def activate_def activate_swap_def write_subscriptions_def
     dest: payments_mint elim!: decided_same less_le_trans split: option.splits sum.splits list.splits\<close>)

lemma shut_settle:
  assumes "shut pid s" and "settle_payment ck admin q d reason s = Inr (n, t)"
  shows "shut pid t"
proof -
  have "decided pid t"
    by (rule decided_update [where s = s and P = "\<lambda>y. y_id y = q" and f = "settled ck admin d reason"])
      (use assms settle_payment_tables [OF assms(2)] in \<open>simp_all add: shut_def\<close>)
  with assms next_id_settle [OF assms(2)] show ?thesis by (simp add: shut_def)
qed

lemma decided_mark:
  "decided pid s \<Longrightarrow> st \<noteq> Y_pending \<Longrightarrow> st \<noteq> Y_awaiting_provider \<Longrightarrow>
   payments t = update_where P (mark_status st) (payments s) \<Longrightarrow> decided pid t"
  by (rule decided_update [where f = "mark_status st" and s = s and P = P]) simp_all

lemma shut_wh_settle:
  assumes "shut pid s"
  shows "shut pid (snd (wh_settle ck pf m s))"
proof -
  obtain out t where st: "wh_settle ck pf m s = (out, t)" by fastforce
  have d: "decided pid s" using assms by (simp add: shut_def)
  have "decided pid t"
  proof (cases "payments t = payments s")
    case False
    then consider
        "payments t = update_where (\<lambda>x. y_id x = y_id (mt_payment m)) (mark_confirmed ck) (payments s)"
      | st where "st \<noteq> Y_pending" "st \<noteq> Y_awaiting_provider"
          "payments t = update_where (\<lambda>x. y_id x = y_id (mt_payment m)) (mark_status st) (payments s)"
      using settle_payments [OF st] by (auto simp: payments_after_def split: sum.splits webhook_outcome.splits if_splits)
    then show ?thesis by cases (auto intro: decided_update [OF d] decided_mark [OF d])
  qed (use d in \<open>simp add: decided_same\<close>)
  with assms st next_id_wh_settle [of s ck pf m] show ?thesis by (simp add: shut_def)
qed

lemma shut_process:
  assumes "shut pid s"
  shows "shut pid (snd (process ck pf cfg code raw hs s))"
proof -
  obtain x t where i: "wh_intake ck pf cfg code raw hs s = (x, t)" by fastforce
  have "shut pid t"
    using assms intake_frame(1,6) [OF i] by (auto simp: shut_def elim: decided_same)
  with i shut_wh_settle show ?thesis by (auto simp: process_def split: sum.splits intake.splits)
qed

lemma shut_expire:
  assumes "shut pid s"
  shows "shut pid (expire_intents ck s)"
proof -
  let ?t = "s\<lparr>payments := update_where (intent_ran_out ck) (mark_status Y_expired) (payments s)\<rparr>"
  have "decided pid ?t"
    by (rule decided_mark [of pid s Y_expired _ "intent_ran_out ck"]) (use assms in \<open>simp_all add: shut_def\<close>)
  then have "decided pid (expire_intents ck s)"
    by (rule decided_mark [of pid _ Y_expired _ "intent_abandoned ck"]) (simp_all add: expire_intents_def Let_def)
  with assms show ?thesis by (simp add: shut_def expire_intents_def Let_def)
qed

lemma shut_poll:
  assumes "shut pid s"
  shows "shut pid (poll_one status y s)"
proof -
  have "shut pid (set_payment q (mark_status st) s)" if "st = Y_rejected \<or> st = Y_expired" for q st
    using decided_mark [of pid s st "set_payment q (mark_status st) s" "\<lambda>y. y_id y = q"] assms that
    by (auto simp: shut_def)
  with assms show ?thesis by (simp add: poll_one_def Let_def)
qed

text \<open>The one step that can open a decided payment again is the end of its own purchase.\<close>

definition spares :: "uuid \<Rightarrow> pay_step \<Rightarrow> bool" where
  "spares pid x \<longleftrightarrow> (case x of Hand_over q i \<Rightarrow> q \<noteq> pid | _ \<Rightarrow> True)"

lemma shut_step:
  assumes "shut pid s" and "spares pid x"
  shows "shut pid (run_pay_step pf cfg ck x s)"
proof (cases x)
  case (Hand_over q i)
  then have other: "q \<noteq> pid" using assms(2) by (simp add: spares_def)
  have "decided pid s" using assms(1) by (simp add: shut_def)
  then have "decided pid (record_hand_over q i s)"
    by (rule decided_update [where s = s and P = "\<lambda>y. y_id y = q" and f = "hand_over i"])
      (use other in \<open>auto simp: record_hand_over_def\<close>)
  with Hand_over assms(1) show ?thesis by (simp add: shut_def record_hand_over_def)
next
  case (Log_decision admin q d reason y n)
  with assms(1) show ?thesis by (simp add: shut_def review_log_def Let_def decided_def)
next
  case (Settle_decision admin q d reason)
  with assms(1) shut_settle [OF assms(1), of ck admin q d reason] show ?thesis by (simp split: sum.splits prod.splits)
qed (simp_all add: assms(1) shut_ledger shut_process shut_wh_settle shut_expire shut_poll)

lemma shut_run: "shut pid s \<Longrightarrow> list_all (\<lambda>x. spares pid (snd x)) steps \<Longrightarrow> shut pid (pay_run pf cfg steps s)"
  by (induction pf cfg steps s rule: pay_run.induct) (auto intro: shut_step)

section \<open>One decision\<close>

lemma settle_reject:
  "settle_payment ck admin pid Pay_rejected reason s =
     Inr (0, s\<lparr>payments := update_where (\<lambda>y. y_id y = pid) (settled ck admin Pay_rejected reason) (payments s)\<rparr>)"
  by (simp add: settle_payment_def settled_def [abs_def] Let_def)

lemma write_tables:
  assumes "review_write ck admin pid d reason y s = (Inr (msg, n), s')"
  shows "payments s' = update_where (\<lambda>y. y_id y = pid) (settled ck admin d reason) (payments s)"
    and "decision_logged admin (if d = Pay_confirmed then ''payment.confirmed'' else ''payment.rejected'') (y_planner_id y) reason s s'"
    and "next_id s \<le> next_id s'"
proof -
  obtain t where t: "settle_payment ck admin pid d reason s = Inr (n, t)" and s': "s' = review_log ck admin pid d reason y n t"
    using assms by (auto simp: review_write_def split: sum.splits)
  note tables = settle_payment_tables [OF t]
  show "payments s' = update_where (\<lambda>y. y_id y = pid) (settled ck admin d reason) (payments s)"
    using tables by (simp add: s' review_log_def Let_def)
  show "decision_logged admin (if d = Pay_confirmed then ''payment.confirmed'' else ''payment.rejected'') (y_planner_id y) reason s s'"
    using tables by (simp add: s' review_log_def Let_def decision_logged_write)
  show "next_id s \<le> next_id s'"
    using next_id_settle [OF t] by (simp add: s' review_log_def Let_def)
qed

lemma shut_refuses:
  assumes "shut pid s"
  obtains y where "find (\<lambda>y. y_id y = pid) (payments s) = Some y" and "\<not> unsettled y"
    and "\<And>ck admin d reason. review_payment ck admin pid d reason s =
      (Inl (BadRequest (''Payment has already been '' @ payment_status_name (y_status y) @ ''.'')), s)"
proof -
  obtain y where "find (\<lambda>y. y_id y = pid) (payments s) = Some y" "\<not> unsettled y"
    using assms by (auto simp: shut_def decided_def split: option.splits)
  with that show thesis by (auto simp: review_payment_def review_check_def unsettled_def)
qed

text \<open>
  A purchase still in flight when its payment is decided puts it back among the payments waiting
  for a decision: its last statement, too, goes by the id alone.
\<close>

lemma late_hand_over_reopens:
  assumes "find (\<lambda>y. y_id y = pid) (payments s) = Some y"
  shows "review_check pid Pay_confirmed reason (record_hand_over pid i s) = Inr (hand_over i y)"
  using find_update_where_key [OF assms, of "hand_over i"]
  by (simp add: review_check_def record_hand_over_def) (simp add: hand_over_def)

text \<open>
  C26: a decision about a payment, checked against one state of the table and carried out in a
  later one, is written to the payment and, with the administrator and the outcome, to the audit log.
  From then on every decision that is checked after it is refused and changes nothing, whatever
  happens in between: purchases, transfer reports, mints, sweeps, deliveries and reconciliations, begun
  before or after, and other decisions that were checked before it; all but the end of
  the very purchase the payment belongs to. Those other decisions are not refused: a rejection
  checked when the first decision was goes through after it, and leaves standing whatever the
  first one granted.
\<close>

theorem payment_is_decided_once:
  assumes "review_check pid d reason s0 = Inr y" and "review_write ck admin pid d reason y s = (Inr (msg, n), s')"
    and "find (\<lambda>y. y_id y = pid) (payments s) = Some x" and "pid < next_id s"
    and "list_all (\<lambda>e. spares pid (snd e)) steps"
  shows "unsettled y
    \<and> find (\<lambda>y. y_id y = pid) (payments s') = Some (settled ck admin d reason x)
    \<and> decision_logged admin (if d = Pay_confirmed then ''payment.confirmed'' else ''payment.rejected'') (y_planner_id y) reason s s'
    \<and> (\<exists>z. find (\<lambda>y. y_id y = pid) (payments (pay_run pf cfg steps s')) = Some z \<and> \<not> unsettled z \<and>
        review_payment ck2 admin2 pid d2 reason2 (pay_run pf cfg steps s') =
          (Inl (BadRequest (''Payment has already been '' @ payment_status_name (y_status z) @ ''.'')), pay_run pf cfg steps s'))
    \<and> (\<forall>y3. review_check pid Pay_rejected reason3 s0 = Inr y3 \<longrightarrow>
        (\<exists>s3. review_write ck3 admin3 pid Pay_rejected reason3 y3 s' = (Inr (''Payment rejected.'', 0), s3)
           \<and> find (\<lambda>y. y_id y = pid) (payments s3) = Some (settled ck3 admin3 Pay_rejected reason3 (settled ck admin d reason x))
           \<and> subscriptions s3 = subscriptions s'))"
proof (intro conjI allI impI)
  note w = write_tables [OF assms(2)]
  show "unsettled y" using assms(1) by (auto simp: review_check_def unsettled_def split: option.splits if_splits)
  show row: "find (\<lambda>y. y_id y = pid) (payments s') = Some (settled ck admin d reason x)"
    unfolding w(1) by (rule find_update_where_key [OF assms(3)]) simp
  show "decision_logged admin (if d = Pay_confirmed then ''payment.confirmed'' else ''payment.rejected'') (y_planner_id y) reason s s'"
    by (rule w(2))
  have "shut pid s'" using row w(3) assms(4) by (simp add: shut_def decided_def)
  then have "shut pid (pay_run pf cfg steps s')" using assms(5) by (rule shut_run)
  then show "\<exists>z. find (\<lambda>y. y_id y = pid) (payments (pay_run pf cfg steps s')) = Some z \<and> \<not> unsettled z \<and>
        review_payment ck2 admin2 pid d2 reason2 (pay_run pf cfg steps s') =
          (Inl (BadRequest (''Payment has already been '' @ payment_status_name (y_status z) @ ''.'')), pay_run pf cfg steps s')"
    by (rule shut_refuses) blast
  fix y3
  have "find (\<lambda>y. y_id y = pid) (update_where (\<lambda>y. y_id y = pid) (settled ck3 admin3 Pay_rejected reason3) (payments s')) =
      Some (settled ck3 admin3 Pay_rejected reason3 (settled ck admin d reason x))"
    by (rule find_update_where_key [OF row]) simp
  then show "\<exists>s3. review_write ck3 admin3 pid Pay_rejected reason3 y3 s' = (Inr (''Payment rejected.'', 0), s3)
           \<and> find (\<lambda>y. y_id y = pid) (payments s3) = Some (settled ck3 admin3 Pay_rejected reason3 (settled ck admin d reason x))
           \<and> subscriptions s3 = subscriptions s'"
    by (simp add: review_write_def settle_reject review_log_def Let_def pay_decision_status_def)
qed

text \<open>
  Two administrators looked at a payment for two day passes: one confirms, then the other rejects, and
  only the third, who looks afterwards, is refused. The payment is rejected, the passes are there.
\<close>

theorem payment_is_decided_once_witness:
  "\<exists>s' s3.
     review_check 1 Pay_confirmed None (shop P_day 2) = Inr (shop_payment P_day 2)
   \<and> review_check 1 Pay_rejected (Some ''no transfer'') (shop P_day 2) = Inr (shop_payment P_day 2)
   \<and> review_write \<lparr>db_now = 5, js_now = 5\<rparr> 9 1 Pay_confirmed None (shop_payment P_day 2) (shop P_day 2) = (Inr (''Payment confirmed.'', 2), s')
   \<and> review_write \<lparr>db_now = 6, js_now = 6\<rparr> 8 1 Pay_rejected (Some ''no transfer'') (shop_payment P_day 2) s' = (Inr (''Payment rejected.'', 0), s3)
   \<and> map_option y_status (find (\<lambda>y. y_id y = 1) (payments s3)) = Some Y_rejected \<and> length (subscriptions s3) = 2
   \<and> (\<forall>pf cfg. \<exists>st. review_payment \<lparr>db_now = 7, js_now = 7\<rparr> 7 1 Pay_confirmed None
          (pay_run pf cfg [(\<lparr>db_now = 6, js_now = 6\<rparr>, Ledger Sweep), (\<lparr>db_now = 6, js_now = 6\<rparr>, Settle_decision 8 1 Pay_rejected None)] s')
       = (Inl (BadRequest (''Payment has already been '' @ payment_status_name st @ ''.'')),
          pay_run pf cfg [(\<lparr>db_now = 6, js_now = 6\<rparr>, Ledger Sweep), (\<lparr>db_now = 6, js_now = 6\<rparr>, Settle_decision 8 1 Pay_rejected None)] s'))"
proof -
  let ?s = "shop P_day 2" and ?y = "shop_payment P_day 2" and ?ck = "\<lparr>db_now = 5, js_now = 5\<rparr>"
  let ?y1 = "settled ?ck 9 Pay_confirmed None ?y"
  let ?s1 = "?s\<lparr>payments := [?y1]\<rparr>"
  have row: "find (\<lambda>y. y_id y = 1) (payments ?s) = Some ?y" by (simp add: shop_def shop_payment_def)
  have checks: "review_check 1 Pay_confirmed None ?s = Inr ?y" "review_check 1 Pay_rejected (Some ''no transfer'') ?s = Inr ?y"
    using row by (simp_all add: review_check_def) (simp_all add: shop_payment_def present_def)
  have minted: "mint_for_payment ?ck 1 ?s1 =
      Inr (\<lparr>mr_minted = y_quantity ?y1, mr_already_minted = False, mr_rows = minted_rows ?ck ?y1 (hd shop_plans) ?s1\<rparr>,
           with_rows (minted_rows ?ck ?y1 (hd shop_plans) ?s1) ?s1)"
  proof (rule mint_for_payment_fresh [where code = P_day])
    show "subs_ok ?s1" using ledger_shop [of P_day 2] by (rule subs_ok_cong [OF ledger_ok_def [THEN iffD1, THEN conjunct1]]) simp_all
  qed (simp_all add: shop_def empty_db_def shop_payment_def settled_def shop_plans_def minted_for_def)
  have two: "length (minted_rows ?ck ?y1 (hd shop_plans) ?s1) = 2" "y_quantity ?y1 = 2"
    by (simp_all add: minted_rows_def shop_plans_def settled_def shop_payment_def)
  have set: "payments ?s = [?y]" "y_id ?y = 1" "subscriptions ?s = []" by (simp_all add: shop_def shop_payment_def empty_db_def)
  have settle: "settle_payment ?ck 9 1 Pay_confirmed None ?s = Inr (2, with_rows (minted_rows ?ck ?y1 (hd shop_plans) ?s1) ?s1)"
    using minted two by (simp add: settle_payment_def set) (simp add: settled_def)
  obtain s' where first: "review_write ?ck 9 1 Pay_confirmed None ?y ?s = (Inr (''Payment confirmed.'', 2), s')"
    and s': "s' = review_log ?ck 9 1 Pay_confirmed None ?y 2 (with_rows (minted_rows ?ck ?y1 (hd shop_plans) ?s1) ?s1)"
    using settle by (simp add: review_write_def pay_decision_status_def)
  have subs: "length (subscriptions s') = 2" using two(1) set(3) by (simp add: s' review_log_def Let_def)
  have id: "1 < next_id ?s" by (simp add: shop_def)
  let ?steps = "[(\<lparr>db_now = 6, js_now = 6\<rparr>, Ledger Sweep), (\<lparr>db_now = 6, js_now = 6\<rparr>, Settle_decision 8 1 Pay_rejected None)]"
  have steps: "list_all (\<lambda>e. spares 1 (snd e)) ?steps" by (simp add: spares_def)
  note decided_once = payment_is_decided_once [OF checks(1) first row id steps]
  obtain s3 where second: "review_write \<lparr>db_now = 6, js_now = 6\<rparr> 8 1 Pay_rejected (Some ''no transfer'') ?y s' = (Inr (''Payment rejected.'', 0), s3)"
    and found: "find (\<lambda>y. y_id y = 1) (payments s3) = Some (settled \<lparr>db_now = 6, js_now = 6\<rparr> 8 Pay_rejected (Some ''no transfer'') ?y1)"
    and kept: "subscriptions s3 = subscriptions s'"
    using decided_once [THEN conjunct2, THEN conjunct2, THEN conjunct2, THEN conjunct2, rule_format, OF checks(2)] by blast
  have "map_option y_status (find (\<lambda>y. y_id y = 1) (payments s3)) = Some Y_rejected"
    unfolding found by (simp add: settled_def pay_decision_status_def)
  moreover have "length (subscriptions s3) = 2" using subs kept by simp
  moreover
  have "\<exists>st. review_payment \<lparr>db_now = 7, js_now = 7\<rparr> 7 1 Pay_confirmed None (pay_run pf cfg ?steps s') =
      (Inl (BadRequest (''Payment has already been '' @ payment_status_name st @ ''.'')), pay_run pf cfg ?steps s')" for pf cfg
    using decided_once [where pf = pf and cfg = cfg and ?ck2.0 = "\<lparr>db_now = 7, js_now = 7\<rparr>" and ?admin2.0 = 7 and ?d2.0 = Pay_confirmed and ?reason2.0 = None] by blast
  ultimately show ?thesis using checks first second by blast
qed

end
