(* ===== verification/Analytics.thy ===== *)
theory Analytics
  imports Common_Utils
begin

text \<open>
  \<open>src/analytics/analytics.service.ts\<close>: the page views the client reports, the searches the server
  records, the batched retention of both, and the figures of the administrator's dashboard. A
  \<open>GROUP BY\<close> gives its groups in the order they first appear (the database promises none), an
  average is exact, and a day is a day of UTC.
\<close>

definition window_days :: int where
  "window_days = 30"

definition telemetry_retention_days :: int where
  "telemetry_retention_days = 90"

definition prune_batch_size :: nat where
  "prune_batch_size = 5000"

definition prune_time_budget_ms :: int where
  "prune_time_budget_ms = 30000"

section \<open>Recording\<close>

record page_view =
  pv_path :: string
  pv_duration_ms :: int
  pv_occurred_at :: timestamp

record page_events_dto =
  pd_session_id :: "string option"
  pd_events :: "page_view list"

record viewer =
  vw_user_id :: "uuid option"
  vw_role :: "user_role option"
  vw_session_id :: "string option"

definition page_event_of :: "viewer \<Rightarrow> string option \<Rightarrow> page_view \<Rightarrow> uuid \<Rightarrow> page_event" where
  "page_event_of v sid e i =
     \<lparr>pe_id = i, pe_user_id = vw_user_id v, pe_role = vw_role v, pe_is_guest = (vw_user_id v = None), pe_session_id = sid,
      pe_path = pv_path e, pe_duration_ms = pv_duration_ms e, pe_occurred_at = pv_occurred_at e\<rparr>"

definition record_page_events :: "viewer \<Rightarrow> page_events_dto \<Rightarrow> db \<Rightarrow> nat \<times> db" where
  "record_page_events v dto s =
     (let read = filter (\<lambda>e. pv_duration_ms e > 0) (pd_events dto);
          rows = map (\<lambda>(e, i). page_event_of v (pd_session_id dto) e i) (zip read [next_id s ..< next_id s + length read])
      in (length rows, s\<lparr>page_events := page_events s @ rows, next_id := next_id s + length rows\<rparr>))"

definition record_search ::
  "clock \<Rightarrow> viewer \<Rightarrow> uuid option \<Rightarrow> string option \<Rightarrow> nat option \<Rightarrow> db \<Rightarrow> db" where
  "record_search ck v category query_text result_count s =
     s\<lparr>search_events := search_events s @
         [\<lparr>se_id = next_id s, se_user_id = vw_user_id v, se_is_guest = (vw_user_id v = None), se_session_id = vw_session_id v,
           se_category_id = category, se_query_text = map_option (take 200) query_text, se_result_count = result_count,
           se_occurred_at = db_now ck\<rparr>],
       next_id := Suc (next_id s)\<rparr>"

section \<open>Groups and figures\<close>

definition group_rows :: "('r \<Rightarrow> 'k) \<Rightarrow> 'r list \<Rightarrow> ('k \<times> 'r list) list" where
  "group_rows key rows = map (\<lambda>k. (k, filter (\<lambda>r. key r = k) rows)) (rev (remdups (rev (map key rows))))"

definition average :: "rat list \<Rightarrow> rat option" where
  "average xs = (if xs = [] then None else Some (sum_list xs / of_nat (length xs)))"

text \<open>\<open>Math.round(Number(x) || 0)\<close>.\<close>

definition rounded :: "rat option \<Rightarrow> int" where
  "rounded x = (case x of None \<Rightarrow> 0 | Some r \<Rightarrow> js_round r)"

text \<open>\<open>percentile_cont(0.5)\<close>: the middle value, or half way between the two middle ones.\<close>

definition median :: "rat list \<Rightarrow> rat option" where
  "median xs =
     (let ys = sort xs; n = length ys
      in if ys = [] then None
         else if odd n then Some (ys ! (n div 2)) else Some ((ys ! (n div 2 - 1) + ys ! (n div 2)) / 2))"

text \<open>\<open>applyWindow\<close>: both bounds optional, the last day included.\<close>

definition in_window :: "timestamp option \<Rightarrow> timestamp option \<Rightarrow> timestamp \<Rightarrow> bool" where
  "in_window frm til t \<longleftrightarrow>
     (case frm of None \<Rightarrow> True | Some f \<Rightarrow> f \<le> t) \<and> (case til of None \<Rightarrow> True | Some e \<Rightarrow> t < e + ms_per_day)"

definition segment_name :: "bool \<Rightarrow> string" where
  "segment_name guest = (if guest then ''guest'' else ''authenticated'')"

section \<open>Engagement\<close>

record engagement_row =
  eg_role :: "user_role option"
  eg_avg_ms_per_active_day :: int
  eg_users :: nat

definition user_days :: "clock \<Rightarrow> string option \<Rightarrow> db \<Rightarrow> ((uuid option \<times> user_role option \<times> int) \<times> rat) list" where
  "user_days ck path_filter s =
     map (\<lambda>(k, es). (k, sum_list (map (of_int \<circ> pe_duration_ms) es)))
       (group_rows (\<lambda>e. (pe_user_id e, pe_role e, pe_occurred_at e div ms_per_day))
         (filter (\<lambda>e. db_now ck - window_days * ms_per_day \<le> pe_occurred_at e
                    \<and> (case path_filter of None \<Rightarrow> True | Some p \<Rightarrow> pe_path e = p)) (page_events s)))"

definition avg_ms_per_active_day :: "clock \<Rightarrow> string option \<Rightarrow> db \<Rightarrow> engagement_row list" where
  "avg_ms_per_active_day ck path_filter s =
     map (\<lambda>(r, ds). \<lparr>eg_role = r, eg_avg_ms_per_active_day = rounded (average (map snd ds)),
            eg_users = length (remdups (List.map_filter (fst \<circ> fst) ds))\<rparr>)
       (group_rows (\<lambda>d. fst (snd (fst d))) (user_days ck path_filter s))"

definition get_engagement :: "clock \<Rightarrow> db \<Rightarrow> int \<times> engagement_row list \<times> engagement_row list" where
  "get_engagement ck s = (window_days, avg_ms_per_active_day ck None s, avg_ms_per_active_day ck (Some ''/search'') s)"

section \<open>Sessions\<close>

record session_group =
  sg_guest :: bool
  sg_total_ms :: rat
  sg_event_count :: nat

definition sessions_of :: "timestamp option \<Rightarrow> timestamp option \<Rightarrow> db \<Rightarrow> session_group list" where
  "sessions_of frm til s =
     map (\<lambda>(k, es). \<lparr>sg_guest = snd k, sg_total_ms = sum_list (map (of_int \<circ> pe_duration_ms) es), sg_event_count = length es\<rparr>)
       (group_rows (\<lambda>e. (pe_session_id e, pe_is_guest e))
         (filter (\<lambda>e. pe_session_id e \<noteq> None \<and> in_window frm til (pe_occurred_at e)) (page_events s)))"

record session_figures =
  sf_segment :: string
  sf_sessions :: nat
  sf_min_ms :: rat
  sf_max_ms :: rat
  sf_avg_ms :: int
  sf_median_ms :: int

definition figures_of :: "bool \<times> session_group list \<Rightarrow> session_figures" where
  "figures_of g = (case g of (guest, ss) \<Rightarrow>
     (let ms = map sg_total_ms ss
      in \<lparr>sf_segment = segment_name guest, sf_sessions = length ss, sf_min_ms = Min (set ms), sf_max_ms = Max (set ms),
          sf_avg_ms = rounded (average ms), sf_median_ms = rounded (median ms)\<rparr>))"

definition get_session_durations :: "timestamp option \<Rightarrow> timestamp option \<Rightarrow> db \<Rightarrow> session_figures list \<times> nat" where
  "get_session_durations frm til s =
     (map figures_of (group_rows sg_guest (filter (\<lambda>g. 1 < sg_event_count g) (sessions_of frm til s))),
      length (filter (\<lambda>g. sg_event_count g = 1) (sessions_of frm til s)))"

section \<open>Pages, categories, terms and the audience\<close>

record page_time =
  pt_path :: string
  pt_segment :: string
  pt_views :: nat
  pt_total_ms :: int
  pt_avg_ms :: int

definition get_time_per_page :: "timestamp option \<Rightarrow> timestamp option \<Rightarrow> db \<Rightarrow> page_time list" where
  "get_time_per_page frm til s =
     take 100 (sort_by (\<lambda>a b. pt_total_ms b \<le> pt_total_ms a)
       (map (\<lambda>((p, guest), es). \<lparr>pt_path = p, pt_segment = segment_name guest, pt_views = length es,
               pt_total_ms = sum_list (map pe_duration_ms es), pt_avg_ms = rounded (average (map (of_int \<circ> pe_duration_ms) es))\<rparr>)
         (group_rows (\<lambda>e. (pe_path e, pe_is_guest e)) (filter (\<lambda>e. in_window frm til (pe_occurred_at e)) (page_events s)))))"

record category_demand =
  cd_category_id :: "uuid option"
  cd_category :: string
  cd_slug :: "string option"
  cd_segment :: string
  cd_searches :: nat
  cd_avg_results :: int

text \<open>The left join: the category of a search, if it has one that exists.\<close>

definition category_of_search :: "db \<Rightarrow> search_event \<Rightarrow> category option" where
  "category_of_search s e = (case se_category_id e of None \<Rightarrow> None | Some i \<Rightarrow> find (\<lambda>c. ct_id c = i) (categories s))"

definition get_category_demand :: "timestamp option \<Rightarrow> timestamp option \<Rightarrow> db \<Rightarrow> category_demand list" where
  "get_category_demand frm til s =
     take 100 (sort_by (\<lambda>a b. cd_searches b \<le> cd_searches a)
       (map (\<lambda>((c, guest), es). \<lparr>cd_category_id = map_option ct_id c,
               cd_category = (case c of None \<Rightarrow> ''No category filter'' | Some x \<Rightarrow> ct_name x), cd_slug = map_option ct_slug c,
               cd_segment = segment_name guest, cd_searches = length es,
               cd_avg_results = rounded (average (List.map_filter (map_option of_nat \<circ> se_result_count) es))\<rparr>)
         (group_rows (\<lambda>e. (category_of_search s e, se_is_guest e))
           (filter (\<lambda>e. in_window frm til (se_occurred_at e)) (search_events s)))))"

text \<open>\<open>btrim\<close> removes blanks only.\<close>

definition blank :: "string \<Rightarrow> bool" where
  "blank t \<longleftrightarrow> list_all (\<lambda>c. c = CHR '' '') t"

definition get_top_search_terms :: "timestamp option \<Rightarrow> timestamp option \<Rightarrow> db \<Rightarrow> (string \<times> nat) list" where
  "get_top_search_terms frm til s =
     take 50 (sort_by (\<lambda>a b. snd b \<le> snd a)
       (map (\<lambda>(t, es). (the t, length es))
         (group_rows se_query_text
           (filter (\<lambda>e. (case se_query_text e of None \<Rightarrow> False | Some t \<Rightarrow> \<not> blank t) \<and> in_window frm til (se_occurred_at e))
             (search_events s)))))"

record audience_views =
  av_segment :: string
  av_events :: nat
  av_sessions :: nat

definition get_audience_split ::
  "timestamp option \<Rightarrow> timestamp option \<Rightarrow> db \<Rightarrow> audience_views list \<times> (string \<times> nat) list" where
  "get_audience_split frm til s =
     (map (\<lambda>(guest, es). \<lparr>av_segment = segment_name guest, av_events = length es,
             av_sessions = length (remdups (List.map_filter pe_session_id es))\<rparr>)
        (group_rows pe_is_guest (filter (\<lambda>e. in_window frm til (pe_occurred_at e)) (page_events s))),
      map (\<lambda>(guest, es). (segment_name guest, length es))
        (group_rows se_is_guest (filter (\<lambda>e. in_window frm til (se_occurred_at e)) (search_events s))))"

section \<open>Retention\<close>

text \<open>
  One \<open>DELETE\<close> of at most a batch of rows older than the cutoff; which of them the database picks
  is not said, here the first. The clock is read anew for every statement: \<open>ck i\<close> is the pair of
  clocks at the \<open>i\<close>-th. The answer holds the total, the sizes of the statements in order, the rows
  left and whether the budget stopped the run.
\<close>

definition expired :: "clock \<Rightarrow> int \<Rightarrow> ('r \<Rightarrow> timestamp) \<Rightarrow> 'r \<Rightarrow> bool" where
  "expired ck days occurred r \<longleftrightarrow> occurred r < db_now ck - days * ms_per_day"

fun drop_some :: "('r \<Rightarrow> bool) \<Rightarrow> nat \<Rightarrow> 'r list \<Rightarrow> 'r list" where
  "drop_some P 0 rows = rows"
| "drop_some P (Suc n) [] = []"
| "drop_some P (Suc n) (r # rows) = (if P r then drop_some P n rows else r # drop_some P (Suc n) rows)"

lemma length_drop_some: "length (drop_some P n rows) + min n (length (filter P rows)) = length rows"
  by (induction P n rows rule: drop_some.induct) auto

function prune_table ::
  "(nat \<Rightarrow> clock) \<Rightarrow> int \<Rightarrow> int \<Rightarrow> ('r \<Rightarrow> timestamp) \<Rightarrow> nat \<Rightarrow> nat \<Rightarrow> 'r list \<Rightarrow> nat \<times> nat list \<times> 'r list \<times> bool" where
  "prune_table ck days deadline occurred i acc rows =
     (let rest = drop_some (expired (ck i) days occurred) prune_batch_size rows;
          deleted = length rows - length rest;
          acc' = acc + deleted
      in if deleted < prune_batch_size then (acc', [deleted], rest, False)
         else if deadline \<le> js_now (ck i) then (acc', [deleted], rest, True)
         else case prune_table ck days deadline occurred (Suc i) acc' rest of
                (t, trace, left, stopped) \<Rightarrow> (t, deleted # trace, left, stopped))"
  by pat_completeness auto

termination
proof (relation "measure (\<lambda>(ck, days, deadline, occurred, i, acc, rows). length rows)")
  fix ck :: "nat \<Rightarrow> clock" and days deadline :: int and occurred :: "'r \<Rightarrow> timestamp" and i acc :: nat and rows rest :: "'r list"
    and deleted acc' :: nat
  assume "rest = drop_some (expired (ck i) days occurred) prune_batch_size rows" "deleted = length rows - length rest"
    and "\<not> deleted < prune_batch_size"
  then show "((ck, days, deadline, occurred, Suc i, acc', rest), (ck, days, deadline, occurred, i, acc, rows))
      \<in> measure (\<lambda>(ck, days, deadline, occurred, i, acc, rows). length rows)"
    by (simp add: prune_batch_size_def)
qed simp

declare prune_table.simps [simp del]

text \<open>The two tables share one budget; the second run reads the clock where the first left off.\<close>

definition prune_old_events :: "(nat \<Rightarrow> clock) \<Rightarrow> db \<Rightarrow> nat \<times> db" where
  "prune_old_events ck s =
     (let deadline = js_now (ck 0) + prune_time_budget_ms
      in case prune_table ck telemetry_retention_days deadline pe_occurred_at 1 0 (page_events s) of
           (n, trace, pages, _) \<Rightarrow>
             (case prune_table ck telemetry_retention_days deadline se_occurred_at (1 + length trace) 0 (search_events s) of
                (m, _, searches, _) \<Rightarrow> (n + m, s\<lparr>page_events := pages, search_events := searches\<rparr>)))"

lemmas analytics_op_defs [op_defs] = record_page_events_def record_search_def prune_old_events_def

end
