(* ===== verification/Analytics_Rules.thy ===== *)
theory Analytics_Rules
  imports Analytics
begin

text \<open>
  The batched retention ends and is exact, and the session figures of the dashboard are consistent
  with each other.
\<close>

section \<open>Retention\<close>

lemma drop_some_keeps: "filter (\<lambda>r. \<not> P r) (drop_some P n rows) = filter (\<lambda>r. \<not> P r) rows"
  by (induction P n rows rule: drop_some.induct) auto

lemma drop_some_subset: "set (drop_some P n rows) \<subseteq> set rows"
  by (induction P n rows rule: drop_some.induct) auto

lemma drop_some_keeps_other: "(\<And>r. Q r \<Longrightarrow> \<not> P r) \<Longrightarrow> filter Q (drop_some P n rows) = filter Q rows"
  by (induction P n rows rule: drop_some.induct) auto

lemma drop_some_all: "length (filter P rows) < n \<Longrightarrow> drop_some P n rows = filter (\<lambda>r. \<not> P r) rows"
  by (induction P n rows rule: drop_some.induct) auto

lemma drop_some_count: "length rows - length (drop_some P n rows) = min n (length (filter P rows))"
  using length_drop_some [of P n rows] by linarith

definition steady :: "(nat \<Rightarrow> clock) \<Rightarrow> bool" where
  "steady ck \<longleftrightarrow> mono (\<lambda>i. db_now (ck i))"

lemma expired_later: "steady ck \<Longrightarrow> i \<le> j \<Longrightarrow> expired (ck i) days occurred r \<Longrightarrow> expired (ck j) days occurred r"
  unfolding steady_def mono_def expired_def by (smt (verit, best))

lemma prune_table_exact:
  assumes "steady ck" and "prune_table ck days deadline occurred i acc rows = (t, trace, left, stopped)"
  shows "trace \<noteq> [] \<and> t = acc + sum_list trace \<and> sum_list trace + length left = length rows
    \<and> list_all (\<lambda>d. d = prune_batch_size) (butlast trace)
    \<and> (\<forall>Q. (\<forall>r. Q r \<longrightarrow> \<not> expired (ck (i + length trace - 1)) days occurred r) \<longrightarrow> filter Q left = filter Q rows)
    \<and> (if stopped then deadline \<le> js_now (ck (i + length trace - 1))
       else list_all (\<lambda>r. \<not> expired (ck (i + length trace - 1)) days occurred r) left)
    \<and> (\<forall>j < length trace - 1. js_now (ck (i + j)) < deadline)"
  using assms
proof (induction ck days deadline occurred i acc rows arbitrary: t trace left stopped rule: prune_table.induct)
  case (1 ck days deadline occurred i acc rows)
  define P where "P = expired (ck i) days occurred"
  define rest where "rest = drop_some P prune_batch_size rows"
  define deleted where "deleted = length rows - length rest"
  have count: "deleted + length rest = length rows" using length_drop_some [of P prune_batch_size rows]
    by (simp add: deleted_def rest_def)
  have del: "deleted = min prune_batch_size (length (filter P rows))"
    unfolding deleted_def rest_def by (rule drop_some_count)
  have step: "prune_table ck days deadline occurred i acc rows =
      (if deleted < prune_batch_size then (acc + deleted, [deleted], rest, False)
         else if deadline \<le> js_now (ck i) then (acc + deleted, [deleted], rest, True)
         else case prune_table ck days deadline occurred (Suc i) (acc + deleted) rest of
                (t, trace, left, stopped) \<Rightarrow> (t, deleted # trace, left, stopped))"
    by (subst prune_table.simps) (simp add: Let_def P_def rest_def deleted_def)
  have keep: "filter Q rest = filter Q rows" if "\<forall>r. Q r \<longrightarrow> \<not> P r" for Q
    unfolding rest_def by (rule drop_some_keeps_other) (use that in blast)
  consider "deleted < prune_batch_size" | "\<not> deleted < prune_batch_size" "deadline \<le> js_now (ck i)"
    | "\<not> deleted < prune_batch_size" "\<not> deadline \<le> js_now (ck i)" by blast
  then show ?case
  proof cases
    case 1
    then have "length (filter P rows) < prune_batch_size" using del by simp
    then have "list_all (\<lambda>r. \<not> P r) rest" by (simp add: rest_def drop_some_all list_all_iff)
    moreover have "t = acc + deleted" "trace = [deleted]" "left = rest" "\<not> stopped"
      using "1.prems"(2) 1 unfolding step by auto
    ultimately show ?thesis using count keep by (simp add: P_def)
  next
    case 2
    then have "t = acc + deleted" "trace = [deleted]" "left = rest" "stopped" using "1.prems"(2) unfolding step by auto
    with 2 show ?thesis using count keep by (simp add: P_def)
  next
    case 3
    obtain t' trace' left' stopped' where rec: "prune_table ck days deadline occurred (Suc i) (acc + deleted) rest = (t', trace', left', stopped')"
      by (cases "prune_table ck days deadline occurred (Suc i) (acc + deleted) rest")
    have eq: "t = t'" "trace = deleted # trace'" "left = left'" "stopped = stopped'"
      using "1.prems"(2) 3 unfolding step by (simp_all add: rec)
    have full: "deleted = prune_batch_size" using 3(1) del by simp
    note IH = "1.IH" [OF rest_def [unfolded P_def] deleted_def refl 3 "1.prems"(1) rec]
    then have IH': "trace' \<noteq> []" "t' = acc + deleted + sum_list trace'" "sum_list trace' + length left' = length rest"
      "list_all (\<lambda>d. d = prune_batch_size) (butlast trace')"
      "\<And>Q. (\<forall>r. Q r \<longrightarrow> \<not> expired (ck (Suc i + length trace' - 1)) days occurred r) \<Longrightarrow> filter Q left' = filter Q rest"
      "if stopped' then deadline \<le> js_now (ck (Suc i + length trace' - 1))
       else list_all (\<lambda>r. \<not> expired (ck (Suc i + length trace' - 1)) days occurred r) left'"
      "\<forall>j < length trace' - 1. js_now (ck (Suc i + j)) < deadline"
      by blast+
    have index: "Suc i + length trace' - 1 = i + length trace - 1" using eq(2) by simp
    have "filter Q left' = filter Q rows" if Q: "\<forall>r. Q r \<longrightarrow> \<not> expired (ck (i + length trace - 1)) days occurred r" for Q
    proof -
      have "i \<le> i + length trace - 1" using eq(2) by simp
      then have "\<not> P r" if "Q r" for r
        using Q that expired_later [OF "1.prems"(1), of i "i + length trace - 1" days occurred r] unfolding P_def by blast
      then have "\<forall>r. Q r \<longrightarrow> \<not> P r" by blast
      with IH'(5) [of Q] Q keep [of Q] show ?thesis by (simp only: index)
    qed
    moreover have "\<forall>j < length trace - 1. js_now (ck (i + j)) < deadline"
    proof (intro allI impI)
      fix j assume j: "j < length trace - 1"
      show "js_now (ck (i + j)) < deadline"
      proof (cases j)
        case (Suc k)
        with j eq(2) have "k < length trace' - 1" by simp
        with IH'(7) Suc show ?thesis by simp
      qed (use 3 in simp)
    qed
    ultimately show ?thesis using IH'(1-4) IH'(6) count full eq by (simp only: index) (simp add: eq)
  qed
qed


lemma sum_full: "list_all (\<lambda>d. d = n) xs \<Longrightarrow> sum_list xs = length xs * (n :: nat)"
  by (induction xs) auto

text \<open>
  C27: the retention loop ends, within one statement more than the full batches in the table and with
  the first statement that finishes past its deadline. Its total is the number of rows gone; no row
  still inside the retention window is lost; and unless the budget stopped it, exactly those rows
  are left.
\<close>

theorem retention_loop_ends:
  assumes "steady ck" and "prune_table ck days deadline occurred i 0 rows = (t, trace, left, stopped)"
    and "last_clock = ck (i + length trace - 1)"
  shows "t = sum_list trace \<and> t + length left = length rows \<and> length trace \<le> length rows div prune_batch_size + 1
    \<and> (if deadline \<le> js_now (ck (i + j)) then length trace \<le> Suc j else True)
    \<and> filter (\<lambda>r. \<not> expired last_clock days occurred r) left = filter (\<lambda>r. \<not> expired last_clock days occurred r) rows
    \<and> (if stopped then deadline \<le> js_now last_clock else left = filter (\<lambda>r. \<not> expired last_clock days occurred r) rows)"
proof -
  let ?Q = "\<lambda>r. \<not> expired last_clock days occurred r"
  note ex = prune_table_exact [OF assms(1,2)]
  have ne: "trace \<noteq> []" and t: "t = sum_list trace" and sum: "sum_list trace + length left = length rows"
    and full: "list_all (\<lambda>d. d = prune_batch_size) (butlast trace)"
    and early: "\<forall>j < length trace - 1. js_now (ck (i + j)) < deadline"
    using ex [THEN conjunct1] ex [THEN conjunct2, THEN conjunct1] ex [THEN conjunct2, THEN conjunct2, THEN conjunct1]
      ex [THEN conjunct2, THEN conjunct2, THEN conjunct2, THEN conjunct1]
      ex [THEN conjunct2, THEN conjunct2, THEN conjunct2, THEN conjunct2, THEN conjunct2, THEN conjunct2] by simp_all
  have keep: "filter ?Q left = filter ?Q rows"
    by (rule ex [THEN conjunct2, THEN conjunct2, THEN conjunct2, THEN conjunct2, THEN conjunct1, THEN spec, THEN mp]) (simp add: assms(3))
  have final: "if stopped then deadline \<le> js_now last_clock else list_all ?Q left"
    using ex [THEN conjunct2, THEN conjunct2, THEN conjunct2, THEN conjunct2, THEN conjunct2, THEN conjunct1] unfolding assms(3) .
  have "sum_list (butlast trace) = (length trace - 1) * prune_batch_size" using sum_full [OF full] by simp
  moreover have "sum_list (butlast trace) \<le> sum_list trace"
    using ne by (metis append_butlast_last_id le_add1 sum_list_append)
  ultimately have "(length trace - 1) * prune_batch_size \<le> length rows" using sum by linarith
  then have "length trace - 1 \<le> length rows div prune_batch_size"
    by (simp add: prune_batch_size_def less_eq_div_iff_mult_less_eq)
  then have statements: "length trace \<le> length rows div prune_batch_size + 1" by simp
  have budget: "length trace \<le> Suc j" if "deadline \<le> js_now (ck (i + j))"
  proof (rule ccontr)
    assume "\<not> length trace \<le> Suc j"
    then have "j < length trace - 1" by simp
    with early that show False by fastforce
  qed
  have exact: "left = filter ?Q rows" if "\<not> stopped"
  proof -
    have "filter ?Q left = left" using final that by (simp add: list_all_iff filter_id_conv)
    then show ?thesis using keep by (rule trans [OF sym])
  qed
  have b: "if deadline \<le> js_now (ck (i + j)) then length trace \<le> Suc j else True" using budget by (rule if_split [THEN iffD2, OF conjI, OF impI]) simp_all
  have e: "if stopped then deadline \<le> js_now last_clock else left = filter ?Q rows"
  proof (cases stopped)
    case True
    with final show ?thesis by simp
  next
    case False
    with exact show ?thesis by simp
  qed
  from t sum have "t + length left = length rows" by simp
  with t statements b keep e show ?thesis by blast
qed

theorem retention_loop_ends_witness:
  "\<exists>trace. prune_table (\<lambda>i. \<lparr>db_now = 100 * ms_per_day, js_now = int i\<rparr>) 90 30000 (\<lambda>t :: timestamp. t) 0 0 [5, 99 * ms_per_day, 7]
     = (2, trace, [99 * ms_per_day], False) \<and> length trace \<le> 1"
proof -
  let ?ck = "\<lambda>i. \<lparr>db_now = 100 * ms_per_day, js_now = int i\<rparr>"
  obtain t trace left stopped where run: "prune_table ?ck 90 30000 (\<lambda>t :: timestamp. t) 0 0 [5, 99 * ms_per_day, 7] = (t, trace, left, stopped)"
    by (cases "prune_table ?ck 90 30000 (\<lambda>t :: timestamp. t) 0 0 [5, 99 * ms_per_day, 7]")
  have drop: "drop_some (expired \<lparr>db_now = 100 * ms_per_day, js_now = 0\<rparr> 90 (\<lambda>t :: timestamp. t)) prune_batch_size [5, 99 * ms_per_day, 7] = [99 * ms_per_day]"
    by (subst drop_some_all) (simp_all add: expired_def ms_per_day_def prune_batch_size_def)
  have small: "Suc (Suc 0) < prune_batch_size" by (simp add: prune_batch_size_def)
  have "\<not> stopped" using run by (subst (asm) prune_table.simps) (simp add: drop small Let_def)
  moreover have "steady ?ck" by (simp add: steady_def mono_def)
  ultimately show ?thesis using retention_loop_ends [OF _ run refl, of 0] run
    by (auto simp: expired_def ms_per_day_def prune_batch_size_def)
qed

section \<open>Session figures\<close>

lemma group_rows_mem: "(k, g) \<in> set (group_rows key rows) \<Longrightarrow> g = filter (\<lambda>r. key r = k) rows \<and> g \<noteq> []"
  by (auto simp: group_rows_def filter_empty_conv)

text \<open>The groups hold every row once.\<close>

lemma group_rows_length: "sum_list (map (length \<circ> snd) (group_rows key rows)) = length rows"
proof -
  have "sum_list (map (\<lambda>k. length (filter (\<lambda>r. key r = k) rows)) ks) = length (filter (\<lambda>r. key r \<in> set ks) rows)" if "distinct ks" for ks
    using that
  proof (induction ks)
    case (Cons k ks)
    have "length (filter (\<lambda>r. key r = k) rows) + length (filter (\<lambda>r. key r \<in> set ks) rows) = length (filter (\<lambda>r. key r = k \<or> key r \<in> set ks) rows)"
      using Cons.prems by (induction rows) auto
    with Cons show ?case by simp
  qed simp
  from this [of "rev (remdups (rev (map key rows)))"] show ?thesis
    by (simp add: group_rows_def comp_def)
qed

lemma js_round_mono: "x \<le> y \<Longrightarrow> js_round x \<le> js_round y"
  by (simp add: js_round_def floor_mono)

lemma average_between:
  assumes "xs \<noteq> []" and "\<And>x. x \<in> set xs \<Longrightarrow> lo \<le> x \<and> x \<le> hi"
  shows "\<exists>a. average xs = Some a \<and> lo \<le> a \<and> a \<le> hi"
proof -
  have "of_nat (length xs) * lo \<le> sum_list xs \<and> sum_list xs \<le> of_nat (length xs) * hi"
    using assms(2)
  proof (induction xs)
    case (Cons x xs)
    then have "of_nat (length xs) * lo \<le> sum_list xs \<and> sum_list xs \<le> of_nat (length xs) * hi" "lo \<le> x \<and> x \<le> hi" by simp_all
    then show ?case by (simp add: algebra_simps)
  qed simp
  then have "lo \<le> sum_list xs / of_nat (length xs) \<and> sum_list xs / of_nat (length xs) \<le> hi"
    using assms(1) by (simp add: pos_le_divide_eq pos_divide_le_eq mult.commute)
  with assms(1) show ?thesis by (simp add: average_def)
qed

lemma median_between:
  assumes "xs \<noteq> []" and "\<And>x. x \<in> set xs \<Longrightarrow> lo \<le> x \<and> x \<le> hi"
  shows "\<exists>a. median xs = Some a \<and> lo \<le> a \<and> a \<le> hi"
proof -
  define mid where "mid = sort xs ! (length xs div 2)"
  define before where "before = sort xs ! (length xs div 2 - 1)"
  have at: "lo \<le> sort xs ! i \<and> sort xs ! i \<le> hi" if "i < length xs" for i
    using assms(2) [of "sort xs ! i"] that by (metis length_sort nth_mem set_sort)
  have "length xs div 2 < length xs" "length xs div 2 - 1 < length xs" using assms(1) by (cases xs; simp; linarith)+
  then have m: "lo \<le> mid" "mid \<le> hi" and b: "lo \<le> before" "before \<le> hi" unfolding mid_def before_def using at by blast+
  have "sort xs \<noteq> []" using assms(1) by (metis set_empty set_sort)
  then have med: "median xs = Some (if odd (length xs) then mid else (before + mid) / 2)"
    by (simp add: median_def Let_def mid_def before_def)
  have "lo \<le> (before + mid) / 2" "(before + mid) / 2 \<le> hi" using m b by (simp_all add: field_simps)
  with m med show ?thesis by simp
qed

text \<open>
  In the session report every session that left more than one event is counted in exactly one
  segment and the others are counted as discarded, and in each segment shortest, longest, average and
  median length are in order.
\<close>

theorem session_report_adds_up:
  "sum_list (map sf_sessions (fst (get_session_durations frm til s))) + snd (get_session_durations frm til s) = length (sessions_of frm til s)
   \<and> list_all (\<lambda>f. sf_min_ms f \<le> of_int (sf_median_ms f) \<and> of_int (sf_median_ms f) \<le> sf_max_ms f
        \<and> sf_min_ms f \<le> of_int (sf_avg_ms f) \<and> of_int (sf_avg_ms f) \<le> sf_max_ms f) (fst (get_session_durations frm til s))"
proof
  let ?long = "filter (\<lambda>g. 1 < sg_event_count g) (sessions_of frm til s)"
  have pos: "0 < sg_event_count g" if "g \<in> set (sessions_of frm til s)" for g
    using that by (auto simp: sessions_of_def dest!: group_rows_mem)
  have sizes: "map sf_sessions (map figures_of gs) = map (length \<circ> snd) gs" for gs
    by (auto simp: figures_of_def Let_def)
  have "sum_list (map sf_sessions (fst (get_session_durations frm til s))) = sum_list (map (length \<circ> snd) (group_rows sg_guest ?long))"
    by (simp only: get_session_durations_def fst_conv sizes)
  also have "\<dots> = length ?long" by (rule group_rows_length)
  finally have "sum_list (map sf_sessions (fst (get_session_durations frm til s))) = length ?long" .
  moreover have "filter (\<lambda>g. sg_event_count g = 1) (sessions_of frm til s) = filter (\<lambda>g. \<not> 1 < sg_event_count g) (sessions_of frm til s)"
    by (rule filter_cong) (use pos in fastforce)+
  ultimately show "sum_list (map sf_sessions (fst (get_session_durations frm til s))) + snd (get_session_durations frm til s) = length (sessions_of frm til s)"
    using sum_length_filter_compl [of "\<lambda>g. 1 < sg_event_count g" "sessions_of frm til s"] by (simp add: get_session_durations_def)
next
  let ?long = "filter (\<lambda>g. 1 < sg_event_count g) (sessions_of frm til s)"
  have "sf_min_ms f \<le> of_int (sf_median_ms f) \<and> of_int (sf_median_ms f) \<le> sf_max_ms f
        \<and> sf_min_ms f \<le> of_int (sf_avg_ms f) \<and> of_int (sf_avg_ms f) \<le> sf_max_ms f" if f: "f \<in> set (fst (get_session_durations frm til s))" for f
  proof -
    from f obtain k g where g: "(k, g) \<in> set (group_rows sg_guest ?long)" "f = figures_of (k, g)"
      by (auto simp: get_session_durations_def)
    define ms where "ms = map sg_total_ms g"
    have "g \<noteq> []" using group_rows_mem [OF g(1)] by blast
    then have ne: "ms \<noteq> []" by (simp add: ms_def)
    have whole: "\<exists>n. x = of_int n" if "x \<in> set ms" for x
    proof -
      have ints: "\<exists>n. sum_list (map (of_int \<circ> pe_duration_ms) es) = (of_int n :: rat)" for es
        by (induction es) (auto, metis of_int_add)
      from that obtain h where "h \<in> set (sessions_of frm til s)" "x = sg_total_ms h" using group_rows_mem [OF g(1)] by (auto simp: ms_def)
      with ints show ?thesis by (auto simp: sessions_of_def)
    qed
    have "Min (set ms) \<in> set ms" "Max (set ms) \<in> set ms" using ne by simp_all
    then obtain lo hi where lo: "Min (set ms) = of_int lo" and hi: "Max (set ms) = of_int hi" using whole by metis
    have range: "of_int lo \<le> x \<and> x \<le> of_int hi" if "x \<in> set ms" for x using that lo hi by (metis List.finite_set Max_ge Min_le)
    obtain a where a: "average ms = Some a" "of_int lo \<le> a" "a \<le> of_int hi" using average_between [OF ne range] by blast
    obtain m where m: "median ms = Some m" "of_int lo \<le> m" "m \<le> of_int hi" using median_between [OF ne range] by blast
    have "lo \<le> js_round x \<and> js_round x \<le> hi" if "of_int lo \<le> x" "x \<le> of_int hi" for x :: rat
      using js_round_mono [OF that(1)] js_round_mono [OF that(2)] by simp
    with a m have "lo \<le> js_round a \<and> js_round a \<le> hi" "lo \<le> js_round m \<and> js_round m \<le> hi" by blast+
    moreover have "sf_min_ms f = Min (set ms)" "sf_max_ms f = Max (set ms)" "sf_avg_ms f = rounded (average ms)" "sf_median_ms f = rounded (median ms)"
      by (simp_all add: g(2) figures_of_def ms_def Let_def)
    ultimately show ?thesis using a(1) m(1) lo hi by (simp add: rounded_def)
  qed
  then show "list_all (\<lambda>f. sf_min_ms f \<le> of_int (sf_median_ms f) \<and> of_int (sf_median_ms f) \<le> sf_max_ms f
        \<and> sf_min_ms f \<le> of_int (sf_avg_ms f) \<and> of_int (sf_avg_ms f) \<le> sf_max_ms f) (fst (get_session_durations frm til s))"
    by (simp add: list_all_iff)
qed

end
