(* ===== verification/Artists.thy ===== *)
theory Artists
  imports Analytics Access
begin

text \<open>
  \<open>src/artists/artist-visibility.ts\<close> and \<open>src/artists/artists.service.ts\<close>: what of an artist's
  profile which viewer is shown, the public directory and its filters, one profile, the artist's own
  view of it and its edits. A row of the database driver is a \<open>jobject\<close>, from column to value.
\<close>

section \<open>Columns and tiers\<close>

datatype viewer_tier = T_guest | T_registered | T_subscribed

definition tier_name :: "viewer_tier \<Rightarrow> string" where
  "tier_name t = (case t of T_guest \<Rightarrow> ''guest'' | T_registered \<Rightarrow> ''registered'' | T_subscribed \<Rightarrow> ''subscribed'')"

definition public_columns :: "string list" where
  "public_columns = [''ap.id'', ''ap.user_id'', ''ap.bio'', ''ap.location_city'', ''ap.location_country'', ''ap.languages'',
     ''ap.is_verified'', ''ap.thumbnail_url'', ''ap.avg_rating'', ''ap.review_count'', ''ap.created_at'', ''ap.deposit_usd'',
     ''ap.cancellation_policy'']"

definition derived_source_columns :: "string list" where
  "derived_source_columns = [''ap.base_price_usd'']"

definition subscriber_only_columns :: "string list" where
  "subscriber_only_columns = [''ap.social_links'', ''ap.display_name'']"

definition profile_columns_for :: "viewer_tier \<Rightarrow> string list" where
  "profile_columns_for t =
     (let columns = public_columns @ derived_source_columns
      in if t = T_subscribed then columns @ subscriber_only_columns else columns)"

definition jtext :: "string option \<Rightarrow> jval" where
  "jtext t = (case t of None \<Rightarrow> JNull | Some x \<Rightarrow> JStr x)"

definition jrat :: "rat option \<Rightarrow> jval" where
  "jrat r = (case r of None \<Rightarrow> JNull | Some x \<Rightarrow> JRat x)"

text \<open>Every column of the table, as the driver names them.\<close>

definition artist_row :: "artist_profile \<Rightarrow> jobject" where
  "artist_row p =
     [(''id'', JUuid (ap_id p)), (''user_id'', JUuid (ap_user_id p)), (''display_name'', jtext (ap_display_name p)),
      (''bio'', jtext (ap_bio p)), (''location_city'', jtext (ap_location_city p)), (''location_country'', jtext (ap_location_country p)),
      (''base_price_usd'', jrat (ap_base_price_usd p)), (''languages'', JStrs (ap_languages p)), (''social_links'', JObj (ap_social_links p)),
      (''is_verified'', JBool (ap_is_verified p)), (''thumbnail_url'', jtext (ap_thumbnail_url p)), (''deposit_usd'', jrat (ap_deposit_usd p)),
      (''cancellation_policy'', jtext (ap_cancellation_policy p)), (''avg_rating'', jrat (ap_avg_rating p)),
      (''review_count'', JInt (ap_review_count p)), (''created_at'', JTime (ap_created_at p))]"

text \<open>\<open>select('ap.x', ..)\<close>: the named columns, under their bare names.\<close>

definition select_columns :: "string list \<Rightarrow> jobject \<Rightarrow> jobject" where
  "select_columns cols row = concat (map (\<lambda>c. case map_of row (drop 3 c) of None \<Rightarrow> [] | Some v \<Rightarrow> [(drop 3 c, v)]) cols)"

section \<open>Price bands\<close>

definition dollars :: "string \<Rightarrow> string \<Rightarrow> string" where
  "dollars a b = ''$'' @ a @ [CHR 0xE2, CHR 0x80, CHR 0x93] @ ''$'' @ b"

definition price_bands :: "(rat \<times> string) list" where
  "price_bands = [(100, ''Under $100''), (250, dollars ''100'' ''250''), (500, dollars ''250'' ''500''),
     (1000, dollars ''500'' ''1,000''), (2500, dollars ''1,000'' ''2,500'')]"

definition band_edges :: "rat list" where
  "band_edges = map fst price_bands"

definition snap_price_floor :: "rat option \<Rightarrow> rat option" where
  "snap_price_floor value =
     (case value of None \<Rightarrow> None
      | Some v \<Rightarrow> Some (case find (\<lambda>e. e \<le> v) (rev band_edges) of None \<Rightarrow> 0 | Some e \<Rightarrow> e))"

definition snap_price_ceiling :: "rat option \<Rightarrow> rat option" where
  "snap_price_ceiling value = (case value of None \<Rightarrow> None | Some v \<Rightarrow> find (\<lambda>e. v \<le> e) band_edges)"

definition band_label :: "rat \<Rightarrow> string" where
  "band_label price = (case find (\<lambda>b. price < fst b) price_bands of None \<Rightarrow> ''$2,500+'' | Some b \<Rightarrow> snd b)"

definition price_band :: "jval option \<Rightarrow> jval" where
  "price_band v = (case v of Some (JRat price) \<Rightarrow> JStr (band_label price) | _ \<Rightarrow> JNull)"

section \<open>Shaping\<close>

definition resolve_viewer_tier :: "clock \<Rightarrow> viewer \<Rightarrow> uuid option \<Rightarrow> db \<Rightarrow> viewer_tier" where
  "resolve_viewer_tier ck v profile_owner s =
     (case vw_user_id v of
        None \<Rightarrow> T_guest
      | Some uid \<Rightarrow>
          if vw_role v = Some R_admin then T_subscribed
          else if profile_owner = Some uid then T_subscribed
          else if has_active_subscription ck uid s then T_subscribed else T_registered)"

text \<open>Assigning a property keeps its place when it exists and appends it otherwise.\<close>

definition set_member :: "string \<Rightarrow> jval \<Rightarrow> jobject \<Rightarrow> jobject" where
  "set_member k v obj =
     (if list_ex (\<lambda>(k', v'). k' = k) obj then map (\<lambda>(k', v'). if k' = k then (k, v) else (k', v')) obj else obj @ [(k, v)])"

definition delete_member :: "string \<Rightarrow> jobject \<Rightarrow> jobject" where
  "delete_member k obj = filter (\<lambda>(k', v). k' \<noteq> k) obj"

definition shape_artist_profile :: "jobject \<Rightarrow> viewer_tier \<Rightarrow> jobject" where
  "shape_artist_profile row t =
     (let shaped = set_member ''viewer_tier'' (JStr (tier_name t)) row
      in if t = T_subscribed then set_member ''is_masked'' (JBool False) shaped
         else delete_member ''social_links'' (delete_member ''base_price_usd''
                (set_member ''base_price_band'' (price_band (map_of row ''base_price_usd''))
                  (set_member ''is_masked'' (JBool True) (delete_member ''display_name'' shaped)))))"

section \<open>Filters\<close>

text \<open>
  \<open>LIKE\<close>: a percent sign stands for any run of characters, an underscore for one, a backslash takes
  the next character as it is; a pattern that ends in a lone backslash, which the database refuses
  when it gets there, matches nothing here. \<open>ILIKE\<close> ignores case.
\<close>

fun like_match :: "string \<Rightarrow> string \<Rightarrow> bool" where
  "like_match [] t = (t = [])"
| "like_match (p # ps) [] = (p = CHR ''%'' \<and> like_match ps [])"
| "like_match (p # ps) (c # t) =
     (if p = CHR ''%'' then like_match ps (c # t) \<or> like_match (p # ps) t
      else if p = CHR ''_'' then like_match ps t
      else if p = CHR 0x5C then (case ps of [] \<Rightarrow> False | q # qs \<Rightarrow> q = c \<and> like_match qs t)
      else p = c \<and> like_match ps t)"

definition ilike :: "string option \<Rightarrow> string \<Rightarrow> bool" where
  "ilike column pat = (case column of None \<Rightarrow> False | Some t \<Rightarrow> like_match (to_lower pat) (to_lower t))"

definition anywhere :: "string \<Rightarrow> string" where
  "anywhere q = ''%'' @ q @ ''%''"

datatype artist_sort = Sort_price_asc | Sort_price_desc | Sort_newest

record search_artists_dto =
  sd_q :: "string option"
  sd_categories :: "string list"
  sd_country :: "string option"
  sd_city :: "string option"
  sd_min_price :: "rat option"
  sd_max_price :: "rat option"
  sd_verified_only :: bool
  sd_available_on :: "string option"
  sd_sort :: artist_sort
  sd_page :: nat
  sd_limit :: nat

definition active_user :: "db \<Rightarrow> uuid \<Rightarrow> bool" where
  "active_user s uid \<longleftrightarrow> list_ex (\<lambda>u. u_id u = uid \<and> u_status u = U_active) (users s)"

text \<open>\<open>if (dto.q)\<close>: an empty text is no filter.\<close>

definition given :: "string option \<Rightarrow> (string \<Rightarrow> bool) \<Rightarrow> bool" where
  "given t P \<longleftrightarrow> (case t of Some (c # r) \<Rightarrow> P (c # r) | _ \<Rightarrow> True)"

definition has_category :: "db \<Rightarrow> string list \<Rightarrow> artist_profile \<Rightarrow> bool" where
  "has_category s slugs p \<longleftrightarrow>
     list_ex (\<lambda>a. ac_artist_profile_id a = ap_id p \<and> list_ex (\<lambda>c. ct_id c = ac_category_id a \<and> ct_slug c \<in> set slugs) (categories s))
       (artist_categories s)"

definition blocked_on :: "db \<Rightarrow> string \<Rightarrow> artist_profile \<Rightarrow> bool" where
  "blocked_on s day p \<longleftrightarrow>
     list_ex (\<lambda>b. av_artist_id b = ap_user_id p \<and> str_le (av_start_date b) day \<and> str_le day (av_end_date b))
       (availability_blocks s)"

text \<open>The day asked for: the text of \<open>availableOn\<close>, when one was sent, read by the server as a DATE.\<close>

definition asked_day :: "date_input \<Rightarrow> search_artists_dto \<Rightarrow> string option result" where
  "asked_day D dto = (case sd_available_on dto of Some (c # r) \<Rightarrow> map_sum id Some (D (c # r)) | _ \<Rightarrow> Inr None)"

definition text_filter :: "viewer_tier \<Rightarrow> string \<Rightarrow> artist_profile \<Rightarrow> bool" where
  "text_filter t q p =
     (if t = T_subscribed then ilike (ap_display_name p) (anywhere q) \<or> ilike (ap_bio p) (anywhere q) else ilike (ap_bio p) (anywhere q))"

definition at_least :: "rat option \<Rightarrow> rat option \<Rightarrow> bool" where
  "at_least bound price = (case bound of None \<Rightarrow> True | Some b \<Rightarrow> (case price of None \<Rightarrow> False | Some x \<Rightarrow> b \<le> x))"

definition at_most :: "rat option \<Rightarrow> rat option \<Rightarrow> bool" where
  "at_most bound price = (case bound of None \<Rightarrow> True | Some b \<Rightarrow> (case price of None \<Rightarrow> False | Some x \<Rightarrow> x \<le> b))"

definition listed :: "viewer_tier \<Rightarrow> search_artists_dto \<Rightarrow> string option \<Rightarrow> db \<Rightarrow> artist_profile \<Rightarrow> bool" where
  "listed t dto day s p \<longleftrightarrow>
     active_user s (ap_user_id p) \<and> given (sd_q dto) (\<lambda>q. text_filter t q p) \<and>
     (sd_categories dto \<noteq> [] \<longrightarrow> has_category s (sd_categories dto) p) \<and>
     given (sd_country dto) (ilike (ap_location_country p)) \<and> given (sd_city dto) (ilike (ap_location_city p)) \<and>
     at_least (if t = T_subscribed then sd_min_price dto else snap_price_floor (sd_min_price dto)) (ap_base_price_usd p) \<and>
     at_most (if t = T_subscribed then sd_max_price dto else snap_price_ceiling (sd_max_price dto)) (ap_base_price_usd p) \<and>
     (sd_verified_only dto \<longrightarrow> ap_is_verified p) \<and>
     (case day of None \<Rightarrow> True | Some d \<Rightarrow> \<not> blocked_on s d p)"

text \<open>Postgres puts nulls last in ascending and first in descending order.\<close>

definition price_ascending :: "artist_profile \<Rightarrow> artist_profile \<Rightarrow> bool" where
  "price_ascending p q =
     (case (ap_base_price_usd p, ap_base_price_usd q) of (Some x, Some y) \<Rightarrow> x \<le> y | (Some x, None) \<Rightarrow> True | (None, Some y) \<Rightarrow> False
      | (None, None) \<Rightarrow> True)"

definition price_descending :: "artist_profile \<Rightarrow> artist_profile \<Rightarrow> bool" where
  "price_descending p q = price_ascending q p"

definition newest_first :: "artist_profile \<Rightarrow> artist_profile \<Rightarrow> bool" where
  "newest_first p q \<longleftrightarrow> ap_created_at q \<le> ap_created_at p"

definition artist_order :: "artist_sort \<Rightarrow> artist_profile \<Rightarrow> artist_profile \<Rightarrow> bool" where
  "artist_order o' = (case o' of Sort_price_asc \<Rightarrow> price_ascending | Sort_price_desc \<Rightarrow> price_descending | Sort_newest \<Rightarrow> newest_first)"

type_synonym category_view = "uuid \<times> string \<times> string"

definition categories_of_artist :: "db \<Rightarrow> uuid \<Rightarrow> category_view list" where
  "categories_of_artist s pid =
     concat (map (\<lambda>a. map (\<lambda>c. (ct_id c, ct_name c, ct_slug c)) (filter (\<lambda>c. ct_id c = ac_category_id a) (categories s)))
       (filter (\<lambda>a. ac_artist_profile_id a = pid) (artist_categories s)))"

record artist_card =
  cd_profile :: jobject
  cd_categories :: "category_view list"

definition search_artists ::
  "date_input \<Rightarrow> clock \<Rightarrow> viewer \<Rightarrow> search_artists_dto \<Rightarrow> db \<Rightarrow> (artist_card list \<times> page_meta) result \<times> db" where
  "search_artists D ck v dto s =
     (case asked_day D dto of Inl e \<Rightarrow> (Inl e, s) | Inr day \<Rightarrow>
      let t = resolve_viewer_tier ck v None s;
          found = filter (listed t dto day s) (artist_profiles s);
          n = aggregate_value (Some (length found));
          rows = page_of (sd_page dto) (sd_limit dto) (sort_by (artist_order (sd_sort dto)) found);
          cards = map (\<lambda>p. \<lparr>cd_profile = shape_artist_profile (select_columns (profile_columns_for t) (artist_row p)) t,
                            cd_categories = categories_of_artist s (ap_id p)\<rparr>) rows;
          category = (if sd_categories dto \<noteq> [] then map_option ct_id (find (\<lambda>c. ct_slug c \<in> set (sd_categories dto)) (categories s)) else None)
      in (Inr (cards, meta_of n (sd_page dto) (sd_limit dto)), record_search ck v category (sd_q dto) (Some n) s))"

section \<open>One profile\<close>

record media_view =
  mv_id :: uuid
  mv_media_type :: media_type
  mv_cdn_url :: string
  mv_duration_sec :: "int option"
  mv_is_primary :: bool
  mv_sort_order :: int

definition media_view_of :: "media_row \<Rightarrow> media_view" where
  "media_view_of m = \<lparr>mv_id = md_id m, mv_media_type = md_media_type m, mv_cdn_url = md_cdn_url m, mv_duration_sec = md_duration_sec m,
     mv_is_primary = md_is_primary m, mv_sort_order = md_sort_order m\<rparr>"

definition media_order :: "media_row \<Rightarrow> media_row \<Rightarrow> bool" where
  "media_order a b \<longleftrightarrow> (md_is_primary a \<and> \<not> md_is_primary b) \<or> (md_is_primary a = md_is_primary b \<and> md_sort_order a \<le> md_sort_order b)"

definition media_of :: "db \<Rightarrow> uuid \<Rightarrow> media_row list" where
  "media_of s uid = sort_by media_order (filter (\<lambda>m. md_user_id m = uid) (media_items s))"

definition upcoming_blocks :: "clock \<Rightarrow> db \<Rightarrow> uuid \<Rightarrow> availability_block list" where
  "upcoming_blocks ck s uid =
     sort_by (\<lambda>a b. str_le (av_start_date a) (av_start_date b))
       (filter (\<lambda>b. av_artist_id b = uid \<and> str_le (iso_date (db_now ck)) (av_end_date b)) (availability_blocks s))"

record artist_page =
  pg_profile :: jobject
  pg_categories :: "category_view list"
  pg_media :: "media_view list"
  pg_availability :: "availability_block list"
  pg_bookings_count :: nat

definition joined_at :: "db \<Rightarrow> uuid \<Rightarrow> jobject" where
  "joined_at s uid = (case find (\<lambda>u. u_id u = uid) (users s) of None \<Rightarrow> [] | Some u \<Rightarrow> [(''joined_at'', JTime (u_created_at u))])"

definition find_one_artist :: "clock \<Rightarrow> viewer \<Rightarrow> uuid \<Rightarrow> db \<Rightarrow> artist_page result" where
  "find_one_artist ck v pid s =
     (case find (\<lambda>p. ap_id p = pid \<and> active_user s (ap_user_id p)) (artist_profiles s) of
        None \<Rightarrow> Inl (NotFound ''Artist not found.'')
      | Some p \<Rightarrow>
          (let t = resolve_viewer_tier ck v (Some (ap_user_id p)) s;
               row = select_columns (profile_columns_for t) (artist_row p) @ joined_at s (ap_user_id p)
           in Inr \<lparr>pg_profile = shape_artist_profile row t, pg_categories = categories_of_artist s (ap_id p),
                   pg_media = map media_view_of (media_of s (ap_user_id p)),
                   pg_availability = upcoming_blocks ck s (ap_user_id p),
                   pg_bookings_count = aggregate_value (Some (length
                     (filter (\<lambda>b. b_artist_id b = ap_user_id p \<and> b_status b = B_completed) (bookings s))))\<rparr>))"

record own_page =
  op_profile :: jobject
  op_categories :: "category_view list"
  op_media :: "(media_view \<times> int) list"
  op_completeness :: profile_completeness

definition media_item_of :: "media_row \<Rightarrow> media_item" where
  "media_item_of m = \<lparr>mi_media_type = (case md_media_type m of M_photo \<Rightarrow> ''photo'' | M_video \<Rightarrow> ''video''), mi_is_primary = md_is_primary m\<rparr>"

definition artist_find_me :: "uuid \<Rightarrow> db \<Rightarrow> own_page result" where
  "artist_find_me uid s =
     (case find (\<lambda>p. ap_user_id p = uid \<and> list_ex (\<lambda>u. u_id u = uid) (users s)) (artist_profiles s) of
        None \<Rightarrow> Inl (NotFound ''Artist profile not found.'')
      | Some p \<Rightarrow>
          Inr \<lparr>op_profile = artist_row p @ joined_at s uid, op_categories = categories_of_artist s (ap_id p),
               op_media = map (\<lambda>m. (media_view_of m, md_file_size_bytes m)) (media_of s uid),
               op_completeness = compute_profile_completeness (map media_item_of (media_of s uid))\<rparr>)"

section \<open>Editing\<close>

text \<open>
  A field the validator lets be null is \<open>None\<close> when absent and \<open>Some None\<close> when null.
\<close>

record update_artist_dto =
  ua_display_name :: "string option"
  ua_bio :: "string option option"
  ua_location_city :: "string option option"
  ua_location_country :: "string option option"
  ua_base_price_usd :: "rat option option"
  ua_languages :: "string list option"
  ua_social_links :: "jobject option"
  ua_deposit_usd :: "rat option option"
  ua_cancellation_policy :: "string option option"
  ua_category_ids :: "uuid list option"

definition assigned :: "'a option \<Rightarrow> 'a \<Rightarrow> 'a" where
  "assigned x old = (case x of None \<Rightarrow> old | Some v \<Rightarrow> v)"

definition artist_patch :: "update_artist_dto \<Rightarrow> artist_profile \<Rightarrow> artist_profile" where
  "artist_patch dto p =
     p\<lparr>ap_display_name := (case ua_display_name dto of None \<Rightarrow> ap_display_name p | Some n \<Rightarrow> Some n),
       ap_bio := assigned (ua_bio dto) (ap_bio p),
       ap_location_city := assigned (ua_location_city dto) (ap_location_city p),
       ap_location_country := assigned (ua_location_country dto) (ap_location_country p),
       ap_base_price_usd := assigned (ua_base_price_usd dto) (ap_base_price_usd p),
       ap_languages := assigned (ua_languages dto) (ap_languages p),
       ap_social_links := assigned (ua_social_links dto) (ap_social_links p),
       ap_deposit_usd := assigned (ua_deposit_usd dto) (ap_deposit_usd p),
       ap_cancellation_policy := assigned (ua_cancellation_policy dto) (ap_cancellation_policy p)\<rparr>"

definition patch_profile :: "uuid \<Rightarrow> update_artist_dto \<Rightarrow> db \<Rightarrow> db" where
  "patch_profile uid dto s = s\<lparr>artist_profiles := update_where (\<lambda>p. ap_user_id p = uid) (artist_patch dto) (artist_profiles s)\<rparr>"

definition replace_categories :: "uuid \<Rightarrow> uuid list \<Rightarrow> db \<Rightarrow> db" where
  "replace_categories pid ids s =
     s\<lparr>artist_categories := filter (\<lambda>a. ac_artist_profile_id a \<noteq> pid) (artist_categories s)
         @ map (\<lambda>c. \<lparr>ac_artist_profile_id = pid, ac_category_id = c\<rparr>) ids\<rparr>"

definition update_artist_me :: "uuid \<Rightarrow> update_artist_dto \<Rightarrow> db \<Rightarrow> own_page result \<times> db" where
  "update_artist_me uid dto s =
     (case find (\<lambda>p. ap_user_id p = uid) (artist_profiles s) of
        None \<Rightarrow> (Inl (NotFound ''Artist profile not found.''), s)
      | Some p \<Rightarrow>
          (case ua_category_ids dto of
             Some ids \<Rightarrow>
               if length (filter (\<lambda>c. ct_id c \<in> set ids) (categories s)) \<noteq> length ids
               then (Inl (BadRequest ''One or more category IDs are invalid.''), s)
               else (let s' = replace_categories (ap_id p) ids (patch_profile uid dto s) in (artist_find_me uid s', s'))
           | None \<Rightarrow> (let s' = patch_profile uid dto s in (artist_find_me uid s', s'))))"

section \<open>Categories and who books\<close>

definition get_categories :: "db \<Rightarrow> (category_group \<times> category list) list" where
  "get_categories s =
     map (\<lambda>g. (g, filter (\<lambda>c. ct_group_id c = cg_id g) (sort_by (\<lambda>a b. ct_sort_order a \<le> ct_sort_order b) (categories s))))
       (sort_by (\<lambda>a b. cg_sort_order a \<le> cg_sort_order b) (category_groups s))"

record booker_share =
  bs_type :: string
  bs_count :: nat
  bs_pct :: int

definition booker_type_counts :: "uuid \<Rightarrow> db \<Rightarrow> (string \<times> nat) list" where
  "booker_type_counts uid s =
     (let types = concat (map (\<lambda>b. List.map_filter pp_booker_type (filter (\<lambda>q. pp_user_id q = b_planner_id b) (planner_profiles s)))
                    (filter (\<lambda>b. b_artist_id b = uid) (bookings s)))
      in map (\<lambda>(k, ts). (k, length ts)) (group_rows (\<lambda>t. t) types))"

definition get_booker_type_breakdown :: "uuid \<Rightarrow> db \<Rightarrow> nat \<times> booker_share list" where
  "get_booker_type_breakdown uid s =
     (let parsed = sort_by (\<lambda>a b. snd b \<le> snd a) (booker_type_counts uid s);
          n = sum_list (map snd parsed)
      in (n, map (\<lambda>(t, k). \<lparr>bs_type = t, bs_count = k,
                   bs_pct = (if n = 0 then 0 else js_round (of_nat k / of_nat n * 100))\<rparr>) parsed))"

lemmas artist_op_defs [op_defs] = search_artists_def update_artist_me_def patch_profile_def replace_categories_def

end
