(* ===== verification/Visibility_Rules.thy ===== *)
theory Visibility_Rules
  imports Artists
begin

text \<open>
  Who is not a member learns nothing of an artist's name, links and exact price from the directory
  and the profile pages: two databases that differ only there answer alike. And the two holes the
  filters leave: the order by price, and a ceiling that sits on a price.
\<close>

section \<open>What a non-member may know of a profile\<close>

text \<open>Two profiles that differ in name, links and the exact price within one band.\<close>

definition looks_alike :: "artist_profile \<Rightarrow> artist_profile \<Rightarrow> bool" where
  "looks_alike p q \<longleftrightarrow>
     p\<lparr>ap_display_name := None, ap_social_links := [], ap_base_price_usd := None\<rparr>
       = q\<lparr>ap_display_name := None, ap_social_links := [], ap_base_price_usd := None\<rparr>
     \<and> map_option band_label (ap_base_price_usd p) = map_option band_label (ap_base_price_usd q)"

definition db_alike :: "db \<Rightarrow> db \<Rightarrow> bool" where
  "db_alike s t \<longleftrightarrow> t = s\<lparr>artist_profiles := artist_profiles t\<rparr> \<and> list_all2 looks_alike (artist_profiles s) (artist_profiles t)"

definition outsider :: "clock \<Rightarrow> viewer \<Rightarrow> db \<Rightarrow> bool" where
  "outsider ck v s \<longleftrightarrow> vw_role v \<noteq> Some R_admin \<and> (case vw_user_id v of None \<Rightarrow> True | Some u \<Rightarrow> \<not> has_active_subscription ck u s)"

lemma looks_alikeD:
  assumes "looks_alike p q"
  shows "ap_id q = ap_id p" "ap_user_id q = ap_user_id p" "ap_bio q = ap_bio p" "ap_location_city q = ap_location_city p"
    "ap_location_country q = ap_location_country p" "ap_languages q = ap_languages p" "ap_is_verified q = ap_is_verified p"
    "ap_thumbnail_url q = ap_thumbnail_url p" "ap_deposit_usd q = ap_deposit_usd p"
    "ap_cancellation_policy q = ap_cancellation_policy p" "ap_avg_rating q = ap_avg_rating p" "ap_review_count q = ap_review_count p"
    "ap_created_at q = ap_created_at p" "map_option band_label (ap_base_price_usd q) = map_option band_label (ap_base_price_usd p)"
  using assms by (cases p; cases q; simp add: looks_alike_def)+

lemma looks_alike_band: "looks_alike p q \<Longrightarrow> price_band (Some (jrat (ap_base_price_usd q))) = price_band (Some (jrat (ap_base_price_usd p)))"
  using looks_alikeD(14) [of p q] by (cases "ap_base_price_usd p"; cases "ap_base_price_usd q") (simp_all add: price_band_def jrat_def)

text \<open>The row as it leaves the server below the paying tier; \<open>extra\<close> is the column the profile page adds.\<close>

lemma masked_row:
  assumes "t \<noteq> T_subscribed" and "extra = [] \<or> extra = [(''joined_at'', j)]"
  shows "shape_artist_profile (select_columns (profile_columns_for t) (artist_row p) @ extra) t =
    [(''id'', JUuid (ap_id p)), (''user_id'', JUuid (ap_user_id p)), (''bio'', jtext (ap_bio p)), (''location_city'', jtext (ap_location_city p)),
     (''location_country'', jtext (ap_location_country p)), (''languages'', JStrs (ap_languages p)), (''is_verified'', JBool (ap_is_verified p)),
     (''thumbnail_url'', jtext (ap_thumbnail_url p)), (''avg_rating'', jrat (ap_avg_rating p)), (''review_count'', JInt (ap_review_count p)),
     (''created_at'', JTime (ap_created_at p)), (''deposit_usd'', jrat (ap_deposit_usd p)), (''cancellation_policy'', jtext (ap_cancellation_policy p))]
    @ extra @ [(''viewer_tier'', JStr (tier_name t)), (''is_masked'', JBool True), (''base_price_band'', price_band (Some (jrat (ap_base_price_usd p))))]"
proof -
  have cols: "select_columns (profile_columns_for t) (artist_row p) =
    [(''id'', JUuid (ap_id p)), (''user_id'', JUuid (ap_user_id p)), (''bio'', jtext (ap_bio p)), (''location_city'', jtext (ap_location_city p)),
     (''location_country'', jtext (ap_location_country p)), (''languages'', JStrs (ap_languages p)), (''is_verified'', JBool (ap_is_verified p)),
     (''thumbnail_url'', jtext (ap_thumbnail_url p)), (''avg_rating'', jrat (ap_avg_rating p)), (''review_count'', JInt (ap_review_count p)),
     (''created_at'', JTime (ap_created_at p)), (''deposit_usd'', jrat (ap_deposit_usd p)), (''cancellation_policy'', jtext (ap_cancellation_policy p)),
     (''base_price_usd'', jrat (ap_base_price_usd p))]"
    using assms(1) by (simp add: select_columns_def profile_columns_for_def public_columns_def derived_source_columns_def artist_row_def)
  show ?thesis using assms(1) assms(2) unfolding cols
    by (elim disjE) (simp_all add: shape_artist_profile_def set_member_def delete_member_def Let_def)
qed

lemma masked_row_alike:
  assumes "t \<noteq> T_subscribed" and "looks_alike p q" and "extra = [] \<or> extra = [(''joined_at'', j)]"
  shows "shape_artist_profile (select_columns (profile_columns_for t) (artist_row q) @ extra) t
    = shape_artist_profile (select_columns (profile_columns_for t) (artist_row p) @ extra) t"
  unfolding masked_row [OF assms(1,3)] by (simp only: looks_alikeD [OF assms(2)] looks_alike_band [OF assms(2)])

section \<open>Tables that look alike\<close>

lemma db_alike_tables:
  assumes "db_alike s t"
  shows "users t = users s" "categories t = categories s" "artist_categories t = artist_categories s" "media_items t = media_items s"
    "availability_blocks t = availability_blocks s" "bookings t = bookings s" "subscriptions t = subscriptions s" "plans t = plans s"
    "list_all2 looks_alike (artist_profiles s) (artist_profiles t)"
proof -
  have t: "t = s\<lparr>artist_profiles := artist_profiles t\<rparr>" and l: "list_all2 looks_alike (artist_profiles s) (artist_profiles t)"
    using assms unfolding db_alike_def by blast+
  show "list_all2 looks_alike (artist_profiles s) (artist_profiles t)" by (rule l)
  show "users t = users s" "categories t = categories s" "artist_categories t = artist_categories s" "media_items t = media_items s"
    "availability_blocks t = availability_blocks s" "bookings t = bookings s" "subscriptions t = subscriptions s" "plans t = plans s"
    by (subst t, simp)+
qed

lemma list_all2_filter:
  "list_all2 R xs ys \<Longrightarrow> (\<And>x y. x \<in> set xs \<Longrightarrow> y \<in> set ys \<Longrightarrow> R x y \<Longrightarrow> P x = Q y) \<Longrightarrow> list_all2 R (filter P xs) (filter Q ys)"
proof (induction rule: list_all2_induct)
  case (Cons x xs y ys)
  have "list_all2 R (filter P xs) (filter Q ys)" using Cons.prems by (intro Cons.IH) simp
  moreover have "P x = Q y" using Cons.hyps(1) Cons.prems by simp
  ultimately show ?case using Cons.hyps(1) by simp
qed simp

lemma list_all2_insert_by:
  "list_all2 R xs ys \<Longrightarrow> R x y \<Longrightarrow> (\<And>a b c d. R a b \<Longrightarrow> R c d \<Longrightarrow> le a c = le b d) \<Longrightarrow> list_all2 R (insert_by le x xs) (insert_by le y ys)"
proof (induction rule: list_all2_induct)
  case (Cons a as b bs)
  from Cons.prems(2) [OF Cons.prems(1) Cons.hyps(1)] Cons show ?case by simp
qed simp

lemma list_all2_sort_by:
  "list_all2 R xs ys \<Longrightarrow> (\<And>a b c d. R a b \<Longrightarrow> R c d \<Longrightarrow> le a c = le b d) \<Longrightarrow> list_all2 R (sort_by le xs) (sort_by le ys)"
  by (induction rule: list_all2_induct) (simp_all add: list_all2_insert_by)

lemma list_all2_page_of: "list_all2 R xs ys \<Longrightarrow> list_all2 R (page_of k n xs) (page_of k n ys)"
  by (simp add: page_of_def list_all2_takeI list_all2_dropI)

lemma list_all2_map_eq: "list_all2 R xs ys \<Longrightarrow> (\<And>x y. R x y \<Longrightarrow> f y = g x) \<Longrightarrow> map f ys = map g xs"
  by (induction rule: list_all2_induct) auto

lemma list_all2_find:
  "list_all2 R xs ys \<Longrightarrow> (\<And>x y. R x y \<Longrightarrow> P x = Q y) \<Longrightarrow>
   (find P xs = None \<and> find Q ys = None) \<or> (\<exists>x y. find P xs = Some x \<and> find Q ys = Some y \<and> R x y)"
  by (induction rule: list_all2_induct) auto

lemma tier_alike:
  assumes "db_alike s t"
  shows "resolve_viewer_tier ck v o' t = resolve_viewer_tier ck v o' s"
proof -
  have "has_active_subscription ck u t = has_active_subscription ck u s" for u
    by (rule paid.depends) (simp_all add: db_alike_tables [OF assms])
  then show ?thesis by (simp add: resolve_viewer_tier_def split: option.split)
qed

lemma outsider_tier: "outsider ck v s \<Longrightarrow> resolve_viewer_tier ck v None s \<noteq> T_subscribed"
  by (auto simp: outsider_def resolve_viewer_tier_def split: option.splits)

section \<open>The profile page\<close>

text \<open>
  C28: to whoever is no member, no administrator and not its owner, an artist's page is the same
  whatever the artist's name, links and price within its band are.
\<close>

theorem profile_page_hides_name_and_price:
  assumes "db_alike s t" and "outsider ck v s"
    and "list_all (\<lambda>p. ap_id p = pid \<longrightarrow> vw_user_id v \<noteq> Some (ap_user_id p)) (artist_profiles s)"
  shows "find_one_artist ck v pid t = find_one_artist ck v pid s"
proof -
  note tabs = db_alike_tables [OF assms(1)]
  let ?P = "\<lambda>w p. ap_id p = pid \<and> active_user w (ap_user_id p)"
  have act: "active_user t u = active_user s u" for u by (simp add: active_user_def tabs)
  have "(find (?P s) (artist_profiles s) = None \<and> find (?P t) (artist_profiles t) = None) \<or>
      (\<exists>p q. find (?P s) (artist_profiles s) = Some p \<and> find (?P t) (artist_profiles t) = Some q \<and> looks_alike p q)"
    by (rule list_all2_find [OF tabs(9)]) (simp add: looks_alikeD act)
  then show ?thesis
  proof (elim disjE exE conjE)
    fix p q
    assume p: "find (?P s) (artist_profiles s) = Some p" and q: "find (?P t) (artist_profiles t) = Some q" and pq: "looks_alike p q"
    let ?t = "resolve_viewer_tier ck v (Some (ap_user_id p)) s"
    have "p \<in> set (artist_profiles s) \<and> ap_id p = pid" using find_SomeD [OF p] by simp
    then have "vw_user_id v \<noteq> Some (ap_user_id p)" using assms(3) by (simp add: list_all_iff)
    then have low: "?t \<noteq> T_subscribed" using assms(2) by (auto simp: outsider_def resolve_viewer_tier_def split: option.splits)
    have extra: "joined_at s (ap_user_id p) = [] \<or> (\<exists>j. joined_at s (ap_user_id p) = [(''joined_at'', j)])"
      by (simp add: joined_at_def split: option.split)
    have "shape_artist_profile (select_columns (profile_columns_for ?t) (artist_row q) @ joined_at s (ap_user_id p)) ?t
        = shape_artist_profile (select_columns (profile_columns_for ?t) (artist_row p) @ joined_at s (ap_user_id p)) ?t"
      using extra masked_row_alike [OF low pq] by blast
    moreover have "joined_at t u = joined_at s u" "categories_of_artist t u = categories_of_artist s u" "media_of t u = media_of s u"
      "upcoming_blocks ck t u = upcoming_blocks ck s u" for u
      by (simp_all add: joined_at_def categories_of_artist_def media_of_def upcoming_blocks_def tabs)
    ultimately show ?thesis unfolding find_one_artist_def p q
      by (simp add: Let_def looks_alikeD [OF pq] tier_alike [OF assms(1)] tabs)
  qed (simp add: find_one_artist_def)
qed


definition demo_singer :: "string \<Rightarrow> rat \<Rightarrow> artist_profile" where
  "demo_singer name price = (default_artist_profile 8 7 1)\<lparr>ap_display_name := Some name, ap_bio := Some ''Oud'', ap_base_price_usd := Some price,
     ap_social_links := [(''instagram'', JStr name)]\<rparr>"

definition demo_owner :: user_row where
  "demo_owner = \<lparr>u_id = 7, u_email = ''a@x.lb'', u_phone = None, u_password_hash = None, u_role = R_artist,
     u_status = U_active, u_account_code = ''AR000001'', u_email_verified_at = Some 1, u_phone_verified_at = None,
     u_last_login_at = None, u_created_at = 1, u_deleted_at = None, u_pending_email = None\<rparr>"

definition demo_directory :: "artist_profile list \<Rightarrow> db" where
  "demo_directory ps = empty_db\<lparr>users := [demo_owner], artist_profiles := ps\<rparr>"

definition demo_guest :: viewer where
  "demo_guest = \<lparr>vw_user_id = None, vw_role = None, vw_session_id = None\<rparr>"

lemma demo_alike: "db_alike (demo_directory [demo_singer ''Karim'' 340]) (demo_directory [demo_singer ''Rana'' 410])"
  by (simp add: db_alike_def demo_directory_def looks_alike_def demo_singer_def default_artist_profile_def band_label_def price_bands_def)

lemma demo_outsider: "outsider ck demo_guest s"
  by (simp add: outsider_def demo_guest_def)

theorem profile_page_hides_name_and_price_witness:
  "find_one_artist \<lparr>db_now = 5, js_now = 5\<rparr> demo_guest 8 (demo_directory [demo_singer ''Rana'' 410])
     = find_one_artist \<lparr>db_now = 5, js_now = 5\<rparr> demo_guest 8 (demo_directory [demo_singer ''Karim'' 340])"
  by (rule profile_page_hides_name_and_price [OF demo_alike demo_outsider]) (simp add: demo_guest_def list_all_iff)

section \<open>The directory\<close>

lemma same_band_edge:
  assumes "band_label x = band_label y" and "e \<in> set band_edges"
  shows "e \<le> x \<longleftrightarrow> e \<le> y"
proof -
  have "e = 100 \<or> e = 250 \<or> e = 500 \<or> e = 1000 \<or> e = 2500" using assms(2) by (simp add: band_edges_def price_bands_def)
  then show ?thesis using assms(1)
    by (elim disjE) (simp_all add: band_label_def price_bands_def dollars_def split: if_splits)
qed

text \<open>A floor is a band edge, or zero, which no price lies below.\<close>

lemma floor_alike:
  assumes "looks_alike p q" and "at_least (Some 0) (ap_base_price_usd p) \<or> ap_base_price_usd p = None"
    and "at_least (Some 0) (ap_base_price_usd q) \<or> ap_base_price_usd q = None"
  shows "at_least (snap_price_floor b) (ap_base_price_usd q) = at_least (snap_price_floor b) (ap_base_price_usd p)"
proof (cases b)
  case (Some v)
  define e where "e = (case find (\<lambda>e. e \<le> v) (rev band_edges) of None \<Rightarrow> 0 | Some e \<Rightarrow> e)"
  have e: "e = 0 \<or> e \<in> set band_edges" unfolding e_def by (auto dest: find_SomeD split: option.split)
  have band: "map_option band_label (ap_base_price_usd q) = map_option band_label (ap_base_price_usd p)" by (rule looks_alikeD(14) [OF assms(1)])
  have "at_least (Some e) (ap_base_price_usd q) = at_least (Some e) (ap_base_price_usd p)"
  proof (cases "ap_base_price_usd p"; cases "ap_base_price_usd q"; simp add: at_least_def)
    fix x y
    assume xy: "ap_base_price_usd p = Some x" "ap_base_price_usd q = Some y"
    have "0 \<le> x" "0 \<le> y" using assms(2,3) xy by (simp_all add: at_least_def)
    moreover have "band_label x = band_label y" using band xy by simp
    ultimately show "e \<le> y \<longleftrightarrow> e \<le> x" using e same_band_edge [of x y e] by (elim disjE) (simp, blast)
  qed (use band in simp_all)
  then show ?thesis by (simp add: Some snap_price_floor_def e_def)
qed (simp add: snap_price_floor_def at_least_def)

lemma ceiling_alike:
  assumes "looks_alike p q" and "\<And>x. ap_base_price_usd p = Some x \<or> ap_base_price_usd q = Some x \<Longrightarrow> x \<notin> set band_edges"
  shows "at_most (snap_price_ceiling b) (ap_base_price_usd q) = at_most (snap_price_ceiling b) (ap_base_price_usd p)"
proof (cases "snap_price_ceiling b")
  case (Some e)
  then have e: "e \<in> set band_edges" by (auto simp: snap_price_ceiling_def dest: find_SomeD split: option.splits)
  have "map_option band_label (ap_base_price_usd q) = map_option band_label (ap_base_price_usd p)" by (rule looks_alikeD(14) [OF assms(1)])
  then show ?thesis
  proof (cases "ap_base_price_usd p"; cases "ap_base_price_usd q"; simp add: Some at_most_def)
    fix x y
    assume xy: "ap_base_price_usd p = Some x" "ap_base_price_usd q = Some y" "band_label y = band_label x"
    have "e \<le> x \<longleftrightarrow> e \<le> y" by (rule same_band_edge [OF xy(3) [symmetric] e])
    moreover have "x \<noteq> e" "y \<noteq> e" using assms(2) xy(1,2) e by blast+
    ultimately show "y \<le> e \<longleftrightarrow> x \<le> e" by linarith
  qed
qed (simp add: at_most_def)

text \<open>Prices are not negative, and none sits on a band edge.\<close>

definition fair_price :: "artist_profile \<Rightarrow> bool" where
  "fair_price p \<longleftrightarrow> (case ap_base_price_usd p of None \<Rightarrow> True | Some x \<Rightarrow> 0 \<le> x \<and> x \<notin> set band_edges)"

lemma listed_alike:
  assumes "db_alike s t" and "looks_alike p q" and "fair_price p" and "fair_price q" and "r \<noteq> T_subscribed"
  shows "listed r dto day s p = listed r dto day t q"
proof -
  note tabs = db_alike_tables [OF assms(1)] and same = looks_alikeD [OF assms(2)]
  have "at_least (snap_price_floor (sd_min_price dto)) (ap_base_price_usd q) = at_least (snap_price_floor (sd_min_price dto)) (ap_base_price_usd p)"
    by (rule floor_alike [OF assms(2)]) (use assms(3,4) in \<open>auto simp: fair_price_def at_least_def split: option.splits\<close>)
  moreover have "at_most (snap_price_ceiling (sd_max_price dto)) (ap_base_price_usd q) = at_most (snap_price_ceiling (sd_max_price dto)) (ap_base_price_usd p)"
    by (rule ceiling_alike [OF assms(2)]) (use assms(3,4) in \<open>auto simp: fair_price_def\<close>)
  moreover have "active_user t (ap_user_id q) = active_user s (ap_user_id p)" by (simp add: active_user_def tabs same)
  moreover have "text_filter r w q = text_filter r w p" for w by (simp add: text_filter_def assms(5) same)
  moreover have "has_category t c q = has_category s c p" for c by (simp add: has_category_def tabs same)
  moreover have "blocked_on t d q = blocked_on s d p" for d by (simp add: blocked_on_def tabs same)
  ultimately show ?thesis by (simp only: listed_def same assms(5) if_False simp_thms)
qed

text \<open>
  C29: in the directory, too, who is no member gets the same cards in the same order, whatever the
  names, the links and the prices within their bands, as long as the order is by date and no price
  sits exactly on the edge of a band.
\<close>

theorem directory_hides_name_and_price:
  assumes "db_alike s t" and "outsider ck v s" and "sd_sort dto = Sort_newest"
    and "list_all fair_price (artist_profiles s)" and "list_all fair_price (artist_profiles t)"
  shows "fst (search_artists D ck v dto t) = fst (search_artists D ck v dto s)"
proof (cases "asked_day D dto")
  case (Inr day)
  note tabs = db_alike_tables [OF assms(1)]
  let ?r = "resolve_viewer_tier ck v None s"
  have low: "?r \<noteq> T_subscribed" by (rule outsider_tier [OF assms(2)])
  let ?fs = "filter (listed ?r dto day s) (artist_profiles s)" and ?ft = "filter (listed ?r dto day t) (artist_profiles t)"
  have "list_all2 looks_alike ?fs ?ft"
  proof (rule list_all2_filter [OF tabs(9)])
    fix p q
    assume "p \<in> set (artist_profiles s)" "q \<in> set (artist_profiles t)" and pq: "looks_alike p q"
    then have "fair_price p" "fair_price q" using assms(4,5) by (simp_all add: list_all_iff)
    then show "listed ?r dto day s p = listed ?r dto day t q" by (rule listed_alike [OF assms(1) pq _ _ low])
  qed
  then have rows: "list_all2 looks_alike (page_of k n (sort_by newest_first ?fs)) (page_of k n (sort_by newest_first ?ft))" for k n
    by (intro list_all2_page_of list_all2_sort_by) (simp_all add: newest_first_def looks_alikeD)
  have len: "length ?ft = length ?fs" using \<open>list_all2 looks_alike ?fs ?ft\<close> by (simp add: list_all2_lengthD)
  have cats: "categories_of_artist t u = categories_of_artist s u" for u by (simp add: categories_of_artist_def tabs)
  have "map (\<lambda>p. \<lparr>cd_profile = shape_artist_profile (select_columns (profile_columns_for ?r) (artist_row p)) ?r, cd_categories = categories_of_artist t (ap_id p)\<rparr>)
        (page_of k n (sort_by newest_first ?ft))
      = map (\<lambda>p. \<lparr>cd_profile = shape_artist_profile (select_columns (profile_columns_for ?r) (artist_row p)) ?r, cd_categories = categories_of_artist s (ap_id p)\<rparr>)
        (page_of k n (sort_by newest_first ?fs))" for k n
    by (rule list_all2_map_eq [OF rows]) (use masked_row_alike [OF low, of _ _ "[]"] in \<open>simp add: cats looks_alikeD\<close>)
  then show ?thesis by (simp add: search_artists_def Inr Let_def tier_alike [OF assms(1)] assms(3) artist_order_def len)
qed (simp add: search_artists_def)

definition demo_search :: search_artists_dto where
  "demo_search = \<lparr>sd_q = None, sd_categories = [], sd_country = None, sd_city = None, sd_min_price = Some 300, sd_max_price = Some 450,
     sd_verified_only = False, sd_available_on = None, sd_sort = Sort_newest, sd_page = 1, sd_limit = 20\<rparr>"

theorem directory_hides_name_and_price_witness:
  "fst (search_artists iso_input \<lparr>db_now = 5, js_now = 5\<rparr> demo_guest demo_search (demo_directory [demo_singer ''Rana'' 410]))
     = fst (search_artists iso_input \<lparr>db_now = 5, js_now = 5\<rparr> demo_guest demo_search (demo_directory [demo_singer ''Karim'' 340]))"
  by (rule directory_hides_name_and_price [OF demo_alike demo_outsider])
    (simp_all add: demo_search_def demo_directory_def fair_price_def demo_singer_def band_edges_def price_bands_def)


section \<open>The holes\<close>

definition only_ceiling :: "rat \<Rightarrow> artist_sort \<Rightarrow> search_artists_dto" where
  "only_ceiling e o' = \<lparr>sd_q = None, sd_categories = [], sd_country = None, sd_city = None, sd_min_price = None, sd_max_price = Some e,
     sd_verified_only = False, sd_available_on = None, sd_sort = o', sd_page = 1, sd_limit = 50\<rparr>"

lemma ceiling_of_edge: "e \<in> set band_edges \<Longrightarrow> snap_price_ceiling (Some e) = Some e"
proof -
  assume "e \<in> set band_edges"
  then have "e = 100 \<or> e = 250 \<or> e = 500 \<or> e = 1000 \<or> e = 2500" by (simp add: band_edges_def price_bands_def)
  then show ?thesis by (elim disjE) (simp_all add: snap_price_ceiling_def band_edges_def price_bands_def)
qed

text \<open>
  A non-member can still tell exact prices apart. A ceiling on the lower edge of a band finds,
  of the artists shown in that band, exactly those whose price is the edge; and in a list ordered by
  price the cards come in the order of the exact prices.
\<close>

theorem filters_tell_prices_apart:
  assumes "r \<noteq> T_subscribed" and "active_user s (ap_user_id p)" and "ap_base_price_usd p = Some x"
    and "e \<in> set band_edges" and "band_label x = band_label e"
  shows "(listed r (only_ceiling e o') None s p \<longleftrightarrow> x = e) \<and>
    (\<forall>dto cards meta. sd_sort dto = Sort_price_asc \<longrightarrow> fst (search_artists D ck demo_guest dto s) = Inr (cards, meta) \<longrightarrow>
       (\<exists>rows. sorted_wrt price_ascending rows \<and> map cd_profile cards
         = map (\<lambda>q. shape_artist_profile (select_columns (profile_columns_for T_guest) (artist_row q)) T_guest) rows))"
proof
  have "e \<le> x" using same_band_edge [OF assms(5,4)] by simp
  then show "listed r (only_ceiling e o') None s p \<longleftrightarrow> x = e"
    using assms by (auto simp: listed_def only_ceiling_def given_def at_least_def at_most_def snap_price_floor_def ceiling_of_edge)
next
  show "\<forall>dto cards meta. sd_sort dto = Sort_price_asc \<longrightarrow> fst (search_artists D ck demo_guest dto s) = Inr (cards, meta) \<longrightarrow>
       (\<exists>rows. sorted_wrt price_ascending rows \<and> map cd_profile cards
         = map (\<lambda>q. shape_artist_profile (select_columns (profile_columns_for T_guest) (artist_row q)) T_guest) rows)"
  proof (intro allI impI)
    fix dto :: search_artists_dto and cards meta
    assume o': "sd_sort dto = Sort_price_asc" and answer: "fst (search_artists D ck demo_guest dto s) = Inr (cards, meta)"
    from answer obtain day where day: "asked_day D dto = Inr day" by (auto simp: search_artists_def split: sum.splits)
    let ?rows = "page_of (sd_page dto) (sd_limit dto) (sort_by price_ascending (filter (listed T_guest dto day s) (artist_profiles s)))"
    have "sorted_wrt price_ascending (sort_by price_ascending qs)" for qs
      by (rule sorted_sort_by) (auto simp: price_ascending_def split: option.splits)
    then have "sorted_wrt price_ascending ?rows" unfolding page_of_def
      by (metis append_take_drop_id sorted_wrt_append)
    moreover have "resolve_viewer_tier ck demo_guest None s = T_guest" by (simp add: resolve_viewer_tier_def demo_guest_def)
    ultimately show "\<exists>rows. sorted_wrt price_ascending rows \<and> map cd_profile cards
         = map (\<lambda>q. shape_artist_profile (select_columns (profile_columns_for T_guest) (artist_row q)) T_guest) rows"
      using o' answer day by (intro exI [of _ ?rows]) (auto simp: search_artists_def Let_def artist_order_def)
  qed
qed

theorem filters_tell_prices_apart_witness:
  "listed T_guest (only_ceiling 500 Sort_newest) None (demo_directory [demo_singer ''Karim'' 500]) (demo_singer ''Karim'' 500)
   \<and> \<not> listed T_guest (only_ceiling 500 Sort_newest) None (demo_directory [demo_singer ''Karim'' 501]) (demo_singer ''Karim'' 501)"
proof -
  have act: "active_user (demo_directory [demo_singer n x]) (ap_user_id (demo_singer n x))" for n x
    by (simp add: active_user_def demo_directory_def demo_owner_def demo_singer_def default_artist_profile_def)
  have price: "ap_base_price_usd (demo_singer n x) = Some x" for n x by (simp add: demo_singer_def)
  have edge: "(500 :: rat) \<in> set band_edges" "band_label 501 = band_label 500" by (simp_all add: band_edges_def price_bands_def band_label_def)
  have "listed T_guest (only_ceiling 500 Sort_newest) None (demo_directory [demo_singer ''Karim'' y]) (demo_singer ''Karim'' y) \<longleftrightarrow> y = 500"
    if "band_label y = band_label 500" for y
    using filters_tell_prices_apart [where r = T_guest and o' = Sort_newest and p = "demo_singer ''Karim'' y" and e = 500 and x = y,
        OF _ act price edge(1) that] by simp
  from this [of 500] this [of 501] edge(2)
  show ?thesis by simp
qed

end
