(* ===== verification/Saved_Artists.thy ===== *)
theory Saved_Artists
  imports Visibility_Rules
begin

text \<open>
  \<open>src/saved/saved.service.ts\<close>: the artists a planner keeps, and what the list of them gives away.
\<close>

section \<open>Operations\<close>

definition save_artist :: "clock \<Rightarrow> uuid \<Rightarrow> uuid \<Rightarrow> db \<Rightarrow> string result \<times> db" where
  "save_artist ck planner pid s =
     (case find (\<lambda>p. ap_id p = pid) (artist_profiles s) of
        None \<Rightarrow> (Inl (NotFound ''Artist not found.''), s)
      | Some _ \<Rightarrow>
          (Inr ''Saved.'',
           if list_ex (\<lambda>v. sv_planner_id v = planner \<and> sv_artist_profile_id v = pid) (saved_artists s) then s
           else s\<lparr>saved_artists := saved_artists s @ [\<lparr>sv_planner_id = planner, sv_artist_profile_id = pid, sv_created_at = db_now ck\<rparr>]\<rparr>))"

definition unsave_artist :: "uuid \<Rightarrow> uuid \<Rightarrow> db \<Rightarrow> string result \<times> db" where
  "unsave_artist planner pid s =
     (Inr ''Removed.'',
      s\<lparr>saved_artists := filter (\<lambda>v. \<not> (sv_planner_id v = planner \<and> sv_artist_profile_id v = pid)) (saved_artists s)\<rparr>)"

definition saved_columns :: "string list" where
  "saved_columns = [''ap.id'', ''ap.user_id'', ''ap.display_name'', ''ap.bio'', ''ap.location_city'', ''ap.location_country'',
     ''ap.base_price_usd'', ''ap.languages'', ''ap.social_links'', ''ap.is_verified'', ''ap.thumbnail_url'', ''ap.created_at'']"

definition list_my_saved :: "uuid \<Rightarrow> db \<Rightarrow> artist_card list" where
  "list_my_saved planner s =
     concat (map (\<lambda>v. map (\<lambda>p. \<lparr>cd_profile = select_columns saved_columns (artist_row p) @ [(''saved_at'', JTime (sv_created_at v))],
                                cd_categories = categories_of_artist s (ap_id p)\<rparr>)
                     (filter (\<lambda>p. ap_id p = sv_artist_profile_id v) (artist_profiles s)))
       (sort_by (\<lambda>a b. sv_created_at b \<le> sv_created_at a) (filter (\<lambda>v. sv_planner_id v = planner) (saved_artists s))))"

definition list_my_saved_ids :: "uuid \<Rightarrow> db \<Rightarrow> uuid list" where
  "list_my_saved_ids planner s = map sv_artist_profile_id (filter (\<lambda>v. sv_planner_id v = planner) (saved_artists s))"

lemmas saved_op_defs [op_defs] = save_artist_def unsave_artist_def

section \<open>What it gives away\<close>

text \<open>
  C30: a planner who saves an artist, with or without a membership, reads the artist's name, exact
  price and links in the list of saved artists, even of an account that is not live; the profile page
  shows the same viewer none of the three.
\<close>

theorem saved_list_hands_out_hidden_fields:
  assumes "p \<in> set (artist_profiles s)" and "distinct (map ap_id (artist_profiles s))"
    and "save_artist ck u (ap_id p) s = (r, s')"
    and "outsider ck v s'" and "vw_user_id v = Some u" and "u \<noteq> ap_user_id p"
  shows "r = Inr ''Saved.'' \<and>
    (\<exists>card \<in> set (list_my_saved u s'). map_of (cd_profile card) ''id'' = Some (JUuid (ap_id p))
        \<and> map_of (cd_profile card) ''display_name'' = Some (jtext (ap_display_name p))
        \<and> map_of (cd_profile card) ''base_price_usd'' = Some (jrat (ap_base_price_usd p))
        \<and> map_of (cd_profile card) ''social_links'' = Some (JObj (ap_social_links p))) \<and>
    (case find_one_artist ck v (ap_id p) s' of Inl e \<Rightarrow> True
     | Inr page \<Rightarrow> map_of (pg_profile page) ''display_name'' = None \<and> map_of (pg_profile page) ''base_price_usd'' = None
         \<and> map_of (pg_profile page) ''social_links'' = None)"
proof -
  have found: "find (\<lambda>x. ap_id x = ap_id p) (artist_profiles s) = Some p" by (rule find_distinct_key [OF assms(2,1)])
  then have r: "r = Inr ''Saved.''" and same: "artist_profiles s' = artist_profiles s"
    and there: "\<exists>w \<in> set (saved_artists s'). sv_planner_id w = u \<and> sv_artist_profile_id w = ap_id p"
    using assms(3) by (auto simp: save_artist_def list_ex_iff split: if_splits)
  let ?card = "\<lambda>w. \<lparr>cd_profile = select_columns saved_columns (artist_row p) @ [(''saved_at'', JTime (sv_created_at w))],
      cd_categories = categories_of_artist s' (ap_id p)\<rparr>"
  obtain w where "w \<in> set (saved_artists s')" "sv_planner_id w = u" "sv_artist_profile_id w = ap_id p" using there by blast
  then have card: "?card w \<in> set (list_my_saved u s')" using assms(1) same by (force simp: list_my_saved_def)
  have row: "map_of (cd_profile (?card w)) ''id'' = Some (JUuid (ap_id p))
        \<and> map_of (cd_profile (?card w)) ''display_name'' = Some (jtext (ap_display_name p))
        \<and> map_of (cd_profile (?card w)) ''base_price_usd'' = Some (jrat (ap_base_price_usd p))
        \<and> map_of (cd_profile (?card w)) ''social_links'' = Some (JObj (ap_social_links p))"
    by (simp add: select_columns_def saved_columns_def artist_row_def)
  have hidden: "case find_one_artist ck v (ap_id p) s' of Inl e \<Rightarrow> True
     | Inr page \<Rightarrow> map_of (pg_profile page) ''display_name'' = None \<and> map_of (pg_profile page) ''base_price_usd'' = None
         \<and> map_of (pg_profile page) ''social_links'' = None"
  proof (cases "find (\<lambda>x. ap_id x = ap_id p \<and> active_user s' (ap_user_id x)) (artist_profiles s')")
    case (Some q)
    have "q = p" using find_SomeD [OF Some] assms(1,2) same by (metis distinct_key_eq)
    let ?t = "resolve_viewer_tier ck v (Some (ap_user_id p)) s'"
    have low: "?t \<noteq> T_subscribed" using assms(4,5,6) by (auto simp: outsider_def resolve_viewer_tier_def)
    obtain extra where extra: "joined_at s' (ap_user_id p) = extra" "extra = [] \<or> (\<exists>j. extra = [(''joined_at'', j)])"
      by (simp add: joined_at_def split: option.split)
    have "map_of (shape_artist_profile (select_columns (profile_columns_for ?t) (artist_row p) @ extra) ?t) k = None"
      if "k = ''display_name'' \<or> k = ''base_price_usd'' \<or> k = ''social_links''" for k
      using extra(2) that by (elim disjE exE) (simp_all add: masked_row [OF low] masked_row [OF low, of "[]", simplified])
    then show ?thesis using Some \<open>q = p\<close> extra(1) by (simp add: find_one_artist_def Let_def)
  qed (simp add: find_one_artist_def)
  show ?thesis using r card row hidden by blast
qed


theorem saved_list_hands_out_hidden_fields_witness:
  "\<exists>card \<in> set (list_my_saved 3 (snd (save_artist \<lparr>db_now = 5, js_now = 5\<rparr> 3 8 (demo_directory [demo_singer ''Karim'' 340])))).
      map_of (cd_profile card) ''display_name'' = Some (JStr ''Karim'') \<and> map_of (cd_profile card) ''base_price_usd'' = Some (JRat 340)"
proof -
  let ?s = "demo_directory [demo_singer ''Karim'' 340]" and ?p = "demo_singer ''Karim'' 340"
  let ?run = "save_artist \<lparr>db_now = 5, js_now = 5\<rparr> 3 8 ?s"
  let ?v = "\<lparr>vw_user_id = Some 3, vw_role = Some R_planner, vw_session_id = None\<rparr>"
  have ids: "ap_id ?p = 8" "ap_user_id ?p = 7" by (simp_all add: demo_singer_def default_artist_profile_def)
  have p: "?p \<in> set (artist_profiles ?s)" "distinct (map ap_id (artist_profiles ?s))" by (simp_all add: demo_directory_def)
  have "subscriptions (snd ?run) = []" by (simp add: save_artist_def demo_directory_def ids empty_db_def)
  then have out: "outsider \<lparr>db_now = 5, js_now = 5\<rparr> ?v (snd ?run)" by (simp add: outsider_def has_active_iff)
  have run: "save_artist \<lparr>db_now = 5, js_now = 5\<rparr> 3 (ap_id ?p) ?s = (fst ?run, snd ?run)" by (simp add: ids)
  from saved_list_hands_out_hidden_fields [OF p run out] ids
  show ?thesis by (simp add: demo_singer_def jtext_def jrat_def) blast
qed

end
