(* ===== verification/Media.thy ===== *)
theory Media
  imports Artists Identity_Documents
begin

text \<open>
  \<open>src/media/media.service.ts\<close>: the photos and videos of a profile. The public bucket is the list of
  its keys; what \<open>HeadObject\<close> answers and whether a delete is carried out are arguments. The
  theory is about one request of a user at a time. The advisory lock of \<open>confirm\<close> makes that true of
  confirmations among themselves; \<open>setPrimary\<close> and \<open>remove\<close> do not take it, and \<open>setPrimary\<close> brings the
  thumbnail up to date after its transaction.
\<close>

definition max_photo_bytes :: int where
  "max_photo_bytes = 10 * 1024 * 1024"

definition max_video_bytes :: int where
  "max_video_bytes = 250 * 1024 * 1024"

definition max_video_seconds :: int where
  "max_video_seconds = 60"

definition max_media_items :: nat where
  "max_media_items = 20"

definition media_mime_map :: "string \<Rightarrow> string option" where
  "media_mime_map = map_of [(''.jpg'', ''image/jpeg''), (''.jpeg'', ''image/jpeg''), (''.png'', ''image/png''),
     (''.webp'', ''image/webp''), (''.mp4'', ''video/mp4''), (''.mov'', ''video/quicktime'')]"

record presign_media_dto =
  pm_media_type :: media_type
  pm_filename :: string
  pm_file_size_bytes :: int
  pm_duration_sec :: "int option"

record confirm_media_dto =
  cm_s3_key :: string
  cm_media_type :: media_type
  cm_file_size_bytes :: int
  cm_duration_sec :: "int option"

definition validate_file_size_cap :: "media_type \<Rightarrow> int \<Rightarrow> http_error option" where
  "validate_file_size_cap mt bytes =
     (if mt = M_photo \<and> bytes > max_photo_bytes then Some (BadRequest ''Photos must be 10 MB or smaller.'')
      else if mt = M_video \<and> bytes > max_video_bytes then Some (BadRequest ''Videos must be 250 MB or smaller.'')
      else None)"

definition presign_media :: "string \<Rightarrow> uuid \<Rightarrow> presign_media_dto \<Rightarrow> string result" where
  "presign_media draw uid dto =
     (case validate_file_size_cap (pm_media_type dto) (pm_file_size_bytes dto) of
        Some e \<Rightarrow> Inl e
      | None \<Rightarrow>
          if pm_media_type dto = M_video \<and> pm_duration_sec dto = None then Inl (BadRequest ''Video duration is required.'')
          else if pm_media_type dto = M_video \<and> (case pm_duration_sec dto of None \<Rightarrow> False | Some d \<Rightarrow> d > max_video_seconds)
          then Inl (BadRequest (''Videos must be '' @ show_int max_video_seconds @ '' seconds or shorter.''))
          else (let ext = to_lower (ext_name (pm_filename dto))
            in case media_mime_map ext of
                 None \<Rightarrow> Inl (BadRequest (''Unsupported file type: '' @ ext))
               | Some _ \<Rightarrow> Inr (''uploads/'' @ show_nat uid @ ''/'' @ draw @ ext)))"

text \<open>What storage says of a key: its length, if it tells, or that it is not there, or that it failed.\<close>

datatype head_answer = Head_found "int option" | Head_missing | Head_failed

definition assert_object_exists :: "(string \<Rightarrow> head_answer) \<Rightarrow> string \<Rightarrow> int \<Rightarrow> http_error option" where
  "assert_object_exists head key declared =
     (case head key of
        Head_missing \<Rightarrow> Some (BadRequest ''That upload was not found in storage. Please upload the file again.'')
      | Head_failed \<Rightarrow> Some (InternalError ''HeadObject failed'')
      | Head_found None \<Rightarrow> None
      | Head_found (Some n) \<Rightarrow>
          if n \<noteq> declared then Some (BadRequest ''The uploaded file does not match the size that was declared.'') else None)"

definition own_uploads :: "uuid \<Rightarrow> string" where
  "own_uploads uid = ''uploads/'' @ show_nat uid @ ''/''"

definition user_media :: "uuid \<Rightarrow> db \<Rightarrow> media_row list" where
  "user_media uid s = filter (\<lambda>m. md_user_id m = uid) (media_items s)"

definition sync_thumbnail :: "uuid \<Rightarrow> string option \<Rightarrow> db \<Rightarrow> db" where
  "sync_thumbnail uid url s =
     s\<lparr>artist_profiles := update_where (\<lambda>p. ap_user_id p = uid) (\<lambda>p. p\<lparr>ap_thumbnail_url := url\<rparr>) (artist_profiles s),
       planner_profiles := update_where (\<lambda>p. pp_user_id p = uid) (\<lambda>p. p\<lparr>pp_thumbnail_url := url\<rparr>) (planner_profiles s)\<rparr>"

text \<open>\<open>max('sort_order')\<close>, null of no rows.\<close>

definition max_sort :: "media_row list \<Rightarrow> int option" where
  "max_sort ms = (case ms of [] \<Rightarrow> None | m # rest \<Rightarrow> Some (foldl max (md_sort_order m) (map md_sort_order rest)))"

definition confirm_media ::
  "string \<Rightarrow> (string \<Rightarrow> head_answer) \<Rightarrow> clock \<Rightarrow> uuid \<Rightarrow> confirm_media_dto \<Rightarrow> db \<Rightarrow> media_row result \<times> db" where
  "confirm_media cdn_base head ck uid dto s =
     (case validate_file_size_cap (cm_media_type dto) (cm_file_size_bytes dto) of
        Some e \<Rightarrow> (Inl e, s)
      | None \<Rightarrow>
          if \<not> starts_with (own_uploads uid) (cm_s3_key dto) then (Inl (BadRequest ''That upload does not belong to you.''), s)
          else case assert_object_exists head (cm_s3_key dto) (cm_file_size_bytes dto) of
            Some e \<Rightarrow> (Inl e, s)
          | None \<Rightarrow>
              (let url = cdn_base @ ''/'' @ cm_s3_key dto;
                   count = aggregate_value (Some (length (user_media uid s)))
               in if count \<ge> max_media_items
                  then (Inl (BadRequest (''Maximum of '' @ show_nat max_media_items @ '' media items per profile.'')), s)
                  else (let primary = (count = 0 \<and> cm_media_type dto = M_photo);
                            row = \<lparr>md_id = next_id s, md_user_id = uid, md_media_type = cm_media_type dto, md_s3_key = cm_s3_key dto,
                              md_cdn_url = url, md_file_size_bytes = cm_file_size_bytes dto, md_duration_sec = cm_duration_sec dto,
                              md_is_primary = primary,
                              md_sort_order = (case max_sort (user_media uid s) of None \<Rightarrow> 0 | Some n \<Rightarrow> n + 1),
                              md_created_at = db_now ck\<rparr>;
                            s1 = s\<lparr>media_items := media_items s @ [row], next_id := Suc (next_id s)\<rparr>
                    in (Inr row, if primary then sync_thumbnail uid (Some url) s1 else s1))))"

definition set_primary :: "uuid \<Rightarrow> uuid \<Rightarrow> db \<Rightarrow> string result \<times> db" where
  "set_primary uid mid s =
     (case find (\<lambda>m. md_id m = mid) (media_items s) of
        None \<Rightarrow> (Inl (NotFound ''Media item not found.''), s)
      | Some item \<Rightarrow>
          if md_user_id item \<noteq> uid then (Inl (Forbidden ''Not your media.''), s)
          else if md_media_type item \<noteq> M_photo then (Inl (BadRequest ''Only photos can be set as primary.''), s)
          else (Inr ''Primary photo updated.'',
            sync_thumbnail uid (Some (md_cdn_url item))
              (s\<lparr>media_items := update_where (\<lambda>m. md_id m = mid) (\<lambda>m. m\<lparr>md_is_primary := True\<rparr>)
                   (update_where (\<lambda>m. md_user_id m = uid \<and> md_is_primary m) (\<lambda>m. m\<lparr>md_is_primary := False\<rparr>) (media_items s))\<rparr>)))"

definition next_photo :: "uuid \<Rightarrow> media_row list \<Rightarrow> media_row option" where
  "next_photo uid ms =
     (case sort_by (\<lambda>a b. md_sort_order a \<le> md_sort_order b) (filter (\<lambda>m. md_user_id m = uid \<and> md_media_type m = M_photo) ms) of
        [] \<Rightarrow> None | m # _ \<Rightarrow> Some m)"

text \<open>\<open>accepts\<close> says whether the storage carries out the delete; its failure is logged and survived.\<close>

definition remove_media :: "(string \<Rightarrow> bool) \<Rightarrow> uuid \<Rightarrow> uuid \<Rightarrow> db \<times> string list \<Rightarrow> string result \<times> db \<times> string list" where
  "remove_media accepts uid mid w = (case w of (s, bucket) \<Rightarrow>
     (case find (\<lambda>m. md_id m = mid) (media_items s) of
        None \<Rightarrow> (Inl (NotFound ''Media item not found.''), s, bucket)
      | Some item \<Rightarrow>
          if md_user_id item \<noteq> uid then (Inl (Forbidden ''Not your media.''), s, bucket)
          else (let s1 = s\<lparr>media_items := filter (\<lambda>m. md_id m \<noteq> mid) (media_items s)\<rparr>;
                    bucket1 = (if accepts (md_s3_key item) then removeAll (md_s3_key item) bucket else bucket);
                    s2 = (if md_is_primary item
                          then (case next_photo uid (media_items s1) of
                                  Some p \<Rightarrow> sync_thumbnail uid (Some (md_cdn_url p))
                                    (s1\<lparr>media_items := update_where (\<lambda>m. md_id m = md_id p) (\<lambda>m. m\<lparr>md_is_primary := True\<rparr>) (media_items s1)\<rparr>)
                                | None \<Rightarrow> sync_thumbnail uid None s1)
                          else s1)
                in (Inr ''Media deleted.'', s2, bucket1))))"

lemmas media_op_defs [op_defs] = confirm_media_def set_primary_def remove_media_def sync_thumbnail_def

end
