(* ===== verification/Media_Rules.thy ===== *)
theory Media_Rules
  imports Media
begin

text \<open>
  The profile picture: at most one per user, always a photo, always the one the profile shows; at
  most twenty items; and the video that came first.
\<close>

section \<open>What holds of the media tables\<close>

definition primary_url :: "uuid \<Rightarrow> media_row list \<Rightarrow> string option" where
  "primary_url uid ms = map_option md_cdn_url (find (\<lambda>m. md_user_id m = uid \<and> md_is_primary m) ms)"

definition media_ok :: "db \<Rightarrow> bool" where
  "media_ok s \<longleftrightarrow>
     distinct (map md_id (media_items s)) \<and> list_all (\<lambda>m. md_id m < next_id s) (media_items s) \<and>
     (\<forall>uid. length (user_media uid s) \<le> max_media_items) \<and>
     distinct (map md_user_id (filter md_is_primary (media_items s))) \<and>
     list_all (\<lambda>m. md_is_primary m \<longrightarrow> md_media_type m = M_photo) (media_items s) \<and>
     list_all (\<lambda>p. ap_thumbnail_url p = primary_url (ap_user_id p) (media_items s)) (artist_profiles s) \<and>
     list_all (\<lambda>p. pp_thumbnail_url p = primary_url (pp_user_id p) (media_items s)) (planner_profiles s)"

text \<open>Changing the media of one user and writing the new picture to the profiles keeps them in step.\<close>

definition in_step :: "db \<Rightarrow> bool" where
  "in_step s \<longleftrightarrow>
     list_all (\<lambda>p. ap_thumbnail_url p = primary_url (ap_user_id p) (media_items s)) (artist_profiles s) \<and>
     list_all (\<lambda>p. pp_thumbnail_url p = primary_url (pp_user_id p) (media_items s)) (planner_profiles s)"

lemma in_step_same:
  assumes "in_step s" and "\<And>u. primary_url u ms = primary_url u (media_items s)"
  shows "in_step (s\<lparr>media_items := ms, next_id := n\<rparr>)" and "in_step (s\<lparr>media_items := ms\<rparr>)"
  using assms by (simp_all add: in_step_def)

lemma in_step_sync:
  assumes "in_step s" and "\<And>u. u \<noteq> uid \<Longrightarrow> primary_url u ms = primary_url u (media_items s)" and "primary_url uid ms = url"
    and "artist_profiles t = artist_profiles s" and "planner_profiles t = planner_profiles s" and "media_items t = ms"
  shows "in_step (sync_thumbnail uid url t)"
  using assms by (auto simp: in_step_def sync_thumbnail_def list_all_iff set_update_where)

lemma media_ok_iff: "media_ok s \<longleftrightarrow>
     distinct (map md_id (media_items s)) \<and> list_all (\<lambda>m. md_id m < next_id s) (media_items s) \<and>
     (\<forall>uid. length (user_media uid s) \<le> max_media_items) \<and>
     distinct (map md_user_id (filter md_is_primary (media_items s))) \<and>
     list_all (\<lambda>m. md_is_primary m \<longrightarrow> md_media_type m = M_photo) (media_items s) \<and> in_step s"
  by (simp add: media_ok_def in_step_def)

lemma sync_thumbnail_frame [simp]:
  "media_items (sync_thumbnail uid url s) = media_items s" "next_id (sync_thumbnail uid url s) = next_id s"
  "user_media u (sync_thumbnail uid url s) = user_media u s"
  by (simp_all add: sync_thumbnail_def user_media_def)

lemma primary_url_append: "primary_url u (ms @ [m]) =
    (case primary_url u ms of Some x \<Rightarrow> Some x | None \<Rightarrow> if md_user_id m = u \<and> md_is_primary m then Some (md_cdn_url m) else None)"
  by (simp add: primary_url_def find_append split: option.split)

lemma primary_url_none: "\<forall>m \<in> set ms. \<not> (md_user_id m = u \<and> md_is_primary m) \<Longrightarrow> primary_url u ms = None"
  by (auto simp: primary_url_def find_None_iff)

lemma primary_url_some:
  assumes "distinct (map md_user_id (filter md_is_primary ms))" and "m \<in> set ms" and "md_is_primary m"
  shows "primary_url (md_user_id m) ms = Some (md_cdn_url m)"
proof -
  have "find (\<lambda>x. md_user_id x = md_user_id m) (filter md_is_primary ms) = Some m"
    by (rule find_distinct_key [OF assms(1)]) (use assms(2,3) in simp)
  moreover have "find P (filter Q xs) = find (\<lambda>x. P x \<and> Q x) xs" for P Q and xs :: "media_row list" by (induction xs) auto
  ultimately show ?thesis by (simp add: primary_url_def)
qed

section \<open>Confirming\<close>

text \<open>A confirmation that goes through appends one row; any other leaves the database alone.\<close>

lemma confirm_media_cases:
  obtains (refused) e where "confirm_media base head ck uid dto s = (Inl e, s)"
  | (stored) row where "length (user_media uid s) < max_media_items" "md_user_id row = uid" "md_id row = next_id s"
    "md_is_primary row \<longleftrightarrow> user_media uid s = [] \<and> cm_media_type dto = M_photo" "md_media_type row = cm_media_type dto"
    "confirm_media base head ck uid dto s = (Inr row,
      (if md_is_primary row then sync_thumbnail uid (Some (md_cdn_url row)) (s\<lparr>media_items := media_items s @ [row], next_id := Suc (next_id s)\<rparr>)
       else s\<lparr>media_items := media_items s @ [row], next_id := Suc (next_id s)\<rparr>))"
proof (cases "validate_file_size_cap (cm_media_type dto) (cm_file_size_bytes dto)")
  case None
  note v = None
  show ?thesis
  proof (cases "starts_with (own_uploads uid) (cm_s3_key dto)")
    case True
    note own = True
    show ?thesis
    proof (cases "assert_object_exists head (cm_s3_key dto) (cm_file_size_bytes dto)")
      case None
      note h = None
      show ?thesis
      proof (cases "length (user_media uid s) < max_media_items")
        case True
        then show ?thesis using v own h
          by (intro stored [of "\<lparr>md_id = next_id s, md_user_id = uid, md_media_type = cm_media_type dto, md_s3_key = cm_s3_key dto,
              md_cdn_url = base @ ''/'' @ cm_s3_key dto, md_file_size_bytes = cm_file_size_bytes dto, md_duration_sec = cm_duration_sec dto,
              md_is_primary = (user_media uid s = [] \<and> cm_media_type dto = M_photo),
              md_sort_order = (case max_sort (user_media uid s) of None \<Rightarrow> 0 | Some n \<Rightarrow> n + 1), md_created_at = db_now ck\<rparr>"])
            (simp_all add: confirm_media_def Let_def aggregate_value_def)
      qed (rule refused, use v own h in \<open>simp add: confirm_media_def Let_def aggregate_value_def\<close>)
    qed (rule refused, use v own in \<open>simp add: confirm_media_def\<close>)
  qed (rule refused, use v in \<open>simp add: confirm_media_def\<close>)
qed (rule refused, simp add: confirm_media_def)

lemma confirm_media_ok:
  assumes ok: "media_ok s"
  shows "media_ok (snd (confirm_media base head ck uid dto s))"
proof (cases rule: confirm_media_cases [of base head ck uid dto s])
  case (refused e)
  with ok show ?thesis by simp
next
  case (stored row)
  note few = stored(1) and row = stored(2-5)
  have st: "snd (confirm_media base head ck uid dto s) =
      (if md_is_primary row then sync_thumbnail uid (Some (md_cdn_url row)) (s\<lparr>media_items := media_items s @ [row], next_id := Suc (next_id s)\<rparr>)
       else s\<lparr>media_items := media_items s @ [row], next_id := Suc (next_id s)\<rparr>)"
    by (simp only: stored(6) snd_conv)
  let ?ms = "media_items s @ [row]" and ?t = "snd (confirm_media base head ck uid dto s)"
  have tables: "media_items ?t = ?ms" "next_id ?t = Suc (next_id s)" by (simp_all add: st)
  have oks: "distinct (map md_id (media_items s))" "list_all (\<lambda>m. md_id m < next_id s) (media_items s)"
    "\<And>u. length (user_media u s) \<le> max_media_items" "distinct (map md_user_id (filter md_is_primary (media_items s)))"
    "list_all (\<lambda>m. md_is_primary m \<longrightarrow> md_media_type m = M_photo) (media_items s)" "in_step s"
    using ok by (simp_all add: media_ok_iff)
  have alone: "primary_url uid (media_items s) = None" if "md_is_primary row"
    by (rule primary_url_none) (use that row(3) in \<open>auto simp: user_media_def filter_empty_conv\<close>)
  have "in_step ?t"
  proof (cases "md_is_primary row")
    case True
    have "in_step (sync_thumbnail uid (Some (md_cdn_url row)) (s\<lparr>media_items := ?ms, next_id := Suc (next_id s)\<rparr>))"
      by (rule in_step_sync [OF oks(6)])
        (use True row(1) alone [OF True] in \<open>auto simp: primary_url_append split: option.split\<close>)
    with True show ?thesis by (simp add: st)
  next
    case False
    have "primary_url u ?ms = primary_url u (media_items s)" for u
      using False by (simp add: primary_url_append split: option.split)
    from in_step_same(1) [OF oks(6) this] False show ?thesis by (simp add: st)
  qed
  moreover have "length (user_media u ?t) \<le> max_media_items" for u
    unfolding user_media_def tables using oks(3) [of u] few row(1) by (cases "uid = u") (simp_all add: user_media_def)
  moreover have "distinct (map md_user_id (filter md_is_primary ?ms))"
  proof -
    have "uid \<notin> md_user_id ` set (filter md_is_primary (media_items s))" if "md_is_primary row"
      using that row(3) by (auto simp: user_media_def filter_empty_conv)
    with oks(4) row(1) show ?thesis by auto
  qed
  moreover have "distinct (map md_id ?ms)" "list_all (\<lambda>m. md_id m < Suc (next_id s)) ?ms"
    "list_all (\<lambda>m. md_is_primary m \<longrightarrow> md_media_type m = M_photo) ?ms"
    using oks(1,2,5) row by (auto simp: list_all_iff less_Suc_eq)
  ultimately show ?thesis by (simp add: media_ok_iff tables)
qed


section \<open>Choosing and removing\<close>

lemma primary_url_cong: "(\<And>m. m \<in> set ms \<Longrightarrow> md_user_id m \<noteq> u) \<Longrightarrow> primary_url u ms = None"
  by (rule primary_url_none) blast

lemma length_filter_update: "(\<And>m. md_user_id (f m) = md_user_id m) \<Longrightarrow>
    length (filter (\<lambda>m. md_user_id m = u) (update_where P f ms)) = length (filter (\<lambda>m. md_user_id m = u) ms)"
  by (induction ms) auto

lemma primary_url_Cons: "primary_url u (m # ms) = (if md_user_id m = u \<and> md_is_primary m then Some (md_cdn_url m) else primary_url u ms)"
  by (simp add: primary_url_def)

text \<open>Updates of another user's rows do not move the picture.\<close>

lemma primary_url_update_other:
  "(\<And>m. m \<in> set ms \<Longrightarrow> P m \<Longrightarrow> md_user_id m \<noteq> u \<and> md_user_id (f m) \<noteq> u) \<Longrightarrow> primary_url u (update_where P f ms) = primary_url u ms"
proof (induction ms)
  case (Cons m ms)
  then have "primary_url u (update_where P f ms) = primary_url u ms" by simp
  with Cons.prems [of m] show ?case by (auto simp: primary_url_Cons)
qed simp

lemma primary_url_filter_other:
  "(\<And>m. m \<in> set ms \<Longrightarrow> \<not> P m \<Longrightarrow> \<not> (md_user_id m = u \<and> md_is_primary m)) \<Longrightarrow> primary_url u (filter P ms) = primary_url u ms"
proof (induction ms)
  case (Cons m ms)
  then have "primary_url u (filter P ms) = primary_url u ms" by simp
  with Cons.prems [of m] show ?case by (auto simp: primary_url_Cons)
qed simp

text \<open>Marking one row, when none of its owner's is marked, makes it the picture.\<close>

definition mark :: "uuid \<Rightarrow> media_row list \<Rightarrow> media_row list" where
  "mark mid ms = update_where (\<lambda>m. md_id m = mid) (\<lambda>m. m\<lparr>md_is_primary := True\<rparr>) ms"

lemma list_all_mark:
  "(\<And>m. m \<in> set ms \<Longrightarrow> if md_id m = mid then Q (m\<lparr>md_is_primary := True\<rparr>) else Q m) \<Longrightarrow> list_all Q (mark mid ms)"
  unfolding mark_def by (induction ms) (simp, force)

lemma mark_facts:
  assumes "distinct (map md_id ms)" and "item \<in> set ms" and "\<forall>m \<in> set ms. md_is_primary m \<longrightarrow> md_user_id m \<noteq> md_user_id item"
    and "distinct (map md_user_id (filter md_is_primary ms))"
  shows "primary_url (md_user_id item) (mark (md_id item) ms) = Some (md_cdn_url item)"
    and "u \<noteq> md_user_id item \<Longrightarrow> primary_url u (mark (md_id item) ms) = primary_url u ms"
    and "distinct (map md_user_id (filter md_is_primary (mark (md_id item) ms)))"
proof -
  have only: "m = item" if "m \<in> set ms" "md_id m = md_id item" for m using distinct_key_eq [OF assms(1) that(1) assms(2) that(2)] .
  show uniq: "distinct (map md_user_id (filter md_is_primary (mark (md_id item) ms)))"
    unfolding mark_def
  proof (rule distinct_filter_update_one [OF assms(4,1)])
    fix x
    assume "x \<in> set ms" "md_id x = md_id item"
    with only have "x = item" by blast
    then show "md_user_id (x\<lparr>md_is_primary := True\<rparr>) \<notin> md_user_id ` set (filter md_is_primary ms)" using assms(3) by auto
  qed
  have "item\<lparr>md_is_primary := True\<rparr> \<in> set (mark (md_id item) ms)" unfolding mark_def
    by (rule update_where_mem [where f = "\<lambda>m. m\<lparr>md_is_primary := True\<rparr>", OF assms(2)]) simp
  from primary_url_some [OF uniq this] show "primary_url (md_user_id item) (mark (md_id item) ms) = Some (md_cdn_url item)" by simp
  show "primary_url u (mark (md_id item) ms) = primary_url u ms" if "u \<noteq> md_user_id item"
    unfolding mark_def by (rule primary_url_update_other) (use only that in auto)
qed

lemma set_primary_ok:
  assumes ok: "media_ok s"
  shows "media_ok (snd (set_primary uid mid s))"
proof (cases "find (\<lambda>m. md_id m = mid) (media_items s)")
  case (Some item)
  show ?thesis
  proof (cases "md_user_id item = uid \<and> md_media_type item = M_photo")
    case True
    have item: "item \<in> set (media_items s)" "md_id item = mid" using find_SomeD [OF Some] by auto
    let ?off = "update_where (\<lambda>m. md_user_id m = uid \<and> md_is_primary m) (\<lambda>m. m\<lparr>md_is_primary := False\<rparr>) (media_items s)"
    have st: "snd (set_primary uid mid s) = sync_thumbnail uid (Some (md_cdn_url item)) (s\<lparr>media_items := mark mid ?off\<rparr>)"
      using Some True by (simp add: set_primary_def mark_def)
    have oks: "distinct (map md_id (media_items s))" "list_all (\<lambda>m. md_id m < next_id s) (media_items s)"
      "\<And>u. length (user_media u s) \<le> max_media_items" "distinct (map md_user_id (filter md_is_primary (media_items s)))"
      "list_all (\<lambda>m. md_is_primary m \<longrightarrow> md_media_type m = M_photo) (media_items s)" "in_step s"
      using ok by (simp_all add: media_ok_iff)
    have ids: "distinct (map md_id ?off)" using oks(1) by (simp add: map_update_where_same)
    define it where "it = (if md_is_primary item then item\<lparr>md_is_primary := False\<rparr> else item)"
    have it: "it \<in> set ?off" "md_id it = mid" "md_user_id it = uid" "md_cdn_url it = md_cdn_url item" "md_media_type it = M_photo"
      using item True unfolding it_def set_update_where by (auto simp: image_iff intro!: bexI [of _ item])
    have none: "\<forall>m \<in> set ?off. md_is_primary m \<longrightarrow> md_user_id m \<noteq> md_user_id it"
      using it(3) by (auto simp: set_update_where split: if_splits)
    have uniq: "distinct (map md_user_id (filter md_is_primary ?off))"
      by (rule distinct_filter_update_where [OF _ _ oks(4)]) simp_all
    note facts = mark_facts [OF ids it(1) none uniq, unfolded it(2,3,4)]
    have other: "primary_url u (mark mid ?off) = primary_url u (media_items s)" if "u \<noteq> uid" for u
    proof -
      have "primary_url u ?off = primary_url u (media_items s)" by (rule primary_url_update_other) (use that in auto)
      with facts(2) [OF that] show ?thesis by simp
    qed
    have "in_step (snd (set_primary uid mid s))" unfolding st
      by (rule in_step_sync [OF oks(6)]) (use other facts(1) in simp_all)
    moreover have "list_all (\<lambda>m. md_is_primary m \<longrightarrow> md_media_type m = M_photo) (mark mid ?off)"
    proof -
      have "md_media_type m = M_photo" if "m \<in> set ?off" "md_id m = mid" for m
        using distinct_key_eq [OF ids that(1) it(1)] that(2) it(2,5) by simp
      moreover have "list_all (\<lambda>m. md_is_primary m \<longrightarrow> md_media_type m = M_photo) ?off"
        by (rule list_all_update_where [OF oks(5)]) simp
      ultimately have "if md_id m = mid then md_media_type m = M_photo else md_is_primary m \<longrightarrow> md_media_type m = M_photo" if "m \<in> set ?off" for m
        using that by (simp add: list_all_iff)
      then show ?thesis by (intro list_all_mark) simp
    qed
    moreover have "distinct (map md_id (mark mid ?off))" using ids by (simp add: mark_def map_update_where_same)
    moreover have "list_all (\<lambda>m. md_id m < next_id s) (mark mid ?off)"
      unfolding mark_def by (intro list_all_update_where oks(2)) simp_all
    moreover have "length (user_media u (snd (set_primary uid mid s))) \<le> max_media_items" for u
      using oks(3) [of u] unfolding st by (simp add: user_media_def mark_def length_filter_update)
    moreover have "next_id (snd (set_primary uid mid s)) = next_id s" "media_items (snd (set_primary uid mid s)) = mark mid ?off"
      by (simp_all add: st)
    ultimately show ?thesis using facts(3) by (simp add: media_ok_iff)
  next
    case False
    then have "snd (set_primary uid mid s) = s" using Some by (simp add: set_primary_def)
    with ok show ?thesis by simp
  qed
qed (use ok in \<open>simp add: set_primary_def\<close>)


lemma next_photo_SomeD:
  assumes "next_photo uid ms = Some p"
  shows "p \<in> set ms \<and> md_user_id p = uid \<and> md_media_type p = M_photo"
proof -
  let ?fs = "filter (\<lambda>m. md_user_id m = uid \<and> md_media_type m = M_photo) ms"
  obtain rest where "sort_by (\<lambda>a b. md_sort_order a \<le> md_sort_order b) ?fs = p # rest"
    using assms by (auto simp: next_photo_def split: list.splits)
  then have "p \<in> set (sort_by (\<lambda>a b. md_sort_order a \<le> md_sort_order b) ?fs)" by simp
  then show ?thesis by simp
qed

lemma distinct_filter_filter: "distinct (map g (filter Q xs)) \<Longrightarrow> distinct (map g (filter Q (filter P xs)))"
  by (induction xs) auto

lemma remove_media_ok:
  assumes ok: "media_ok s"
  shows "media_ok (fst (snd (remove_media accepts uid mid (s, bucket))))"
proof (cases "find (\<lambda>m. md_id m = mid) (media_items s)")
  case (Some item)
  show ?thesis
  proof (cases "md_user_id item = uid")
    case True
    have item: "item \<in> set (media_items s)" "md_id item = mid" using find_SomeD [OF Some] by auto
    have oks: "distinct (map md_id (media_items s))" "list_all (\<lambda>m. md_id m < next_id s) (media_items s)"
      "\<And>u. length (user_media u s) \<le> max_media_items" "distinct (map md_user_id (filter md_is_primary (media_items s)))"
      "list_all (\<lambda>m. md_is_primary m \<longrightarrow> md_media_type m = M_photo) (media_items s)" "in_step s"
      using ok by (simp_all add: media_ok_iff)
    let ?ms = "filter (\<lambda>m. md_id m \<noteq> mid) (media_items s)"
    have only: "m = item" if "m \<in> set (media_items s)" "md_id m = mid" for m
      using distinct_key_eq [OF oks(1) that(1) item(1)] that(2) item(2) by simp
    have base: "distinct (map md_id ?ms)" "list_all (\<lambda>m. md_id m < next_id s) ?ms" "distinct (map md_user_id (filter md_is_primary ?ms))"
      "list_all (\<lambda>m. md_is_primary m \<longrightarrow> md_media_type m = M_photo) ?ms"
      using oks(1,2,4,5) by (simp_all add: distinct_map_filter list_all_iff distinct_filter_filter del: filter_filter)
    have fewer: "length (filter (\<lambda>m. md_user_id m = u) ?ms) \<le> max_media_items" for u
      using oks(3) [of u] length_filter_mono [of "media_items s" "\<lambda>m. md_id m \<noteq> mid \<and> md_user_id m = u" "\<lambda>m. md_user_id m = u"]
      by (simp add: user_media_def)
    have other: "primary_url u ?ms = primary_url u (media_items s)" if "u \<noteq> uid" for u
      by (rule primary_url_filter_other) (use only True that in auto)
    show ?thesis
    proof (cases "md_is_primary item")
      case False
      have "primary_url u ?ms = primary_url u (media_items s)" for u
        by (rule primary_url_filter_other) (use only False in auto)
      from in_step_same(2) [OF oks(6) this] have "media_ok (s\<lparr>media_items := ?ms\<rparr>)"
        using base fewer by (simp add: media_ok_iff user_media_def)
      with Some True False show ?thesis by (simp add: remove_media_def Let_def)
    next
      case primary: True
      have gone: "\<forall>m \<in> set ?ms. md_is_primary m \<longrightarrow> md_user_id m \<noteq> uid"
      proof (intro ballI impI notI)
        fix m
        assume m: "m \<in> set ?ms" "md_is_primary m" "md_user_id m = uid"
        have "m = item" by (rule distinct_key_eq [OF oks(4)]) (use m item(1) primary True in auto)
        with m(1) item(2) show False by simp
      qed
      show ?thesis
      proof (cases "next_photo uid ?ms")
        case None
        have nil: "primary_url uid ?ms = None" by (rule primary_url_none) (use gone in blast)
        have "in_step (sync_thumbnail uid None (s\<lparr>media_items := ?ms\<rparr>))"
          by (rule in_step_sync [OF oks(6)]) (use other nil in simp_all)
        then have "media_ok (sync_thumbnail uid None (s\<lparr>media_items := ?ms\<rparr>))"
          using base fewer by (simp add: media_ok_iff user_media_def)
        with Some True primary None show ?thesis by (simp add: remove_media_def Let_def)
      next
        case (Some p)
        have p: "p \<in> set ?ms" "md_user_id p = uid" "md_media_type p = M_photo" using next_photo_SomeD [OF Some] by auto
        have none: "\<forall>m \<in> set ?ms. md_is_primary m \<longrightarrow> md_user_id m \<noteq> md_user_id p" using gone p(2) by simp
        note facts = mark_facts [OF base(1) p(1) none base(3), unfolded p(2)]
        have "in_step (sync_thumbnail uid (Some (md_cdn_url p)) (s\<lparr>media_items := mark (md_id p) ?ms\<rparr>))"
          by (rule in_step_sync [OF oks(6)]) (use other facts(1,2) in simp_all)
        moreover have "list_all (\<lambda>m. md_is_primary m \<longrightarrow> md_media_type m = M_photo) (mark (md_id p) ?ms)"
        proof -
          have "if md_id m = md_id p then md_media_type m = M_photo else md_is_primary m \<longrightarrow> md_media_type m = M_photo" if "m \<in> set ?ms" for m
            using distinct_key_eq [OF base(1) that p(1)] p(3) base(4) that by (cases "md_id m = md_id p") (simp_all add: list_all_iff)
          then show ?thesis by (intro list_all_mark) simp
        qed
        moreover have "distinct (map md_id (mark (md_id p) ?ms))" using base(1) by (simp add: mark_def map_update_where_same)
        moreover have "list_all (\<lambda>m. md_id m < next_id s) (mark (md_id p) ?ms)" unfolding mark_def by (intro list_all_update_where base(2)) simp_all
        moreover have "length (filter (\<lambda>m. md_user_id m = u) (mark (md_id p) ?ms)) \<le> max_media_items" for u
          using fewer [of u] by (simp add: mark_def length_filter_update)
        ultimately have "media_ok (sync_thumbnail uid (Some (md_cdn_url p)) (s\<lparr>media_items := mark (md_id p) ?ms\<rparr>))"
          using facts(3) by (simp add: media_ok_iff user_media_def)
        with \<open>find (\<lambda>m. md_id m = mid) (media_items s) = Some item\<close> True primary Some show ?thesis
          by (simp add: remove_media_def Let_def mark_def)
      qed
    qed
  next
    case False
    with ok Some show ?thesis by (simp add: remove_media_def)
  qed
qed (use ok in \<open>simp add: remove_media_def\<close>)

section \<open>Any sequence of requests\<close>

datatype media_request =
    Confirm_media uuid confirm_media_dto
  | Set_primary uuid uuid
  | Remove_media uuid uuid

definition media_step :: "string \<Rightarrow> (string \<Rightarrow> head_answer) \<Rightarrow> (string \<Rightarrow> bool) \<Rightarrow> clock \<times> media_request \<Rightarrow> db \<Rightarrow> db" where
  "media_step base head accepts e s = (case e of (ck, r) \<Rightarrow>
     (case r of
        Confirm_media uid dto \<Rightarrow> snd (confirm_media base head ck uid dto s)
      | Set_primary uid mid \<Rightarrow> snd (set_primary uid mid s)
      | Remove_media uid mid \<Rightarrow> fst (snd (remove_media accepts uid mid (s, [])))))"

text \<open>
  C31: whatever users upload, choose and remove, in any order, nobody has more than twenty items or
  more than one profile picture, a profile picture is a photo, and the picture every profile shows
  is the one its owner chose, or none when there is none.
\<close>

theorem profile_pictures_stay_in_step:
  assumes "media_ok s"
  shows "media_ok (fold (media_step base head accepts) rs s)"
  using assms
proof (induction rs arbitrary: s)
  case (Cons e rs)
  have "media_ok (media_step base head accepts e s)"
    using Cons.prems by (cases e) (simp add: media_step_def confirm_media_ok set_primary_ok remove_media_ok split: media_request.split)
  with Cons.IH show ?case by simp
qed simp

definition demo_upload :: "string \<Rightarrow> media_type \<Rightarrow> confirm_media_dto" where
  "demo_upload key mt = \<lparr>cm_s3_key = key, cm_media_type = mt, cm_file_size_bytes = 1000, cm_duration_sec = None\<rparr>"

definition demo_gallery :: db where
  "demo_gallery = empty_db\<lparr>artist_profiles := [default_artist_profile 8 7 1]\<rparr>"

lemma demo_gallery_ok: "media_ok demo_gallery"
  by (simp add: media_ok_def demo_gallery_def empty_db_def default_artist_profile_def user_media_def primary_url_def max_media_items_def)

lemma own_uploads_7: "own_uploads 7 = ''uploads/7/''"
  by code_simp

lemma demo_confirmed_upload: "confirm_media ''cdn'' (\<lambda>_. Head_found None) ck 7 (demo_upload ''uploads/7/a'' M_photo) demo_gallery =
    (Inr \<lparr>md_id = 0, md_user_id = 7, md_media_type = M_photo, md_s3_key = ''uploads/7/a'', md_cdn_url = ''cdn/uploads/7/a'', md_file_size_bytes = 1000,
       md_duration_sec = None, md_is_primary = True, md_sort_order = 0, md_created_at = db_now ck\<rparr>,
     sync_thumbnail 7 (Some ''cdn/uploads/7/a'') (demo_gallery\<lparr>media_items := [\<lparr>md_id = 0, md_user_id = 7, md_media_type = M_photo, md_s3_key = ''uploads/7/a'', md_cdn_url = ''cdn/uploads/7/a'', md_file_size_bytes = 1000,
       md_duration_sec = None, md_is_primary = True, md_sort_order = 0, md_created_at = db_now ck\<rparr>], next_id := 1\<rparr>))"
  by (simp add: confirm_media_def validate_file_size_cap_def demo_upload_def own_uploads_7 starts_with_def assert_object_exists_def max_photo_bytes_def
      user_media_def demo_gallery_def empty_db_def aggregate_value_def max_media_items_def max_sort_def Let_def)

theorem profile_pictures_stay_in_step_witness:
  "media_ok (fold (media_step ''cdn'' (\<lambda>_. Head_found None) (\<lambda>_. True)) [(\<lparr>db_now = 5, js_now = 5\<rparr>, Confirm_media 7 (demo_upload ''uploads/7/a'' M_photo))] demo_gallery)
   \<and> map ap_thumbnail_url (artist_profiles (fold (media_step ''cdn'' (\<lambda>_. Head_found None) (\<lambda>_. True)) [(\<lparr>db_now = 5, js_now = 5\<rparr>, Confirm_media 7 (demo_upload ''uploads/7/a'' M_photo))] demo_gallery))
     = [Some ''cdn/uploads/7/a'']"
  using profile_pictures_stay_in_step [OF demo_gallery_ok, of "''cdn''" "\<lambda>_. Head_found None" "\<lambda>_. True" "[(\<lparr>db_now = 5, js_now = 5\<rparr>, Confirm_media 7 (demo_upload ''uploads/7/a'' M_photo))]"]
  by (simp add: media_step_def demo_confirmed_upload) (simp add: sync_thumbnail_def demo_gallery_def default_artist_profile_def)

section \<open>A video that came first\<close>

text \<open>
  When a user's first upload is a video, no photo uploaded later becomes the profile picture by
  itself, however many follow: the profile shows none until the user chooses one.
\<close>

theorem photos_after_a_video_stay_unchosen:
  assumes "media_ok s" and "user_media uid s \<noteq> []" and "primary_url uid (media_items s) = None"
    and "p \<in> set (artist_profiles s)" and "ap_user_id p = uid"
  shows "primary_url uid (media_items (fold (\<lambda>(ck, dto) t. snd (confirm_media base head ck uid dto t)) uploads s)) = None \<and>
    p \<in> set (artist_profiles (fold (\<lambda>(ck, dto) t. snd (confirm_media base head ck uid dto t)) uploads s)) \<and> ap_thumbnail_url p = None"
proof -
  have thumb: "ap_thumbnail_url p = None" using assms by (auto simp: media_ok_def list_all_iff)
  have "user_media uid (fold (\<lambda>(ck, dto) t. snd (confirm_media base head ck uid dto t)) uploads s) \<noteq> [] \<and>
    primary_url uid (media_items (fold (\<lambda>(ck, dto) t. snd (confirm_media base head ck uid dto t)) uploads s)) = None \<and>
    p \<in> set (artist_profiles (fold (\<lambda>(ck, dto) t. snd (confirm_media base head ck uid dto t)) uploads s))"
    using assms(2,3,4)
  proof (induction uploads arbitrary: s)
    case (Cons e uploads)
    obtain ck dto where e: "e = (ck, dto)" by (cases e)
    let ?t = "snd (confirm_media base head ck uid dto s)"
    have "user_media uid ?t \<noteq> [] \<and> primary_url uid (media_items ?t) = None \<and> p \<in> set (artist_profiles ?t)"
    proof (cases rule: confirm_media_cases [of base head ck uid dto s])
      case (refused err)
      with Cons.prems show ?thesis by simp
    next
      case (stored row)
      have "\<not> md_is_primary row" using stored(4) Cons.prems(1) by simp
      then have t: "?t = s\<lparr>media_items := media_items s @ [row], next_id := Suc (next_id s)\<rparr>" using stored(6) by simp
      show ?thesis unfolding t using Cons.prems \<open>\<not> md_is_primary row\<close> by (simp add: user_media_def primary_url_append)
    qed
    with Cons.IH [of ?t] show ?case by (simp add: e)
  qed simp
  with thumb show ?thesis by blast
qed


definition demo_video_row :: media_row where
  "demo_video_row = \<lparr>md_id = 0, md_user_id = 7, md_media_type = M_video, md_s3_key = ''uploads/7/v'', md_cdn_url = ''cdn/uploads/7/v'',
     md_file_size_bytes = 1000, md_duration_sec = Some 30, md_is_primary = False, md_sort_order = 0, md_created_at = 1\<rparr>"

theorem photos_after_a_video_stay_unchosen_witness:
  "primary_url 7 (media_items (snd (confirm_media ''cdn'' (\<lambda>_. Head_found None) \<lparr>db_now = 5, js_now = 5\<rparr> 7 (demo_upload ''uploads/7/a'' M_photo)
      (demo_gallery\<lparr>media_items := [demo_video_row], next_id := 1\<rparr>)))) = None"
proof -
  let ?s = "demo_gallery\<lparr>media_items := [demo_video_row], next_id := 1\<rparr>"
  have "media_ok ?s"
    by (simp add: media_ok_def demo_gallery_def empty_db_def default_artist_profile_def user_media_def primary_url_def max_media_items_def demo_video_row_def)
  moreover have "user_media 7 ?s \<noteq> []" "primary_url 7 (media_items ?s) = None" "default_artist_profile 8 7 1 \<in> set (artist_profiles ?s)"
    "ap_user_id (default_artist_profile 8 7 1) = 7"
    by (simp_all add: demo_gallery_def user_media_def primary_url_def demo_video_row_def default_artist_profile_def)
  ultimately show ?thesis
    using photos_after_a_video_stay_unchosen [of ?s 7 "default_artist_profile 8 7 1" "''cdn''" "\<lambda>_. Head_found None"
        "[(\<lparr>db_now = 5, js_now = 5\<rparr>, demo_upload ''uploads/7/a'' M_photo)]"] by simp
qed

end
