(* ===== verification/Email.thy ===== *)
theory Email
  imports Consents
begin

text \<open>
  \<open>src/email/email.service.ts\<close>: the templates, each the exact text the service builds, and the one
  \<open>send\<close> they go through. What the provider answers is an argument; a mail it takes is appended to
  the outbox.
\<close>

section \<open>Sending\<close>

record email =
  em_from :: string
  em_to :: string
  em_subject :: string
  em_html :: string

text \<open>\<open>fetch\<close>: it throws, or answers with a status.\<close>

datatype fetch_answer = Fetch_failed | Fetch_status nat

definition response_ok :: "nat \<Rightarrow> bool" where
  "response_ok n \<longleftrightarrow> 200 \<le> n \<and> n \<le> 299"

record mail_platform =
  mp_config :: "string \<Rightarrow> string option"
  mp_fetch :: "email \<Rightarrow> fetch_answer"

text \<open>Nothing thrown, whatever happens: the outbox is all there is to see.\<close>

definition send_email :: "mail_platform \<Rightarrow> string \<Rightarrow> string \<Rightarrow> string \<Rightarrow> email list \<Rightarrow> email list" where
  "send_email mp to_addr subject html outbox =
     (let m = \<lparr>em_from = (case mp_config mp ''EMAIL_FROM'' of None \<Rightarrow> ''noreply@fann-leb.com'' | Some f \<Rightarrow> f),
               em_to = to_addr, em_subject = subject, em_html = html\<rparr>
      in case mp_config mp ''RESEND_API_KEY'' of
           None \<Rightarrow> outbox
         | Some key \<Rightarrow>
             if key = [] then outbox
             else (case mp_fetch mp m of Fetch_failed \<Rightarrow> outbox | Fetch_status n \<Rightarrow> if response_ok n then outbox @ [m] else outbox))"

section \<open>Text\<close>

text \<open>The five replacements, one after the other.\<close>

definition replace_char :: "char \<Rightarrow> string \<Rightarrow> string \<Rightarrow> string" where
  "replace_char c r t = concat (map (\<lambda>x. if x = c then r else [x]) t)"

definition escape_html :: "string \<Rightarrow> string" where
  "escape_html t =
     replace_char (CHR 0x27) ''&#39;'' (replace_char (CHR 0x22) ''&quot;'' (replace_char (CHR ''>'') ''&gt;''
       (replace_char (CHR ''<'') ''&lt;'' (replace_char (CHR ''&'') ''&amp;'' t))))"

text \<open>Lines of a template, joined as they stand.\<close>

fun in_lines :: "string list \<Rightarrow> string" where
  "in_lines [] = []"
| "in_lines [l] = l"
| "in_lines (l # m # ls) = l @ [CHR 0x0A] @ in_lines (m # ls)"

text \<open>\<open>encodeURIComponent\<close>: the unreserved characters stay, every other byte is written in hexadecimal.\<close>

definition unreserved :: "char \<Rightarrow> bool" where
  "unreserved c \<longleftrightarrow> (let n = of_char c :: nat in 48 \<le> n \<and> n \<le> 57 \<or> 65 \<le> n \<and> n \<le> 90 \<or> 97 \<le> n \<and> n \<le> 122)
     \<or> c \<in> set ''-_.!~*()'' \<or> c = CHR 0x27"

definition hex_digit :: "nat \<Rightarrow> char" where
  "hex_digit d = (if d < 10 then char_of (48 + d) else char_of (55 + d))"

definition encode_uri_component :: "string \<Rightarrow> string" where
  "encode_uri_component t =
     concat (map (\<lambda>c. if unreserved c then [c]
                     else [CHR ''%'', hex_digit ((of_char c :: nat) div 16), hex_digit ((of_char c :: nat) mod 16)]) t)"

text \<open>\<open>Date.toDateString\<close> of a time of UTC, as in \<open>Thu Jan 01 1970\<close>.\<close>

definition week_days :: "string list" where
  "week_days = [''Sun'', ''Mon'', ''Tue'', ''Wed'', ''Thu'', ''Fri'', ''Sat'']"

definition month_names :: "string list" where
  "month_names = [''Jan'', ''Feb'', ''Mar'', ''Apr'', ''May'', ''Jun'', ''Jul'', ''Aug'', ''Sep'', ''Oct'', ''Nov'', ''Dec'']"

definition js_date_string :: "timestamp \<Rightarrow> string" where
  "js_date_string ms =
     (let d = iso_date ms
      in week_days ! nat ((ms div ms_per_day + 4) mod 7) @ '' '' @ month_names ! (read_nat (take 2 (drop 5 d)) - 1) @ '' ''
         @ take 2 (drop 8 d) @ '' '' @ take 4 d)"

section \<open>Templates\<close>

definition marketing_html :: "string \<Rightarrow> string \<Rightarrow> string" where
  "marketing_html body url = in_lines
     [[],
      ''        <div style=\"font-family: Arial, sans-serif; max-width: 480px; margin: 0 auto; color: #1a1a1a;\">'',
      ''          '' @ body,
      ''          <hr style=\"border:none;border-top:1px solid #e5e5e5;margin:24px 0;\">'',
      ''          <p style=\"font-size:12px;color:#666;\">'',
      ''            You are receiving this because you opted in to updates from Fann.'',
      ''            <a href=\"'' @ url @ ''\" style=\"color:#3C3489;\">Unsubscribe</a>.'',
      ''          </p>'',
      ''          <p style=\"font-size:12px;color:#666;\">'',
      ''            This does not affect emails about your account, bookings or payments.'',
      ''          </p>'',
      ''        </div>'',
      ''      '']"

definition verification_html :: "string \<Rightarrow> string" where
  "verification_html url = in_lines
     [[],
      ''        <div style=\"font-family: Arial, sans-serif; max-width: 480px; margin: 0 auto; color: #1a1a1a;\">'',
      ''          <h2 style=\"color:#3C3489;\">Welcome to Fann</h2>'',
      ''          <p>Confirm your email address to activate your account.</p>'',
      ''          <p>'',
      ''            <a href=\"'' @ url @ ''\"'',
      ''               style=\"display:inline-block;padding:12px 24px;background:#3C3489;color:#fff;'',
      ''                      text-decoration:none;border-radius:6px;font-weight:bold;\">'',
      ''              Verify email'',
      ''            </a>'',
      ''          </p>'',
      ''          <p style=\"font-size:13px;color:#666;\">Or copy this link into your browser:<br>'' @ url @ ''</p>'',
      ''          <p style=\"font-size:13px;color:#666;\">If you didn't create a Fann account, you can ignore this email.</p>'',
      ''        </div>'',
      ''      '']"

definition expiring_html :: "string \<Rightarrow> string \<Rightarrow> string \<Rightarrow> timestamp \<Rightarrow> string \<Rightarrow> string" where
  "expiring_html recipient plan when expires_at url = in_lines
     [[],
      ''        <div style=\"font-family: Arial, sans-serif; max-width: 480px; margin: 0 auto; color: #1a1a1a;\">'',
      ''          <h2 style=\"color:#3C3489;\">Your '' @ plan @ '' plan ends '' @ when @ ''</h2>'',
      ''          <p>Hi '' @ recipient @ '',</p>'',
      ''          <p>'',
      ''            Your Fann '' @ plan @ '' subscription ends on'',
      ''            <strong>'' @ js_date_string expires_at @ ''</strong>. After that you'll'',
      ''            still be able to browse, but artist contact details and messaging will be locked.'',
      ''          </p>'',
      ''          <p>'',
      ''            <a href=\"'' @ url @ ''\"'',
      ''               style=\"display:inline-block;padding:12px 24px;background:#3C3489;color:#fff;'',
      ''                      text-decoration:none;border-radius:6px;font-weight:bold;\">'',
      ''              Renew now'',
      ''            </a>'',
      ''          </p>'',
      ''          <p style=\"font-size:13px;color:#666;\">'',
      ''            Nothing is charged automatically '' @ [CHR 0xE2, CHR 0x80, CHR 0x94] @ '' renewing is a new purchase you confirm yourself.'',
      ''          </p>'',
      ''        </div>'',
      ''      '']"

definition raised_from :: "string option \<Rightarrow> string" where
  "raised_from source_path = (case source_path of Some (c # p) \<Rightarrow> ''<br>Raised from: '' @ escape_html (c # p) | _ \<Rightarrow> [])"

definition support_ticket_html :: "string \<Rightarrow> string \<Rightarrow> string \<Rightarrow> string \<Rightarrow> string option \<Rightarrow> string" where
  "support_ticket_html ticket_id subject body from_address source_path = in_lines
     [[],
      ''        <div style=\"font-family: Arial, sans-serif; max-width: 560px; margin: 0 auto; color: #1a1a1a;\">'',
      ''          <h2 style=\"color:#3C3489;\">New support ticket</h2>'',
      ''          <p style=\"font-size:13px;color:#666;\">'',
      ''            From: <strong>'' @ escape_html from_address @ ''</strong><br>'',
      ''            Ticket: '' @ ticket_id,
      ''            '' @ raised_from source_path,
      ''          </p>'',
      ''          <p style=\"font-weight:bold;\">'' @ escape_html subject @ ''</p>'',
      ''          <p style=\"white-space:pre-line;\">'' @ escape_html body @ ''</p>'',
      ''        </div>'',
      ''      '']"

definition support_reply_html :: "string \<Rightarrow> string" where
  "support_reply_html reply = in_lines
     [[],
      ''        <div style=\"font-family: Arial, sans-serif; max-width: 480px; margin: 0 auto; color: #1a1a1a;\">'',
      ''          <h2 style=\"color:#3C3489;\">We've replied to your message</h2>'',
      ''          <p style=\"white-space:pre-line;\">'' @ escape_html reply @ ''</p>'',
      ''          <p style=\"font-size:13px;color:#666;\">'',
      ''            Reply to this email if you need anything else.'',
      ''          </p>'',
      ''        </div>'',
      ''      '']"

definition password_reset_html :: "string \<Rightarrow> string" where
  "password_reset_html url = in_lines
     [[],
      ''        <div style=\"font-family: Arial, sans-serif; max-width: 480px; margin: 0 auto; color: #1a1a1a;\">'',
      ''          <h2 style=\"color:#3C3489;\">Reset your password</h2>'',
      ''          <p>We received a request to reset your Fann account password.</p>'',
      ''          <p>'',
      ''            <a href=\"'' @ url @ ''\"'',
      ''               style=\"display:inline-block;padding:12px 24px;background:#3C3489;color:#fff;'',
      ''                      text-decoration:none;border-radius:6px;font-weight:bold;\">'',
      ''              Reset password'',
      ''            </a>'',
      ''          </p>'',
      ''          <p style=\"font-size:13px;color:#666;\">Or copy this link into your browser:<br>'' @ url @ ''</p>'',
      ''          <p style=\"font-size:13px;color:#666;\">'',
      ''            This link expires in 1 hour. If you didn't request this, you can safely ignore this email '' @ [CHR 0xE2, CHR 0x80, CHR 0x94],
      ''            your password won't be changed.'',
      ''          </p>'',
      ''        </div>'',
      ''      '']"

definition review_request_html :: "string \<Rightarrow> string \<Rightarrow> string \<Rightarrow> string \<Rightarrow> int \<Rightarrow> string list \<Rightarrow> string" where
  "review_request_html recipient event_name event_date url deadline_days questions = in_lines
     [[],
      ''        <div style=\"font-family: Arial, sans-serif; max-width: 480px; margin: 0 auto; color: #1a1a1a;\">'',
      ''          <h2 style=\"color:#3C3489;\">How did \"'' @ event_name @ ''\" go?</h2>'',
      ''          <p>Hi '' @ recipient @ '',</p>'',
      ''          <p>Event date: '' @ event_date @ ''</p>'',
      ''          <p>'',
      ''            We'd love to hear how it went. Your review stays hidden until the other'',
      ''            party submits theirs too, or after '' @ show_int deadline_days @ '' days '' @ [CHR 0xE2, CHR 0x80, CHR 0x94] @ '' whichever comes first.'',
      ''          </p>'',
      ''          <ul>'',
      ''            '' @ concat (map (\<lambda>q. ''<li>'' @ q @ ''</li>'') questions),
      ''          </ul>'',
      ''          <p>'',
      ''            <a href=\"'' @ url @ ''\"'',
      ''               style=\"display:inline-block;padding:12px 24px;background:#3C3489;color:#fff;'',
      ''                      text-decoration:none;border-radius:6px;font-weight:bold;\">'',
      ''              Leave a review'',
      ''            </a>'',
      ''          </p>'',
      ''        </div>'',
      ''      '']"

section \<open>Mails\<close>

definition send_marketing_email ::
  "mail_platform \<Rightarrow> (uuid \<Rightarrow> bool) \<Rightarrow> string \<Rightarrow> uuid \<Rightarrow> string \<Rightarrow> string \<Rightarrow> string \<Rightarrow> email list \<Rightarrow> bool \<times> email list" where
  "send_marketing_email mp has_consent to_addr uid subject html token outbox =
     (if \<not> has_consent uid then (False, outbox)
      else (let frontend = (case mp_config mp ''FRONTEND_URL'' of None \<Rightarrow> ''https://www.fann.guru'' | Some f \<Rightarrow> f);
                url = frontend @ ''/unsubscribe?token='' @ encode_uri_component token
        in (True, send_email mp to_addr subject (marketing_html html url) outbox)))"

definition send_verification_email :: "mail_platform \<Rightarrow> string \<Rightarrow> string \<Rightarrow> email list \<Rightarrow> email list" where
  "send_verification_email mp to_addr url = send_email mp to_addr ''Verify your Fann account'' (verification_html url)"

definition send_subscription_expiring_email ::
  "mail_platform \<Rightarrow> string \<Rightarrow> string \<Rightarrow> string \<Rightarrow> int \<Rightarrow> timestamp \<Rightarrow> string \<Rightarrow> email list \<Rightarrow> email list" where
  "send_subscription_expiring_email mp to_addr recipient plan days_left expires_at url =
     (let when = (if days_left = 1 then ''tomorrow'' else ''in '' @ show_int days_left @ '' days'')
      in send_email mp to_addr (''Your Fann '' @ plan @ '' plan ends '' @ when) (expiring_html recipient plan when expires_at url))"

definition send_support_ticket_email ::
  "mail_platform \<Rightarrow> string \<Rightarrow> string \<Rightarrow> string \<Rightarrow> string \<Rightarrow> string \<Rightarrow> string option \<Rightarrow> email list \<Rightarrow> email list" where
  "send_support_ticket_email mp to_addr ticket_id subject body from_address source_path =
     send_email mp to_addr (''[Fann support] '' @ subject) (support_ticket_html ticket_id subject body from_address source_path)"

definition send_support_reply_email :: "mail_platform \<Rightarrow> string \<Rightarrow> string \<Rightarrow> string \<Rightarrow> email list \<Rightarrow> email list" where
  "send_support_reply_email mp to_addr subject reply = send_email mp to_addr (''Re: '' @ subject) (support_reply_html reply)"

definition send_password_reset_email :: "mail_platform \<Rightarrow> string \<Rightarrow> string \<Rightarrow> email list \<Rightarrow> email list" where
  "send_password_reset_email mp to_addr url = send_email mp to_addr ''Reset your Fann password'' (password_reset_html url)"

definition send_review_request_email ::
  "mail_platform \<Rightarrow> string \<Rightarrow> string \<Rightarrow> string \<Rightarrow> string \<Rightarrow> string \<Rightarrow> int \<Rightarrow> string list \<Rightarrow> email list \<Rightarrow> email list" where
  "send_review_request_email mp to_addr recipient event_name event_date url deadline_days questions =
     send_email mp to_addr (''How did \"'' @ event_name @ ''\" go? Leave a review'')
       (review_request_html recipient event_name event_date url deadline_days questions)"

end
