(* ===== verification/Support.thy ===== *)
theory Support
  imports Email
begin

text \<open>
  \<open>src/support/support.service.ts\<close>: tickets raised by visitors and members, their threads, the queue
  staff works from, replies, and the two mails, over the ticket tables and the outbox.
\<close>

section \<open>Raising a ticket\<close>

record ticket_form =
  tf_subject :: string
  tf_body :: string
  tf_guest_email :: "string option"
  tf_guest_name :: "string option"
  tf_source_path :: "string option"
  tf_reported_kind :: "report_target_kind option"
  tf_reported_id :: "uuid option"

text \<open>\<open>CreateSupportTicketDto\<close>; whether a text is an address is for the validator library to say.\<close>

definition path_char :: "char \<Rightarrow> bool" where
  "path_char c \<longleftrightarrow> (let n = of_char c :: nat in 48 \<le> n \<and> n \<le> 57 \<or> 65 \<le> n \<and> n \<le> 90 \<or> 97 \<le> n \<and> n \<le> 122)
     \<or> c \<in> set ''-_/[]().''"

definition normalised_route :: "string \<Rightarrow> bool" where
  "normalised_route p \<longleftrightarrow> (case p of [] \<Rightarrow> False | c # r \<Rightarrow> c = CHR ''/'' \<and> list_all path_char r)"

definition optionally :: "('a \<Rightarrow> bool) \<Rightarrow> 'a option \<Rightarrow> bool" where
  "optionally P x \<longleftrightarrow> (case x of None \<Rightarrow> True | Some v \<Rightarrow> P v)"

definition create_ticket_dto :: "(string \<Rightarrow> bool) \<Rightarrow> ticket_form \<Rightarrow> bool" where
  "create_ticket_dto is_email f \<longleftrightarrow>
     3 \<le> length (tf_subject f) \<and> length (tf_subject f) \<le> 200 \<and>
     10 \<le> length (tf_body f) \<and> length (tf_body f) \<le> 5000 \<and>
     optionally (\<lambda>e. is_email e \<and> length e \<le> 255) (tf_guest_email f) \<and>
     optionally (\<lambda>n. length n \<le> 150) (tf_guest_name f) \<and>
     optionally (\<lambda>p. length p \<le> 120 \<and> normalised_route p) (tf_source_path f) \<and>
     (tf_reported_id f \<noteq> None \<longrightarrow> tf_reported_kind f \<noteq> None) \<and> (tf_reported_kind f \<noteq> None \<longrightarrow> tf_reported_id f \<noteq> None)"

text \<open>The tables and what was mailed.\<close>

type_synonym desk = "db \<times> email list"

definition support_inbox :: "mail_platform \<Rightarrow> string" where
  "support_inbox mp =
     (case mp_config mp ''SUPPORT_INBOX_EMAIL'' of
        None \<Rightarrow> ''admin@fann-leb.com''
      | Some a \<Rightarrow> if js_trim a = [] then ''admin@fann-leb.com'' else js_trim a)"

definition notify_inbox :: "mail_platform \<Rightarrow> uuid \<Rightarrow> ticket_form \<Rightarrow> string option \<Rightarrow> email list \<Rightarrow> email list" where
  "notify_inbox mp tid f reply_to =
     send_support_ticket_email mp (support_inbox mp) (show_nat tid) (tf_subject f) (tf_body f)
       (case reply_to of None \<Rightarrow> ''unknown'' | Some a \<Rightarrow> a) (tf_source_path f)"

definition new_ticket :: "clock \<Rightarrow> user_row option \<Rightarrow> ticket_form \<Rightarrow> uuid \<Rightarrow> support_ticket" where
  "new_ticket ck viewer f tid =
     \<lparr>t_id = tid, t_user_id = map_option u_id viewer,
      t_guest_email = (if viewer = None then tf_guest_email f else None),
      t_guest_name = (if viewer = None then tf_guest_name f else None),
      t_subject = tf_subject f, t_body = tf_body f, t_status = T_open, t_source_path = tf_source_path f,
      t_reported_kind = tf_reported_kind f, t_reported_id = tf_reported_id f, t_assigned_to = None,
      t_resolved_at = None, t_created_at = db_now ck\<rparr>"

definition thread_message :: "clock \<Rightarrow> uuid \<Rightarrow> uuid option \<Rightarrow> bool \<Rightarrow> string \<Rightarrow> uuid \<Rightarrow> ticket_message" where
  "thread_message ck tid author staff body mid =
     \<lparr>tm_id = mid, tm_ticket_id = tid, tm_author_id = author, tm_is_staff = staff, tm_body = body, tm_created_at = db_now ck\<rparr>"

text \<open>An empty guest address counts as none.\<close>

definition create_ticket ::
  "mail_platform \<Rightarrow> clock \<Rightarrow> user_row option \<Rightarrow> ticket_form \<Rightarrow> desk \<Rightarrow> (uuid \<times> string \<times> ticket_status \<times> timestamp) result \<times> desk" where
  "create_ticket mp ck viewer f d =
     (let (s, outbox) = d
      in if viewer = None \<and> (tf_guest_email f = None \<or> tf_guest_email f = Some [])
         then (Inl (BadRequest ''An email address is required so we can reply to you.''), d)
         else (let t = new_ticket ck viewer f (next_id s);
                   m = thread_message ck (t_id t) (map_option u_id viewer) False (tf_body f) (Suc (next_id s))
               in (Inr (t_id t, t_subject t, t_status t, t_created_at t),
                   (s\<lparr>support_tickets := support_tickets s @ [t], ticket_messages := ticket_messages s @ [m],
                      next_id := Suc (Suc (next_id s))\<rparr>,
                    notify_inbox mp (t_id t) f (case viewer of None \<Rightarrow> tf_guest_email f | Some u \<Rightarrow> Some (u_email u)) outbox))))"

section \<open>Reading\<close>

definition thread_of :: "uuid \<Rightarrow> db \<Rightarrow> ticket_message list" where
  "thread_of tid s = sort_by (\<lambda>a b. tm_created_at a \<le> tm_created_at b) (filter (\<lambda>m. tm_ticket_id m = tid) (ticket_messages s))"

definition list_my_tickets :: "uuid \<Rightarrow> db \<Rightarrow> (support_ticket \<times> ticket_message list) list" where
  "list_my_tickets uid s =
     map (\<lambda>t. (t, thread_of (t_id t) s))
       (sort_by (\<lambda>a b. t_created_at b \<le> t_created_at a) (filter (\<lambda>t. t_user_id t = Some uid) (support_tickets s)))"

definition account_of :: "db \<Rightarrow> uuid option \<Rightarrow> user_row option" where
  "account_of s uid = (case uid of None \<Rightarrow> None | Some u \<Rightarrow> find (\<lambda>r. u_id r = u) (users s))"

record ticket_line =
  tl_ticket :: support_ticket
  tl_user_email :: "string option"
  tl_user_role :: "user_role option"
  tl_assigned_email :: "string option"

definition ticket_line_of :: "db \<Rightarrow> support_ticket \<Rightarrow> ticket_line" where
  "ticket_line_of s t =
     \<lparr>tl_ticket = t, tl_user_email = map_option u_email (account_of s (t_user_id t)),
      tl_user_role = map_option u_role (account_of s (t_user_id t)),
      tl_assigned_email = map_option u_email (account_of s (t_assigned_to t))\<rparr>"

definition list_tickets :: "ticket_status option \<Rightarrow> nat \<Rightarrow> nat \<Rightarrow> db \<Rightarrow> ticket_line list \<times> page_meta" where
  "list_tickets wanted page limit s =
     (let rows = filter (\<lambda>t. case wanted of None \<Rightarrow> True | Some w \<Rightarrow> t_status t = w) (support_tickets s)
      in (map (ticket_line_of s) (page_of page limit (sort_by (\<lambda>a b. t_created_at a \<le> t_created_at b) rows)),
          meta_of (aggregate_value (Some (length rows))) page limit))"

record ticket_page =
  tp_ticket :: support_ticket
  tp_user_email :: "string option"
  tp_user_role :: "user_role option"
  tp_messages :: "(ticket_message \<times> string option) list"

definition get_ticket :: "uuid \<Rightarrow> db \<Rightarrow> ticket_page result" where
  "get_ticket tid s =
     (case find (\<lambda>t. t_id t = tid) (support_tickets s) of
        None \<Rightarrow> Inl (NotFound ''Ticket not found.'')
      | Some t \<Rightarrow> Inr \<lparr>tp_ticket = t, tp_user_email = map_option u_email (account_of s (t_user_id t)),
                        tp_user_role = map_option u_role (account_of s (t_user_id t)),
                        tp_messages = map (\<lambda>m. (m, map_option u_email (account_of s (tm_author_id m)))) (thread_of tid s)\<rparr>)"

section \<open>Working the queue\<close>

record ticket_update =
  tu_status :: "ticket_status option"
  tu_assigned_to :: "uuid option option"
  tu_reply :: "string option"

definition terminal_status :: "ticket_status \<Rightarrow> bool" where
  "terminal_status st \<longleftrightarrow> st = T_resolved \<or> st = T_closed"

text \<open>\<open>ticket\<close> is the row read before the update.\<close>

definition ticket_patch :: "clock \<Rightarrow> ticket_update \<Rightarrow> support_ticket \<Rightarrow> support_ticket \<Rightarrow> support_ticket" where
  "ticket_patch ck dto ticket t =
     (let t1 = (case tu_status dto of
                  None \<Rightarrow> t
                | Some st \<Rightarrow> t\<lparr>t_status := st,
                    t_resolved_at := (if terminal_status st
                       then (case t_resolved_at ticket of None \<Rightarrow> Some (db_now ck) | Some r \<Rightarrow> Some r) else None)\<rparr>)
      in case tu_assigned_to dto of None \<Rightarrow> t1 | Some a \<Rightarrow> t1\<lparr>t_assigned_to := a\<rparr>)"

definition reply_address :: "db \<Rightarrow> support_ticket \<Rightarrow> string option" where
  "reply_address s t =
     (case t_user_id t of None \<Rightarrow> t_guest_email t | Some u \<Rightarrow> map_option u_email (find (\<lambda>r. u_id r = u) (users s)))"

definition notify_requester :: "mail_platform \<Rightarrow> db \<Rightarrow> support_ticket \<Rightarrow> string \<Rightarrow> email list \<Rightarrow> email list" where
  "notify_requester mp s t reply outbox =
     (case reply_address s t of Some (c # a) \<Rightarrow> send_support_reply_email mp (c # a) (t_subject t) reply outbox | _ \<Rightarrow> outbox)"

definition update_ticket ::
  "mail_platform \<Rightarrow> clock \<Rightarrow> uuid \<Rightarrow> uuid \<Rightarrow> ticket_update \<Rightarrow> desk \<Rightarrow> ticket_page result \<times> desk" where
  "update_ticket mp ck admin tid dto d =
     (let (s, outbox) = d
      in case find (\<lambda>t. t_id t = tid) (support_tickets s) of
           None \<Rightarrow> (Inl (NotFound ''Ticket not found.''), d)
         | Some ticket \<Rightarrow>
             (let s1 = s\<lparr>support_tickets := update_where (\<lambda>t. t_id t = tid) (ticket_patch ck dto ticket) (support_tickets s)\<rparr>;
                  (s2, out2) =
                    (case tu_reply dto of
                       Some (c # r) \<Rightarrow>
                         (s1\<lparr>ticket_messages := ticket_messages s1 @ [thread_message ck tid (Some admin) True (c # r) (next_id s1)],
                             next_id := Suc (next_id s1)\<rparr>,
                          notify_requester mp s1 ticket (c # r) outbox)
                     | _ \<Rightarrow> (s1, outbox))
              in (get_ticket tid s2, (s2, out2))))"

lemmas support_op_defs [op_defs] = create_ticket_def update_ticket_def

end
