(* ===== verification/Mail_Rules.thy ===== *)
theory Mail_Rules
  imports Email Consent_Rules
begin

text \<open>
  What the mails of \<open>Email\<close> keep to: text a visitor typed never becomes markup of a support mail,
  and a newsletter stops with the link it carries.
\<close>

section \<open>Escaping\<close>

text \<open>How a mail reader shows text: each of the five entities is one character again.\<close>

fun shown_text :: "string \<Rightarrow> string" where
  "shown_text [] = []"
| "shown_text (c # t) =
     (if c \<noteq> CHR ''&'' then c # shown_text t
      else if take 4 t = ''amp;'' then CHR ''&'' # shown_text (drop 4 t)
      else if take 3 t = ''lt;'' then CHR ''<'' # shown_text (drop 3 t)
      else if take 3 t = ''gt;'' then CHR ''>'' # shown_text (drop 3 t)
      else if take 5 t = ''quot;'' then CHR 0x22 # shown_text (drop 5 t)
      else if take 4 t = ''#39;'' then CHR 0x27 # shown_text (drop 4 t)
      else c # shown_text t)"

definition escaped_char :: "char \<Rightarrow> string" where
  "escaped_char c =
     (if c = CHR ''&'' then ''&amp;'' else if c = CHR ''<'' then ''&lt;'' else if c = CHR ''>'' then ''&gt;''
      else if c = CHR 0x22 then ''&quot;'' else if c = CHR 0x27 then ''&#39;'' else [c])"

lemma replace_char_simps:
  "replace_char c r [] = []"
  "replace_char c r (x # t) = (if x = c then r else [x]) @ replace_char c r t"
  by (simp_all add: replace_char_def)

lemma replace_char_append: "replace_char c r (s @ t) = replace_char c r s @ replace_char c r t"
  by (simp add: replace_char_def)

text \<open>Five passes over the text are one: no pass touches what an earlier one wrote.\<close>

lemma escape_html_one_pass: "escape_html t = concat (map escaped_char t)"
proof (induction t)
  case (Cons c t)
  have "escape_html (c # t) = escape_html [c] @ escape_html t"
    by (simp add: escape_html_def replace_char_simps replace_char_append)
  moreover have "escape_html [c] = escaped_char c" by (simp add: escape_html_def replace_char_simps escaped_char_def)
  ultimately show ?case using Cons.IH by simp
qed (simp add: escape_html_def replace_char_simps)

lemma escape_html_Cons: "escape_html (c # t) = escaped_char c @ escape_html t"
  by (simp add: escape_html_one_pass)

lemma escape_html_Nil [simp]: "escape_html [] = []"
  by (simp add: escape_html_one_pass)

lemma escaped_char_safe: "set (escaped_char c) \<inter> {CHR ''<'', CHR ''>'', CHR 0x22, CHR 0x27} = {}"
  by (simp add: escaped_char_def)

lemma escape_html_safe: "set (escape_html t) \<inter> {CHR ''<'', CHR ''>'', CHR 0x22, CHR 0x27} = {}"
  using escaped_char_safe by (fastforce simp: escape_html_one_pass)

lemma shown_escaped: "shown_text (escape_html t) = t"
  by (induction t) (simp_all add: escape_html_Cons escaped_char_def)

text \<open>
  C33: Escaped text holds no character that opens or closes a tag or an attribute, and a mail reader
  shows it as exactly the text that was typed.
\<close>

theorem escaped_text_reads_back:
  "set (escape_html t) \<inter> {CHR ''<'', CHR ''>'', CHR 0x22, CHR 0x27} = {} \<and> shown_text (escape_html t) = t"
  by (rule conjI [OF escape_html_safe shown_escaped])

section \<open>Tags\<close>

text \<open>The tags of a mail, read from left to right: what stands between \<open><\<close> and \<open>>\<close>.\<close>

fun read_tags :: "string option \<Rightarrow> string \<Rightarrow> string list \<times> string option" where
  "read_tags st [] = ([], st)"
| "read_tags None (c # t) = read_tags (if c = CHR ''<'' then Some [] else None) t"
| "read_tags (Some a) (c # t) =
     (if c = CHR ''>'' then (let (ts, st) = read_tags None t in (a # ts, st)) else read_tags (Some (a @ [c])) t)"

definition tags :: "string \<Rightarrow> string list" where
  "tags t = fst (read_tags None t)"

definition balanced :: "string \<Rightarrow> bool" where
  "balanced t \<longleftrightarrow> snd (read_tags None t) = None"

lemma read_tags_append:
  "read_tags st (a @ b) = (let (ts, st1) = read_tags st a; (us, st2) = read_tags st1 b in (ts @ us, st2))"
  by (induction st a rule: read_tags.induct) (auto simp: Let_def split: prod.splits)

lemma tags_append: "balanced a \<Longrightarrow> tags (a @ b) = tags a @ tags b"
  and balanced_append: "balanced a \<Longrightarrow> balanced (a @ b) = balanced b"
  by (cases "read_tags None a"; cases "read_tags None b"; auto simp: tags_def balanced_def read_tags_append Let_def)+

lemma read_tags_plain: "CHR ''<'' \<notin> set t \<Longrightarrow> read_tags None t = ([], None)"
  by (induction t) auto

lemma plain_balanced: "CHR ''<'' \<notin> set t \<Longrightarrow> balanced t"
  and plain_tags: "CHR ''<'' \<notin> set t \<Longrightarrow> tags t = []"
  by (simp_all add: balanced_def tags_def read_tags_plain)

lemma escaped_plain: "CHR ''<'' \<notin> set (escape_html t)"
  using escape_html_safe by blast

lemma digits_plain: "CHR ''<'' \<notin> set (show_nat n)"
proof
  assume "CHR ''<'' \<in> set (show_nat n)"
  from show_nat_digits [OF this] show False by simp
qed


lemma raised_from_if:
  "raised_from p = (if p = None \<or> p = Some [] then [] else ''<br>Raised from: '' @ escape_html (the p))"
  by (auto simp: raised_from_def split: option.split list.split)

lemma raised_from_tags:
  "tags (raised_from p) = (if p = None \<or> p = Some [] then [] else [''br''])" "balanced (raised_from p)"
proof -
  have "balanced ''<br>Raised from: ''" "tags ''<br>Raised from: '' = [''br'']" by code_simp+
  then show "tags (raised_from p) = (if p = None \<or> p = Some [] then [] else [''br''])" "balanced (raised_from p)"
    by (simp_all only: raised_from_if tags_append balanced_append plain_tags plain_balanced escaped_plain append_Nil2
          not_False_eq_True if_distrib [of tags] if_distrib [of balanced] split: if_split)
       (simp_all add: balanced_def tags_def)
qed

text \<open>
  C32: The mail about a support ticket has the same tags whatever its sender, subject and message
  hold: a visitor who is not signed in cannot put a link or any other markup into the support inbox.
\<close>

theorem ticket_mail_markup_is_fixed:
  "tags (support_ticket_html (show_nat n) subject body from_address source_path)
   = [''div style=\"font-family: Arial, sans-serif; max-width: 560px; margin: 0 auto; color: #1a1a1a;\"'',
      ''h2 style=\"color:#3C3489;\"'', ''/h2'', ''p style=\"font-size:13px;color:#666;\"'', ''strong'', ''/strong'', ''br'']
     @ (if source_path = None \<or> source_path = Some [] then [] else [''br''])
     @ [''/p'', ''p style=\"font-weight:bold;\"'', ''/p'', ''p style=\"white-space:pre-line;\"'', ''/p'', ''/div'']"
proof -
  have lit: "list_all balanced
     [''        <div style=\"font-family: Arial, sans-serif; max-width: 560px; margin: 0 auto; color: #1a1a1a;\">'',
      ''          <h2 style=\"color:#3C3489;\">New support ticket</h2>'',
      ''          <p style=\"font-size:13px;color:#666;\">'',
      ''            From: <strong>'', ''</strong><br>'', ''            Ticket: '', ''            '', ''          </p>'',
      ''          <p style=\"font-weight:bold;\">'', ''</p>'', ''          <p style=\"white-space:pre-line;\">'',
      ''        </div>'', ''      '', [CHR 0x0A]]"
    by code_simp
  have val: "map tags
     [''        <div style=\"font-family: Arial, sans-serif; max-width: 560px; margin: 0 auto; color: #1a1a1a;\">'',
      ''          <h2 style=\"color:#3C3489;\">New support ticket</h2>'',
      ''          <p style=\"font-size:13px;color:#666;\">'',
      ''            From: <strong>'', ''</strong><br>'', ''            Ticket: '', ''            '', ''          </p>'',
      ''          <p style=\"font-weight:bold;\">'', ''</p>'', ''          <p style=\"white-space:pre-line;\">'',
      ''        </div>'', ''      '', [CHR 0x0A]]
    = [[''div style=\"font-family: Arial, sans-serif; max-width: 560px; margin: 0 auto; color: #1a1a1a;\"''],
       [''h2 style=\"color:#3C3489;\"'', ''/h2''], [''p style=\"font-size:13px;color:#666;\"''],
       [''strong''], [''/strong'', ''br''], [], [], [''/p''], [''p style=\"font-weight:bold;\"''], [''/p''],
       [''p style=\"white-space:pre-line;\"''], [''/div''], [], []]"
    by code_simp
  note lit = lit [unfolded list.pred_inject] and val = val [unfolded list.map list.inject]
  show ?thesis
    unfolding support_ticket_html_def in_lines.simps append_assoc append.simps(1)
    by (simp only: tags_append lit val plain_tags plain_balanced escaped_plain digits_plain raised_from_tags
          not_False_eq_True) (simp only: append.simps append_assoc)
qed


section \<open>Mails about reviews\<close>

text \<open>
  The mail that asks for a review does put the name of the event into its markup as it stands:
  whatever tags the person who booked typed into that name are tags of the mail the performer gets.
\<close>

theorem review_mail_carries_foreign_markup:
  assumes "balanced event_name"
  shows "\<exists>rest. tags (review_request_html recipient event_name event_date url deadline_days questions)
    = [''div style=\"font-family: Arial, sans-serif; max-width: 480px; margin: 0 auto; color: #1a1a1a;\"'',
       ''h2 style=\"color:#3C3489;\"''] @ tags event_name @ rest"
proof -
  let ?d = "''        <div style=\"font-family: Arial, sans-serif; max-width: 480px; margin: 0 auto; color: #1a1a1a;\">''"
  let ?h = "''          <h2 style=\"color:#3C3489;\">How did \"''"
  have lit: "balanced [CHR 0x0A]" "balanced ?d" "balanced ?h" by code_simp+
  have val: "tags [CHR 0x0A] = []" "tags ?h = [''h2 style=\"color:#3C3489;\"'']"
    "tags ?d = [''div style=\"font-family: Arial, sans-serif; max-width: 480px; margin: 0 auto; color: #1a1a1a;\"'']"
    by code_simp+
  show ?thesis
    unfolding review_request_html_def in_lines.simps append_assoc append.simps(1)
    by (simp only: tags_append lit val assms append.simps(1) append_assoc) (simp only: append.simps, rule exI, rule refl)
qed

theorem review_mail_carries_foreign_markup_witness:
  "\<exists>rest. tags (review_request_html ''Rami'' ''<a href=https://fann-pay.example>Confirm your payout</a>'' ''2026-09-01''
        ''https://www.fann.guru/reviews/12'' 14 [])
    = [''div style=\"font-family: Arial, sans-serif; max-width: 480px; margin: 0 auto; color: #1a1a1a;\"'',
       ''h2 style=\"color:#3C3489;\"''] @ [''a href=https://fann-pay.example'', ''/a''] @ rest"
proof -
  let ?n = "''<a href=https://fann-pay.example>Confirm your payout</a>''"
  have "balanced ?n" and t: "tags ?n = [''a href=https://fann-pay.example'', ''/a'']" by code_simp+
  from review_mail_carries_foreign_markup [OF this(1)] show ?thesis unfolding t .
qed

section \<open>The newsletter\<close>

lemma opted_in_fold:
  "uid \<notin> opted_in c \<Longrightarrow> (uid, D_marketing, True) \<notin> set ws \<Longrightarrow> uid \<notin> opted_in (fold chosen ws c)"
proof (induction ws arbitrary: c)
  case (Cons w ws)
  obtain u d g where "w = (u, d, g)" by (cases w)
  with Cons.prems have "uid \<notin> opted_in (chosen w c)" by auto
  with Cons show ?case by simp
qed simp

text \<open>
  C34: Once the link of a newsletter is opened, no newsletter goes out to that person, whatever else
  anyone asks of the consent routes, until the person opts in again. Asked of the keyed hash: its
  text form is not empty and holds no dot; of the database: its clock moves on between requests.
\<close>

theorem newsletter_stops_with_its_link:
  assumes "\<And>k m. ml_hmac ml k m \<noteq> [] \<and> CHR ''.'' \<notin> set (ml_hmac ml k m)"
    and "create_unsubscribe_token (ml_hmac ml) (ml_config ml) (show_nat uid) = Inr token"
    and "before t (consents s)" and "later t ((ck, Do_unsubscribe token) # ops)"
    and "(uid, D_marketing, True) \<notin> set (concat (map (\<lambda>(ck, x). written ml x) ops))"
  shows "send_marketing_email mp (\<lambda>u. get_marketing u (run_consent_ops ml ((ck, Do_unsubscribe token) # ops) s))
      to_addr uid subject html token' outbox = (False, outbox)"
proof -
  let ?ops = "(ck, Do_unsubscribe token) # ops"
  obtain key where key: "secret_from (ml_config ml) = Inr key"
    using assms(2) by (auto simp: create_unsubscribe_token_def split: sum.splits)
  have "show_nat uid \<noteq> []" by (subst show_nat.simps) simp
  have "read_unsubscribe_token (ml_hmac ml) (ml_config ml) token = Inr (Some (show_nat uid))"
    by (rule unsubscribe_link_roundtrip [THEN iffD2, OF assms(1) key \<open>show_nat uid \<noteq> []\<close> assms(2)])
  then have "written ml (Do_unsubscribe token) = [(uid, D_marketing, False)]" by simp
  then have run: "choices_of (run_consent_ops ml ?ops s)
      = fold chosen (concat (map (\<lambda>(ck, x). written ml x) ops)) (chosen (uid, D_marketing, False) (choices_of s))"
    using choices_run [OF assms(3,4), of ml] by simp
  have "uid \<notin> opted_in (choices_of (run_consent_ops ml ?ops s))"
    unfolding run by (rule opted_in_fold [OF _ assms(5)]) simp
  then show ?thesis by (simp add: choices_of_def send_marketing_email_def)
qed

theorem newsletter_stops_with_its_link_witness:
  "send_marketing_email \<lparr>mp_config = (\<lambda>_. None), mp_fetch = (\<lambda>_. Fetch_status 200)\<rparr>
      (\<lambda>u. get_marketing u (run_consent_ops (demo_mailer\<lparr>ml_hmac := demo_hmac\<rparr>)
         [(\<lparr>db_now = 2, js_now = 2\<rparr>, Do_unsubscribe ''7.macs3cretunsubscribe:marketing:7''),
          (\<lparr>db_now = 3, js_now = 3\<rparr>, Do_accept reader [D_terms])]
         (snd (set_marketing \<lparr>db_now = 1, js_now = 1\<rparr> reader True None None empty_db))))
      ''ana@x.org'' 7 ''News'' ''Hello'' ''7.macs3cretunsubscribe:marketing:7'' [] = (False, [])"
proof (rule newsletter_stops_with_its_link [where t = 2])
  show "ml_hmac (demo_mailer\<lparr>ml_hmac := demo_hmac\<rparr>) k m \<noteq> [] \<and> CHR ''.'' \<notin> set (ml_hmac (demo_mailer\<lparr>ml_hmac := demo_hmac\<rparr>) k m)" for k m
    by (auto simp: demo_hmac_def)
  show "create_unsubscribe_token (ml_hmac (demo_mailer\<lparr>ml_hmac := demo_hmac\<rparr>)) (ml_config (demo_mailer\<lparr>ml_hmac := demo_hmac\<rparr>)) (show_nat 7)
      = Inr ''7.macs3cretunsubscribe:marketing:7''" by code_simp
  show "before 2 (consents (snd (set_marketing \<lparr>db_now = 1, js_now = 1\<rparr> reader True None None empty_db)))"
    by (simp add: before_def empty_db_def set_marketing_def set_consent_def mandatory_documents_def new_consent_def)
qed (simp_all add: accept_documents_dto_def mandatory_documents_def)

end
