(* ===== verification/Support_Rules.thy ===== *)
theory Support_Rules
  imports Support Mail_Rules
begin

text \<open>
  What the support desk keeps to over any run of tickets raised and handled: every ticket can be
  answered, its thread opens with what was written, and a reply reaches the account's address.
\<close>

section \<open>Runs of the desk\<close>

datatype desk_op = Raise "user_row option" ticket_form | Handle uuid uuid ticket_update

fun run_desk_op :: "mail_platform \<Rightarrow> (string \<Rightarrow> bool) \<Rightarrow> clock \<Rightarrow> desk_op \<Rightarrow> desk \<Rightarrow> desk" where
  "run_desk_op mp is_email ck (Raise v f) d = (if create_ticket_dto is_email f then snd (create_ticket mp ck v f d) else d)"
| "run_desk_op mp is_email ck (Handle admin tid dto) d = snd (update_ticket mp ck admin tid dto d)"

fun run_desk :: "mail_platform \<Rightarrow> (string \<Rightarrow> bool) \<Rightarrow> (clock \<times> desk_op) list \<Rightarrow> desk \<Rightarrow> desk" where
  "run_desk mp is_email [] d = d"
| "run_desk mp is_email ((ck, x) # ops) d = run_desk mp is_email ops (run_desk_op mp is_email ck x d)"

fun clock_moves :: "timestamp \<Rightarrow> (clock \<times> desk_op) list \<Rightarrow> bool" where
  "clock_moves t [] \<longleftrightarrow> True"
| "clock_moves t ((ck, x) # ops) \<longleftrightarrow> t \<le> db_now ck \<and> clock_moves (db_now ck) ops"

section \<open>Sound desks\<close>

text \<open>A ticket somebody can answer, whose report names both kind and target, and whose resolution time says whether it is over.\<close>

definition ticket_sound :: "support_ticket \<Rightarrow> bool" where
  "ticket_sound t \<longleftrightarrow> (t_user_id t \<noteq> None \<or> (\<exists>a. t_guest_email t = Some a \<and> a \<noteq> []))
     \<and> (t_resolved_at t \<noteq> None) = terminal_status (t_status t) \<and> (t_reported_kind t = None) = (t_reported_id t = None)"

definition opens_with :: "support_ticket \<Rightarrow> ticket_message list \<Rightarrow> bool" where
  "opens_with t ms \<longleftrightarrow> (case ms of [] \<Rightarrow> False | m # rest \<Rightarrow>
     \<not> tm_is_staff m \<and> tm_body m = t_body t \<and> tm_author_id m = t_user_id t \<and> list_all tm_is_staff rest)"

definition desk_sound :: "db \<Rightarrow> bool" where
  "desk_sound s \<longleftrightarrow> list_all (\<lambda>t. ticket_sound t \<and> opens_with t (thread_of (t_id t) s)) (support_tickets s)"

text \<open>What the operations keep: ids below the supply, messages in the order of their time.\<close>

definition desk_inv :: "timestamp \<Rightarrow> db \<Rightarrow> bool" where
  "desk_inv now s \<longleftrightarrow>
     (\<forall>t \<in> set (support_tickets s). t_id t < next_id s \<and> ticket_sound t
        \<and> opens_with t (filter (\<lambda>m. tm_ticket_id m = t_id t) (ticket_messages s))) \<and>
     (\<forall>m \<in> set (ticket_messages s). tm_ticket_id m < next_id s \<and> tm_created_at m \<le> now) \<and>
     sorted_wrt (\<lambda>a b. tm_created_at a \<le> tm_created_at b) (ticket_messages s)"

lemma sort_by_sorted: "sorted_wrt le xs \<Longrightarrow> sort_by le xs = xs"
proof (induction xs)
  case (Cons x xs)
  then show ?case by (cases xs) auto
qed simp

lemma desk_inv_sound: "desk_inv now s \<Longrightarrow> desk_sound s"
proof -
  assume inv: "desk_inv now s"
  then have "thread_of tid s = filter (\<lambda>m. tm_ticket_id m = tid) (ticket_messages s)" for tid
    unfolding thread_of_def by (intro sort_by_sorted sorted_wrt_filter) (simp add: desk_inv_def)
  with inv show ?thesis by (simp add: desk_sound_def desk_inv_def list_all_iff)
qed

lemma opens_with_append:
  "opens_with t ms \<Longrightarrow> list_all tm_is_staff new \<Longrightarrow> opens_with t (ms @ new)"
  by (cases ms) (auto simp: opens_with_def)

lemma opens_with_cong: "t_body t' = t_body t \<Longrightarrow> t_user_id t' = t_user_id t \<Longrightarrow> opens_with t' ms = opens_with t ms"
  by (simp add: opens_with_def split: list.split)

lemma desk_inv_create:
  assumes inv: "desk_inv now s" and ok: "create_ticket_dto is_email f" and t: "now \<le> db_now ck"
  shows "desk_inv (db_now ck) (fst (snd (create_ticket mp ck v f (s, outbox))))"
proof (cases "v = None \<and> (tf_guest_email f = None \<or> tf_guest_email f = Some [])")
  case True
  then show ?thesis using inv t by (force simp: create_ticket_def desk_inv_def)
next
  case False
  let ?t = "new_ticket ck v f (next_id s)"
  let ?m = "thread_message ck (t_id ?t) (map_option u_id v) False (tf_body f) (Suc (next_id s))"
  have new: "t_id ?t = next_id s" "tm_ticket_id ?m = next_id s" "tm_created_at ?m = db_now ck"
    by (simp_all add: new_ticket_def thread_message_def)
  have none: "filter (\<lambda>m. tm_ticket_id m = next_id s) (ticket_messages s) = []"
    using inv by (force simp: desk_inv_def filter_empty_conv)
  have "ticket_sound ?t"
    using False ok by (cases "tf_guest_email f") (auto simp: ticket_sound_def new_ticket_def terminal_status_def create_ticket_dto_def)
  moreover have "opens_with ?t [?m]" by (simp add: opens_with_def new_ticket_def thread_message_def)
  moreover have "\<forall>x \<in> set (support_tickets s). t_id x \<noteq> next_id s" using inv by (force simp: desk_inv_def)
  ultimately show ?thesis
    using inv t False new none by (auto simp: create_ticket_def desk_inv_def Let_def sorted_wrt_append intro: order_trans)
qed

lemma ticket_patch_keeps:
  "t_id (ticket_patch ck dto old t) = t_id t" "t_body (ticket_patch ck dto old t) = t_body t"
  "t_user_id (ticket_patch ck dto old t) = t_user_id t"
  by (simp_all add: ticket_patch_def Let_def split: option.split)

lemma ticket_patch_sound: "ticket_sound t \<Longrightarrow> ticket_sound (ticket_patch ck dto old t)"
  by (auto simp: ticket_sound_def ticket_patch_def Let_def split: option.split)

lemma desk_inv_patch:
  assumes "desk_inv now s"
  shows "desk_inv now (s\<lparr>support_tickets := update_where (\<lambda>t. t_id t = tid) (ticket_patch ck dto old) (support_tickets s)\<rparr>)"
  using assms
  by (auto simp: desk_inv_def set_update_where ticket_patch_keeps ticket_patch_sound
      opens_with_cong [OF ticket_patch_keeps(2,3)])

lemma desk_inv_reply:
  assumes inv: "desk_inv now s" and "now \<le> db_now ck" and "tid < next_id s"
  shows "desk_inv (db_now ck)
    (s\<lparr>ticket_messages := ticket_messages s @ [thread_message ck tid (Some admin) True r (next_id s)], next_id := Suc (next_id s)\<rparr>)"
  using assms
  by (auto simp: desk_inv_def sorted_wrt_append thread_message_def opens_with_append intro: order_trans less_SucI)

lemma desk_inv_later: "desk_inv now s \<Longrightarrow> now \<le> t \<Longrightarrow> desk_inv t s"
  by (force simp: desk_inv_def)

lemma desk_inv_update:
  assumes inv: "desk_inv now s" and t: "now \<le> db_now ck"
  shows "desk_inv (db_now ck) (fst (snd (update_ticket mp ck admin tid dto (s, outbox))))"
proof (cases "find (\<lambda>t. t_id t = tid) (support_tickets s)")
  case None
  then show ?thesis using desk_inv_later [OF inv t] by (simp add: update_ticket_def)
next
  case (Some ticket)
  let ?s = "s\<lparr>support_tickets := update_where (\<lambda>t. t_id t = tid) (ticket_patch ck dto ticket) (support_tickets s)\<rparr>"
  have s: "desk_inv now ?s" by (rule desk_inv_patch [OF inv])
  from Some have "tid < next_id s" using inv find_SomeD [OF Some] by (auto simp: desk_inv_def)
  with desk_inv_reply [OF s t] desk_inv_later [OF s t] Some show ?thesis
    by (simp add: update_ticket_def Let_def split: option.split list.split)
qed

lemma desk_inv_run:
  "desk_inv now (fst d) \<Longrightarrow> clock_moves now ops \<Longrightarrow> \<exists>t. desk_inv t (fst (run_desk mp is_email ops d))"
proof (induction ops arbitrary: now d)
  case (Cons a ops)
  obtain ck x where a: "a = (ck, x)" by (cases a)
  obtain s outbox where d: "d = (s, outbox)" by (cases d)
  have "desk_inv (db_now ck) (fst (run_desk_op mp is_email ck x d))"
    using Cons.prems desk_inv_create desk_inv_update desk_inv_later by (cases x) (auto simp: a d)
  with Cons show ?case by (simp add: a)
qed auto

text \<open>
  C35: Whatever is raised and handled, and by whom, every ticket keeps an address it can be answered
  at, a report names both what kind of thing and which one it is about, a resolution time is there
  exactly on the tickets that are resolved or closed, and each thread, as it is shown, opens with
  the message that raised the ticket, under its author, followed by staff replies only. Asked of the
  database: its clock does not run back.
\<close>

theorem support_desk_stays_sound:
  assumes "desk_inv now (fst d)" and "clock_moves now ops"
  shows "desk_sound (fst (run_desk mp is_email ops d))"
  using desk_inv_run [OF assms] desk_inv_sound by blast

definition lost_login :: ticket_form where
  "lost_login = \<lparr>tf_subject = ''Login'', tf_body = ''I cannot log in.'', tf_guest_email = Some ''ana@x.org'', tf_guest_name = None,
     tf_source_path = Some ''/login'', tf_reported_kind = None, tf_reported_id = None\<rparr>"

definition offline :: mail_platform where
  "offline = \<lparr>mp_config = (\<lambda>_. None), mp_fetch = (\<lambda>_. Fetch_failed)\<rparr>"

theorem support_desk_stays_sound_witness:
  "desk_sound (fst (run_desk offline (\<lambda>_. True)
     [(\<lparr>db_now = 1, js_now = 1\<rparr>, Raise None lost_login),
      (\<lparr>db_now = 2, js_now = 2\<rparr>, Handle 7 0 \<lparr>tu_status = Some T_resolved, tu_assigned_to = None, tu_reply = Some ''Reset it.''\<rparr>)]
     (empty_db, [])))"
proof (rule support_desk_stays_sound)
  show "desk_inv 0 (fst (empty_db, []))" by (simp add: desk_inv_def empty_db_def)
qed simp

text \<open>
  Answering a ticket leaves one new staff message at its end and, while mail is accepted, sends
  exactly one mail: to the address the account has now, or the guest gave, with the answer as the
  support agent typed it once the mail reader has turned its entities back into characters.
\<close>

theorem reply_reaches_the_requester:
  assumes "find (\<lambda>t. t_id t = tid) (support_tickets s) = Some ticket" and "reply \<noteq> []"
    and "reply_address s ticket = Some address" and "address \<noteq> []"
    and "mp_config mp ''RESEND_API_KEY'' = Some key" and "key \<noteq> []" and "\<And>m. mp_fetch mp m = Fetch_status 200"
    and "tu_reply dto = Some reply"
  shows "\<exists>mail page s'. update_ticket mp ck admin tid dto (s, outbox) = (Inr page, s', outbox @ [mail])
     \<and> em_to mail = address \<and> em_subject mail = ''Re: '' @ t_subject ticket
     \<and> em_html mail = support_reply_html reply \<and> shown_text (escape_html reply) = reply
     \<and> ticket_messages s' = ticket_messages s @ [thread_message ck tid (Some admin) True reply (next_id s)]"
proof -
  obtain c r where r: "reply = c # r" using assms(2) by (cases reply) auto
  obtain b a where a: "address = b # a" using assms(4) by (cases address) auto
  let ?s = "s\<lparr>support_tickets := update_where (\<lambda>t. t_id t = tid) (ticket_patch ck dto ticket) (support_tickets s)\<rparr>"
  have "reply_address ?s ticket = Some address" using assms(3) by (cases "t_user_id ticket") (simp_all add: reply_address_def)
  then have sent: "\<exists>mail. notify_requester mp ?s ticket reply outbox = outbox @ [mail] \<and> em_to mail = address
      \<and> em_subject mail = ''Re: '' @ t_subject ticket \<and> em_html mail = support_reply_html reply"
    using assms(5-7) by (auto simp: notify_requester_def a send_support_reply_email_def send_email_def Let_def response_ok_def)
  have kept: "find (\<lambda>t. t_id t = tid) (update_where (\<lambda>t. t_id t = tid) (ticket_patch ck dto ticket) (support_tickets s)) \<noteq> None"
    using find_SomeD [OF assms(1)] by (auto simp: find_None_iff set_update_where ticket_patch_keeps)
  then obtain t' where "find (\<lambda>t. t_id t = tid) (update_where (\<lambda>t. t_id t = tid) (ticket_patch ck dto ticket) (support_tickets s)) = Some t'"
    by blast
  with sent show ?thesis
    using assms(1,8) shown_escaped [of reply] by (auto simp: update_ticket_def Let_def get_ticket_def r)
qed


definition answered_db :: db where
  "answered_db = fst (run_desk offline (\<lambda>_. True) [(\<lparr>db_now = 1, js_now = 1\<rparr>, Raise None lost_login)] (empty_db, []))"

definition online :: mail_platform where
  "online = \<lparr>mp_config = (\<lambda>k. if k = ''RESEND_API_KEY'' then Some ''re_1'' else None), mp_fetch = (\<lambda>_. Fetch_status 200)\<rparr>"

theorem reply_reaches_the_requester_witness:
  "\<exists>mail page s'. update_ticket online \<lparr>db_now = 2, js_now = 2\<rparr> 7 0
        \<lparr>tu_status = None, tu_assigned_to = None, tu_reply = Some ''Use <Reset>.''\<rparr> (answered_db, [])
      = (Inr page, s', [] @ [mail])
     \<and> em_to mail = ''ana@x.org'' \<and> em_subject mail = ''Re: '' @ ''Login''
     \<and> em_html mail = support_reply_html ''Use <Reset>.'' \<and> shown_text (escape_html ''Use <Reset>.'') = ''Use <Reset>.''
     \<and> ticket_messages s' = ticket_messages answered_db
         @ [thread_message \<lparr>db_now = 2, js_now = 2\<rparr> 0 (Some 7) True ''Use <Reset>.'' (next_id answered_db)]"
proof -
  let ?t = "new_ticket \<lparr>db_now = 1, js_now = 1\<rparr> None lost_login 0"
  have dto: "create_ticket_dto (\<lambda>_. True) lost_login" by code_simp
  have tickets: "support_tickets answered_db = [?t]"
    using dto by (simp add: answered_db_def create_ticket_def empty_db_def lost_login_def Let_def)
  have t: "find (\<lambda>t. t_id t = 0) (support_tickets answered_db) = Some ?t" by (simp add: tickets new_ticket_def)
  have "reply_address answered_db ?t = Some ''ana@x.org''" by (simp add: reply_address_def new_ticket_def lost_login_def)
  moreover have subject: "t_subject ?t = ''Login''" by (simp add: new_ticket_def lost_login_def)
  ultimately show ?thesis
    by (intro reply_reaches_the_requester [OF t, unfolded subject, where key = "''re_1''"]) (simp_all add: online_def)
qed

end
