(* ===== verification/Planners.thy ===== *)
theory Planners
  imports Artists
begin

text \<open>
  \<open>src/planners/planners.service.ts\<close>: the directory of booking companies, one page of it, the event
  types offered as filters, and a planner's own profile.
\<close>

section \<open>The directory\<close>

definition company_kinds :: "planner_kind list" where
  "company_kinds = [K_company]"

definition directory_columns :: "string list" where
  "directory_columns = [''pp.id'', ''pp.user_id'', ''pp.display_name'', ''pp.company_name'', ''pp.bio'', ''pp.location_city'',
     ''pp.location_country'', ''pp.event_types'', ''pp.social_links'', ''pp.thumbnail_url'', ''pp.created_at'', ''pp.booker_type'']"

definition page_columns :: "string list" where
  "page_columns = [''pp.id'', ''pp.user_id'', ''pp.display_name'', ''pp.company_name'', ''pp.bio'', ''pp.location_city'',
     ''pp.location_country'', ''pp.event_types'', ''pp.social_links'', ''pp.thumbnail_url'', ''pp.created_at'', ''pp.avg_rating'',
     ''pp.review_count'', ''pp.booker_type'']"

definition kind_text :: "planner_kind option \<Rightarrow> jval" where
  "kind_text k = (case k of None \<Rightarrow> JNull | Some K_individual \<Rightarrow> JStr ''individual'' | Some K_company \<Rightarrow> JStr ''company'')"

text \<open>Every column of the table, as the driver names them. A cell of \<open>select\<close> drops the alias and its dot.\<close>

definition planner_row :: "planner_profile \<Rightarrow> jobject" where
  "planner_row p =
     [(''id'', JUuid (pp_id p)), (''user_id'', JUuid (pp_user_id p)), (''display_name'', jtext (pp_display_name p)),
      (''company_name'', jtext (pp_company_name p)), (''bio'', jtext (pp_bio p)), (''location_city'', jtext (pp_location_city p)),
      (''location_country'', jtext (pp_location_country p)), (''event_types'', JStrs (pp_event_types p)),
      (''social_links'', JObj (pp_social_links p)), (''thumbnail_url'', jtext (pp_thumbnail_url p)),
      (''planner_kind'', kind_text (pp_kind p)), (''booker_type'', jtext (pp_booker_type p)),
      (''avg_rating'', jrat (pp_avg_rating p)), (''review_count'', JInt (pp_review_count p)), (''created_at'', JTime (pp_created_at p))]"

datatype planner_sort = Planner_newest | Planner_name_asc

record search_planners_dto =
  sp_q :: "string option"
  sp_event_types :: "string list"
  sp_country :: "string option"
  sp_city :: "string option"
  sp_sort :: planner_sort
  sp_page :: nat
  sp_limit :: nat

definition listed_company :: "db \<Rightarrow> planner_profile \<Rightarrow> bool" where
  "listed_company s p \<longleftrightarrow> active_user s (pp_user_id p) \<and> (case pp_kind p of None \<Rightarrow> False | Some k \<Rightarrow> k \<in> set company_kinds)"

definition planner_filter :: "search_planners_dto \<Rightarrow> planner_profile \<Rightarrow> bool" where
  "planner_filter dto p \<longleftrightarrow>
     given (sp_q dto) (\<lambda>q. ilike (pp_display_name p) (anywhere q) \<or> ilike (pp_company_name p) (anywhere q) \<or> ilike (pp_bio p) (anywhere q)) \<and>
     (sp_event_types dto = [] \<or> list_ex (\<lambda>e. e \<in> set (pp_event_types p)) (sp_event_types dto)) \<and>
     given (sp_country dto) (ilike (pp_location_country p)) \<and> given (sp_city dto) (ilike (pp_location_city p))"

definition planner_name_ascending :: "planner_profile \<Rightarrow> planner_profile \<Rightarrow> bool" where
  "planner_name_ascending p q =
     (case (pp_display_name p, pp_display_name q) of (Some x, Some y) \<Rightarrow> str_le x y | (Some x, None) \<Rightarrow> True
      | (None, Some y) \<Rightarrow> False | (None, None) \<Rightarrow> True)"

definition planner_order :: "planner_sort \<Rightarrow> planner_profile \<Rightarrow> planner_profile \<Rightarrow> bool" where
  "planner_order o' = (case o' of Planner_name_asc \<Rightarrow> planner_name_ascending
     | Planner_newest \<Rightarrow> (\<lambda>p q. pp_created_at q \<le> pp_created_at p))"

definition search_planners :: "search_planners_dto \<Rightarrow> db \<Rightarrow> jobject list \<times> page_meta" where
  "search_planners dto s =
     (let found = filter (\<lambda>p. listed_company s p \<and> planner_filter dto p) (planner_profiles s)
      in (map (\<lambda>p. select_columns directory_columns (planner_row p))
            (page_of (sp_page dto) (sp_limit dto) (sort_by (planner_order (sp_sort dto)) found)),
          meta_of (aggregate_value (Some (length found))) (sp_page dto) (sp_limit dto)))"

definition get_event_types :: "db \<Rightarrow> string list" where
  "get_event_types s =
     sort_by str_le (remdups (concat (map pp_event_types (filter (\<lambda>p. active_user s (pp_user_id p)) (planner_profiles s)))))"

definition find_one_planner :: "uuid \<Rightarrow> db \<Rightarrow> (jobject \<times> media_view list) result" where
  "find_one_planner pid s =
     (case find (\<lambda>p. pp_id p = pid \<and> listed_company s p) (planner_profiles s) of
        None \<Rightarrow> Inl (NotFound ''Planner not found.'')
      | Some p \<Rightarrow> Inr (select_columns page_columns (planner_row p), map media_view_of (media_of s (pp_user_id p))))"

section \<open>One's own profile\<close>

definition planner_find_me :: "uuid \<Rightarrow> db \<Rightarrow> (planner_profile \<times> (media_view \<times> int) list) result" where
  "planner_find_me uid s =
     (case find (\<lambda>p. pp_user_id p = uid) (planner_profiles s) of
        None \<Rightarrow> Inl (NotFound ''Planner profile not found.'')
      | Some p \<Rightarrow> Inr (p, map (\<lambda>m. (media_view_of m, md_file_size_bytes m)) (media_of s uid)))"

record update_planner_dto =
  up_display_name :: "string option"
  up_company_name :: "string option option"
  up_bio :: "string option option"
  up_location_city :: "string option option"
  up_location_country :: "string option option"
  up_event_types :: "string list option"
  up_social_links :: "jobject option"
  up_booker_type :: "string option option"

definition planner_patch :: "update_planner_dto \<Rightarrow> planner_profile \<Rightarrow> planner_profile" where
  "planner_patch dto p =
     p\<lparr>pp_display_name := (case up_display_name dto of None \<Rightarrow> pp_display_name p | Some n \<Rightarrow> Some n),
       pp_company_name := assigned (up_company_name dto) (pp_company_name p),
       pp_bio := assigned (up_bio dto) (pp_bio p),
       pp_location_city := assigned (up_location_city dto) (pp_location_city p),
       pp_location_country := assigned (up_location_country dto) (pp_location_country p),
       pp_event_types := assigned (up_event_types dto) (pp_event_types p),
       pp_social_links := assigned (up_social_links dto) (pp_social_links p),
       pp_booker_type := assigned (up_booker_type dto) (pp_booker_type p)\<rparr>"

definition nothing_to_patch :: "update_planner_dto \<Rightarrow> bool" where
  "nothing_to_patch dto \<longleftrightarrow> up_display_name dto = None \<and> up_company_name dto = None \<and> up_bio dto = None \<and>
     up_location_city dto = None \<and> up_location_country dto = None \<and> up_event_types dto = None \<and>
     up_social_links dto = None \<and> up_booker_type dto = None"

text \<open>One profile per user: the updated row is the answer.\<close>

definition update_planner_me :: "uuid \<Rightarrow> update_planner_dto \<Rightarrow> db \<Rightarrow> planner_profile result \<times> db" where
  "update_planner_me uid dto s =
     (case find (\<lambda>p. pp_user_id p = uid) (planner_profiles s) of
        None \<Rightarrow> (Inl (NotFound ''Planner profile not found.''), s)
      | Some p \<Rightarrow>
          if nothing_to_patch dto then (Inr p, s)
          else (Inr (hd (updated_rows (\<lambda>p. pp_user_id p = uid) (planner_patch dto) (planner_profiles s))),
                s\<lparr>planner_profiles := update_where (\<lambda>p. pp_user_id p = uid) (planner_patch dto) (planner_profiles s)\<rparr>))"

lemmas planner_op_defs [op_defs] = update_planner_me_def

section \<open>Whom the directory shows\<close>

lemma page_of_subset: "set (page_of page limit rows) \<subseteq> set rows"
  unfolding page_of_def by (meson dual_order.trans set_drop_subset set_take_subset)

lemma planner_row_owner:
  "map_of (select_columns directory_columns (planner_row p)) ''user_id'' = Some (JUuid (pp_user_id p))"
  "map_of (select_columns page_columns (planner_row p)) ''user_id'' = Some (JUuid (pp_user_id p))"
  by (simp_all add: select_columns_def directory_columns_def page_columns_def planner_row_def)

definition company_account :: "db \<Rightarrow> uuid \<Rightarrow> bool" where
  "company_account s uid \<longleftrightarrow> active_user s uid \<and> (\<exists>p \<in> set (planner_profiles s). pp_user_id p = uid \<and> pp_kind p = Some K_company)"

lemma listed_company_account:
  "p \<in> set (planner_profiles s) \<Longrightarrow> listed_company s p \<Longrightarrow> company_account s (pp_user_id p)"
  by (auto simp: listed_company_def company_account_def company_kinds_def split: option.splits)

text \<open>
  A private person who books is in no answer of the directory, under no filter, order or page,
  and no profile page opens for them: every row is the profile of an active account that registered
  as a company.
\<close>

theorem directory_shows_companies_only:
  "list_all (\<lambda>row. \<exists>uid. map_of row ''user_id'' = Some (JUuid uid) \<and> company_account s uid) (fst (search_planners dto s))
   \<and> (find_one_planner pid s = Inl (NotFound ''Planner not found.'')
      \<or> (\<exists>row media uid. find_one_planner pid s = Inr (row, media) \<and> map_of row ''user_id'' = Some (JUuid uid) \<and> company_account s uid))"
proof
  let ?found = "filter (\<lambda>p. listed_company s p \<and> planner_filter dto p) (planner_profiles s)"
  let ?shown = "page_of (sp_page dto) (sp_limit dto) (sort_by (planner_order (sp_sort dto)) ?found)"
  have "set ?shown \<subseteq> set ?found" using page_of_subset [of _ _ "sort_by _ ?found"] by simp
  then have "company_account s (pp_user_id p)" if "p \<in> set ?shown" for p
    using that listed_company_account by auto
  then have "list_all (\<lambda>p. \<exists>uid. map_of (select_columns directory_columns (planner_row p)) ''user_id'' = Some (JUuid uid)
      \<and> company_account s uid) ?shown"
    by (simp only: planner_row_owner list_all_iff) blast
  then show "list_all (\<lambda>row. \<exists>uid. map_of row ''user_id'' = Some (JUuid uid) \<and> company_account s uid) (fst (search_planners dto s))"
    by (simp only: search_planners_def Let_def fst_conv list.pred_map comp_def)
next
  show "find_one_planner pid s = Inl (NotFound ''Planner not found.'')
      \<or> (\<exists>row media uid. find_one_planner pid s = Inr (row, media) \<and> map_of row ''user_id'' = Some (JUuid uid) \<and> company_account s uid)"
  proof (cases "find (\<lambda>p. pp_id p = pid \<and> listed_company s p) (planner_profiles s)")
    case (Some p)
    with find_SomeD [OF Some] listed_company_account have "company_account s (pp_user_id p)" by blast
    with Some planner_row_owner(2) show ?thesis unfolding find_one_planner_def Some option.case by blast
  qed (simp add: find_one_planner_def)
qed

text \<open>
  An event type that only private persons named is offered as a filter of the directory all the
  same, to everybody, and choosing it finds nobody.
\<close>

theorem private_event_type_finds_nobody:
  assumes "p \<in> set (planner_profiles s)" and "active_user s (pp_user_id p)" and "chip \<in> set (pp_event_types p)"
    and "list_all (\<lambda>q. pp_kind q = Some K_company \<longrightarrow> chip \<notin> set (pp_event_types q)) (planner_profiles s)"
    and "sp_event_types dto = [chip]"
  shows "chip \<in> set (get_event_types s) \<and> fst (search_planners dto s) = [] \<and> pm_total (snd (search_planners dto s)) = 0"
proof -
  have "\<not> (listed_company s q \<and> planner_filter dto q)" if "q \<in> set (planner_profiles s)" for q
    using that assms(4,5) by (auto simp: listed_company_def planner_filter_def company_kinds_def list_all_iff split: option.splits)
  then have none: "filter (\<lambda>p. listed_company s p \<and> planner_filter dto p) (planner_profiles s) = []"
    by (simp add: filter_empty_conv)
  show ?thesis
    using assms(1-3) by (auto simp: get_event_types_def search_planners_def Let_def none page_of_def meta_of_def aggregate_value_def)
qed

definition private_booker :: user_row where
  "private_booker = \<lparr>u_id = 3, u_email = ''ana@x.org'', u_phone = None, u_password_hash = None, u_role = R_planner,
     u_status = U_active, u_account_code = ''PLN-000001'', u_email_verified_at = None, u_phone_verified_at = None,
     u_last_login_at = None, u_created_at = 0, u_deleted_at = None, u_pending_email = None\<rparr>"

definition private_directory :: db where
  "private_directory = empty_db\<lparr>users := [private_booker],
     planner_profiles := [(default_planner_profile 4 3 0)\<lparr>pp_kind := Some K_individual, pp_event_types := [''Our wedding'']\<rparr>]\<rparr>"

definition chip_search :: search_planners_dto where
  "chip_search = \<lparr>sp_q = None, sp_event_types = [''Our wedding''], sp_country = None, sp_city = None, sp_sort = Planner_newest,
     sp_page = 1, sp_limit = 20\<rparr>"

theorem private_event_type_finds_nobody_witness:
  "''Our wedding'' \<in> set (get_event_types private_directory) \<and> fst (search_planners chip_search private_directory) = []
   \<and> pm_total (snd (search_planners chip_search private_directory)) = 0"
  by (rule private_event_type_finds_nobody [where p =
        "(default_planner_profile 4 3 0)\<lparr>pp_kind := Some K_individual, pp_event_types := [''Our wedding'']\<rparr>"])
     (simp_all add: private_directory_def private_booker_def chip_search_def empty_db_def active_user_def default_planner_profile_def)

end
