(* ===== verification/Notices.thy ===== *)
theory Notices
  imports Artists Bookings
begin

text \<open>
  \<open>src/notifications/notifications.service.ts\<close> and \<open>src/availability/availability.service.ts\<close>: a user's
  notifications and their badge, and the days an artist takes off, which the directory and the
  bookings read.
\<close>

section \<open>Notifications\<close>

definition unread :: "uuid \<Rightarrow> notification \<Rightarrow> bool" where
  "unread uid n \<longleftrightarrow> n_user_id n = uid \<and> n_read_at n = None"

definition list_notifications :: "uuid \<Rightarrow> bool \<Rightarrow> nat \<Rightarrow> nat \<Rightarrow> db \<Rightarrow> notification list \<times> page_meta" where
  "list_notifications uid unread_only page limit s =
     (let rows = filter (\<lambda>n. n_user_id n = uid \<and> (unread_only \<longrightarrow> n_read_at n = None)) (notifications s)
      in (page_of page limit (sort_by (\<lambda>a b. n_created_at b \<le> n_created_at a) rows),
          meta_of (aggregate_value (Some (length rows))) page limit))"

definition get_unread_count :: "uuid \<Rightarrow> db \<Rightarrow> nat" where
  "get_unread_count uid s = aggregate_value (Some (length (filter (unread uid) (notifications s))))"

definition mark_notification_read :: "clock \<Rightarrow> uuid \<Rightarrow> uuid \<Rightarrow> db \<Rightarrow> string result \<times> db" where
  "mark_notification_read ck uid nid s =
     (case find (\<lambda>n. n_id n = nid) (notifications s) of
        None \<Rightarrow> (Inl (NotFound ''Notification not found.''), s)
      | Some n \<Rightarrow>
          if n_user_id n \<noteq> uid then (Inl (Forbidden ''You do not have permission to access this notification.''), s)
          else (Inr ''Notification marked as read.'',
            if n_read_at n = None
            then s\<lparr>notifications := update_where (\<lambda>n. n_id n = nid) (\<lambda>n. n\<lparr>n_read_at := Some (db_now ck)\<rparr>) (notifications s)\<rparr>
            else s))"

definition mark_all_notifications_read :: "clock \<Rightarrow> uuid \<Rightarrow> db \<Rightarrow> string \<times> db" where
  "mark_all_notifications_read ck uid s =
     (show_nat (length (updated_rows (unread uid) (\<lambda>n. n\<lparr>n_read_at := Some (db_now ck)\<rparr>) (notifications s))) @ '' notification(s) marked as read.'',
      s\<lparr>notifications := update_where (unread uid) (\<lambda>n. n\<lparr>n_read_at := Some (db_now ck)\<rparr>) (notifications s)\<rparr>)"

section \<open>Days off\<close>

record block_form =
  bf_start_date :: string
  bf_end_date :: string
  bf_note :: "string option"

definition get_availability :: "clock \<Rightarrow> uuid \<Rightarrow> db \<Rightarrow> (uuid \<times> string \<times> string \<times> string option) list" where
  "get_availability ck artist s = map (\<lambda>b. (av_id b, av_start_date b, av_end_date b, av_note b)) (upcoming_blocks ck s artist)"

definition new_block :: "uuid \<Rightarrow> block_form \<Rightarrow> string \<Rightarrow> string \<Rightarrow> uuid \<Rightarrow> availability_block" where
  "new_block artist f first_day last_day bid =
     \<lparr>av_id = bid, av_artist_id = artist, av_start_date = first_day, av_end_date = last_day, av_note = bf_note f\<rparr>"

text \<open>
  \<open>create\<close>: the two comparisons are of the texts as sent; the insert has them read as DATEs,
  under the table's \<open>CHECK (end_date >= start_date)\<close>.
\<close>

definition create_block :: "date_input \<Rightarrow> clock \<Rightarrow> uuid \<Rightarrow> block_form \<Rightarrow> db \<Rightarrow> availability_block result \<times> db" where
  "create_block D ck artist f s =
     (if str_less (bf_end_date f) (bf_start_date f) then (Inl (BadRequest ''end_date must be on or after start_date.''), s)
      else if str_less (bf_end_date f) (iso_date (js_now ck)) then (Inl (BadRequest ''Cannot create availability blocks in the past.''), s)
      else case D (bf_start_date f) of Inl e \<Rightarrow> (Inl e, s) | Inr first_day \<Rightarrow>
        (case D (bf_end_date f) of Inl e \<Rightarrow> (Inl e, s) | Inr last_day \<Rightarrow>
           if str_less last_day first_day then (Inl check_violation, s)
           else (let b = new_block artist f first_day last_day (next_id s)
                 in (Inr b, s\<lparr>availability_blocks := availability_blocks s @ [b], next_id := Suc (next_id s)\<rparr>))))"

definition remove_block :: "uuid \<Rightarrow> uuid \<Rightarrow> db \<Rightarrow> string result \<times> db" where
  "remove_block artist bid s =
     (case find (\<lambda>b. av_id b = bid) (availability_blocks s) of
        None \<Rightarrow> (Inl (NotFound ''Availability block not found.''), s)
      | Some b \<Rightarrow>
          if av_artist_id b \<noteq> artist then (Inl (Forbidden ''Not your availability block.''), s)
          else (Inr ''Availability block removed.'', s\<lparr>availability_blocks := filter (\<lambda>b. av_id b \<noteq> bid) (availability_blocks s)\<rparr>))"

lemmas notice_op_defs [op_defs] = mark_notification_read_def mark_all_notifications_read_def create_block_def remove_block_def

section \<open>The badge\<close>

lemma unread_marked [simp]: "\<not> unread v (n\<lparr>n_read_at := Some t\<rparr>)"
  by (simp add: unread_def)

lemma unread_owner: "unread uid n \<Longrightarrow> unread v n \<longleftrightarrow> v = uid"
  by (auto simp: unread_def)

lemma mark_all_unread:
  "filter (unread v) (update_where (unread uid) (\<lambda>n. n\<lparr>n_read_at := Some t\<rparr>) ns) = (if v = uid then [] else filter (unread v) ns)"
  by (cases "v = uid"; induction ns) (auto simp: unread_owner)

lemma mark_one_unread:
  "distinct (map n_id ns) \<Longrightarrow> n \<in> set ns \<Longrightarrow> unread uid n \<Longrightarrow>
   length (filter (unread v) ns) = (if v = uid then 1 else 0) +
     length (filter (unread v) (update_where (\<lambda>m. n_id m = n_id n) (\<lambda>m. m\<lparr>n_read_at := Some t\<rparr>) ns))"
proof (induction ns)
  case (Cons m ns)
  show ?case
  proof (cases "m = n")
    case True
    with Cons.prems have "update_where (\<lambda>m. n_id m = n_id n) (\<lambda>m. m\<lparr>n_read_at := Some t\<rparr>) ns = ns"
      by (intro update_where_none) (auto simp: image_iff)
    with True Cons.prems(3) show ?thesis by (simp add: unread_owner)
  next
    case False
    with Cons.prems have "n \<in> set ns" "n_id m \<noteq> n_id n" by (auto simp: image_iff)
    with Cons show ?thesis by (cases "v = uid") auto
  qed
qed simp

text \<open>
  The badge is the number of unread notifications the list announces. Opening one of them takes
  it down by one, for nobody else, and only its owner can; marking all read takes it to none, says how
  many there were and leaves every other user's badge alone.
\<close>

theorem reading_clears_the_badge:
  assumes "distinct (map n_id (notifications s))" and "n \<in> set (notifications s)" and "unread uid n"
  shows "get_unread_count uid s = pm_total (snd (list_notifications uid True page limit s))
   \<and> get_unread_count v s = (if v = uid then 1 else 0) + get_unread_count v (snd (mark_notification_read ck uid (n_id n) s))
   \<and> (v \<noteq> uid \<longrightarrow> (\<exists>e. mark_notification_read ck v (n_id n) s = (Inl e, s)))
   \<and> fst (mark_all_notifications_read ck uid s) = show_nat (get_unread_count uid s) @ '' notification(s) marked as read.''
   \<and> get_unread_count v (snd (mark_all_notifications_read ck uid s)) = (if v = uid then 0 else get_unread_count v s)"
proof (intro conjI)
  have found: "find (\<lambda>m. n_id m = n_id n) (notifications s) = Some n"
    using assms by (intro find_distinct_key) auto
  note u = assms(3) [unfolded unread_def]
  show "get_unread_count uid s = pm_total (snd (list_notifications uid True page limit s))"
    by (simp add: get_unread_count_def list_notifications_def Let_def meta_of_def aggregate_value_def unread_def [abs_def])
  show "get_unread_count v s = (if v = uid then 1 else 0) + get_unread_count v (snd (mark_notification_read ck uid (n_id n) s))"
    using mark_one_unread [OF assms] u by (simp add: get_unread_count_def mark_notification_read_def found aggregate_value_def)
  show "v \<noteq> uid \<longrightarrow> (\<exists>e. mark_notification_read ck v (n_id n) s = (Inl e, s))"
    using u by (auto simp: mark_notification_read_def found)
  show "fst (mark_all_notifications_read ck uid s) = show_nat (get_unread_count uid s) @ '' notification(s) marked as read.''"
    by (simp add: mark_all_notifications_read_def get_unread_count_def aggregate_value_def updated_rows_def)
  show "get_unread_count v (snd (mark_all_notifications_read ck uid s)) = (if v = uid then 0 else get_unread_count v s)"
    by (simp add: mark_all_notifications_read_def get_unread_count_def aggregate_value_def mark_all_unread)
qed

definition two_notices :: db where
  "two_notices = empty_db\<lparr>notifications :=
     [\<lparr>n_id = 1, n_user_id = 7, n_type = ''booking_request'', n_title = ''New'', n_data = [], n_read_at = None, n_created_at = 0\<rparr>,
      \<lparr>n_id = 2, n_user_id = 8, n_type = ''booking_request'', n_title = ''New'', n_data = [], n_read_at = None, n_created_at = 0\<rparr>]\<rparr>"

theorem reading_clears_the_badge_witness:
  "get_unread_count 7 two_notices = 1 \<and> get_unread_count 7 (snd (mark_notification_read \<lparr>db_now = 5, js_now = 5\<rparr> 7 1 two_notices)) = 0
   \<and> fst (mark_all_notifications_read \<lparr>db_now = 5, js_now = 5\<rparr> 7 two_notices) = show_nat 1 @ '' notification(s) marked as read.''"
proof -
  have one: "get_unread_count 7 two_notices = 1"
    by (simp add: get_unread_count_def two_notices_def unread_def aggregate_value_def)
  let ?n = "\<lparr>n_id = 1, n_user_id = 7, n_type = ''booking_request'', n_title = ''New'', n_data = [], n_read_at = None, n_created_at = 0\<rparr> :: notification"
  have "distinct (map n_id (notifications two_notices))" "?n \<in> set (notifications two_notices)" "unread 7 ?n"
    by (simp_all add: two_notices_def unread_def)
  from reading_clears_the_badge [OF this, where v = 7 and ck = "\<lparr>db_now = 5, js_now = 5\<rparr>"] one show ?thesis by simp
qed

section \<open>A day off\<close>

lemma create_block_made:
  assumes "create_block D ck artist f s = (Inr b, s')"
  obtains a z where "D (bf_start_date f) = Inr a" and "D (bf_end_date f) = Inr z"
    and "b = new_block artist f a z (next_id s)"
    and "s' = s\<lparr>availability_blocks := availability_blocks s @ [b], next_id := Suc (next_id s)\<rparr>"
  using assms by (auto simp: create_block_def Let_def split: if_splits sum.splits)

text \<open>A proposal the artist could have taken is refused for the day off, and for that alone.\<close>

lemma blocked_proposal:
  assumes "D (cb_event_date dto) = Inr d" and "list_ex (blocks_date (cb_artist_id dto) d) (availability_blocks s')"
  shows "\<exists>e. booking_create D ck planner dto s' = (Inl e, s')
     \<and> (bookable D ck planner dto s \<and> users s' = users s \<longrightarrow> e = BadRequest ''Artist is marked unavailable on this date.'')"
proof -
  have "\<exists>v. find (blocks_date (cb_artist_id dto) d) (availability_blocks s') = Some v"
    using assms(2) by (auto simp: list_ex_iff find_None_iff simp flip: not_None_eq)
  then have "create_block_check D dto s' = Inl (BadRequest ''Artist is marked unavailable on this date.'')"
    using assms(1) by (auto simp: create_block_check_def)
  moreover have "create_check ck planner dto s' = Inr ()" if "bookable D ck planner dto s" "users s' = users s"
  proof -
    have "create_check ck planner dto s' = create_check ck planner dto s" by (simp add: create_check_def that(2))
    with that(1) show ?thesis by (auto elim: bookable_passes)
  qed
  ultimately show ?thesis by (auto simp: booking_create_def split: sum.splits)
qed

text \<open>
  C36: A block the artist was allowed to set closes every one of its days, first and last included,
  days being what the server reads from the texts sent, in whatever form they are written: the artist is
  in no search for such a day, by any viewer and under any filter; no planner's
  proposal for it is stored, and one that would have been stored without the block is told that
  the artist is unavailable; and another user cannot take the block away.
\<close>

theorem day_off_closes_the_day:
  assumes "create_block D ck (ap_user_id p) f s = (Inr b, s')"
    and "D (bf_start_date f) = Inr a" and "D (bf_end_date f) = Inr z" and "D day = Inr d"
    and "str_le a d" and "str_le d z" and "day \<noteq> []"
    and "list_all (\<lambda>a. av_id a < next_id s) (availability_blocks s)" and "other \<noteq> ap_user_id p"
  shows "(sd_available_on dto = Some day \<longrightarrow> asked_day D dto = Inr (Some d) \<and> \<not> listed t dto (Some d) s' p)
   \<and> (cb_artist_id form = ap_user_id p \<and> cb_event_date form = day \<longrightarrow>
        (\<exists>e. booking_create D ck' planner form s' = (Inl e, s')
           \<and> (bookable D ck' planner form s \<longrightarrow> e = BadRequest ''Artist is marked unavailable on this date.'')))
   \<and> (\<exists>e. remove_block other (av_id b) s' = (Inl e, s'))"
proof (intro conjI impI)
  from assms(1-3) have b: "b = new_block (ap_user_id p) f a z (next_id s)"
    and s': "s' = s\<lparr>availability_blocks := availability_blocks s @ [b], next_id := Suc (next_id s)\<rparr>"
    by (auto elim: create_block_made)
  have closed: "blocked_on s' d p" "blocks_date (ap_user_id p) d b"
    using assms(5,6) by (simp_all add: blocked_on_def blocks_date_def s' b new_block_def)
  show "asked_day D dto = Inr (Some d)" if "sd_available_on dto = Some day"
    using that assms(4,7) by (cases day) (simp_all add: asked_day_def)
  show "\<not> listed t dto (Some d) s' p" using closed(1) by (simp add: listed_def)
  show "\<exists>e. booking_create D ck' planner form s' = (Inl e, s')
      \<and> (bookable D ck' planner form s \<longrightarrow> e = BadRequest ''Artist is marked unavailable on this date.'')"
    if "cb_artist_id form = ap_user_id p \<and> cb_event_date form = day"
    using blocked_proposal [of D form d s' ck' planner s] that assms(4) closed(2) by (auto simp: s')
  have "find (\<lambda>a. av_id a = next_id s) (availability_blocks s) = None"
    using assms(8) by (auto simp: find_None_iff list_all_iff)
  then have "find (\<lambda>a. av_id a = next_id s) (availability_blocks s') = Some b"
    by (simp add: s' find_append b new_block_def)
  then show "\<exists>e. remove_block other (av_id b) s' = (Inl e, s')"
    using assms(9) by (simp add: remove_block_def b new_block_def)
qed

text \<open>
  An artist and a planner; the block is given in mixed forms, as the validator lets through, and so
  is the day asked for.
\<close>

definition free_artist :: artist_profile where
  "free_artist = default_artist_profile 5 3 0"

definition season_member :: "uuid \<Rightarrow> user_role \<Rightarrow> user_row" where
  "season_member uid role = \<lparr>u_id = uid, u_email = ''m@x.lb'', u_phone = None, u_password_hash = None, u_role = role,
     u_status = U_active, u_account_code = ''PL000001'', u_email_verified_at = Some 1, u_phone_verified_at = None,
     u_last_login_at = None, u_created_at = 1, u_deleted_at = None, u_pending_email = None\<rparr>"

definition season_db :: db where
  "season_db = empty_db\<lparr>users := [season_member 3 R_artist, season_member 4 R_planner], artist_profiles := [free_artist], next_id := 6\<rparr>"

definition summer_break :: block_form where
  "summer_break = \<lparr>bf_start_date = ''2026-08-01'', bf_end_date = ''20260810'', bf_note = None\<rparr>"

definition gala_on :: "string \<Rightarrow> create_booking_dto" where
  "gala_on day = \<lparr>cb_artist_id = 3, cb_conversation_id = None, cb_event_name = ''Gala'', cb_event_date = day,
     cb_event_location = None, cb_duration_hours = None, cb_agreed_fee_usd = None, cb_notes = None\<rparr>"

lemma season_bookable: "bookable iso_input \<lparr>db_now = 0, js_now = 0\<rparr> (season_member 4 R_planner) (gala_on ''2026-08-10'') season_db"
proof -
  have "iso_date 0 = ''1970-01-01''" "str_less ''1970-01-01'' ''2026-08-10''" "str_le ''1970-01-01'' ''2026-08-10''"
    by code_simp+
  then show ?thesis
    by (simp add: bookable_def season_member_def gala_on_def season_db_def empty_db_def is_active_artist_def iso_input_def)
qed

theorem day_off_closes_the_day_witness:
  "\<exists>b s'. create_block iso_input \<lparr>db_now = 0, js_now = 0\<rparr> 3 summer_break season_db = (Inr b, s')
     \<and> fst (booking_create iso_input \<lparr>db_now = 0, js_now = 0\<rparr> (season_member 4 R_planner) (gala_on ''2026-08-10'') season_db)
         = Inr (new_booking \<lparr>db_now = 0, js_now = 0\<rparr> (season_member 4 R_planner) (gala_on ''2026-08-10'') ''2026-08-10'' 6)
     \<and> booking_create iso_input \<lparr>db_now = 0, js_now = 0\<rparr> (season_member 4 R_planner) (gala_on ''2026-08-10'') s'
         = (Inl (BadRequest ''Artist is marked unavailable on this date.''), s')
     \<and> (\<exists>e. remove_block 4 (av_id b) s' = (Inl e, s'))"
proof -
  let ?ck = "\<lparr>db_now = 0, js_now = 0\<rparr>" and ?who = "season_member 4 R_planner" and ?gala = "gala_on ''2026-08-10''"
  let ?b = "new_block 3 summer_break ''2026-08-01'' ''2026-08-10'' 6"
  let ?s = "season_db\<lparr>availability_blocks := [?b], next_id := 7\<rparr>"
  have "\<not> str_less ''20260810'' ''2026-08-01'' \<and> \<not> str_less ''20260810'' ''1970-01-01'' \<and> \<not> str_less ''2026-08-10'' ''2026-08-01''"
    and "iso_date 0 = ''1970-01-01''"
    by code_simp+
  then have made: "create_block iso_input ?ck 3 summer_break season_db = (Inr ?b, ?s)"
    by (simp add: create_block_def summer_break_def season_db_def empty_db_def Let_def iso_input_def)
  have alone: "fst (booking_create iso_input ?ck ?who ?gala season_db) = Inr (new_booking ?ck ?who ?gala ''2026-08-10'' 6)"
    using booking_create_correct [of iso_input ?ck ?who ?gala season_db] season_bookable
    by (auto simp: gala_on_def iso_input_def season_db_def)
  have days: "str_le ''2026-08-01'' ''2026-08-10''" "str_le ''2026-08-10'' ''2026-08-10''" by code_simp+
  have art: "ap_user_id free_artist = 3" by (simp add: free_artist_def default_artist_profile_def)
  have reads: "iso_input (bf_start_date summer_break) = Inr ''2026-08-01''" "iso_input (bf_end_date summer_break) = Inr ''2026-08-10''"
    "iso_input ''2026-08-10'' = Inr ''2026-08-10''"
    by (simp_all add: iso_input_def summer_break_def)
  have fresh: "list_all (\<lambda>a. av_id a < next_id season_db) (availability_blocks season_db)" by (simp add: season_db_def empty_db_def)
  have form: "cb_artist_id ?gala = ap_user_id free_artist \<and> cb_event_date ?gala = ''2026-08-10''"
    by (simp add: gala_on_def art)
  have made': "create_block iso_input ?ck (ap_user_id free_artist) summer_break season_db = (Inr ?b, ?s)" using made art by simp
  have rest: "''2026-08-10'' \<noteq> []" "(4 :: uuid) \<noteq> ap_user_id free_artist" by (simp_all add: art)
  from day_off_closes_the_day [OF made' reads days rest(1) fresh rest(2), of _ _ ?gala ?ck ?who]
  have "(\<exists>e. booking_create iso_input ?ck ?who ?gala ?s = (Inl e, ?s)
           \<and> (bookable iso_input ?ck ?who ?gala season_db \<longrightarrow> e = BadRequest ''Artist is marked unavailable on this date.''))
      \<and> (\<exists>e. remove_block 4 (av_id ?b) ?s = (Inl e, ?s))"
    using form by (simp add: art)
  with made alone season_bookable show ?thesis by (intro exI [of _ ?b] exI [of _ ?s]) simp
qed

end
