(* ===== verification/Admin_Lists.thy ===== *)
theory Admin_Lists
  imports Admin Planners
begin

text \<open>
  \<open>src/admin/admin.service.ts\<close>, what an administrator reads: accounts, the queues of documents,
  payments and reports, the audit log, reviews, and the figures of the dashboard.
\<close>

section \<open>Accounts\<close>

text \<open>\<open>leftJoin\<close>: the matching rows, or one row of nulls.\<close>

definition left_rows :: "'a list \<Rightarrow> 'a option list" where
  "left_rows xs = (if xs = [] then [None] else map Some xs)"

definition artist_rows_of :: "db \<Rightarrow> uuid \<Rightarrow> artist_profile option list" where
  "artist_rows_of s uid = left_rows (filter (\<lambda>p. ap_user_id p = uid) (artist_profiles s))"

definition planner_rows_of :: "db \<Rightarrow> uuid \<Rightarrow> planner_profile option list" where
  "planner_rows_of s uid = left_rows (filter (\<lambda>p. pp_user_id p = uid) (planner_profiles s))"

definition coalesce :: "'a option \<Rightarrow> 'a option \<Rightarrow> 'a option" where
  "coalesce x y = (case x of None \<Rightarrow> y | Some v \<Rightarrow> Some v)"

type_synonym account_row = "user_row \<times> artist_profile option \<times> planner_profile option"

definition account_rows :: "db \<Rightarrow> user_row list \<Rightarrow> account_row list" where
  "account_rows s us = concat (map (\<lambda>u. concat (map (\<lambda>a. map (\<lambda>p. (u, a, p)) (planner_rows_of s (u_id u))) (artist_rows_of s (u_id u)))) us)"

definition shown_name :: "artist_profile option \<Rightarrow> planner_profile option \<Rightarrow> string option" where
  "shown_name a p = coalesce (Option.bind a ap_display_name) (Option.bind p pp_display_name)"

record account_line =
  al_id :: uuid
  al_email :: string
  al_phone :: "string option"
  al_role :: user_role
  al_status :: user_status
  al_account_code :: string
  al_email_verified_at :: "timestamp option"
  al_phone_verified_at :: "timestamp option"
  al_last_login_at :: "timestamp option"
  al_created_at :: timestamp
  al_deleted_at :: "timestamp option"
  al_display_name :: "string option"
  al_is_verified :: bool
  al_thumbnail_url :: "string option"

definition account_line_of :: "account_row \<Rightarrow> account_line" where
  "account_line_of r = (case r of (u, a, p) \<Rightarrow>
     \<lparr>al_id = u_id u, al_email = u_email u, al_phone = u_phone u, al_role = u_role u, al_status = u_status u,
      al_account_code = u_account_code u, al_email_verified_at = u_email_verified_at u,
      al_phone_verified_at = u_phone_verified_at u, al_last_login_at = u_last_login_at u, al_created_at = u_created_at u,
      al_deleted_at = u_deleted_at u, al_display_name = shown_name a p,
      al_is_verified = (case a of None \<Rightarrow> False | Some x \<Rightarrow> ap_is_verified x),
      al_thumbnail_url = coalesce (Option.bind a ap_thumbnail_url) (Option.bind p pp_thumbnail_url)\<rparr>)"

datatype status_filter = Is_deleted | Has_status user_status

definition matches_status :: "status_filter option \<Rightarrow> user_row \<Rightarrow> bool" where
  "matches_status f u \<longleftrightarrow> (case f of None \<Rightarrow> True | Some Is_deleted \<Rightarrow> u_deleted_at u \<noteq> None
     | Some (Has_status st) \<Rightarrow> u_status u = st \<and> u_deleted_at u = None)"

definition matches_text :: "string option \<Rightarrow> account_row \<Rightarrow> bool" where
  "matches_text t r \<longleftrightarrow> (case r of (u, a, p) \<Rightarrow> given t (\<lambda>q.
     ilike (Some (u_email u)) (anywhere q) \<or> ilike (Some (u_account_code u)) (anywhere q) \<or>
     ilike (Option.bind a ap_display_name) (anywhere q) \<or> ilike (Option.bind p pp_display_name) (anywhere q)))"

record list_users_dto =
  lu_role :: "user_role option"
  lu_status :: "status_filter option"
  lu_q :: "string option"
  lu_page :: nat
  lu_limit :: nat

definition list_users :: "list_users_dto \<Rightarrow> db \<Rightarrow> account_line list \<times> page_meta" where
  "list_users dto s =
     (let rows = filter (\<lambda>r. (case lu_role dto of None \<Rightarrow> True | Some w \<Rightarrow> u_role (fst r) = w)
                   \<and> matches_status (lu_status dto) (fst r) \<and> matches_text (lu_q dto) r) (account_rows s (users s))
      in (map account_line_of (page_of (lu_page dto) (lu_limit dto)
            (sort_by (\<lambda>a b. u_created_at (fst b) \<le> u_created_at (fst a)) rows)),
          meta_of (aggregate_value (Some (length rows))) (lu_page dto) (lu_limit dto)))"

record account_page =
  ag_user :: user_row
  ag_display_name :: "string option"
  ag_artist_profile :: "artist_profile option"
  ag_planner_profile :: "planner_profile option"
  ag_doc_status :: "doc_status option"
  ag_doc_rejection_reason :: "string option"
  ag_doc_reviewed_at :: "timestamp option"
  ag_latest_payment :: "payment option"

text \<open>\<open>u.*\<close>: the whole row of the user; of the joined rows the first one.\<close>

definition get_user :: "uuid \<Rightarrow> db \<Rightarrow> account_page result" where
  "get_user uid s =
     (case concat (map (\<lambda>r. map (\<lambda>d. (r, d)) (left_rows (filter (\<lambda>d. i_user_id d = uid) (id_documents s))))
             (account_rows s (filter (\<lambda>u. u_id u = uid) (users s)))) of
        [] \<Rightarrow> Inl (NotFound ''User not found.'')
      | ((u, a, p), d) # _ \<Rightarrow>
          Inr \<lparr>ag_user = u, ag_display_name = shown_name a p, ag_artist_profile = a, ag_planner_profile = p,
               ag_doc_status = map_option i_status d, ag_doc_rejection_reason = Option.bind d i_rejection_reason,
               ag_doc_reviewed_at = Option.bind d i_reviewed_at,
               ag_latest_payment = (if u_role u = R_planner
                 then (case sort_by (\<lambda>x y. y_created_at y \<le> y_created_at x) (filter (\<lambda>y. y_planner_id y = uid) (payments s)) of
                         [] \<Rightarrow> None | y # _ \<Rightarrow> Some y)
                 else None)\<rparr>)"

section \<open>Queues\<close>

text \<open>An inner join on a user: the rows whose user exists, with it.\<close>

definition with_user :: "('r \<Rightarrow> uuid) \<Rightarrow> db \<Rightarrow> 'r list \<Rightarrow> ('r \<times> user_row) list" where
  "with_user key s rows = concat (map (\<lambda>r. map (\<lambda>u. (r, u)) (filter (\<lambda>u. u_id u = key r) (users s))) rows)"

record document_line =
  dl_id :: uuid
  dl_user_id :: uuid
  dl_status :: doc_status
  dl_kind :: doc_kind
  dl_uploaded_at :: timestamp
  dl_email :: string
  dl_role :: user_role
  dl_account_code :: string
  dl_user_status :: user_status
  dl_display_name :: "string option"

definition pending_document_rows :: "db \<Rightarrow> document_line list" where
  "pending_document_rows s =
     concat (map (\<lambda>(d, u). map (\<lambda>(_, a, p).
         \<lparr>dl_id = i_id d, dl_user_id = i_user_id d, dl_status = i_status d, dl_kind = i_kind d, dl_uploaded_at = i_uploaded_at d,
          dl_email = u_email u, dl_role = u_role u, dl_account_code = u_account_code u, dl_user_status = u_status u,
          dl_display_name = shown_name a p\<rparr>) (account_rows s [u]))
       (with_user i_user_id s (filter (\<lambda>d. i_status d = DS_pending) (id_documents s))))"

definition list_pending_documents :: "nat \<Rightarrow> nat \<Rightarrow> db \<Rightarrow> document_line list \<times> page_meta" where
  "list_pending_documents page limit s =
     (let rows = pending_document_rows s
      in (page_of page limit (sort_by (\<lambda>a b. dl_uploaded_at a \<le> dl_uploaded_at b) rows),
          meta_of (aggregate_value (Some (length rows))) page limit))"

record payment_line =
  yl_payment :: payment
  yl_email :: string
  yl_account_code :: string
  yl_display_name :: "string option"
  yl_company_name :: "string option"

text \<open>The payment stands for its selected columns; \<open>period_start\<close> and \<open>period_end\<close> are no columns of the model.\<close>

definition pending_payment_rows :: "db \<Rightarrow> payment_line list" where
  "pending_payment_rows s =
     concat (map (\<lambda>(y, u). map (\<lambda>p.
         \<lparr>yl_payment = y, yl_email = u_email u, yl_account_code = u_account_code u,
          yl_display_name = Option.bind p pp_display_name, yl_company_name = Option.bind p pp_company_name\<rparr>) (planner_rows_of s (u_id u)))
       (with_user y_planner_id s (filter (\<lambda>y. y_status y \<in> {Y_pending, Y_awaiting_provider}) (payments s))))"

definition list_pending_payments :: "nat \<Rightarrow> nat \<Rightarrow> db \<Rightarrow> payment_line list \<times> page_meta" where
  "list_pending_payments page limit s =
     (let rows = pending_payment_rows s
      in (page_of page limit (sort_by (\<lambda>a b. y_created_at (yl_payment a) \<le> y_created_at (yl_payment b)) rows),
          meta_of (aggregate_value (Some (length rows))) page limit))"

record flag_line =
  fl_flag :: flag_row
  fl_reporter_id :: uuid
  fl_reporter_email :: string
  fl_reporter_account_code :: string

definition list_open_flags :: "nat \<Rightarrow> nat \<Rightarrow> db \<Rightarrow> flag_line list \<times> page_meta" where
  "list_open_flags page limit s =
     (let rows = map (\<lambda>(f, u). \<lparr>fl_flag = f, fl_reporter_id = u_id u, fl_reporter_email = u_email u,
                                fl_reporter_account_code = u_account_code u\<rparr>)
                   (with_user f_flagged_by s (filter (\<lambda>f. f_status f = F_open) (flag_rows s)))
      in (page_of page limit (sort_by (\<lambda>a b. f_created_at (fl_flag a) \<le> f_created_at (fl_flag b)) rows),
          meta_of (aggregate_value (Some (length rows))) page limit))"

section \<open>The audit log and the reviews\<close>

definition is_given :: "'a option \<Rightarrow> 'a \<Rightarrow> bool" where
  "is_given wanted x \<longleftrightarrow> (case wanted of None \<Rightarrow> True | Some w \<Rightarrow> x = w)"

definition get_audit_log ::
  "uuid option \<Rightarrow> uuid option \<Rightarrow> string option \<Rightarrow> nat \<Rightarrow> nat \<Rightarrow> db \<Rightarrow> (audit_row \<times> string \<times> string) list \<times> page_meta" where
  "get_audit_log admin target action page limit s =
     (let rows = map (\<lambda>(a, u). (a, u_email u, u_account_code u))
                   (with_user a_admin_id s (filter (\<lambda>a. is_given admin (a_admin_id a) \<and> is_given target (a_target_id a)
                      \<and> given action (\<lambda>x. a_action a = x)) (audit_log s)))
      in (page_of page limit (sort_by (\<lambda>a b. a_created_at (fst b) \<le> a_created_at (fst a)) rows),
          meta_of (aggregate_value (Some (length rows))) page limit))"

record review_line =
  rl_id :: uuid
  rl_overall_score :: int
  rl_body :: "string option"
  rl_is_visible :: bool
  rl_reviewer_role :: user_role
  rl_submitted_at :: timestamp
  rl_reviewer_email :: string
  rl_reviewee_email :: string
  rl_event_name :: string
  rl_event_date :: string

definition review_lines :: "db \<Rightarrow> review_line list" where
  "review_lines s =
     concat (map (\<lambda>(r, v). concat (map (\<lambda>(_, w). map (\<lambda>b.
         \<lparr>rl_id = r_id r, rl_overall_score = r_overall_score r, rl_body = r_body r, rl_is_visible = r_is_visible r,
          rl_reviewer_role = r_reviewer_role r, rl_submitted_at = r_submitted_at r, rl_reviewer_email = u_email v,
          rl_reviewee_email = u_email w, rl_event_name = b_event_name b, rl_event_date = b_event_date b\<rparr>)
         (filter (\<lambda>b. b_id b = r_booking_id r) (bookings s)))
       (with_user r_reviewee_id s [r])))
     (with_user r_reviewer_id s (reviews s)))"

definition list_reviews :: "nat \<Rightarrow> nat \<Rightarrow> db \<Rightarrow> review_line list \<times> page_meta" where
  "list_reviews page limit s =
     (let rows = review_lines s
      in (page_of page limit (sort_by (\<lambda>a b. rl_submitted_at b \<le> rl_submitted_at a) rows),
          meta_of (aggregate_value (Some (length rows))) page limit))"


section \<open>The dashboard\<close>

record dashboard =
  db_users :: "((user_role \<times> user_status) \<times> nat) list"
  db_pending_id_documents :: nat
  db_pending_payments :: nat
  db_open_flags :: nat

definition get_stats :: "db \<Rightarrow> dashboard" where
  "get_stats s =
     \<lparr>db_users = map (\<lambda>(k, us). (k, length us)) (group_rows (\<lambda>u. (u_role u, u_status u)) (users s)),
      db_pending_id_documents = aggregate_value (Some (length (filter (\<lambda>d. i_status d = DS_pending) (id_documents s)))),
      db_pending_payments = aggregate_value (Some (length (filter (\<lambda>y. y_status y = Y_pending) (payments s)))),
      db_open_flags = aggregate_value (Some (length (filter (\<lambda>f. f_status f = F_open) (flag_rows s))))\<rparr>"

section \<open>Sign-ups by day\<close>

text \<open>\<open>CURRENT_DATE - INTERVAL\<close>: midnight of the database's day, so many days back.\<close>

definition signup_rows :: "clock \<Rightarrow> nat \<Rightarrow> db \<Rightarrow> ((string \<times> user_role) \<times> nat) list" where
  "signup_rows ck days s =
     sort_by (\<lambda>a b. str_le (fst (fst a)) (fst (fst b)))
       (map (\<lambda>(k, us). (k, length us))
         (group_rows (\<lambda>u. (iso_date (u_created_at u), u_role u))
           (filter (\<lambda>u. db_now ck div ms_per_day * ms_per_day - int days * ms_per_day \<le> u_created_at u
                      \<and> u_role u \<in> {R_artist, R_planner}) (users s))))"

fun by_date :: "((string \<times> user_role) \<times> nat) list \<Rightarrow> (string \<Rightarrow> (nat \<times> nat) option) \<Rightarrow> string \<Rightarrow> (nat \<times> nat) option" where
  "by_date [] m = m"
| "by_date (((day, r), n) # rows) m =
     (let (artists, planners) = (case m day of None \<Rightarrow> (0, 0) | Some e \<Rightarrow> e)
      in by_date rows (m(day \<mapsto> (if r = R_artist then (n, planners) else (artists, n)))))"

definition get_signup_trend :: "clock \<Rightarrow> nat \<Rightarrow> db \<Rightarrow> (string \<times> nat \<times> nat) list" where
  "get_signup_trend ck days s =
     (let counted = by_date (signup_rows ck days s) (\<lambda>_. None)
      in map (\<lambda>i. let day = iso_date (js_now ck - int i * ms_per_day)
                  in (day, case counted day of None \<Rightarrow> (0, 0) | Some e \<Rightarrow> e)) (rev [0..<days]))"

section \<open>What bookers want\<close>

record interest_entry =
  ie_interest :: booker_interest
  ie_total :: nat
  ie_individual :: nat
  ie_company :: nat

text \<open>The row of a bucket is made when its first group comes, and stays in its place.\<close>

definition grown :: "planner_kind option \<Rightarrow> nat \<Rightarrow> interest_entry \<Rightarrow> interest_entry" where
  "grown k n e = e\<lparr>ie_total := ie_total e + n,
     ie_company := ie_company e + (if k = Some K_company then n else 0),
     ie_individual := ie_individual e + (if k = Some K_individual then n else 0)\<rparr>"

definition count_interest :: "(booker_interest \<times> planner_kind option) \<times> nat \<Rightarrow> interest_entry list \<Rightarrow> interest_entry list" where
  "count_interest row es =
     (case row of ((i, k), n) \<Rightarrow>
        if list_ex (\<lambda>e. ie_interest e = i) es then update_where (\<lambda>e. ie_interest e = i) (grown k n) es
        else es @ [grown k n \<lparr>ie_interest = i, ie_total = 0, ie_individual = 0, ie_company = 0\<rparr>])"

definition interest_pairs :: "db \<Rightarrow> (booker_interest \<times> planner_kind option) list" where
  "interest_pairs s =
     concat (map (\<lambda>r. map (\<lambda>p. (pi_interest r, pp_kind p)) (filter (\<lambda>p. pp_id p = pi_planner_profile_id r) (planner_profiles s)))
       (planner_interests s))"

record interest_report =
  ir_interests :: "(interest_entry \<times> rat) list"
  ir_answering :: nat
  ir_total_bookers :: nat
  ir_unanswered :: nat

definition get_booker_interests :: "db \<Rightarrow> interest_report" where
  "get_booker_interests s =
     (let rows = map (\<lambda>(k, ps). (k, length ps)) (group_rows (\<lambda>x. x) (interest_pairs s));
          answering = aggregate_value (Some (length (remdups (map pi_planner_profile_id (planner_interests s)))));
          total_bookers = aggregate_value (Some (length (planner_profiles s)));
          entries = fold count_interest rows []
      in \<lparr>ir_interests = sort_by (\<lambda>a b. ie_total (fst b) \<le> ie_total (fst a))
            (map (\<lambda>e. (e, if answering > 0 then of_nat (ie_total e) / of_nat answering else 0)) entries),
          ir_answering = answering, ir_total_bookers = total_bookers, ir_unanswered = total_bookers - answering\<rparr>)"

section \<open>What is booked, by whom, and where\<close>

definition confirmed_booking_statuses :: "booking_status list" where
  "confirmed_booking_statuses = [B_accepted, B_completed]"

definition confirmed_bookings :: "db \<Rightarrow> booking list" where
  "confirmed_bookings s = filter (\<lambda>b. b_status b \<in> set confirmed_booking_statuses) (bookings s)"

text \<open>By count, then by name.\<close>

definition most_first :: "string \<times> nat \<Rightarrow> string \<times> nat \<Rightarrow> bool" where
  "most_first a b \<longleftrightarrow> snd b < snd a \<or> (snd a = snd b \<and> str_le (fst a) (fst b))"

definition counted :: "string list \<Rightarrow> (string \<times> nat) list" where
  "counted xs = map (\<lambda>(k, g). (k, length g)) (group_rows (\<lambda>x. x) xs)"

definition get_top_booked_categories :: "nat \<Rightarrow> db \<Rightarrow> (string \<times> nat) list" where
  "get_top_booked_categories limit s =
     take limit (sort_by most_first (counted
       (concat (map (\<lambda>b. concat (map (\<lambda>p. map (\<lambda>c. fst (snd c)) (categories_of_artist s (ap_id p)))
           (filter (\<lambda>p. ap_user_id p = b_artist_id b) (artist_profiles s)))) (confirmed_bookings s)))))"

definition get_top_booker_types :: "nat \<Rightarrow> db \<Rightarrow> (string \<times> nat) list" where
  "get_top_booker_types limit s =
     take limit (sort_by most_first (counted
       (concat (map (\<lambda>b. map (\<lambda>p. case pp_booker_type p of None \<Rightarrow> ''Unspecified'' | Some t \<Rightarrow> t)
           (filter (\<lambda>p. pp_user_id p = b_planner_id b) (planner_profiles s))) (confirmed_bookings s)))))"

definition get_geography_breakdown :: "db \<Rightarrow> (string \<times> nat) list" where
  "get_geography_breakdown s =
     take 10 (sort_by (\<lambda>a b. snd b \<le> snd a) (counted
       (List.map_filter ap_location_city (artist_profiles s) @ List.map_filter pp_location_city (planner_profiles s))))"

end
