(* ===== verification/Routes.thy ===== *)
theory Routes
  imports Auth Access
begin

text \<open>
  The decorators of the controllers under \<open>src/\<close> and the guards they put in front of each handler:
  one entry per route, in the order its controller registers them, the default-deny guard and the
  prefix of \<open>src/app.module.ts\<close> and \<open>src/main.ts\<close>, and how a request finds its handler.
\<close>

section \<open>Routes\<close>

datatype verb = V_get | V_post | V_put | V_patch | V_delete

datatype segment = Seg string | Param string

datatype guard =
    G_jwt
  | G_optional_jwt
  | G_roles
  | G_throttler
  | G_local
  | G_subscription
  | G_google_configured
  | G_apple_configured
  | G_passport string

record route =
  rt_verb :: verb
  rt_path :: "segment list"
  rt_status :: nat \<comment> \<open>\<open>@HttpCode\<close>, else 201 for a post and 200; a handler that redirects answers for itself\<close>
  rt_handler :: string
  rt_public :: bool
  rt_guards :: "guard list"
  rt_roles :: "user_role list option"
  rt_plan_roles :: "user_role list option"
  rt_throttle :: "(nat \<times> nat) option" \<comment> \<open>limit and window in milliseconds\<close>
  rt_uuids :: "string list" \<comment> \<open>the parameters read through \<open>ParseUUIDPipe\<close>\<close>

definition entry :: "verb \<Rightarrow> segment list \<Rightarrow> nat \<Rightarrow> string \<Rightarrow> route" where
  "entry v p st h = \<lparr>rt_verb = v, rt_path = p, rt_status = st, rt_handler = h, rt_public = False, rt_guards = [],
     rt_roles = None, rt_plan_roles = None, rt_throttle = None, rt_uuids = []\<rparr>"

text \<open>
  What a class declares: its path in front, its guards before those of the handler, and its roles and
  its \<open>@Public\<close> where the handler has none of its own (\<open>getAllAndOverride\<close>).
\<close>

definition in_controller :: "segment list \<Rightarrow> bool \<Rightarrow> guard list \<Rightarrow> user_role list option \<Rightarrow> route list \<Rightarrow> route list" where
  "in_controller base public guards roles rs =
     map (\<lambda>r. r\<lparr>rt_path := base @ rt_path r, rt_public := public \<or> rt_public r, rt_guards := guards @ rt_guards r,
                rt_roles := (case rt_roles r of None \<Rightarrow> roles | Some x \<Rightarrow> Some x)\<rparr>) rs"

definition admin_figure_routes :: "route list" where
  "admin_figure_routes = in_controller [Seg ''admin''] False [G_jwt, G_roles] (Some [R_admin]) [
      entry V_get [Seg ''stats''] 200 ''AdminController.getStats'',
      entry V_get [Seg ''analytics'', Seg ''signups''] 200 ''AdminController.getSignupTrend'',
      entry V_get [Seg ''analytics'', Seg ''geography''] 200 ''AdminController.getGeographyBreakdown'',
      entry V_get [Seg ''analytics'', Seg ''booked-categories''] 200 ''AdminController.getTopBookedCategories'',
      entry V_get [Seg ''analytics'', Seg ''booker-interests''] 200 ''AdminController.getBookerInterests'',
      entry V_get [Seg ''analytics'', Seg ''booker-types''] 200 ''AdminController.getTopBookerTypes'',
      entry V_get [Seg ''analytics'', Seg ''engagement''] 200 ''AdminController.getEngagement'',
      entry V_get [Seg ''analytics'', Seg ''sessions''] 200 ''AdminController.getSessionDurations'',
      entry V_get [Seg ''analytics'', Seg ''time-per-page''] 200 ''AdminController.getTimePerPage'',
      entry V_get [Seg ''analytics'', Seg ''category-demand''] 200 ''AdminController.getCategoryDemand'',
      entry V_get [Seg ''analytics'', Seg ''search-terms''] 200 ''AdminController.getTopSearchTerms'',
      entry V_get [Seg ''analytics'', Seg ''audience''] 200 ''AdminController.getAudienceSplit'',
      entry V_get [Seg ''analytics'', Seg ''export''] 200 ''AdminController.exportAnalytics'']"

definition admin_account_routes :: "route list" where
  "admin_account_routes = in_controller [Seg ''admin''] False [G_jwt, G_roles] (Some [R_admin]) [
      entry V_get [Seg ''support''] 200 ''AdminController.listSupportTickets'',
      (entry V_get [Seg ''support'', Param ''id''] 200 ''AdminController.getSupportTicket'')
        \<lparr>rt_uuids := [''id'']\<rparr>,
      (entry V_patch [Seg ''support'', Param ''id''] 200 ''AdminController.updateSupportTicket'')
        \<lparr>rt_uuids := [''id'']\<rparr>,
      entry V_get [Seg ''users''] 200 ''AdminController.listUsers'',
      (entry V_get [Seg ''users'', Param ''id''] 200 ''AdminController.getUser'')
        \<lparr>rt_uuids := [''id'']\<rparr>,
      (entry V_patch [Seg ''users'', Param ''id'', Seg ''status''] 200 ''AdminController.updateUserStatus'')
        \<lparr>rt_uuids := [''id'']\<rparr>,
      (entry V_post [Seg ''users'', Param ''id'', Seg ''reset-password''] 200 ''AdminController.resetUserPassword'')
        \<lparr>rt_uuids := [''id'']\<rparr>,
      entry V_get [Seg ''id-documents''] 200 ''AdminController.listDocuments'',
      (entry V_get [Seg ''id-documents'', Param ''id'', Seg ''view''] 200 ''AdminController.viewDocument'')
        \<lparr>rt_uuids := [''id'']\<rparr>,
      (entry V_patch [Seg ''id-documents'', Param ''id''] 200 ''AdminController.reviewDocument'')
        \<lparr>rt_uuids := [''id'']\<rparr>]"

definition admin_decision_routes :: "route list" where
  "admin_decision_routes = in_controller [Seg ''admin''] False [G_jwt, G_roles] (Some [R_admin]) [
      entry V_get [Seg ''payments''] 200 ''AdminController.listPayments'',
      (entry V_patch [Seg ''payments'', Param ''id''] 200 ''AdminController.reviewPayment'')
        \<lparr>rt_uuids := [''id'']\<rparr>,
      entry V_get [Seg ''flags''] 200 ''AdminController.listFlags'',
      (entry V_patch [Seg ''flags'', Param ''id''] 200 ''AdminController.resolveFlag'')
        \<lparr>rt_uuids := [''id'']\<rparr>,
      entry V_get [Seg ''category-groups''] 200 ''AdminController.listCategoryGroups'',
      entry V_post [Seg ''category-groups''] 201 ''AdminController.createCategoryGroup'',
      (entry V_patch [Seg ''category-groups'', Param ''id''] 200 ''AdminController.updateCategoryGroup'')
        \<lparr>rt_uuids := [''id'']\<rparr>,
      (entry V_delete [Seg ''category-groups'', Param ''id''] 200 ''AdminController.deleteCategoryGroup'')
        \<lparr>rt_uuids := [''id'']\<rparr>]"

definition admin_catalogue_routes :: "route list" where
  "admin_catalogue_routes = in_controller [Seg ''admin''] False [G_jwt, G_roles] (Some [R_admin]) [
      entry V_get [Seg ''categories''] 200 ''AdminController.listCategories'',
      entry V_post [Seg ''categories''] 201 ''AdminController.createCategory'',
      (entry V_patch [Seg ''categories'', Param ''id''] 200 ''AdminController.updateCategory'')
        \<lparr>rt_uuids := [''id'']\<rparr>,
      (entry V_delete [Seg ''categories'', Param ''id''] 200 ''AdminController.deleteCategory'')
        \<lparr>rt_uuids := [''id'']\<rparr>,
      entry V_get [Seg ''audit-log''] 200 ''AdminController.getAuditLog'',
      entry V_get [Seg ''reviews''] 200 ''AdminController.listReviews'',
      (entry V_delete [Seg ''reviews'', Param ''id''] 200 ''AdminController.removeReview'')
        \<lparr>rt_uuids := [''id'']\<rparr>,
      entry V_get [Seg ''verifications''] 200 ''AdminController.listVerifications'',
      (entry V_get [Seg ''verifications'', Seg ''user'', Param ''userId''] 200 ''AdminController.listUserVerifications'')
        \<lparr>rt_uuids := [''userId'']\<rparr>]"

definition analytics_routes :: "route list" where
  "analytics_routes = in_controller [Seg ''analytics''] False [] None [
      (entry V_post [Seg ''page-views''] 204 ''AnalyticsController.recordPageViews'')
        \<lparr>rt_public := True, rt_guards := [G_throttler, G_optional_jwt], rt_throttle := Some (30, 60000)\<rparr>]"

definition artists_routes :: "route list" where
  "artists_routes = in_controller [] False [] None [
      (entry V_get [Seg ''categories''] 200 ''ArtistsController.getCategories'')
        \<lparr>rt_public := True\<rparr>,
      (entry V_get [Seg ''artists''] 200 ''ArtistsController.search'')
        \<lparr>rt_public := True, rt_guards := [G_optional_jwt]\<rparr>,
      (entry V_get [Seg ''artists'', Seg ''me''] 200 ''ArtistsController.getMe'')
        \<lparr>rt_guards := [G_jwt, G_roles], rt_roles := Some [R_artist]\<rparr>,
      (entry V_put [Seg ''artists'', Seg ''me''] 200 ''ArtistsController.updateMe'')
        \<lparr>rt_guards := [G_jwt, G_roles], rt_roles := Some [R_artist]\<rparr>,
      (entry V_get [Seg ''artists'', Seg ''me'', Seg ''booker-types''] 200 ''ArtistsController.getBookerTypes'')
        \<lparr>rt_guards := [G_jwt, G_roles], rt_roles := Some [R_artist]\<rparr>,
      (entry V_get [Seg ''artists'', Param ''id''] 200 ''ArtistsController.findOne'')
        \<lparr>rt_public := True, rt_guards := [G_optional_jwt], rt_uuids := [''id'']\<rparr>]"

definition auth_session_routes :: "route list" where
  "auth_session_routes = in_controller [Seg ''auth''] False [] None [
      (entry V_post [Seg ''register''] 201 ''AuthController.register'')
        \<lparr>rt_public := True, rt_guards := [G_throttler], rt_throttle := Some (5, 60000)\<rparr>,
      (entry V_post [Seg ''login''] 200 ''AuthController.login'')
        \<lparr>rt_public := True, rt_guards := [G_throttler, G_local], rt_throttle := Some (10, 60000)\<rparr>,
      (entry V_post [Seg ''refresh''] 200 ''AuthController.refresh'')
        \<lparr>rt_public := True, rt_guards := [G_throttler], rt_throttle := Some (30, 60000)\<rparr>,
      (entry V_post [Seg ''logout''] 200 ''AuthController.logout'')
        \<lparr>rt_guards := [G_jwt]\<rparr>,
      (entry V_get [Seg ''verify-email''] 200 ''AuthController.verifyEmail'')
        \<lparr>rt_public := True, rt_guards := [G_throttler], rt_throttle := Some (10, 60000)\<rparr>,
      (entry V_post [Seg ''resend-verification''] 200 ''AuthController.resendVerification'')
        \<lparr>rt_public := True, rt_guards := [G_throttler], rt_throttle := Some (3, 900000)\<rparr>,
      (entry V_post [Seg ''forgot-password''] 200 ''AuthController.forgotPassword'')
        \<lparr>rt_public := True, rt_guards := [G_throttler], rt_throttle := Some (5, 60000)\<rparr>,
      (entry V_get [Seg ''reset-password'', Seg ''valid''] 200 ''AuthController.checkResetToken'')
        \<lparr>rt_public := True, rt_guards := [G_throttler], rt_throttle := Some (20, 60000)\<rparr>,
      (entry V_post [Seg ''reset-password''] 200 ''AuthController.resetPassword'')
        \<lparr>rt_public := True, rt_guards := [G_throttler], rt_throttle := Some (10, 60000)\<rparr>]"

definition auth_account_routes :: "route list" where
  "auth_account_routes = in_controller [Seg ''auth''] False [] None [
      (entry V_patch [Seg ''password''] 200 ''AuthController.changePassword'')
        \<lparr>rt_guards := [G_jwt]\<rparr>,
      (entry V_patch [Seg ''email''] 200 ''AuthController.changeEmail'')
        \<lparr>rt_guards := [G_jwt]\<rparr>,
      (entry V_delete [Seg ''me''] 200 ''AuthController.deleteAccount'')
        \<lparr>rt_guards := [G_jwt]\<rparr>,
      (entry V_post [Seg ''send-otp''] 200 ''AuthController.sendOtp'')
        \<lparr>rt_guards := [G_throttler, G_jwt], rt_throttle := Some (3, 3600000)\<rparr>,
      (entry V_post [Seg ''verify-otp''] 200 ''AuthController.verifyOtp'')
        \<lparr>rt_guards := [G_throttler, G_jwt], rt_throttle := Some (5, 900000)\<rparr>,
      (entry V_get [Seg ''google''] 200 ''AuthController.googleLogin'')
        \<lparr>rt_public := True, rt_guards := [G_google_configured, G_passport ''google'']\<rparr>,
      (entry V_get [Seg ''google'', Seg ''callback''] 200 ''AuthController.googleCallback'')
        \<lparr>rt_public := True, rt_guards := [G_google_configured, G_passport ''google'']\<rparr>,
      (entry V_get [Seg ''apple''] 200 ''AuthController.appleLogin'')
        \<lparr>rt_public := True, rt_guards := [G_apple_configured, G_passport ''apple'']\<rparr>,
      (entry V_post [Seg ''apple'', Seg ''callback''] 201 ''AuthController.appleCallback'')
        \<lparr>rt_public := True, rt_guards := [G_apple_configured, G_passport ''apple'']\<rparr>,
      (entry V_get [Seg ''me''] 200 ''AuthController.me'')
        \<lparr>rt_guards := [G_jwt]\<rparr>]"

definition availability_routes :: "route list" where
  "availability_routes = in_controller [] False [] None [
      (entry V_get [Seg ''artists'', Param ''userId'', Seg ''availability''] 200 ''AvailabilityController.getByArtist'')
        \<lparr>rt_public := True, rt_uuids := [''userId'']\<rparr>,
      (entry V_post [Seg ''artists'', Seg ''me'', Seg ''availability''] 201 ''AvailabilityController.create'')
        \<lparr>rt_guards := [G_jwt, G_roles], rt_roles := Some [R_artist]\<rparr>,
      (entry V_delete [Seg ''artists'', Seg ''me'', Seg ''availability'', Param ''id''] 200 ''AvailabilityController.remove'')
        \<lparr>rt_guards := [G_jwt, G_roles], rt_roles := Some [R_artist], rt_uuids := [''id'']\<rparr>]"

definition bookings_routes :: "route list" where
  "bookings_routes = in_controller [Seg ''bookings''] False [G_jwt] None [
      entry V_get [Seg ''me''] 200 ''BookingsController.listMine'',
      (entry V_get [Param ''id''] 200 ''BookingsController.findOne'')
        \<lparr>rt_uuids := [''id'']\<rparr>,
      (entry V_post [] 201 ''BookingsController.create'')
        \<lparr>rt_guards := [G_roles, G_subscription], rt_roles := Some [R_planner], rt_plan_roles := Some [R_planner]\<rparr>,
      (entry V_patch [Param ''id'', Seg ''respond''] 200 ''BookingsController.respond'')
        \<lparr>rt_guards := [G_roles], rt_roles := Some [R_artist], rt_uuids := [''id'']\<rparr>,
      (entry V_patch [Param ''id'', Seg ''cancel''] 200 ''BookingsController.cancel'')
        \<lparr>rt_uuids := [''id'']\<rparr>]"

definition consent_routes :: "route list" where
  "consent_routes = in_controller [Seg ''consent''] False [] None [
      (entry V_post [Seg ''unsubscribe''] 200 ''ConsentController.unsubscribe'')
        \<lparr>rt_public := True\<rparr>,
      entry V_get [Seg ''status''] 200 ''ConsentController.getStatus'',
      entry V_post [Seg ''accept''] 200 ''ConsentController.accept'',
      entry V_get [Seg ''marketing''] 200 ''ConsentController.getMarketing'',
      entry V_put [Seg ''marketing''] 200 ''ConsentController.setMarketing'']"

definition media_routes :: "route list" where
  "media_routes = in_controller [Seg ''media''] False [G_jwt] None [
      entry V_post [Seg ''presign''] 201 ''MediaController.presign'',
      entry V_post [Seg ''confirm''] 201 ''MediaController.confirm'',
      (entry V_put [Param ''id'', Seg ''primary''] 200 ''MediaController.setPrimary'')
        \<lparr>rt_uuids := [''id'']\<rparr>,
      (entry V_delete [Param ''id''] 200 ''MediaController.remove'')
        \<lparr>rt_uuids := [''id'']\<rparr>]"

definition conversation_routes :: "route list" where
  "conversation_routes = in_controller [Seg ''conversations''] False [G_jwt] None [
      entry V_get [] 200 ''MessagingController.list'',
      (entry V_post [] 201 ''MessagingController.create'')
        \<lparr>rt_guards := [G_subscription], rt_plan_roles := Some [R_planner]\<rparr>,
      (entry V_patch [Param ''id'', Seg ''respond''] 200 ''MessagingController.respondToRequest'')
        \<lparr>rt_uuids := [''id'']\<rparr>,
      (entry V_get [Param ''id''] 200 ''MessagingController.getOne'')
        \<lparr>rt_uuids := [''id'']\<rparr>,
      (entry V_get [Param ''id'', Seg ''messages''] 200 ''MessagingController.getMessages'')
        \<lparr>rt_uuids := [''id'']\<rparr>,
      (entry V_post [Param ''id'', Seg ''messages''] 201 ''MessagingController.sendMessage'')
        \<lparr>rt_guards := [G_subscription], rt_plan_roles := Some [R_planner], rt_uuids := [''id'']\<rparr>,
      (entry V_put [Param ''id'', Seg ''read''] 200 ''MessagingController.markRead'')
        \<lparr>rt_uuids := [''id'']\<rparr>]"

definition notifications_routes :: "route list" where
  "notifications_routes = in_controller [Seg ''notifications''] False [G_jwt] None [
      entry V_get [] 200 ''NotificationsController.list'',
      entry V_get [Seg ''unread-count''] 200 ''NotificationsController.getUnreadCount'',
      entry V_patch [Seg ''read-all''] 200 ''NotificationsController.markAllRead'',
      (entry V_patch [Param ''id'', Seg ''read''] 200 ''NotificationsController.markRead'')
        \<lparr>rt_uuids := [''id'']\<rparr>]"

definition mock_checkout_routes :: "route list" where
  "mock_checkout_routes = in_controller [Seg ''payments'', Seg ''mock''] True [] None [
      entry V_get [Seg ''checkout'', Param ''ref''] 200 ''MockCheckoutController.checkout'',
      entry V_post [Param ''ref'', Seg ''complete''] 201 ''MockCheckoutController.complete'']"

definition webhooks_routes :: "route list" where
  "webhooks_routes = in_controller [Seg ''webhooks'', Seg ''payments''] True [] None [
      entry V_post [Param ''provider''] 200 ''WebhooksController.receive'']"

definition planners_routes :: "route list" where
  "planners_routes = in_controller [Seg ''planners''] False [] None [
      (entry V_get [] 200 ''PlannersController.search'')
        \<lparr>rt_guards := [G_jwt, G_roles], rt_roles := Some [R_artist, R_admin]\<rparr>,
      (entry V_get [Seg ''me''] 200 ''PlannersController.getMe'')
        \<lparr>rt_guards := [G_jwt, G_roles], rt_roles := Some [R_planner]\<rparr>,
      (entry V_put [Seg ''me''] 200 ''PlannersController.updateMe'')
        \<lparr>rt_guards := [G_jwt, G_roles], rt_roles := Some [R_planner]\<rparr>,
      (entry V_get [Seg ''event-types''] 200 ''PlannersController.getEventTypes'')
        \<lparr>rt_public := True\<rparr>,
      (entry V_get [Param ''id''] 200 ''PlannersController.findOne'')
        \<lparr>rt_guards := [G_jwt, G_roles], rt_roles := Some [R_artist, R_admin], rt_uuids := [''id'']\<rparr>]"

definition reviews_routes :: "route list" where
  "reviews_routes = in_controller [] False [] None [
      (entry V_post [Seg ''reviews''] 201 ''ReviewsController.submit'')
        \<lparr>rt_guards := [G_jwt]\<rparr>,
      (entry V_get [Seg ''artists'', Param ''id'', Seg ''reviews''] 200 ''ReviewsController.getForArtist'')
        \<lparr>rt_public := True, rt_uuids := [''id'']\<rparr>,
      (entry V_get [Seg ''planners'', Param ''id'', Seg ''reviews''] 200 ''ReviewsController.getForPlanner'')
        \<lparr>rt_public := True, rt_uuids := [''id'']\<rparr>]"

definition saved_routes :: "route list" where
  "saved_routes = in_controller [] False [G_jwt, G_roles] (Some [R_planner]) [
      entry V_get [Seg ''saved-artists''] 200 ''SavedController.listMine'',
      entry V_get [Seg ''saved-artists'', Seg ''ids''] 200 ''SavedController.listMineIds'',
      (entry V_post [Seg ''saved-artists'', Param ''artistProfileId''] 201 ''SavedController.save'')
        \<lparr>rt_uuids := [''artistProfileId'']\<rparr>,
      (entry V_delete [Seg ''saved-artists'', Param ''artistProfileId''] 200 ''SavedController.unsave'')
        \<lparr>rt_uuids := [''artistProfileId'']\<rparr>]"

definition cron_routes :: "route list" where
  "cron_routes = in_controller [Seg ''cron''] True [] None [
      entry V_get [Seg ''daily-review-trigger''] 204 ''CronController.dailyReviewTriggerGet'',
      entry V_post [Seg ''daily-review-trigger''] 204 ''CronController.dailyReviewTrigger'',
      entry V_get [Seg ''expired-review-unlock''] 204 ''CronController.expiredReviewUnlockGet'',
      entry V_post [Seg ''expired-review-unlock''] 204 ''CronController.expiredReviewUnlock'',
      entry V_get [Seg ''telemetry-prune''] 204 ''CronController.telemetryPruneGet'',
      entry V_post [Seg ''telemetry-prune''] 204 ''CronController.telemetryPrune'',
      entry V_get [Seg ''subscription-maintenance''] 204 ''CronController.subscriptionMaintenanceGet'',
      entry V_post [Seg ''subscription-maintenance''] 204 ''CronController.subscriptionMaintenance'',
      entry V_get [Seg ''renewal-reminders''] 204 ''CronController.renewalRemindersGet'',
      entry V_post [Seg ''renewal-reminders''] 204 ''CronController.renewalReminders'',
      entry V_get [Seg ''payment-reconciliation''] 204 ''CronController.paymentReconciliationGet'',
      entry V_post [Seg ''payment-reconciliation''] 204 ''CronController.paymentReconciliation'',
      entry V_get [Seg ''identity-retention''] 204 ''CronController.identityRetentionGet'',
      entry V_post [Seg ''identity-retention''] 204 ''CronController.identityRetention'']"

definition subscriptions_routes :: "route list" where
  "subscriptions_routes = in_controller [] False [] None [
      (entry V_get [Seg ''subscriptions'', Seg ''plans''] 200 ''SubscriptionsController.listPlans'')
        \<lparr>rt_public := True\<rparr>,
      (entry V_get [Seg ''subscriptions'', Seg ''me''] 200 ''SubscriptionsController.getMine'')
        \<lparr>rt_guards := [G_jwt]\<rparr>,
      (entry V_post [Seg ''subscriptions'', Param ''id'', Seg ''activate''] 201 ''SubscriptionsController.activate'')
        \<lparr>rt_guards := [G_jwt], rt_uuids := [''id'']\<rparr>,
      (entry V_post [Seg ''payments''] 201 ''SubscriptionsController.createPayment'')
        \<lparr>rt_guards := [G_jwt, G_roles], rt_roles := Some [R_planner]\<rparr>,
      (entry V_get [Seg ''payments'', Seg ''me''] 200 ''SubscriptionsController.listMyPayments'')
        \<lparr>rt_guards := [G_jwt, G_roles], rt_roles := Some [R_planner]\<rparr>,
      (entry V_get [Seg ''payments'', Param ''id''] 200 ''SubscriptionsController.getPayment'')
        \<lparr>rt_guards := [G_jwt, G_roles], rt_roles := Some [R_planner], rt_uuids := [''id'']\<rparr>,
      (entry V_patch [Seg ''payments'', Param ''id'', Seg ''transfer''] 200 ''SubscriptionsController.reportTransfer'')
        \<lparr>rt_guards := [G_jwt, G_roles], rt_roles := Some [R_planner], rt_uuids := [''id'']\<rparr>]"

definition support_routes :: "route list" where
  "support_routes = in_controller [Seg ''support''] False [] None [
      (entry V_post [Seg ''tickets''] 201 ''SupportController.create'')
        \<lparr>rt_public := True, rt_guards := [G_throttler, G_optional_jwt], rt_throttle := Some (5, 3600000)\<rparr>,
      (entry V_get [Seg ''tickets'', Seg ''me''] 200 ''SupportController.listMine'')
        \<lparr>rt_guards := [G_jwt]\<rparr>]"

definition users_routes :: "route list" where
  "users_routes = in_controller [Seg ''users''] False [] None [
      (entry V_get [Param ''id'', Seg ''public-info''] 200 ''UsersController.getPublicInfo'')
        \<lparr>rt_public := True, rt_uuids := [''id'']\<rparr>]"

definition identity_document_routes :: "route list" where
  "identity_document_routes = in_controller [Seg ''verification''] False [G_jwt, G_roles] (Some [R_artist]) [
      entry V_get [Seg ''me''] 200 ''IdentityDocumentsController.getMine'',
      entry V_post [Seg ''documents'', Seg ''presign''] 201 ''IdentityDocumentsController.presign'',
      entry V_post [Seg ''documents'', Seg ''confirm''] 201 ''IdentityDocumentsController.confirm'']"

text \<open>
  One list per area; which controller registers first is of no consequence, as no two routes take the
  same request. \<open>setGlobalPrefix\<close> leaves out the webhook alone.
\<close>

definition auth_area :: "route list" where
  "auth_area = auth_session_routes @ auth_account_routes"

definition admin_area :: "route list" where
  "admin_area = admin_figure_routes @ admin_account_routes @ admin_decision_routes @ admin_catalogue_routes"

definition profile_area :: "route list" where
  "profile_area = users_routes @ artists_routes @ planners_routes @ availability_routes @ reviews_routes"

definition payment_area :: "route list" where
  "payment_area = subscriptions_routes @ webhooks_routes @ mock_checkout_routes"

definition member_area :: "route list" where
  "member_area = consent_routes @ identity_document_routes @ media_routes @ conversation_routes @ notifications_routes @ bookings_routes @ saved_routes @ support_routes @ analytics_routes"

definition all_routes :: "route list" where
  "all_routes = auth_area @ admin_area @ profile_area @ payment_area @ member_area @ cron_routes"

definition served_path :: "route \<Rightarrow> segment list" where
  "served_path r =
     (if rt_verb r = V_post \<and> rt_path r = [Seg ''webhooks'', Seg ''payments'', Param ''provider''] then rt_path r
      else Seg ''api'' # Seg ''v1'' # rt_path r)"

section \<open>Finding the handler\<close>

fun path_matches :: "segment list \<Rightarrow> string list \<Rightarrow> bool" where
  "path_matches [] [] \<longleftrightarrow> True"
| "path_matches (Seg t # p) (x # xs) \<longleftrightarrow> x = t \<and> path_matches p xs"
| "path_matches (Param n # p) (x # xs) \<longleftrightarrow> path_matches p xs"
| "path_matches _ _ \<longleftrightarrow> False"

definition dispatch :: "verb \<Rightarrow> string list \<Rightarrow> route option" where
  "dispatch v url = find (\<lambda>r. rt_verb r = v \<and> path_matches (served_path r) url) all_routes"

section \<open>The guards in front of it\<close>

text \<open>What a request carries, and what is outside: the limiter's verdict and the social sign-in strategies.\<close>

record request =
  rq_cookie :: "string option"
  rq_bearer :: "string option"
  rq_email :: string
  rq_password :: string

record gate =
  gt_platform :: auth_platform
  gt_config :: config
  gt_under_limit :: "route \<Rightarrow> request \<Rightarrow> bool"
  gt_strategy :: "string \<Rightarrow> request \<Rightarrow> user_row result"

datatype refusal = Refused http_error | Too_many_requests

definition lifted :: "'a result \<Rightarrow> refusal + 'a" where
  "lifted x = (case x of Inl e \<Rightarrow> Inl (Refused e) | Inr v \<Rightarrow> Inr v)"

text \<open>Each guard sees \<open>req.user\<close> and leaves the one the next guard sees.\<close>

fun run_guard :: "gate \<Rightarrow> clock \<Rightarrow> world \<Rightarrow> request \<Rightarrow> route \<Rightarrow> guard \<Rightarrow> user_row option \<Rightarrow> refusal + user_row option" where
  "run_guard g ck w q r G_jwt u =
     (if rt_public r then Inr u else lifted (jwt_auth_guard (gt_platform g) ck False (rq_cookie q) (rq_bearer q) w))"
| "run_guard g ck w q r G_optional_jwt u = Inr (optional_jwt_guard (gt_platform g) ck (rq_cookie q) (rq_bearer q) w)"
| "run_guard g ck w q r G_roles u = lifted (map_sum id (\<lambda>_. u) (roles_guard (rt_roles r) u))"
| "run_guard g ck w q r G_throttler u = (if gt_under_limit g r q then Inr u else Inl Too_many_requests)"
| "run_guard g ck w q r G_local u = lifted (map_sum id Some (local_validate (gt_platform g) (rq_email q) (rq_password q) w))"
| "run_guard g ck w q r G_subscription u = lifted (map_sum id (\<lambda>_. u) (subscription_guard ck u (rt_plan_roles r) None (w_db w)))"
| "run_guard g ck w q r G_google_configured u =
     lifted (map_sum id (\<lambda>_. u) (assert_configured (gt_config g) ''Google'' google_env_keys))"
| "run_guard g ck w q r G_apple_configured u =
     lifted (map_sum id (\<lambda>_. u) (assert_configured (gt_config g) ''Apple'' apple_env_keys))"
| "run_guard g ck w q r (G_passport s) u = lifted (map_sum id Some (gt_strategy g s q))"

fun run_guards :: "gate \<Rightarrow> clock \<Rightarrow> world \<Rightarrow> request \<Rightarrow> route \<Rightarrow> guard list \<Rightarrow> user_row option \<Rightarrow> refusal + user_row option" where
  "run_guards g ck w q r [] u = Inr u"
| "run_guards g ck w q r (x # xs) u = (case run_guard g ck w q r x u of Inl e \<Rightarrow> Inl e | Inr v \<Rightarrow> run_guards g ck w q r xs v)"

text \<open>\<open>APP_GUARD\<close> is the session guard: it runs before any guard of the route.\<close>

definition admit :: "gate \<Rightarrow> clock \<Rightarrow> world \<Rightarrow> request \<Rightarrow> route \<Rightarrow> refusal + user_row option" where
  "admit g ck w q r = run_guards g ck w q r (G_jwt # rt_guards r) None"

end
