(* ===== verification/Route_Rules.thy ===== *)
theory Route_Rules
  imports Routes
begin

text \<open>
  What holds of the whole table of routes: no handler is unreachable, what a route declares is
  enforced, and whoever gets past the guards of a route that is not public has a session.
\<close>

lemmas auth_tables = auth_area_def auth_session_routes_def auth_account_routes_def
lemmas admin_tables = admin_area_def admin_figure_routes_def admin_account_routes_def admin_decision_routes_def admin_catalogue_routes_def
lemmas profile_tables = profile_area_def users_routes_def artists_routes_def planners_routes_def availability_routes_def reviews_routes_def
lemmas payment_tables = payment_area_def subscriptions_routes_def webhooks_routes_def mock_checkout_routes_def
lemmas member_tables = member_area_def consent_routes_def identity_document_routes_def media_routes_def conversation_routes_def
  notifications_routes_def bookings_routes_def saved_routes_def support_routes_def analytics_routes_def

lemmas row_defs = in_controller_def entry_def

section \<open>Reaching a handler\<close>

fun fill :: "(string \<Rightarrow> string) \<Rightarrow> segment list \<Rightarrow> string list" where
  "fill f [] = []"
| "fill f (Seg t # p) = t # fill f p"
| "fill f (Param n # p) = f n # fill f p"

text \<open>Whether a path takes the requests made for another one, whose parameters are no literals of it.\<close>

fun covers :: "segment list \<Rightarrow> segment list \<Rightarrow> bool" where
  "covers [] [] \<longleftrightarrow> True"
| "covers (Seg t # p) (Seg x # q) \<longleftrightarrow> t = x \<and> covers p q"
| "covers (Param n # p) (y # q) \<longleftrightarrow> covers p q"
| "covers _ _ \<longleftrightarrow> False"

lemma fill_Cons: "fill f (y # q) = hd (fill f [y]) # fill f q"
  by (cases y) simp_all

lemma path_matches_Nil [simp]: "path_matches [] u \<longleftrightarrow> u = []"
  by (cases u) simp_all

lemma fill_eq_Nil [simp]: "fill f q = [] \<longleftrightarrow> q = []"
proof (cases q)
  case (Cons y p)
  then show ?thesis by (cases y) simp_all
qed simp

lemma matches_covers: "(\<And>n. Seg (f n) \<notin> set p) \<Longrightarrow> path_matches p (fill f q) = covers p q"
proof (induction p q rule: covers.induct)
  case (3 n p y q)
  then show ?case by (subst fill_Cons) simp
qed auto

lemma covers_refl [simp]: "covers p p"
proof (induction p)
  case (Cons a p)
  then show ?case by (cases a) auto
qed simp

definition apart :: "route \<Rightarrow> route \<Rightarrow> bool" where
  "apart x r \<longleftrightarrow> (rt_verb x = rt_verb r \<longrightarrow> \<not> covers (rt_path x) (rt_path r))"

text \<open>Tables that differ in a literal segment are apart.\<close>

fun first_literal :: "segment list \<Rightarrow> string option" where
  "first_literal (Seg t # p) = Some t"
| "first_literal _ = None"

definition under :: "nat \<Rightarrow> string list \<Rightarrow> route list \<Rightarrow> bool" where
  "under k hs rs \<longleftrightarrow> list_all (\<lambda>r. \<exists>t \<in> set hs. first_literal (drop k (rt_path r)) = Some t) rs"

lemma covers_literal:
  "covers p q \<Longrightarrow> first_literal (drop k p) = Some t \<Longrightarrow> first_literal (drop k q) = Some u \<Longrightarrow> t = u"
proof (induction p q arbitrary: k rule: covers.induct)
  case (2 t p x q)
  then show ?case by (cases k) auto
next
  case (3 n p y q)
  then show ?case by (cases k) auto
qed auto

lemma under_apart: "under k hs xs \<Longrightarrow> under k ks ys \<Longrightarrow> set hs \<inter> set ks = {} \<Longrightarrow> \<forall>x \<in> set xs. \<forall>y \<in> set ys. apart x y"
  unfolding under_def list_all_iff apart_def using covers_literal by blast

lemma under_append: "under k hs xs \<Longrightarrow> under k ks ys \<Longrightarrow> under k (hs @ ks) (xs @ ys)"
  by (auto simp: under_def list_all_iff)

lemma figure_under: "under 1 [''stats'', ''analytics''] admin_figure_routes"
  by (simp add: under_def admin_tables row_defs)

lemma account_under: "under 1 [''support'', ''users'', ''id-documents''] admin_account_routes"
  by (simp add: under_def admin_tables row_defs)

lemma decision_under: "under 1 [''payments'', ''flags'', ''category-groups''] admin_decision_routes"
  by (simp add: under_def admin_tables row_defs)

lemma catalogue_under: "under 1 [''categories'', ''audit-log'', ''reviews'', ''verifications''] admin_catalogue_routes"
  by (simp add: under_def admin_tables row_defs)

lemma admin_apart: "sorted_wrt apart admin_area"
proof -
  have "sorted_wrt apart admin_figure_routes" "sorted_wrt apart admin_account_routes"
    "sorted_wrt apart admin_decision_routes" "sorted_wrt apart admin_catalogue_routes"
    by (simp_all add: admin_tables row_defs apart_def)
  then show ?thesis
    using under_apart [OF figure_under under_append [OF account_under under_append [OF decision_under catalogue_under]]]
      under_apart [OF account_under under_append [OF decision_under catalogue_under]]
      under_apart [OF decision_under catalogue_under]
    by (simp add: admin_area_def sorted_wrt_append)
qed


lemma auth_apart: "sorted_wrt apart auth_area"
  by (simp add: auth_tables row_defs apart_def)

lemma profile_apart: "sorted_wrt apart profile_area"
  by (simp add: profile_tables row_defs apart_def)

lemma payment_apart: "sorted_wrt apart payment_area"
  by (simp add: payment_tables row_defs apart_def)

lemma cron_apart: "sorted_wrt apart cron_routes"
  by (simp add: cron_routes_def row_defs apart_def)

lemma member_unders:
  "under 0 [''consent''] consent_routes" "under 0 [''verification''] identity_document_routes" "under 0 [''media''] media_routes"
  "under 0 [''conversations''] conversation_routes" "under 0 [''notifications''] notifications_routes"
  "under 0 [''bookings''] bookings_routes" "under 0 [''saved-artists''] saved_routes" "under 0 [''support''] support_routes"
  "under 0 [''analytics''] analytics_routes"
  by (simp_all add: under_def member_tables row_defs)

lemma member_parts_apart:
  "sorted_wrt apart consent_routes" "sorted_wrt apart identity_document_routes" "sorted_wrt apart media_routes"
  "sorted_wrt apart conversation_routes" "sorted_wrt apart notifications_routes" "sorted_wrt apart bookings_routes"
  "sorted_wrt apart saved_routes" "sorted_wrt apart support_routes" "sorted_wrt apart analytics_routes"
  by (simp_all add: member_tables row_defs apart_def)

text \<open>Putting one table in front of others.\<close>

lemma apart_in_front:
  assumes "sorted_wrt apart xs" and "under k hs xs" and "sorted_wrt apart ys \<and> under k ks ys" and "set hs \<inter> set ks = {}"
  shows "sorted_wrt apart (xs @ ys) \<and> under k (hs @ ks) (xs @ ys)"
  using assms under_apart [OF assms(2) _ assms(4), of ys] under_append [OF assms(2), of ks ys] by (simp add: sorted_wrt_append)

lemma member_apart:
  "sorted_wrt apart member_area \<and> under 0 [''consent'', ''verification'', ''media'', ''conversations'', ''notifications'', ''bookings'',
     ''saved-artists'', ''support'', ''analytics''] member_area"
proof -
  note in_front = apart_in_front [where k = 0]
  have "sorted_wrt apart (support_routes @ analytics_routes) \<and> under 0 ([''support''] @ [''analytics'']) (support_routes @ analytics_routes)"
    by (rule in_front) (simp_all add: member_unders member_parts_apart)
  from in_front [OF member_parts_apart(7) member_unders(7) this]
  have "sorted_wrt apart (saved_routes @ support_routes @ analytics_routes)
      \<and> under 0 ([''saved-artists''] @ [''support''] @ [''analytics'']) (saved_routes @ support_routes @ analytics_routes)" by simp
  from in_front [OF member_parts_apart(6) member_unders(6) this]
  have "sorted_wrt apart (bookings_routes @ saved_routes @ support_routes @ analytics_routes)
      \<and> under 0 ([''bookings''] @ [''saved-artists''] @ [''support''] @ [''analytics'']) (bookings_routes @ saved_routes @ support_routes @ analytics_routes)" by simp
  from in_front [OF member_parts_apart(5) member_unders(5) this]
  have "sorted_wrt apart (notifications_routes @ bookings_routes @ saved_routes @ support_routes @ analytics_routes)
      \<and> under 0 ([''notifications''] @ [''bookings''] @ [''saved-artists''] @ [''support''] @ [''analytics''])
          (notifications_routes @ bookings_routes @ saved_routes @ support_routes @ analytics_routes)" by simp
  from in_front [OF member_parts_apart(4) member_unders(4) this]
  have tail: "sorted_wrt apart (conversation_routes @ notifications_routes @ bookings_routes @ saved_routes @ support_routes @ analytics_routes)
      \<and> under 0 ([''conversations''] @ [''notifications''] @ [''bookings''] @ [''saved-artists''] @ [''support''] @ [''analytics''])
          (conversation_routes @ notifications_routes @ bookings_routes @ saved_routes @ support_routes @ analytics_routes)" by simp
  have "sorted_wrt apart (identity_document_routes @ media_routes) \<and> under 0 ([''verification''] @ [''media'']) (identity_document_routes @ media_routes)"
    by (rule in_front) (simp_all add: member_unders member_parts_apart)
  from in_front [OF member_parts_apart(1) member_unders(1) this]
  have front: "sorted_wrt apart (consent_routes @ identity_document_routes @ media_routes)
      \<and> under 0 ([''consent''] @ [''verification''] @ [''media'']) (consent_routes @ identity_document_routes @ media_routes)" by simp
  from in_front [OF front [THEN conjunct1] front [THEN conjunct2] tail] show ?thesis by (simp add: member_area_def)
qed

lemma routes_apart: "sorted_wrt apart all_routes"
proof -
  note in_front = apart_in_front [where k = 0]
  have heads: "under 0 [''auth''] auth_area" "under 0 [''admin''] admin_area"
    "under 0 [''users'', ''categories'', ''artists'', ''planners'', ''reviews''] profile_area"
    "under 0 [''subscriptions'', ''payments'', ''webhooks''] payment_area" "under 0 [''cron''] cron_routes"
    by (simp_all add: under_def auth_tables admin_tables profile_tables payment_tables cron_routes_def row_defs)
  have "sorted_wrt apart cron_routes \<and> under 0 [''cron''] cron_routes" using cron_apart heads(5) by blast
  from in_front [OF member_apart [THEN conjunct1] member_apart [THEN conjunct2] this]
  have m: "sorted_wrt apart (member_area @ cron_routes) \<and> under 0 ([''consent'', ''verification'', ''media'', ''conversations'',
      ''notifications'', ''bookings'', ''saved-artists'', ''support'', ''analytics''] @ [''cron'']) (member_area @ cron_routes)" by simp
  from in_front [OF payment_apart heads(4) m] have p: "sorted_wrt apart (payment_area @ member_area @ cron_routes)"
    and "under 0 ([''subscriptions'', ''payments'', ''webhooks''] @ [''consent'', ''verification'', ''media'', ''conversations'',
      ''notifications'', ''bookings'', ''saved-artists'', ''support'', ''analytics''] @ [''cron'']) (payment_area @ member_area @ cron_routes)"
    by simp_all
  with in_front [OF profile_apart heads(3) conjI [OF this]]
  have q: "sorted_wrt apart (profile_area @ payment_area @ member_area @ cron_routes)
    \<and> under 0 ([''users'', ''categories'', ''artists'', ''planners'', ''reviews''] @ [''subscriptions'', ''payments'', ''webhooks''] @
      [''consent'', ''verification'', ''media'', ''conversations'', ''notifications'', ''bookings'', ''saved-artists'', ''support'',
       ''analytics''] @ [''cron'']) (profile_area @ payment_area @ member_area @ cron_routes)" by simp
  from in_front [OF admin_apart heads(2) q]
  have r: "sorted_wrt apart (admin_area @ profile_area @ payment_area @ member_area @ cron_routes)
    \<and> under 0 ([''admin''] @ [''users'', ''categories'', ''artists'', ''planners'', ''reviews''] @ [''subscriptions'', ''payments'', ''webhooks''] @
      [''consent'', ''verification'', ''media'', ''conversations'', ''notifications'', ''bookings'', ''saved-artists'', ''support'',
       ''analytics''] @ [''cron'']) (admin_area @ profile_area @ payment_area @ member_area @ cron_routes)" by simp
  from in_front [OF auth_apart heads(1) r] show ?thesis by (simp add: all_routes_def)
qed


definition served_apart :: "route \<Rightarrow> route \<Rightarrow> bool" where
  "served_apart x r \<longleftrightarrow> \<not> (rt_verb x = rt_verb r \<and> covers (served_path x) (served_path r))"

lemma apart_served: "apart x r \<Longrightarrow> served_apart x r"
  by (auto simp: apart_def served_apart_def served_path_def split: if_splits)

lemma routes_served_apart: "sorted_wrt served_apart all_routes"
  by (rule sorted_wrt_mono_rel [OF _ routes_apart]) (rule apart_served)

lemma find_first:
  "sorted_wrt (\<lambda>x r. \<not> P x r) xs \<Longrightarrow> r \<in> set xs \<Longrightarrow> P r r \<Longrightarrow> find (\<lambda>x. P x r) xs = Some r"
  by (induction xs) auto

definition route_literals :: "string set" where
  "route_literals = {t. \<exists>r \<in> set all_routes. Seg t \<in> set (served_path r)}"

lemma find_cong_set: "(\<And>x. x \<in> set xs \<Longrightarrow> P x = Q x) \<Longrightarrow> find P xs = find Q xs"
  by (induction xs) auto

text \<open>
  C38: No route is in the shadow of another: a request whose path is that of a route, with anything
  for the parameters that is not itself a word of some path, is handled by that route, whichever
  controller registers first. So \<open>artists/me\<close> is never read as the artist \<open>me\<close>.
\<close>

theorem every_route_is_reached:
  assumes "r \<in> set all_routes" and "\<And>n. f n \<notin> route_literals"
  shows "dispatch (rt_verb r) (fill f (served_path r)) = Some r"
proof -
  have "path_matches (served_path x) (fill f (served_path r)) = covers (served_path x) (served_path r)" if "x \<in> set all_routes" for x
    using that assms(2) by (intro matches_covers) (auto simp: route_literals_def)
  then have "dispatch (rt_verb r) (fill f (served_path r))
      = find (\<lambda>x. rt_verb x = rt_verb r \<and> covers (served_path x) (served_path r)) all_routes"
    unfolding dispatch_def by (intro find_cong_set) simp
  also have "\<dots> = Some r"
    using find_first [where P = "\<lambda>x r. rt_verb x = rt_verb r \<and> covers (served_path x) (served_path r)", of all_routes r]
      routes_served_apart assms(1) by (simp add: served_apart_def [abs_def])
  finally show ?thesis .
qed

section \<open>Getting past the guards\<close>

text \<open>What the text of a route promises is enforced by a guard on it, and a route that is not public has session guards only.\<close>

definition enforced :: "route \<Rightarrow> bool" where
  "enforced r \<longleftrightarrow> (rt_public r \<or> set (rt_guards r) \<subseteq> {G_jwt, G_roles, G_throttler, G_subscription})
    \<and> (rt_roles r \<noteq> None) = (G_roles \<in> set (rt_guards r)) \<and> rt_roles r \<noteq> Some []
    \<and> (rt_plan_roles r \<noteq> None) = (G_subscription \<in> set (rt_guards r))
    \<and> (rt_throttle r \<noteq> None) = (G_throttler \<in> set (rt_guards r))
    \<and> (first_literal (rt_path r) = Some ''admin'' \<longrightarrow> \<not> rt_public r \<and> rt_roles r = Some [R_admin])"

lemma area_enforced:
  "list_all enforced auth_area" "list_all enforced profile_area" "list_all enforced payment_area"
  "list_all enforced member_area" "list_all enforced cron_routes" "list_all enforced admin_area"
  by (simp_all add: enforced_def auth_tables profile_tables payment_tables member_tables cron_routes_def admin_tables row_defs)

lemma routes_enforced: "r \<in> set all_routes \<Longrightarrow> enforced r"
  using area_enforced by (auto simp: all_routes_def list_all_iff)

definition open_handlers :: "string list" where
  "open_handlers =
     [''AuthController.register'', ''AuthController.login'', ''AuthController.refresh'', ''AuthController.verifyEmail'',
      ''AuthController.resendVerification'', ''AuthController.forgotPassword'', ''AuthController.checkResetToken'',
      ''AuthController.resetPassword'', ''AuthController.googleLogin'', ''AuthController.googleCallback'',
      ''AuthController.appleLogin'', ''AuthController.appleCallback'', ''UsersController.getPublicInfo'',
      ''ArtistsController.getCategories'', ''ArtistsController.search'', ''ArtistsController.findOne'',
      ''PlannersController.getEventTypes'', ''AvailabilityController.getByArtist'', ''ReviewsController.getForArtist'',
      ''ReviewsController.getForPlanner'', ''SubscriptionsController.listPlans'', ''WebhooksController.receive'',
      ''MockCheckoutController.checkout'', ''MockCheckoutController.complete'', ''ConsentController.unsubscribe'',
      ''SupportController.create'', ''AnalyticsController.recordPageViews'']"

lemma area_open:
  "map rt_handler (filter rt_public auth_area) @ map rt_handler (filter rt_public profile_area)
     @ map rt_handler (filter rt_public payment_area) @ map rt_handler (filter rt_public member_area) = open_handlers"
  "filter rt_public admin_area = []" "filter rt_public cron_routes = cron_routes"
  by (simp_all add: open_handlers_def auth_tables profile_tables payment_tables member_tables cron_routes_def admin_tables row_defs)

lemma public_open:
  assumes "r \<in> set all_routes" and "rt_public r"
  shows "rt_handler r \<in> set open_handlers \<or> r \<in> set cron_routes"
proof -
  have "r \<in> set (filter rt_public admin_area) \<Longrightarrow> False" by (simp add: area_open(2))
  with assms show ?thesis unfolding area_open(1) [symmetric] by (auto simp: all_routes_def)
qed

lemma map_sum_InrD: "map_sum id f x = Inr v \<Longrightarrow> \<exists>y. x = Inr y \<and> v = f y"
  by (cases x) auto

text \<open>Past the session guard the other session guards keep the session they find.\<close>

lemma session_kept:
  assumes "set gs \<subseteq> {G_jwt, G_roles, G_throttler, G_subscription}" and "\<not> rt_public r"
    and "jwt_session (gt_platform g) ck (rq_cookie q) (rq_bearer q) w = Inr a"
    and "run_guards g ck w q r gs (Some a) = Inr u"
  shows "u = Some a \<and> (G_roles \<in> set gs \<longrightarrow> roles_guard (rt_roles r) (Some a) = Inr ())
    \<and> (G_subscription \<in> set gs \<longrightarrow> (\<exists>b. subscription_guard ck (Some a) (rt_plan_roles r) None (w_db w) = Inr b))"
  using assms(1,4)
proof (induction gs)
  case (Cons x gs)
  from Cons.prems(2) obtain v where v: "run_guard g ck w q r x (Some a) = Inr v" "run_guards g ck w q r gs v = Inr u"
    by (auto split: sum.splits)
  have "v = Some a \<and> (x = G_roles \<longrightarrow> roles_guard (rt_roles r) (Some a) = Inr ())
      \<and> (x = G_subscription \<longrightarrow> (\<exists>b. subscription_guard ck (Some a) (rt_plan_roles r) None (w_db w) = Inr b))"
    using v(1) Cons.prems(1) assms(2,3)
    by (cases x) (auto simp: lifted_def jwt_auth_guard_def dest!: map_sum_InrD split: sum.splits if_splits)
  with Cons v(2) show ?case by auto
qed simp

text \<open>
  C37: The API is closed by default. Whoever reaches a handler is on one of the routes listed as
  open, or on a job route, which checks its own secret, or has a valid session of an account that
  is neither suspended nor banned, in a role the route names and, on a route that sells Paid Access,
  with a running plan or outside the roles that need one; everything under \<open>admin\<close> is reached by
  administrators only.
\<close>

theorem closed_by_default:
  assumes "r \<in> set all_routes" and "admit g ck w q r = Inr u"
  shows "rt_public r \<and> (rt_handler r \<in> set open_handlers \<or> r \<in> set cron_routes)
    \<or> (\<exists>a. u = Some a \<and> jwt_session (gt_platform g) ck (rq_cookie q) (rq_bearer q) w = Inr a
        \<and> u_status a \<noteq> U_suspended \<and> u_status a \<noteq> U_banned
        \<and> (\<forall>rs. rt_roles r = Some rs \<longrightarrow> u_role a \<in> set rs)
        \<and> (first_literal (rt_path r) = Some ''admin'' \<longrightarrow> u_role a = R_admin)
        \<and> (\<forall>rs. rt_plan_roles r = Some rs \<longrightarrow> u_role a \<in> set rs \<longrightarrow> has_active_subscription ck (u_id a) (w_db w)))"
proof (cases "rt_public r")
  case True
  with public_open [OF assms(1)] show ?thesis by blast
next
  case False
  note e = routes_enforced [OF assms(1), unfolded enforced_def]
  from assms(2) False obtain a where a: "jwt_session (gt_platform g) ck (rq_cookie q) (rq_bearer q) w = Inr a"
    and run: "run_guards g ck w q r (rt_guards r) (Some a) = Inr u"
    by (auto simp: admit_def lifted_def jwt_auth_guard_def split: sum.splits)
  from e False have "set (rt_guards r) \<subseteq> {G_jwt, G_roles, G_throttler, G_subscription}" by blast
  note kept = session_kept [OF this False a run]
  have live: "u_status a \<noteq> U_suspended \<and> u_status a \<noteq> U_banned"
    using a by (auto simp: jwt_session_def jwt_validate_def split: option.splits list.splits if_splits)
  have roles: "u_role a \<in> set rs" if "rt_roles r = Some rs" for rs
    using that e kept by (auto simp: roles_guard_def split: if_splits)
  have plan: "has_active_subscription ck (u_id a) (w_db w)" if "rt_plan_roles r = Some rs" "u_role a \<in> set rs" for rs
    using that e kept by (auto simp: subscription_guard_def subscription_scope_def Let_def split: if_splits)
  have "u_role a = R_admin" if "first_literal (rt_path r) = Some ''admin''" using that e roles by fastforce
  with kept a live roles plan show ?thesis by blast
qed


section \<open>Examples\<close>

lemma short_literals: "t \<in> route_literals \<Longrightarrow> length t < 36"
proof -
  have "list_all (\<lambda>r. list_all (\<lambda>x. case x of Seg t \<Rightarrow> length t < 36 | Param n \<Rightarrow> True) (rt_path r)) all_routes"
    by (simp add: all_routes_def auth_tables profile_tables payment_tables member_tables cron_routes_def admin_tables row_defs)
  moreover assume "t \<in> route_literals"
  then obtain r where "r \<in> set all_routes" "Seg t \<in> set (rt_path r) \<or> t = ''api'' \<or> t = ''v1''"
    by (auto simp: route_literals_def served_path_def split: if_splits)
  ultimately show ?thesis by (fastforce simp: list_all_iff)
qed

definition demo_uuid :: string where
  "demo_uuid = ''3f2504e0-4f89-41d3-9a0c-0305e82c3301''"

definition planner_page_route :: route where
  "planner_page_route = \<lparr>rt_verb = V_get, rt_path = [Seg ''planners'', Param ''id''], rt_status = 200, rt_handler = ''PlannersController.findOne'',
     rt_public = False, rt_guards = [G_jwt, G_roles], rt_roles = Some [R_artist, R_admin], rt_plan_roles = None, rt_throttle = None,
     rt_uuids = [''id'']\<rparr>"

definition event_types_route :: route where
  "event_types_route = \<lparr>rt_verb = V_get, rt_path = [Seg ''planners'', Seg ''event-types''], rt_status = 200,
     rt_handler = ''PlannersController.getEventTypes'', rt_public = True, rt_guards = [], rt_roles = None, rt_plan_roles = None,
     rt_throttle = None, rt_uuids = []\<rparr>"

lemma example_routes: "planner_page_route \<in> set all_routes" "event_types_route \<in> set all_routes"
proof -
  have "planner_page_route \<in> set planners_routes" "event_types_route \<in> set planners_routes"
    by (simp_all add: planner_page_route_def event_types_route_def planners_routes_def row_defs)
  then show "planner_page_route \<in> set all_routes" "event_types_route \<in> set all_routes"
    by (simp_all add: all_routes_def profile_area_def)
qed

theorem every_route_is_reached_witness:
  "dispatch V_get [''api'', ''v1'', ''planners'', demo_uuid] = Some planner_page_route
   \<and> dispatch V_get [''api'', ''v1'', ''planners'', ''event-types''] = Some event_types_route"
proof
  have "length demo_uuid = 36" by (simp add: demo_uuid_def)
  then have f: "(\<lambda>_. demo_uuid) n \<notin> route_literals" for n :: string using short_literals [of demo_uuid] by auto
  show "dispatch V_get [''api'', ''v1'', ''planners'', demo_uuid] = Some planner_page_route"
    using every_route_is_reached [OF example_routes(1), of "\<lambda>_. demo_uuid", OF f]
    by (simp add: served_path_def planner_page_route_def)
  show "dispatch V_get [''api'', ''v1'', ''planners'', ''event-types''] = Some event_types_route"
    using every_route_is_reached [OF example_routes(2), of "\<lambda>_. demo_uuid", OF f]
    by (simp add: served_path_def event_types_route_def)
qed

definition stats_route :: route where
  "stats_route = \<lparr>rt_verb = V_get, rt_path = [Seg ''admin'', Seg ''stats''], rt_status = 200, rt_handler = ''AdminController.getStats'',
     rt_public = False, rt_guards = [G_jwt, G_roles], rt_roles = Some [R_admin], rt_plan_roles = None, rt_throttle = None, rt_uuids = []\<rparr>"

lemma stats_route_served: "stats_route \<in> set all_routes"
proof -
  have "stats_route \<in> set admin_figure_routes" by (simp add: stats_route_def admin_figure_routes_def row_defs)
  then show ?thesis by (simp add: all_routes_def admin_area_def)
qed

definition boss :: user_row where
  "boss = \<lparr>u_id = 1, u_email = ''boss@fann.guru'', u_phone = None, u_password_hash = None, u_role = R_admin,
     u_status = U_active, u_account_code = ''ADM-000001'', u_email_verified_at = None, u_phone_verified_at = None,
     u_last_login_at = None, u_created_at = 0, u_deleted_at = None, u_pending_email = None\<rparr>"

definition boss_platform :: auth_platform where
  "boss_platform = \<lparr>pf_bcrypt = (\<lambda>salt p. p), pf_compare = (\<lambda>p h. p = h), pf_sha256 = (\<lambda>t. t), pf_sign = (\<lambda>k t l p. ''t''),
     pf_verify = (\<lambda>k t x. if x = ''t'' then Some \<lparr>j_sub = 1, j_email = ''boss@fann.guru'', j_role = R_admin, j_status = U_active,
       j_account_code = ''ADM-000001''\<rparr> else None),
     pf_jwt_secret = ''k'', pf_jwt_refresh_secret = ''r'', pf_app_url = [], pf_frontend_url = []\<rparr>"

theorem closed_by_default_witness:
  "\<exists>a. admit \<lparr>gt_platform = boss_platform, gt_config = (\<lambda>_. None), gt_under_limit = (\<lambda>_ _. True), gt_strategy = (\<lambda>_ _. Inl (BadRequest []))\<rparr>
        \<lparr>db_now = 0, js_now = 0\<rparr> \<lparr>w_db = empty_db\<lparr>users := [boss]\<rparr>, w_redis = (\<lambda>_. None), w_outbox = []\<rparr>
        \<lparr>rq_cookie = Some ''t'', rq_bearer = None, rq_email = [], rq_password = []\<rparr> stats_route = Inr (Some a) \<and> u_role a = R_admin"
proof -
  let ?g = "\<lparr>gt_platform = boss_platform, gt_config = (\<lambda>_. None), gt_under_limit = (\<lambda>_ _. True), gt_strategy = (\<lambda>_ _. Inl (BadRequest []))\<rparr>"
  let ?w = "\<lparr>w_db = empty_db\<lparr>users := [boss]\<rparr>, w_redis = (\<lambda>_. None), w_outbox = []\<rparr>"
  let ?q = "\<lparr>rq_cookie = Some ''t'', rq_bearer = None, rq_email = [], rq_password = []\<rparr>"
  let ?ck = "\<lparr>db_now = 0, js_now = 0\<rparr>"
  have in_out: "admit ?g ?ck ?w ?q stats_route = Inr (Some boss)"
    by (simp add: admit_def stats_route_def lifted_def jwt_auth_guard_def jwt_session_def jwt_validate_def boss_platform_def
        user_by_id_def boss_def roles_guard_def)
  from closed_by_default [OF stats_route_served this] have "u_role boss = R_admin"
    by (auto simp: stats_route_def)
  with in_out show ?thesis by blast
qed

end
