(* ===== verification/Scheduler_Jobs.thy ===== *)
theory Scheduler_Jobs
  imports Scheduler Email Analytics Identity_Documents
begin

text \<open>
  The seven jobs of \<open>src/scheduler/scheduler.service.ts\<close> as they are run: what a job does to the
  database, the bucket and the outbox, the lock around it, the timer in the process
  (\<open>handle...\<close>) and the routes of \<open>src/scheduler/cron.controller.ts\<close>. The bodies of the jobs are in
  \<open>Scheduler\<close>, \<open>Analytics\<close> and \<open>Identity_Documents\<close>. Log lines are left out.
\<close>

section \<open>What a job works on\<close>

record job_world =
  jw_db :: db
  jw_bucket :: "string list"
  jw_outbox :: "email list"

text \<open>The readings of the clock, the configuration, the mail provider and the storage's answers.\<close>

record job_env =
  je_clock :: "nat \<Rightarrow> clock"
  je_config :: config
  je_mail :: mail_platform
  je_deletes :: "string \<Rightarrow> bool"

text \<open>A message of a job, sent through \<open>EmailService\<close>.\<close>

fun deliver :: "mail_platform \<Rightarrow> mail \<Rightarrow> email list \<Rightarrow> email list" where
  "deliver mp (Mail_expiring to_addr nm plan days expires url) =
     send_subscription_expiring_email mp to_addr nm (plan_name plan) days expires url"
| "deliver mp (Mail_review_request to_addr nm event day url days questions) =
     send_review_request_email mp to_addr nm event day url days questions"

definition on_db :: "(db \<Rightarrow> db) \<Rightarrow> job_world \<Rightarrow> job_world" where
  "on_db f w = w\<lparr>jw_db := f (jw_db w)\<rparr>"

definition mailing :: "job_env \<Rightarrow> (db \<Rightarrow> mail list \<times> db) \<Rightarrow> job_world \<Rightarrow> job_world" where
  "mailing E f w =
     (let (ms, s) = f (jw_db w) in w\<lparr>jw_db := s, jw_outbox := fold (deliver (je_mail E)) ms (jw_outbox w)\<rparr>)"

section \<open>The two jobs over other services\<close>

definition do_telemetry_prune :: "job_env \<Rightarrow> job_world \<Rightarrow> job_world" where
  "do_telemetry_prune E = on_db (\<lambda>s. snd (prune_old_events (je_clock E) s))"

definition do_identity_document_retention :: "job_env \<Rightarrow> job_world \<Rightarrow> job_world" where
  "do_identity_document_retention E w =
     (let p = prune_expired_documents (je_clock E 0) (je_deletes E) (jw_db w) (jw_bucket w)
      in w\<lparr>jw_db := ps_db p, jw_bucket := ps_bucket p\<rparr>)"

section \<open>Runs\<close>

text \<open>A runner is told whether a connection was to be had and which keys other sessions hold.\<close>

type_synonym runner = "bool \<Rightarrow> (int \<Rightarrow> bool) \<Rightarrow> job_env \<Rightarrow> job_world \<Rightarrow> job_world"

definition run_subscription_maintenance :: runner where
  "run_subscription_maintenance conn taken E =
     with_cron_lock conn taken ''subscription-maintenance'' (on_db (do_subscription_maintenance (je_clock E 0)))"

definition run_renewal_reminders :: runner where
  "run_renewal_reminders conn taken E =
     with_cron_lock conn taken ''renewal-reminders'' (mailing E (do_renewal_reminders (je_clock E 0) (je_config E)))"

definition run_payment_reconciliation :: runner where
  "run_payment_reconciliation conn taken E =
     with_cron_lock conn taken ''payment-reconciliation'' (on_db (do_payment_reconciliation (je_clock E 0)))"

definition run_identity_document_retention :: runner where
  "run_identity_document_retention conn taken E =
     with_cron_lock conn taken ''identity-document-retention'' (do_identity_document_retention E)"

definition run_daily_review_trigger :: runner where
  "run_daily_review_trigger conn taken E =
     with_cron_lock conn taken ''daily-review-trigger'' (mailing E (do_daily_review_trigger (je_clock E 0) (je_config E)))"

definition run_expired_review_unlock :: runner where
  "run_expired_review_unlock conn taken E =
     with_cron_lock conn taken ''expired-review-unlock'' (on_db (do_expired_review_unlock (je_clock E 0)))"

definition run_telemetry_prune :: runner where
  "run_telemetry_prune conn taken E = with_cron_lock conn taken ''telemetry-prune'' (do_telemetry_prune E)"

section \<open>The timer in the process\<close>

definition handle_subscription_maintenance :: runner where
  "handle_subscription_maintenance conn taken E w =
     (if \<not> in_process_cron_enabled (je_config E) then w else run_subscription_maintenance conn taken E w)"

definition handle_renewal_reminders :: runner where
  "handle_renewal_reminders conn taken E w =
     (if \<not> in_process_cron_enabled (je_config E) then w else run_renewal_reminders conn taken E w)"

definition handle_payment_reconciliation :: runner where
  "handle_payment_reconciliation conn taken E w =
     (if \<not> in_process_cron_enabled (je_config E) then w else run_payment_reconciliation conn taken E w)"

definition handle_identity_document_retention :: runner where
  "handle_identity_document_retention conn taken E w =
     (if \<not> in_process_cron_enabled (je_config E) then w else run_identity_document_retention conn taken E w)"

definition handle_daily_review_trigger :: runner where
  "handle_daily_review_trigger conn taken E w =
     (if \<not> in_process_cron_enabled (je_config E) then w else run_daily_review_trigger conn taken E w)"

definition handle_expired_review_unlock :: runner where
  "handle_expired_review_unlock conn taken E w =
     (if \<not> in_process_cron_enabled (je_config E) then w else run_expired_review_unlock conn taken E w)"

definition handle_daily_telemetry_prune :: runner where
  "handle_daily_telemetry_prune conn taken E w =
     (if \<not> in_process_cron_enabled (je_config E) then w else run_telemetry_prune conn taken E w)"

lemmas run_defs = run_subscription_maintenance_def run_renewal_reminders_def run_payment_reconciliation_def
  run_identity_document_retention_def run_daily_review_trigger_def run_expired_review_unlock_def run_telemetry_prune_def

lemmas handle_defs = handle_subscription_maintenance_def handle_renewal_reminders_def handle_payment_reconciliation_def
  handle_identity_document_retention_def handle_daily_review_trigger_def handle_expired_review_unlock_def
  handle_daily_telemetry_prune_def

section \<open>The routes of the cron controller\<close>

text \<open>
  What every method of \<open>CronController\<close> does: the check of the secret, then the run. The method
  for GET calls the one for POST.
\<close>

type_synonym cron_method = "bool \<Rightarrow> (int \<Rightarrow> bool) \<Rightarrow> job_env \<Rightarrow> string option \<Rightarrow> job_world \<Rightarrow> unit result \<times> job_world"

definition authorised_run :: "runner \<Rightarrow> cron_method" where
  "authorised_run run conn taken E authorization w =
     (case assert_authorised (je_config E) authorization of
        Inl e \<Rightarrow> (Inl e, w)
      | Inr _ \<Rightarrow> (Inr (), run conn taken E w))"

definition daily_review_trigger :: cron_method where
  "daily_review_trigger = authorised_run run_daily_review_trigger"

definition expired_review_unlock :: cron_method where
  "expired_review_unlock = authorised_run run_expired_review_unlock"

definition telemetry_prune :: cron_method where
  "telemetry_prune = authorised_run run_telemetry_prune"

definition subscription_maintenance :: cron_method where
  "subscription_maintenance = authorised_run run_subscription_maintenance"

definition renewal_reminders :: cron_method where
  "renewal_reminders = authorised_run run_renewal_reminders"

definition payment_reconciliation :: cron_method where
  "payment_reconciliation = authorised_run run_payment_reconciliation"

definition identity_retention :: cron_method where
  "identity_retention = authorised_run run_identity_document_retention"

lemmas cron_method_defs = daily_review_trigger_def expired_review_unlock_def telemetry_prune_def
  subscription_maintenance_def renewal_reminders_def payment_reconciliation_def identity_retention_def

section \<open>One trigger, one instance\<close>

definition timers :: "runner list" where
  "timers = [handle_subscription_maintenance, handle_renewal_reminders, handle_payment_reconciliation,
     handle_identity_document_retention, handle_daily_review_trigger, handle_expired_review_unlock, handle_daily_telemetry_prune]"

definition cron_methods :: "cron_method list" where
  "cron_methods = [daily_review_trigger, expired_review_unlock, telemetry_prune, subscription_maintenance,
     renewal_reminders, payment_reconciliation, identity_retention]"

lemma run_without_lock: "\<not> conn \<or> (\<forall>k. taken k) \<Longrightarrow> with_cron_lock conn taken job f w = w"
  by (auto simp: with_cron_lock_def)

lemma timer_idle: "\<not> in_process_cron_enabled (je_config E) \<Longrightarrow> t \<in> set timers \<Longrightarrow> t conn taken E w = w"
  by (auto simp: timers_def handle_defs)

lemma method_refused:
  "assert_authorised (je_config E) a = Inl e \<Longrightarrow> m \<in> set cron_methods \<Longrightarrow> m conn taken E a w = (Inl e, w)"
  by (auto simp: cron_methods_def cron_method_defs authorised_run_def)

text \<open>
  Whoever calls a job route without the secret changes nothing, and where a call is let in no timer
  drives a job, so the two triggers never run one job between them.
\<close>

lemma jobs_need_the_secret:
  assumes "m \<in> set cron_methods" and "snd (m conn taken E a w) \<noteq> w \<or> fst (m conn taken E a w) = Inr ()"
  shows "(\<exists>secret. je_config E ''CRON_SECRET'' = Some secret \<and> secret \<noteq> [] \<and> map_option strip_bearer a = Some secret)
    \<and> list_all (\<lambda>t. \<forall>conn taken w. t conn taken E w = w) timers"
proof (cases "assert_authorised (je_config E) a")
  case (Inl e)
  with assms method_refused [OF Inl assms(1)] show ?thesis by simp
next
  case (Inr u)
  then have ok: "assert_authorised (je_config E) a = Inr ()" by simp
  have "list_all (\<lambda>t. \<forall>conn taken w. t conn taken E w = w) timers"
    using timer_idle one_trigger [OF ok] by (simp add: list_all_iff)
  with ok show ?thesis by (simp add: authorised_iff)
qed


end
