(* ===== verification/Mock_Checkout.thy ===== *)
theory Mock_Checkout
  imports Webhooks Email
begin

text \<open>
  The pages of \<open>src/payments/mock-checkout.controller.ts\<close>, the stand-in for a hosted checkout: the
  page with the two forms, and where the buyer is sent after the signed delivery (\<open>mock_complete\<close>
  in \<open>Webhooks\<close>) was handled.
\<close>

definition checkout_html :: "string \<Rightarrow> string \<Rightarrow> string \<Rightarrow> string" where
  "checkout_html ref amount currency = in_lines
     [''<!doctype html>'',
      ''<html><head><meta charset=\"utf-8\"><title>Mock checkout</title>'',
      ''<style>'',
      '' body{font-family:system-ui,sans-serif;max-width:26rem;margin:4rem auto;padding:0 1rem;color:#1a1a1a}'',
      '' .card{border:1px solid #ddd;border-radius:12px;padding:1.5rem}'',
      '' button{width:100%;padding:.75rem;border:0;border-radius:8px;font-size:1rem;font-weight:600;cursor:pointer}'',
      '' .pay{background:#166534;color:#fff}.fail{background:#fff;color:#7F1D1D;border:1px solid #FCA5A5;margin-top:.5rem}'',
      '' .warn{background:#FEF3C7;border:1px solid #FCD34D;padding:.6rem;border-radius:8px;font-size:.8rem}'',
      ''</style></head>'',
      ''<body>'',
      ''  <p class=\"warn\">Mock provider '' @ [CHR 0xE2, CHR 0x80, CHR 0x94] @ '' no real money moves here.</p>'',
      ''  <div class=\"card\">'',
      ''    <h2>Pay $'' @ amount @ '' '' @ currency @ ''</h2>'',
      ''    <p style=\"color:#666;font-size:.9rem\">Reference '' @ ref @ ''</p>'',
      ''    <!--'',
      ''      Plain forms, no JavaScript. helmet() sets script-src '' @ [CHR 0x27] @ ''self'' @ [CHR 0x27] @ '' and'',
      ''      script-src-attr '' @ [CHR 0x27] @ ''none'' @ [CHR 0x27] @ '', so an inline script or an onclick handler is'',
      ''      blocked outright '' @ [CHR 0xE2, CHR 0x80, CHR 0x94] @ '' and relaxing the CSP of the whole API for a dev'',
      ''      fixture would be a poor trade. Form posts need no script at all, and'',
      ''      a real hosted checkout is usually a form post anyway.'',
      ''    -->'',
      ''    <form method=\"post\" action=\"/api/v1/payments/mock/'' @ ref @ ''/complete?status=paid\">'',
      ''      <button class=\"pay\" type=\"submit\">Pay now</button>'',
      ''    </form>'',
      ''    <form method=\"post\" action=\"/api/v1/payments/mock/'' @ ref @ ''/complete?status=failed\">'',
      ''      <button class=\"fail\" type=\"submit\">Simulate failure</button>'',
      ''    </form>'',
      ''  </div>'',
      ''</body></html>'']"

definition mock_checkout_page :: "config \<Rightarrow> string \<Rightarrow> db \<Rightarrow> string result" where
  "mock_checkout_page cfg ref s =
     (case assert_mock_enabled cfg of
        Inl e \<Rightarrow> Inl e
      | Inr _ \<Rightarrow>
          (case find (has_reference ''mock'' (Some ref)) (payments s) of
             None \<Rightarrow> Inl (NotFound ''Unknown payment reference.'')
           | Some y \<Rightarrow> Inr (checkout_html ref (to_fixed2 (y_amount_usd y)) (y_currency y))))"

text \<open>The word the service answers with.\<close>

fun outcome_text :: "webhook_outcome \<Rightarrow> string" where
  "outcome_text W_recorded_unknown_provider = ''recorded_unknown_provider''"
| "outcome_text W_bad_signature = ''bad_signature''"
| "outcome_text W_unparseable = ''unparseable''"
| "outcome_text W_payment_not_found = ''payment_not_found''"
| "outcome_text W_amount_mismatch = ''amount_mismatch''"
| "outcome_text W_already_confirmed = ''already_confirmed''"
| "outcome_text W_not_paid = ''not_paid''"
| "outcome_text W_confirmed = ''confirmed''"

definition frontend_url :: "config \<Rightarrow> string" where
  "frontend_url cfg = (case cfg ''FRONTEND_URL'' of None \<Rightarrow> ''http://localhost:3000'' | Some u \<Rightarrow> u)"

definition mock_complete_redirect ::
  "clock \<Rightarrow> platform \<Rightarrow> config \<Rightarrow> string \<Rightarrow> string option \<Rightarrow> db \<Rightarrow> string result \<times> db" where
  "mock_complete_redirect ck pf cfg ref status s =
     (case mock_complete ck pf cfg ref status s of
        (Inl e, s1) \<Rightarrow> (Inl e, s1)
      | (Inr (pid, out), s1) \<Rightarrow>
          (Inr (frontend_url cfg @ ''/plans/return?payment='' @ show_nat pid @ ''&outcome='' @ outcome_text out), s1))"

end
