(* ===== verification/Request_Bodies.thy ===== *)
theory Request_Bodies
  imports Admin_Catalogue Support Redis_Store
begin

text \<open>
  The request bodies and queries under \<open>src/\<close>, as their classes declare them: one table per class
  of \<open>*.dto.ts\<close>, one entry per property with its declared type, its transform, when it may be left
  out and the validators on it; and the global pipe of \<open>app.module.ts\<close> that reads a body by such a
  table. The validators and the implicit conversion themselves are a library's, an argument here.
\<close>

section \<open>Declarations\<close>

text \<open>The type the compiler records for a property, which the implicit conversion goes by.\<close>

datatype shape = String_typed | Number_typed | Boolean_typed | Array_typed | Nested_typed

datatype tweak =
    As_cast
  | Strict_flag \<comment> \<open>\<open>@StrictBoolean\<close>\<close>
  | Word_true \<comment> \<open>\<open>value === 'true' || value === true\<close>\<close>
  | Trimmed
  | Comma_list
  | Blank_to_undefined

datatype rule =
    Is_string
  | Is_not_empty
  | Min_length nat
  | Max_length nat
  | Is_uuid
  | Is_in "string list"
  | Is_number
  | Is_int
  | Is_positive
  | At_least rat
  | At_most rat
  | Is_boolean
  | Equals_true
  | Is_email
  | Is_url
  | Is_date_string
  | Is_iso8601
  | Matches "string \<Rightarrow> bool"
  | Is_array
  | Array_not_empty
  | Array_max_size nat
  | Each rule

type_synonym js_members = "(string \<times> js_value) list"

datatype presence =
    Always
  | Unless_nullish \<comment> \<open>\<open>@IsOptional\<close>\<close>
  | Unless_undefined
  | Only_if "js_members \<Rightarrow> bool" \<comment> \<open>\<open>@ValidateIf\<close> on the object\<close>

datatype field = Field string shape tweak presence "rule list" "js_value option" "field list"

fun field_name :: "field \<Rightarrow> string" where
  "field_name (Field n sh tw pr rs d subs) = n"

definition body_member :: "string \<Rightarrow> js_members \<Rightarrow> js_value" where
  "body_member k o' = (case map_of o' k of None \<Rightarrow> Js_undefined | Some v \<Rightarrow> v)"

section \<open>The pipe\<close>

text \<open>What the libraries do with one value; \<open>vl_text\<close> is \<open>String(value)\<close>.\<close>

record validator =
  vl_cast :: "shape \<Rightarrow> js_value \<Rightarrow> js_value"
  vl_holds :: "rule \<Rightarrow> js_value \<Rightarrow> bool"
  vl_text :: "js_value \<Rightarrow> string"

text \<open>\<open>String(value).split(',').map((s) => s.trim()).filter(Boolean)\<close>.\<close>

fun split_at :: "char \<Rightarrow> string \<Rightarrow> string list" where
  "split_at c [] = [[]]"
| "split_at c (x # t) = (if x = c then [] # split_at c t else (case split_at c t of p # ps \<Rightarrow> (x # p) # ps | [] \<Rightarrow> [[x]]))"

definition comma_list :: "validator \<Rightarrow> js_value \<Rightarrow> js_value" where
  "comma_list V v =
     (case v of
        Js_array vs \<Rightarrow> Js_array vs
      | _ \<Rightarrow> Js_array (map Js_string (filter (\<lambda>t. t \<noteq> []) (map js_trim (split_at (CHR '','') (vl_text V v))))))"

text \<open>
  The conversion comes first and a transform is handed its result; only \<open>StrictBoolean\<close> reads the
  payload itself (the comment in \<open>boolean.transform.ts\<close>).
\<close>

fun apply_tweak :: "validator \<Rightarrow> tweak \<Rightarrow> js_value \<Rightarrow> js_value \<Rightarrow> js_value" where
  "apply_tweak V As_cast raw v = v"
| "apply_tweak V Strict_flag raw v = strict_boolean raw"
| "apply_tweak V Word_true raw v = Js_bool (v = Js_string ''true'' \<or> v = Js_bool True)"
| "apply_tweak V Trimmed raw v = (case v of Js_string t \<Rightarrow> Js_string (js_trim t) | _ \<Rightarrow> v)"
| "apply_tweak V Comma_list raw v = comma_list V v"
| "apply_tweak V Blank_to_undefined raw v = (if v = Js_string [] then Js_undefined else v)"

text \<open>What is behind a nested property: one object or a list of them, each read by the class it names.\<close>

fun on_objects :: "(js_members \<Rightarrow> js_members) \<Rightarrow> js_value \<Rightarrow> js_value" where
  "on_objects g (Js_object kvs) = Js_object (g kvs)"
| "on_objects g (Js_array vs) = Js_array (map (\<lambda>v. case v of Js_object kvs \<Rightarrow> Js_object (g kvs) | _ \<Rightarrow> v) vs)"
| "on_objects g v = v"

text \<open>A key the body lacks keeps the value the class starts it with.\<close>

fun converted :: "validator \<Rightarrow> js_members \<Rightarrow> field \<Rightarrow> js_value" where
  "converted V body (Field n sh tw pr rs d subs) =
     (case map_of body n of
        None \<Rightarrow> (case d of None \<Rightarrow> Js_undefined | Some v \<Rightarrow> v)
      | Some raw \<Rightarrow>
          if subs = [] then apply_tweak V tw raw (vl_cast V sh raw)
          else on_objects (\<lambda>kvs. map (\<lambda>f. (field_name f, converted V kvs f)) subs) raw)"

definition read_members :: "validator \<Rightarrow> field list \<Rightarrow> js_members \<Rightarrow> js_members" where
  "read_members V fs body = map (\<lambda>f. (field_name f, converted V body f)) fs"

fun skipped :: "presence \<Rightarrow> js_members \<Rightarrow> js_value \<Rightarrow> bool" where
  "skipped Always o' v = False"
| "skipped Unless_nullish o' v = (v = Js_undefined \<or> v = Js_null)"
| "skipped Unless_undefined o' v = (v = Js_undefined)"
| "skipped (Only_if c) o' v = (\<not> c o')"

text \<open>The objects behind a nested property: the one, or those of a list; anything else is refused.\<close>

fun nested_objects :: "js_value \<Rightarrow> js_members list option" where
  "nested_objects (Js_object kvs) = Some [kvs]"
| "nested_objects (Js_array []) = Some []"
| "nested_objects (Js_array (Js_object kvs # vs)) = map_option (\<lambda>os. kvs # os) (nested_objects (Js_array vs))"
| "nested_objects v = None"

lemma subs_smaller: "Field n sh tw pr rs d subs \<in> set fs \<Longrightarrow> size_list size subs < size_list size fs"
  by (induction fs) auto

text \<open>\<open>whitelist\<close> with \<open>forbidNonWhitelisted\<close>: a key the class does not declare refuses the body, at either level.\<close>

function accepted :: "validator \<Rightarrow> field list \<Rightarrow> js_members \<Rightarrow> bool" where
  "accepted V fs body \<longleftrightarrow>
     list_all (\<lambda>kv. fst kv \<in> set (map field_name fs)) body
     \<and> list_all (\<lambda>f. case f of Field n sh tw pr rs d subs \<Rightarrow>
          (let v = converted V body f
           in skipped pr (read_members V fs body) v
              \<or> list_all (\<lambda>r. vl_holds V r v) rs
                \<and> (subs = [] \<or> (case nested_objects (body_member n body) of None \<Rightarrow> False | Some os \<Rightarrow> list_all (accepted V subs) os)))) fs"
  by pat_completeness auto

termination
  by (relation "measure (\<lambda>(V, fs, body). size_list size fs)") (use subs_smaller in auto)

declare accepted.simps [simp del]

definition read_body :: "validator \<Rightarrow> field list \<Rightarrow> js_members \<Rightarrow> js_members result" where
  "read_body V fs body = (if accepted V fs body then Inr (read_members V fs body) else Inl (BadRequest ''Bad Request''))"

text \<open>The two global pipes in their order: NUL bytes are gone before anything is validated.\<close>

definition global_pipes :: "validator \<Rightarrow> field list \<Rightarrow> js_members \<Rightarrow> js_members result" where
  "global_pipes V fs body = read_body V fs (map (\<lambda>kv. (fst kv, strip_nul (snd kv))) body)"

section \<open>Patterns of the code\<close>

text \<open>\<open>/^(?=.*[a-z])(?=.*[A-Z])(?=.*\d)/\<close>; the dot stops at a line break.\<close>

definition three_kinds :: "string \<Rightarrow> bool" where
  "three_kinds p \<longleftrightarrow>
     (let line = takeWhile (\<lambda>c. (of_char c :: nat) \<notin> {10, 13}) p
      in list_ex (\<lambda>c. 97 \<le> (of_char c :: nat) \<and> (of_char c :: nat) \<le> 122) line
         \<and> list_ex (\<lambda>c. 65 \<le> (of_char c :: nat) \<and> (of_char c :: nat) \<le> 90) line \<and> list_ex is_digit line)"

text \<open>\<open>/^\+?[1-9]\d{6,14}$/\<close>.\<close>

definition phone_pattern :: "string \<Rightarrow> bool" where
  "phone_pattern p \<longleftrightarrow>
     (let ds = (case p of c # r \<Rightarrow> if c = CHR ''+'' then r else p | [] \<Rightarrow> [])
      in ds \<noteq> [] \<and> hd ds \<noteq> CHR ''0'' \<and> list_all is_digit ds \<and> 7 \<le> length ds \<and> length ds \<le> 15)"

text \<open>\<open>/^\d{6}$/\<close>.\<close>

definition code_pattern :: "string \<Rightarrow> bool" where
  "code_pattern p \<longleftrightarrow> length p = 6 \<and> list_all is_digit p"

definition hex_char :: "char \<Rightarrow> bool" where
  "hex_char c \<longleftrightarrow> is_digit c \<or> c \<in> set ''abcdefABCDEF''"

text \<open>Eight, four, four, four and twelve hexadecimal digits.\<close>

definition uuid_shape :: "string \<Rightarrow> bool" where
  "uuid_shape p \<longleftrightarrow> length p = 36
     \<and> list_all (\<lambda>i. if i \<in> {8, 13, 18, 23} then p ! i = CHR ''-'' else hex_char (p ! i)) [0..<36]"

definition booker_type_names :: "string list" where
  "booker_type_names =
     [''Event Planner'', ''Venue'', ''Restaurant'', ''Bar'', ''Wedding Planner'', ''University'', ''Other'']"

definition interest_names :: "string list" where
  "interest_names = [''musical_acts'', ''performance_acts'', ''photo_video'', ''djs_and_services'', ''venues'']"

text \<open>The two conditions of \<open>@ValidateIf\<close> that look at another member.\<close>

definition is_planner_body :: "js_members \<Rightarrow> bool" where
  "is_planner_body o' \<longleftrightarrow> body_member ''role'' o' = Js_string ''planner''"

definition is_company_body :: "js_members \<Rightarrow> bool" where
  "is_company_body o' \<longleftrightarrow> is_planner_body o' \<and> body_member ''plannerKind'' o' = Js_string ''company''"

definition given :: "string \<Rightarrow> js_members \<Rightarrow> bool" where
  "given k o' \<longleftrightarrow> body_member k o' \<noteq> Js_undefined"

section \<open>Links\<close>

definition social_links_fields :: "field list" where
  "social_links_fields = [
      Field ''instagram'' String_typed Blank_to_undefined Unless_nullish [Is_string, Max_length 300, Is_url] None [],
      Field ''youtube'' String_typed Blank_to_undefined Unless_nullish [Is_string, Max_length 300, Is_url] None [],
      Field ''spotify'' String_typed Blank_to_undefined Unless_nullish [Is_string, Max_length 300, Is_url] None [],
      Field ''tiktok'' String_typed Blank_to_undefined Unless_nullish [Is_string, Max_length 300, Is_url] None [],
      Field ''facebook'' String_typed Blank_to_undefined Unless_nullish [Is_string, Max_length 300, Is_url] None [],
      Field ''linkedin'' String_typed Blank_to_undefined Unless_nullish [Is_string, Max_length 300, Is_url] None [],
      Field ''twitter'' String_typed Blank_to_undefined Unless_nullish [Is_string, Max_length 300, Is_url] None [],
      Field ''website'' String_typed Blank_to_undefined Unless_nullish [Is_string, Max_length 300, Is_url] None []]"

section \<open>Accounts and sessions\<close>

definition register_fields :: "field list" where
  "register_fields = [
      Field ''email'' String_typed As_cast Always [Is_email] None [],
      Field ''password'' String_typed As_cast Always [Is_string, Min_length 8, Matches three_kinds] None [],
      Field ''role'' String_typed As_cast Always [Is_in [''artist'', ''planner'']] None [],
      Field ''phone'' String_typed As_cast Unless_nullish [Is_string, Matches phone_pattern] None [],
      Field ''acceptedTerms'' Boolean_typed Strict_flag Always [Equals_true] None [],
      Field ''acceptedPrivacy'' Boolean_typed Strict_flag Always [Equals_true] None [],
      Field ''acceptedMarketing'' Boolean_typed Strict_flag Unless_nullish [Is_boolean] None [],
      Field ''plannerKind'' String_typed As_cast (Only_if is_planner_body) [Is_in [''individual'', ''company'']] None [],
      Field ''bookerType'' String_typed As_cast (Only_if is_company_body) [Is_in booker_type_names] None [],
      Field ''interests'' Array_typed As_cast (Only_if is_planner_body) [Is_array, Array_not_empty, Array_max_size 5, Each (Is_in interest_names)] None []]"

definition login_fields :: "field list" where
  "login_fields = [
      Field ''email'' String_typed As_cast Always [Is_email] None [],
      Field ''password'' String_typed As_cast Always [Is_string, Is_not_empty] None []]"

definition send_otp_fields :: "field list" where
  "send_otp_fields = [
      Field ''phone'' String_typed As_cast Always [Is_string, Matches phone_pattern] None []]"

definition verify_otp_fields :: "field list" where
  "verify_otp_fields = [
      Field ''phone'' String_typed As_cast Always [Is_string, Matches phone_pattern] None [],
      Field ''code'' String_typed As_cast Always [Is_string, Matches code_pattern] None []]"

definition forgot_password_fields :: "field list" where
  "forgot_password_fields = [
      Field ''email'' String_typed As_cast Always [Is_email] None []]"

definition reset_password_fields :: "field list" where
  "reset_password_fields = [
      Field ''token'' String_typed As_cast Always [Is_string, Is_not_empty] None [],
      Field ''password'' String_typed As_cast Always [Is_string, Min_length 8, Matches three_kinds] None []]"

definition change_password_fields :: "field list" where
  "change_password_fields = [
      Field ''currentPassword'' String_typed As_cast Always [Is_string, Is_not_empty] None [],
      Field ''newPassword'' String_typed As_cast Always [Is_string, Min_length 8, Matches three_kinds] None []]"

definition change_email_fields :: "field list" where
  "change_email_fields = [
      Field ''currentPassword'' String_typed As_cast Always [Is_string, Is_not_empty] None [],
      Field ''newEmail'' String_typed As_cast Always [Is_email] None []]"

definition delete_account_fields :: "field list" where
  "delete_account_fields = [
      Field ''password'' String_typed As_cast Always [Is_string, Is_not_empty] None []]"

definition resend_verification_fields :: "field list" where
  "resend_verification_fields = [
      Field ''email'' String_typed As_cast Always [Is_email] None []]"

section \<open>Artists\<close>

definition search_artists_fields :: "field list" where
  "search_artists_fields = [
      Field ''q'' String_typed As_cast Unless_nullish [Is_string] None [],
      Field ''categories'' Array_typed Comma_list Unless_nullish [Is_array, Each Is_string] None [],
      Field ''country'' String_typed As_cast Unless_nullish [Is_string] None [],
      Field ''city'' String_typed As_cast Unless_nullish [Is_string] None [],
      Field ''minPrice'' Number_typed As_cast Unless_nullish [Is_number, At_least 0] None [],
      Field ''maxPrice'' Number_typed As_cast Unless_nullish [Is_number, At_least 0] None [],
      Field ''verifiedOnly'' Boolean_typed Word_true Unless_nullish [] None [],
      Field ''availableOn'' String_typed As_cast Unless_nullish [Is_date_string] None [],
      Field ''sort'' String_typed As_cast Unless_nullish [Is_in [''price_asc'', ''price_desc'', ''newest'']] None [],
      Field ''page'' Number_typed As_cast Unless_nullish [Is_number, At_least 1, At_most (of_nat max_page)] (Some (Js_number 1)) [],
      Field ''limit'' Number_typed As_cast Unless_nullish [Is_number, At_least 1, At_most (of_nat max_page_size)] (Some (Js_number 20)) []]"

definition update_artist_profile_fields :: "field list" where
  "update_artist_profile_fields = [
      Field ''displayName'' String_typed As_cast Unless_undefined [Is_string, Max_length 150] None [],
      Field ''bio'' String_typed As_cast Unless_nullish [Is_string, Max_length 2000] None [],
      Field ''categoryIds'' Array_typed As_cast Unless_nullish [Is_array, Array_not_empty, Array_max_size 4, Each Is_uuid] None [],
      Field ''locationCity'' String_typed As_cast Unless_nullish [Is_string, Max_length 100] None [],
      Field ''locationCountry'' String_typed As_cast Unless_nullish [Is_string, Max_length 100] None [],
      Field ''basePriceUsd'' Number_typed As_cast Unless_nullish [Is_number, At_least 0, At_most (9999999999 / 100)] None [],
      Field ''languages'' Array_typed As_cast Unless_undefined [Is_array, Array_max_size 10, Each Is_string, Each (Max_length 50)] None [],
      Field ''socialLinks'' Nested_typed As_cast Unless_undefined [] None social_links_fields,
      Field ''depositUsd'' Number_typed As_cast Unless_nullish [Is_number, At_least 0, At_most (9999999999 / 100)] None [],
      Field ''cancellationPolicy'' String_typed As_cast Unless_nullish [Is_string, Max_length 1000] None []]"

section \<open>Planners\<close>

definition update_planner_profile_fields :: "field list" where
  "update_planner_profile_fields = [
      Field ''displayName'' String_typed As_cast Unless_undefined [Is_string, Max_length 150] None [],
      Field ''companyName'' String_typed As_cast Unless_nullish [Is_string, Max_length 150] None [],
      Field ''bio'' String_typed As_cast Unless_nullish [Is_string, Max_length 2000] None [],
      Field ''locationCity'' String_typed As_cast Unless_nullish [Is_string, Max_length 100] None [],
      Field ''locationCountry'' String_typed As_cast Unless_nullish [Is_string, Max_length 100] None [],
      Field ''eventTypes'' Array_typed As_cast Unless_undefined [Is_array, Array_max_size 10, Each Is_string, Each (Max_length 50)] None [],
      Field ''socialLinks'' Nested_typed As_cast Unless_undefined [] None social_links_fields,
      Field ''bookerType'' String_typed As_cast Unless_nullish [Is_in booker_type_names] None []]"

definition search_planners_fields :: "field list" where
  "search_planners_fields = [
      Field ''q'' String_typed As_cast Unless_nullish [Is_string] None [],
      Field ''eventTypes'' Array_typed Comma_list Unless_nullish [Is_array, Each Is_string] None [],
      Field ''country'' String_typed As_cast Unless_nullish [Is_string] None [],
      Field ''city'' String_typed As_cast Unless_nullish [Is_string] None [],
      Field ''sort'' String_typed As_cast Unless_nullish [Is_in [''newest'', ''name_asc'']] None [],
      Field ''page'' Number_typed As_cast Unless_nullish [Is_number, At_least 1, At_most (of_nat max_page)] (Some (Js_number 1)) [],
      Field ''limit'' Number_typed As_cast Unless_nullish [Is_number, At_least 1, At_most (of_nat max_page_size)] (Some (Js_number 20)) []]"

section \<open>Bookings\<close>

definition create_booking_fields :: "field list" where
  "create_booking_fields = [
      Field ''artistId'' String_typed As_cast Always [Is_uuid] None [],
      Field ''conversationId'' String_typed As_cast Unless_nullish [Is_uuid] None [],
      Field ''eventName'' String_typed As_cast Always [Is_string, Is_not_empty, Max_length 200] None [],
      Field ''eventDate'' String_typed As_cast Always [Is_date_string] None [],
      Field ''eventLocation'' String_typed As_cast Unless_nullish [Is_string, Max_length 300] None [],
      Field ''durationHours'' Number_typed As_cast Unless_nullish [Is_number, At_least (1 / 2), At_most 24] None [],
      Field ''agreedFeeUsd'' Number_typed As_cast Unless_nullish [Is_number, Is_positive] None [],
      Field ''notes'' String_typed As_cast Unless_nullish [Is_string, Max_length 1000] None []]"

definition respond_booking_fields :: "field list" where
  "respond_booking_fields = [
      Field ''decision'' String_typed As_cast Always [Is_in [''accepted'', ''declined'']] None [],
      Field ''note'' String_typed As_cast Unless_nullish [Is_string, Max_length 500] None []]"

definition cancel_booking_fields :: "field list" where
  "cancel_booking_fields = [
      Field ''note'' String_typed As_cast Unless_nullish [Is_string, Max_length 500] None []]"

section \<open>Reviews\<close>

definition submit_review_fields :: "field list" where
  "submit_review_fields = [
      Field ''bookingId'' String_typed As_cast Always [Is_uuid] None [],
      Field ''overallScore'' Number_typed As_cast Always [Is_int, At_least 1, At_most 5] None [],
      Field ''scoreCommunication'' Number_typed As_cast Always [Is_int, At_least 1, At_most 5] None [],
      Field ''scoreProfessionalism'' Number_typed As_cast Always [Is_int, At_least 1, At_most 5] None [],
      Field ''scorePunctuality'' Number_typed As_cast Always [Is_int, At_least 1, At_most 5] None [],
      Field ''scoreQuality'' Number_typed As_cast Always [Is_int, At_least 1, At_most 5] None [],
      Field ''body'' String_typed As_cast Unless_nullish [Is_string, Max_length 2000] None []]"

section \<open>Messages\<close>

definition create_conversation_fields :: "field list" where
  "create_conversation_fields = [
      Field ''artistId'' String_typed As_cast Unless_nullish [Is_uuid] None [],
      Field ''plannerId'' String_typed As_cast Unless_nullish [Is_uuid] None []]"

definition respond_to_request_fields :: "field list" where
  "respond_to_request_fields = [
      Field ''decision'' String_typed As_cast Always [Is_in [''accepted'', ''declined'']] None []]"

definition send_message_fields :: "field list" where
  "send_message_fields = [
      Field ''body'' String_typed Trimmed Always [Is_string, Is_not_empty, Max_length 4000] None []]"

definition get_messages_fields :: "field list" where
  "get_messages_fields = [
      Field ''page'' Number_typed As_cast Unless_nullish [Is_int, At_least 1] (Some (Js_number 1)) [],
      Field ''limit'' Number_typed As_cast Unless_nullish [Is_int, At_least 1, At_most 100] (Some (Js_number 50)) []]"

section \<open>Notifications\<close>

definition list_notifications_fields :: "field list" where
  "list_notifications_fields = [
      Field ''page'' Number_typed As_cast Unless_nullish [Is_int, At_least 1] (Some (Js_number 1)) [],
      Field ''limit'' Number_typed As_cast Unless_nullish [Is_int, At_least 1, At_most 100] (Some (Js_number 20)) [],
      Field ''unreadOnly'' Boolean_typed Word_true Unless_nullish [Is_boolean] None []]"

section \<open>Availability\<close>

definition create_availability_block_fields :: "field list" where
  "create_availability_block_fields = [
      Field ''startDate'' String_typed As_cast Always [Is_date_string] None [],
      Field ''endDate'' String_typed As_cast Always [Is_date_string] None [],
      Field ''note'' String_typed As_cast Unless_nullish [Is_string, Max_length 200] None []]"

section \<open>Media\<close>

definition presign_media_fields :: "field list" where
  "presign_media_fields = [
      Field ''mediaType'' String_typed As_cast Always [Is_in [''photo'', ''video'']] None [],
      Field ''filename'' String_typed As_cast Always [Is_string, Is_not_empty] None [],
      Field ''fileSizeBytes'' Number_typed As_cast Always [Is_int, Is_positive] None [],
      Field ''durationSec'' Number_typed As_cast Unless_nullish [Is_int, Is_positive, At_most 60] None []]"

definition confirm_media_fields :: "field list" where
  "confirm_media_fields = [
      Field ''s3Key'' String_typed As_cast Always [Is_string, Is_not_empty] None [],
      Field ''mediaType'' String_typed As_cast Always [Is_in [''photo'', ''video'']] None [],
      Field ''fileSizeBytes'' Number_typed As_cast Always [Is_int, Is_positive] None [],
      Field ''durationSec'' Number_typed As_cast Unless_nullish [Is_int, Is_positive, At_most 60] None []]"

section \<open>Identity documents\<close>

definition presign_id_document_fields :: "field list" where
  "presign_id_document_fields = [
      Field ''kind'' String_typed As_cast Always [Is_in [''id_document'', ''selfie'']] None [],
      Field ''filename'' String_typed As_cast Always [Is_string, Is_not_empty, Max_length 255] None [],
      Field ''fileSizeBytes'' Number_typed As_cast Always [Is_int, Is_positive] None []]"

definition confirm_id_document_fields :: "field list" where
  "confirm_id_document_fields = [
      Field ''kind'' String_typed As_cast Always [Is_in [''id_document'', ''selfie'']] None [],
      Field ''s3Key'' String_typed As_cast Always [Is_string, Is_not_empty, Max_length 500] None []]"

section \<open>Consent\<close>

definition set_marketing_consent_fields :: "field list" where
  "set_marketing_consent_fields = [
      Field ''granted'' Boolean_typed Strict_flag Always [Is_boolean] None []]"

definition accept_documents_fields :: "field list" where
  "accept_documents_fields = [
      Field ''documents'' Array_typed As_cast Always [Is_array, Array_not_empty, Each (Is_in [''terms'', ''privacy''])] None []]"

definition unsubscribe_fields :: "field list" where
  "unsubscribe_fields = [
      Field ''token'' String_typed As_cast Always [Is_string, Min_length 1, Max_length 400] None []]"

section \<open>Subscriptions\<close>

definition create_payment_intent_fields :: "field list" where
  "create_payment_intent_fields = [
      Field ''planCode'' String_typed As_cast Always [Is_in [''day'', ''month'', ''year'']] None [],
      Field ''quantity'' Number_typed As_cast Unless_nullish [Is_int, At_least 1, At_most 30] None [],
      Field ''transferService'' String_typed As_cast Unless_nullish [Is_in [''Wish'', ''other'']] None [],
      Field ''referenceCode'' String_typed As_cast Unless_nullish [Is_string, Max_length 100] None []]"

definition report_transfer_fields :: "field list" where
  "report_transfer_fields = [
      Field ''transferService'' String_typed As_cast Always [Is_in [''Wish'', ''other'']] None [],
      Field ''referenceCode'' String_typed As_cast Always [Is_string, Max_length 100] None []]"

section \<open>Support\<close>

definition create_support_ticket_fields :: "field list" where
  "create_support_ticket_fields = [
      Field ''subject'' String_typed As_cast Always [Is_string, Min_length 3, Max_length 200] None [],
      Field ''body'' String_typed As_cast Always [Is_string, Min_length 10, Max_length 5000] None [],
      Field ''guestEmail'' String_typed As_cast Unless_nullish [Is_email, Max_length 255] None [],
      Field ''guestName'' String_typed As_cast Unless_nullish [Is_string, Max_length 150] None [],
      Field ''sourcePath'' String_typed As_cast Unless_nullish [Is_string, Max_length 120, Matches normalised_route] None [],
      Field ''reportedKind'' String_typed As_cast (Only_if (given ''reportedId'')) [Is_in [''artist'', ''planner'', ''conversation'']] None [],
      Field ''reportedId'' String_typed As_cast (Only_if (given ''reportedKind'')) [Matches uuid_shape] None []]"

definition update_support_ticket_fields :: "field list" where
  "update_support_ticket_fields = [
      Field ''status'' String_typed As_cast Unless_nullish [Is_in [''open'', ''in_progress'', ''resolved'', ''closed'']] None [],
      Field ''assignedTo'' String_typed As_cast Unless_nullish [Is_uuid] None [],
      Field ''reply'' String_typed As_cast Unless_nullish [Is_string, Min_length 1, Max_length 5000] None []]"

definition list_support_tickets_fields :: "field list" where
  "list_support_tickets_fields = [
      Field ''status'' String_typed As_cast Unless_nullish [Is_in [''open'', ''in_progress'', ''resolved'', ''closed'']] None []]"

section \<open>Analytics\<close>

definition page_event_fields :: "field list" where
  "page_event_fields = [
      Field ''path'' String_typed As_cast Always [Is_string, Max_length 120, Matches normalised_route] None [],
      Field ''durationMs'' Number_typed As_cast Always [Is_int, At_least 0, At_most 21600000] None [],
      Field ''occurredAt'' String_typed As_cast Always [Is_iso8601] None []]"

definition record_page_events_fields :: "field list" where
  "record_page_events_fields = [
      Field ''events'' Nested_typed As_cast Always [Is_array, Array_not_empty, Array_max_size 50] None page_event_fields,
      Field ''sessionId'' String_typed As_cast Unless_nullish [Is_uuid] None []]"

definition record_search_fields :: "field list" where
  "record_search_fields = [
      Field ''sessionId'' String_typed As_cast Unless_nullish [Is_uuid] None [],
      Field ''categoryId'' String_typed As_cast Unless_nullish [Is_uuid] None [],
      Field ''queryText'' String_typed As_cast Unless_nullish [Is_string, Max_length 200] None [],
      Field ''resultCount'' Number_typed As_cast Unless_nullish [Is_int, At_least 0] None []]"

section \<open>Administration\<close>

definition pagination_fields :: "field list" where
  "pagination_fields = [
      Field ''page'' Number_typed As_cast Unless_nullish [Is_int, At_least 1] (Some (Js_number 1)) [],
      Field ''limit'' Number_typed As_cast Unless_nullish [Is_int, At_least 1, At_most 100] (Some (Js_number 30)) []]"

definition list_users_fields :: "field list" where
  "list_users_fields = pagination_fields @ [
      Field ''role'' String_typed As_cast Unless_nullish [Is_in [''artist'', ''planner'', ''admin'']] None [],
      Field ''status'' String_typed As_cast Unless_nullish [Is_in [''pending_review'', ''active'', ''suspended'', ''banned'', ''deleted'']] None [],
      Field ''q'' String_typed As_cast Unless_nullish [Is_string] None []]"

definition reset_user_password_fields :: "field list" where
  "reset_user_password_fields = [
      Field ''note'' String_typed As_cast Unless_nullish [Is_string, Max_length 500] None []]"

definition update_user_status_fields :: "field list" where
  "update_user_status_fields = [
      Field ''status'' String_typed As_cast Always [Is_in [''active'', ''suspended'', ''banned'']] None [],
      Field ''note'' String_typed As_cast Unless_nullish [Is_string, Max_length 500] None []]"

definition review_id_document_fields :: "field list" where
  "review_id_document_fields = [
      Field ''decision'' String_typed As_cast Always [Is_in [''approved'', ''rejected'']] None [],
      Field ''rejectionReason'' String_typed As_cast Unless_nullish [Is_string, Max_length 500] None []]"

definition review_payment_fields :: "field list" where
  "review_payment_fields = [
      Field ''decision'' String_typed As_cast Always [Is_in [''confirmed'', ''rejected'']] None [],
      Field ''rejectionReason'' String_typed As_cast Unless_nullish [Is_string, Max_length 500] None []]"

definition resolve_flag_fields :: "field list" where
  "resolve_flag_fields = [
      Field ''decision'' String_typed As_cast Always [Is_in [''dismissed'', ''actioned'']] None [],
      Field ''resolverNote'' String_typed As_cast Unless_nullish [Is_string, Max_length 500] None []]"

definition audit_log_fields :: "field list" where
  "audit_log_fields = pagination_fields @ [
      Field ''adminId'' String_typed As_cast Unless_nullish [Is_uuid] None [],
      Field ''targetId'' String_typed As_cast Unless_nullish [Is_uuid] None [],
      Field ''action'' String_typed As_cast Unless_nullish [Is_string] None []]"

definition create_category_fields :: "field list" where
  "create_category_fields = [
      Field ''name'' String_typed As_cast Always [Is_string, Is_not_empty, Max_length 100] None [],
      Field ''groupId'' String_typed As_cast Always [Is_uuid] None [],
      Field ''bookerInterest'' String_typed As_cast Always [Is_in interest_names] None [],
      Field ''slug'' String_typed As_cast Unless_nullish [Is_string, Max_length 100, Matches slug_pattern] None [],
      Field ''sortOrder'' Number_typed As_cast Unless_nullish [Is_int, At_least 0] (Some (Js_number 0)) []]"

definition update_category_fields :: "field list" where
  "update_category_fields = [
      Field ''bookerInterest'' String_typed As_cast Unless_undefined [Is_in interest_names] None [],
      Field ''name'' String_typed As_cast Unless_nullish [Is_string, Max_length 100] None [],
      Field ''groupId'' String_typed As_cast Unless_nullish [Is_uuid] None [],
      Field ''slug'' String_typed As_cast Unless_nullish [Is_string, Max_length 100, Matches slug_pattern] None [],
      Field ''sortOrder'' Number_typed As_cast Unless_nullish [Is_int, At_least 0] None []]"

definition create_category_group_fields :: "field list" where
  "create_category_group_fields = [
      Field ''name'' String_typed As_cast Always [Is_string, Is_not_empty, Max_length 100] None [],
      Field ''slug'' String_typed As_cast Unless_nullish [Is_string, Max_length 100, Matches slug_pattern] None [],
      Field ''icon'' String_typed As_cast Unless_nullish [Is_string, Max_length 50] None [],
      Field ''sortOrder'' Number_typed As_cast Unless_nullish [Is_int, At_least 0] (Some (Js_number 0)) []]"

definition update_category_group_fields :: "field list" where
  "update_category_group_fields = [
      Field ''name'' String_typed As_cast Unless_nullish [Is_string, Max_length 100] None [],
      Field ''slug'' String_typed As_cast Unless_nullish [Is_string, Max_length 100, Matches slug_pattern] None [],
      Field ''icon'' String_typed As_cast Unless_nullish [Is_string, Max_length 50] None [],
      Field ''sortOrder'' Number_typed As_cast Unless_nullish [Is_int, At_least 0] None []]"

definition list_verifications_fields :: "field list" where
  "list_verifications_fields = [
      Field ''result'' String_typed As_cast Unless_nullish [Is_in [''pending'', ''passed'', ''failed'', ''manually_approved'']] None [],
      Field ''page'' Number_typed As_cast Unless_nullish [Is_int, At_least 1] (Some (Js_number 1)) [],
      Field ''limit'' Number_typed As_cast Unless_nullish [Is_int, At_least 1, At_most 200] (Some (Js_number 50)) []]"

end
