(* ===== verification/Body_Rules.thy ===== *)
theory Body_Rules
  imports Request_Bodies Admin Notices
begin

text \<open>
  What a handler may rely on when a body got through the pipe, and what the two ways of reading a
  flag make of the word \<open>false\<close>. Of the libraries only what their documentation and the comments in
  \<open>src/common/boolean.transform.ts\<close> say is used.
\<close>

section \<open>What is documented of the libraries\<close>

definition documented :: "validator \<Rightarrow> bool" where
  "documented V \<longleftrightarrow>
     (\<forall>v. vl_holds V Equals_true v \<longrightarrow> v = Js_bool True) \<and>
     (\<forall>xs v. vl_holds V (Is_in xs) v \<longrightarrow> (\<exists>x\<in>set xs. v = Js_string x)) \<and>
     (\<forall>p v. vl_holds V (Matches p) v \<longrightarrow> (\<exists>t. v = Js_string t \<and> p t)) \<and>
     (\<forall>n v. vl_holds V (Min_length n) v \<longrightarrow> (\<exists>t. v = Js_string t \<and> n \<le> length t)) \<and>
     (\<forall>m v. vl_holds V (At_least m) v \<longrightarrow> (\<exists>x. v = Js_number x \<and> m \<le> x)) \<and>
     (\<forall>m v. vl_holds V (At_most m) v \<longrightarrow> (\<exists>x. v = Js_number x \<and> x \<le> m)) \<and>
     (\<forall>t. vl_cast V Boolean_typed (Js_string t) = Js_bool (t \<noteq> []))"

lemma documentedD:
  assumes "documented V"
  shows "vl_holds V Equals_true v \<Longrightarrow> v = Js_bool True"
    and "vl_holds V (Is_in xs) v \<Longrightarrow> \<exists>x\<in>set xs. v = Js_string x"
    and "vl_holds V (Matches p) v \<Longrightarrow> \<exists>t. v = Js_string t \<and> p t"
    and "vl_holds V (Min_length n) v \<Longrightarrow> \<exists>t. v = Js_string t \<and> n \<le> length t"
    and "vl_holds V (At_least m) v \<Longrightarrow> \<exists>x. v = Js_number x \<and> m \<le> x"
    and "vl_holds V (At_most m) v \<Longrightarrow> \<exists>x. v = Js_number x \<and> x \<le> m"
    and "vl_cast V Boolean_typed (Js_string t) = Js_bool (t \<noteq> [])"
  using assms by (simp_all add: documented_def)

text \<open>A validator that does what is documented, for the examples.\<close>

fun demo_holds :: "rule \<Rightarrow> js_value \<Rightarrow> bool" where
  "demo_holds Equals_true v = (v = Js_bool True)"
| "demo_holds (Is_in xs) v = (case v of Js_string t \<Rightarrow> t \<in> set xs | _ \<Rightarrow> False)"
| "demo_holds (Matches p) v = (case v of Js_string t \<Rightarrow> p t | _ \<Rightarrow> False)"
| "demo_holds (Min_length n) v = (case v of Js_string t \<Rightarrow> n \<le> length t | _ \<Rightarrow> False)"
| "demo_holds (At_least m) v = (case v of Js_number x \<Rightarrow> m \<le> x | _ \<Rightarrow> False)"
| "demo_holds (At_most m) v = (case v of Js_number x \<Rightarrow> x \<le> m | _ \<Rightarrow> False)"
| "demo_holds r v = True"

definition demo_validator :: validator where
  "demo_validator = \<lparr>vl_cast = (\<lambda>sh v. case (sh, v) of (Boolean_typed, Js_string t) \<Rightarrow> Js_bool (t \<noteq> []) | _ \<Rightarrow> v),
     vl_holds = demo_holds, vl_text = (\<lambda>v. case v of Js_string t \<Rightarrow> t | _ \<Rightarrow> [])\<rparr>"

lemma demo_documented: "documented demo_validator"
  by (auto simp: documented_def demo_validator_def split: js_value.splits)

section \<open>One property at a time\<close>

lemma body_member_read:
  "f \<in> set fs \<Longrightarrow> distinct (map field_name fs) \<Longrightarrow>
   body_member (field_name f) (read_members V fs body) = converted V body f"
  by (induction fs) (auto simp: read_members_def body_member_def rev_image_eqI)

text \<open>What a body that got through has at a property whose validators were not skipped.\<close>

lemma read_body_holds:
  assumes "read_body V fs body = Inr out" and "Field n sh tw pr rs d subs \<in> set fs"
    and "\<not> skipped pr out (converted V body (Field n sh tw pr rs d subs))" and "r \<in> set rs"
  shows "vl_holds V r (converted V body (Field n sh tw pr rs d subs))"
proof -
  from assms(1) have ok: "accepted V fs body" and out: "out = read_members V fs body"
    by (simp_all add: read_body_def split: if_splits)
  have "skipped pr out (converted V body (Field n sh tw pr rs d subs))
      \<or> list_all (\<lambda>r. vl_holds V r (converted V body (Field n sh tw pr rs d subs))) rs"
    using conjunct2 [OF ok [unfolded accepted.simps [of V fs]]] assms(2) unfolding out
    by (fastforce simp: list_all_iff Let_def)
  with assms(3,4) show ?thesis by (auto simp: list_all_iff)
qed

lemma read_body_out: "read_body V fs body = Inr out \<Longrightarrow> out = read_members V fs body"
  by (simp add: read_body_def split: if_splits)

section \<open>Registration\<close>

definition said_yes :: "js_value \<Rightarrow> bool" where
  "said_yes v \<longleftrightarrow> v = Js_bool True \<or> v = Js_string ''true''"

text \<open>The properties of the form, one by one.\<close>

lemma register_names: "distinct (map field_name register_fields)"
  by (simp add: register_fields_def)

lemma register_reads:
  assumes "Field n sh tw pr rs d subs \<in> set register_fields"
  shows "body_member n (read_members V register_fields body) = converted V body (Field n sh tw pr rs d subs)"
  using body_member_read [OF assms register_names] by simp

lemma flag_said:
  "converted V body (Field n sh Strict_flag pr rs None []) = Js_bool True \<Longrightarrow> said_yes (body_member n body)"
  by (auto simp: said_yes_def body_member_def strict_boolean_true split: option.splits)

lemma register_holds:
  assumes "read_body V register_fields body = Inr out" and "Field n sh tw pr rs d subs \<in> set register_fields"
    and "\<not> skipped pr out (body_member n out)" and "r \<in> set rs"
  shows "vl_holds V r (body_member n out)"
  using read_body_holds [OF assms(1,2) _ assms(4)] assms(3) register_reads [OF assms(2)] read_body_out [OF assms(1)] by simp

lemma register_flags:
  assumes "out = read_members V register_fields body" and "body_member n out = Js_bool True"
    and "n = ''acceptedTerms'' \<or> n = ''acceptedPrivacy'' \<or> n = ''acceptedMarketing''"
  shows "said_yes (body_member n body)"
proof -
  have "\<exists>sh pr rs. Field n sh Strict_flag pr rs None [] \<in> set register_fields"
    using assms(3) by (auto simp: register_fields_def)
  then obtain sh pr rs where f: "Field n sh Strict_flag pr rs None [] \<in> set register_fields" by blast
  with assms(1,2) register_reads [OF f] flag_said show ?thesis by metis
qed

text \<open>
  C39: a registration body that gets through the pipe is well formed, and a consent in it was given.
  The role is artist or planner, never administrator; the password meets the rule the service hashes
  it by; both mandatory consents were sent as \<open>true\<close>, a boolean or the word, and so was the marketing
  consent where the handler sees it granted; a planner says whether it is a person or a company, and
  a company of which kind.
\<close>

theorem registration_body_is_well_formed:
  assumes "documented V" and "read_body V register_fields body = Inr out"
  shows "body_member ''role'' out \<in> {Js_string ''artist'', Js_string ''planner''}
    \<and> (\<exists>t. body_member ''password'' out = Js_string t \<and> password_acceptable t)
    \<and> said_yes (body_member ''acceptedTerms'' body) \<and> said_yes (body_member ''acceptedPrivacy'' body)
    \<and> (body_member ''acceptedMarketing'' out = Js_bool True \<longrightarrow> said_yes (body_member ''acceptedMarketing'' body))
    \<and> (is_planner_body out \<longrightarrow> body_member ''plannerKind'' out \<in> {Js_string ''individual'', Js_string ''company''})
    \<and> (is_company_body out \<longrightarrow> (\<exists>t\<in>set booker_type_names. body_member ''bookerType'' out = Js_string t))"
proof -
  have flag_read: "body_member n out = Js_bool True \<Longrightarrow> said_yes (body_member n body)"
    if "n \<in> {''acceptedTerms'', ''acceptedPrivacy'', ''acceptedMarketing''}" for n
    using that register_flags [OF read_body_out [OF assms(2)]] by blast
  note holds = register_holds [OF assms(2)] and facts = documentedD [OF assms(1)]
  have role: "body_member ''role'' out \<in> {Js_string ''artist'', Js_string ''planner''}"
    using facts(2) [OF holds [of "''role''"]] by (auto simp: register_fields_def)
  have "\<exists>t. body_member ''password'' out = Js_string t \<and> 8 \<le> length t"
    using facts(4) [OF holds [of "''password''" _ _ _ _ _ _ "Min_length 8"]] by (auto simp: register_fields_def)
  moreover have "\<exists>t. body_member ''password'' out = Js_string t \<and> three_kinds t"
    using facts(3) [OF holds [of "''password''" _ _ _ _ _ _ "Matches three_kinds"]] by (auto simp: register_fields_def)
  ultimately have password: "\<exists>t. body_member ''password'' out = Js_string t \<and> password_acceptable t"
    by (auto simp: password_acceptable_def three_kinds_def Let_def)
  have "body_member n out = Js_bool True" if "n = ''acceptedTerms'' \<or> n = ''acceptedPrivacy''" for n
    using that facts(1) [OF holds [of n]] by (auto simp: register_fields_def)
  then have terms: "said_yes (body_member ''acceptedTerms'' body)" "said_yes (body_member ''acceptedPrivacy'' body)"
    using flag_read by blast+
  have kind: "is_planner_body out \<Longrightarrow> body_member ''plannerKind'' out \<in> {Js_string ''individual'', Js_string ''company''}"
    using facts(2) [OF holds [of "''plannerKind''"]] by (auto simp: register_fields_def)
  have type: "is_company_body out \<Longrightarrow> \<exists>t\<in>set booker_type_names. body_member ''bookerType'' out = Js_string t"
    using facts(2) [OF holds [of "''bookerType''"]] by (auto simp: register_fields_def)
  from role password terms flag_read kind type show ?thesis by blast
qed

definition demo_registration :: js_members where
  "demo_registration =
     [(''email'', Js_string ''bar@x.org''), (''password'', Js_string ''Secret99''), (''role'', Js_string ''planner''),
      (''acceptedTerms'', Js_string ''true''), (''acceptedPrivacy'', Js_bool True), (''acceptedMarketing'', Js_string ''true''),
      (''plannerKind'', Js_string ''company''), (''bookerType'', Js_string ''Bar''),
      (''interests'', Js_array [Js_string ''venues''])]"

lemma demo_registration_passes:
  "read_body demo_validator register_fields demo_registration
     = Inr (read_members demo_validator register_fields demo_registration)"
  by (simp add: read_body_def accepted.simps register_fields_def demo_registration_def read_members_def demo_validator_def
      is_planner_body_def is_company_body_def body_member_def booker_type_names_def three_kinds_def is_digit_def Let_def)

theorem registration_body_is_well_formed_witness:
  "said_yes (body_member ''acceptedMarketing'' demo_registration)
   \<and> (\<exists>t\<in>set booker_type_names. body_member ''bookerType'' (read_members demo_validator register_fields demo_registration) = Js_string t)"
proof -
  let ?out = "read_members demo_validator register_fields demo_registration"
  have "body_member ''acceptedMarketing'' ?out = Js_bool True" and "is_company_body ?out"
    by (simp_all add: body_member_def read_members_def register_fields_def demo_registration_def demo_validator_def
        is_company_body_def is_planner_body_def)
  with registration_body_is_well_formed [OF demo_documented demo_registration_passes] show ?thesis by blast
qed

section \<open>Flags\<close>

text \<open>What the handlers test: \<open>if (dto.unreadOnly)\<close>, \<open>if (dto.verifiedOnly)\<close>. The pipe leaves a boolean or nothing there.\<close>

definition flag_set :: "string \<Rightarrow> js_members \<Rightarrow> bool" where
  "flag_set n out \<longleftrightarrow> body_member n out = Js_bool True"

text \<open>A word in the query is \<open>true\<close> by the time the transform of the flag looks at it.\<close>

lemma word_is_true:
  assumes "documented V" and "w \<noteq> []" and "map_of q n = Some (Js_string w)"
    and "read_body V fs q = Inr out" and "Field n Boolean_typed Word_true pr rs d [] \<in> set fs" and "distinct (map field_name fs)"
  shows "flag_set n out"
  using assms(2,3) documentedD(7) [OF assms(1)] body_member_read [OF assms(5,6), of V q] read_body_out [OF assms(4)]
  by (simp add: flag_set_def body_member_def)

lemma unread_list: "list_all (unread uid) (fst (list_notifications uid True page limit s))"
proof -
  have "set (page_of page limit xs) \<subseteq> set xs" for xs :: "notification list"
    unfolding page_of_def by (meson set_drop_subset set_take_subset subset_trans)
  then show ?thesis by (force simp: list_notifications_def Let_def list_all_iff unread_def)
qed

lemma verified_cards:
  assumes "sd_verified_only dto" and "search_artists D ck v dto s = (Inr (cards, meta), s')"
  shows "\<forall>card \<in> set cards. \<exists>p \<in> set (artist_profiles s). ap_is_verified p \<and>
    (\<exists>t. card = \<lparr>cd_profile = shape_artist_profile (select_columns (profile_columns_for t) (artist_row p)) t,
                 cd_categories = categories_of_artist s (ap_id p)\<rparr>)"
proof -
  have "set (page_of page limit xs) \<subseteq> set xs" for page limit and xs :: "artist_profile list"
    unfolding page_of_def by (meson set_drop_subset set_take_subset subset_trans)
  then show ?thesis
    using assms by (fastforce simp: search_artists_def Let_def listed_def split: sum.splits)
qed

text \<open>
  C40: two filters read a written \<open>false\<close> as \<open>true\<close>. Whatever word a query the pipe lets through has for
  \<open>unreadOnly\<close>, \<open>false\<close> among them, the notifications listed are the unread ones only; and whatever it has
  for \<open>verifiedOnly\<close>, every artist found is verified: the conversion has turned the word into
  \<open>true\<close> before the transform sees it. The consent flag, which is read from the payload itself, keeps a
  written \<open>false\<close>.
\<close>

theorem filters_read_false_as_true:
  assumes "documented V" and "w \<noteq> []"
  shows "(read_body V list_notifications_fields q = Inr out \<and> map_of q ''unreadOnly'' = Some (Js_string w) \<longrightarrow>
        list_all (unread uid) (fst (list_notifications uid (flag_set ''unreadOnly'' out) page limit s)))
    \<and> (read_body V search_artists_fields q2 = Inr out2 \<and> map_of q2 ''verifiedOnly'' = Some (Js_string w)
        \<and> sd_verified_only dto = flag_set ''verifiedOnly'' out2 \<and> search_artists D ck v dto s = (Inr (cards, meta), s') \<longrightarrow>
        (\<forall>card \<in> set cards. \<exists>p \<in> set (artist_profiles s). ap_is_verified p \<and>
           (\<exists>t. card = \<lparr>cd_profile = shape_artist_profile (select_columns (profile_columns_for t) (artist_row p)) t,
                        cd_categories = categories_of_artist s (ap_id p)\<rparr>)))
    \<and> (read_body V set_marketing_consent_fields body = Inr out3 \<and> map_of body ''granted'' = Some (Js_string ''false'') \<longrightarrow>
        body_member ''granted'' out3 = Js_bool False)"
proof (intro conjI impI)
  assume q: "read_body V list_notifications_fields q = Inr out \<and> map_of q ''unreadOnly'' = Some (Js_string w)"
  have "flag_set ''unreadOnly'' out"
    by (rule word_is_true [OF assms conjunct2 [OF q] conjunct1 [OF q]]) (simp_all add: list_notifications_fields_def)
  then show "list_all (unread uid) (fst (list_notifications uid (flag_set ''unreadOnly'' out) page limit s))"
    by (simp add: unread_list)
next
  assume q: "read_body V search_artists_fields q2 = Inr out2 \<and> map_of q2 ''verifiedOnly'' = Some (Js_string w)
      \<and> sd_verified_only dto = flag_set ''verifiedOnly'' out2 \<and> search_artists D ck v dto s = (Inr (cards, meta), s')"
  have "flag_set ''verifiedOnly'' out2"
    by (rule word_is_true [OF assms conjunct1 [OF conjunct2 [OF q]] conjunct1 [OF q]]) (simp_all add: search_artists_fields_def)
  with q show "\<forall>card \<in> set cards. \<exists>p \<in> set (artist_profiles s). ap_is_verified p \<and>
      (\<exists>t. card = \<lparr>cd_profile = shape_artist_profile (select_columns (profile_columns_for t) (artist_row p)) t,
                   cd_categories = categories_of_artist s (ap_id p)\<rparr>)"
    by (intro verified_cards [of dto D ck v s cards meta s']) simp_all
next
  assume "read_body V set_marketing_consent_fields body = Inr out3 \<and> map_of body ''granted'' = Some (Js_string ''false'')"
  then show "body_member ''granted'' out3 = Js_bool False"
    by (auto dest: read_body_out simp: body_member_def read_members_def set_marketing_consent_fields_def)
qed

text \<open>One notification, read: a query that says \<open>unreadOnly=false\<close> does not get it, one that says nothing does.\<close>

definition one_read :: db where
  "one_read = empty_db\<lparr>notifications :=
     [\<lparr>n_id = 1, n_user_id = 7, n_type = ''booking_request'', n_title = ''New'', n_data = [], n_read_at = Some 3, n_created_at = 0\<rparr>]\<rparr>"

lemma queries_pass:
  "read_body demo_validator list_notifications_fields [(''unreadOnly'', Js_string ''false'')]
     = Inr (read_members demo_validator list_notifications_fields [(''unreadOnly'', Js_string ''false'')])"
  "read_body demo_validator list_notifications_fields []
     = Inr (read_members demo_validator list_notifications_fields [])"
  "read_body demo_validator search_artists_fields [(''verifiedOnly'', Js_string ''false'')]
     = Inr (read_members demo_validator search_artists_fields [(''verifiedOnly'', Js_string ''false'')])"
  "read_body demo_validator set_marketing_consent_fields [(''granted'', Js_string ''false'')]
     = Inr (read_members demo_validator set_marketing_consent_fields [(''granted'', Js_string ''false'')])"
  by (simp_all add: read_body_def accepted.simps list_notifications_fields_def search_artists_fields_def set_marketing_consent_fields_def
      read_members_def demo_validator_def body_member_def Let_def max_page_def max_page_size_def)

text \<open>One artist, not verified: a search that says \<open>verifiedOnly=false\<close> does not find it.\<close>

definition one_artist :: db where
  "one_artist = empty_db\<lparr>users := [season_member 3 R_artist], artist_profiles := [default_artist_profile 5 3 0], next_id := 6\<rparr>"

definition search_for :: "js_members \<Rightarrow> search_artists_dto" where
  "search_for out = \<lparr>sd_q = None, sd_categories = [], sd_country = None, sd_city = None, sd_min_price = None, sd_max_price = None,
     sd_verified_only = flag_set ''verifiedOnly'' out, sd_available_on = None, sd_sort = Sort_newest, sd_page = 1, sd_limit = 20\<rparr>"

theorem filters_read_false_as_true_witness:
  "\<exists>out nothing out2 out3 meta s'.
     read_body demo_validator list_notifications_fields [(''unreadOnly'', Js_string ''false'')] = Inr out
   \<and> fst (list_notifications 7 (flag_set ''unreadOnly'' out) 1 20 one_read) = []
   \<and> read_body demo_validator list_notifications_fields [] = Inr nothing
   \<and> map n_id (fst (list_notifications 7 (flag_set ''unreadOnly'' nothing) 1 20 one_read)) = [1]
   \<and> read_body demo_validator search_artists_fields [(''verifiedOnly'', Js_string ''false'')] = Inr out2
   \<and> search_artists iso_input \<lparr>db_now = 5, js_now = 5\<rparr> \<lparr>vw_user_id = None, vw_role = None, vw_session_id = None\<rparr> (search_for out2) one_artist = (Inr ([], meta), s')
   \<and> read_body demo_validator set_marketing_consent_fields [(''granted'', Js_string ''false'')] = Inr out3
   \<and> body_member ''granted'' out3 = Js_bool False"
proof -
  let ?lists = "list_notifications_fields" and ?word = "\<lambda>n. [(n, Js_string ''false'')]"
  let ?out = "read_members demo_validator ?lists (?word ''unreadOnly'')" and ?nothing = "read_members demo_validator ?lists []"
    and ?out2 = "read_members demo_validator search_artists_fields (?word ''verifiedOnly'')"
    and ?ck = "\<lparr>db_now = 5, js_now = 5\<rparr>" and ?guest = "\<lparr>vw_user_id = None, vw_role = None, vw_session_id = None\<rparr> :: viewer"
  have word: "''false'' \<noteq> []" by simp
  note facts = filters_read_false_as_true [OF demo_documented word]
  have "list_all (unread 7) (fst (list_notifications 7 (flag_set ''unreadOnly'' ?out) 1 20 one_read))"
    by (rule facts [THEN conjunct1, THEN mp, of "?word ''unreadOnly''"]) (simp only: queries_pass(1), simp)
  then have none: "fst (list_notifications 7 (flag_set ''unreadOnly'' ?out) 1 20 one_read) = []"
    by (cases "flag_set ''unreadOnly'' ?out") (simp_all add: list_notifications_def one_read_def page_of_def unread_def)
  have all: "map n_id (fst (list_notifications 7 (flag_set ''unreadOnly'' ?nothing) 1 20 one_read)) = [1]"
    by (simp add: flag_set_def read_members_def body_member_def list_notifications_fields_def list_notifications_def one_read_def page_of_def)
  obtain cards meta s' where found: "search_artists iso_input ?ck ?guest (search_for ?out2) one_artist = (Inr (cards, meta), s')"
    by (simp add: search_artists_def asked_day_def search_for_def Let_def)
  have "sd_verified_only (search_for ?out2) = flag_set ''verifiedOnly'' ?out2" by (simp add: search_for_def)
  with queries_pass(3) found
  have "read_body demo_validator search_artists_fields (?word ''verifiedOnly'') = Inr ?out2 \<and>
      map_of (?word ''verifiedOnly'') ''verifiedOnly'' = Some (Js_string ''false'') \<and>
      sd_verified_only (search_for ?out2) = flag_set ''verifiedOnly'' ?out2 \<and>
      search_artists iso_input ?ck ?guest (search_for ?out2) one_artist = (Inr (cards, meta), s')" by simp
  from facts [THEN conjunct2, THEN conjunct1, THEN mp, OF this]
  have "\<forall>card \<in> set cards. \<exists>p \<in> set (artist_profiles one_artist). ap_is_verified p" by blast
  then have "cards = []" by (cases cards) (auto simp: one_artist_def default_artist_profile_def)
  with found have empty: "search_artists iso_input ?ck ?guest (search_for ?out2) one_artist = (Inr ([], meta), s')" by simp
  have kept: "body_member ''granted'' (read_members demo_validator set_marketing_consent_fields (?word ''granted'')) = Js_bool False"
    by (rule facts [THEN conjunct2, THEN conjunct2, THEN mp, of "?word ''granted''"]) (simp only: queries_pass(4), simp)
  show ?thesis
    by (intro exI conjI) (rule queries_pass(1) none queries_pass(2) all queries_pass(3) empty queries_pass(4) kept)+
qed

section \<open>Depth of the directories\<close>

text \<open>However a directory is paged, at most ten thousand entries are in reach (\<open>pagination.constants.ts\<close>).\<close>

lemma directory_depth_is_bounded:
  assumes "documented V" and "read_body V fs query = Inr out" and "fs = search_artists_fields \<or> fs = search_planners_fields"
    and "body_member ''page'' out = Js_number p" and "body_member ''limit'' out = Js_number l"
  shows "1 \<le> p \<and> 1 \<le> l \<and> l \<le> 50 \<and> (p - 1) * l + l \<le> 10000"
proof -
  note facts = documentedD [OF assms(1)]
  have page: "Field ''page'' Number_typed As_cast Unless_nullish [Is_number, At_least 1, At_most (of_nat max_page)] (Some (Js_number 1)) [] \<in> set fs"
    and limit: "Field ''limit'' Number_typed As_cast Unless_nullish [Is_number, At_least 1, At_most (of_nat max_page_size)] (Some (Js_number 20)) [] \<in> set fs"
    and names: "distinct (map field_name fs)"
    using assms(3) by (auto simp: search_artists_fields_def search_planners_fields_def)
  note read = body_member_read [OF _ names, of _ V query, folded read_body_out [OF assms(2)]]
  have p: "converted V query (Field ''page'' Number_typed As_cast Unless_nullish [Is_number, At_least 1, At_most (of_nat max_page)] (Some (Js_number 1)) []) = Js_number p"
    and l: "converted V query (Field ''limit'' Number_typed As_cast Unless_nullish [Is_number, At_least 1, At_most (of_nat max_page_size)] (Some (Js_number 20)) []) = Js_number l"
    using read [OF page] read [OF limit] assms(4,5) by (simp_all only: field_name.simps)
  note holds_p = read_body_holds [OF assms(2) page, unfolded p] and holds_l = read_body_holds [OF assms(2) limit, unfolded l]
  have "1 \<le> p" "1 \<le> l" "p \<le> 200" "l \<le> 50"
    using facts(5) [OF holds_p, of 1] facts(5) [OF holds_l, of 1] facts(6) [OF holds_p, of "of_nat max_page"]
      facts(6) [OF holds_l, of "of_nat max_page_size"]
    by (simp_all add: max_page_def max_page_size_def)
  moreover from this have "p * l \<le> 200 * 50" by (intro mult_mono) simp_all
  ultimately show ?thesis by (simp add: algebra_simps)
qed

end
