(* ===== verification/Analytics_Export.thy ===== *)
theory Analytics_Export
  imports Analytics
begin

text \<open>
  \<open>src/analytics/analytics-export.service.ts\<close>: the workbook an administrator downloads, as the calls
  the service makes to the spreadsheet library: sheets with their columns and the rows added to
  them, by key. The file format, fonts and frozen panes are the library's.
\<close>

datatype cell = Cell_text string | Cell_number rat | Cell_empty

record column =
  co_header :: string
  co_key :: string
  co_width :: nat

type_synonym sheet_row = "(string \<times> cell) list"

record sheet =
  sh_name :: string
  sh_columns :: "column list"
  sh_rows :: "sheet_row list"

definition column_of :: "string \<Rightarrow> string \<Rightarrow> nat \<Rightarrow> column" where
  "column_of h k w = \<lparr>co_header = h, co_key = k, co_width = w\<rparr>"

definition count_cell :: "nat \<Rightarrow> cell" where
  "count_cell n = Cell_number (of_nat n)"

text \<open>A range is the text of the query with the moment it stands for, or missing.\<close>

type_synonym edge = "(string \<times> timestamp) option"

definition export_minutes :: "rat \<Rightarrow> rat" where
  "export_minutes ms = of_int (js_round (ms / 60000 * 10)) / 10"

definition summary_sheet :: "edge \<Rightarrow> edge \<Rightarrow> audience_views list \<times> (string \<times> nat) list \<Rightarrow> nat \<Rightarrow> sheet" where
  "summary_sheet frm til split discarded =
     \<lparr>sh_name = ''Summary'',
      sh_columns = [column_of ''Metric'' ''metric'' 34, column_of ''Segment'' ''segment'' 16, column_of ''Value'' ''value'' 16],
      sh_rows =
        [[(''metric'', Cell_text ''Report from''), (''value'', Cell_text (case frm of None \<Rightarrow> ''all time'' | Some e \<Rightarrow> fst e))],
         [(''metric'', Cell_text ''Report to''), (''value'', Cell_text (case til of None \<Rightarrow> ''today'' | Some e \<Rightarrow> fst e))],
         []]
        @ concat (map (\<lambda>v.
            [[(''metric'', Cell_text ''Page views''), (''segment'', Cell_text (av_segment v)), (''value'', count_cell (av_events v))],
             [(''metric'', Cell_text ''Sessions''), (''segment'', Cell_text (av_segment v)), (''value'', count_cell (av_sessions v))]]) (fst split))
        @ map (\<lambda>(seg, n). [(''metric'', Cell_text ''Searches''), (''segment'', Cell_text seg), (''value'', count_cell n)]) (snd split)
        @ [[(''metric'', Cell_text ''Single-event sessions discarded''), (''value'', count_cell discarded)]]\<rparr>"

definition session_row :: "session_figures \<Rightarrow> sheet_row" where
  "session_row f =
     [(''segment'', Cell_text (sf_segment f)), (''sessions'', count_cell (sf_sessions f)),
      (''minMs'', Cell_number (sf_min_ms f)), (''maxMs'', Cell_number (sf_max_ms f)),
      (''avgMs'', Cell_number (of_int (sf_avg_ms f))), (''medianMs'', Cell_number (of_int (sf_median_ms f))),
      (''avgMin'', Cell_number (export_minutes (of_int (sf_avg_ms f)))),
      (''medianMin'', Cell_number (export_minutes (of_int (sf_median_ms f))))]"

definition session_sheet :: "session_figures list \<Rightarrow> sheet" where
  "session_sheet fs =
     \<lparr>sh_name = ''Session duration'',
      sh_columns = [column_of ''Segment'' ''segment'' 16, column_of ''Sessions'' ''sessions'' 12,
        column_of ''Min (ms)'' ''minMs'' 14, column_of ''Max (ms)'' ''maxMs'' 14, column_of ''Average (ms)'' ''avgMs'' 16,
        column_of ''Median (ms)'' ''medianMs'' 16, column_of ''Average (min)'' ''avgMin'' 16, column_of ''Median (min)'' ''medianMin'' 16],
      sh_rows = map session_row fs\<rparr>"

definition page_row :: "page_time \<Rightarrow> sheet_row" where
  "page_row p =
     [(''path'', Cell_text (pt_path p)), (''segment'', Cell_text (pt_segment p)), (''views'', count_cell (pt_views p)),
      (''totalMs'', Cell_number (of_int (pt_total_ms p))), (''avgMs'', Cell_number (of_int (pt_avg_ms p))),
      (''totalMin'', Cell_number (export_minutes (of_int (pt_total_ms p))))]"

definition page_sheet :: "page_time list \<Rightarrow> sheet" where
  "page_sheet ps =
     \<lparr>sh_name = ''Time per page'',
      sh_columns = [column_of ''Path'' ''path'' 34, column_of ''Segment'' ''segment'' 16, column_of ''Views'' ''views'' 12,
        column_of ''Total (ms)'' ''totalMs'' 16, column_of ''Average (ms)'' ''avgMs'' 16, column_of ''Total (min)'' ''totalMin'' 14],
      sh_rows = map page_row ps\<rparr>"

text \<open>The row carries the id of the category too; no column has its key.\<close>

definition category_row :: "category_demand \<Rightarrow> sheet_row" where
  "category_row c =
     [(''categoryId'', case cd_category_id c of None \<Rightarrow> Cell_empty | Some i \<Rightarrow> count_cell i),
      (''category'', Cell_text (cd_category c)), (''slug'', case cd_slug c of None \<Rightarrow> Cell_empty | Some t \<Rightarrow> Cell_text t),
      (''segment'', Cell_text (cd_segment c)), (''searches'', count_cell (cd_searches c)),
      (''avgResults'', Cell_number (of_int (cd_avg_results c)))]"

definition category_sheet :: "category_demand list \<Rightarrow> sheet" where
  "category_sheet cs =
     \<lparr>sh_name = ''Category demand'',
      sh_columns = [column_of ''Category'' ''category'' 30, column_of ''Slug'' ''slug'' 22, column_of ''Segment'' ''segment'' 16,
        column_of ''Searches'' ''searches'' 12, column_of ''Avg results'' ''avgResults'' 14],
      sh_rows = map category_row cs\<rparr>"

definition term_sheet :: "(string \<times> nat) list \<Rightarrow> sheet" where
  "term_sheet ts =
     \<lparr>sh_name = ''Search terms'', sh_columns = [column_of ''Term'' ''term'' 40, column_of ''Searches'' ''searches'' 12],
      sh_rows = map (\<lambda>(t, n). [(''term'', Cell_text t), (''searches'', count_cell n)]) ts\<rparr>"

definition build_workbook :: "edge \<Rightarrow> edge \<Rightarrow> db \<Rightarrow> sheet list" where
  "build_workbook frm til s =
     (let f = map_option snd frm; t = map_option snd til;
          (by_segment, discarded) = get_session_durations f t s
      in [summary_sheet frm til (get_audience_split f t s) discarded,
          session_sheet by_segment,
          page_sheet (get_time_per_page f t s),
          category_sheet (get_category_demand f t s),
          term_sheet (get_top_search_terms f t s)])"

section \<open>What the workbook keeps\<close>

text \<open>The minutes column is the milliseconds to a twentieth of a minute.\<close>

lemma export_minutes_near: "\<bar>export_minutes ms - ms / 60000\<bar> \<le> 1 / 20"
  using js_round_bounds [of "ms / 60000 * 10"] unfolding export_minutes_def abs_le_iff by (simp add: field_simps)

text \<open>The cell under a column of a row, and the two figures back from it.\<close>

definition cell_at :: "string \<Rightarrow> sheet_row \<Rightarrow> cell" where
  "cell_at k r = (case map_of r k of None \<Rightarrow> Cell_empty | Some c \<Rightarrow> c)"

fun cell_text :: "cell \<Rightarrow> string" where
  "cell_text (Cell_text t) = t"
| "cell_text c = []"

fun cell_count :: "cell \<Rightarrow> nat" where
  "cell_count (Cell_number x) = nat \<lfloor>x\<rfloor>"
| "cell_count c = 0"

lemma export_keeps_the_reports:
  "map (\<lambda>r. (cell_text (cell_at ''term'' r), cell_count (cell_at ''searches'' r))) (sh_rows (term_sheet ts)) = ts"
  "map (\<lambda>r. (cell_text (cell_at ''segment'' r), cell_count (cell_at ''sessions'' r), cell_at ''minMs'' r, cell_at ''maxMs'' r)) (sh_rows (session_sheet fs))
     = map (\<lambda>f. (sf_segment f, sf_sessions f, Cell_number (sf_min_ms f), Cell_number (sf_max_ms f))) fs"
  "map (\<lambda>r. (cell_text (cell_at ''path'' r), cell_count (cell_at ''views'' r), cell_at ''totalMs'' r)) (sh_rows (page_sheet ps))
     = map (\<lambda>p. (pt_path p, pt_views p, Cell_number (of_int (pt_total_ms p)))) ps"
  by (simp_all add: term_sheet_def session_sheet_def page_sheet_def session_row_def page_row_def cell_at_def count_cell_def
      comp_def case_prod_beta)

text \<open>Every column of the four tables is filled in every row.\<close>

lemma export_fills_its_columns:
  assumes "sh \<in> set (tl (build_workbook frm til s))" and "r \<in> set (sh_rows sh)" and "c \<in> set (sh_columns sh)"
  shows "co_key c \<in> set (map fst r)"
  using assms
  by (auto simp: build_workbook_def Let_def session_sheet_def page_sheet_def category_sheet_def term_sheet_def column_of_def
      session_row_def page_row_def category_row_def split: prod.splits)

end
