(* ===== verification/Whats_App.thy ===== *)
theory Whats_App
  imports Auth Email
begin

text \<open>
  \<open>sendWhatsAppOtp\<close> of \<open>src/auth/auth.service.ts\<close>: the request the service makes of the messaging
  provider and how its answer reaches the caller of \<open>sendOtp\<close>. In \<open>Auth\<close> the answer is the flag
  \<open>delivered\<close> of \<open>send_otp\<close>.
\<close>

record http_request =
  hr_url :: string
  hr_headers :: "(string \<times> string) list"
  hr_body :: js_value

text \<open>A missing variable reads \<open>undefined\<close> inside a template literal.\<close>

definition in_template :: "string option \<Rightarrow> string" where
  "in_template v = (case v of None \<Rightarrow> ''undefined'' | Some t \<Rightarrow> t)"

definition or_default :: "string \<Rightarrow> string option \<Rightarrow> string" where
  "or_default d v = (case v of None \<Rightarrow> d | Some t \<Rightarrow> t)"

definition whats_app_request :: "(string \<Rightarrow> string option) \<Rightarrow> string \<Rightarrow> string \<Rightarrow> http_request" where
  "whats_app_request env phone code =
     \<lparr>hr_url = ''https://graph.facebook.com/'' @ or_default ''v20.0'' (env ''WHATSAPP_API_VERSION'') @ ''/''
         @ in_template (env ''WHATSAPP_PHONE_NUMBER_ID'') @ ''/messages'',
      hr_headers = [(''Authorization'', ''Bearer '' @ in_template (env ''WHATSAPP_ACCESS_TOKEN'')),
        (''Content-Type'', ''application/json'')],
      hr_body = Js_object [
        (''messaging_product'', Js_string ''whatsapp''),
        (''to'', Js_string (digits_only phone)),
        (''type'', Js_string ''template''),
        (''template'', Js_object [
           (''name'', Js_string (or_default ''otp_verification'' (env ''WHATSAPP_OTP_TEMPLATE_NAME''))),
           (''language'', Js_object [(''code'', Js_string (or_default ''en_US'' (env ''WHATSAPP_OTP_TEMPLATE_LANG'')))]),
           (''components'', Js_array [Js_object [
              (''type'', Js_string ''body''),
              (''parameters'', Js_array [Js_object [(''type'', Js_string ''text''), (''text'', Js_string code)]])]])])]\<rparr>"

definition send_whats_app_otp :: "(string \<Rightarrow> string option) \<Rightarrow> (http_request \<Rightarrow> fetch_answer) \<Rightarrow> string \<Rightarrow> string \<Rightarrow> unit result" where
  "send_whats_app_otp env fetch phone code =
     (case fetch (whats_app_request env phone code) of
        Fetch_failed \<Rightarrow> Inl (InternalError ''Failed to send OTP. Please try again.'')
      | Fetch_status n \<Rightarrow>
          if response_ok n then Inr () else Inl (InternalError ''Failed to send OTP. Please try again.''))"

text \<open>\<open>sendOtp\<close> with the provider's answer in place: the code is stored first, so a failure leaves it behind.\<close>

definition send_otp_by_whats_app ::
  "(string \<Rightarrow> string option) \<Rightarrow> (http_request \<Rightarrow> fetch_answer) \<Rightarrow> clock \<Rightarrow> string \<Rightarrow> string \<Rightarrow> world \<Rightarrow> string result \<times> world" where
  "send_otp_by_whats_app env fetch ck code phone w =
     send_otp ck code (send_whats_app_otp env fetch phone code = Inr ()) phone w"

lemma otp_failure_is_the_providers_answer:
  "fst (send_otp_by_whats_app env fetch ck code phone w) =
     (case send_whats_app_otp env fetch phone code of Inl e \<Rightarrow> Inl e | Inr _ \<Rightarrow> Inr ''OTP sent via WhatsApp.'')"
  by (auto simp: send_otp_by_whats_app_def send_otp_def send_whats_app_otp_def Let_def split: fetch_answer.splits)

lemma code_waits_although_not_sent:
  "w_redis (snd (send_otp_by_whats_app env fetch ck code phone w)) = set_otp (js_now ck) phone code (w_redis w)"
  by (simp add: send_otp_by_whats_app_def send_otp_def Let_def on_redis_def send_mail_def)

end
